(* ===== verification/Prelude.thy ===== *)
theory Prelude
  imports Main "HOL-Library.Word" "HOL-Library.Multiset"
begin

text \<open>
  Shared vocabulary of the development: the widths of the Go integers, the pieces of the Go
  standard library the sources call on strings and numbers (decimal formatting and parsing,
  \<open>strings.Contains\<close>, the integer verb of \<open>fmt.Sscanf\<close>), and the facts on lists and maps
  that several components use. Strings are byte lists, as in Go.
\<close>

section \<open>Types and collections\<close>

type_synonym u64 = "64 word"
type_synonym u32 = "32 word"
type_synonym i32 = "32 word"

text \<open>A signed 32-bit field is an \<open>i32\<close>: arithmetic wraps as in Go, \<open>sint\<close> reads it.\<close>

named_theorems go_simps "evaluation of the Go library functions"
named_theorems inv_intros "preservation of invariants by operations"

section \<open>Integers of the standard library\<close>

text \<open>Go's \<open>/\<close> truncates towards zero.\<close>

definition tdiv :: "int \<Rightarrow> int \<Rightarrow> int" where
  "tdiv a b = (if (0 \<le> a) = (0 \<le> b) then \<bar>a\<bar> div \<bar>b\<bar> else - (\<bar>a\<bar> div \<bar>b\<bar>))"

lemma tdiv_nonneg [simp]: "0 \<le> a \<Longrightarrow> 0 < b \<Longrightarrow> tdiv a b = a div b"
  by (simp add: tdiv_def)

text \<open>\<open>int64\<close> arithmetic on integers wraps around.\<close>

definition wrap64 :: "int \<Rightarrow> int" where
  "wrap64 n = (n + 2 ^ 63) mod 2 ^ 64 - 2 ^ 63"

lemma wrap64_id [simp]: "- (2 ^ 63) \<le> n \<Longrightarrow> n < 2 ^ 63 \<Longrightarrow> wrap64 n = n"
  by (simp add: wrap64_def)

lemma wrap64_bounds: "- (2 ^ 63) \<le> wrap64 n" "wrap64 n < 2 ^ 63"
  using pos_mod_bound [of "2 ^ 64 :: int" "n + 2 ^ 63"] pos_mod_sign [of "2 ^ 64 :: int" "n + 2 ^ 63"]
  by (simp_all add: wrap64_def)

section \<open>Decimal text\<close>

definition digit_char :: "nat \<Rightarrow> char" where
  "digit_char d = char_of (48 + d)"

definition is_digit :: "char \<Rightarrow> bool" where
  "is_digit c \<longleftrightarrow> 48 \<le> (of_char c :: nat) \<and> (of_char c :: nat) \<le> 57"

definition digit_val :: "char \<Rightarrow> nat" where
  "digit_val c = of_char c - 48"

fun FormatNat :: "nat \<Rightarrow> string" where
  "FormatNat n = (if n < 10 then [digit_char n]
                  else FormatNat (n div 10) @ [digit_char (n mod 10)])"

declare FormatNat.simps [simp del]

text \<open>\<open>strconv.FormatUint (x, 10)\<close>, also the verb \<open>%d\<close> on an unsigned integer.\<close>

definition FormatUint :: "u64 \<Rightarrow> string" where
  "FormatUint x = FormatNat (unat x)"

definition FormatInt :: "int \<Rightarrow> string" where
  "FormatInt n = (if n < 0 then CHR ''-'' # FormatNat (nat (- n)) else FormatNat (nat n))"

definition digits_val :: "string \<Rightarrow> nat" where
  "digits_val s = foldl (\<lambda>a c. 10 * a + digit_val c) 0 s"

text \<open>\<open>strconv.ParseUint (s, 10, 64)\<close>: an error is \<open>None\<close>.\<close>

definition ParseUint :: "string \<Rightarrow> u64 option" where
  "ParseUint s =
     (if s \<noteq> [] \<and> list_all is_digit s \<and> digits_val s < 2 ^ 64
      then Some (word_of_nat (digits_val s)) else None)"

lemma ParseUint_code [code]:
  "ParseUint s = (if s \<noteq> [] \<and> list_all is_digit s \<and> int (digits_val s) < 2 ^ 64
     then Some (word_of_int (int (digits_val s))) else None)"
proof -
  have "int (digits_val s) < 2 ^ 64 \<longleftrightarrow> digits_val s < 2 ^ 64"
    by (metis of_nat_less_iff of_nat_numeral of_nat_power)
  then show ?thesis by (simp add: ParseUint_def)
qed

text \<open>
  \<open>strconv.ParseInt (s, 10, bits)\<close> returns a value and an error; on a range error the value is
  the nearest representable one, on a syntax error it is 0.
\<close>

definition split_sign :: "string \<Rightarrow> bool \<times> string" where
  "split_sign s = (case s of [] \<Rightarrow> (False, [])
     | c # r \<Rightarrow> if c = CHR ''-'' then (True, r) else if c = CHR ''+'' then (False, r)
               else (False, s))"

definition ParseInt :: "nat \<Rightarrow> string \<Rightarrow> int \<times> bool" where
  "ParseInt bits s = (case split_sign s of (neg, r) \<Rightarrow>
     if r = [] \<or> \<not> list_all is_digit r then (0, True)
     else let m = int (digits_val r) in
       if neg then (if m \<le> 2 ^ (bits - 1) then (- m, False) else (- (2 ^ (bits - 1)), True))
       else (if m < 2 ^ (bits - 1) then (m, False) else (2 ^ (bits - 1) - 1, True)))"

text \<open>
  \<open>fmt.Sscanf (s, "%d", &x)\<close> for an \<open>int64\<close>: blanks are skipped, a sign and the longest run of
  digits are read, the rest of the text is ignored.
\<close>

definition is_blank :: "char \<Rightarrow> bool" where
  "is_blank c \<longleftrightarrow> c = CHR '' '' \<or> c = CHR 0x09 \<or> c = CHR 0x0D"

definition Sscanf_d :: "string \<Rightarrow> int option" where
  "Sscanf_d s = (case split_sign (dropWhile is_blank s) of (neg, r) \<Rightarrow>
     let ds = takeWhile is_digit r; m = int (digits_val ds) in
     if ds = [] then None
     else if neg then (if m \<le> 2 ^ 63 then Some (- m) else None)
     else (if m < 2 ^ 63 then Some m else None))"

lemma of_char_digit_char [simp]: "d < 10 \<Longrightarrow> (of_char (digit_char d) :: nat) = 48 + d"
  by (simp add: digit_char_def)

lemma is_digit_digit_char [simp]: "d < 10 \<Longrightarrow> is_digit (digit_char d)"
  by (simp add: is_digit_def)

lemma digit_val_digit_char [simp]: "d < 10 \<Longrightarrow> digit_val (digit_char d) = d"
  by (simp add: digit_val_def)

lemma digits_val_snoc [simp]: "digits_val (s @ [c]) = 10 * digits_val s + digit_val c"
  by (simp add: digits_val_def)

lemma digits_val_Nil [simp]: "digits_val [] = 0"
  by (simp add: digits_val_def)

lemma digits_val_singleton [simp]: "digits_val [c] = digit_val c"
  by (simp add: digits_val_def)

lemma FormatNat_nonempty [simp]: "FormatNat n \<noteq> []"
  by (subst FormatNat.simps) simp

lemma FormatNat_digits [simp]: "list_all is_digit (FormatNat n)"
proof (induction n rule: FormatNat.induct)
  case (1 n)
  then show ?case by (subst FormatNat.simps) auto
qed

lemma digits_val_FormatNat [simp]: "digits_val (FormatNat n) = n"
proof (induction n rule: FormatNat.induct)
  case (1 n)
  then show ?case by (subst FormatNat.simps) auto
qed

lemma FormatNat_inj: "FormatNat m = FormatNat n \<Longrightarrow> m = n"
  by (metis digits_val_FormatNat)

lemma ParseUint_FormatUint [simp]: "ParseUint (FormatUint x) = Some x"
proof -
  have "unat x < 2 ^ 64" using unsigned_less [of x, where 'a = nat] by simp
  then show ?thesis by (simp add: ParseUint_def FormatUint_def)
qed

lemma FormatUint_inj [simp]: "FormatUint x = FormatUint y \<longleftrightarrow> x = y"
  by (metis ParseUint_FormatUint option.inject)

lemma FormatUint_digits: "list_all is_digit (FormatUint x)"
  by (simp add: FormatUint_def)

lemma not_is_digit_minus [simp]: "\<not> is_digit CHR ''-''" "\<not> is_digit CHR ''+''"
  by (simp_all add: is_digit_def)

lemma split_sign_digits:
  "list_all is_digit s \<Longrightarrow> split_sign s = (False, s)"
  by (cases s) (auto simp: split_sign_def)

lemma split_sign_FormatInt:
  "split_sign (FormatInt n) = (n < 0, FormatNat (nat \<bar>n\<bar>))"
proof (cases "n < 0")
  case True
  then show ?thesis by (simp add: FormatInt_def split_sign_def)
next
  case False
  then show ?thesis by (simp add: FormatInt_def split_sign_digits)
qed

lemma ParseInt_FormatInt:
  assumes "- (2 ^ (bits - 1)) \<le> n" and "n < 2 ^ (bits - 1)"
  shows "ParseInt bits (FormatInt n) = (n, False)"
  using assms by (auto simp: ParseInt_def split_sign_FormatInt Let_def)

lemma takeWhile_digits: "list_all is_digit s \<Longrightarrow> takeWhile is_digit s = s"
  by (simp add: list_all_iff)

lemma dropWhile_blank_digit:
  "s \<noteq> [] \<Longrightarrow> \<not> is_blank (hd s) \<Longrightarrow> dropWhile is_blank s = s"
  by (cases s) auto

lemma digit_not_blank: "is_digit c \<Longrightarrow> \<not> is_blank c"
  by (auto simp: is_digit_def is_blank_def)

lemma FormatNat_hd_not_blank: "\<not> is_blank (hd (FormatNat n))"
  using FormatNat_digits [of n] FormatNat_nonempty [of n]
  by (metis digit_not_blank list.pred_inject(2) list.exhaust_sel)

lemma Sscanf_d_FormatInt:
  assumes "- (2 ^ 63) \<le> n" and "n < 2 ^ 63"
  shows "Sscanf_d (FormatInt n) = Some n"
proof -
  have nb: "\<not> is_blank (hd (FormatInt n))"
    using FormatNat_hd_not_blank [of "nat n"] by (auto simp: FormatInt_def is_blank_def)
  have "dropWhile is_blank (FormatInt n) = FormatInt n"
    using nb by (intro dropWhile_blank_digit) (auto simp: FormatInt_def)
  then show ?thesis using assms
    by (auto simp: Sscanf_d_def split_sign_FormatInt takeWhile_digits Let_def)
qed

section \<open>Substrings\<close>

text \<open>\<open>strings.Contains (hay, needle)\<close>, also Lua's \<open>string.find\<close> in plain mode.\<close>

fun is_prefix :: "string \<Rightarrow> string \<Rightarrow> bool" where
  "is_prefix [] ys = True"
| "is_prefix (x # xs) [] = False"
| "is_prefix (x # xs) (y # ys) = (x = y \<and> is_prefix xs ys)"

fun Contains :: "string \<Rightarrow> string \<Rightarrow> bool" where
  "Contains [] needle = (needle = [])"
| "Contains (c # hay) needle = (is_prefix needle (c # hay) \<or> Contains hay needle)"

lemma is_prefix_iff: "is_prefix xs ys \<longleftrightarrow> (\<exists>zs. ys = xs @ zs)"
  by (induction xs ys rule: is_prefix.induct) auto

lemma Contains_iff: "Contains hay needle \<longleftrightarrow> (\<exists>p q. hay = p @ needle @ q)"
proof (induction hay)
  case Nil
  then show ?case by auto
next
  case (Cons c hay)
  show ?case
  proof
    assume "Contains (c # hay) needle"
    then consider zs where "c # hay = needle @ zs" | p q where "hay = p @ needle @ q"
      using Cons.IH by (auto simp: is_prefix_iff)
    then show "\<exists>p q. c # hay = p @ needle @ q"
    proof cases
      case (1 zs)
      then have "c # hay = [] @ needle @ zs" by simp
      then show ?thesis by blast
    next
      case (2 p q)
      then have "c # hay = (c # p) @ needle @ q" by simp
      then show ?thesis by blast
    qed
  next
    assume "\<exists>p q. c # hay = p @ needle @ q"
    then obtain p q where pq: "c # hay = p @ needle @ q" by blast
    show "Contains (c # hay) needle"
    proof (cases p)
      case Nil
      with pq have "is_prefix needle (c # hay)" by (auto simp: is_prefix_iff)
      then show ?thesis by simp
    next
      case (Cons d p')
      with pq have "hay = p' @ needle @ q" by simp
      with Cons.IH show ?thesis by auto
    qed
  qed
qed

lemma fst_pair: "fst p = a \<Longrightarrow> p = (a, snd p)"
  by (cases p) simp

section \<open>Lists\<close>

text \<open>\<open>LREM key 1 v\<close> and Go's removal of the first match are the library's \<open>remove1\<close>.\<close>

lemma mset_butlast_last: "xs \<noteq> [] \<Longrightarrow> add_mset (last xs) (mset (butlast xs)) = mset xs"
  by (metis append_butlast_last_id mset.simps(1,2) mset_append union_mset_add_mset_right add.right_neutral)

lemma map_filter_append: "List.map_filter f (xs @ ys) = List.map_filter f xs @ List.map_filter f ys"
  by (induction xs) (auto simp: List.map_filter_def)

lemma mset_map_filter: "mset (List.map_filter f xs) = image_mset (the \<circ> f) (filter_mset (\<lambda>x. f x \<noteq> None) (mset xs))"
  by (induction xs) (auto simp: List.map_filter_def)

lemma mset_map_filter_cong:
  "mset xs = mset ys \<Longrightarrow> mset (List.map_filter f xs) = mset (List.map_filter f ys)"
  by (simp add: mset_map_filter)

lemma map_filter_set: "set (List.map_filter f xs) = {y. \<exists>x \<in> set xs. f x = Some y}"
  by (force simp: List.map_filter_def)

lemma map_filter_simps [simp]:
  "List.map_filter f [] = []"
  "List.map_filter f (x # xs) = (case f x of None \<Rightarrow> List.map_filter f xs | Some y \<Rightarrow> y # List.map_filter f xs)"
  by (simp_all add: List.map_filter_def split: option.split)

lemma map_filter_map: "List.map_filter f (map g xs) = List.map_filter (\<lambda>x. f (g x)) xs"
  by (induction xs) (auto split: option.split)

lemma map_filter_cong: "(\<And>x. x \<in> set xs \<Longrightarrow> f x = g x) \<Longrightarrow> List.map_filter f xs = List.map_filter g xs"
  by (induction xs) (auto split: option.split)

lemma distinct_map_filter_inj:
  "distinct xs \<Longrightarrow> (\<And>x y b. x \<in> set xs \<Longrightarrow> y \<in> set xs \<Longrightarrow> f x = Some b \<Longrightarrow> f y = Some b \<Longrightarrow> x = y) \<Longrightarrow>
   distinct (List.map_filter f xs)"
proof (induction xs)
  case (Cons x xs)
  have IH: "distinct (List.map_filter f xs)" by (rule Cons.IH) (use Cons.prems in auto)
  show ?case
  proof (cases "f x")
    case (Some b)
    have "b \<notin> set (List.map_filter f xs)"
    proof
      assume "b \<in> set (List.map_filter f xs)"
      then obtain y where "y \<in> set xs" "f y = Some b" by (auto simp: map_filter_set)
      then have "x = y" using Cons.prems(2) [of x y b] Some by simp
      then show False using \<open>y \<in> set xs\<close> Cons.prems(1) by simp
    qed
    then show ?thesis using IH Some by (simp add: List.map_filter_def)
  qed (use IH in \<open>simp add: List.map_filter_def\<close>)
qed (simp add: List.map_filter_def)

text \<open>The batches a loop with a stride cuts out of a slice.\<close>

fun chunks :: "nat \<Rightarrow> 'a list \<Rightarrow> 'a list list" where
  "chunks n xs = (if n = 0 \<or> xs = [] then [] else take n xs # chunks n (drop n xs))"

declare chunks.simps [simp del]

lemma concat_chunks: "0 < n \<Longrightarrow> concat (chunks n xs) = xs"
proof (induction n xs rule: chunks.induct)
  case (1 n xs)
  then show ?case by (subst chunks.simps) auto
qed

text \<open>Iteration of a function that keeps a predicate.\<close>

lemma funpow_invariant: "(\<And>x. P x \<Longrightarrow> P (f x)) \<Longrightarrow> P x \<Longrightarrow> P ((f ^^ n) x)"
  by (induction n) auto

lemma funpow_eq_of_fix: "(\<And>x. g (f x) = g x) \<Longrightarrow> g ((f ^^ n) x) = g x"
  by (induction n) auto

end
