(* ===== verification/Redis.thy ===== *)
theory Redis
  imports Prelude Complex_Main
begin

text \<open>
  The services the program talks to. Redis is not part of the repository: the commands the
  sources issue are the fields of the record \<open>redis\<close>, an argument of every definition that
  issues one, and their documented effect on the data types of Redis is the locale
  \<open>redis_server\<close>, the named hypothesis of the theorems. A remote call may be lost before or
  after it takes effect and the client library may resend it; a \<open>world\<close> carries the list of
  what happens to the next calls, and the theorems quantify over it. Keys are used at one data
  type each, as in the sources.
\<close>

section \<open>The commands\<close>

record 's redis =
  LPUSH :: "string \<Rightarrow> string \<Rightarrow> 's \<Rightarrow> 's"
  RPOPLPUSH :: "string \<Rightarrow> string \<Rightarrow> 's \<Rightarrow> string option \<times> 's"
  LREM1 :: "string \<Rightarrow> string \<Rightarrow> 's \<Rightarrow> nat \<times> 's"
  LRANGE :: "string \<Rightarrow> 's \<Rightarrow> string list"
  LLEN :: "string \<Rightarrow> 's \<Rightarrow> nat"
  SADD :: "string \<Rightarrow> string \<Rightarrow> 's \<Rightarrow> nat \<times> 's"
  SREM :: "string \<Rightarrow> string \<Rightarrow> 's \<Rightarrow> 's"
  SISMEMBER :: "string \<Rightarrow> string \<Rightarrow> 's \<Rightarrow> bool"
  SCARD :: "string \<Rightarrow> 's \<Rightarrow> nat"
  HSET :: "string \<Rightarrow> (string \<times> string) list \<Rightarrow> 's \<Rightarrow> 's"
  HDEL :: "string \<Rightarrow> string \<Rightarrow> 's \<Rightarrow> 's"
  HGETALL :: "string \<Rightarrow> 's \<Rightarrow> (string \<times> string) list"
  ZADD :: "string \<Rightarrow> (rat \<times> string) list \<Rightarrow> 's \<Rightarrow> 's"
  ZREM :: "string \<Rightarrow> string \<Rightarrow> 's \<Rightarrow> 's"
  ZSCORE :: "string \<Rightarrow> string \<Rightarrow> 's \<Rightarrow> rat option"
  ZRANGE_WITHSCORES :: "string \<Rightarrow> 's \<Rightarrow> (string \<times> rat) list"
  ZRANGEBYSCORE :: "string \<Rightarrow> rat \<Rightarrow> 's \<Rightarrow> string list"
  ZCARD :: "string \<Rightarrow> 's \<Rightarrow> nat"
  EXPIRE :: "string \<Rightarrow> int \<Rightarrow> 's \<Rightarrow> 's"
  DEL :: "string list \<Rightarrow> 's \<Rightarrow> 's"
  KEYS_MATCHING :: "string \<Rightarrow> 's \<Rightarrow> string list"
  GET :: "string \<Rightarrow> 's \<Rightarrow> string option"
  SET_EX :: "string \<Rightarrow> string \<Rightarrow> int \<Rightarrow> 's \<Rightarrow> 's"

text \<open>
  \<open>KEYS_MATCHING p\<close> stands for a complete \<open>SCAN\<close> iteration with the pattern \<open>p*\<close>: the keys a
  cursor loop collects, possibly with repetitions. \<open>LREM1\<close> is \<open>LREM key 1 v\<close>, \<open>LRANGE\<close> is
  \<open>LRANGE key 0 -1\<close>, \<open>ZRANGE_WITHSCORES\<close> is \<open>ZRANGE key 0 -1 WITHSCORES\<close>, \<open>SET_EX\<close> is \<open>SET\<close> with an
  expiry time.
\<close>

section \<open>The data types of Redis\<close>

record keyspace =
  lists :: "string \<Rightarrow> string list"
  sets :: "string \<Rightarrow> string set"
  hashes :: "string \<Rightarrow> string \<Rightarrow> string option"
  zsets :: "string \<Rightarrow> string \<Rightarrow> rat option"
  ttls :: "string \<Rightarrow> int option"
  strings :: "string \<Rightarrow> string option"

text \<open>What the documentation says each command does, seen through the data types.\<close>

locale redis_server =
  fixes R :: "'s redis" and view :: "'s \<Rightarrow> keyspace"
  assumes lpush: "view (LPUSH R k v s) = (view s)\<lparr>lists := (lists (view s))(k := v # lists (view s) k)\<rparr>"
    and rpoplpush_nil: "lists (view s) k = [] \<Longrightarrow> RPOPLPUSH R k k' s = (None, s)"
    and rpoplpush_val: "lists (view s) k \<noteq> [] \<Longrightarrow> fst (RPOPLPUSH R k k' s) = Some (last (lists (view s) k))"
    and rpoplpush_view: "lists (view s) k \<noteq> [] \<Longrightarrow> k \<noteq> k' \<Longrightarrow> view (snd (RPOPLPUSH R k k' s)) =
      (view s)\<lparr>lists := (lists (view s))(k := butlast (lists (view s) k),
                                       k' := last (lists (view s) k) # lists (view s) k')\<rparr>"
    and lrem1_count: "fst (LREM1 R k v s) = (if v \<in> set (lists (view s) k) then 1 else 0)"
    and lrem1_view: "view (snd (LREM1 R k v s)) =
      (view s)\<lparr>lists := (lists (view s))(k := remove1 v (lists (view s) k))\<rparr>"
    and lrange: "LRANGE R k s = lists (view s) k"
    and llen: "LLEN R k s = length (lists (view s) k)"
    and sadd_count: "fst (SADD R k m s) = (if m \<in> sets (view s) k then 0 else 1)"
    and sadd_view: "view (snd (SADD R k m s)) =
      (view s)\<lparr>sets := (sets (view s))(k := insert m (sets (view s) k))\<rparr>"
    and srem: "view (SREM R k m s) = (view s)\<lparr>sets := (sets (view s))(k := sets (view s) k - {m})\<rparr>"
    and sismember: "SISMEMBER R k m s \<longleftrightarrow> m \<in> sets (view s) k"
    and scard: "SCARD R k s = card (sets (view s) k)"
    and hset: "view (HSET R k fvs s) =
      (view s)\<lparr>hashes := (hashes (view s))(k := hashes (view s) k ++ map_of (rev fvs))\<rparr>"
    and hdel: "view (HDEL R k f s) =
      (view s)\<lparr>hashes := (hashes (view s))(k := (hashes (view s) k)(f := None))\<rparr>"
    and hgetall: "map_of (HGETALL R k s) = hashes (view s) k"
    and zadd: "view (ZADD R k sms s) = (view s)\<lparr>zsets := (zsets (view s))(k :=
      zsets (view s) k ++ map_of (rev (map (\<lambda>(sc, m). (m, sc)) sms)))\<rparr>"
    and zrem: "view (ZREM R k m s) =
      (view s)\<lparr>zsets := (zsets (view s))(k := (zsets (view s) k)(m := None))\<rparr>"
    and zscore: "ZSCORE R k m s = zsets (view s) k m"
    and zrange_map: "map_of (ZRANGE_WITHSCORES R k s) = zsets (view s) k"
    and zrange_distinct: "distinct (map fst (ZRANGE_WITHSCORES R k s))"
    and zrange_sorted: "sorted (map snd (ZRANGE_WITHSCORES R k s))"
    and zrangebyscore: "ZRANGEBYSCORE R k mx s =
      map fst (filter (\<lambda>(m, sc). sc \<le> mx) (ZRANGE_WITHSCORES R k s))"
    and zcard: "ZCARD R k s = length (ZRANGE_WITHSCORES R k s)"
    and expire: "0 < dur \<Longrightarrow> view (EXPIRE R k dur s) = (view s)\<lparr>ttls := (ttls (view s))(k \<mapsto> dur)\<rparr>"
    and del: "view (DEL R ks s) = (view s)\<lparr>
      lists := (\<lambda>k. if k \<in> set ks then [] else lists (view s) k),
      sets := (\<lambda>k. if k \<in> set ks then {} else sets (view s) k),
      hashes := (\<lambda>k. if k \<in> set ks then Map.empty else hashes (view s) k),
      zsets := (\<lambda>k. if k \<in> set ks then Map.empty else zsets (view s) k),
      ttls := (\<lambda>k. if k \<in> set ks then None else ttls (view s) k),
      strings := (\<lambda>k. if k \<in> set ks then None else strings (view s) k)\<rparr>"
    and keys_matching: "(k \<in> set (KEYS_MATCHING R p s)) \<longleftrightarrow> (\<exists>r. k = p @ r) \<and>
      (lists (view s) k \<noteq> [] \<or> sets (view s) k \<noteq> {} \<or> hashes (view s) k \<noteq> Map.empty
        \<or> zsets (view s) k \<noteq> Map.empty \<or> strings (view s) k \<noteq> None)"
    and get: "GET R k s = strings (view s) k"
    and set_ex: "0 < dur \<Longrightarrow> view (SET_EX R k v dur s) = (view s)\<lparr>
      strings := (strings (view s))(k \<mapsto> v), ttls := (ttls (view s))(k \<mapsto> dur)\<rparr>"
begin

lemmas read_simps = lrange llen sismember scard hgetall zscore zrange_map zcard
lemmas write_simps = lpush lrem1_count lrem1_view sadd_count sadd_view srem hset hdel zadd zrem del

lemma hgetall_nil: "HGETALL R k s = [] \<longleftrightarrow> hashes (view s) k = Map.empty"
proof
  assume "HGETALL R k s = []"
  then show "hashes (view s) k = Map.empty" using hgetall [of k s] by simp
next
  assume "hashes (view s) k = Map.empty"
  then have "map_of (HGETALL R k s) = Map.empty" using hgetall by simp
  then show "HGETALL R k s = []" by (cases "HGETALL R k s") (auto simp: fun_eq_iff split: if_splits)
qed

lemma rpoplpush_cases:
  assumes "k \<noteq> k'"
  obtains "lists (view s) k = []" "RPOPLPUSH R k k' s = (None, s)"
  | xs x s' where "lists (view s) k = xs @ [x]" "RPOPLPUSH R k k' s = (Some x, s')"
      "view s' = (view s)\<lparr>lists := (lists (view s))(k := xs, k' := x # lists (view s) k')\<rparr>"
proof (cases "lists (view s) k" rule: rev_cases)
  case Nil
  then show ?thesis using that(1) rpoplpush_nil by blast
next
  case (snoc xs x)
  obtain r s' where rs: "RPOPLPUSH R k k' s = (r, s')" by fastforce
  have "r = Some x" using snoc rpoplpush_val [of s k k'] rs by simp
  moreover have "view s' = (view s)\<lparr>lists := (lists (view s))(k := xs, k' := x # lists (view s) k')\<rparr>"
    using snoc rpoplpush_view [of s k k'] assms rs by simp
  ultimately show ?thesis using that(2) snoc rs by blast
qed

lemma rpoplpush_NoneD: "RPOPLPUSH R k k' s = (None, s') \<Longrightarrow> lists (view s) k = [] \<and> s' = s"
  by (metis Pair_inject fst_conv option.distinct(1) rpoplpush_nil rpoplpush_val)

lemma rpoplpush_SomeD:
  assumes "RPOPLPUSH R k k' s = (Some x, s')" and "k \<noteq> k'"
  shows "lists (view s) k = butlast (lists (view s) k) @ [x] \<and>
    view s' = (view s)\<lparr>lists := (lists (view s))(k := butlast (lists (view s) k), k' := x # lists (view s) k')\<rparr>"
  by (cases rule: rpoplpush_cases [OF assms(2), of s]) (use assms(1) in simp_all)

end

section \<open>Remote calls\<close>

text \<open>
  \<open>Reply n\<close>: the call is executed \<open>n\<close> times with its reply lost and resent each time, then once
  more and answered. \<open>Lost n\<close>: it is executed \<open>n\<close> times and the caller gets an error.
\<close>

datatype outcome = Reply nat | Lost nat

record ('s, 'd) world =
  redis_st :: 's
  db_st :: 'd
  outcomes :: "outcome list"

definition next_outcome :: "('s, 'd) world \<Rightarrow> outcome" where
  "next_outcome w = (case outcomes w of [] \<Rightarrow> Reply 0 | r # _ \<Rightarrow> r)"

definition remote :: "outcome \<Rightarrow> ('x \<Rightarrow> 'a \<times> 'x) \<Rightarrow> 'x \<Rightarrow> 'a option \<times> 'x" where
  "remote oc c x = (case oc of
      Reply n \<Rightarrow> (let y = ((\<lambda>y. snd (c y)) ^^ n) x in (Some (fst (c y)), snd (c y)))
    | Lost n \<Rightarrow> (None, ((\<lambda>y. snd (c y)) ^^ n) x))"

text \<open>A Redis command or script, and a database statement; \<open>None\<close> is a Go error.\<close>

definition rdo :: "('s \<Rightarrow> 'a \<times> 's) \<Rightarrow> ('s, 'd) world \<Rightarrow> 'a option \<times> ('s, 'd) world" where
  "rdo c w = (let r = remote (next_outcome w) c (redis_st w)
     in (fst r, w\<lparr>redis_st := snd r, outcomes := tl (outcomes w)\<rparr>))"

definition ddo :: "('d \<Rightarrow> 'a \<times> 'd) \<Rightarrow> ('s, 'd) world \<Rightarrow> 'a option \<times> ('s, 'd) world" where
  "ddo c w = (let r = remote (next_outcome w) c (db_st w)
     in (fst r, w\<lparr>db_st := snd r, outcomes := tl (outcomes w)\<rparr>))"

text \<open>Commands that only read, and commands whose reply the code ignores.\<close>

definition readc :: "('s \<Rightarrow> 'a) \<Rightarrow> 's \<Rightarrow> 'a \<times> 's" where
  "readc f s = (f s, s)"

definition writec :: "('s \<Rightarrow> 's) \<Rightarrow> 's \<Rightarrow> unit \<times> 's" where
  "writec f s = ((), f s)"

definition quiet :: "('s, 'd) world \<Rightarrow> bool" where
  "quiet w \<longleftrightarrow> outcomes w = []"

lemma remote_preserves:
  assumes "\<And>x. P x \<Longrightarrow> P (snd (c x))" and "P x"
  shows "P (snd (remote oc c x))"
proof -
  have iter: "P (((\<lambda>y. snd (c y)) ^^ n) x)" for n
    by (rule funpow_invariant [where P = P]) (use assms in auto)
  show ?thesis
  proof (cases oc)
    case (Reply n)
    have "P (snd (c (((\<lambda>y. snd (c y)) ^^ n) x)))" using iter assms(1) by blast
    with Reply show ?thesis by (simp add: remote_def Let_def)
  next
    case (Lost n)
    with iter show ?thesis by (simp add: remote_def)
  qed
qed

lemma rdo_preserves:
  assumes "\<And>s. P s \<Longrightarrow> P (snd (c s))" and "P (redis_st w)"
  shows "P (redis_st (snd (rdo c w)))"
  using remote_preserves [of P c "redis_st w"] assms by (simp add: rdo_def Let_def)

lemma rdo_preserves_eq:
  "rdo c w = (r, w') \<Longrightarrow> (\<And>s. P s \<Longrightarrow> P (snd (c s))) \<Longrightarrow> P (redis_st w) \<Longrightarrow> P (redis_st w')"
  using rdo_preserves [of P c w] by simp

lemma ddo_preserves:
  assumes "\<And>s. P s \<Longrightarrow> P (snd (c s))" and "P (db_st w)"
  shows "P (db_st (snd (ddo c w)))"
  using remote_preserves [of P c "db_st w"] assms by (simp add: ddo_def Let_def)

lemma other_state [simp]:
  "redis_st (snd (ddo c w)) = redis_st w" "db_st (snd (rdo r v)) = db_st v"
  by (simp_all add: ddo_def rdo_def Let_def)

lemma readc_simps [simp]: "fst (readc f s) = f s" "snd (readc f s) = s"
  by (simp_all add: readc_def)

lemma writec_simps [simp]: "fst (writec f s) = ()" "snd (writec f s) = f s"
  by (simp_all add: writec_def)

lemma id_iter [simp]: "((\<lambda>y. y) ^^ n) x = x"
  by (induction n) auto

lemma rdo_read_st [simp]: "redis_st (snd (rdo (readc f) w)) = redis_st w"
  by (simp add: rdo_def remote_def Let_def split: outcome.split)

lemma rdo_read_val: "fst (rdo (readc f) w) = None \<or> fst (rdo (readc f) w) = Some (f (redis_st w))"
  by (simp add: rdo_def remote_def Let_def split: outcome.split)

lemma ddo_read_st [simp]: "db_st (snd (ddo (readc f) w)) = db_st w"
  by (simp add: ddo_def remote_def Let_def split: outcome.split)

lemma ddo_read_val: "fst (ddo (readc f) w) = None \<or> fst (ddo (readc f) w) = Some (f (db_st w))"
  by (simp add: ddo_def remote_def Let_def split: outcome.split)

lemma rdo_reply:
  assumes "fst (rdo c w) = Some r"
  shows "\<exists>n. c (((\<lambda>y. snd (c y)) ^^ n) (redis_st w)) = (r, redis_st (snd (rdo c w)))"
proof (cases "next_outcome w")
  case (Reply n)
  with assms show ?thesis by (intro exI [of _ n]) (auto simp: rdo_def remote_def Let_def prod_eq_iff)
next
  case (Lost n)
  with assms show ?thesis by (simp add: rdo_def remote_def)
qed

lemma rdo_quiet [simp]:
  "quiet w \<Longrightarrow> rdo c w = (Some (fst (c (redis_st w))), w\<lparr>redis_st := snd (c (redis_st w))\<rparr>)"
  by (simp add: rdo_def quiet_def next_outcome_def remote_def Let_def)

lemma ddo_quiet [simp]:
  "quiet w \<Longrightarrow> ddo c w = (Some (fst (c (db_st w))), w\<lparr>db_st := snd (c (db_st w))\<rparr>)"
  by (simp add: ddo_def quiet_def next_outcome_def remote_def Let_def)

lemma quiet_upd [simp]:
  "quiet (w\<lparr>redis_st := s\<rparr>) = quiet w" "quiet (w\<lparr>db_st := d\<rparr>) = quiet w"
  by (simp_all add: quiet_def)

section \<open>A keyspace in memory\<close>

text \<open>
  A concrete server with finite lists, on which the hypotheses of the theorems are met.
\<close>

record mem =
  m_lists :: "(string \<times> string list) list"
  m_sets :: "(string \<times> string list) list"
  m_hashes :: "(string \<times> (string \<times> string) list) list"
  m_zsets :: "(string \<times> (string \<times> rat) list) list"
  m_ttls :: "(string \<times> int) list"
  m_strings :: "(string \<times> string) list"

fun alist_put :: "'a \<Rightarrow> 'b \<Rightarrow> ('a \<times> 'b) list \<Rightarrow> ('a \<times> 'b) list" where
  "alist_put k v [] = [(k, v)]"
| "alist_put k v ((a, b) # xs) = (if a = k then (k, v) # xs else (a, b) # alist_put k v xs)"

definition alist_del :: "'a \<Rightarrow> ('a \<times> 'b) list \<Rightarrow> ('a \<times> 'b) list" where
  "alist_del k xs = filter (\<lambda>p. fst p \<noteq> k) xs"

fun aget :: "('a \<times> 'b list) list \<Rightarrow> 'a \<Rightarrow> 'b list" where
  "aget [] k = []"
| "aget ((a, b) # xs) k = (if a = k then b else aget xs k)"

lemma map_of_alist_put [simp]: "map_of (alist_put k v xs) = (map_of xs)(k \<mapsto> v)"
  by (induction xs) (auto simp: fun_eq_iff)

lemma map_of_alist_del [simp]: "map_of (alist_del k xs) = (map_of xs)(k := None)"
  by (induction xs) (auto simp: alist_del_def fun_eq_iff)

lemma aget_alist_put: "aget (alist_put k v xs) k' = (if k' = k then v else aget xs k')"
  by (induction xs) auto

lemma aget_alist_put_fun [simp]: "aget (alist_put k v xs) = (aget xs)(k := v)"
  by (auto simp: fun_eq_iff aget_alist_put)

lemma aget_filter [simp]: "aget (filter (\<lambda>p. fst p \<notin> K) xs) k = (if k \<in> K then [] else aget xs k)"
  by (induction xs) auto

lemma map_of_filter_keys:
  "map_of (filter (\<lambda>p. fst p \<notin> K) xs) k = (if k \<in> K then None else map_of xs k)"
  by (induction xs) auto

lemma aget_nonempty_fst: "aget xs k \<noteq> [] \<Longrightarrow> k \<in> fst ` set xs"
  by (induction xs) (auto split: if_splits)

text \<open>A sorted set is kept as an association list and listed by insertion sort on the score.\<close>

fun zins :: "string \<times> rat \<Rightarrow> (string \<times> rat) list \<Rightarrow> (string \<times> rat) list" where
  "zins p [] = [p]"
| "zins p (q # qs) = (if snd p \<le> snd q then p # q # qs else q # zins p qs)"

fun zlist :: "(string \<times> rat) list \<Rightarrow> (string \<times> rat) list" where
  "zlist [] = []"
| "zlist (p # z) = zins p (alist_del (fst p) (zlist z))"

lemma set_zins [simp]: "set (zins p qs) = insert p (set qs)"
  by (induction qs) auto

lemma sorted_zins: "sorted (map snd qs) \<Longrightarrow> sorted (map snd (zins p qs))"
  by (induction qs) auto

lemma distinct_zins:
  "distinct (map fst qs) \<Longrightarrow> fst p \<notin> fst ` set qs \<Longrightarrow> distinct (map fst (zins p qs))"
  by (induction qs) auto

lemma map_of_zins: "fst p \<notin> fst ` set qs \<Longrightarrow> map_of (zins p qs) = (map_of qs)(fst p \<mapsto> snd p)"
  by (induction qs) (auto simp: fun_eq_iff)

lemma alist_del_fst [simp]: "fst ` set (alist_del k xs) = fst ` set xs - {k}"
  by (auto simp: alist_del_def)

lemma sorted_zlist: "sorted (map snd (zlist z))"
  by (induction z) (auto simp: alist_del_def intro!: sorted_zins sorted_filter)

lemma distinct_zlist: "distinct (map fst (zlist z))"
  by (induction z) (auto simp: alist_del_def intro!: distinct_zins distinct_map_filter)

lemma map_of_zlist: "map_of (zlist z) = map_of z"
  by (induction z) (auto simp: map_of_zins fun_eq_iff)

definition is_key_of :: "string \<Rightarrow> (string \<times> 'b list) list \<Rightarrow> string list" where
  "is_key_of p xs = filter (\<lambda>k. is_prefix p k \<and> aget xs k \<noteq> []) (map fst xs)"

lemma set_is_key_of: "k \<in> set (is_key_of p xs) \<longleftrightarrow> is_prefix p k \<and> aget xs k \<noteq> []"
  using aget_nonempty_fst [of xs k] by (auto simp: is_key_of_def)

definition mem_view :: "mem \<Rightarrow> keyspace" where
  "mem_view m = \<lparr>lists = aget (m_lists m), sets = (\<lambda>k. set (aget (m_sets m) k)),
     hashes = (\<lambda>k. map_of (aget (m_hashes m) k)), zsets = (\<lambda>k. map_of (aget (m_zsets m) k)),
     ttls = map_of (m_ttls m), strings = map_of (m_strings m)\<rparr>"

definition mem_empty :: mem where
  "mem_empty = \<lparr>m_lists = [], m_sets = [], m_hashes = [], m_zsets = [], m_ttls = [], m_strings = []\<rparr>"

definition mem_put_list :: "string \<Rightarrow> string list \<Rightarrow> mem \<Rightarrow> mem" where
  "mem_put_list k v m = m\<lparr>m_lists := alist_put k v (m_lists m)\<rparr>"

definition mem_redis :: "mem redis" where
  "mem_redis = \<lparr>
    LPUSH = (\<lambda>k v m. mem_put_list k (v # aget (m_lists m) k) m),
    RPOPLPUSH = (\<lambda>k k' m. let xs = aget (m_lists m) k in
      if xs = [] then (None, m)
      else let m' = mem_put_list k (butlast xs) m
           in (Some (last xs), mem_put_list k' (last xs # aget (m_lists m') k') m')),
    LREM1 = (\<lambda>k v m. let xs = aget (m_lists m) k in
      (if v \<in> set xs then 1 else 0, mem_put_list k (remove1 v xs) m)),
    LRANGE = (\<lambda>k m. aget (m_lists m) k),
    LLEN = (\<lambda>k m. length (aget (m_lists m) k)),
    SADD = (\<lambda>k v m. let xs = aget (m_sets m) k in
      (if v \<in> set xs then 0 else 1, m\<lparr>m_sets := alist_put k (List.insert v xs) (m_sets m)\<rparr>)),
    SREM = (\<lambda>k v m. m\<lparr>m_sets := alist_put k (removeAll v (aget (m_sets m) k)) (m_sets m)\<rparr>),
    SISMEMBER = (\<lambda>k v m. v \<in> set (aget (m_sets m) k)),
    SCARD = (\<lambda>k m. length (remdups (aget (m_sets m) k))),
    HSET = (\<lambda>k fvs m. m\<lparr>m_hashes :=
      alist_put k (foldl (\<lambda>h (f, v). alist_put f v h) (aget (m_hashes m) k) fvs) (m_hashes m)\<rparr>),
    HDEL = (\<lambda>k f m. m\<lparr>m_hashes := alist_put k (alist_del f (aget (m_hashes m) k)) (m_hashes m)\<rparr>),
    HGETALL = (\<lambda>k m. aget (m_hashes m) k),
    ZADD = (\<lambda>k sms m. m\<lparr>m_zsets :=
      alist_put k (foldl (\<lambda>z (sc, v). alist_put v sc z) (aget (m_zsets m) k) sms) (m_zsets m)\<rparr>),
    ZREM = (\<lambda>k v m. m\<lparr>m_zsets := alist_put k (alist_del v (aget (m_zsets m) k)) (m_zsets m)\<rparr>),
    ZSCORE = (\<lambda>k v m. map_of (aget (m_zsets m) k) v),
    ZRANGE_WITHSCORES = (\<lambda>k m. zlist (aget (m_zsets m) k)),
    ZRANGEBYSCORE = (\<lambda>k mx m. map fst (filter (\<lambda>(v, sc). sc \<le> mx) (zlist (aget (m_zsets m) k)))),
    ZCARD = (\<lambda>k m. length (zlist (aget (m_zsets m) k))),
    EXPIRE = (\<lambda>k secs m. m\<lparr>m_ttls := alist_put k secs (m_ttls m)\<rparr>),
    DEL = (\<lambda>ks m. m\<lparr>m_lists := filter (\<lambda>p. fst p \<notin> set ks) (m_lists m),
      m_sets := filter (\<lambda>p. fst p \<notin> set ks) (m_sets m),
      m_hashes := filter (\<lambda>p. fst p \<notin> set ks) (m_hashes m),
      m_zsets := filter (\<lambda>p. fst p \<notin> set ks) (m_zsets m),
      m_ttls := filter (\<lambda>p. fst p \<notin> set ks) (m_ttls m),
      m_strings := filter (\<lambda>p. fst p \<notin> set ks) (m_strings m)\<rparr>),
    KEYS_MATCHING = (\<lambda>p m. is_key_of p (m_lists m) @ is_key_of p (m_sets m)
      @ is_key_of p (m_hashes m) @ is_key_of p (m_zsets m) @ filter (is_prefix p) (map fst (m_strings m))),
    GET = (\<lambda>k m. map_of (m_strings m) k),
    SET_EX = (\<lambda>k v secs m. m\<lparr>m_strings := alist_put k v (m_strings m), m_ttls := alist_put k secs (m_ttls m)\<rparr>)\<rparr>"

lemma map_of_foldl_put:
  "map_of (foldl (\<lambda>h (f, v). alist_put f v h) h fvs) = map_of h ++ map_of (rev fvs)"
  by (induction fvs arbitrary: h) (auto simp: fun_eq_iff map_add_def split: option.splits)

lemma map_of_foldl_put_score:
  "map_of (foldl (\<lambda>z (sc, v). alist_put v sc z) z sms) =
     map_of z ++ map_of (rev (map (\<lambda>(sc, m). (m, sc)) sms))"
  by (induction sms arbitrary: z) (auto simp: fun_eq_iff map_add_def split: option.splits)

lemmas mem_simps = mem_redis_def mem_view_def mem_put_list_def mem_empty_def

interpretation memory: redis_server mem_redis mem_view
proof (unfold_locales, goal_cases)
  case (26 ks s)
  then show ?case by (simp add: mem_simps fun_eq_iff map_of_filter_keys)
next
  case (27 k p s)
  have "k \<in> set (is_key_of p xs) \<longleftrightarrow> (\<exists>r. k = p @ r) \<and> aget xs k \<noteq> []" for xs :: "(string \<times> 'b list) list"
    by (simp add: set_is_key_of is_prefix_iff)
  then show ?case by (auto simp: mem_simps set_is_key_of is_prefix_iff map_of_eq_None_iff)
qed (auto simp: mem_simps Let_def fun_eq_iff map_of_foldl_put map_of_foldl_put_score map_of_zlist
    distinct_zlist sorted_zlist length_remdups_card_conv)

end
