(* ===== verification/Proto.thy ===== *)
theory Proto
  imports Prelude
begin

text \<open>
  The messages of \<open>proto/crawler.proto\<close> (in Go \<open>proto/pb/crawler.pb.go\<close>) that the parts of the
  program exchange through Redis, and the JSON codec they pass through. The codec is the package
  \<open>protojson\<close>, not part of the repository: it is the argument \<open>codec\<close>, with the locale
  \<open>protojson\<close> for what the code relies on.
\<close>

section \<open>Messages\<close>

text \<open>The enum is open (proto3): a value other than the two named ones is kept as it is.\<close>

datatype ItemStatus = ITEM_STATUS_ON_SALE | ITEM_STATUS_SOLD | ITEM_STATUS_OTHER i32

record CrawlRequest =
  req_IpId :: u64
  req_Keyword :: string
  req_TaskId :: string
  req_CreatedAt :: int
  req_RetryCount :: i32
  req_PagesOnSale :: i32
  req_PagesSold :: i32

record Item =
  it_SourceId :: string
  it_Title :: string
  it_Price :: i32
  it_ImageUrl :: string
  it_ItemUrl :: string
  it_Status :: ItemStatus

record CrawlResponse =
  resp_IpId :: u64
  resp_Items :: "Item list"
  resp_TotalFound :: i32
  resp_ErrorMessage :: string
  resp_TaskId :: string
  resp_CrawledAt :: int
  resp_PagesCrawled :: i32
  resp_RetryCount :: i32

section \<open>The codec\<close>

record codec =
  MarshalReq :: "CrawlRequest \<Rightarrow> string option"
  UnmarshalReq :: "string \<Rightarrow> CrawlRequest option"
  MarshalResp :: "CrawlResponse \<Rightarrow> string option"
  UnmarshalResp :: "string \<Rightarrow> CrawlResponse option"

text \<open>The text the Lua scripts look for: \<open>"taskId":"\<close>, the id, a closing quote.\<close>

definition taskid_needle :: "string \<Rightarrow> string" where
  "taskid_needle t = CHR 0x22 # ''taskId'' @ [CHR 0x22, CHR '':'', CHR 0x22] @ t @ [CHR 0x22]"

text \<open>Identifiers that JSON does not escape, such as UUIDs.\<close>

definition plain_char :: "char \<Rightarrow> bool" where
  "plain_char c \<longleftrightarrow> is_digit c \<or> c = CHR ''-'' \<or> (97 \<le> (of_char c :: nat) \<and> (of_char c :: nat) \<le> 122)"

definition plain_id :: "string \<Rightarrow> bool" where
  "plain_id t \<longleftrightarrow> t \<noteq> [] \<and> list_all plain_char t"

text \<open>
  What is relied on: decoding undoes encoding; the field \<open>task_id\<close> appears under its lower camel
  case name with no blank after the colon; quotes inside other strings are escaped, so the
  needle of a plain identifier occurs in a message exactly when that is its task id.
\<close>

locale protojson =
  fixes C :: codec
  assumes req_roundtrip: "MarshalReq C r = Some d \<Longrightarrow> UnmarshalReq C d = Some r"
    and resp_roundtrip: "MarshalResp C p = Some d \<Longrightarrow> UnmarshalResp C d = Some p"
    and req_needle: "MarshalReq C r = Some d \<Longrightarrow> plain_id t \<Longrightarrow>
      Contains d (taskid_needle t) \<longleftrightarrow> t = req_TaskId r"
    and resp_needle: "MarshalResp C p = Some d \<Longrightarrow> plain_id t \<Longrightarrow>
      Contains d (taskid_needle t) \<longleftrightarrow> t = resp_TaskId p"

section \<open>A codec for a finite set of messages\<close>

text \<open>
  A concrete codec given by the tables of the messages it can encode and their texts; it
  satisfies the hypotheses when the tables do.
\<close>

definition table_codec :: "(CrawlRequest \<times> string) list \<Rightarrow> (CrawlResponse \<times> string) list \<Rightarrow> codec" where
  "table_codec qs ps = \<lparr>MarshalReq = map_of qs, UnmarshalReq = map_of (map prod.swap qs),
     MarshalResp = map_of ps, UnmarshalResp = map_of (map prod.swap ps)\<rparr>"

text \<open>The text \<open>{"taskId":"t"}\<close> followed by a tag that holds no quote.\<close>

definition tagged_json :: "string \<Rightarrow> string \<Rightarrow> string" where
  "tagged_json t tag = CHR ''{'' # taskid_needle t @ CHR ''}'' # tag"

definition quote_free :: "string \<Rightarrow> bool" where
  "quote_free s \<longleftrightarrow> CHR 0x22 \<notin> set s"

lemma plain_quote_free: "plain_id t \<Longrightarrow> quote_free t"
  by (auto simp: plain_id_def quote_free_def list_all_iff plain_char_def is_digit_def)

lemma quote_free_append_eq:
  "quote_free u \<Longrightarrow> quote_free v \<Longrightarrow> u @ CHR 0x22 # x = v @ CHR 0x22 # y \<Longrightarrow> u = v \<and> x = y"
proof (induction u arbitrary: v)
  case Nil
  then show ?case by (cases v) (auto simp: quote_free_def)
next
  case (Cons a u)
  then show ?case by (cases v) (auto simp: quote_free_def)
qed

lemma quote_free_simps [simp]:
  "quote_free []" "quote_free (c # s) \<longleftrightarrow> c \<noteq> CHR 0x22 \<and> quote_free s"
  "quote_free (s @ t) \<longleftrightarrow> quote_free s \<and> quote_free t"
  by (auto simp: quote_free_def)

definition quotes :: "string \<Rightarrow> nat" where
  "quotes s = length (filter (\<lambda>c. c = CHR 0x22) s)"

lemma quotes_simps [simp]:
  "quotes [] = 0" "quotes (c # s) = (if c = CHR 0x22 then Suc (quotes s) else quotes s)"
  "quotes (s @ t) = quotes s + quotes t"
  by (simp_all add: quotes_def)

lemma quotes_zero: "quotes s = 0 \<longleftrightarrow> quote_free s"
  by (auto simp: quotes_def quote_free_def filter_empty_conv)

lemma quotes_needle: "quotes (taskid_needle t) = 4 + quotes t"
  by (simp add: taskid_needle_def)

lemma needle_cancel:
  assumes "quote_free p" "quote_free p'" "quote_free t" "quote_free t'"
    and "p @ taskid_needle t @ q = p' @ taskid_needle t' @ q'"
  shows "t = t'"
proof -
  have "p @ CHR 0x22 # (''taskId'' @ CHR 0x22 # CHR '':'' # CHR 0x22 # t @ CHR 0x22 # q)
      = p' @ CHR 0x22 # (''taskId'' @ CHR 0x22 # CHR '':'' # CHR 0x22 # t' @ CHR 0x22 # q')"
    using assms(5) by (simp add: taskid_needle_def)
  from quote_free_append_eq [OF assms(1,2) this]
  have "t @ CHR 0x22 # q = t' @ CHR 0x22 # q'" by simp
  from quote_free_append_eq [OF assms(3,4) this] show ?thesis by simp
qed

lemma tagged_json_needle:
  assumes t: "quote_free t" and tag: "quote_free tag" and t': "plain_id t'"
  shows "Contains (tagged_json t tag) (taskid_needle t') \<longleftrightarrow> t' = t"
proof
  assume "Contains (tagged_json t tag) (taskid_needle t')"
  then obtain p q where pq: "tagged_json t tag = p @ taskid_needle t' @ q"
    by (auto simp: Contains_iff)
  have qt: "quotes t = 0" "quotes t' = 0" "quotes tag = 0"
    using t tag plain_quote_free [OF t'] by (simp_all add: quotes_zero)
  have "quotes (tagged_json t tag) = 4" using qt by (simp add: tagged_json_def quotes_needle)
  moreover have "quotes (p @ taskid_needle t' @ q) = quotes p + 4 + quotes q"
    using qt by (simp add: quotes_needle)
  ultimately have "quotes p = 0" using pq by simp
  then have "quote_free p" by (simp add: quotes_zero)
  moreover have "''{'' @ taskid_needle t @ (CHR ''}'' # tag) = p @ taskid_needle t' @ q"
    using pq by (simp add: tagged_json_def)
  ultimately show "t' = t"
    using needle_cancel [of "''{''" p t t' "CHR ''}'' # tag" q] t plain_quote_free [OF t'] by simp
next
  assume "t' = t"
  then show "Contains (tagged_json t tag) (taskid_needle t')"
    by (auto simp: Contains_iff tagged_json_def intro: exI [of _ "''{''"])
qed

lemma map_of_swap:
  "distinct (map snd xs) \<Longrightarrow> map_of xs a = Some b \<Longrightarrow> map_of (map prod.swap xs) b = Some a"
  by (intro map_of_is_SomeI) (auto simp: comp_def dest: map_of_SomeD)

text \<open>
  A message is given with the tag of its text; \<open>tagged_codec\<close> encodes the listed messages.
\<close>

definition tagged_codec :: "(CrawlRequest \<times> string) list \<Rightarrow> (CrawlResponse \<times> string) list \<Rightarrow> codec" where
  "tagged_codec qs ps = table_codec
     (map (\<lambda>(r, tag). (r, tagged_json (req_TaskId r) tag)) qs)
     (map (\<lambda>(p, tag). (p, tagged_json (resp_TaskId p) tag)) ps)"

definition tagged_ok :: "(CrawlRequest \<times> string) list \<Rightarrow> (CrawlResponse \<times> string) list \<Rightarrow> bool" where
  "tagged_ok qs ps \<longleftrightarrow>
     list_all (\<lambda>(r, tag). quote_free (req_TaskId r) \<and> quote_free tag) qs \<and>
     list_all (\<lambda>(p, tag). quote_free (resp_TaskId p) \<and> quote_free tag) ps \<and>
     distinct (map (\<lambda>(r, tag). tagged_json (req_TaskId r) tag) qs) \<and>
     distinct (map (\<lambda>(p, tag). tagged_json (resp_TaskId p) tag) ps)"

lemma tagged_table:
  assumes "list_all (\<lambda>(r, tag). quote_free (tid r) \<and> quote_free tag) qs"
    and "map_of (map (\<lambda>(r, tag). (r, tagged_json (tid r) tag)) qs) r = Some d"
  shows "\<exists>tag. d = tagged_json (tid r) tag \<and> quote_free (tid r) \<and> quote_free tag"
  using map_of_SomeD [OF assms(2)] assms(1) by (auto simp: list_all_iff)

lemma tagged_codec_protojson:
  assumes "tagged_ok qs ps"
  shows "protojson (tagged_codec qs ps)"
proof (unfold_locales, goal_cases)
  case (1 r d)
  moreover have "distinct (map snd (map (\<lambda>(r, tag). (r, tagged_json (req_TaskId r) tag)) qs))"
    using assms by (simp add: tagged_ok_def comp_def case_prod_unfold)
  ultimately show ?case
    unfolding tagged_codec_def table_codec_def codec.simps by (rule map_of_swap [rotated])
next
  case (2 p d)
  moreover have "distinct (map snd (map (\<lambda>(p, tag). (p, tagged_json (resp_TaskId p) tag)) ps))"
    using assms by (simp add: tagged_ok_def comp_def case_prod_unfold)
  ultimately show ?case
    unfolding tagged_codec_def table_codec_def codec.simps by (rule map_of_swap [rotated])
next
  case (3 r d t)
  then have "map_of (map (\<lambda>(r, tag). (r, tagged_json (req_TaskId r) tag)) qs) r = Some d"
    by (simp add: tagged_codec_def table_codec_def)
  with assms obtain tag where "d = tagged_json (req_TaskId r) tag" "quote_free (req_TaskId r)"
    "quote_free tag" using tagged_table [of req_TaskId qs r d] by (auto simp: tagged_ok_def)
  then show ?case using 3 tagged_json_needle by simp
next
  case (4 p d t)
  then have "map_of (map (\<lambda>(p, tag). (p, tagged_json (resp_TaskId p) tag)) ps) p = Some d"
    by (simp add: tagged_codec_def table_codec_def)
  with assms obtain tag where "d = tagged_json (resp_TaskId p) tag" "quote_free (resp_TaskId p)"
    "quote_free tag" using tagged_table [of resp_TaskId ps p d] by (auto simp: tagged_ok_def)
  then show ?case using 4 tagged_json_needle by simp
qed

end
