(* ===== verification/Float64.thy ===== *)
theory Float64
  imports Prelude Complex_Main "HOL-Library.Log_Nat"
begin

text \<open>
  Go's \<open>float64\<close> arithmetic on finite values: a value is the rational it denotes and every
  operation rounds its exact result to 53 significant bits, ties to even, as IEEE 754 requires.
  Overflow to infinity and the subnormal range are left out: the sources only handle seconds,
  minutes, prices and counts, all far from either. A division by zero, which yields an infinity
  or a NaN, is a branch of the definitions that can meet one.
\<close>

section \<open>Rounding\<close>

definition exp2 :: "int \<Rightarrow> rat" where
  "exp2 e = (if 0 \<le> e then 2 ^ nat e else 1 / 2 ^ nat (- e))"

definition log2_floor :: "rat \<Rightarrow> int" where
  "log2_floor q = (case quotient_of q of (n, d) \<Rightarrow>
     let k = bitlen n - bitlen d in if exp2 k \<le> q then k else k - 1)"

definition round_even :: "rat \<Rightarrow> int" where
  "round_even q = (let f = \<lfloor>q\<rfloor>; r = q - of_int f in
     if r < 1 / 2 \<or> (r = 1 / 2 \<and> even f) then f else f + 1)"

definition rnd64_pos :: "rat \<Rightarrow> rat" where
  "rnd64_pos q = (let u = exp2 (log2_floor q - 52) in of_int (round_even (q / u)) * u)"

definition rnd64 :: "rat \<Rightarrow> rat" where
  "rnd64 q = (if q = 0 then 0 else if 0 < q then rnd64_pos q else - rnd64_pos (- q))"

text \<open>Powers of two.\<close>

lemma exp2_pos [simp]: "0 < exp2 e"
  by (simp add: exp2_def)

lemma exp2_powi: "exp2 e = 2 powi e"
  by (simp add: exp2_def power_int_def field_simps)

lemma exp2_add: "exp2 (a + b) = exp2 a * exp2 b"
  by (simp add: exp2_powi power_int_add)

lemma exp2_nat: "exp2 (int n) = 2 ^ n"
  by (simp add: exp2_def)

lemma exp2_mono: "a \<le> b \<Longrightarrow> exp2 a \<le> exp2 b"
  by (simp add: exp2_powi power_int_increasing)

lemma exp2_less: "exp2 a < exp2 b \<longleftrightarrow> a < b"
  using exp2_mono [of b a] power_int_strict_increasing [of a b "2::rat"]
  by (force simp: exp2_powi not_le)

lemma exp2_le: "exp2 a \<le> exp2 b \<longleftrightarrow> a \<le> b"
  using exp2_less [of b a] by (simp flip: not_less)

lemma exp2_diff: "exp2 (a - b) = exp2 a / exp2 b"
  by (simp add: exp2_powi power_int_diff)

lemma exp2_Suc: "exp2 (e + 1) = 2 * exp2 e"
  using exp2_add [of e 1] exp2_nat [of 1] by simp

lemma bitlen_exp2:
  assumes "0 < n"
  shows "exp2 (bitlen n - 1) \<le> of_int n" and "of_int n < exp2 (bitlen n)"
proof -
  have b: "1 \<le> bitlen n" using assms bitlen_eq_zero_iff [of n] bitlen_nonneg [of n] by linarith
  have "(of_int (2 ^ nat (bitlen n - 1)) :: rat) \<le> of_int n"
    using bitlen_bounds [OF assms] of_int_le_iff by blast
  then show "exp2 (bitlen n - 1) \<le> of_int n" using b by (simp add: exp2_def)
  have "(of_int n :: rat) < of_int (2 ^ nat (bitlen n))"
    using bitlen_bounds [OF assms] of_int_less_iff by blast
  then show "of_int n < exp2 (bitlen n)" using b by (simp add: exp2_def)
qed

lemma log2_floor_bounds:
  assumes "0 < q"
  shows "exp2 (log2_floor q) \<le> q" and "q < exp2 (log2_floor q + 1)"
proof -
  obtain n d where nd: "quotient_of q = (n, d)" by fastforce
  then have d: "0 < d" using quotient_of_denom_pos by blast
  have q: "q = of_int n / of_int d" using nd by (rule quotient_of_div)
  then have n: "0 < n" using assms d by (simp add: zero_less_divide_iff)
  define k where "k = bitlen n - bitlen d"
  have "exp2 (bitlen n - 1) / exp2 (bitlen d) \<le> q"
    unfolding q using bitlen_exp2 [OF n] bitlen_exp2 [OF d] n d
    by (intro frac_le) (auto intro: less_imp_le)
  then have lo: "exp2 (k - 1) \<le> q"
    using exp2_diff [of "bitlen n - 1" "bitlen d"] by (simp add: k_def algebra_simps)
  have "q < exp2 (bitlen n) / exp2 (bitlen d - 1)"
    unfolding q using bitlen_exp2 [OF n] bitlen_exp2 [OF d] n d
    by (intro frac_less) (auto intro: less_imp_le)
  then have hi: "q < exp2 (k + 1)"
    using exp2_diff [of "bitlen n" "bitlen d - 1"] by (simp add: k_def algebra_simps)
  show "exp2 (log2_floor q) \<le> q" and "q < exp2 (log2_floor q + 1)"
    using lo hi by (auto simp: log2_floor_def nd k_def Let_def split: if_splits)
qed

lemma log2_floor_mono: "0 < p \<Longrightarrow> p \<le> q \<Longrightarrow> log2_floor p \<le> log2_floor q"
proof (rule ccontr)
  assume pq: "0 < p" "p \<le> q" and "\<not> log2_floor p \<le> log2_floor q"
  then have "exp2 (log2_floor q + 1) \<le> exp2 (log2_floor p)" by (intro exp2_mono) simp
  then show False using log2_floor_bounds [of p] log2_floor_bounds [of q] pq by linarith
qed

text \<open>Rounding to an integer.\<close>

lemma round_even_of_int [simp]: "round_even (of_int n) = n"
  by (simp add: round_even_def)

lemma round_even_bounds: "\<bar>of_int (round_even q) - q\<bar> \<le> 1 / 2"
proof -
  have "of_int \<lfloor>q\<rfloor> \<le> q" "q < of_int \<lfloor>q\<rfloor> + 1" by linarith+
  then show ?thesis unfolding round_even_def Let_def abs_if by (auto; linarith)
qed

lemma round_even_mono:
  assumes "p \<le> q"
  shows "round_even p \<le> round_even q"
proof (cases "\<lfloor>p\<rfloor> = \<lfloor>q\<rfloor>")
  case True
  then show ?thesis using assms by (auto simp: round_even_def Let_def)
next
  case False
  then have "\<lfloor>p\<rfloor> + 1 \<le> \<lfloor>q\<rfloor>" using floor_mono [OF assms] by linarith
  then show ?thesis by (auto simp: round_even_def Let_def)
qed

text \<open>Rounding to 53 bits: monotone, exact on integers up to \<open>2 ^ 53\<close>, close to the argument.\<close>

lemma rnd64_pos_between:
  assumes q: "0 < q"
  shows "exp2 (log2_floor q) \<le> rnd64_pos q" and "rnd64_pos q \<le> exp2 (log2_floor q + 1)"
proof -
  define e where "e = log2_floor q"
  define u where "u = exp2 (e - 52)"
  have u: "0 < u" by (simp add: u_def)
  have lo: "exp2 e = of_int (2 ^ 52) * u"
    by (simp add: u_def exp2_diff exp2_nat [of 52, simplified])
  have hi: "exp2 (e + 1) = of_int (2 ^ 53) * u"
    using lo by (simp add: exp2_Suc)
  have "of_int (2 ^ 52) \<le> q / u" "q / u \<le> of_int (2 ^ 53)"
    using log2_floor_bounds [OF q] u lo hi by (simp_all add: e_def field_simps)
  from round_even_mono [OF this(1)] round_even_mono [OF this(2)]
  have b: "2 ^ 52 \<le> round_even (q / u)" "round_even (q / u) \<le> 2 ^ 53"
    by (simp_all only: round_even_of_int)
  have r: "rnd64_pos q = of_int (round_even (q / u)) * u"
    by (simp add: rnd64_pos_def u_def e_def Let_def)
  have "(of_int (2 ^ 52) :: rat) \<le> of_int (round_even (q / u))"
    "(of_int (round_even (q / u)) :: rat) \<le> of_int (2 ^ 53)" using b of_int_le_iff by blast+
  then show "exp2 (log2_floor q) \<le> rnd64_pos q" "rnd64_pos q \<le> exp2 (log2_floor q + 1)"
    using u unfolding r lo [unfolded e_def, folded u_def] e_def [symmetric] lo hi
    by (auto intro: mult_right_mono)
qed

lemma rnd64_pos_pos: "0 < q \<Longrightarrow> 0 < rnd64_pos q"
  using rnd64_pos_between(1) [of q] exp2_pos less_le_trans by blast

lemma rnd64_pos_mono:
  assumes "0 < p" "p \<le> q"
  shows "rnd64_pos p \<le> rnd64_pos q"
proof (cases "log2_floor p = log2_floor q")
  case True
  define u where "u = exp2 (log2_floor q - 52)"
  have u: "0 < u" by (simp add: u_def)
  have "round_even (p / u) \<le> round_even (q / u)"
    using assms(2) u by (intro round_even_mono) (simp add: divide_right_mono)
  then show ?thesis using u True by (simp add: rnd64_pos_def Let_def u_def)
next
  case False
  then have "log2_floor p + 1 \<le> log2_floor q" using log2_floor_mono [OF assms] by simp
  then have "exp2 (log2_floor p + 1) \<le> exp2 (log2_floor q)" by (rule exp2_mono)
  then show ?thesis using rnd64_pos_between [of p] rnd64_pos_between [of q] assms by linarith
qed

lemma rnd64_zero [simp]: "rnd64 0 = 0"
  by (simp add: rnd64_def)

lemma rnd64_mono: "p \<le> q \<Longrightarrow> rnd64 p \<le> rnd64 q"
  using rnd64_pos_mono [of p q] rnd64_pos_mono [of "- q" "- p"]
    rnd64_pos_pos [of q] rnd64_pos_pos [of "- p"]
  by (auto simp: rnd64_def)

lemma rnd64_neg: "rnd64 (- q) = - rnd64 q"
  by (auto simp: rnd64_def)

lemma rnd64_nonneg: "0 \<le> q \<Longrightarrow> 0 \<le> rnd64 q"
  using rnd64_mono [of 0 q] by simp

lemma rnd64_pos_grid:
  assumes q: "q = of_int m * exp2 f" and f: "log2_floor q - 52 \<le> f"
  shows "rnd64_pos q = q"
proof -
  define u where "u = exp2 (log2_floor q - 52)"
  define k where "k = f - (log2_floor q - 52)"
  have u: "0 < u" by (simp add: u_def)
  have "exp2 f = exp2 k * u"
    using exp2_add [of k "log2_floor q - 52"] by (simp add: u_def k_def)
  also have "exp2 k = of_int (2 ^ nat k)" using f by (simp add: exp2_def k_def)
  finally have "q / u = of_int (m * 2 ^ nat k)" using u by (subst q) simp
  then have "round_even (q / u) = m * 2 ^ nat k" by (simp only: round_even_of_int)
  then have "rnd64_pos q = (q / u) * u"
    using \<open>q / u = of_int (m * 2 ^ nat k)\<close> by (simp add: rnd64_pos_def Let_def u_def)
  then show ?thesis using u by simp
qed

lemma rnd64_pos_exact:
  assumes m: "0 < m" "m \<le> 2 ^ 53"
  shows "rnd64_pos (of_int m * exp2 f) = of_int m * exp2 f"
proof (cases "m = 2 ^ 53")
  case True
  have q: "of_int m * exp2 f = of_int 1 * exp2 (f + 53)"
    using True by (simp add: exp2_add exp2_nat [of 53, simplified])
  have "exp2 (log2_floor (of_int m * exp2 f)) \<le> exp2 (f + 53)"
    using log2_floor_bounds(1) [of "of_int m * exp2 f"] m unfolding q by simp
  then have "log2_floor (of_int m * exp2 f) \<le> f + 53"
    by (simp add: exp2_le)
  then show ?thesis by (intro rnd64_pos_grid [OF q]) simp
next
  case False
  then have "m < 2 ^ 53" using m by simp
  then have "(of_int m :: rat) < of_int (2 ^ 53)" using of_int_less_iff by blast
  then have "of_int m * exp2 f < exp2 (f + 53)"
    by (simp add: exp2_add exp2_nat [of 53, simplified])
  then have "exp2 (log2_floor (of_int m * exp2 f)) < exp2 (f + 53)"
    using log2_floor_bounds(1) [of "of_int m * exp2 f"] m by simp
  then have "log2_floor (of_int m * exp2 f) < f + 53" by (simp add: exp2_less)
  then show ?thesis by (intro rnd64_pos_grid [OF refl]) simp
qed

lemma rnd64_exact:
  assumes "\<bar>m\<bar> \<le> 2 ^ 53"
  shows "rnd64 (of_int m * exp2 f) = of_int m * exp2 f"
proof -
  consider "m = 0" | "0 < m" | "0 < - m" by linarith
  then show ?thesis
  proof cases
    case 1
    then show ?thesis by simp
  next
    case 2
    then show ?thesis using assms rnd64_pos_exact [of m f] by (simp add: rnd64_def)
  next
    case 3
    then have "rnd64 (of_int (- m) * exp2 f) = of_int (- m) * exp2 f"
      using assms rnd64_pos_exact [of "- m" f] mult_pos_pos [of "of_int (- m)" "exp2 f"]
      by (simp add: rnd64_def del: of_int_minus)
    then show ?thesis using rnd64_neg [of "of_int m * exp2 f"] by simp
  qed
qed

lemma rnd64_of_int: "\<bar>m\<bar> \<le> 2 ^ 53 \<Longrightarrow> rnd64 (of_int m) = of_int m"
  using rnd64_exact [of m 0] by (simp add: exp2_def)

lemma rnd64_numeral [simp]: "(numeral n :: int) \<le> 2 ^ 53 \<Longrightarrow> rnd64 (numeral n) = numeral n"
  using rnd64_of_int [of "numeral n"] by simp

lemma rnd64_one [simp]: "rnd64 1 = 1"
  using rnd64_of_int [of 1] by simp

lemma rnd64_error:
  assumes "0 < q"
  shows "\<bar>rnd64 q - q\<bar> \<le> q / 2 ^ 53"
proof -
  define u where "u = exp2 (log2_floor q - 52)"
  have u: "0 < u" by (simp add: u_def)
  have "\<bar>of_int (round_even (q / u)) - q / u\<bar> * u \<le> 1 / 2 * u"
    using round_even_bounds u by (intro mult_right_mono) auto
  then have "\<bar>(of_int (round_even (q / u)) - q / u) * u\<bar> \<le> u / 2"
    using u by (simp add: abs_mult)
  then have "\<bar>rnd64_pos q - q\<bar> \<le> u / 2"
    using u by (simp add: rnd64_pos_def Let_def u_def [symmetric] left_diff_distrib)
  also have "u / 2 = exp2 (log2_floor q) / 2 ^ 53"
    by (simp add: u_def exp2_diff exp2_nat [of 52, simplified])
  also have "\<dots> \<le> q / 2 ^ 53" using log2_floor_bounds(1) [OF assms] by (simp add: divide_right_mono)
  finally show ?thesis using assms by (simp add: rnd64_def)
qed

section \<open>Operations\<close>

definition f64_of_int :: "int \<Rightarrow> rat" where
  "f64_of_int n = rnd64 (of_int n)"

definition fadd :: "rat \<Rightarrow> rat \<Rightarrow> rat" where
  "fadd a b = rnd64 (a + b)"

definition fsub :: "rat \<Rightarrow> rat \<Rightarrow> rat" where
  "fsub a b = rnd64 (a - b)"

definition fmul :: "rat \<Rightarrow> rat \<Rightarrow> rat" where
  "fmul a b = rnd64 (a * b)"

definition fdiv :: "rat \<Rightarrow> rat \<Rightarrow> rat" where
  "fdiv a b = rnd64 (a / b)"

text \<open>
  The conversion to \<open>int64\<close> truncates towards zero; outside the range of \<open>int64\<close> its value is
  implementation-defined (the language specification), so it is the argument \<open>oor\<close>.
\<close>

definition trunc :: "rat \<Rightarrow> int" where
  "trunc q = (if 0 \<le> q then \<lfloor>q\<rfloor> else \<lceil>q\<rceil>)"

definition f64_to_int64 :: "(rat \<Rightarrow> int) \<Rightarrow> rat \<Rightarrow> int" where
  "f64_to_int64 oor q = (let n = trunc q in if - (2 ^ 63) \<le> n \<and> n < 2 ^ 63 then n else oor q)"

lemma trunc_of_int [simp]: "trunc (of_int n) = n"
  by (simp add: trunc_def)

lemma trunc_mono: "p \<le> q \<Longrightarrow> trunc p \<le> trunc q"
proof (cases "0 \<le> p \<or> \<not> 0 \<le> q")
  case True
  moreover assume "p \<le> q"
  ultimately show ?thesis by (auto simp: trunc_def intro: floor_mono ceiling_mono)
next
  case False
  then have "\<lceil>p\<rceil> \<le> 0" "0 \<le> \<lfloor>q\<rfloor>" by (auto simp: ceiling_le_iff)
  then have "\<lceil>p\<rceil> \<le> \<lfloor>q\<rfloor>" by (rule order_trans)
  with False show ?thesis by (simp add: trunc_def)
qed

text \<open>
  \<open>time.Duration\<close> is an \<open>int64\<close> of nanoseconds. \<open>Seconds\<close> and \<open>Minutes\<close> add the quotient and
  the fraction in \<open>float64\<close>.
\<close>

definition Nanosecond :: int where "Nanosecond = 1"
definition Second :: int where "Second = 1000000000"
definition Minute :: int where "Minute = 60 * Second"
definition Hour :: int where "Hour = 60 * Minute"

lemmas duration_defs = Second_def Minute_def Hour_def

definition tmod :: "int \<Rightarrow> int \<Rightarrow> int" where
  "tmod a b = a - b * tdiv a b"

definition Seconds :: "int \<Rightarrow> rat" where
  "Seconds d = fadd (f64_of_int (tdiv d Second)) (fdiv (f64_of_int (tmod d Second)) (10 ^ 9))"

definition Minutes :: "int \<Rightarrow> rat" where
  "Minutes d = fadd (f64_of_int (tdiv d Minute)) (fdiv (f64_of_int (tmod d Minute)) (60 * 10 ^ 9))"

lemma tdiv_mult [simp]: "0 < b \<Longrightarrow> tdiv (a * b) b = a" "0 < b \<Longrightarrow> tdiv (b * a) b = a"
proof -
  show *: "0 < b \<Longrightarrow> tdiv (a * b) b = a"
  proof -
    assume b: "0 < b"
    have "\<bar>a * b\<bar> div \<bar>b\<bar> = \<bar>a\<bar>" using b by (simp add: abs_mult)
    then show ?thesis using b by (auto simp: tdiv_def zero_le_mult_iff)
  qed
  then show "0 < b \<Longrightarrow> tdiv (b * a) b = a" by (simp add: mult.commute)
qed

lemma Seconds_whole: "\<bar>n\<bar> \<le> 2 ^ 53 \<Longrightarrow> Seconds (n * Second) = of_int n"
  by (simp add: Seconds_def tmod_def Second_def fadd_def fdiv_def f64_of_int_def rnd64_of_int)

section \<open>Square root\<close>

text \<open>
  \<open>math.Sqrt\<close> of a value that is not negative: the square root of the value scaled by a power of
  four is cut to an integer of more than 54 bits; when it is not exact, the odd half between that integer
  and the next one stands for it, which lies on the same side of every rounding boundary.
\<close>

function isqrt :: "int \<Rightarrow> int" where
  "isqrt n = (if n \<le> 0 then 0 else let r = 2 * isqrt (n div 4) in if (r + 1) * (r + 1) \<le> n then r + 1 else r)"
  by auto
termination by (relation "measure nat") auto

declare isqrt.simps [simp del]

lemma isqrt_bounds:
  assumes "0 \<le> n"
  shows "0 \<le> isqrt n \<and> isqrt n * isqrt n \<le> n \<and> n < (isqrt n + 1) * (isqrt n + 1)"
  using assms
proof (induction n rule: isqrt.induct)
  case (1 n)
  show ?case
  proof (cases "n = 0")
    case True
    then show ?thesis by (simp add: isqrt.simps)
  next
    case False
    let ?s = "isqrt (n div 4)"
    have ih: "0 \<le> ?s" "?s * ?s \<le> n div 4" "n div 4 < (?s + 1) * (?s + 1)" using 1 False by simp_all
    have "4 * (?s * ?s) \<le> n" "n < 4 * ((?s + 1) * (?s + 1))" using ih(2,3) by linarith+
    then have "(2 * ?s) * (2 * ?s) \<le> n" "n < (2 * ?s + 2) * (2 * ?s + 2)" by (simp_all add: algebra_simps)
    then show ?thesis using ih(1) False 1(2) unfolding isqrt.simps [of n]
      by (auto simp: Let_def algebra_simps)
  qed
qed

definition fsqrt :: "rat \<Rightarrow> rat" where
  "fsqrt x = (if x \<le> 0 then 0 else
     (let k = 60 - log2_floor x div 2; y = x * exp2 (2 * k); n = isqrt \<lfloor>y\<rfloor>
      in rnd64 ((if of_int n * of_int n = y then of_int n else of_int n + 1 / 2) / exp2 k)))"

section \<open>Relative error\<close>

lemma rnd64_rel:
  assumes "0 < q"
  shows "q * (1 - 1 / 2 ^ 53) \<le> rnd64 q" "rnd64 q \<le> q * (1 + 1 / 2 ^ 53)"
proof -
  have e: "q * (1 - x) = q - q * x" "q * (1 + x) = q + q * x" "q / 2 ^ 53 = q * (1 / 2 ^ 53)" for x
    by (simp_all add: algebra_simps)
  show "q * (1 - 1 / 2 ^ 53) \<le> rnd64 q" "rnd64 q \<le> q * (1 + 1 / 2 ^ 53)"
    using rnd64_error [OF assms] unfolding e abs_le_iff by linarith+
qed

lemma rnd64_positive: "0 < q \<Longrightarrow> 0 < rnd64 q"
proof -
  assume q: "0 < q"
  have "0 < q * (1 - 1 / 2 ^ 53)" by (rule mult_pos_pos [OF q]) simp
  then show ?thesis using rnd64_rel(1) [OF q] by linarith
qed

lemma rnd64_le_int: "q \<le> of_int n \<Longrightarrow> \<bar>n\<bar> \<le> 2 ^ 53 \<Longrightarrow> rnd64 q \<le> of_int n"
  using rnd64_mono [of q "of_int n"] rnd64_of_int [of n] by simp

lemma rnd64_ge_int: "of_int n \<le> q \<Longrightarrow> \<bar>n\<bar> \<le> 2 ^ 53 \<Longrightarrow> of_int n \<le> rnd64 q"
  using rnd64_mono [of "of_int n" q] rnd64_of_int [of n] by simp

end
