(* ===== verification/Queue.thy ===== *)
theory Queue
  imports Redis Proto Float64
begin

text \<open>
  \<open>internal/pkg/redisqueue/client.go\<close>: the reliable task and result queues on Redis lists, with
  a processing list, a dead letter list and a hash of start times each, the pending set that
  keeps at most one task per IP in flight, and the processed set of the idempotence check. The
  Lua scripts are functions on the Redis state, executed atomically by one remote call. A nil
  client or a nil message is \<open>None\<close>; the clock reading is the argument \<open>now\<close> (Unix seconds).
\<close>

section \<open>Keys, errors, client\<close>

definition KeyTaskQueue :: string where "KeyTaskQueue = ''animetop:queue:tasks''"
definition KeyTaskProcessingQueue :: string where "KeyTaskProcessingQueue = ''animetop:queue:tasks:processing''"
definition KeyTaskPendingSet :: string where "KeyTaskPendingSet = ''animetop:queue:tasks:pending''"
definition KeyTaskStartedHash :: string where "KeyTaskStartedHash = ''animetop:queue:tasks:started''"
definition KeyTaskDeadLetter :: string where "KeyTaskDeadLetter = ''animetop:queue:tasks:dead''"
definition KeyResultQueue :: string where "KeyResultQueue = ''animetop:queue:results''"
definition KeyResultProcessingQueue :: string where "KeyResultProcessingQueue = ''animetop:queue:results:processing''"
definition KeyResultStartedHash :: string where "KeyResultStartedHash = ''animetop:queue:results:started''"
definition KeyResultDeadLetter :: string where "KeyResultDeadLetter = ''animetop:queue:results:dead''"
definition KeyProcessedSet :: string where "KeyProcessedSet = ''animetop:processed''"
definition DefaultMaxRetries :: int where "DefaultMaxRetries = 3"

lemmas key_defs = KeyTaskQueue_def KeyTaskProcessingQueue_def KeyTaskPendingSet_def
  KeyTaskStartedHash_def KeyTaskDeadLetter_def KeyResultQueue_def KeyResultProcessingQueue_def
  KeyResultStartedHash_def KeyResultDeadLetter_def KeyProcessedSet_def

datatype queue_error =
    ErrNoTask | ErrNoResult | ErrTaskExists
  | ErrTaskNil | ErrResultNil | ErrNotInitialized | ErrTaskIdEmpty | ErrIpIdEmpty
  | ErrMarshal | ErrUnmarshal | ErrRedis

type_synonym 's client = "'s redis option"

definition NewClientWithRedis :: "'s redis option \<Rightarrow> queue_error + 's client" where
  "NewClientWithRedis rdb = (case rdb of None \<Rightarrow> Inl ErrNotInitialized | Some R \<Rightarrow> Inr (Some R))"

definition dedup_key :: "u64 \<Rightarrow> string" where
  "dedup_key ip = ''ip:'' @ FormatUint ip"

section \<open>Tasks: push, pop, acknowledge\<close>

definition pushTaskScript :: "'s redis \<Rightarrow> string \<Rightarrow> string \<Rightarrow> 's \<Rightarrow> nat \<times> 's" where
  "pushTaskScript R key data s = (case SADD R KeyTaskPendingSet key s of (added, s1) \<Rightarrow>
     if added = 0 then (0, s1) else (1, LPUSH R KeyTaskQueue data s1))"

definition PushTask :: "'s client \<Rightarrow> codec \<Rightarrow> CrawlRequest option \<Rightarrow> ('s, 'd) world
    \<Rightarrow> (queue_error + unit) \<times> ('s, 'd) world" where
  "PushTask c C task w = (case task of None \<Rightarrow> (Inl ErrTaskNil, w) | Some t \<Rightarrow>
     (case c of None \<Rightarrow> (Inl ErrNotInitialized, w) | Some R \<Rightarrow>
       if req_TaskId t = '''' then (Inl ErrTaskIdEmpty, w)
       else if req_IpId t = 0 then (Inl ErrIpIdEmpty, w)
       else (case MarshalReq C t of None \<Rightarrow> (Inl ErrMarshal, w) | Some data \<Rightarrow>
         (case rdo (pushTaskScript R (dedup_key (req_IpId t)) data) w of
            (None, w1) \<Rightarrow> (Inl ErrRedis, w1)
          | (Some r, w1) \<Rightarrow> if r = 0 then (Inl ErrTaskExists, w1) else (Inr (), w1)))))"

definition PushTaskForce :: "'s client \<Rightarrow> codec \<Rightarrow> CrawlRequest option \<Rightarrow> ('s, 'd) world
    \<Rightarrow> (queue_error + unit) \<times> ('s, 'd) world" where
  "PushTaskForce c C task w = (case task of None \<Rightarrow> (Inl ErrTaskNil, w) | Some t \<Rightarrow>
     (case c of None \<Rightarrow> (Inl ErrNotInitialized, w) | Some R \<Rightarrow>
       (case MarshalReq C t of None \<Rightarrow> (Inl ErrMarshal, w) | Some data \<Rightarrow>
         (case rdo (writec (LPUSH R KeyTaskQueue data)) w of
            (None, w1) \<Rightarrow> (Inl ErrRedis, w1)
          | (Some _, w1) \<Rightarrow>
              if req_TaskId t \<noteq> ''''
              then (Inr (), snd (rdo (SADD R KeyTaskPendingSet (req_TaskId t)) w1))
              else (Inr (), w1)))))"

definition PopTask :: "'s client \<Rightarrow> codec \<Rightarrow> int \<Rightarrow> ('s, 'd) world
    \<Rightarrow> (queue_error + CrawlRequest) \<times> ('s, 'd) world" where
  "PopTask c C now w = (case c of None \<Rightarrow> (Inl ErrNotInitialized, w) | Some R \<Rightarrow>
     (case rdo (RPOPLPUSH R KeyTaskQueue KeyTaskProcessingQueue) w of
        (None, w1) \<Rightarrow> (Inl ErrRedis, w1)
      | (Some None, w1) \<Rightarrow> (Inl ErrNoTask, w1)
      | (Some (Some raw), w1) \<Rightarrow>
          (case UnmarshalReq C raw of None \<Rightarrow> (Inl ErrUnmarshal, w1) | Some req \<Rightarrow>
            if req_TaskId req \<noteq> ''''
            then (Inr req, snd (rdo (writec
                   (HSET R KeyTaskStartedHash [(req_TaskId req, FormatInt now)])) w1))
            else (Inr req, w1))))"

text \<open>The scan of the acknowledge scripts stops at the first entry that holds the needle.\<close>

fun lua_find :: "string \<Rightarrow> string list \<Rightarrow> string option" where
  "lua_find needle [] = None"
| "lua_find needle (x # xs) = (if Contains x needle then Some x else lua_find needle xs)"

definition lua_remove :: "'s redis \<Rightarrow> string \<Rightarrow> string \<Rightarrow> 's \<Rightarrow> nat \<times> 's" where
  "lua_remove R queue taskId s = (case lua_find (taskid_needle taskId) (LRANGE R queue s) of
     None \<Rightarrow> (0, s) | Some x \<Rightarrow> (1, snd (LREM1 R queue x s)))"

definition ackTaskScript :: "'s redis \<Rightarrow> string \<Rightarrow> string \<Rightarrow> 's \<Rightarrow> nat \<times> 's" where
  "ackTaskScript R taskId dedupKey s =
     (case lua_remove R KeyTaskProcessingQueue taskId s of (removed, s1) \<Rightarrow>
        (removed, HDEL R KeyTaskStartedHash taskId (SREM R KeyTaskPendingSet dedupKey s1)))"

definition AckTask :: "'s client \<Rightarrow> CrawlRequest option \<Rightarrow> ('s, 'd) world
    \<Rightarrow> (queue_error + unit) \<times> ('s, 'd) world" where
  "AckTask c task w = (case task of None \<Rightarrow> (Inl ErrTaskNil, w) | Some t \<Rightarrow>
     (case c of None \<Rightarrow> (Inl ErrNotInitialized, w) | Some R \<Rightarrow>
       if req_TaskId t = '''' then (Inl ErrTaskIdEmpty, w)
       else (case rdo (ackTaskScript R (req_TaskId t) (dedup_key (req_IpId t))) w of
               (None, w1) \<Rightarrow> (Inl ErrRedis, w1) | (Some _, w1) \<Rightarrow> (Inr (), w1))))"

section \<open>Results: push, pop, acknowledge\<close>

definition PushResult :: "'s client \<Rightarrow> codec \<Rightarrow> CrawlResponse option \<Rightarrow> ('s, 'd) world
    \<Rightarrow> (queue_error + unit) \<times> ('s, 'd) world" where
  "PushResult c C res w = (case res of None \<Rightarrow> (Inl ErrResultNil, w) | Some p \<Rightarrow>
     (case c of None \<Rightarrow> (Inl ErrNotInitialized, w) | Some R \<Rightarrow>
       (case MarshalResp C p of None \<Rightarrow> (Inl ErrMarshal, w) | Some data \<Rightarrow>
         (case rdo (writec (LPUSH R KeyResultQueue data)) w of
            (None, w1) \<Rightarrow> (Inl ErrRedis, w1) | (Some _, w1) \<Rightarrow> (Inr (), w1)))))"

definition PopResult :: "'s client \<Rightarrow> codec \<Rightarrow> int \<Rightarrow> ('s, 'd) world
    \<Rightarrow> (queue_error + CrawlResponse) \<times> ('s, 'd) world" where
  "PopResult c C now w = (case c of None \<Rightarrow> (Inl ErrNotInitialized, w) | Some R \<Rightarrow>
     (case rdo (RPOPLPUSH R KeyResultQueue KeyResultProcessingQueue) w of
        (None, w1) \<Rightarrow> (Inl ErrRedis, w1)
      | (Some None, w1) \<Rightarrow> (Inl ErrNoResult, w1)
      | (Some (Some raw), w1) \<Rightarrow>
          (case UnmarshalResp C raw of None \<Rightarrow> (Inl ErrUnmarshal, w1) | Some resp \<Rightarrow>
            if resp_TaskId resp \<noteq> ''''
            then (Inr resp, snd (rdo (writec
                   (HSET R KeyResultStartedHash [(resp_TaskId resp, FormatInt now)])) w1))
            else (Inr resp, w1))))"

definition ackResultScript :: "'s redis \<Rightarrow> string \<Rightarrow> 's \<Rightarrow> nat \<times> 's" where
  "ackResultScript R taskId s =
     (case lua_remove R KeyResultProcessingQueue taskId s of (removed, s1) \<Rightarrow>
        (removed, HDEL R KeyResultStartedHash taskId s1))"

definition AckResult :: "'s client \<Rightarrow> CrawlResponse option \<Rightarrow> ('s, 'd) world
    \<Rightarrow> (queue_error + unit) \<times> ('s, 'd) world" where
  "AckResult c resp w = (case resp of None \<Rightarrow> (Inl ErrResultNil, w) | Some p \<Rightarrow>
     (case c of None \<Rightarrow> (Inl ErrNotInitialized, w) | Some R \<Rightarrow>
       if resp_TaskId p = '''' then (Inl ErrTaskIdEmpty, w)
       else (case rdo (ackResultScript R (resp_TaskId p)) w of
               (None, w1) \<Rightarrow> (Inl ErrRedis, w1) | (Some _, w1) \<Rightarrow> (Inr (), w1))))"

section \<open>Sizes\<close>

definition QueueDepth :: "'s client \<Rightarrow> ('s, 'd) world
    \<Rightarrow> (queue_error + nat \<times> nat) \<times> ('s, 'd) world" where
  "QueueDepth c w = (case c of None \<Rightarrow> (Inl ErrNotInitialized, w) | Some R \<Rightarrow>
     (case rdo (readc (LLEN R KeyTaskQueue)) w of
        (None, w1) \<Rightarrow> (Inl ErrRedis, w1)
      | (Some tasks, w1) \<Rightarrow>
          (case rdo (readc (LLEN R KeyResultQueue)) w1 of
             (None, w2) \<Rightarrow> (Inl ErrRedis, w2)
           | (Some results, w2) \<Rightarrow> (Inr (tasks, results), w2))))"

definition PendingSetSize :: "'s client \<Rightarrow> ('s, 'd) world
    \<Rightarrow> (queue_error + nat) \<times> ('s, 'd) world" where
  "PendingSetSize c w = (case c of None \<Rightarrow> (Inl ErrNotInitialized, w) | Some R \<Rightarrow>
     (case rdo (readc (SCARD R KeyTaskPendingSet)) w of
        (None, w1) \<Rightarrow> (Inl ErrRedis, w1) | (Some n, w1) \<Rightarrow> (Inr n, w1)))"


section \<open>Rescue of stuck entries\<close>

record RescueResult =
  Rescued :: nat
  DeadLeter :: nat

definition count_rescue :: "bool \<Rightarrow> RescueResult \<Rightarrow> RescueResult" where
  "count_rescue isDead r = (if isDead then r\<lparr>DeadLeter := DeadLeter r + 1\<rparr>
                            else r\<lparr>Rescued := Rescued r + 1\<rparr>)"

text \<open>\<open>int64 (timeout.Seconds ())\<close>; the value of an \<open>int64\<close> duration in seconds is in range.\<close>

definition threshold :: "int \<Rightarrow> int" where
  "threshold timeout = trunc (Seconds timeout)"

text \<open>The time test: by start time when one is recorded, else by the fallback time.\<close>

definition stuck :: "(string \<rightharpoonup> string) \<Rightarrow> int \<Rightarrow> int \<Rightarrow> string \<Rightarrow> int \<Rightarrow> bool" where
  "stuck startedTimes now thr taskID fallback = (case startedTimes taskID of
     None \<Rightarrow> fallback \<noteq> 0 \<and> \<not> wrap64 (now - fallback) \<le> thr
   | Some startedStr \<Rightarrow> (case Sscanf_d startedStr of None \<Rightarrow> False
       | Some started \<Rightarrow> \<not> wrap64 (now - started) \<le> thr))"

definition rescueScript :: "'s redis \<Rightarrow> string \<Rightarrow> string \<Rightarrow> string \<Rightarrow> bool \<Rightarrow> string \<Rightarrow> 's \<Rightarrow> nat \<times> 's" where
  "rescueScript R oldTask taskId newTask isDead dedupKey s =
     (case LREM1 R KeyTaskProcessingQueue oldTask s of (removed, s1) \<Rightarrow>
        if 0 < removed then
          let s2 = (if isDead
                    then SREM R KeyTaskPendingSet dedupKey (LPUSH R KeyTaskDeadLetter newTask s1)
                    else LPUSH R KeyTaskQueue newTask s1)
          in (1, HDEL R KeyTaskStartedHash taskId s2)
        else (0, s1))"

text \<open>One iteration up to the script: the entry to act on, its new text, whether it is dead.\<close>

definition rescue_task :: "codec \<Rightarrow> (string \<rightharpoonup> string) \<Rightarrow> int \<Rightarrow> int \<Rightarrow> string
    \<Rightarrow> (CrawlRequest \<times> string \<times> bool) option" where
  "rescue_task C startedTimes now thr raw = (case UnmarshalReq C raw of None \<Rightarrow> None | Some t \<Rightarrow>
     if req_TaskId t = '''' then None
     else if \<not> stuck startedTimes now thr (req_TaskId t) (req_CreatedAt t) then None
     else let t' = t\<lparr>req_RetryCount := req_RetryCount t + 1\<rparr>;
              isDead = (sint (req_RetryCount t') > DefaultMaxRetries)
          in (case MarshalReq C t' of None \<Rightarrow> None | Some newData \<Rightarrow> Some (t', newData, isDead)))"

fun rescue_tasks :: "'s redis \<Rightarrow> codec \<Rightarrow> (string \<rightharpoonup> string) \<Rightarrow> int \<Rightarrow> int \<Rightarrow> string list \<Rightarrow> RescueResult
    \<Rightarrow> ('s, 'd) world \<Rightarrow> RescueResult \<times> ('s, 'd) world" where
  "rescue_tasks R C startedTimes now thr [] res w = (res, w)"
| "rescue_tasks R C startedTimes now thr (raw # raws) res w =
     (case rescue_task C startedTimes now thr raw of
        None \<Rightarrow> rescue_tasks R C startedTimes now thr raws res w
      | Some (t', newData, isDead) \<Rightarrow>
          (case rdo (rescueScript R raw (req_TaskId t') newData isDead (dedup_key (req_IpId t'))) w of
             (None, w1) \<Rightarrow> rescue_tasks R C startedTimes now thr raws res w1
           | (Some r, w1) \<Rightarrow> rescue_tasks R C startedTimes now thr raws
                              (if r = 1 then count_rescue isDead res else res) w1))"

text \<open>The loop that deletes orphaned start times ignores the replies.\<close>

fun hdel_each :: "'s redis \<Rightarrow> string \<Rightarrow> string list \<Rightarrow> ('s, 'd) world \<Rightarrow> ('s, 'd) world" where
  "hdel_each R key [] w = w"
| "hdel_each R key (f # fs) w = hdel_each R key fs (snd (rdo (writec (HDEL R key f)) w))"

definition no_rescue :: RescueResult where
  "no_rescue = \<lparr>Rescued = 0, DeadLeter = 0\<rparr>"

definition RescueStuckTasks :: "'s client \<Rightarrow> codec \<Rightarrow> int \<Rightarrow> int \<Rightarrow> ('s, 'd) world
    \<Rightarrow> RescueResult \<times> queue_error option \<times> ('s, 'd) world" where
  "RescueStuckTasks c C timeout now w = (case c of
     None \<Rightarrow> (no_rescue, Some ErrNotInitialized, w) | Some R \<Rightarrow>
     (case rdo (readc (HGETALL R KeyTaskStartedHash)) w of
        (None, w1) \<Rightarrow> (no_rescue, Some ErrRedis, w1)
      | (Some startedTimes, w1) \<Rightarrow>
          if startedTimes = [] then (no_rescue, None, w1)
          else (case rdo (readc (LRANGE R KeyTaskProcessingQueue)) w1 of
             (None, w2) \<Rightarrow> (no_rescue, Some ErrRedis, w2)
           | (Some tasksRaw, w2) \<Rightarrow>
               if tasksRaw = []
               then (no_rescue, None, hdel_each R KeyTaskStartedHash (map fst startedTimes) w2)
               else (case rescue_tasks R C (map_of startedTimes) now (threshold timeout)
                            tasksRaw no_rescue w2 of (res, w3) \<Rightarrow> (res, None, w3)))))"

definition rescueResultScript :: "'s redis \<Rightarrow> string \<Rightarrow> string \<Rightarrow> string \<Rightarrow> bool \<Rightarrow> 's \<Rightarrow> nat \<times> 's" where
  "rescueResultScript R oldResult taskId newResult isDead s =
     (case LREM1 R KeyResultProcessingQueue oldResult s of (removed, s1) \<Rightarrow>
        if 0 < removed then
          let s2 = (if isDead then LPUSH R KeyResultDeadLetter newResult s1
                    else LPUSH R KeyResultQueue newResult s1)
          in (1, HDEL R KeyResultStartedHash taskId s2)
        else (0, s1))"

definition rescue_result :: "codec \<Rightarrow> (string \<rightharpoonup> string) \<Rightarrow> int \<Rightarrow> int \<Rightarrow> string
    \<Rightarrow> (CrawlResponse \<times> string \<times> bool) option" where
  "rescue_result C startedTimes now thr raw = (case UnmarshalResp C raw of None \<Rightarrow> None | Some p \<Rightarrow>
     if resp_TaskId p = '''' then None
     else if \<not> stuck startedTimes now thr (resp_TaskId p) (resp_CrawledAt p) then None
     else let p' = p\<lparr>resp_RetryCount := resp_RetryCount p + 1\<rparr>;
              isDead = (sint (resp_RetryCount p') > DefaultMaxRetries)
          in (case MarshalResp C p' of None \<Rightarrow> None | Some newData \<Rightarrow> Some (p', newData, isDead)))"

fun rescue_results :: "'s redis \<Rightarrow> codec \<Rightarrow> (string \<rightharpoonup> string) \<Rightarrow> int \<Rightarrow> int \<Rightarrow> string list \<Rightarrow> RescueResult
    \<Rightarrow> ('s, 'd) world \<Rightarrow> RescueResult \<times> ('s, 'd) world" where
  "rescue_results R C startedTimes now thr [] res w = (res, w)"
| "rescue_results R C startedTimes now thr (raw # raws) res w =
     (case rescue_result C startedTimes now thr raw of
        None \<Rightarrow> rescue_results R C startedTimes now thr raws res w
      | Some (p', newData, isDead) \<Rightarrow>
          (case rdo (rescueResultScript R raw (resp_TaskId p') newData isDead) w of
             (None, w1) \<Rightarrow> rescue_results R C startedTimes now thr raws res w1
           | (Some r, w1) \<Rightarrow> rescue_results R C startedTimes now thr raws
                              (if r = 1 then count_rescue isDead res else res) w1))"

definition RescueStuckResults :: "'s client \<Rightarrow> codec \<Rightarrow> int \<Rightarrow> int \<Rightarrow> ('s, 'd) world
    \<Rightarrow> RescueResult \<times> queue_error option \<times> ('s, 'd) world" where
  "RescueStuckResults c C timeout now w = (case c of
     None \<Rightarrow> (no_rescue, Some ErrNotInitialized, w) | Some R \<Rightarrow>
     (case rdo (readc (HGETALL R KeyResultStartedHash)) w of
        (None, w1) \<Rightarrow> (no_rescue, Some ErrRedis, w1)
      | (Some startedTimes, w1) \<Rightarrow>
          if startedTimes = [] then (no_rescue, None, w1)
          else (case rdo (readc (LRANGE R KeyResultProcessingQueue)) w1 of
             (None, w2) \<Rightarrow> (no_rescue, Some ErrRedis, w2)
           | (Some resultsRaw, w2) \<Rightarrow>
               if resultsRaw = []
               then (no_rescue, None, hdel_each R KeyResultStartedHash (map fst startedTimes) w2)
               else (case rescue_results R C (map_of startedTimes) now (threshold timeout)
                            resultsRaw no_rescue w2 of (res, w3) \<Rightarrow> (res, None, w3)))))"

section \<open>Deduplication, pending and processed sets\<close>

text \<open>The first loop: the entries whose task id was seen earlier in the list.\<close>

fun duplicates :: "codec \<Rightarrow> string list \<Rightarrow> string list \<Rightarrow> string list" where
  "duplicates C seen [] = []"
| "duplicates C seen (raw # raws) = (case UnmarshalReq C raw of
     None \<Rightarrow> duplicates C seen raws
   | Some t \<Rightarrow>
       if req_TaskId t = '''' then duplicates C seen raws
       else if req_TaskId t \<in> set seen then raw # duplicates C seen raws
       else duplicates C (req_TaskId t # seen) raws)"

fun lrem_each :: "'s redis \<Rightarrow> string list \<Rightarrow> nat \<Rightarrow> ('s, 'd) world \<Rightarrow> nat \<times> ('s, 'd) world" where
  "lrem_each R [] removed w = (removed, w)"
| "lrem_each R (raw # raws) removed w = (case rdo (LREM1 R KeyTaskQueue raw) w of
     (None, w1) \<Rightarrow> lrem_each R raws removed w1
   | (Some n, w1) \<Rightarrow> lrem_each R raws (if 0 < n then removed + 1 else removed) w1)"

definition DeduplicateQueue :: "'s client \<Rightarrow> codec \<Rightarrow> ('s, 'd) world
    \<Rightarrow> (queue_error + nat) \<times> ('s, 'd) world" where
  "DeduplicateQueue c C w = (case c of None \<Rightarrow> (Inl ErrNotInitialized, w) | Some R \<Rightarrow>
     (case rdo (readc (LRANGE R KeyTaskQueue)) w of
        (None, w1) \<Rightarrow> (Inl ErrRedis, w1)
      | (Some tasksRaw, w1) \<Rightarrow>
          if tasksRaw = [] then (Inr 0, w1)
          else (case lrem_each R (duplicates C [] tasksRaw) 0 w1 of
                  (removed, w2) \<Rightarrow> (Inr removed, w2))))"

definition RemoveFromPendingSet :: "'s client \<Rightarrow> string \<Rightarrow> ('s, 'd) world
    \<Rightarrow> (queue_error + unit) \<times> ('s, 'd) world" where
  "RemoveFromPendingSet c taskID w = (case c of None \<Rightarrow> (Inl ErrNotInitialized, w) | Some R \<Rightarrow>
     if taskID = '''' then (Inl ErrTaskIdEmpty, w)
     else (case rdo (writec (SREM R KeyTaskPendingSet taskID)) w of
             (None, w1) \<Rightarrow> (Inl ErrRedis, w1) | (Some _, w1) \<Rightarrow> (Inr (), w1)))"

definition MarkProcessed :: "'s client \<Rightarrow> string \<Rightarrow> int \<Rightarrow> ('s, 'd) world
    \<Rightarrow> (queue_error + unit) \<times> ('s, 'd) world" where
  "MarkProcessed c taskID ttl w = (case c of None \<Rightarrow> (Inl ErrNotInitialized, w) | Some R \<Rightarrow>
     if taskID = '''' then (Inl ErrTaskIdEmpty, w)
     else (case rdo (SADD R KeyProcessedSet taskID) w of
             (None, w1) \<Rightarrow> (Inl ErrRedis, w1)
           | (Some _, w1) \<Rightarrow> (Inr (), snd (rdo (writec (EXPIRE R KeyProcessedSet ttl)) w1))))"

definition IsProcessed :: "'s client \<Rightarrow> string \<Rightarrow> ('s, 'd) world
    \<Rightarrow> (queue_error + bool) \<times> ('s, 'd) world" where
  "IsProcessed c taskID w = (case c of None \<Rightarrow> (Inl ErrNotInitialized, w) | Some R \<Rightarrow>
     if taskID = '''' then (Inl ErrTaskIdEmpty, w)
     else (case rdo (readc (SISMEMBER R KeyProcessedSet taskID)) w of
             (None, w1) \<Rightarrow> (Inl ErrRedis, w1) | (Some b, w1) \<Rightarrow> (Inr b, w1)))"

section \<open>Startup recovery\<close>

text \<open>
  The loops end when Redis answers that the list is empty; \<open>fuel\<close> bounds the iterations, and
  \<open>None\<close> means that it ran out.
\<close>

fun recover_tasks :: "nat \<Rightarrow> 's redis \<Rightarrow> codec \<Rightarrow> nat \<Rightarrow> ('s, 'd) world
    \<Rightarrow> (nat \<times> queue_error option \<times> ('s, 'd) world) option" where
  "recover_tasks 0 R C recovered w = None"
| "recover_tasks (Suc fuel) R C recovered w =
     (case rdo (RPOPLPUSH R KeyTaskProcessingQueue KeyTaskQueue) w of
        (None, w1) \<Rightarrow> Some (recovered, Some ErrRedis, w1)
      | (Some None, w1) \<Rightarrow> Some (recovered, None, w1)
      | (Some (Some raw), w1) \<Rightarrow> recover_tasks fuel R C (recovered + 1)
          (case UnmarshalReq C raw of None \<Rightarrow> w1 | Some t \<Rightarrow>
             if req_TaskId t \<noteq> ''''
             then snd (rdo (writec (HDEL R KeyTaskStartedHash (req_TaskId t))) w1) else w1))"

definition RecoverOrphanedTasks :: "nat \<Rightarrow> 's client \<Rightarrow> codec \<Rightarrow> ('s, 'd) world
    \<Rightarrow> (nat \<times> queue_error option \<times> ('s, 'd) world) option" where
  "RecoverOrphanedTasks fuel c C w = (case c of
     None \<Rightarrow> Some (0, Some ErrNotInitialized, w) | Some R \<Rightarrow> recover_tasks fuel R C 0 w)"

fun recover_results :: "nat \<Rightarrow> 's redis \<Rightarrow> codec \<Rightarrow> nat \<Rightarrow> ('s, 'd) world
    \<Rightarrow> (nat \<times> queue_error option \<times> ('s, 'd) world) option" where
  "recover_results 0 R C recovered w = None"
| "recover_results (Suc fuel) R C recovered w =
     (case rdo (RPOPLPUSH R KeyResultProcessingQueue KeyResultQueue) w of
        (None, w1) \<Rightarrow> Some (recovered, Some ErrRedis, w1)
      | (Some None, w1) \<Rightarrow> Some (recovered, None, w1)
      | (Some (Some raw), w1) \<Rightarrow> recover_results fuel R C (recovered + 1)
          (case UnmarshalResp C raw of None \<Rightarrow> w1 | Some p \<Rightarrow>
             if resp_TaskId p \<noteq> ''''
             then snd (rdo (writec (HDEL R KeyResultStartedHash (resp_TaskId p))) w1) else w1))"

definition RecoverOrphanedResults :: "nat \<Rightarrow> 's client \<Rightarrow> codec \<Rightarrow> ('s, 'd) world
    \<Rightarrow> (nat \<times> queue_error option \<times> ('s, 'd) world) option" where
  "RecoverOrphanedResults fuel c C w = (case c of
     None \<Rightarrow> Some (0, Some ErrNotInitialized, w) | Some R \<Rightarrow> recover_results fuel R C 0 w)"

section \<open>Statistics\<close>

record QueueStats =
  TaskQueueLen :: nat
  TaskProcessingLen :: nat
  TaskDeadLetterLen :: nat
  TaskPendingSetSize :: nat
  ResultQueueLen :: nat
  ResultProcessingLen :: nat
  ResultDeadLetterLen :: nat
  ProcessedSetSize :: nat

text \<open>A size that cannot be read stays 0.\<close>

definition read_or_zero :: "('s \<Rightarrow> nat) \<Rightarrow> ('s, 'd) world \<Rightarrow> nat \<times> ('s, 'd) world" where
  "read_or_zero f w = (case rdo (readc f) w of
     (None, w1) \<Rightarrow> (0, w1) | (Some n, w1) \<Rightarrow> (n, w1))"

definition GetQueueStats :: "'s client \<Rightarrow> ('s, 'd) world
    \<Rightarrow> (queue_error + QueueStats) \<times> ('s, 'd) world" where
  "GetQueueStats c w = (case c of None \<Rightarrow> (Inl ErrNotInitialized, w) | Some R \<Rightarrow>
     let (a, w) = read_or_zero (LLEN R KeyTaskQueue) w;
         (b, w) = read_or_zero (LLEN R KeyTaskProcessingQueue) w;
         (d, w) = read_or_zero (LLEN R KeyTaskDeadLetter) w;
         (e, w) = read_or_zero (SCARD R KeyTaskPendingSet) w;
         (f, w) = read_or_zero (LLEN R KeyResultQueue) w;
         (g, w) = read_or_zero (LLEN R KeyResultProcessingQueue) w;
         (h, w) = read_or_zero (LLEN R KeyResultDeadLetter) w;
         (i, w) = read_or_zero (SCARD R KeyProcessedSet) w
     in (Inr \<lparr>TaskQueueLen = a, TaskProcessingLen = b, TaskDeadLetterLen = d,
              TaskPendingSetSize = e, ResultQueueLen = f, ResultProcessingLen = g,
              ResultDeadLetterLen = h, ProcessedSetSize = i\<rparr>, w))"

end
