(* ===== verification/QueueProofs.thy ===== *)
theory QueueProofs
  imports Queue
begin

text \<open>
  Correctness of the task queue. \<open>live_ok\<close> is the invariant on the entries that wait or are being
  processed and on the pending set: every entry is a canonical encoding, no two tasks share an IP
  or a task id, the key of every task's IP is in the pending set, and no task was retried more
  often than allowed. \<open>task_step\<close> lists the atomic commands that the operations of the client
  issue against the task keys, so that any interleaving of any number of clients is a sequence of
  steps; the operations are shown to be such sequences whatever happens to their remote calls.
\<close>

section \<open>The invariant\<close>

definition decode :: "codec \<Rightarrow> string list \<Rightarrow> CrawlRequest list" where
  "decode C raws = List.map_filter (UnmarshalReq C) raws"

definition canonical :: "codec \<Rightarrow> string \<Rightarrow> bool" where
  "canonical C raw = (case UnmarshalReq C raw of None \<Rightarrow> False | Some t \<Rightarrow> MarshalReq C t = Some raw)"

definition retries_ok :: "CrawlRequest \<Rightarrow> bool" where
  "retries_ok t \<longleftrightarrow> 0 \<le> sint (req_RetryCount t) \<and> sint (req_RetryCount t) \<le> DefaultMaxRetries"

definition live_ok :: "codec \<Rightarrow> string list \<Rightarrow> (string \<Rightarrow> bool) \<Rightarrow> bool" where
  "live_ok C raws pend \<longleftrightarrow> list_all (canonical C) raws \<and>
     distinct (map req_IpId (decode C raws)) \<and> distinct (map req_TaskId (decode C raws)) \<and>
     list_all (\<lambda>t. pend (dedup_key (req_IpId t)) \<and> retries_ok t) (decode C raws)"

definition live_raws :: "'s redis \<Rightarrow> 's \<Rightarrow> string list" where
  "live_raws R s = LRANGE R KeyTaskQueue s @ LRANGE R KeyTaskProcessingQueue s"

definition task_inv :: "'s redis \<Rightarrow> codec \<Rightarrow> 's \<Rightarrow> bool" where
  "task_inv R C s \<longleftrightarrow> live_ok C (live_raws R s) (\<lambda>k. SISMEMBER R KeyTaskPendingSet k s)"

lemma dedup_key_inj [simp]: "dedup_key a = dedup_key b \<longleftrightarrow> a = b"
  by (simp add: dedup_key_def)

lemma decode_simps [simp]:
  "decode C [] = []"
  "decode C (raw # raws) = (case UnmarshalReq C raw of None \<Rightarrow> decode C raws | Some t \<Rightarrow> t # decode C raws)"
  "decode C (xs @ ys) = decode C xs @ decode C ys"
  by (simp_all add: decode_def map_filter_append List.map_filter_def split: option.split)

lemma set_decode: "set (decode C raws) = {t. \<exists>raw \<in> set raws. UnmarshalReq C raw = Some t}"
  by (simp add: decode_def map_filter_set)

lemma live_ok_cong:
  assumes "mset xs = mset ys" and "live_ok C xs p"
  shows "live_ok C ys p"
proof -
  have m: "mset (decode C xs) = mset (decode C ys)"
    unfolding decode_def by (rule mset_map_filter_cong [OF assms(1)])
  have s: "set xs = set ys" "set (decode C xs) = set (decode C ys)"
    using assms(1) m by (auto dest: mset_eq_setD)
  have "distinct (map f (decode C ys))" if "distinct (map f (decode C xs))"
    for f :: "CrawlRequest \<Rightarrow> 'x"
    using that m by (metis mset_eq_imp_distinct_iff mset_map)
  note d = this
  show ?thesis
    using assms(2) d [of req_IpId] d [of req_TaskId] s unfolding live_ok_def by (auto simp: list_all_iff)
qed

lemma live_ok_add:
  assumes "live_ok C raws p" "MarshalReq C t = Some d" "UnmarshalReq C d = Some t" "retries_ok t"
    and "\<not> p (dedup_key (req_IpId t))" "req_TaskId t \<notin> req_TaskId ` set (decode C raws)"
    and "\<And>k. p k \<Longrightarrow> p' k" "p' (dedup_key (req_IpId t))"
  shows "live_ok C (d # raws) p'"
proof -
  have "req_IpId t \<notin> req_IpId ` set (decode C raws)"
    using assms(1,5) by (auto simp: live_ok_def list_all_iff)
  with assms show ?thesis by (auto simp: live_ok_def canonical_def list_all_iff)
qed

lemma live_ok_weaken: "live_ok C raws p \<Longrightarrow> (\<And>k. p k \<Longrightarrow> p' k) \<Longrightarrow> live_ok C raws p'"
  by (auto simp: live_ok_def list_all_iff)

lemma live_ok_drop: "live_ok C (raw # raws) p \<Longrightarrow> live_ok C raws p"
  by (auto simp: live_ok_def list_all_iff split: option.splits)

lemma live_ok_replace:
  assumes "live_ok C (raw # raws) p" "UnmarshalReq C raw = Some t"
    and "MarshalReq C t' = Some d" "UnmarshalReq C d = Some t'" "retries_ok t'"
    and "req_IpId t' = req_IpId t" "req_TaskId t' = req_TaskId t"
  shows "live_ok C (d # raws) p"
  using assms by (auto simp: live_ok_def canonical_def list_all_iff)

lemma live_ok_unpend:
  assumes "live_ok C raws p" "ip \<notin> req_IpId ` set (decode C raws)"
  shows "live_ok C raws (\<lambda>k. p k \<and> k \<noteq> dedup_key ip)"
  using assms by (auto simp: live_ok_def list_all_iff)

lemma live_ok_drop_ip:
  assumes "live_ok C (raw # raws) p" "UnmarshalReq C raw = Some t"
  shows "req_IpId t \<notin> req_IpId ` set (decode C raws)"
  using assms by (auto simp: live_ok_def)

section \<open>Atomic steps\<close>

text \<open>
  An acknowledgement is due when the only live task of the IP, if any, is the acknowledged one
  and is being processed.
\<close>

definition ack_due :: "'s redis \<Rightarrow> codec \<Rightarrow> CrawlRequest \<Rightarrow> 's \<Rightarrow> bool" where
  "ack_due R C t s \<longleftrightarrow>
     list_all (\<lambda>u. req_IpId u \<noteq> req_IpId t) (decode C (LRANGE R KeyTaskQueue s)) \<and>
     list_all (\<lambda>u. req_IpId u = req_IpId t \<longrightarrow> req_TaskId u = req_TaskId t)
       (decode C (LRANGE R KeyTaskProcessingQueue s))"

definition fresh_id :: "'s redis \<Rightarrow> codec \<Rightarrow> string \<Rightarrow> 's \<Rightarrow> bool" where
  "fresh_id R C i s \<longleftrightarrow> list_all (\<lambda>u. req_TaskId u \<noteq> i) (decode C (live_raws R s))"

inductive move_step :: "'s redis \<Rightarrow> codec \<Rightarrow> 's \<Rightarrow> 's \<Rightarrow> bool" for R C where
  pop: "move_step R C s (snd (RPOPLPUSH R KeyTaskQueue KeyTaskProcessingQueue s))"
| started: "move_step R C s (HSET R KeyTaskStartedHash fvs s)"
| unstarted: "move_step R C s (HDEL R KeyTaskStartedHash f s)"
| rescue: "rescue_task C started now thr raw = Some (t', newData, isDead) \<Longrightarrow>
    move_step R C s (snd (rescueScript R raw (req_TaskId t') newData isDead (dedup_key (req_IpId t')) s))"
| recover: "move_step R C s (snd (RPOPLPUSH R KeyTaskProcessingQueue KeyTaskQueue s))"

inductive task_step :: "'s redis \<Rightarrow> codec \<Rightarrow> 's \<Rightarrow> 's \<Rightarrow> bool" for R C where
  move: "move_step R C s s' \<Longrightarrow> task_step R C s s'"
| push: "MarshalReq C t = Some data \<Longrightarrow> retries_ok t \<Longrightarrow>
    SISMEMBER R KeyTaskPendingSet (dedup_key (req_IpId t)) s \<or> fresh_id R C (req_TaskId t) s \<Longrightarrow>
    task_step R C s (snd (pushTaskScript R (dedup_key (req_IpId t)) data s))"
| ack: "plain_id (req_TaskId t) \<Longrightarrow> ack_due R C t s \<Longrightarrow>
    task_step R C s (snd (ackTaskScript R (req_TaskId t) (dedup_key (req_IpId t)) s))"
| remove: "task_step R C s (snd (LREM1 R KeyTaskQueue raw s))"

locale queue_server = redis_server R view + protojson C
  for R :: "'s redis" and view :: "'s \<Rightarrow> keyspace" and C :: codec
begin

lemma keys_distinct [simp]:
  "KeyTaskQueue \<noteq> KeyTaskProcessingQueue" "KeyTaskProcessingQueue \<noteq> KeyTaskQueue"
  "KeyTaskDeadLetter \<noteq> KeyTaskProcessingQueue" "KeyTaskDeadLetter \<noteq> KeyTaskQueue"
  "KeyTaskProcessingQueue \<noteq> KeyTaskDeadLetter" "KeyTaskQueue \<noteq> KeyTaskDeadLetter"
  by (simp_all add: key_defs)

lemma task_inv_view:
  "task_inv R C s \<longleftrightarrow> live_ok C (lists (view s) KeyTaskQueue @ lists (view s) KeyTaskProcessingQueue)
     (\<lambda>k. k \<in> sets (view s) KeyTaskPendingSet)"
  by (simp add: task_inv_def live_raws_def read_simps)

lemma task_inv_cong:
  "lists (view s') KeyTaskQueue = lists (view s) KeyTaskQueue \<Longrightarrow>
   lists (view s') KeyTaskProcessingQueue = lists (view s) KeyTaskProcessingQueue \<Longrightarrow>
   sets (view s') KeyTaskPendingSet = sets (view s) KeyTaskPendingSet \<Longrightarrow>
   task_inv R C s \<Longrightarrow> task_inv R C s'"
  by (simp add: task_inv_view)

lemma push_inv:
  assumes inv: "task_inv R C s" and d: "MarshalReq C t = Some data" and r: "retries_ok t"
    and f: "SISMEMBER R KeyTaskPendingSet (dedup_key (req_IpId t)) s \<or> fresh_id R C (req_TaskId t) s"
  shows "task_inv R C (snd (pushTaskScript R (dedup_key (req_IpId t)) data s))"
proof (cases "dedup_key (req_IpId t) \<in> sets (view s) KeyTaskPendingSet")
  case True
  then have "snd (pushTaskScript R (dedup_key (req_IpId t)) data s) = snd (SADD R KeyTaskPendingSet (dedup_key (req_IpId t)) s)"
    using sadd_count [of KeyTaskPendingSet "dedup_key (req_IpId t)" s]
    by (auto simp: pushTaskScript_def split: prod.split)
  then show ?thesis using inv True by (auto simp: task_inv_view sadd_view insert_absorb)
next
  case False
  obtain s1 where s1: "SADD R KeyTaskPendingSet (dedup_key (req_IpId t)) s = (1, s1)"
    using sadd_count [of KeyTaskPendingSet "dedup_key (req_IpId t)" s] False
    by (metis prod.collapse)
  have v: "view s1 = (view s)\<lparr>sets := (sets (view s))(KeyTaskPendingSet :=
      insert (dedup_key (req_IpId t)) (sets (view s) KeyTaskPendingSet))\<rparr>"
    using sadd_view [of KeyTaskPendingSet "dedup_key (req_IpId t)" s] s1 by simp
  have "live_ok C (data # lists (view s) KeyTaskQueue @ lists (view s) KeyTaskProcessingQueue)
      (\<lambda>k. k \<in> insert (dedup_key (req_IpId t)) (sets (view s) KeyTaskPendingSet))"
    using inv d req_roundtrip [OF d] r False f
    by (intro live_ok_add [where t = t and p = "\<lambda>k. k \<in> sets (view s) KeyTaskPendingSet"])
       (auto simp: task_inv_view fresh_id_def live_raws_def read_simps list_all_iff)
  then show ?thesis using s1 by (simp add: pushTaskScript_def task_inv_view lpush v)
qed

lemma move_inv:
  assumes "task_inv R C s"
    and "(a, b) \<in> {(KeyTaskQueue, KeyTaskProcessingQueue), (KeyTaskProcessingQueue, KeyTaskQueue)}"
  shows "task_inv R C (snd (RPOPLPUSH R a b s))"
proof -
  have ab: "a \<noteq> b" using assms(2) by auto
  show ?thesis
  proof (cases rule: rpoplpush_cases [OF ab, of s])
    case 1
    then show ?thesis using assms by simp
  next
    case (2 xs x s')
    show ?thesis using assms 2 unfolding task_inv_view
      by (auto elim!: live_ok_cong [rotated])
  qed
qed

lemma rescue_task_facts:
  assumes "rescue_task C started now thr raw = Some (t', newData, isDead)"
  obtains t where "UnmarshalReq C raw = Some t" "MarshalReq C t' = Some newData"
    "UnmarshalReq C newData = Some t'" "t' = t\<lparr>req_RetryCount := req_RetryCount t + 1\<rparr>"
    "isDead = (sint (req_RetryCount t') > DefaultMaxRetries)" "req_TaskId t \<noteq> ''''"
    "stuck started now thr (req_TaskId t) (req_CreatedAt t)"
  using assms req_roundtrip
  by (fastforce simp: rescue_task_def Let_def split: option.splits if_splits)

lemma retries_ok_Suc:
  assumes "retries_ok t" "\<not> sint (req_RetryCount t + 1) > DefaultMaxRetries"
  shows "retries_ok (t\<lparr>req_RetryCount := req_RetryCount t + 1\<rparr>)"
proof -
  have "sint (req_RetryCount t + 1) = sint (req_RetryCount t) + 1"
    using assms(1) unfolding sint_word_add
    by (subst signed_take_bit_int_eq_self) (simp_all add: retries_ok_def DefaultMaxRetries_def)
  then show ?thesis using assms by (simp add: retries_ok_def)
qed

lemma live_ok_retries: "live_ok C (raw # raws) p \<Longrightarrow> UnmarshalReq C raw = Some t \<Longrightarrow> retries_ok t"
  by (simp add: live_ok_def)

lemma rescue_inv:
  assumes inv: "task_inv R C s" and rt: "rescue_task C started now thr raw = Some (t', newData, isDead)"
  shows "task_inv R C (snd (rescueScript R raw (req_TaskId t') newData isDead (dedup_key (req_IpId t')) s))"
proof -
  let ?q = "lists (view s) KeyTaskQueue" and ?p = "lists (view s) KeyTaskProcessingQueue"
  let ?pend = "\<lambda>k. k \<in> sets (view s) KeyTaskPendingSet"
  obtain t where t: "UnmarshalReq C raw = Some t" "MarshalReq C t' = Some newData"
    "UnmarshalReq C newData = Some t'" "t' = t\<lparr>req_RetryCount := req_RetryCount t + 1\<rparr>"
    "isDead = (sint (req_RetryCount t') > DefaultMaxRetries)"
    using rt by (rule rescue_task_facts)
  obtain n s1 where s1: "LREM1 R KeyTaskProcessingQueue raw s = (n, s1)" by fastforce
  have n: "n = (if raw \<in> set ?p then 1 else 0)"
    using lrem1_count [of KeyTaskProcessingQueue raw s] s1 by simp
  have v: "view s1 = (view s)\<lparr>lists := (lists (view s))(KeyTaskProcessingQueue := remove1 raw ?p)\<rparr>"
    using lrem1_view [of KeyTaskProcessingQueue raw s] s1 by simp
  show ?thesis
  proof (cases "raw \<in> set ?p")
    case False
    then show ?thesis using inv s1 n v
      by (simp add: rescueScript_def task_inv_view remove1_idem)
  next
    case True
    have "live_ok C (?q @ ?p) ?pend" using inv by (simp add: task_inv_view)
    moreover have "mset (?q @ ?p) = mset (raw # ?q @ remove1 raw ?p)" using True by simp
    ultimately have live: "live_ok C (raw # ?q @ remove1 raw ?p) ?pend"
      by (rule live_ok_cong [rotated])
    have keep: "live_ok C (newData # ?q @ remove1 raw ?p) ?pend" if "\<not> isDead"
      using live_ok_replace [OF live t(1-3)] retries_ok_Suc [of t] live_ok_retries [OF live t(1)] that
        t(4,5) by simp
    have drop: "live_ok C (?q @ remove1 raw ?p) (\<lambda>k. k \<in> sets (view s) KeyTaskPendingSet \<and> k \<noteq> dedup_key (req_IpId t'))"
      using live_ok_unpend [OF live_ok_drop [OF live] live_ok_drop_ip [OF live t(1)]] t(4) by simp
    show ?thesis using s1 n v True keep drop
      by (simp add: rescueScript_def Let_def task_inv_view hdel lpush srem)
  qed
qed

lemma lua_find_Some: "lua_find n xs = Some x \<Longrightarrow> x \<in> set xs \<and> Contains x n"
  by (induction xs) (auto split: if_splits)

lemma lua_find_None: "lua_find n xs = None \<Longrightarrow> x \<in> set xs \<Longrightarrow> \<not> Contains x n"
  by (induction xs) (auto split: if_splits)

lemma canonical_needle:
  assumes "canonical C raw" "UnmarshalReq C raw = Some t" "plain_id i"
  shows "Contains raw (taskid_needle i) \<longleftrightarrow> i = req_TaskId t"
  using assms req_needle by (simp add: canonical_def)

lemma canonical_ex: "canonical C raw \<Longrightarrow> \<exists>t. UnmarshalReq C raw = Some t \<and> MarshalReq C t = Some raw"
  by (auto simp: canonical_def split: option.splits)

lemma lua_remove_view:
  "view (snd (lua_remove R k i s)) = (view s)\<lparr>lists := (lists (view s))(k :=
     (case lua_find (taskid_needle i) (lists (view s) k) of None \<Rightarrow> lists (view s) k
      | Some x \<Rightarrow> remove1 x (lists (view s) k)))\<rparr>"
  by (simp add: lua_remove_def lrange lrem1_view split: option.split)

lemma ack_inv:
  assumes inv: "task_inv R C s" and pl: "plain_id (req_TaskId t)" and due: "ack_due R C t s"
  shows "task_inv R C (snd (ackTaskScript R (req_TaskId t) (dedup_key (req_IpId t)) s))"
    and "ack_due R C t (snd (ackTaskScript R (req_TaskId t) (dedup_key (req_IpId t)) s))"
proof -
  let ?q = "lists (view s) KeyTaskQueue" and ?p = "lists (view s) KeyTaskProcessingQueue"
  let ?pend = "\<lambda>k. k \<in> sets (view s) KeyTaskPendingSet"
  define p' where "p' = (case lua_find (taskid_needle (req_TaskId t)) ?p of None \<Rightarrow> ?p
    | Some x \<Rightarrow> remove1 x ?p)"
  have live: "live_ok C (?q @ ?p) ?pend" using inv by (simp add: task_inv_view)
  have q: "req_IpId t \<notin> req_IpId ` set (decode C ?q)"
    using due by (auto simp: ack_due_def list_all_iff lrange)
  have p: "req_TaskId u = req_TaskId t" if "u \<in> set (decode C ?p)" "req_IpId u = req_IpId t" for u
    using due that by (auto simp: ack_due_def list_all_iff lrange)
  have can: "canonical C raw" if "raw \<in> set ?p" for raw
    using live that by (auto simp: live_ok_def list_all_iff)
  have *: "live_ok C (?q @ p') ?pend \<and> req_IpId t \<notin> req_IpId ` set (decode C p')"
  proof (cases "lua_find (taskid_needle (req_TaskId t)) ?p")
    case None
    have "req_TaskId u \<noteq> req_TaskId t" if u: "u \<in> set (decode C ?p)" for u
    proof
      assume id: "req_TaskId u = req_TaskId t"
      obtain raw where raw: "raw \<in> set ?p" "UnmarshalReq C raw = Some u"
        using u by (auto simp: set_decode)
      have "Contains raw (taskid_needle (req_TaskId t))"
        using canonical_needle [OF can [OF raw(1)] raw(2) pl] id by simp
      then show False using lua_find_None [OF None raw(1)] by simp
    qed
    then have "req_IpId t \<notin> req_IpId ` set (decode C ?p)" using p by (metis imageE)
    then show ?thesis using None live by (simp add: p'_def)
  next
    case (Some x)
    then have x: "x \<in> set ?p" "Contains x (taskid_needle (req_TaskId t))" using lua_find_Some by blast+
    then obtain u where u: "UnmarshalReq C x = Some u" "req_TaskId t = req_TaskId u"
      using can canonical_ex canonical_needle [OF _ _ pl] by metis
    have "mset (?q @ ?p) = mset (x # ?q @ remove1 x ?p)" using x by simp
    then have l: "live_ok C (x # ?q @ remove1 x ?p) ?pend" using live live_ok_cong by blast
    then have "req_TaskId u \<notin> req_TaskId ` set (decode C (remove1 x ?p))"
      using u by (simp add: live_ok_def)
    moreover have "set (decode C (remove1 x ?p)) \<subseteq> set (decode C ?p)"
      using set_remove1_subset [of x ?p] by (auto simp: set_decode)
    ultimately have "req_IpId w \<noteq> req_IpId t" if "w \<in> set (decode C (remove1 x ?p))" for w
      using p [of w] u(2) that by (metis image_eqI subset_iff)
    then have "req_IpId t \<notin> req_IpId ` set (decode C (remove1 x ?p))" by force
    then show ?thesis using live_ok_drop [OF l] Some by (simp add: p'_def)
  qed
  have v: "view (snd (ackTaskScript R (req_TaskId t) (dedup_key (req_IpId t)) s)) =
    (view s)\<lparr>lists := (lists (view s))(KeyTaskProcessingQueue := p'),
      sets := (sets (view s))(KeyTaskPendingSet := sets (view s) KeyTaskPendingSet - {dedup_key (req_IpId t)}),
      hashes := (hashes (view s))(KeyTaskStartedHash := (hashes (view s) KeyTaskStartedHash)(req_TaskId t := None))\<rparr>"
    using lua_remove_view [of KeyTaskProcessingQueue "req_TaskId t" s]
    by (simp add: ackTaskScript_def p'_def hdel srem case_prod_unfold)
  show "task_inv R C (snd (ackTaskScript R (req_TaskId t) (dedup_key (req_IpId t)) s))"
    using live_ok_unpend [of C "?q @ p'" ?pend "req_IpId t"] * q
    by (auto simp: task_inv_view v)
  show "ack_due R C t (snd (ackTaskScript R (req_TaskId t) (dedup_key (req_IpId t)) s))"
    using * q by (force simp: ack_due_def v lrange list_all_iff image_iff)
qed

lemma move_step_inv:
  assumes "move_step R C s s'" and "task_inv R C s"
  shows "task_inv R C s'"
  using assms(1)
proof cases
  case (rescue started now thr raw t' newData isDead)
  then show ?thesis using rescue_inv assms(2) by blast
qed (use assms(2) move_inv in \<open>auto simp: task_inv_view hset hdel\<close>)

lemma step_inv:
  assumes "task_step R C s s'" and "task_inv R C s"
  shows "task_inv R C s'"
  using assms(1)
proof cases
  case (push t data)
  then show ?thesis using push_inv assms(2) by blast
next
  case move
  then show ?thesis using move_step_inv assms(2) by blast
next
  case (ack t)
  then show ?thesis using ack_inv assms(2) by blast
next
  case (remove raw)
  have "live_ok C (remove1 raw q @ p) pend" if "live_ok C (q @ p) pend" for q p pend
  proof (cases "raw \<in> set q")
    case True
    then have "mset (q @ p) = mset (raw # remove1 raw q @ p)" by simp
    then show ?thesis using that live_ok_cong live_ok_drop by blast
  qed (use that in \<open>simp add: remove1_idem\<close>)
  then show ?thesis using remove assms(2) by (simp add: task_inv_view lrem1_view)
qed

lemma steps_inv: "(task_step R C)\<^sup>*\<^sup>* s s' \<Longrightarrow> task_inv R C s \<Longrightarrow> task_inv R C s'"
  by (induction rule: rtranclp_induct) (auto intro: step_inv)

text \<open>The operations of the client are sequences of steps, whatever happens to their calls.\<close>

lemma rdo_steps:
  assumes "\<And>x. P x \<Longrightarrow> T x (snd (c x)) \<and> P (snd (c x))" and "P (redis_st w)"
  shows "T\<^sup>*\<^sup>* (redis_st w) (redis_st (snd (rdo c w)))"
proof -
  have "T\<^sup>*\<^sup>* (redis_st w) (redis_st (snd (rdo c w))) \<and> P (redis_st (snd (rdo c w)))"
  proof (rule rdo_preserves [where P = "\<lambda>x. T\<^sup>*\<^sup>* (redis_st w) x \<and> P x"])
    fix s
    assume "T\<^sup>*\<^sup>* (redis_st w) s \<and> P s"
    with assms(1) [of s] show "T\<^sup>*\<^sup>* (redis_st w) (snd (c s)) \<and> P (snd (c s))"
      using rtranclp.rtrancl_into_rtrancl [of T "redis_st w" s] by blast
  qed (use assms(2) in simp)
  then show ?thesis ..
qed

lemma rdo_steps_eq:
  assumes "rdo c w = (r, w')" and "\<And>x. T x (snd (c x))"
  shows "T\<^sup>*\<^sup>* (redis_st w) (redis_st w')"
  using rdo_steps [where P = "\<lambda>_. True" and T = T and c = c and w = w] assms by simp

abbreviation "moves \<equiv> (move_step R C)\<^sup>*\<^sup>*"
abbreviation "steps \<equiv> (task_step R C)\<^sup>*\<^sup>*"

lemma moves_steps: "moves s s' \<Longrightarrow> steps s s'"
  by (rule rtranclp_mono [THEN predicate2D]) (auto intro: task_step.move)

lemma rdo_write_moves [intro]:
  "moves (redis_st w) (redis_st (snd (rdo (writec (HSET R KeyTaskStartedHash fvs)) w)))"
  "moves (redis_st w) (redis_st (snd (rdo (writec (HDEL R KeyTaskStartedHash f)) w)))"
  by (rule rdo_steps [where P = "\<lambda>_. True"]; simp add: move_step.intros)+

lemma PushTask_steps:
  assumes "retries_ok t"
    and "SISMEMBER R KeyTaskPendingSet (dedup_key (req_IpId t)) (redis_st w) \<or> fresh_id R C (req_TaskId t) (redis_st w)"
  shows "steps (redis_st w) (redis_st (snd (PushTask (Some R) C (Some t) w)))"
proof (cases "MarshalReq C t")
  case None
  then show ?thesis by (simp add: PushTask_def)
next
  case (Some data)
  have "SISMEMBER R KeyTaskPendingSet k (snd (pushTaskScript R k data x))" for k x
    by (simp add: pushTaskScript_def sismember case_prod_unfold sadd_view lpush)
  then have "steps (redis_st w) (redis_st (snd (rdo (pushTaskScript R (dedup_key (req_IpId t)) data) w)))"
    using assms Some
    by (intro rdo_steps [where P = "\<lambda>x. SISMEMBER R KeyTaskPendingSet (dedup_key (req_IpId t)) x \<or> fresh_id R C (req_TaskId t) x"])
       (auto intro: task_step.push)
  then show ?thesis using Some
    by (auto simp: PushTask_def split: prod.splits option.splits)
qed

lemma PopTask_moves: "moves (redis_st w) (redis_st (snd (PopTask (Some R) C now w)))"
proof -
  obtain r w1 where r: "rdo (RPOPLPUSH R KeyTaskQueue KeyTaskProcessingQueue) w = (r, w1)" by fastforce
  have "moves (redis_st w) (redis_st w1)" by (rule rdo_steps_eq [OF r]) (rule move_step.intros)
  moreover have "moves (redis_st w1) (redis_st (snd (rdo (writec (HSET R KeyTaskStartedHash fvs)) w1)))" for fvs
    by (rule rdo_write_moves)
  moreover have "moves (redis_st w1) (redis_st (snd (PopTask (Some R) C now w)))"
    using r calculation(2) by (auto simp: PopTask_def split: option.split)
  ultimately show ?thesis by (blast intro: rtranclp_trans)
qed

lemma AckTask_steps:
  assumes "plain_id (req_TaskId t)" "ack_due R C t (redis_st w)" "task_inv R C (redis_st w)"
  shows "steps (redis_st w) (redis_st (snd (AckTask (Some R) (Some t) w)))"
proof -
  have "steps (redis_st w) (redis_st (snd (rdo (ackTaskScript R (req_TaskId t) (dedup_key (req_IpId t))) w)))"
    using assms ack_inv
    by (intro rdo_steps [where P = "\<lambda>x. ack_due R C t x \<and> task_inv R C x"]) (auto intro: task_step.ack)
  then show ?thesis by (auto simp: AckTask_def split: prod.splits option.splits)
qed

lemma rescue_tasks_moves:
  "moves (redis_st w) (redis_st (snd (rescue_tasks R C started now thr raws res w)))"
proof (induction raws arbitrary: res w)
  case Nil
  then show ?case by simp
next
  case (Cons raw raws)
  show ?case
  proof (cases "rescue_task C started now thr raw")
    case None
    then show ?thesis using Cons.IH by simp
  next
    case (Some x)
    then obtain t' d b where x: "rescue_task C started now thr raw = Some (t', d, b)"
      by (cases x) auto
    obtain r w1 where r: "rdo (rescueScript R raw (req_TaskId t') d b (dedup_key (req_IpId t'))) w = (r, w1)"
      by fastforce
    have "moves (redis_st w) (redis_st w1)" by (rule rdo_steps_eq [OF r]) (rule move_step.rescue [OF x])
    moreover have "moves (redis_st w1) (redis_st (snd (rescue_tasks R C started now thr (raw # raws) res w)))"
      using Cons.IH [of w1] x r by (auto split: option.split)
    ultimately show ?thesis by (rule rtranclp_trans)
  qed
qed

lemma hdel_each_moves: "moves (redis_st w) (redis_st (hdel_each R KeyTaskStartedHash fs w))"
proof (induction fs arbitrary: w)
  case (Cons f fs)
  show ?case using rtranclp_trans [OF rdo_write_moves(2) [of w f] Cons.IH] by simp
qed simp

lemma RescueStuckTasks_moves:
  "moves (redis_st w) (redis_st (snd (snd (RescueStuckTasks (Some R) C timeout now w))))"
proof -
  obtain a w1 where a: "rdo (readc (HGETALL R KeyTaskStartedHash)) w = (a, w1)" by fastforce
  obtain b w2 where b: "rdo (readc (LRANGE R KeyTaskProcessingQueue)) w1 = (b, w2)" by fastforce
  have "redis_st w1 = redis_st w" "redis_st w2 = redis_st w1"
    using rdo_read_st [of "HGETALL R KeyTaskStartedHash" w]
      rdo_read_st [of "LRANGE R KeyTaskProcessingQueue" w1] a b by simp_all
  then show ?thesis using a b rescue_tasks_moves [of w2] hdel_each_moves [of w2]
    by (auto simp: RescueStuckTasks_def case_prod_unfold split: option.split)
qed

lemma recover_tasks_moves:
  "recover_tasks fuel R C n w = Some (m, e, w') \<Longrightarrow> moves (redis_st w) (redis_st w')"
proof (induction fuel arbitrary: n w)
  case (Suc fuel)
  obtain r w1 where r: "rdo (RPOPLPUSH R KeyTaskProcessingQueue KeyTaskQueue) w = (r, w1)" by fastforce
  have "moves (redis_st w) (redis_st w1)" by (rule rdo_steps_eq [OF r]) (rule move_step.intros)
  moreover have "moves (redis_st w1) (redis_st w')"
  proof (cases r)
    case (Some x)
    show ?thesis
    proof (cases x)
      case Some2: (Some raw)
      let ?w2 = "case UnmarshalReq C raw of None \<Rightarrow> w1 | Some t \<Rightarrow>
        if req_TaskId t \<noteq> '''' then snd (rdo (writec (HDEL R KeyTaskStartedHash (req_TaskId t))) w1) else w1"
      have "moves (redis_st w1) (redis_st ?w2)"
        using rdo_write_moves(2) [of w1] by (simp split: option.split)
      moreover have "recover_tasks fuel R C (n + 1) ?w2 = Some (m, e, w')"
        using Suc.prems r Some Some2 by simp
      ultimately show ?thesis using Suc.IH rtranclp_trans by fast
    qed (use Suc.prems r Some in simp)
  qed (use Suc.prems r in simp)
  ultimately show ?case by (rule rtranclp_trans)
qed simp

lemma lrem_each_steps: "steps (redis_st w) (redis_st (snd (lrem_each R raws n w)))"
proof (induction raws arbitrary: n w)
  case (Cons raw raws)
  obtain r w1 where r: "rdo (LREM1 R KeyTaskQueue raw) w = (r, w1)" by fastforce
  have "steps (redis_st w) (redis_st w1)" by (rule rdo_steps_eq [OF r]) (rule task_step.remove)
  moreover have "steps (redis_st w1) (redis_st (snd (lrem_each R (raw # raws) n w)))"
    using r Cons.IH [of w1] by (auto split: option.split)
  ultimately show ?case by (rule rtranclp_trans)
qed simp

lemma DeduplicateQueue_steps:
  "steps (redis_st w) (redis_st (snd (DeduplicateQueue (Some R) C w)))"
proof -
  obtain a w1 where a: "rdo (readc (LRANGE R KeyTaskQueue)) w = (a, w1)" by fastforce
  have "redis_st w1 = redis_st w" using rdo_read_st [of "LRANGE R KeyTaskQueue" w] a by simp
  then show ?thesis using a lrem_each_steps [of w1]
    by (auto simp: DeduplicateQueue_def case_prod_unfold split: option.split)
qed

end


section \<open>Conservation\<close>

text \<open>The task ids held by the three lists, with multiplicity.\<close>

definition held_ids :: "'s redis \<Rightarrow> codec \<Rightarrow> 's \<Rightarrow> string multiset" where
  "held_ids R C s = mset (map req_TaskId (decode C (live_raws R s @ LRANGE R KeyTaskDeadLetter s)))"

definition texts_of :: "codec \<Rightarrow> string list \<Rightarrow> string list" where
  "texts_of C raws = map req_TaskId (decode C raws)"

lemma texts_of_simps [simp]:
  "texts_of C [] = []" "texts_of C (xs @ ys) = texts_of C xs @ texts_of C ys"
  "UnmarshalReq C raw = Some t \<Longrightarrow> texts_of C (raw # raws) = req_TaskId t # texts_of C raws"
  by (simp_all add: texts_of_def)

lemma texts_of_cong: "mset xs = mset ys \<Longrightarrow> mset (texts_of C xs) = mset (texts_of C ys)"
  unfolding texts_of_def decode_def by (metis mset_map mset_map_filter_cong)

context queue_server
begin

lemma held_ids_view: "held_ids R C s = mset (texts_of C (lists (view s) KeyTaskQueue @
    lists (view s) KeyTaskProcessingQueue @ lists (view s) KeyTaskDeadLetter))"
  by (simp add: held_ids_def live_raws_def lrange texts_of_def)

lemma held_ids_move:
  assumes "(a, b) \<in> {(KeyTaskQueue, KeyTaskProcessingQueue), (KeyTaskProcessingQueue, KeyTaskQueue)}"
  shows "held_ids R C (snd (RPOPLPUSH R a b s)) = held_ids R C s"
proof -
  have ab: "a \<noteq> b" using assms by auto
  show ?thesis
  proof (cases rule: rpoplpush_cases [OF ab, of s])
    case (2 xs x s')
    show ?thesis using assms 2 unfolding held_ids_view
      by (intro texts_of_cong) auto
  qed simp
qed

lemma held_ids_rescue:
  assumes rt: "rescue_task C started now thr raw = Some (t', newData, isDead)"
  shows "held_ids R C (snd (rescueScript R raw (req_TaskId t') newData isDead k s)) = held_ids R C s"
proof -
  let ?q = "lists (view s) KeyTaskQueue" and ?p = "lists (view s) KeyTaskProcessingQueue"
  let ?d = "lists (view s) KeyTaskDeadLetter"
  obtain t where t: "UnmarshalReq C raw = Some t" "UnmarshalReq C newData = Some t'"
    "req_TaskId t' = req_TaskId t" using rt by (elim rescue_task_facts) simp
  obtain n s1 where s1: "LREM1 R KeyTaskProcessingQueue raw s = (n, s1)" by fastforce
  have n: "n = (if raw \<in> set ?p then 1 else 0)"
    using lrem1_count [of KeyTaskProcessingQueue raw s] s1 by simp
  have v: "view s1 = (view s)\<lparr>lists := (lists (view s))(KeyTaskProcessingQueue := remove1 raw ?p)\<rparr>"
    using lrem1_view [of KeyTaskProcessingQueue raw s] s1 by simp
  show ?thesis
  proof (cases "raw \<in> set ?p")
    case False
    then show ?thesis using s1 n v by (simp add: rescueScript_def held_ids_view remove1_idem)
  next
    case True
    have "mset (texts_of C ?p) = mset (texts_of C (raw # remove1 raw ?p))"
      by (intro texts_of_cong) (use True in simp)
    then have "mset (texts_of C ?p) = add_mset (req_TaskId t) (mset (texts_of C (remove1 raw ?p)))"
      using t by simp
    then show ?thesis using s1 n v True t
      by (simp add: rescueScript_def Let_def held_ids_view hdel lpush srem)
  qed
qed

lemma held_ids_started:
  "held_ids R C (HSET R KeyTaskStartedHash fvs s) = held_ids R C s"
  "held_ids R C (HDEL R KeyTaskStartedHash f s) = held_ids R C s"
  by (simp_all add: held_ids_view hset hdel)

lemma move_step_held: "move_step R C s s' \<Longrightarrow> held_ids R C s' = held_ids R C s"
  by (cases rule: move_step.cases)
     (auto simp: held_ids_move held_ids_rescue held_ids_started)

lemma moves_held: "moves s s' \<Longrightarrow> held_ids R C s' = held_ids R C s"
  by (induction rule: rtranclp_induct) (simp_all add: move_step_held)

section \<open>Recovery ends\<close>

lemma recover_tasks_ends:
  assumes "length (lists (view (redis_st w)) KeyTaskProcessingQueue) < fuel"
  shows "\<exists>m e w'. recover_tasks fuel R C n w = Some (m, e, w') \<and>
    (e = None \<longrightarrow> lists (view (redis_st w')) KeyTaskProcessingQueue = [])"
  using assms
proof (induction fuel arbitrary: n w)
  case (Suc fuel)
  let ?p = "\<lambda>s. lists (view s) KeyTaskProcessingQueue"
  let ?c = "RPOPLPUSH R KeyTaskProcessingQueue KeyTaskQueue"
  obtain r w1 where r: "rdo ?c w = (r, w1)" by fastforce
  show ?case
  proof (cases r)
    case None
    then show ?thesis using r by simp
  next
    case (Some x)
    have "\<exists>s m. s = ((\<lambda>y. snd (?c y)) ^^ m) (redis_st w) \<and> ?c s = (x, redis_st w1)"
      using rdo_reply [of ?c w x] r Some by auto
    then obtain s m where s: "s = ((\<lambda>y. snd (?c y)) ^^ m) (redis_st w)" "?c s = (x, redis_st w1)"
      by blast
    have shrink: "length (?p (snd (?c y))) \<le> length (?p y)" for y
      by (rule rpoplpush_cases [of KeyTaskProcessingQueue KeyTaskQueue y]) simp_all
    have "length (?p s) \<le> length (?p (redis_st w))"
      unfolding s(1) by (rule funpow_invariant [where P = "\<lambda>y. length (?p y) \<le> length (?p (redis_st w))"])
        (use shrink order_trans in blast)+
    show ?thesis
    proof (cases x)
      case None
      then show ?thesis using r Some s(2) rpoplpush_NoneD [of KeyTaskProcessingQueue KeyTaskQueue s] by simp
    next
      case Some2: (Some raw)
      let ?w2 = "case UnmarshalReq C raw of None \<Rightarrow> w1 | Some t \<Rightarrow>
        if req_TaskId t \<noteq> '''' then snd (rdo (writec (HDEL R KeyTaskStartedHash (req_TaskId t))) w1) else w1"
      have w2: "?p (redis_st ?w2) = ?p (redis_st w1)"
        by (auto split: option.split
            intro!: rdo_preserves [where P = "\<lambda>z. ?p z = ?p (redis_st w1)"] simp: hdel)
      have "?p s = butlast (?p s) @ [raw]" "?p (redis_st w1) = butlast (?p s)"
        using rpoplpush_SomeD [of KeyTaskProcessingQueue KeyTaskQueue s raw "redis_st w1"] s(2) Some2
        by simp_all
      then have "length (?p (redis_st w1)) < length (?p s)" by (metis length_append_singleton lessI)
      then have "length (?p (redis_st ?w2)) < fuel"
        using w2 Suc.prems \<open>length (?p s) \<le> length (?p (redis_st w))\<close> by simp
      from Suc.IH [OF this, of "n + 1"] show ?thesis using r Some Some2 by simp
    qed
  qed
qed simp

end


section \<open>Results of the operations\<close>

text \<open>What one pass of the janitor does with a list of entries, given its verdict on each.\<close>

definition retried :: "(string \<Rightarrow> ('m \<times> string \<times> bool) option) \<Rightarrow> string list \<Rightarrow> string list" where
  "retried f raws = List.map_filter (\<lambda>raw. case f raw of None \<Rightarrow> None
     | Some (t, d, dead) \<Rightarrow> if dead then None else Some d) raws"

definition buried :: "(string \<Rightarrow> ('m \<times> string \<times> bool) option) \<Rightarrow> string list \<Rightarrow> string list" where
  "buried f raws = List.map_filter (\<lambda>raw. case f raw of None \<Rightarrow> None
     | Some (t, d, dead) \<Rightarrow> if dead then Some d else None) raws"

lemma retried_simps [simp]:
  "retried f [] = []"
  "retried f (raw # raws) = (case f raw of None \<Rightarrow> retried f raws
     | Some (t, d, dead) \<Rightarrow> if dead then retried f raws else d # retried f raws)"
  by (simp_all add: retried_def List.map_filter_def split: option.split)

lemma buried_simps [simp]:
  "buried f [] = []"
  "buried f (raw # raws) = (case f raw of None \<Rightarrow> buried f raws
     | Some (t, d, dead) \<Rightarrow> if dead then d # buried f raws else buried f raws)"
  by (simp_all add: buried_def List.map_filter_def split: option.split)

lemma remove1_filter_append:
  "\<not> P x \<Longrightarrow> remove1 x (filter P xs @ x # ys) = filter P xs @ ys"
  by (simp add: remove1_append)

context queue_server
begin

lemma rescue_script_hit:
  assumes "raw \<in> set (lists (view s) KeyTaskProcessingQueue)"
  shows "fst (rescueScript R raw i d dead k s) = 1"
    and "lists (view (snd (rescueScript R raw i d dead k s))) KeyTaskProcessingQueue =
      remove1 raw (lists (view s) KeyTaskProcessingQueue)"
    and "lists (view (snd (rescueScript R raw i d dead k s))) KeyTaskQueue =
      (if dead then [] else [d]) @ lists (view s) KeyTaskQueue"
    and "lists (view (snd (rescueScript R raw i d dead k s))) KeyTaskDeadLetter =
      (if dead then [d] else []) @ lists (view s) KeyTaskDeadLetter"
proof -
  obtain n s1 where s1: "LREM1 R KeyTaskProcessingQueue raw s = (n, s1)" by fastforce
  have n: "n = 1" using lrem1_count [of KeyTaskProcessingQueue raw s] s1 assms by simp
  have v: "view s1 = (view s)\<lparr>lists := (lists (view s))(KeyTaskProcessingQueue :=
      remove1 raw (lists (view s) KeyTaskProcessingQueue))\<rparr>"
    using lrem1_view [of KeyTaskProcessingQueue raw s] s1 by simp
  show "fst (rescueScript R raw i d dead k s) = 1"
    "lists (view (snd (rescueScript R raw i d dead k s))) KeyTaskProcessingQueue =
      remove1 raw (lists (view s) KeyTaskProcessingQueue)"
    "lists (view (snd (rescueScript R raw i d dead k s))) KeyTaskQueue =
      (if dead then [] else [d]) @ lists (view s) KeyTaskQueue"
    "lists (view (snd (rescueScript R raw i d dead k s))) KeyTaskDeadLetter =
      (if dead then [d] else []) @ lists (view s) KeyTaskDeadLetter"
    using s1 n v by (simp_all add: rescueScript_def Let_def hdel lpush srem)
qed

lemma rescue_tasks_quiet:
  assumes "quiet w"
    and "lists (view (redis_st w)) KeyTaskProcessingQueue =
      filter (\<lambda>r. rescue_task C started now thr r = None) done_raws @ raws"
    and "rescue_tasks R C started now thr raws res w = (res', w')"
  shows "lists (view (redis_st w')) KeyTaskProcessingQueue =
      filter (\<lambda>r. rescue_task C started now thr r = None) (done_raws @ raws) \<and>
    lists (view (redis_st w')) KeyTaskQueue =
      rev (retried (rescue_task C started now thr) raws) @ lists (view (redis_st w)) KeyTaskQueue \<and>
    lists (view (redis_st w')) KeyTaskDeadLetter =
      rev (buried (rescue_task C started now thr) raws) @ lists (view (redis_st w)) KeyTaskDeadLetter \<and>
    res' = \<lparr>Rescued = Rescued res + length (retried (rescue_task C started now thr) raws),
            DeadLeter = DeadLeter res + length (buried (rescue_task C started now thr) raws)\<rparr>"
  using assms
proof (induction raws arbitrary: res w done_raws)
  case Nil
  then show ?case by simp
next
  case (Cons raw raws)
  let ?f = "rescue_task C started now thr"
  show ?case
  proof (cases "?f raw")
    case None
    then show ?thesis using Cons.IH [of w "done_raws @ [raw]" res] Cons.prems by simp
  next
    case (Some x)
    then obtain t' d b where x: "?f raw = Some (t', d, b)" by (cases x) auto
    let ?c = "rescueScript R raw (req_TaskId t') d b (dedup_key (req_IpId t'))"
    define w1 where "w1 = w\<lparr>redis_st := snd (?c (redis_st w))\<rparr>"
    have mem: "raw \<in> set (lists (view (redis_st w)) KeyTaskProcessingQueue)"
      using Cons.prems(2) by simp
    note hit = rescue_script_hit [OF mem, of "req_TaskId t'" d b "dedup_key (req_IpId t')"]
    have step: "rescue_tasks R C started now thr raws (count_rescue b res) w1 = (res', w')"
      using Cons.prems(1,3) x hit(1) by (simp add: w1_def)
    have p: "lists (view (redis_st w1)) KeyTaskProcessingQueue =
        filter (\<lambda>r. ?f r = None) (done_raws @ [raw]) @ raws"
      using hit(2) Cons.prems(2) x by (simp add: w1_def remove1_filter_append)
    have "quiet w1" using Cons.prems(1) by (simp add: w1_def)
    from Cons.IH [OF this p step] show ?thesis
      using hit(3,4) x by (auto simp: w1_def count_rescue_def)
  qed
qed

lemma push_reply:
  assumes "fst (rdo (pushTaskScript R k d) w) = Some r" "r \<noteq> 0"
  shows "k \<notin> sets (view (redis_st w)) KeyTaskPendingSet \<and>
    view (redis_st (snd (rdo (pushTaskScript R k d) w))) = (view (redis_st w))\<lparr>
      lists := (lists (view (redis_st w)))(KeyTaskQueue := d # lists (view (redis_st w)) KeyTaskQueue),
      sets := (sets (view (redis_st w)))(KeyTaskPendingSet := insert k (sets (view (redis_st w)) KeyTaskPendingSet))\<rparr>"
proof -
  let ?c = "pushTaskScript R k d"
  have member: "k \<in> sets (view (snd (?c x))) KeyTaskPendingSet" for x
    by (simp add: pushTaskScript_def case_prod_unfold sadd_view lpush)
  have zero: "fst (?c x) = 0" if "k \<in> sets (view x) KeyTaskPendingSet" for x
    using that by (simp add: pushTaskScript_def case_prod_unfold sadd_count)
  obtain n where n: "?c (((\<lambda>y. snd (?c y)) ^^ n) (redis_st w)) = (r, redis_st (snd (rdo ?c w)))"
    using rdo_reply [OF assms(1)] by blast
  have "n = 0"
  proof (rule ccontr)
    assume "n \<noteq> 0"
    then obtain m where "n = Suc m" by (cases n) auto
    then have "fst (?c (((\<lambda>y. snd (?c y)) ^^ n) (redis_st w))) = 0" using zero member by simp
    then show False using n assms(2) by simp
  qed
  then have c: "?c (redis_st w) = (r, redis_st (snd (rdo ?c w)))" using n by simp
  then have nk: "k \<notin> sets (view (redis_st w)) KeyTaskPendingSet" using zero assms(2) by force
  then have "view (snd (?c (redis_st w))) = (view (redis_st w))\<lparr>
      lists := (lists (view (redis_st w)))(KeyTaskQueue := d # lists (view (redis_st w)) KeyTaskQueue),
      sets := (sets (view (redis_st w)))(KeyTaskPendingSet := insert k (sets (view (redis_st w)) KeyTaskPendingSet))\<rparr>"
    by (simp add: pushTaskScript_def case_prod_unfold sadd_count sadd_view lpush)
  then show ?thesis using nk c by simp
qed

end


section \<open>A sample system\<close>

text \<open>Two tasks with their retried versions, a result, and the in-memory server.\<close>

definition task_a :: CrawlRequest where
  "task_a = \<lparr>req_IpId = 7, req_Keyword = ''frieren'', req_TaskId = ''a1'', req_CreatedAt = 100,
     req_RetryCount = 0, req_PagesOnSale = 5, req_PagesSold = 5\<rparr>"

definition task_b :: CrawlRequest where
  "task_b = \<lparr>req_IpId = 8, req_Keyword = ''bocchi'', req_TaskId = ''b2'', req_CreatedAt = 100,
     req_RetryCount = 3, req_PagesOnSale = 5, req_PagesSold = 5\<rparr>"

definition result_a :: CrawlResponse where
  "result_a = \<lparr>resp_IpId = 7, resp_Items = [], resp_TotalFound = 0, resp_ErrorMessage = '''',
     resp_TaskId = ''a1'', resp_CrawledAt = 150, resp_PagesCrawled = 10, resp_RetryCount = 0\<rparr>"

definition again :: "CrawlRequest \<Rightarrow> CrawlRequest" where
  "again t = t\<lparr>req_RetryCount := req_RetryCount t + 1\<rparr>"

definition sample_codec :: codec where
  "sample_codec = tagged_codec
     [(task_a, ''0''), (again task_a, ''1''), (task_b, ''3''), (again task_b, ''4'')] [(result_a, ''0'')]"

definition raw_a :: string where "raw_a = tagged_json ''a1'' ''0''"
definition raw_b :: string where "raw_b = tagged_json ''b2'' ''3''"

text \<open>Task a is being processed since time 100, task b waits.\<close>

definition sample_mem :: mem where
  "sample_mem = mem_empty\<lparr>
     m_lists := [(KeyTaskQueue, [raw_b]), (KeyTaskProcessingQueue, [raw_a])],
     m_sets := [(KeyTaskPendingSet, [''ip:7'', ''ip:8''])],
     m_hashes := [(KeyTaskStartedHash, [(''a1'', ''100'')])]\<rparr>"

definition sample_world :: "mem \<Rightarrow> outcome list \<Rightarrow> (mem, unit) world" where
  "sample_world m os = \<lparr>redis_st = m, db_st = (), outcomes = os\<rparr>"

lemma sample_tagged_ok:
  "tagged_ok [(task_a, ''0''), (again task_a, ''1''), (task_b, ''3''), (again task_b, ''4'')] [(result_a, ''0'')]"
  by code_simp

interpretation sample: queue_server mem_redis mem_view sample_codec
proof -
  have "protojson sample_codec" unfolding sample_codec_def
    by (rule tagged_codec_protojson [OF sample_tagged_ok])
  then show "queue_server mem_redis mem_view sample_codec"
    by (intro queue_server.intro memory.redis_server_axioms)
qed

lemma sample_inv: "task_inv mem_redis sample_codec sample_mem"
  by code_simp

lemma empty_inv: "task_inv mem_redis sample_codec mem_empty"
  by code_simp


section \<open>Properties\<close>



text \<open>The operations of the client as one transition relation on the whole world.\<close>

inductive client_op :: "'s redis \<Rightarrow> codec \<Rightarrow> ('s, 'd) world \<Rightarrow> ('s, 'd) world \<Rightarrow> bool" for R C where
  PushTask: "retries_ok t \<Longrightarrow> fresh_id R C (req_TaskId t) (redis_st w) \<Longrightarrow>
    client_op R C w (snd (PushTask (Some R) C (Some t) w))"
| PopTask: "client_op R C w (snd (PopTask (Some R) C now w))"
| AckTask: "plain_id (req_TaskId t) \<Longrightarrow> ack_due R C t (redis_st w) \<Longrightarrow>
    client_op R C w (snd (AckTask (Some R) (Some t) w))"
| RescueStuckTasks: "client_op R C w (snd (snd (RescueStuckTasks (Some R) C timeout now w)))"
| RecoverOrphanedTasks: "RecoverOrphanedTasks fuel (Some R) C w = Some (n, e, w') \<Longrightarrow> client_op R C w w'"
| DeduplicateQueue: "client_op R C w (snd (DeduplicateQueue (Some R) C w))"

inductive_cases client_opE: "client_op R C w w'"

lemma client_op_steps:
  assumes "queue_server R view C" and "client_op R C w w'" and "task_inv R C (redis_st w)"
  shows "(task_step R C)\<^sup>*\<^sup>* (redis_st w) (redis_st w')"
  using assms(2)
proof cases
  case (RecoverOrphanedTasks fuel n e)
  then show ?thesis
    using queue_server.recover_tasks_moves [OF assms(1)] queue_server.moves_steps [OF assms(1)]
    by (force simp: RecoverOrphanedTasks_def)
qed (use queue_server.PushTask_steps [OF assms(1)] queue_server.AckTask_steps [OF assms(1)]
      queue_server.moves_steps [OF assms(1) queue_server.PopTask_moves [OF assms(1)]]
      queue_server.moves_steps [OF assms(1) queue_server.RescueStuckTasks_moves [OF assms(1)]]
      queue_server.DeduplicateQueue_steps [OF assms(1)] assms(3) in auto)



text \<open>
  When \<open>PushTask\<close> reports success, its IP was not pending before, and exactly one entry, the
  encoding of the task, was added at the head of the queue together with the IP's key in the
  pending set, even if the call was resent on the way; nothing else changed.
\<close>

theorem PushTask_success:
  assumes "redis_server R view" and "protojson C"
    and "MarshalReq C t = Some d" and "PushTask (Some R) C (Some t) w = (Inr (), w')"
  shows "dedup_key (req_IpId t) \<notin> sets (view (redis_st w)) KeyTaskPendingSet \<and>
    view (redis_st w') = (view (redis_st w))\<lparr>
      lists := (lists (view (redis_st w)))(KeyTaskQueue := d # lists (view (redis_st w)) KeyTaskQueue),
      sets := (sets (view (redis_st w)))(KeyTaskPendingSet :=
        insert (dedup_key (req_IpId t)) (sets (view (redis_st w)) KeyTaskPendingSet))\<rparr>"
  using queue_server.push_reply [OF queue_server.intro [OF assms(1,2)], of "dedup_key (req_IpId t)" d w] assms(3,4)
  by (auto simp: PushTask_def split: if_splits prod.splits option.splits)

theorem PushTask_success_witness:
  "dedup_key 7 \<notin> sets (mem_view mem_empty) KeyTaskPendingSet \<and>
   lists (mem_view (redis_st (snd (PushTask (Some mem_redis) sample_codec (Some task_a)
     (sample_world mem_empty [Reply 0]))))) KeyTaskQueue = [raw_a]"
proof -
  let ?w = "sample_world mem_empty [Reply 0]"
  have f: "fst (PushTask (Some mem_redis) sample_codec (Some task_a) ?w) = Inr ()"
    "MarshalReq sample_codec task_a = Some raw_a" "req_IpId task_a = 7" "redis_st ?w = mem_empty"
    by code_simp+
  then obtain w' where "PushTask (Some mem_redis) sample_codec (Some task_a) ?w = (Inr (), w')"
    by (metis prod.collapse)
  from PushTask_success [OF memory.redis_server_axioms sample.protojson_axioms f(2) this] this f
  show ?thesis by (simp add: mem_simps)
qed

text \<open>
  (C5) Popping, rescuing and recovering lose no task and invent none: the task ids held by the
  queue, the processing list and the dead letter list together stay the same, with their
  multiplicities, whatever happens to the remote calls.
\<close>

theorem tasks_conserved:
  assumes "redis_server R view" and "protojson C"
  shows "held_ids R C (redis_st (snd (PopTask (Some R) C now w))) = held_ids R C (redis_st w) \<and>
    held_ids R C (redis_st (snd (snd (RescueStuckTasks (Some R) C timeout now w)))) = held_ids R C (redis_st w) \<and>
    (RecoverOrphanedTasks fuel (Some R) C w = Some (n, e, w') \<longrightarrow>
      held_ids R C (redis_st w') = held_ids R C (redis_st w))"
proof -
  note qs = queue_server.intro [OF assms]
  note held = queue_server.moves_held [OF qs]
  show ?thesis
    by (auto simp: RecoverOrphanedTasks_def held [OF queue_server.PopTask_moves [OF qs]]
        held [OF queue_server.RescueStuckTasks_moves [OF qs]]
        intro: held [OF queue_server.recover_tasks_moves [OF qs]])
qed

theorem tasks_conserved_witness:
  "held_ids mem_redis sample_codec (redis_st (snd (PopTask (Some mem_redis) sample_codec 200
     (sample_world sample_mem [Lost 1])))) = held_ids mem_redis sample_codec sample_mem"
  using tasks_conserved [OF memory.redis_server_axioms sample.protojson_axioms,
      of 200 "sample_world sample_mem [Lost 1]"]
  by (simp add: sample_world_def)




text \<open>
  Startup recovery returns: with more fuel than entries in the processing list the loop ends
  whatever happens to its calls, and when it ends without an error the processing list is empty.
\<close>

theorem RecoverOrphanedTasks_returns:
  assumes "redis_server R view" and "protojson C"
    and "LLEN R KeyTaskProcessingQueue (redis_st w) < fuel"
  shows "\<exists>n e w'. RecoverOrphanedTasks fuel (Some R) C w = Some (n, e, w') \<and>
    (e = None \<longrightarrow> LLEN R KeyTaskProcessingQueue (redis_st w') = 0)"
proof -
  have ll: "LLEN R k s = length (lists (view s) k)" for k s using redis_server.llen [OF assms(1)] .
  show ?thesis
    using queue_server.recover_tasks_ends [OF queue_server.intro [OF assms(1,2)], of w fuel 0] assms(3)
    by (simp add: ll RecoverOrphanedTasks_def)
qed

theorem RecoverOrphanedTasks_returns_witness:
  "\<exists>n e w'. RecoverOrphanedTasks 2 (Some mem_redis) sample_codec (sample_world sample_mem [Reply 0, Lost 1])
     = Some (n, e, w')"
  using RecoverOrphanedTasks_returns [OF memory.redis_server_axioms sample.protojson_axioms,
      of "sample_world sample_mem [Reply 0, Lost 1]" 2]
  by (auto simp: sample_world_def sample_mem_def mem_simps key_defs)

text \<open>
  Acknowledging a task frees its IP: after an \<open>AckTask\<close> that reports success, the next task
  for that IP is accepted by a fault-free \<open>PushTask\<close>.
\<close>

theorem AckTask_frees_ip:
  assumes "redis_server R view" and "protojson C"
    and "AckTask (Some R) (Some t) w = (Inr (), w1)" and "quiet w1"
    and "req_IpId t' = req_IpId t" "req_IpId t \<noteq> 0" "req_TaskId t' \<noteq> ''''" "MarshalReq C t' = Some d"
  shows "fst (PushTask (Some R) C (Some t') w1) = Inr ()"
proof -
  let ?k = "dedup_key (req_IpId t)"
  let ?c = "ackTaskScript R (req_TaskId t) ?k"
  note srv = redis_server.srem [OF assms(1)] redis_server.hdel [OF assms(1)]
  have gone: "?k \<notin> sets (view (snd (?c x))) KeyTaskPendingSet" for x
    by (simp add: ackTaskScript_def case_prod_unfold srv)
  have a: "fst (rdo ?c w) \<noteq> None" "w1 = snd (rdo ?c w)"
    using assms(3) by (auto simp: AckTask_def split: if_splits prod.splits option.splits)
  then obtain r where "fst (rdo ?c w) = Some r" by blast
  from rdo_reply [OF this] obtain y where y: "?c y = (r, redis_st w1)" using a(2) by blast
  have "?k \<notin> sets (view (redis_st w1)) KeyTaskPendingSet" using gone [of y] y by simp
  then show ?thesis using assms(4-8)
    by (simp add: PushTask_def pushTaskScript_def case_prod_unfold redis_server.sadd_count [OF assms(1)])
qed


theorem AckTask_frees_ip_witness:
  "fst (PushTask (Some mem_redis) sample_codec (Some (again task_a))
     (snd (AckTask (Some mem_redis) (Some task_a) (sample_world sample_mem [])))) = Inr ()"
proof -
  let ?a = "AckTask (Some mem_redis) (Some task_a) (sample_world sample_mem [])"
  have f: "fst ?a = Inr ()" "quiet (snd ?a)" "req_IpId (again task_a) = req_IpId task_a"
    "req_IpId task_a \<noteq> 0" "req_TaskId (again task_a) \<noteq> ''''"
    "MarshalReq sample_codec (again task_a) = Some (tagged_json ''a1'' ''1'')"
    by code_simp+
  have "?a = (Inr (), snd ?a)" using f(1) by (metis prod.collapse)
  from AckTask_frees_ip [OF memory.redis_server_axioms sample.protojson_axioms this f(2-6)] show ?thesis .
qed

context queue_server
begin

lemma lua_find_decode:
  assumes "list_all (canonical C) p" "distinct (map req_TaskId (decode C p))" "plain_id i"
  shows "decode C (case lua_find (taskid_needle i) p of None \<Rightarrow> p | Some x \<Rightarrow> remove1 x p) =
    filter (\<lambda>u. req_TaskId u \<noteq> i) (decode C p)"
  using assms(1,2)
proof (induction p)
  case (Cons raw p)
  then obtain t where t: "UnmarshalReq C raw = Some t" using canonical_ex by auto
  have hit: "Contains raw (taskid_needle i) \<longleftrightarrow> i = req_TaskId t"
    using canonical_needle t assms(3) Cons.prems by simp
  show ?case
  proof (cases "i = req_TaskId t")
    case True
    have "req_TaskId t \<notin> req_TaskId ` set (decode C p)" using Cons.prems(2) t by simp
    then have "filter (\<lambda>u. req_TaskId u \<noteq> i) (decode C p) = decode C p"
      unfolding filter_id_conv True by (metis imageI)
    then show ?thesis using True hit t by simp
  next
    case False
    have IH: "decode C (case lua_find (taskid_needle i) p of None \<Rightarrow> p | Some x \<Rightarrow> remove1 x p) =
        filter (\<lambda>u. req_TaskId u \<noteq> i) (decode C p)"
      using Cons t by simp
    have "x \<noteq> raw" if "lua_find (taskid_needle i) p = Some x" for x
      using lua_find_Some [OF that] hit False by blast
    then show ?thesis using IH False hit t by (auto split: option.splits)
  qed
qed simp

lemma ack_decode:
  assumes "task_inv R C s" "plain_id i"
  shows "decode C (LRANGE R KeyTaskProcessingQueue (snd (ackTaskScript R i k s))) =
    filter (\<lambda>u. req_TaskId u \<noteq> i) (decode C (LRANGE R KeyTaskProcessingQueue s))"
proof -
  have "list_all (canonical C) (lists (view s) KeyTaskProcessingQueue)"
    "distinct (map req_TaskId (decode C (lists (view s) KeyTaskProcessingQueue)))"
    using assms(1) by (auto simp: task_inv_view live_ok_def)
  from lua_find_decode [OF this assms(2)] show ?thesis
    by (simp add: ackTaskScript_def case_prod_unfold lrange hdel srem lua_remove_view)
qed

end

text \<open>
  An acknowledgement removes exactly its own task: under the invariant of the queue and with
  no fault, the tasks being processed afterwards are those processed before, in the same order,
  less the one with the acknowledged id, found by its id alone whatever its retry count is.
\<close>

theorem AckTask_removes_exactly:
  assumes "redis_server R view" and "protojson C" and "quiet w" and "task_inv R C (redis_st w)"
    and "plain_id (req_TaskId t)"
  shows "decode C (LRANGE R KeyTaskProcessingQueue (redis_st (snd (AckTask (Some R) (Some t) w)))) =
    filter (\<lambda>u. req_TaskId u \<noteq> req_TaskId t) (decode C (LRANGE R KeyTaskProcessingQueue (redis_st w)))"
  using queue_server.ack_decode [OF queue_server.intro [OF assms(1,2)] assms(4,5)] assms(3,5)
  by (simp add: AckTask_def plain_id_def)

theorem AckTask_removes_exactly_witness:
  "decode sample_codec (LRANGE mem_redis KeyTaskProcessingQueue
     (redis_st (snd (AckTask (Some mem_redis) (Some (again task_a)) (sample_world sample_mem []))))) = []"
proof -
  have f: "quiet (sample_world sample_mem [])" "plain_id (req_TaskId (again task_a))"
    "decode sample_codec (LRANGE mem_redis KeyTaskProcessingQueue (redis_st (sample_world sample_mem []))) = [task_a]"
    "req_TaskId (again task_a) = req_TaskId task_a"
    by code_simp+
  show ?thesis
    using AckTask_removes_exactly [OF memory.redis_server_axioms sample.protojson_axioms f(1) _ f(2)] sample_inv f(3,4)
    by (simp add: sample_world_def)
qed

text \<open>
  A task id marked as processed is reported as processed: after a successful
  \<open>MarkProcessed\<close>, lost and resent calls included, every answer of \<open>IsProcessed\<close> for it is true.
\<close>

theorem MarkProcessed_IsProcessed:
  assumes "redis_server R view" and "0 < ttl"
    and "MarkProcessed (Some R) i ttl w = (Inr (), w1)"
    and "IsProcessed (Some R) i w1 = (Inr b, w2)"
  shows "b"
proof -
  let ?c = "SADD R KeyProcessedSet i"
  let ?P = "\<lambda>s. i \<in> sets (view s) KeyProcessedSet"
  have "fst (rdo ?c w) \<noteq> None"
    and w1: "w1 = snd (rdo (writec (EXPIRE R KeyProcessedSet ttl)) (snd (rdo ?c w)))"
    using assms(3) by (auto simp: MarkProcessed_def split: if_splits prod.splits option.splits)
  then obtain r where "fst (rdo ?c w) = Some r" by blast
  from rdo_reply [OF this] obtain y where "?c y = (r, redis_st (snd (rdo ?c w)))" by blast
  then have "?P (redis_st (snd (rdo ?c w)))"
    using redis_server.sadd_view [OF assms(1), of KeyProcessedSet i y] by simp
  then have "?P (redis_st w1)" unfolding w1
    by (rule rdo_preserves [where P = ?P, rotated]) (simp add: redis_server.expire [OF assms(1,2)])
  moreover have "b = SISMEMBER R KeyProcessedSet i (redis_st w1)"
    using assms(4) rdo_read_val [of "SISMEMBER R KeyProcessedSet i" w1]
    by (auto simp: IsProcessed_def split: if_splits prod.splits option.splits)
  ultimately show ?thesis by (simp add: redis_server.sismember [OF assms(1)])
qed

theorem MarkProcessed_IsProcessed_witness:
  "IsProcessed (Some mem_redis) ''a1''
     (snd (MarkProcessed (Some mem_redis) ''a1'' (24 * Hour) (sample_world mem_empty [Reply 2])))
   = (Inr True, snd (MarkProcessed (Some mem_redis) ''a1'' (24 * Hour) (sample_world mem_empty [Reply 2])))"
proof -
  let ?m = "MarkProcessed (Some mem_redis) ''a1'' (24 * Hour) (sample_world mem_empty [Reply 2])"
  have f: "fst ?m = Inr ()" "isl (fst (IsProcessed (Some mem_redis) ''a1'' (snd ?m))) = False"
    "0 < 24 * Hour" "quiet (snd ?m)" by code_simp+
  have m: "?m = (Inr (), snd ?m)" using f(1) by (metis prod.collapse)
  have p: "IsProcessed (Some mem_redis) ''a1'' (snd ?m) =
      (Inr (SISMEMBER mem_redis KeyProcessedSet ''a1'' (redis_st (snd ?m))), snd ?m)"
    using f(4) by (simp add: IsProcessed_def)
  from MarkProcessed_IsProcessed [OF memory.redis_server_axioms f(3) m p] p show ?thesis by simp
qed

text \<open>
  A late acknowledgement breaks the deduplication: when a slow worker acknowledges a task
  after the janitor has put it back in the queue, the script finds nothing in the processing list
  but removes the IP from the pending set all the same, and a second task for the same IP is then
  accepted while the first still waits.
\<close>

theorem late_ack_breaks_dedup:
  "let w0 = sample_world sample_mem [];
       w1 = snd (snd (RescueStuckTasks (Some mem_redis) sample_codec (60 * Second) 200 w0));
       w2 = snd (AckTask (Some mem_redis) (Some task_a) w1);
       (r, w3) = PushTask (Some mem_redis) sample_codec (Some task_a) w2
   in task_inv mem_redis sample_codec (redis_st w1) \<and> r = Inr () \<and>
      map req_IpId (decode sample_codec (LRANGE mem_redis KeyTaskQueue (redis_st w3))) = [7, 7, 8]"
  by code_simp

text \<open>
  A task pushed by \<open>PushTaskForce\<close> leaves its task id in the pending set for good: popping
  and acknowledging it removes the key of its IP, which was never added, and not the id.
\<close>

theorem PushTaskForce_leaks:
  "let w0 = sample_world mem_empty [];
       w1 = snd (PushTaskForce (Some mem_redis) sample_codec (Some task_a) w0);
       w2 = snd (PopTask (Some mem_redis) sample_codec 200 w1);
       w3 = snd (AckTask (Some mem_redis) (Some task_a) w2)
   in LRANGE mem_redis KeyTaskQueue (redis_st w3) = [] \<and>
      LRANGE mem_redis KeyTaskProcessingQueue (redis_st w3) = [] \<and>
      SISMEMBER mem_redis KeyTaskPendingSet ''a1'' (redis_st w3)"
  by code_simp

end
