(* ===== verification/ScheduleStore.thy ===== *)
theory ScheduleStore
  imports Redis Float64
begin

text \<open>
  \<open>internal/scheduler/schedule_store.go\<close>: the schedule of the IPs, a sorted set with the Unix
  second of the next crawl as score. The Go interface \<open>ScheduleStore\<close> is the record
  \<open>ScheduleStore\<close> of its methods with the contract in the locale \<open>schedule_store\<close>; the methods of
  \<open>RedisScheduleStore\<close> are the definitions below, and the locale is interpreted on them. A time is
  in nanoseconds since the epoch, the result \<open>None\<close> a Go error.
\<close>

definition ScheduleZSetKey :: string where
  "ScheduleZSetKey = ''animetop:schedule:pending''"

definition Unix :: "int \<Rightarrow> int" where
  "Unix t = t div Second"

definition UnixTime :: "int \<Rightarrow> int" where
  "UnixTime secs = secs * Second"

section \<open>The Redis implementation\<close>

definition Schedule :: "'s redis \<Rightarrow> u64 \<Rightarrow> int \<Rightarrow> ('s, 'd) world \<Rightarrow> unit option \<times> ('s, 'd) world" where
  "Schedule R ipID nextTime w =
     rdo (writec (ZADD R ScheduleZSetKey [(f64_of_int (Unix nextTime), FormatUint ipID)])) w"

definition GetDue :: "'s redis \<Rightarrow> int \<Rightarrow> ('s, 'd) world \<Rightarrow> u64 list option \<times> ('s, 'd) world" where
  "GetDue R now w =
     (case rdo (readc (ZRANGEBYSCORE R ScheduleZSetKey (f64_of_int (Unix now)))) w of
        (None, w1) \<Rightarrow> (None, w1)
      | (Some members, w1) \<Rightarrow> (Some (List.map_filter ParseUint members), w1))"

definition GetNextTime :: "(rat \<Rightarrow> int) \<Rightarrow> 's redis \<Rightarrow> ('s, 'd) world \<Rightarrow> int option option \<times> ('s, 'd) world" where
  "GetNextTime oor R w =
     (case rdo (readc (\<lambda>s. take 1 (ZRANGE_WITHSCORES R ScheduleZSetKey s))) w of
        (None, w1) \<Rightarrow> (None, w1)
      | (Some [], w1) \<Rightarrow> (Some None, w1)
      | (Some ((m, score) # _), w1) \<Rightarrow> (Some (Some (UnixTime (f64_to_int64 oor score))), w1))"

definition Remove :: "'s redis \<Rightarrow> u64 \<Rightarrow> ('s, 'd) world \<Rightarrow> unit option \<times> ('s, 'd) world" where
  "Remove R ipID w = rdo (writec (ZREM R ScheduleZSetKey (FormatUint ipID))) w"

definition Count :: "'s redis \<Rightarrow> ('s, 'd) world \<Rightarrow> nat option \<times> ('s, 'd) world" where
  "Count R w = rdo (readc (ZCARD R ScheduleZSetKey)) w"

text \<open>A Go map from ids to times: a later entry of an id replaces the earlier one.\<close>

definition GetAll :: "(rat \<Rightarrow> int) \<Rightarrow> 's redis \<Rightarrow> ('s, 'd) world \<Rightarrow> (u64 \<times> int) list option \<times> ('s, 'd) world" where
  "GetAll oor R w =
     (case rdo (readc (ZRANGE_WITHSCORES R ScheduleZSetKey)) w of
        (None, w1) \<Rightarrow> (None, w1)
      | (Some zs, w1) \<Rightarrow> (Some (foldl (\<lambda>m (member, score). case ParseUint member of None \<Rightarrow> m
            | Some i \<Rightarrow> alist_put i (UnixTime (f64_to_int64 oor score)) m) [] zs), w1))"

definition GetScheduleTime :: "(rat \<Rightarrow> int) \<Rightarrow> 's redis \<Rightarrow> u64 \<Rightarrow> ('s, 'd) world \<Rightarrow> int option option \<times> ('s, 'd) world" where
  "GetScheduleTime oor R ipID w =
     (case rdo (readc (ZSCORE R ScheduleZSetKey (FormatUint ipID))) w of
        (None, w1) \<Rightarrow> (None, w1)
      | (Some None, w1) \<Rightarrow> (Some None, w1)
      | (Some (Some score), w1) \<Rightarrow> (Some (Some (UnixTime (f64_to_int64 oor score))), w1))"

definition ScheduleBatch :: "'s redis \<Rightarrow> (u64 \<times> int) list \<Rightarrow> ('s, 'd) world \<Rightarrow> unit option \<times> ('s, 'd) world" where
  "ScheduleBatch R schedules w = (if schedules = [] then (Some (), w)
     else rdo (writec (ZADD R ScheduleZSetKey
       (map (\<lambda>(ipID, nextTime). (f64_of_int (Unix nextTime), FormatUint ipID)) schedules))) w)"

section \<open>The interface\<close>

text \<open>
  \<open>api_ScheduleBatch\<close> is not a method of the interface: a client finds it by a type assertion, so
  it is \<open>None\<close> for a store of another type.
\<close>

record 'w ScheduleStore =
  api_Schedule :: "u64 \<Rightarrow> int \<Rightarrow> 'w \<Rightarrow> unit option \<times> 'w"
  api_GetDue :: "int \<Rightarrow> 'w \<Rightarrow> u64 list option \<times> 'w"
  api_GetNextTime :: "'w \<Rightarrow> int option option \<times> 'w"
  api_Remove :: "u64 \<Rightarrow> 'w \<Rightarrow> unit option \<times> 'w"
  api_Count :: "'w \<Rightarrow> nat option \<times> 'w"
  api_GetAll :: "'w \<Rightarrow> (u64 \<times> int) list option \<times> 'w"
  api_GetScheduleTime :: "u64 \<Rightarrow> 'w \<Rightarrow> int option option \<times> 'w"
  api_ScheduleBatch :: "((u64 \<times> int) list \<Rightarrow> 'w \<Rightarrow> unit option \<times> 'w) option"

definition NewRedisScheduleStore :: "(rat \<Rightarrow> int) \<Rightarrow> 's redis \<Rightarrow> ('s, 'd) world ScheduleStore" where
  "NewRedisScheduleStore oor R = \<lparr>api_Schedule = Schedule R, api_GetDue = GetDue R,
     api_GetNextTime = GetNextTime oor R, api_Remove = Remove R, api_Count = Count R,
     api_GetAll = GetAll oor R, api_GetScheduleTime = GetScheduleTime oor R,
     api_ScheduleBatch = Some (ScheduleBatch R)\<rparr>"

text \<open>Times whose second a \<open>float64\<close> holds exactly: some 285 million years around 1970.\<close>

definition exact_time :: "int \<Rightarrow> bool" where
  "exact_time t \<longleftrightarrow> \<bar>Unix t\<bar> \<le> 2 ^ 53"

text \<open>
  The contract, on the map \<open>times\<close> from ids to seconds: a call that succeeds did what it says and
  answers from the map, a call that fails did that or nothing, reads change nothing.
\<close>

locale schedule_store =
  fixes S :: "'w ScheduleStore" and ok :: "'w \<Rightarrow> bool" and times :: "'w \<Rightarrow> u64 \<Rightarrow> int option"
  assumes schedule: "ok w \<Longrightarrow> exact_time t \<Longrightarrow> api_Schedule S i t w = (r, w') \<Longrightarrow>
      ok w' \<and> (times w' = (times w)(i \<mapsto> Unix t) \<or> r = None \<and> times w' = times w)"
    and remove: "ok w \<Longrightarrow> api_Remove S i w = (r, w') \<Longrightarrow>
      ok w' \<and> (times w' = (times w)(i := None) \<or> r = None \<and> times w' = times w)"
    and get_due: "ok w \<Longrightarrow> exact_time now \<Longrightarrow> api_GetDue S now w = (due, w') \<Longrightarrow>
      ok w' \<and> times w' = times w \<and>
      (\<forall>ids. due = Some ids \<longrightarrow> distinct ids \<and> set ids = {i. \<exists>t. times w i = Some t \<and> t \<le> Unix now})"
    and get_next: "ok w \<Longrightarrow> api_GetNextTime S w = (nx, w') \<Longrightarrow>
      ok w' \<and> times w' = times w \<and> (nx = Some None \<longrightarrow> times w = Map.empty) \<and>
      (\<forall>t. nx = Some (Some t) \<longrightarrow> t = UnixTime (Unix t) \<and> (\<exists>i. times w i = Some (Unix t)) \<and>
        (\<forall>i u. times w i = Some u \<longrightarrow> Unix t \<le> u))"
    and count: "ok w \<Longrightarrow> api_Count S w = (cn, w') \<Longrightarrow>
      ok w' \<and> times w' = times w \<and> (\<forall>n. cn = Some n \<longrightarrow> n = card (dom (times w)) \<and> finite (dom (times w)))"
    and get_all: "ok w \<Longrightarrow> api_GetAll S w = (al, w') \<Longrightarrow>
      ok w' \<and> times w' = times w \<and>
      (\<forall>m. al = Some m \<longrightarrow> map_of m = (\<lambda>i. map_option UnixTime (times w i)))"
    and get_time: "ok w \<Longrightarrow> api_GetScheduleTime S i w = (tm, w') \<Longrightarrow>
      ok w' \<and> times w' = times w \<and> (\<forall>x. tm = Some x \<longrightarrow> x = map_option UnixTime (times w i))"
    and batch: "api_ScheduleBatch S = Some f \<Longrightarrow> ok w \<Longrightarrow> list_all (\<lambda>(i, t). exact_time t) sch \<Longrightarrow>
      f sch w = (r, w') \<Longrightarrow>
      ok w' \<and> (times w' = times w ++ map_of (rev (map (\<lambda>(i, t). (i, Unix t)) sch)) \<or>
        r = None \<and> times w' = times w)"

section \<open>The implementation meets the contract\<close>

definition entry_ok :: "string \<times> rat \<Rightarrow> bool" where
  "entry_ok p = (case p of (m, sc) \<Rightarrow>
     (case ParseUint m of None \<Rightarrow> False | Some i \<Rightarrow> m = FormatUint i) \<and>
     sc = of_int (trunc sc) \<and> \<bar>trunc sc\<bar> \<le> 2 ^ 53)"

definition zset_ok :: "'s redis \<Rightarrow> ('s, 'd) world \<Rightarrow> bool" where
  "zset_ok R w = list_all entry_ok (ZRANGE_WITHSCORES R ScheduleZSetKey (redis_st w))"

definition zset_times :: "'s redis \<Rightarrow> ('s, 'd) world \<Rightarrow> u64 \<Rightarrow> int option" where
  "zset_times R w i = map_option trunc (ZSCORE R ScheduleZSetKey (FormatUint i) (redis_st w))"

lemma Unix_UnixTime [simp]: "Unix (UnixTime n) = n"
  by (simp add: Unix_def UnixTime_def Second_def)

lemma entry_ok_member: "entry_ok (m, sc) \<Longrightarrow> ParseUint m = Some i \<Longrightarrow> m = FormatUint i"
  by (simp add: entry_ok_def)

lemma entry_ok_conv: "entry_ok (m, sc) \<Longrightarrow> f64_to_int64 oor sc = trunc sc"
  by (auto simp: entry_ok_def f64_to_int64_def Let_def)

lemma entry_ok_format: "entry_ok (FormatUint i, sc) \<longleftrightarrow> sc = of_int (trunc sc) \<and> \<bar>trunc sc\<bar> \<le> 2 ^ 53"
  by (simp add: entry_ok_def)

lemma entry_ok_new: "exact_time t \<Longrightarrow> entry_ok (FormatUint i, f64_of_int (Unix t))"
  by (simp add: entry_ok_format f64_of_int_def rnd64_of_int exact_time_def)

lemma trunc_f64_unix: "exact_time t \<Longrightarrow> trunc (f64_of_int (Unix t)) = Unix t"
  by (simp add: f64_of_int_def rnd64_of_int exact_time_def)

context redis_server
begin

lemma zset_entries:
  "(m, sc) \<in> set (ZRANGE_WITHSCORES R k s) \<longleftrightarrow> zsets (view s) k m = Some sc"
  using zrange_map [of k s] zrange_distinct [of k s] by (metis map_of_eq_Some_iff)

lemma zset_ok_iff:
  "zset_ok R w \<longleftrightarrow> (\<forall>m sc. zsets (view (redis_st w)) ScheduleZSetKey m = Some sc \<longrightarrow> entry_ok (m, sc))"
  by (auto simp: zset_ok_def list_all_iff zset_entries)

lemma zset_times_view:
  "zset_times R w = (\<lambda>i. map_option trunc (zsets (view (redis_st w)) ScheduleZSetKey (FormatUint i)))"
  by (simp add: zset_times_def fun_eq_iff zscore)

lemma zset_ok_member:
  assumes "zset_ok R w" "zsets (view (redis_st w)) ScheduleZSetKey m = Some sc"
  obtains i where "m = FormatUint i" "zset_times R w i = Some (trunc sc)"
    "sc = of_int (trunc sc)" "f64_to_int64 oor sc = trunc sc"
proof -
  have e: "entry_ok (m, sc)" using assms by (simp add: zset_ok_iff)
  then obtain i where i: "m = FormatUint i" by (auto simp: entry_ok_def split: option.splits)
  show thesis
  proof (rule that [OF i])
    show "zset_times R w i = Some (trunc sc)" using assms(2) i by (simp add: zset_times_view)
    show "sc = of_int (trunc sc)" using e by (simp add: entry_ok_def)
    show "f64_to_int64 oor sc = trunc sc" using e by (rule entry_ok_conv)
  qed
qed

lemma zset_read:
  assumes "rdo (readc f) w = (r, w')"
  shows "zset_ok R w' = zset_ok R w" "zset_times R w' = zset_times R w"
    "r = None \<or> r = Some (f (redis_st w))"
  using rdo_read_st [of f w] rdo_read_val [of f w] assms
  by (auto simp: zset_ok_def zset_times_def fun_eq_iff)

lemma zset_write:
  assumes w': "rdo (writec c) w = (r, w')" and ok: "zset_ok R w"
    and z: "\<And>s. zsets (view (c s)) ScheduleZSetKey = f (zsets (view s) ScheduleZSetKey)"
    and idem: "\<And>z. f (f z) = f z"
    and keep: "\<And>z. (\<forall>m sc. z m = Some sc \<longrightarrow> entry_ok (m, sc)) \<Longrightarrow> (\<forall>m sc. f z m = Some sc \<longrightarrow> entry_ok (m, sc))"
  shows "zset_ok R w' \<and> (zset_times R w' = (\<lambda>i. map_option trunc (f (zsets (view (redis_st w)) ScheduleZSetKey) (FormatUint i)))
    \<or> r = None \<and> zset_times R w' = zset_times R w)"
proof -
  let ?z = "\<lambda>s. zsets (view s) ScheduleZSetKey"
  let ?n = "\<lambda>n. ((\<lambda>y. snd (writec c y)) ^^ n) (redis_st w)"
  have n: "?z (?n n) = (if n = 0 then ?z (redis_st w) else f (?z (redis_st w)))" for n
    by (induction n) (auto simp: z idem)
  obtain n where n': "redis_st w' = ?n n" "r \<noteq> None \<longrightarrow> n \<noteq> 0"
  proof (cases "next_outcome w")
    case (Reply m)
    then have "redis_st w' = ?n (Suc m)" using w' by (auto simp: rdo_def remote_def Let_def)
    then show thesis using that by blast
  next
    case (Lost m)
    then have "redis_st w' = ?n m" "r = None" using w' by (auto simp: rdo_def remote_def Let_def)
    then show thesis using that by blast
  qed
  show ?thesis using n' n [of n] ok keep [of "?z (redis_st w)"]
    by (auto simp: zset_ok_iff zset_times_view)
qed

lemma zset_count_card:
  assumes "zset_ok R w"
  shows "length (ZRANGE_WITHSCORES R ScheduleZSetKey (redis_st w)) = card (dom (zset_times R w))"
    and "finite (dom (zset_times R w))"
proof -
  let ?zs = "ZRANGE_WITHSCORES R ScheduleZSetKey (redis_st w)"
  have d: "FormatUint ` dom (zset_times R w) = fst ` set ?zs"
  proof (intro equalityI subsetI)
    fix m
    assume "m \<in> fst ` set ?zs"
    then obtain sc where "zsets (view (redis_st w)) ScheduleZSetKey m = Some sc"
      using zset_entries by force
    then obtain i where "m = FormatUint i" "zset_times R w i = Some (trunc sc)"
      by (rule zset_ok_member [OF assms])
    then show "m \<in> FormatUint ` dom (zset_times R w)" by blast
  next
    fix m
    assume "m \<in> FormatUint ` dom (zset_times R w)"
    then obtain i sc where "m = FormatUint i" "zsets (view (redis_st w)) ScheduleZSetKey m = Some sc"
      by (auto simp: zset_times_view)
    then show "m \<in> fst ` set ?zs" using zset_entries by force
  qed
  have inj: "inj_on FormatUint (dom (zset_times R w))" by (simp add: inj_on_def)
  show "finite (dom (zset_times R w))" using d inj by (metis finite_imageD finite_imageI finite_set)
  have "card (fst ` set ?zs) = length ?zs"
    using zrange_distinct [of ScheduleZSetKey "redis_st w"] by (metis distinct_card length_map set_map)
  then show "length ?zs = card (dom (zset_times R w))" using d inj by (metis card_image)
qed

end


context redis_server
begin

lemma schedule_law:
  assumes "zset_ok R w" "exact_time t" "Schedule R i t w = (r, w')"
  shows "zset_ok R w' \<and> (zset_times R w' = (zset_times R w)(i \<mapsto> Unix t) \<or> r = None \<and> zset_times R w' = zset_times R w)"
proof -
  let ?f = "\<lambda>z. z(FormatUint i \<mapsto> f64_of_int (Unix t))"
  have "zset_ok R w' \<and> (zset_times R w' = (\<lambda>j. map_option trunc (?f (zsets (view (redis_st w)) ScheduleZSetKey) (FormatUint j)))
      \<or> r = None \<and> zset_times R w' = zset_times R w)"
    using assms(3) unfolding Schedule_def
    by (rule zset_write [OF _ assms(1)]) (auto simp: zadd entry_ok_new [OF assms(2)] fun_eq_iff)
  moreover have "(\<lambda>j. map_option trunc (?f (zsets (view (redis_st w)) ScheduleZSetKey) (FormatUint j))) =
      (zset_times R w)(i \<mapsto> Unix t)"
    by (auto simp: fun_eq_iff zset_times_view trunc_f64_unix [OF assms(2)])
  ultimately show ?thesis by simp
qed

lemma remove_law:
  assumes "zset_ok R w" "Remove R i w = (r, w')"
  shows "zset_ok R w' \<and> (zset_times R w' = (zset_times R w)(i := None) \<or> r = None \<and> zset_times R w' = zset_times R w)"
proof -
  let ?f = "\<lambda>z. z(FormatUint i := None)"
  have "zset_ok R w' \<and> (zset_times R w' = (\<lambda>j. map_option trunc (?f (zsets (view (redis_st w)) ScheduleZSetKey) (FormatUint j)))
      \<or> r = None \<and> zset_times R w' = zset_times R w)"
    using assms(2) unfolding Remove_def
    by (rule zset_write [OF _ assms(1)]) (auto simp: zrem fun_eq_iff split: if_splits)
  moreover have "(\<lambda>j. map_option trunc (?f (zsets (view (redis_st w)) ScheduleZSetKey) (FormatUint j))) =
      (zset_times R w)(i := None)"
    by (auto simp: fun_eq_iff zset_times_view)
  ultimately show ?thesis by simp
qed

lemma batch_law:
  assumes "zset_ok R w" "list_all (\<lambda>(i, t). exact_time t) sch" "ScheduleBatch R sch w = (r, w')"
  shows "zset_ok R w' \<and> (zset_times R w' = zset_times R w ++ map_of (rev (map (\<lambda>(i, t). (i, Unix t)) sch)) \<or>
      r = None \<and> zset_times R w' = zset_times R w)"
proof (cases "sch = []")
  case True
  then show ?thesis using assms by (simp add: ScheduleBatch_def)
next
  case False
  let ?ms = "rev (map (\<lambda>(i, t). (FormatUint i, f64_of_int (Unix t))) sch)"
  let ?f = "\<lambda>z. z ++ map_of ?ms"
  have ms: "map (\<lambda>(sc, m). (m, sc)) (map (\<lambda>(ipID, nextTime). (f64_of_int (Unix nextTime), FormatUint ipID)) sch)
      = rev ?ms"
    by (simp add: case_prod_unfold)
  have ent: "entry_ok (m, sc)" if "map_of ?ms m = Some sc" for m sc
    using map_of_SomeD [OF that] assms(2) by (auto simp: list_all_iff entry_ok_new)
  have "rdo (writec (ZADD R ScheduleZSetKey
      (map (\<lambda>(ipID, nextTime). (f64_of_int (Unix nextTime), FormatUint ipID)) sch))) w = (r, w')"
    using assms(3) False by (simp add: ScheduleBatch_def)
  then have "zset_ok R w' \<and> (zset_times R w' = (\<lambda>j. map_option trunc (?f (zsets (view (redis_st w)) ScheduleZSetKey) (FormatUint j)))
      \<or> r = None \<and> zset_times R w' = zset_times R w)"
  proof (rule zset_write [OF _ assms(1), where f = ?f])
    show "zsets (view (ZADD R ScheduleZSetKey (map (\<lambda>(ipID, nextTime). (f64_of_int (Unix nextTime), FormatUint ipID)) sch) s))
        ScheduleZSetKey = ?f (zsets (view s) ScheduleZSetKey)" for s
      by (simp only: zadd ms rev_rev_ident) simp
    show "?f (?f z) = ?f z" for z :: "string \<Rightarrow> rat option"
      by (auto simp: fun_eq_iff map_add_def split: option.splits)
    show "\<forall>m sc. ?f z m = Some sc \<longrightarrow> entry_ok (m, sc)" if "\<forall>m sc. z m = Some sc \<longrightarrow> entry_ok (m, sc)" for z
      using that ent by (auto simp only: map_add_Some_iff)
  qed
  moreover have look: "map_of (rev (map (\<lambda>(i, t). (FormatUint i, f64_of_int (Unix t))) xs)) (FormatUint j) =
      map_option f64_of_int (map_of (rev (map (\<lambda>(i, t). (i, Unix t)) xs)) j)" for xs j
    by (induction xs rule: rev_induct) (auto simp: map_add_def split: option.splits)
  have "(\<lambda>j. map_option trunc (?f (zsets (view (redis_st w)) ScheduleZSetKey) (FormatUint j))) =
      zset_times R w ++ map_of (rev (map (\<lambda>(i, t). (i, Unix t)) sch))"
  proof
    fix j
    show "map_option trunc (?f (zsets (view (redis_st w)) ScheduleZSetKey) (FormatUint j)) =
      (zset_times R w ++ map_of (rev (map (\<lambda>(i, t). (i, Unix t)) sch))) j"
    proof (cases "map_of (rev (map (\<lambda>(i, t). (i, Unix t)) sch)) j")
      case None
      then show ?thesis using look [of sch j] by (simp add: map_add_def zset_times_view)
    next
      case (Some n)
      then have "\<exists>t. exact_time t \<and> n = Unix t"
        using map_of_SomeD [OF Some] assms(2) by (auto simp: list_all_iff)
      then show ?thesis using look [of sch j] Some by (auto simp: map_add_def trunc_f64_unix)
    qed
  qed
  ultimately show ?thesis by simp
qed

lemma due_law:
  assumes ok: "zset_ok R w" and t: "exact_time now" and r: "GetDue R now w = (r, w')"
  shows "zset_ok R w' \<and> zset_times R w' = zset_times R w \<and>
    (\<forall>ids. r = Some ids \<longrightarrow> distinct ids \<and> set ids = {i. \<exists>u. zset_times R w i = Some u \<and> u \<le> Unix now})"
proof -
  let ?mx = "f64_of_int (Unix now)"
  let ?zs = "ZRANGE_WITHSCORES R ScheduleZSetKey (redis_st w)"
  let ?ms = "map fst (filter (\<lambda>(m, sc). sc \<le> ?mx) ?zs)"
  have mx: "?mx = of_int (Unix now)" using t by (simp add: f64_of_int_def rnd64_of_int exact_time_def)
  obtain x w1 where x: "rdo (readc (ZRANGEBYSCORE R ScheduleZSetKey ?mx)) w = (x, w1)" by fastforce
  have w1: "zset_ok R w1" "zset_times R w1 = zset_times R w" "x = None \<or> x = Some ?ms"
    using zset_read [OF x] ok by (simp_all add: zrangebyscore)
  have canon: "\<exists>i. m = FormatUint i" if m: "m \<in> set ?ms" for m
  proof -
    obtain sc where "zsets (view (redis_st w)) ScheduleZSetKey m = Some sc"
      using m zset_entries by force
    then show ?thesis by (rule zset_ok_member [OF ok]) blast
  qed
  have "distinct ?ms" using zrange_distinct [of ScheduleZSetKey "redis_st w"] by (rule distinct_map_filter)
  then have dist: "distinct (List.map_filter ParseUint ?ms)"
  proof (rule distinct_map_filter_inj)
    fix m n b
    assume "m \<in> set ?ms" "n \<in> set ?ms" and p: "ParseUint m = Some b" "ParseUint n = Some b"
    then obtain i j where ij: "m = FormatUint i" "n = FormatUint j" using canon by meson
    then show "m = n" using p by simp
  qed
  have "i \<in> set (List.map_filter ParseUint ?ms) \<longleftrightarrow> FormatUint i \<in> set ?ms" for i
    using canon by (force simp: map_filter_set)
  moreover have "FormatUint i \<in> set ?ms \<longleftrightarrow> (\<exists>u. zset_times R w i = Some u \<and> u \<le> Unix now)" for i
  proof -
    have "FormatUint i \<in> set ?ms \<longleftrightarrow> (\<exists>sc. zsets (view (redis_st w)) ScheduleZSetKey (FormatUint i) = Some sc \<and> sc \<le> ?mx)"
      using zset_entries by force
    also have "\<dots> \<longleftrightarrow> (\<exists>u. zset_times R w i = Some u \<and> u \<le> Unix now)"
    proof (cases "zsets (view (redis_st w)) ScheduleZSetKey (FormatUint i)")
      case (Some sc)
      then have "entry_ok (FormatUint i, sc)" using ok by (simp add: zset_ok_iff)
      then have "sc = of_int (trunc sc)" by (simp add: entry_ok_format)
      then have "sc \<le> ?mx \<longleftrightarrow> trunc sc \<le> Unix now" unfolding mx by (metis of_int_le_iff)
      then show ?thesis using Some by (simp add: zset_times_view)
    qed (simp add: zset_times_view)
    finally show ?thesis .
  qed
  ultimately have "set (List.map_filter ParseUint ?ms) = {i. \<exists>u. zset_times R w i = Some u \<and> u \<le> Unix now}"
    by blast
  then show ?thesis using w1 dist r x by (auto simp: GetDue_def)
qed

lemma next_law:
  assumes ok: "zset_ok R w" and r: "GetNextTime oor R w = (r, w')"
  shows "zset_ok R w' \<and> zset_times R w' = zset_times R w \<and> (r = Some None \<longrightarrow> zset_times R w = Map.empty) \<and>
    (\<forall>t. r = Some (Some t) \<longrightarrow> t = UnixTime (Unix t) \<and> (\<exists>i. zset_times R w i = Some (Unix t)) \<and>
      (\<forall>i u. zset_times R w i = Some u \<longrightarrow> Unix t \<le> u))"
proof -
  let ?zs = "ZRANGE_WITHSCORES R ScheduleZSetKey (redis_st w)"
  obtain x w1 where x: "rdo (readc (\<lambda>s. take 1 (ZRANGE_WITHSCORES R ScheduleZSetKey s))) w = (x, w1)"
    by fastforce
  have w1: "zset_ok R w1" "zset_times R w1 = zset_times R w" "x = None \<or> x = Some (take 1 ?zs)"
    using zset_read [OF x] ok by simp_all
  show ?thesis
  proof (cases ?zs)
    case Nil
    then have "zsets (view (redis_st w)) ScheduleZSetKey = Map.empty"
      using zrange_map [of ScheduleZSetKey "redis_st w"] by simp
    then have "zset_times R w = Map.empty" by (simp add: zset_times_view)
    then show ?thesis using w1 r x Nil by (auto simp: GetNextTime_def)
  next
    case (Cons p zs)
    obtain m sc where p: "p = (m, sc)" by fastforce
    have "zsets (view (redis_st w)) ScheduleZSetKey m = Some sc"
      using zset_entries [of m sc] Cons p by (metis list.set_intros(1))
    then obtain i where i: "zset_times R w i = Some (trunc sc)" "f64_to_int64 oor sc = trunc sc"
      by (rule zset_ok_member [OF ok])
    have least: "trunc sc \<le> u" if u: "zset_times R w j = Some u" for j u
    proof -
      obtain sc' where sc': "zsets (view (redis_st w)) ScheduleZSetKey (FormatUint j) = Some sc'" "u = trunc sc'"
        using u by (auto simp: zset_times_view)
      then have "(FormatUint j, sc') \<in> set (p # zs)" using zset_entries Cons by metis
      moreover have "sorted (map snd (p # zs))" using zrange_sorted [of ScheduleZSetKey "redis_st w"] Cons by simp
      ultimately have "sc \<le> sc'" using p by force
      then show ?thesis using sc'(2) by (simp add: trunc_mono)
    qed
    then show ?thesis using w1 r x Cons p i by (auto simp: GetNextTime_def)
  qed
qed

lemma count_law:
  assumes ok: "zset_ok R w" and r: "Count R w = (r, w')"
  shows "zset_ok R w' \<and> zset_times R w' = zset_times R w \<and>
    (\<forall>n. r = Some n \<longrightarrow> n = card (dom (zset_times R w)) \<and> finite (dom (zset_times R w)))"
  using zset_read [OF r [unfolded Count_def]] ok zset_count_card [OF ok] by (auto simp: zcard)

lemma fold_put_lookup:
  assumes "distinct (map fst zs)" "list_all entry_ok zs"
  shows "map_of (foldl (\<lambda>m (member, score). case ParseUint member of None \<Rightarrow> m
        | Some i \<Rightarrow> alist_put i (UnixTime (f64_to_int64 oor score)) m) a zs) i =
    (case map_of zs (FormatUint i) of None \<Rightarrow> map_of a i | Some sc \<Rightarrow> Some (UnixTime (trunc sc)))"
  using assms
proof (induction zs arbitrary: a)
  case (Cons p zs)
  obtain m sc where p: "p = (m, sc)" by fastforce
  have e: "entry_ok (m, sc)" using Cons.prems p by simp
  then obtain j where j: "ParseUint m = Some j" "m = FormatUint j"
    by (auto simp: entry_ok_def split: option.splits)
  have "map_of zs (FormatUint j) = None" using Cons.prems(1) p j by (auto simp: map_of_eq_None_iff)
  then show ?case using Cons.IH [of "alist_put j (UnixTime (trunc sc)) a"] Cons.prems p j entry_ok_conv [OF e]
    by (auto split: option.split)
qed simp

lemma all_law:
  assumes ok: "zset_ok R w" and r: "GetAll oor R w = (r, w')"
  shows "zset_ok R w' \<and> zset_times R w' = zset_times R w \<and>
    (\<forall>m. r = Some m \<longrightarrow> map_of m = (\<lambda>i. map_option UnixTime (zset_times R w i)))"
proof -
  let ?zs = "ZRANGE_WITHSCORES R ScheduleZSetKey (redis_st w)"
  obtain x w1 where x: "rdo (readc (ZRANGE_WITHSCORES R ScheduleZSetKey)) w = (x, w1)" by fastforce
  have w1: "zset_ok R w1" "zset_times R w1 = zset_times R w" "x = None \<or> x = Some ?zs"
    using zset_read [OF x] ok by simp_all
  have "map_of (foldl (\<lambda>m (member, score). case ParseUint member of None \<Rightarrow> m
        | Some i \<Rightarrow> alist_put i (UnixTime (f64_to_int64 oor score)) m) [] ?zs) i =
      map_option UnixTime (zset_times R w i)" for i
    using fold_put_lookup [of ?zs oor "[]" i] zrange_distinct [of ScheduleZSetKey "redis_st w"] ok
    by (simp add: zset_ok_def zset_times_view zrange_map split: option.split)
  then show ?thesis using w1 r x by (auto simp: GetAll_def fun_eq_iff)
qed

lemma time_law:
  assumes ok: "zset_ok R w" and r: "GetScheduleTime oor R i w = (r, w')"
  shows "zset_ok R w' \<and> zset_times R w' = zset_times R w \<and>
    (\<forall>x. r = Some x \<longrightarrow> x = map_option UnixTime (zset_times R w i))"
proof -
  obtain x w1 where x: "rdo (readc (ZSCORE R ScheduleZSetKey (FormatUint i))) w = (x, w1)" by fastforce
  have w1: "zset_ok R w1" "zset_times R w1 = zset_times R w"
    "x = None \<or> x = Some (zsets (view (redis_st w)) ScheduleZSetKey (FormatUint i))"
    using zset_read [OF x] ok by (simp_all add: zscore)
  show ?thesis
  proof (cases "zsets (view (redis_st w)) ScheduleZSetKey (FormatUint i)")
    case None
    then show ?thesis using w1 r x by (auto simp: GetScheduleTime_def zset_times_view)
  next
    case (Some sc)
    then have "entry_ok (FormatUint i, sc)" using ok by (simp add: zset_ok_iff)
    then show ?thesis using w1 r x Some entry_ok_conv [of "FormatUint i" sc oor]
      by (auto simp: GetScheduleTime_def zset_times_view)
  qed
qed

end

sublocale redis_server \<subseteq> store: schedule_store "NewRedisScheduleStore oor R" "zset_ok R" "zset_times R"
  for oor :: "rat \<Rightarrow> int"
proof (unfold_locales, unfold NewRedisScheduleStore_def ScheduleStore.simps, goal_cases)
  case 1
  then show ?case by (rule schedule_law)
next
  case 2
  then show ?case by (rule remove_law)
next
  case 3
  then show ?case by (rule due_law)
next
  case 4
  then show ?case by (rule next_law)
next
  case 5
  then show ?case by (rule count_law)
next
  case 6
  then show ?case by (rule all_law)
next
  case 7
  then show ?case by (rule time_law)
next
  case (8 f w sch r w')
  then show ?case using batch_law [of w sch r w'] by blast
qed


section \<open>Properties\<close>

text \<open>A world over the in-memory server, for the witnesses.\<close>

definition zworld :: "(string \<times> rat) list \<Rightarrow> outcome list \<Rightarrow> (mem, unit) world" where
  "zworld z os = \<lparr>redis_st = mem_empty\<lparr>m_zsets := [(ScheduleZSetKey, z)]\<rparr>, db_st = (), outcomes = os\<rparr>"

text \<open>
  What was scheduled is what is read back: after a \<open>Schedule\<close> that succeeded, resent or not,
  every answer of \<open>GetScheduleTime\<close> for the IP is the scheduled time cut to whole seconds.
\<close>

theorem Schedule_roundtrip:
  assumes "redis_server R view" and "zset_ok R w" and "exact_time t"
    and "Schedule R i t w = (Some (), w1)" and "GetScheduleTime oor R i w1 = (Some x, w2)"
  shows "x = Some (UnixTime (Unix t))"
proof -
  have "zset_ok R w1" "zset_times R w1 = (zset_times R w)(i \<mapsto> Unix t)"
    using redis_server.schedule_law [OF assms(1-4)] by auto
  then show ?thesis using redis_server.time_law [OF assms(1) _ assms(5)] by simp
qed

theorem Schedule_roundtrip_witness:
  "fst (GetScheduleTime (\<lambda>_. 0) mem_redis 7 (snd (Schedule mem_redis 7 (5 * Second + 999) (zworld [] [Reply 1]))))
   = Some (Some (5 * Second))"
proof -
  let ?w = "zworld [] [Reply 1]"
  have f: "zset_ok mem_redis ?w" "exact_time (5 * Second + 999)"
    "fst (Schedule mem_redis 7 (5 * Second + 999) ?w) = Some ()"
    "fst (GetScheduleTime (\<lambda>_. 0) mem_redis 7 (snd (Schedule mem_redis 7 (5 * Second + 999) ?w))) \<noteq> None"
    "UnixTime (Unix (5 * Second + 999)) = 5 * Second"
    by code_simp+
  have s: "Schedule mem_redis 7 (5 * Second + 999) ?w = (Some (), snd (Schedule mem_redis 7 (5 * Second + 999) ?w))"
    using f(3) by (metis prod.collapse)
  obtain x where "fst (GetScheduleTime (\<lambda>_. 0) mem_redis 7 (snd (Schedule mem_redis 7 (5 * Second + 999) ?w))) = Some x"
    using f(4) by blast
  then have g: "GetScheduleTime (\<lambda>_. 0) mem_redis 7 (snd (Schedule mem_redis 7 (5 * Second + 999) ?w)) =
      (Some x, snd (GetScheduleTime (\<lambda>_. 0) mem_redis 7 (snd (Schedule mem_redis 7 (5 * Second + 999) ?w))))"
    by (metis prod.collapse)
  show ?thesis
    using Schedule_roundtrip [OF memory.redis_server_axioms f(1,2) s g] f(5) g by (metis fst_conv)
qed

text \<open>
  \<open>GetDue\<close> answers exactly the IPs whose scheduled second is not after the current second,
  each once, and \<open>GetNextTime\<close> answers the earliest scheduled second, so that an IP is due
  whenever the next time is not in the future.
\<close>

theorem GetDue_GetNextTime:
  assumes "redis_server R view" and "zset_ok R w" and "exact_time now"
    and "GetNextTime oor R w = (Some (Some t), w1)" and "GetDue R now w1 = (Some ids, w2)"
  shows "distinct ids \<and> set ids = {i. \<exists>u. zset_times R w i = Some u \<and> u \<le> Unix now} \<and>
    (ids \<noteq> [] \<longleftrightarrow> Unix t \<le> Unix now)"
proof -
  have n: "zset_ok R w1" "zset_times R w1 = zset_times R w" "\<exists>i. zset_times R w i = Some (Unix t)"
    "\<And>i u. zset_times R w i = Some u \<Longrightarrow> Unix t \<le> u"
    using redis_server.next_law [OF assms(1,2,4)] by auto
  have d: "distinct ids" "set ids = {i. \<exists>u. zset_times R w i = Some u \<and> u \<le> Unix now}"
    using redis_server.due_law [OF assms(1) n(1) assms(3,5)] n(2) by auto
  have "ids \<noteq> [] \<longleftrightarrow> (\<exists>i. i \<in> set ids)" by (cases ids) auto
  also have "\<dots> \<longleftrightarrow> Unix t \<le> Unix now" using d(2) n(3,4) by (auto intro: order_trans)
  finally show ?thesis using d by blast
qed

theorem GetDue_GetNextTime_witness:
  "fst (GetDue mem_redis (6 * Second) (snd (GetNextTime (\<lambda>_. 0) mem_redis (zworld [(''7'', 5), (''8'', 9)] [])))) \<noteq> Some []"
proof -
  let ?w = "zworld [(''7'', 5), (''8'', 9)] []"
  have f: "zset_ok mem_redis ?w" "exact_time (6 * Second)"
    "fst (GetNextTime (\<lambda>_. 0) mem_redis ?w) = Some (Some (5 * Second))"
    "Unix (5 * Second) \<le> Unix (6 * Second)"
    by code_simp+
  have n: "GetNextTime (\<lambda>_. 0) mem_redis ?w = (Some (Some (5 * Second)), snd (GetNextTime (\<lambda>_. 0) mem_redis ?w))"
    using f(3) by (metis prod.collapse)
  show ?thesis
  proof
    assume "fst (GetDue mem_redis (6 * Second) (snd (GetNextTime (\<lambda>_. 0) mem_redis ?w))) = Some []"
    from GetDue_GetNextTime [OF memory.redis_server_axioms f(1,2) n fst_pair [OF this]] f(4) show False by simp
  qed
qed

end
