(* ===== verification/Config.thy ===== *)
theory Config
  imports Float64
begin

text \<open>
  \<open>internal/config/config.go\<close>: the configuration records, the defaults, the environment
  overrides and the interval of an IP from its weight. The environment is a function from names
  to values, the empty string when unset, as \<open>os.Getenv\<close> has it. Three readers of text are
  arguments: the JSON decoder, \<open>time.ParseDuration\<close> and \<open>strconv.ParseFloat\<close> (the record
  \<open>readers\<close>), with the MySQL driver's \<open>ParseDSN\<close> and \<open>FormatDSN\<close>; no theorem depends on what
  they accept.
\<close>

section \<open>Records\<close>

record AppConfig =
  Env :: string
  LogLevel :: string
  HTTPAddr :: string
  MetricsAddr :: string
  WorkerPoolSize :: int
  QueueCapacity :: int
  RateLimit :: rat
  RateBurst :: rat
  AdminAPIKey :: string
  MaxTasks :: int
  ProxyCooldown :: int
  ProxyFailureThreshold :: int
  ProxyAutoSwitch :: bool

record SchedulerConfig =
  BaseInterval :: int
  MinInterval :: int
  MaxInterval :: int
  ScheduleSlot :: int
  BatchSize :: int
  BackpressureThreshold :: int
  JanitorInterval :: int
  JanitorTimeout :: int
  PagesOnSale :: int
  PagesSold :: int

record AnalyzerConfig =
  SnapshotTTL :: int
  ItemTTLAvailable :: int
  ItemTTLSold :: int
  StatsRetention :: int
  HighOutflowThreshold :: int
  LowLiquidityThreshold :: rat
  HighLiquidityThreshold :: rat
  TrendWindowSize :: int

record MySQLConfig =
  DSN :: string

record RedisConfig =
  Addr :: string
  Password :: string
  PoolSize :: int
  MinIdleConns :: int
  DialTimeout :: int
  ReadTimeout :: int
  WriteTimeout :: int

record BrowserConfig =
  BinPath :: string
  ProxyURL :: string
  Headless :: bool
  MaxConcurrency :: int
  MaxFetchCount :: int
  PageTimeout :: int
  TaskTimeout :: int
  DebugScreenshot :: bool
  ScreenshotTimeout :: int

record Config =
  App :: AppConfig
  Scheduler :: SchedulerConfig
  Analyzer :: AnalyzerConfig
  MySQL :: MySQLConfig
  RedisC :: RedisConfig
  Browser :: BrowserConfig

section \<open>Defaults\<close>

definition DefaultConfig :: Config where
  "DefaultConfig = \<lparr>
     App = \<lparr>Env = ''local'', LogLevel = ''info'', HTTPAddr = '':8080'', MetricsAddr = '':2112'',
            WorkerPoolSize = 10, QueueCapacity = 100, RateLimit = 2, RateBurst = 5,
            AdminAPIKey = '''', MaxTasks = 0, ProxyCooldown = 10 * Minute,
            ProxyFailureThreshold = 10, ProxyAutoSwitch = False\<rparr>,
     Scheduler = \<lparr>BaseInterval = 2 * Hour, MinInterval = 1 * Hour, MaxInterval = 2 * Hour,
            ScheduleSlot = 15 * Minute, BatchSize = 50, BackpressureThreshold = 0,
            JanitorInterval = 10 * Minute, JanitorTimeout = 30 * Minute,
            PagesOnSale = 5, PagesSold = 5\<rparr>,
     Analyzer = \<lparr>SnapshotTTL = 48 * Hour, ItemTTLAvailable = 24 * Hour, ItemTTLSold = 48 * Hour,
            StatsRetention = 30 * 24 * Hour, HighOutflowThreshold = 50,
            LowLiquidityThreshold = rnd64 (3 / 10), HighLiquidityThreshold = 2, TrendWindowSize = 24\<rparr>,
     MySQL = \<lparr>DSN = ''root:password@tcp(localhost:3306)/animetop?parseTime=true&loc=Local''\<rparr>,
     RedisC = \<lparr>Addr = ''localhost:6379'', Password = '''', PoolSize = 10, MinIdleConns = 2,
            DialTimeout = 5 * Second, ReadTimeout = 3 * Second, WriteTimeout = 3 * Second\<rparr>,
     Browser = \<lparr>BinPath = '''', ProxyURL = '''', Headless = True, MaxConcurrency = 3,
            MaxFetchCount = 120, PageTimeout = 60 * Second, TaskTimeout = 12 * Minute,
            DebugScreenshot = False, ScreenshotTimeout = 15 * Second\<rparr>\<rparr>"

text \<open>A field that holds its zero value takes the default.\<close>

definition dflt :: "'a::zero \<Rightarrow> 'a \<Rightarrow> 'a" where
  "dflt d x = (if x = 0 then d else x)"

definition dfltS :: "string \<Rightarrow> string \<Rightarrow> string" where
  "dfltS d x = (if x = '''' then d else x)"

definition appDefaults :: "AppConfig \<Rightarrow> AppConfig \<Rightarrow> AppConfig" where
  "appDefaults d c = c\<lparr>Env := dfltS (Env d) (Env c), LogLevel := dfltS (LogLevel d) (LogLevel c),
     HTTPAddr := dfltS (HTTPAddr d) (HTTPAddr c), MetricsAddr := dfltS (MetricsAddr d) (MetricsAddr c),
     WorkerPoolSize := dflt (WorkerPoolSize d) (WorkerPoolSize c),
     QueueCapacity := dflt (QueueCapacity d) (QueueCapacity c),
     RateLimit := dflt (RateLimit d) (RateLimit c), RateBurst := dflt (RateBurst d) (RateBurst c),
     ProxyCooldown := dflt (ProxyCooldown d) (ProxyCooldown c),
     ProxyFailureThreshold := dflt (ProxyFailureThreshold d) (ProxyFailureThreshold c)\<rparr>"

definition backpressureDefault :: "SchedulerConfig \<Rightarrow> SchedulerConfig" where
  "backpressureDefault c = (if BackpressureThreshold c = 0
     then (let c1 = c\<lparr>BackpressureThreshold := tdiv (BatchSize c) 2\<rparr>
           in if BackpressureThreshold c1 < 2 then c1\<lparr>BackpressureThreshold := 2\<rparr> else c1)
     else c)"

definition schedulerDefaults :: "SchedulerConfig \<Rightarrow> SchedulerConfig \<Rightarrow> SchedulerConfig" where
  "schedulerDefaults d c =
     (backpressureDefault (c\<lparr>BaseInterval := dflt (BaseInterval d) (BaseInterval c),
        MinInterval := dflt (MinInterval d) (MinInterval c),
        MaxInterval := dflt (MaxInterval d) (MaxInterval c),
        BatchSize := dflt (BatchSize d) (BatchSize c)\<rparr>))
     \<lparr>JanitorInterval := dflt (JanitorInterval d) (JanitorInterval c),
      JanitorTimeout := dflt (JanitorTimeout d) (JanitorTimeout c),
      PagesOnSale := dflt (PagesOnSale d) (PagesOnSale c),
      PagesSold := dflt (PagesSold d) (PagesSold c)\<rparr>"

definition analyzerDefaults :: "AnalyzerConfig \<Rightarrow> AnalyzerConfig \<Rightarrow> AnalyzerConfig" where
  "analyzerDefaults d c = \<lparr>SnapshotTTL = dflt (SnapshotTTL d) (SnapshotTTL c),
     ItemTTLAvailable = dflt (ItemTTLAvailable d) (ItemTTLAvailable c),
     ItemTTLSold = dflt (ItemTTLSold d) (ItemTTLSold c),
     StatsRetention = dflt (StatsRetention d) (StatsRetention c),
     HighOutflowThreshold = dflt (HighOutflowThreshold d) (HighOutflowThreshold c),
     LowLiquidityThreshold = dflt (LowLiquidityThreshold d) (LowLiquidityThreshold c),
     HighLiquidityThreshold = dflt (HighLiquidityThreshold d) (HighLiquidityThreshold c),
     TrendWindowSize = dflt (TrendWindowSize d) (TrendWindowSize c)\<rparr>"

definition browserDefaults :: "BrowserConfig \<Rightarrow> BrowserConfig \<Rightarrow> BrowserConfig" where
  "browserDefaults d c = c\<lparr>MaxConcurrency := dflt (MaxConcurrency d) (MaxConcurrency c),
     MaxFetchCount := dflt (MaxFetchCount d) (MaxFetchCount c),
     PageTimeout := dflt (PageTimeout d) (PageTimeout c),
     ScreenshotTimeout := dflt (ScreenshotTimeout d) (ScreenshotTimeout c)\<rparr>"

definition applyDefaults :: "Config \<Rightarrow> Config" where
  "applyDefaults cfg = cfg\<lparr>App := appDefaults (App DefaultConfig) (App cfg),
     Scheduler := schedulerDefaults (Scheduler DefaultConfig) (Scheduler cfg),
     Analyzer := analyzerDefaults (Analyzer DefaultConfig) (Analyzer cfg),
     Browser := browserDefaults (Browser DefaultConfig) (Browser cfg)\<rparr>"

section \<open>Environment\<close>

type_synonym environment = "string \<Rightarrow> string"

record readers =
  ParseDuration :: "string \<Rightarrow> int option"
  ParseFloat :: "string \<Rightarrow> rat option"

definition Atoi :: "string \<Rightarrow> int option" where
  "Atoi s = (case ParseInt 64 s of (n, err) \<Rightarrow> if err then None else Some n)"

definition ParseBool :: "string \<Rightarrow> bool option" where
  "ParseBool s = (if s \<in> set [''1'', ''t'', ''T'', ''TRUE'', ''true'', ''True''] then Some True
     else if s \<in> set [''0'', ''f'', ''F'', ''FALSE'', ''false'', ''False''] then Some False
     else None)"

text \<open>One override: an unset variable or a value that does not parse leaves the field.\<close>

definition envS :: "environment \<Rightarrow> string \<Rightarrow> string \<Rightarrow> string" where
  "envS env k x = (if env k \<noteq> '''' then env k else x)"

definition envP :: "(string \<Rightarrow> 'a option) \<Rightarrow> environment \<Rightarrow> string \<Rightarrow> 'a \<Rightarrow> 'a" where
  "envP parse env k x = (if env k \<noteq> '''' then (case parse (env k) of None \<Rightarrow> x | Some v \<Rightarrow> v) else x)"

definition appEnv :: "readers \<Rightarrow> environment \<Rightarrow> AppConfig \<Rightarrow> AppConfig" where
  "appEnv P env c = c\<lparr>Env := envS env ''APP_ENV'' (Env c),
     LogLevel := envS env ''APP_LOG_LEVEL'' (LogLevel c),
     HTTPAddr := envS env ''APP_HTTP_ADDR'' (HTTPAddr c),
     MetricsAddr := envS env ''APP_METRICS_ADDR'' (MetricsAddr c),
     WorkerPoolSize := envP Atoi env ''APP_WORKER_POOL_SIZE'' (WorkerPoolSize c),
     RateLimit := envP (ParseFloat P) env ''APP_RATE_LIMIT'' (RateLimit c),
     RateBurst := envP (ParseFloat P) env ''APP_RATE_BURST'' (RateBurst c),
     MaxTasks := envP Atoi env ''MAX_TASKS'' (MaxTasks c),
     ProxyCooldown := envP (ParseDuration P) env ''PROXY_COOLDOWN'' (ProxyCooldown c),
     ProxyFailureThreshold := envP Atoi env ''PROXY_FAILURE_THRESHOLD'' (ProxyFailureThreshold c),
     ProxyAutoSwitch := envP ParseBool env ''PROXY_AUTO_SWITCH'' (ProxyAutoSwitch c),
     AdminAPIKey := envS env ''ADMIN_API_KEY'' (AdminAPIKey c)\<rparr>"

definition schedulerEnv :: "readers \<Rightarrow> environment \<Rightarrow> SchedulerConfig \<Rightarrow> SchedulerConfig" where
  "schedulerEnv P env c = \<lparr>
     BaseInterval = envP (ParseDuration P) env ''SCHEDULER_BASE_INTERVAL'' (BaseInterval c),
     MinInterval = envP (ParseDuration P) env ''SCHEDULER_MIN_INTERVAL'' (MinInterval c),
     MaxInterval = envP (ParseDuration P) env ''SCHEDULER_MAX_INTERVAL'' (MaxInterval c),
     ScheduleSlot = envP (ParseDuration P) env ''SCHEDULER_SCHEDULE_SLOT'' (ScheduleSlot c),
     BatchSize = envP Atoi env ''SCHEDULER_BATCH_SIZE'' (BatchSize c),
     BackpressureThreshold = envP Atoi env ''SCHEDULER_BACKPRESSURE_THRESHOLD'' (BackpressureThreshold c),
     JanitorInterval = envP (ParseDuration P) env ''JANITOR_INTERVAL'' (JanitorInterval c),
     JanitorTimeout = envP (ParseDuration P) env ''JANITOR_TIMEOUT'' (JanitorTimeout c),
     PagesOnSale = envP Atoi env ''SCHEDULER_PAGES_ON_SALE'' (PagesOnSale c),
     PagesSold = envP Atoi env ''SCHEDULER_PAGES_SOLD'' (PagesSold c)\<rparr>"

definition analyzerEnv :: "readers \<Rightarrow> environment \<Rightarrow> AnalyzerConfig \<Rightarrow> AnalyzerConfig" where
  "analyzerEnv P env c = c\<lparr>
     SnapshotTTL := envP (ParseDuration P) env ''ANALYZER_SNAPSHOT_TTL'' (SnapshotTTL c),
     ItemTTLAvailable := envP (ParseDuration P) env ''ANALYZER_ITEM_TTL_AVAILABLE'' (ItemTTLAvailable c),
     ItemTTLSold := envP (ParseDuration P) env ''ANALYZER_ITEM_TTL_SOLD'' (ItemTTLSold c),
     HighOutflowThreshold := envP Atoi env ''ANALYZER_HIGH_OUTFLOW_THRESHOLD'' (HighOutflowThreshold c),
     LowLiquidityThreshold := envP (ParseFloat P) env ''ANALYZER_LOW_LIQUIDITY_THRESHOLD'' (LowLiquidityThreshold c),
     HighLiquidityThreshold := envP (ParseFloat P) env ''ANALYZER_HIGH_LIQUIDITY_THRESHOLD'' (HighLiquidityThreshold c)\<rparr>"

definition redisEnv :: "readers \<Rightarrow> environment \<Rightarrow> RedisConfig \<Rightarrow> RedisConfig" where
  "redisEnv P env c = \<lparr>Addr = envS env ''REDIS_ADDR'' (Addr c),
     Password = envS env ''REDIS_PASSWORD'' (Password c),
     PoolSize = envP Atoi env ''REDIS_POOL_SIZE'' (PoolSize c),
     MinIdleConns = envP Atoi env ''REDIS_MIN_IDLE_CONNS'' (MinIdleConns c),
     DialTimeout = envP (ParseDuration P) env ''REDIS_DIAL_TIMEOUT'' (DialTimeout c),
     ReadTimeout = envP (ParseDuration P) env ''REDIS_READ_TIMEOUT'' (ReadTimeout c),
     WriteTimeout = envP (ParseDuration P) env ''REDIS_WRITE_TIMEOUT'' (WriteTimeout c)\<rparr>"

definition browserEnv :: "readers \<Rightarrow> environment \<Rightarrow> BrowserConfig \<Rightarrow> BrowserConfig" where
  "browserEnv P env c = c\<lparr>
     BinPath := envS env ''CHROME_BIN'' (envS env ''BROWSER_BIN_PATH'' (BinPath c)),
     ProxyURL := envS env ''HTTP_PROXY'' (ProxyURL c),
     Headless := envP ParseBool env ''BROWSER_HEADLESS'' (Headless c),
     MaxConcurrency := envP Atoi env ''BROWSER_MAX_CONCURRENCY'' (MaxConcurrency c),
     MaxFetchCount := envP Atoi env ''BROWSER_MAX_FETCH_COUNT'' (MaxFetchCount c),
     DebugScreenshot := envP ParseBool env ''BROWSER_DEBUG_SCREENSHOT'' (DebugScreenshot c),
     PageTimeout := envP (ParseDuration P) env ''BROWSER_PAGE_TIMEOUT'' (PageTimeout c),
     TaskTimeout := envP (ParseDuration P) env ''BROWSER_TASK_TIMEOUT'' (TaskTimeout c)\<rparr>"

definition hasAnyEnv :: "environment \<Rightarrow> string list \<Rightarrow> bool" where
  "hasAnyEnv env keys = list_ex (\<lambda>k. env k \<noteq> '''') keys"

text \<open>The parsed form of a data source name, a type of the MySQL driver.\<close>

record dsn_config =
  dsn_User :: string
  dsn_Passwd :: string
  dsn_Net :: string
  dsn_Addr :: string
  dsn_DBName :: string
  dsn_Params :: "(string \<times> string) list"

record dsn_driver =
  ParseDSN :: "string \<Rightarrow> dsn_config option"
  FormatDSN :: "dsn_config \<Rightarrow> string"

fun split_on :: "char \<Rightarrow> string \<Rightarrow> string list" where
  "split_on c [] = [[]]"
| "split_on c (x # xs) = (if x = c then [] # split_on c xs
     else (case split_on c xs of [] \<Rightarrow> [[x]] | y # ys \<Rightarrow> (x # y) # ys))"

definition dsn_port :: "environment \<Rightarrow> string \<Rightarrow> string" where
  "dsn_port env addr = (if env ''DB_PORT'' \<noteq> '''' then env ''DB_PORT''
     else if Contains addr '':'' then (let parts = split_on (CHR '':'') addr in
            if length parts = 2 then parts ! 1 else ''3306'')
     else ''3306'')"

definition buildMySQLDSN :: "dsn_driver \<Rightarrow> environment \<Rightarrow> string \<Rightarrow> string" where
  "buildMySQLDSN M env fallbackDSN =
     (let parsed = (case ParseDSN M fallbackDSN of Some p \<Rightarrow> p
           | None \<Rightarrow> \<lparr>dsn_User = ''root'', dsn_Passwd = '''', dsn_Net = ''tcp'',
               dsn_Addr = ''localhost:3306'', dsn_DBName = ''animetop'',
               dsn_Params = [(''parseTime'', ''true''), (''loc'', ''Local'')]\<rparr>);
         p1 = (if env ''DB_HOST'' \<noteq> ''''
               then parsed\<lparr>dsn_Addr := env ''DB_HOST'' @ '':'' @ dsn_port env (dsn_Addr parsed)\<rparr>
               else parsed);
         p2 = p1\<lparr>dsn_User := envS env ''DB_USER'' (dsn_User p1)\<rparr>;
         p3 = p2\<lparr>dsn_Passwd := envS env ''DB_PASSWORD'' (dsn_Passwd p2)\<rparr>
      in FormatDSN M (p3\<lparr>dsn_DBName := envS env ''DB_NAME'' (dsn_DBName p3)\<rparr>))"

definition applyEnvOverrides :: "readers \<Rightarrow> dsn_driver \<Rightarrow> environment \<Rightarrow> Config \<Rightarrow> Config" where
  "applyEnvOverrides P M env cfg = \<lparr>App = appEnv P env (App cfg),
     Scheduler = schedulerEnv P env (Scheduler cfg), Analyzer = analyzerEnv P env (Analyzer cfg),
     MySQL = (MySQL cfg)\<lparr>DSN := (if env ''DB_DSN'' \<noteq> '''' then env ''DB_DSN''
        else if hasAnyEnv env [''DB_HOST'', ''DB_PORT'', ''DB_USER'', ''DB_PASSWORD'', ''DB_NAME'']
        then buildMySQLDSN M env (DSN (MySQL cfg)) else DSN (MySQL cfg))\<rparr>,
     RedisC = redisEnv P env (RedisC cfg), Browser = browserEnv P env (Browser cfg)\<rparr>"

section \<open>Loading\<close>

datatype file_read = NotExist | ReadError | Data string
datatype config_error = ReadConfigError | ParseConfigError

definition Load :: "(string \<Rightarrow> Config option) \<Rightarrow> readers \<Rightarrow> dsn_driver \<Rightarrow> environment
    \<Rightarrow> (string \<Rightarrow> file_read) \<Rightarrow> string list \<Rightarrow> config_error + Config" where
  "Load json P M env fs configPath =
     (let path = (case configPath of p # _ \<Rightarrow> if p \<noteq> '''' then p else ''configs/config.json''
                  | [] \<Rightarrow> ''configs/config.json'')
      in case fs path of
           NotExist \<Rightarrow> Inr (applyEnvOverrides P M env DefaultConfig)
         | ReadError \<Rightarrow> Inl ReadConfigError
         | Data bytes \<Rightarrow> (case json bytes of None \<Rightarrow> Inl ParseConfigError
             | Some cfg \<Rightarrow> Inr (applyEnvOverrides P M env (applyDefaults cfg))))"

section \<open>The interval of an IP\<close>

definition CalculateInterval :: "(rat \<Rightarrow> int) \<Rightarrow> SchedulerConfig \<Rightarrow> rat \<Rightarrow> int" where
  "CalculateInterval oor c weight0 =
     (let weight = (if weight0 \<le> 0 then 1 else weight0);
          interval = f64_to_int64 oor (fdiv (f64_of_int (BaseInterval c)) weight)
      in if interval < MinInterval c then MinInterval c
         else if interval > MaxInterval c then MaxInterval c
         else interval)"


section \<open>Properties\<close>

text \<open>
  The interval of an IP always lies between the configured minimum and maximum, whatever the
  weight is, including zero, negative and so small that the quotient does not fit \<open>int64\<close>.
\<close>

theorem CalculateInterval_bounds:
  assumes "MinInterval c \<le> MaxInterval c"
  shows "MinInterval c \<le> CalculateInterval oor c weight \<and> CalculateInterval oor c weight \<le> MaxInterval c"
  using assms by (simp add: CalculateInterval_def Let_def)

theorem CalculateInterval_bounds_witness:
  "1 * Hour \<le> CalculateInterval (\<lambda>_. - (2 ^ 63)) (Scheduler DefaultConfig) (rnd64 (1 / 10 ^ 9)) \<and>
   CalculateInterval (\<lambda>_. - (2 ^ 63)) (Scheduler DefaultConfig) (rnd64 (1 / 10 ^ 9)) \<le> 2 * Hour"
  using CalculateInterval_bounds [of "Scheduler DefaultConfig" "\<lambda>_. - (2 ^ 63)" "rnd64 (1 / 10 ^ 9)"]
  by (simp add: DefaultConfig_def duration_defs)

lemma fdiv_antimono:
  assumes "0 \<le> a" "0 < v" "v \<le> w"
  shows "fdiv a w \<le> fdiv a v"
  unfolding fdiv_def using assms by (intro rnd64_mono frac_le) auto

text \<open>
  A higher weight never gets a longer interval: the interval is antitone in the weight as
  long as the quotients fit \<open>int64\<close>.
\<close>

theorem CalculateInterval_antimono:
  assumes "0 \<le> BaseInterval c" and "0 < v" and "v \<le> w" and "MinInterval c \<le> MaxInterval c"
    and "trunc (fdiv (f64_of_int (BaseInterval c)) v) < 2 ^ 63"
  shows "CalculateInterval oor c w \<le> CalculateInterval oor c v"
proof -
  let ?b = "f64_of_int (BaseInterval c)"
  have b: "0 \<le> ?b" using assms(1) by (simp add: f64_of_int_def rnd64_nonneg)
  have le: "trunc (fdiv ?b w) \<le> trunc (fdiv ?b v)"
    using b assms(2,3) by (intro trunc_mono fdiv_antimono) auto
  have "0 \<le> fdiv ?b w" using b assms(2,3) by (simp add: fdiv_def rnd64_nonneg)
  then have pos: "0 \<le> trunc (fdiv ?b w)" by (simp add: trunc_def)
  then have "f64_to_int64 oor (fdiv ?b w) = trunc (fdiv ?b w)"
    "f64_to_int64 oor (fdiv ?b v) = trunc (fdiv ?b v)"
    using le assms(5) by (simp_all add: f64_to_int64_def Let_def)
  then show ?thesis using le assms(2-4) by (simp add: CalculateInterval_def Let_def)
qed

theorem CalculateInterval_antimono_witness:
  "CalculateInterval (\<lambda>_. 0) (Scheduler DefaultConfig) 2 \<le>
   CalculateInterval (\<lambda>_. 0) (Scheduler DefaultConfig) (rnd64 (4 / 3))"
proof -
  have f: "0 \<le> BaseInterval (Scheduler DefaultConfig)" "0 < rnd64 (4 / 3)" "rnd64 (4 / 3) \<le> 2"
    "MinInterval (Scheduler DefaultConfig) \<le> MaxInterval (Scheduler DefaultConfig)"
    "trunc (fdiv (f64_of_int (BaseInterval (Scheduler DefaultConfig))) (rnd64 (4 / 3))) < 2 ^ 63"
    by code_simp+
  show ?thesis by (rule CalculateInterval_antimono [OF f])
qed

lemma dflt_idem [simp]: "dflt d (dflt d x) = dflt d x" "dfltS e (dfltS e s) = dfltS e s"
  by (simp_all add: dflt_def dfltS_def)

lemma dflt_nonzero: "d \<noteq> 0 \<Longrightarrow> dflt d x \<noteq> 0"
  by (simp add: dflt_def)

lemma backpressureDefault_nonzero: "BackpressureThreshold (backpressureDefault c) \<noteq> 0"
  by (simp add: backpressureDefault_def Let_def)

lemma backpressureDefault_id: "BackpressureThreshold c \<noteq> 0 \<Longrightarrow> backpressureDefault c = c"
  by (simp add: backpressureDefault_def)

lemma backpressureDefault_fields [simp]:
  "BaseInterval (backpressureDefault c) = BaseInterval c"
  "MinInterval (backpressureDefault c) = MinInterval c"
  "MaxInterval (backpressureDefault c) = MaxInterval c"
  "ScheduleSlot (backpressureDefault c) = ScheduleSlot c"
  "BatchSize (backpressureDefault c) = BatchSize c"
  "JanitorInterval (backpressureDefault c) = JanitorInterval c"
  "JanitorTimeout (backpressureDefault c) = JanitorTimeout c"
  "PagesOnSale (backpressureDefault c) = PagesOnSale c"
  "PagesSold (backpressureDefault c) = PagesSold c"
  by (simp_all add: backpressureDefault_def Let_def)

lemma schedulerDefaults_idem: "schedulerDefaults d (schedulerDefaults d c) = schedulerDefaults d c"
proof -
  define x where "x = schedulerDefaults d c"
  have x: "BackpressureThreshold x \<noteq> 0" "BaseInterval x = dflt (BaseInterval d) (BaseInterval x)"
    "MinInterval x = dflt (MinInterval d) (MinInterval x)"
    "MaxInterval x = dflt (MaxInterval d) (MaxInterval x)"
    "BatchSize x = dflt (BatchSize d) (BatchSize x)"
    "JanitorInterval x = dflt (JanitorInterval d) (JanitorInterval x)"
    "JanitorTimeout x = dflt (JanitorTimeout d) (JanitorTimeout x)"
    "PagesOnSale x = dflt (PagesOnSale d) (PagesOnSale x)"
    "PagesSold x = dflt (PagesSold d) (PagesSold x)"
    by (simp_all add: x_def schedulerDefaults_def backpressureDefault_nonzero)
  have "schedulerDefaults d x = x"
    unfolding schedulerDefaults_def x(2-9) [symmetric]
    by (subst backpressureDefault_id) (simp_all add: x(1))
  then show ?thesis by (simp add: x_def)
qed

text \<open>
  Filling in the defaults is idempotent, and afterwards the scheduler has non-zero intervals,
  batch size, back-pressure threshold, janitor settings and page counts.
\<close>

theorem applyDefaults_complete:
  "applyDefaults (applyDefaults cfg) = applyDefaults cfg \<and>
   (let s = Scheduler (applyDefaults cfg) in
      BaseInterval s \<noteq> 0 \<and> MinInterval s \<noteq> 0 \<and> MaxInterval s \<noteq> 0 \<and> BatchSize s \<noteq> 0 \<and>
      BackpressureThreshold s \<noteq> 0 \<and> JanitorInterval s \<noteq> 0 \<and> JanitorTimeout s \<noteq> 0 \<and>
      PagesOnSale s \<noteq> 0 \<and> PagesSold s \<noteq> 0)"
proof -
  have "applyDefaults (applyDefaults cfg) = applyDefaults cfg"
    by (simp add: applyDefaults_def schedulerDefaults_idem appDefaults_def analyzerDefaults_def browserDefaults_def)
  moreover have "dflt (BaseInterval d) i \<noteq> 0" "dflt (MinInterval d) i \<noteq> 0" "dflt (MaxInterval d) i \<noteq> 0"
    "dflt (BatchSize d) i \<noteq> 0" "dflt (JanitorInterval d) i \<noteq> 0" "dflt (JanitorTimeout d) i \<noteq> 0"
    "dflt (PagesOnSale d) i \<noteq> 0" "dflt (PagesSold d) i \<noteq> 0" if "d = Scheduler DefaultConfig" for d i
    by (rule dflt_nonzero, simp add: that DefaultConfig_def duration_defs)+
  ultimately show ?thesis
    by (simp add: applyDefaults_def schedulerDefaults_def backpressureDefault_nonzero)
qed

end
