(* ===== verification/Model.thy ===== *)
theory Model
  imports Redis Float64
begin

text \<open>
  \<open>internal/model/ip.go\<close>: the rows of the database tables and their methods, and the database as
  an argument. MySQL behind GORM is not part of the repository: a \<open>database\<close> gives for every
  table the rows a query sees and the effect of replacing them, so that each statement of the
  sources is a function on rows written out in the model; the locale \<open>sql_database\<close> says that a
  table holds what was written, in an order of its own choosing, and that a statement touches one
  table. A time is a number of nanoseconds since the Unix epoch, a nullable column an option.
\<close>

section \<open>Rows\<close>

text \<open>\<open>IPStatus\<close> is a string: three values have a name, the column holds any other just as well.\<close>

datatype IPStatus = IPStatusActive | IPStatusPaused | IPStatusDeleted | IPStatusOther string

definition IPStatus_text :: "IPStatus \<Rightarrow> string" where
  "IPStatus_text st = (case st of IPStatusActive \<Rightarrow> ''active'' | IPStatusPaused \<Rightarrow> ''paused'' | IPStatusDeleted \<Rightarrow> ''deleted''
     | IPStatusOther s \<Rightarrow> s)"

definition IPStatus_of :: "string \<Rightarrow> IPStatus" where
  "IPStatus_of s = (if s = ''active'' then IPStatusActive else if s = ''paused'' then IPStatusPaused
     else if s = ''deleted'' then IPStatusDeleted else IPStatusOther s)"

lemma IPStatus_text_of [simp]: "IPStatus_text (IPStatus_of s) = s"
  by (simp add: IPStatus_text_def IPStatus_of_def)

record IPMetadata =
  ip_ID :: u64
  ip_Name :: string
  ip_NameEN :: string
  ip_NameCN :: string
  ip_Category :: string
  ip_Tags :: "string list"
  ip_ImageURL :: string
  ip_ExternalID :: string
  ip_Notes :: string
  ip_Weight :: rat
  ip_Status :: IPStatus
  ip_LastCrawledAt :: "int option"
  ip_CreatedAt :: int
  ip_UpdatedAt :: int
  ip_DeletedAt :: "int option"

record PriceItemJSON =
  pi_SourceID :: string
  pi_Title :: string
  pi_Price :: i32
  pi_ImageURL :: string
  pi_ItemURL :: string

record IPStatsHourly =
  sh_IPID :: u64
  sh_HourBucket :: int
  sh_Inflow :: u32
  sh_Outflow :: u32
  sh_LiquidityIndex :: "rat option"
  sh_ActiveCount :: u32
  sh_AvgPrice :: "rat option"
  sh_MedianPrice :: "rat option"
  sh_MinPrice :: "rat option"
  sh_MaxPrice :: "rat option"
  sh_MinPriceItem :: "PriceItemJSON option"
  sh_MaxPriceItem :: "PriceItemJSON option"
  sh_PriceStddev :: "rat option"
  sh_SampleCount :: u32
  sh_CreatedAt :: int

text \<open>The daily, weekly and monthly tables have the same columns but for their names.\<close>

record IPStatsPeriod =
  sp_IPID :: u64
  sp_Start :: int
  sp_TotalInflow :: u32
  sp_TotalOutflow :: u32
  sp_AvgLiquidity :: "rat option"
  sp_MaxSoldPrice :: "rat option"
  sp_MinSoldPrice :: "rat option"
  sp_MedianSoldPrice :: "rat option"
  sp_AvgSoldPrice :: "rat option"
  sp_MinPriceItem :: "PriceItemJSON option"
  sp_MaxPriceItem :: "PriceItemJSON option"
  sp_SampleCount :: u32
  sp_Records :: u32
  sp_CreatedAt :: int

type_synonym IPStatsDaily = IPStatsPeriod
type_synonym IPStatsWeekly = IPStatsPeriod
type_synonym IPStatsMonthly = IPStatsPeriod

datatype SnapshotStatus = ItemStatusOnSale | ItemStatusSold | ItemStatusDeleted

record ItemSnapshot =
  is_IPID :: u64
  is_SourceID :: string
  is_Title :: string
  is_Price :: u32
  is_Status :: SnapshotStatus
  is_ImageURL :: string
  is_ItemURL :: string
  is_FirstSeenAt :: int
  is_LastSeenAt :: int
  is_SoldAt :: "int option"
  is_PriceChanged :: bool
  is_CreatedAt :: int
  is_UpdatedAt :: int

datatype AlertType = AlertTypeHighOutflow | AlertTypeLowLiquidity | AlertTypePriceDrop | AlertTypeSurge

datatype AlertSeverity = AlertSeverityInfo | AlertSeverityWarning | AlertSeverityCritical

record IPAlert =
  al_ID :: u64
  al_IPID :: u64
  al_AlertType :: AlertType
  al_Severity :: AlertSeverity
  al_Message :: string
  al_MetricValue :: "rat option"
  al_ThresholdValue :: "rat option"
  al_HourBucket :: int
  al_Acknowledged :: bool
  al_AcknowledgedAt :: "int option"
  al_CreatedAt :: int

section \<open>Methods of the rows\<close>

text \<open>\<open>Value\<close> of the JSON columns; the JSON encoders are arguments.\<close>

definition Tags_Value :: "(string list \<Rightarrow> string option) \<Rightarrow> string list option \<Rightarrow> string option" where
  "Tags_Value json t = (case t of None \<Rightarrow> Some ''[]'' | Some ts \<Rightarrow> json ts)"

definition PriceItemJSON_Value :: "(PriceItemJSON \<Rightarrow> string option) \<Rightarrow> PriceItemJSON \<Rightarrow> string option option" where
  "PriceItemJSON_Value json p = (if pi_SourceID p = '''' then Some None
     else (case json p of None \<Rightarrow> None | Some s \<Rightarrow> Some (Some s)))"

definition f64_of_u32 :: "u32 \<Rightarrow> rat" where
  "f64_of_u32 x = rnd64 (of_nat (unat x))"

definition CalculateLiquidityIndex :: "IPStatsHourly \<Rightarrow> IPStatsHourly" where
  "CalculateLiquidityIndex s = (if sh_Inflow s = 0 then s\<lparr>sh_LiquidityIndex := None\<rparr>
     else s\<lparr>sh_LiquidityIndex := Some (fdiv (f64_of_u32 (sh_Outflow s)) (f64_of_u32 (sh_Inflow s)))\<rparr>)"

definition MarkAsSold :: "int \<Rightarrow> ItemSnapshot \<Rightarrow> ItemSnapshot" where
  "MarkAsSold now i = i\<lparr>is_Status := ItemStatusSold, is_SoldAt := Some now, is_LastSeenAt := now\<rparr>"

definition Acknowledge :: "int \<Rightarrow> IPAlert \<Rightarrow> IPAlert" where
  "Acknowledge now a = a\<lparr>al_Acknowledged := True, al_AcknowledgedAt := Some now\<rparr>"

lemma f64_of_u32_exact: "f64_of_u32 x = of_nat (unat x)"
proof -
  have "uint x < 2 ^ 32" using unsigned_less [of x, where 'a = int] by simp
  then show ?thesis using rnd64_of_int [of "int (unat x)"] by (simp add: f64_of_u32_def)
qed

section \<open>The database\<close>

record 'd database =
  ip_metadata :: "'d \<Rightarrow> IPMetadata list"
  put_ip_metadata :: "IPMetadata list \<Rightarrow> 'd \<Rightarrow> 'd"
  item_snapshots :: "'d \<Rightarrow> ItemSnapshot list"
  put_item_snapshots :: "ItemSnapshot list \<Rightarrow> 'd \<Rightarrow> 'd"
  ip_stats_hourly :: "'d \<Rightarrow> IPStatsHourly list"
  put_ip_stats_hourly :: "IPStatsHourly list \<Rightarrow> 'd \<Rightarrow> 'd"
  ip_stats_daily :: "'d \<Rightarrow> IPStatsDaily list"
  put_ip_stats_daily :: "IPStatsDaily list \<Rightarrow> 'd \<Rightarrow> 'd"
  ip_stats_weekly :: "'d \<Rightarrow> IPStatsWeekly list"
  put_ip_stats_weekly :: "IPStatsWeekly list \<Rightarrow> 'd \<Rightarrow> 'd"
  ip_stats_monthly :: "'d \<Rightarrow> IPStatsMonthly list"
  put_ip_stats_monthly :: "IPStatsMonthly list \<Rightarrow> 'd \<Rightarrow> 'd"
  ip_alerts :: "'d \<Rightarrow> IPAlert list"
  put_ip_alerts :: "IPAlert list \<Rightarrow> 'd \<Rightarrow> 'd"

locale sql_database =
  fixes D :: "'d database"
  assumes put_ip: "mset (ip_metadata D (put_ip_metadata D rs d)) = mset rs"
    and put_items: "mset (item_snapshots D (put_item_snapshots D is d)) = mset is"
    and put_hourly: "mset (ip_stats_hourly D (put_ip_stats_hourly D hs d)) = mset hs"
    and put_daily: "mset (ip_stats_daily D (put_ip_stats_daily D ps d)) = mset ps"
    and put_weekly: "mset (ip_stats_weekly D (put_ip_stats_weekly D ps d)) = mset ps"
    and put_monthly: "mset (ip_stats_monthly D (put_ip_stats_monthly D ps d)) = mset ps"
    and put_alerts: "mset (ip_alerts D (put_ip_alerts D as d)) = mset as"
    and ip_frame: "ip_metadata D (put_item_snapshots D is d) = ip_metadata D d"
      "ip_metadata D (put_ip_stats_hourly D hs d) = ip_metadata D d"
      "ip_metadata D (put_ip_stats_daily D ps d) = ip_metadata D d"
      "ip_metadata D (put_ip_stats_weekly D ps d) = ip_metadata D d"
      "ip_metadata D (put_ip_stats_monthly D ps d) = ip_metadata D d"
      "ip_metadata D (put_ip_alerts D as d) = ip_metadata D d"
    and items_frame: "item_snapshots D (put_ip_metadata D rs d) = item_snapshots D d"
      "item_snapshots D (put_ip_stats_hourly D hs d) = item_snapshots D d"
      "item_snapshots D (put_ip_stats_daily D ps d) = item_snapshots D d"
      "item_snapshots D (put_ip_stats_weekly D ps d) = item_snapshots D d"
      "item_snapshots D (put_ip_stats_monthly D ps d) = item_snapshots D d"
      "item_snapshots D (put_ip_alerts D as d) = item_snapshots D d"
    and hourly_frame: "ip_stats_hourly D (put_ip_metadata D rs d) = ip_stats_hourly D d"
      "ip_stats_hourly D (put_item_snapshots D is d) = ip_stats_hourly D d"
      "ip_stats_hourly D (put_ip_stats_daily D ps d) = ip_stats_hourly D d"
      "ip_stats_hourly D (put_ip_stats_weekly D ps d) = ip_stats_hourly D d"
      "ip_stats_hourly D (put_ip_stats_monthly D ps d) = ip_stats_hourly D d"
      "ip_stats_hourly D (put_ip_alerts D as d) = ip_stats_hourly D d"
    and daily_frame: "ip_stats_daily D (put_ip_metadata D rs d) = ip_stats_daily D d"
      "ip_stats_daily D (put_item_snapshots D is d) = ip_stats_daily D d"
      "ip_stats_daily D (put_ip_stats_hourly D hs d) = ip_stats_daily D d"
      "ip_stats_daily D (put_ip_stats_weekly D ps d) = ip_stats_daily D d"
      "ip_stats_daily D (put_ip_stats_monthly D ps d) = ip_stats_daily D d"
      "ip_stats_daily D (put_ip_alerts D as d) = ip_stats_daily D d"
    and weekly_frame: "ip_stats_weekly D (put_ip_metadata D rs d) = ip_stats_weekly D d"
      "ip_stats_weekly D (put_item_snapshots D is d) = ip_stats_weekly D d"
      "ip_stats_weekly D (put_ip_stats_hourly D hs d) = ip_stats_weekly D d"
      "ip_stats_weekly D (put_ip_stats_daily D ps d) = ip_stats_weekly D d"
      "ip_stats_weekly D (put_ip_stats_monthly D ps d) = ip_stats_weekly D d"
      "ip_stats_weekly D (put_ip_alerts D as d) = ip_stats_weekly D d"
    and monthly_frame: "ip_stats_monthly D (put_ip_metadata D rs d) = ip_stats_monthly D d"
      "ip_stats_monthly D (put_item_snapshots D is d) = ip_stats_monthly D d"
      "ip_stats_monthly D (put_ip_stats_hourly D hs d) = ip_stats_monthly D d"
      "ip_stats_monthly D (put_ip_stats_daily D ps d) = ip_stats_monthly D d"
      "ip_stats_monthly D (put_ip_stats_weekly D ps d) = ip_stats_monthly D d"
      "ip_stats_monthly D (put_ip_alerts D as d) = ip_stats_monthly D d"
    and alerts_frame: "ip_alerts D (put_ip_metadata D rs d) = ip_alerts D d"
      "ip_alerts D (put_item_snapshots D is d) = ip_alerts D d"
      "ip_alerts D (put_ip_stats_hourly D hs d) = ip_alerts D d"
      "ip_alerts D (put_ip_stats_daily D ps d) = ip_alerts D d"
      "ip_alerts D (put_ip_stats_weekly D ps d) = ip_alerts D d"
      "ip_alerts D (put_ip_stats_monthly D ps d) = ip_alerts D d"
begin

lemma put_items_set: "set (item_snapshots D (put_item_snapshots D is d)) = set is"
  using put_items [of "is" d] by (metis set_mset_mset)

lemma put_hourly_set: "set (ip_stats_hourly D (put_ip_stats_hourly D hs d)) = set hs"
  using put_hourly [of hs d] by (metis set_mset_mset)

lemma put_daily_set: "set (ip_stats_daily D (put_ip_stats_daily D ps d)) = set ps"
  using put_daily [of ps d] by (metis set_mset_mset)

lemma put_alerts_set: "set (ip_alerts D (put_ip_alerts D as d)) = set as"
  using put_alerts [of "as" d] by (metis set_mset_mset)

lemma put_ip_set: "set (ip_metadata D (put_ip_metadata D rs d)) = set rs"
  using put_ip [of rs d] by (metis set_mset_mset)

end

text \<open>Tables in memory, on which the hypotheses are met.\<close>

record tables =
  t_ip :: "IPMetadata list"
  t_items :: "ItemSnapshot list"
  t_hourly :: "IPStatsHourly list"
  t_daily :: "IPStatsDaily list"
  t_weekly :: "IPStatsWeekly list"
  t_monthly :: "IPStatsMonthly list"
  t_alerts :: "IPAlert list"

definition no_tables :: tables where
  "no_tables = \<lparr>t_ip = [], t_items = [], t_hourly = [], t_daily = [], t_weekly = [], t_monthly = [],
     t_alerts = []\<rparr>"

definition mem_db :: "tables database" where
  "mem_db = \<lparr>
     ip_metadata = t_ip, put_ip_metadata = (\<lambda>rs d. d\<lparr>t_ip := rs\<rparr>),
     item_snapshots = t_items, put_item_snapshots = (\<lambda>rs d. d\<lparr>t_items := rs\<rparr>),
     ip_stats_hourly = t_hourly, put_ip_stats_hourly = (\<lambda>rs d. d\<lparr>t_hourly := rs\<rparr>),
     ip_stats_daily = t_daily, put_ip_stats_daily = (\<lambda>rs d. d\<lparr>t_daily := rs\<rparr>),
     ip_stats_weekly = t_weekly, put_ip_stats_weekly = (\<lambda>rs d. d\<lparr>t_weekly := rs\<rparr>),
     ip_stats_monthly = t_monthly, put_ip_stats_monthly = (\<lambda>rs d. d\<lparr>t_monthly := rs\<rparr>),
     ip_alerts = t_alerts, put_ip_alerts = (\<lambda>rs d. d\<lparr>t_alerts := rs\<rparr>)\<rparr>"

interpretation memdb: sql_database mem_db
  by unfold_locales (simp_all add: mem_db_def)

definition sample_ip :: "u64 \<Rightarrow> IPStatus \<Rightarrow> IPMetadata" where
  "sample_ip i st = \<lparr>ip_ID = i, ip_Name = ''frieren'', ip_NameEN = '''', ip_NameCN = '''', ip_Category = '''',
     ip_Tags = [], ip_ImageURL = '''', ip_ExternalID = '''', ip_Notes = '''', ip_Weight = 1,
     ip_Status = st, ip_LastCrawledAt = None, ip_CreatedAt = 0, ip_UpdatedAt = 0, ip_DeletedAt = None\<rparr>"

end
