(* ===== verification/Calendar.thy ===== *)
theory Calendar
  imports Float64
begin

text \<open>
  The part of Go's \<open>time\<close> package on civil dates: a time is a number of nanoseconds since the Unix
  epoch, a location a fixed offset from UTC in seconds, a date the proleptic Gregorian year, month
  and day of the local day.
\<close>

definition Day :: int where
  "Day = 24 * Hour"

definition JST :: int where
  "JST = 9 * 60 * 60"

text \<open>Local day number (0 is 1970-01-01), clock and weekday (0 is Sunday).\<close>

definition local_days :: "int \<Rightarrow> int \<Rightarrow> int" where
  "local_days zone t = (t + zone * Second) div Day"

definition clock_Hour :: "int \<Rightarrow> int \<Rightarrow> int" where
  "clock_Hour zone t = ((t + zone * Second) mod Day) div Hour"

definition clock_Minute :: "int \<Rightarrow> int \<Rightarrow> int" where
  "clock_Minute zone t = ((t + zone * Second) mod Hour) div Minute"

definition Weekday :: "int \<Rightarrow> int \<Rightarrow> int" where
  "Weekday zone t = (local_days zone t + 4) mod 7"

text \<open>Days to civil dates and back, counting years from March in eras of 400 years.\<close>

definition civil_from_days :: "int \<Rightarrow> int \<times> int \<times> int" where
  "civil_from_days z0 =
     (let z = z0 + 719468; era = z div 146097; doe = z mod 146097;
          yoe = (doe - doe div 1460 + doe div 36524 - doe div 146096) div 365;
          doy = doe - (365 * yoe + yoe div 4 - yoe div 100);
          mp = (5 * doy + 2) div 153;
          d = doy - (153 * mp + 2) div 5 + 1;
          m = (if mp < 10 then mp + 3 else mp - 9);
          y = yoe + era * 400
      in (if m \<le> 2 then y + 1 else y, m, d))"

definition days_from_civil :: "int \<Rightarrow> int \<Rightarrow> int \<Rightarrow> int" where
  "days_from_civil y0 m d =
     (let y = (if m \<le> 2 then y0 - 1 else y0); era = y div 400; yoe = y mod 400;
          mp = (if m > 2 then m - 3 else m + 9);
          doy = (153 * mp + 2) div 5 + d - 1;
          doe = yoe * 365 + yoe div 4 - yoe div 100 + doy
      in era * 146097 + doe - 719468)"

definition Date :: "int \<Rightarrow> int \<Rightarrow> int \<times> int \<times> int" where
  "Date zone t = civil_from_days (local_days zone t)"

text \<open>
  \<open>time.Date (y, m, d, 0, 0, 0, 0, zone)\<close>: a month outside 1 to 12 is carried into the year, a day
  outside the month into the day count.
\<close>

definition DateAt :: "int \<Rightarrow> int \<Rightarrow> int \<Rightarrow> int \<Rightarrow> int" where
  "DateAt zone y m d =
     (let y' = y + (m - 1) div 12; m' = (m - 1) mod 12 + 1
      in (days_from_civil y' m' 1 + (d - 1)) * Day - zone * Second)"

text \<open>Midnight of the local day.\<close>

definition midnight :: "int \<Rightarrow> int \<Rightarrow> int" where
  "midnight zone t = local_days zone t * Day - zone * Second"

lemma midnight_bounds: "midnight zone t \<le> t" "t < midnight zone t + Day"
proof -
  have "Day > 0" by (simp add: Day_def duration_defs)
  then show "midnight zone t \<le> t" "t < midnight zone t + Day"
    using div_mult_mod_eq [of "t + zone * Second" Day] pos_mod_bound [of Day "t + zone * Second"]
      pos_mod_sign [of Day "t + zone * Second"]
    unfolding midnight_def local_days_def by linarith+
qed

lemma local_days_midnight [simp]: "local_days zone (midnight zone t) = local_days zone t"
  by (simp add: local_days_def midnight_def Day_def duration_defs)

lemma Weekday_range: "0 \<le> Weekday zone t" "Weekday zone t < 7"
  by (simp_all add: Weekday_def)

text \<open>\<open>Truncate (d)\<close>: down to a multiple of \<open>d\<close> counted from Go's zero time, the first of January of the year 1.\<close>

definition zero_time :: int where
  "zero_time = 62135596800 * Second"

definition Truncate :: "int \<Rightarrow> int \<Rightarrow> int" where
  "Truncate t d = (if d \<le> 0 then t else t - (t + zero_time) mod d)"

end
