(* ===== verification/Scheduler.thy ===== *)
theory Scheduler
  imports Queue ScheduleStore Config Model Calendar
begin

text \<open>
  \<open>internal/scheduler/ip_scheduler.go\<close>: the scheduler that turns due IPs into crawl tasks. It
  works on the whole world (Redis and the database) through the task queue and a
  \<open>ScheduleStore\<close>. Clock readings, task identifiers and the events that end a wait are arguments,
  gathered in the records below; the goroutines are the loop bodies, one call per tick. The
  archiver is the record of the four runs that the loop may start.
\<close>

definition maxSleepDuration :: int where
  "maxSleepDuration = 5 * Minute"

record ('s, 'd) IPScheduler =
  sch_db :: "'d database"
  sch_queue :: "'s client"
  sch_codec :: codec
  sch_store :: "('s, 'd) world ScheduleStore"
  sch_config :: SchedulerConfig
  sch_oor :: "rat \<Rightarrow> int"

section \<open>Reading the IPs\<close>

definition getActiveIPs :: "('s, 'd) IPScheduler \<Rightarrow> ('s, 'd) world \<Rightarrow> IPMetadata list option \<times> ('s, 'd) world" where
  "getActiveIPs s w = ddo (readc (\<lambda>d. filter (\<lambda>ip. ip_DeletedAt ip = None \<and> ip_Status ip = IPStatusActive)
     (ip_metadata (sch_db s) d))) w"

text \<open>A missing row is an error of the query, as any other.\<close>

definition getIPByID :: "('s, 'd) IPScheduler \<Rightarrow> u64 \<Rightarrow> ('s, 'd) world \<Rightarrow> IPMetadata option \<times> ('s, 'd) world" where
  "getIPByID s i w = (case ddo (readc (\<lambda>d. find (\<lambda>ip. ip_DeletedAt ip = None \<and> ip_ID ip = i)
       (ip_metadata (sch_db s) d))) w of
     (None, w1) \<Rightarrow> (None, w1) | (Some r, w1) \<Rightarrow> (r, w1))"

section \<open>Initial schedule\<close>

definition init_time :: "('s, 'd) IPScheduler \<Rightarrow> int \<Rightarrow> nat \<Rightarrow> IPMetadata \<Rightarrow> int" where
  "init_time s now i ip = (case ip_LastCrawledAt ip of
     Some t \<Rightarrow> (let nextTime = t + CalculateInterval (sch_oor s) (sch_config s) (ip_Weight ip)
               in if nextTime < now then now + int i * 10 * Second else nextTime)
   | None \<Rightarrow> now + int i * 10 * Second)"

fun init_schedules :: "('s, 'd) IPScheduler \<Rightarrow> int \<Rightarrow> nat \<Rightarrow> IPMetadata list \<Rightarrow> (u64 \<times> int) list" where
  "init_schedules s now i [] = []"
| "init_schedules s now i (ip # ips) = (ip_ID ip, init_time s now i ip) # init_schedules s now (i + 1) ips"

fun schedule_each :: "('s, 'd) IPScheduler \<Rightarrow> (u64 \<times> int) list \<Rightarrow> ('s, 'd) world \<Rightarrow> ('s, 'd) world" where
  "schedule_each s [] w = w"
| "schedule_each s ((i, t) # r) w = schedule_each s r (snd (api_Schedule (sch_store s) i t w))"

text \<open>The result is whether an error is returned.\<close>

definition initScheduleTimes :: "('s, 'd) IPScheduler \<Rightarrow> int \<Rightarrow> ('s, 'd) world \<Rightarrow> bool \<times> ('s, 'd) world" where
  "initScheduleTimes s now w = (case api_Count (sch_store s) w of
     (None, w1) \<Rightarrow> (True, w1)
   | (Some cnt, w1) \<Rightarrow>
       if 0 < cnt then (False, w1)
       else (case getActiveIPs s w1 of
          (None, w2) \<Rightarrow> (True, w2)
        | (Some ips, w2) \<Rightarrow>
            if ips = [] then (False, w2)
            else (let schedules = init_schedules s now 0 ips in
                  case api_ScheduleBatch (sch_store s) of
                    Some batch \<Rightarrow> (case batch schedules w2 of
                      (None, w3) \<Rightarrow> (True, w3) | (Some _, w3) \<Rightarrow> (False, w3))
                  | None \<Rightarrow> (False, schedule_each s schedules w2))))"

section \<open>Scheduling due IPs\<close>

text \<open>\<open>taskID\<close> is the fresh UUID, \<open>now\<close> the clock reading of the call.\<close>

definition ip_task :: "SchedulerConfig \<Rightarrow> int \<Rightarrow> string \<Rightarrow> IPMetadata \<Rightarrow> CrawlRequest" where
  "ip_task c now taskID ip =
     (let pagesOnSale = (word_of_int (PagesOnSale c) :: i32); pagesSold = (word_of_int (PagesSold c) :: i32)
      in \<lparr>req_IpId = ip_ID ip, req_Keyword = ip_Name ip, req_TaskId = taskID, req_CreatedAt = Unix now,
          req_RetryCount = 0, req_PagesOnSale = (if pagesOnSale = 0 then 5 else pagesOnSale),
          req_PagesSold = (if pagesSold = 0 then 5 else pagesSold)\<rparr>)"

definition pushTasksForIP :: "('s, 'd) IPScheduler \<Rightarrow> int \<Rightarrow> string \<Rightarrow> IPMetadata \<Rightarrow> ('s, 'd) world
    \<Rightarrow> bool \<times> ('s, 'd) world" where
  "pushTasksForIP s now taskID ip w = (if ip_Name ip = '''' then (True, w)
     else (case PushTask (sch_queue s) (sch_codec s) (Some (ip_task (sch_config s) now taskID ip)) w of
             (Inl e, w1) \<Rightarrow> (e \<noteq> ErrTaskExists, w1) | (Inr _, w1) \<Rightarrow> (False, w1)))"

datatype drain_event = DrainCancelled | DrainTick int

text \<open>
  What one pass meets: its clock readings, per IP the clock and the UUID, per batch whether the
  context is done, the start of the wait and its events.
\<close>

record pass =
  pass_due :: int
  pass_now :: int
  pass_tick :: "u64 \<Rightarrow> int"
  pass_uuid :: "u64 \<Rightarrow> string"
  pass_done :: "nat \<Rightarrow> bool"
  pass_wait :: "nat \<Rightarrow> int"
  pass_drain :: "nat \<Rightarrow> drain_event list"

definition schedule_ip :: "('s, 'd) IPScheduler \<Rightarrow> pass \<Rightarrow> u64 \<Rightarrow> ('s, 'd) world \<Rightarrow> ('s, 'd) world" where
  "schedule_ip s p i w = (case getIPByID s i w of
     (None, w1) \<Rightarrow> snd (api_Remove (sch_store s) i w1)
   | (Some ip, w1) \<Rightarrow>
       if ip_Status ip \<noteq> IPStatusActive then snd (api_Remove (sch_store s) i w1)
       else (case pushTasksForIP s (pass_tick p i) (pass_uuid p i) ip w1 of
          (err, w2) \<Rightarrow>
            if err then snd (api_Schedule (sch_store s) i (pass_now p + Minute) w2)
            else snd (api_Schedule (sch_store s) i
                   (pass_now p + CalculateInterval (sch_oor s) (sch_config s) (ip_Weight ip)) w2)))"

fun schedule_batch :: "('s, 'd) IPScheduler \<Rightarrow> pass \<Rightarrow> u64 list \<Rightarrow> ('s, 'd) world \<Rightarrow> ('s, 'd) world" where
  "schedule_batch s p [] w = w"
| "schedule_batch s p (i # ids) w = schedule_batch s p ids (schedule_ip s p i w)"

text \<open>
  The wait ends when the context is done, the deadline has passed or the queue has drained;
  \<open>None\<close> means that it still waits after the given events.
\<close>

fun drain_loop :: "'s client \<Rightarrow> int \<Rightarrow> int \<Rightarrow> drain_event list \<Rightarrow> ('s, 'd) world \<Rightarrow> ('s, 'd) world option" where
  "drain_loop q thr deadline [] w = None"
| "drain_loop q thr deadline (DrainCancelled # es) w = Some w"
| "drain_loop q thr deadline (DrainTick t # es) w =
     (if deadline < t then Some w
      else (case GetQueueStats q w of
              (Inl e, w1) \<Rightarrow> drain_loop q thr deadline es w1
            | (Inr st, w1) \<Rightarrow> if int (TaskQueueLen st) + int (TaskProcessingLen st) \<le> thr then Some w1
                             else drain_loop q thr deadline es w1))"

definition waitForQueueDrain :: "('s, 'd) IPScheduler \<Rightarrow> int \<Rightarrow> int \<Rightarrow> drain_event list
    \<Rightarrow> ('s, 'd) world \<Rightarrow> ('s, 'd) world option" where
  "waitForQueueDrain s thr start es w = drain_loop (sch_queue s) thr (start + 10 * Minute) es w"

fun schedule_batches :: "('s, 'd) IPScheduler \<Rightarrow> pass \<Rightarrow> int \<Rightarrow> nat \<Rightarrow> u64 list list \<Rightarrow> ('s, 'd) world
    \<Rightarrow> ('s, 'd) world option" where
  "schedule_batches s p thr k [] w = Some w"
| "schedule_batches s p thr k (b # bs) w =
     (if pass_done p k then Some w
      else (let w1 = schedule_batch s p b w
            in if bs = [] then Some w1
               else (case waitForQueueDrain s thr (pass_wait p k) (pass_drain p k) w1 of
                       None \<Rightarrow> None | Some w2 \<Rightarrow> schedule_batches s p thr (k + 1) bs w2)))"

definition batch_size :: "SchedulerConfig \<Rightarrow> int" where
  "batch_size c = (if BatchSize c \<le> 0 then 10 else BatchSize c)"

definition backpressure :: "SchedulerConfig \<Rightarrow> int" where
  "backpressure c = (if BackpressureThreshold c \<le> 0
     then (let t = tdiv (batch_size c) 2 in if t < 2 then 2 else t) else BackpressureThreshold c)"

definition checkAndSchedule :: "('s, 'd) IPScheduler \<Rightarrow> pass \<Rightarrow> ('s, 'd) world \<Rightarrow> ('s, 'd) world option" where
  "checkAndSchedule s p w = (case api_GetDue (sch_store s) (pass_due p) w of
     (None, w1) \<Rightarrow> Some w1
   | (Some dueIPs, w1) \<Rightarrow>
       if dueIPs = [] then Some w1
       else schedule_batches s p (backpressure (sch_config s)) 0
              (chunks (nat (batch_size (sch_config s))) dueIPs) w1)"

section \<open>The main loop\<close>

text \<open>\<open>t.Sub (u)\<close> saturates at the ends of \<open>time.Duration\<close>.\<close>

definition Sub :: "int \<Rightarrow> int \<Rightarrow> int" where
  "Sub t u = max (- (2 ^ 63)) (min (2 ^ 63 - 1) (t - u))"

datatype loop_action = SleepOnError int | SleepIdle int | CheckNow | CheckAfter int

definition loop_decide :: "int \<Rightarrow> int option option \<Rightarrow> loop_action" where
  "loop_decide now r = (case r of
     None \<Rightarrow> SleepOnError (30 * Second)
   | Some None \<Rightarrow> SleepIdle maxSleepDuration
   | Some (Some nextTime) \<Rightarrow>
       (let sleepDuration = Sub nextTime now in
        if sleepDuration \<le> 0 then CheckNow
        else if sleepDuration > maxSleepDuration then CheckAfter maxSleepDuration
        else CheckAfter sleepDuration))"

text \<open>
  One round of the loop: whether it was stopped before, its clock reading, whether the stop
  arrives during the sleep, and the pass it may run. The list holds the rounds taken so far.
\<close>

record loop_round =
  lr_stopped :: bool
  lr_now :: int
  lr_interrupted :: bool
  lr_pass :: pass

fun scheduleLoop :: "('s, 'd) IPScheduler \<Rightarrow> loop_round list \<Rightarrow> ('s, 'd) world \<Rightarrow> ('s, 'd) world option" where
  "scheduleLoop s [] w = Some w"
| "scheduleLoop s (r # rs) w =
     (if lr_stopped r then Some w
      else (case api_GetNextTime (sch_store s) w of (res, w1) \<Rightarrow>
        (case loop_decide (lr_now r) res of
           SleepOnError d \<Rightarrow> scheduleLoop s rs w1
         | SleepIdle d \<Rightarrow> if lr_interrupted r then Some w1 else scheduleLoop s rs w1
         | CheckNow \<Rightarrow> (case checkAndSchedule s (lr_pass r) w1 of None \<Rightarrow> None | Some w2 \<Rightarrow> scheduleLoop s rs w2)
         | CheckAfter d \<Rightarrow> if lr_interrupted r then Some w1
             else (case checkAndSchedule s (lr_pass r) w1 of None \<Rightarrow> None | Some w2 \<Rightarrow> scheduleLoop s rs w2))))"

section \<open>Operations on single IPs\<close>

definition AddIP :: "('s, 'd) IPScheduler \<Rightarrow> int \<Rightarrow> IPMetadata option \<Rightarrow> ('s, 'd) world \<Rightarrow> ('s, 'd) world" where
  "AddIP s now ip w = (case ip of None \<Rightarrow> w | Some x \<Rightarrow>
     if ip_Status x \<noteq> IPStatusActive then w else snd (api_Schedule (sch_store s) (ip_ID x) now w))"

definition RemoveIP :: "('s, 'd) IPScheduler \<Rightarrow> u64 \<Rightarrow> ('s, 'd) world \<Rightarrow> ('s, 'd) world" where
  "RemoveIP s i w = snd (api_Remove (sch_store s) i w)"

definition UpdateIPWeight :: "('s, 'd) IPScheduler \<Rightarrow> int \<Rightarrow> u64 \<Rightarrow> rat \<Rightarrow> ('s, 'd) world \<Rightarrow> ('s, 'd) world" where
  "UpdateIPWeight s now i newWeight w = (case api_GetScheduleTime (sch_store s) i w of
     (Some (Some t), w1) \<Rightarrow>
       snd (api_Schedule (sch_store s) i (now + CalculateInterval (sch_oor s) (sch_config s) newWeight) w1)
   | (_, w1) \<Rightarrow> w1)"

definition ScheduleIP :: "('s, 'd) IPScheduler \<Rightarrow> u64 \<Rightarrow> int \<Rightarrow> ('s, 'd) world \<Rightarrow> unit option \<times> ('s, 'd) world" where
  "ScheduleIP s i nextTime w = api_Schedule (sch_store s) i nextTime w"

definition TriggerNow :: "('s, 'd) IPScheduler \<Rightarrow> int \<Rightarrow> u64 \<Rightarrow> ('s, 'd) world \<Rightarrow> ('s, 'd) world" where
  "TriggerNow s now i w = snd (api_Schedule (sch_store s) i now w)"

definition GetNextScheduleTime :: "('s, 'd) IPScheduler \<Rightarrow> u64 \<Rightarrow> ('s, 'd) world \<Rightarrow> int option \<times> ('s, 'd) world" where
  "GetNextScheduleTime s i w = (case api_GetScheduleTime (sch_store s) i w of
     (None, w1) \<Rightarrow> (None, w1) | (Some t, w1) \<Rightarrow> (t, w1))"

record ScheduleInfo =
  NextSchedule :: int
  TimeUntil :: int
  IsOverdue :: bool

definition GetScheduleStatus :: "('s, 'd) IPScheduler \<Rightarrow> int \<Rightarrow> ('s, 'd) world
    \<Rightarrow> (u64 \<times> ScheduleInfo) list option \<times> ('s, 'd) world" where
  "GetScheduleStatus s now w = (case api_GetAll (sch_store s) w of
     (None, w1) \<Rightarrow> (None, w1)
   | (Some m, w1) \<Rightarrow> (Some (map (\<lambda>(i, t). (i, \<lparr>NextSchedule = t, TimeUntil = Sub t now, IsOverdue = t < now\<rparr>)) m), w1))"

text \<open>The clock is read again for each newly scheduled IP.\<close>

fun refresh_add :: "('s, 'd) IPScheduler \<Rightarrow> (u64 \<Rightarrow> int) \<Rightarrow> IPMetadata list \<Rightarrow> ('s, 'd) world \<Rightarrow> ('s, 'd) world" where
  "refresh_add s now [] w = w"
| "refresh_add s now (ip # ips) w =
     (case api_GetScheduleTime (sch_store s) (ip_ID ip) w of
        (Some (Some t), w1) \<Rightarrow> refresh_add s now ips w1
      | (_, w1) \<Rightarrow> refresh_add s now ips (snd (api_Schedule (sch_store s) (ip_ID ip) (now (ip_ID ip)) w1)))"

fun refresh_drop :: "('s, 'd) IPScheduler \<Rightarrow> u64 list \<Rightarrow> u64 list \<Rightarrow> ('s, 'd) world \<Rightarrow> ('s, 'd) world" where
  "refresh_drop s active [] w = w"
| "refresh_drop s active (i # is) w =
     (if i \<in> set active then refresh_drop s active is w
      else refresh_drop s active is (snd (api_Remove (sch_store s) i w)))"

definition RefreshActiveIPs :: "('s, 'd) IPScheduler \<Rightarrow> (u64 \<Rightarrow> int) \<Rightarrow> ('s, 'd) world \<Rightarrow> bool \<times> ('s, 'd) world" where
  "RefreshActiveIPs s now w = (case getActiveIPs s w of
     (None, w1) \<Rightarrow> (True, w1)
   | (Some ips, w1) \<Rightarrow>
       (case api_GetAll (sch_store s) (refresh_add s now ips w1) of
          (None, w2) \<Rightarrow> (True, w2)
        | (Some m, w2) \<Rightarrow> (False, refresh_drop s (map ip_ID ips) (map fst m) w2)))"

text \<open>One tick of the refresh loop; the count is only logged.\<close>

definition refresh_tick :: "('s, 'd) IPScheduler \<Rightarrow> (u64 \<Rightarrow> int) \<Rightarrow> ('s, 'd) world \<Rightarrow> ('s, 'd) world" where
  "refresh_tick s now w = (case RefreshActiveIPs s now w of
     (True, w1) \<Rightarrow> w1 | (False, w1) \<Rightarrow> snd (api_Count (sch_store s) w1))"

record Stats =
  TotalIPs :: nat
  OverdueIPs :: nat
  NextScheduleIn :: int

fun stats_loop :: "int \<Rightarrow> (u64 \<times> int) list \<Rightarrow> nat \<Rightarrow> int \<Rightarrow> nat \<times> int" where
  "stats_loop now [] overdue minDuration = (overdue, minDuration)"
| "stats_loop now ((i, t) # m) overdue minDuration =
     (if t < now then stats_loop now m (overdue + 1) minDuration
      else stats_loop now m overdue (if Sub t now < minDuration then Sub t now else minDuration))"

definition GetStats :: "('s, 'd) IPScheduler \<Rightarrow> int \<Rightarrow> ('s, 'd) world \<Rightarrow> Stats \<times> ('s, 'd) world" where
  "GetStats s now w = (case api_GetAll (sch_store s) w of
     (None, w1) \<Rightarrow> (\<lparr>TotalIPs = 0, OverdueIPs = 0, NextScheduleIn = 0\<rparr>, w1)
   | (Some m, w1) \<Rightarrow> (case stats_loop now m 0 (Hour * 24) of (overdue, minDuration) \<Rightarrow>
       (\<lparr>TotalIPs = length m, OverdueIPs = overdue,
         NextScheduleIn = (if 0 < length m \<and> overdue < length m then minDuration else 0)\<rparr>, w1)))"

section \<open>Janitor\<close>

definition updateQueueMetrics :: "('s, 'd) IPScheduler \<Rightarrow> ('s, 'd) world \<Rightarrow> ('s, 'd) world" where
  "updateQueueMetrics s w = (case GetQueueStats (sch_queue s) w of
     (Inl e, w1) \<Rightarrow> w1 | (Inr st, w1) \<Rightarrow> snd (api_Count (sch_store s) w1))"

definition janitor_interval :: "SchedulerConfig \<Rightarrow> int" where
  "janitor_interval c = (if JanitorInterval c = 0 then 5 * Minute else JanitorInterval c)"

definition janitor_tick :: "('s, 'd) IPScheduler \<Rightarrow> int \<Rightarrow> int \<Rightarrow> ('s, 'd) world \<Rightarrow> ('s, 'd) world" where
  "janitor_tick s now1 now2 w =
     (let timeout = (if JanitorTimeout (sch_config s) = 0 then 10 * Minute else JanitorTimeout (sch_config s));
          w1 = snd (snd (RescueStuckTasks (sch_queue s) (sch_codec s) timeout (Unix now1) w));
          w2 = snd (snd (RescueStuckResults (sch_queue s) (sch_codec s) timeout (Unix now2) w1))
      in updateQueueMetrics s w2)"

section \<open>Archiver loop\<close>

text \<open>The runs of the archiver: each returns whether it failed.\<close>

record 'w archive_runs =
  RunDaily :: "int \<Rightarrow> 'w \<Rightarrow> bool \<times> 'w"
  RunWeekly :: "int \<Rightarrow> 'w \<Rightarrow> bool \<times> 'w"
  RunMonthly :: "int \<Rightarrow> 'w \<Rightarrow> bool \<times> 'w"
  RunClean :: "int \<Rightarrow> 'w \<Rightarrow> bool \<times> 'w"

text \<open>The last successful runs; the zero \<open>time.Time\<close> is \<open>None\<close> (1 January of year 1).\<close>

record last_runs =
  lastDailyArchive :: "int option"
  lastWeeklyArchive :: "int option"
  lastMonthlyArchive :: "int option"
  lastCleanup :: "int option"

definition last_Date :: "int option \<Rightarrow> int \<times> int \<times> int" where
  "last_Date t = (case t of None \<Rightarrow> (1, 1, 1) | Some u \<Rightarrow> Date JST u)"

definition sameDay :: "int option \<Rightarrow> int \<Rightarrow> bool" where
  "sameDay t1 t2 \<longleftrightarrow> last_Date t1 = Date JST t2"

text \<open>One guarded run: it is taken when due and not done today, and recorded when it succeeds.\<close>

definition guarded_run :: "bool \<Rightarrow> int \<Rightarrow> int option \<Rightarrow> ('w \<Rightarrow> bool \<times> 'w) \<Rightarrow> 'w \<Rightarrow> int option \<times> 'w" where
  "guarded_run due today lst run w =
     (if due \<and> \<not> sameDay lst today
      then (case run w of (err, w1) \<Rightarrow> (if err then lst else Some today, w1))
      else (lst, w))"

definition archiver_tick :: "'w archive_runs \<Rightarrow> int \<Rightarrow> last_runs \<Rightarrow> 'w \<Rightarrow> last_runs \<times> 'w" where
  "archiver_tick A now l w =
     (let hour = clock_Hour JST now; minute = clock_Minute JST now; today = midnight JST now;
          (_, _, dayOfMonth) = Date JST now;
          (d, w1) = guarded_run (hour = 0 \<and> minute = 5) today (lastDailyArchive l) (RunDaily A now) w;
          (k, w2) = guarded_run (Weekday JST now = 1 \<and> hour = 0 \<and> minute = 10) today (lastWeeklyArchive l) (RunWeekly A now) w1;
          (m, w3) = guarded_run (dayOfMonth = 1 \<and> hour = 0 \<and> minute = 15) today (lastMonthlyArchive l) (RunMonthly A now) w2;
          (c, w4) = guarded_run (hour = 1 \<and> minute = 0) today (lastCleanup l) (RunClean A now) w3
      in (\<lparr>lastDailyArchive = d, lastWeeklyArchive = k, lastMonthlyArchive = m, lastCleanup = c\<rparr>, w4))"

section \<open>Start and stop\<close>

text \<open>The state of the object: whether it runs and whether its loops were started.\<close>

record sched_state =
  running :: bool
  loops :: bool

datatype sched_error = AlreadyRunning | InitFailed

definition Start :: "('s, 'd) IPScheduler \<Rightarrow> nat \<Rightarrow> int \<Rightarrow> pass \<Rightarrow> sched_state \<Rightarrow> ('s, 'd) world
    \<Rightarrow> (sched_error option \<times> sched_state \<times> ('s, 'd) world) option" where
  "Start s fuel now p st w =
     (if running st then Some (Some AlreadyRunning, st, w)
      else (let st1 = st\<lparr>running := True\<rparr> in
        case RecoverOrphanedTasks fuel (sch_queue s) (sch_codec s) w of
          None \<Rightarrow> None
        | Some (n, e, w1) \<Rightarrow>
            (case initScheduleTimes s now w1 of
               (True, w2) \<Rightarrow> Some (Some InitFailed, st1, w2)
             | (False, w2) \<Rightarrow> (case checkAndSchedule s p w2 of
                 None \<Rightarrow> None | Some w3 \<Rightarrow> Some (None, st1\<lparr>loops := True\<rparr>, w3)))))"

definition Stop :: "sched_state \<Rightarrow> sched_state" where
  "Stop st = (if \<not> running st then st else st\<lparr>running := False, loops := False\<rparr>)"

definition IsRunning :: "sched_state \<Rightarrow> bool" where
  "IsRunning st = running st"

end
