(* ===== verification/SchedulerProofs.thy ===== *)
theory SchedulerProofs
  imports Scheduler
begin

text \<open>
  Correctness of the scheduler against the contract of its store. \<open>scheduler_env\<close> extends the
  contract by what the scheduler relies on besides: its other calls leave the schedule alone, and
  in a calm world (no fault left to happen) the calls succeed. The locale is interpreted on the
  Redis store.
\<close>

text \<open>
  The clock readings of a pass and the intervals it may add are sane: time does not run
  backwards, intervals are at least a second, the resulting times are exact scores.
\<close>

definition pass_times_ok :: "('s, 'd) IPScheduler \<Rightarrow> pass \<Rightarrow> bool" where
  "pass_times_ok s p \<longleftrightarrow> 0 \<le> pass_due p \<and> pass_due p \<le> pass_now p \<and>
     Second \<le> MinInterval (sch_config s) \<and> MinInterval (sch_config s) \<le> MaxInterval (sch_config s) \<and>
     Unix (pass_now p + max Minute (MaxInterval (sch_config s))) \<le> 2 ^ 53"

locale scheduler_env = schedule_store "sch_store s" ok times
  for s :: "('s, 'd) IPScheduler" and ok times +
  fixes calm :: "('s, 'd) world \<Rightarrow> bool"
  assumes push_frame: "ok w \<Longrightarrow> ok (snd (PushTask (sch_queue s) C q w)) \<and>
      times (snd (PushTask (sch_queue s) C q w)) = times w"
    and stats_frame: "ok w \<Longrightarrow> ok (snd (GetQueueStats (sch_queue s) w)) \<and>
      times (snd (GetQueueStats (sch_queue s) w)) = times w"
    and active_frame: "ok w \<Longrightarrow> ok (snd (getActiveIPs s w)) \<and> times (snd (getActiveIPs s w)) = times w"
    and ip_frame: "ok w \<Longrightarrow> ok (snd (getIPByID s i w)) \<and> times (snd (getIPByID s i w)) = times w"
    and calm_push: "calm w \<Longrightarrow> calm (snd (PushTask (sch_queue s) C q w))"
    and calm_stats: "calm w \<Longrightarrow> calm (snd (GetQueueStats (sch_queue s) w))"
    and calm_active: "calm w \<Longrightarrow> calm (snd (getActiveIPs s w)) \<and> fst (getActiveIPs s w) =
      Some (filter (\<lambda>ip. ip_DeletedAt ip = None \<and> ip_Status ip = IPStatusActive) (ip_metadata (sch_db s) (db_st w)))"
    and calm_ip: "calm w \<Longrightarrow> calm (snd (getIPByID s i w))"
    and calm_schedule: "calm w \<Longrightarrow> calm (snd (api_Schedule (sch_store s) i t w)) \<and>
      fst (api_Schedule (sch_store s) i t w) \<noteq> None"
    and calm_remove: "calm w \<Longrightarrow> calm (snd (api_Remove (sch_store s) i w)) \<and>
      fst (api_Remove (sch_store s) i w) \<noteq> None"
    and calm_due: "calm w \<Longrightarrow> calm (snd (api_GetDue (sch_store s) t w)) \<and>
      fst (api_GetDue (sch_store s) t w) \<noteq> None"
    and calm_time: "calm w \<Longrightarrow> calm (snd (api_GetScheduleTime (sch_store s) i w)) \<and>
      fst (api_GetScheduleTime (sch_store s) i w) \<noteq> None"
    and calm_all: "calm w \<Longrightarrow> calm (snd (api_GetAll (sch_store s) w)) \<and>
      fst (api_GetAll (sch_store s) w) \<noteq> None"
begin

lemma sure_schedule:
  assumes "ok w" "calm w" "exact_time t"
  shows "ok (snd (api_Schedule (sch_store s) i t w)) \<and> calm (snd (api_Schedule (sch_store s) i t w)) \<and>
    times (snd (api_Schedule (sch_store s) i t w)) = (times w)(i \<mapsto> Unix t)"
  using schedule [OF assms(1,3), of i "fst (api_Schedule (sch_store s) i t w)"] calm_schedule [OF assms(2), of i t]
  by (metis prod.collapse)

lemma sure_remove:
  assumes "ok w" "calm w"
  shows "ok (snd (api_Remove (sch_store s) i w)) \<and> calm (snd (api_Remove (sch_store s) i w)) \<and>
    times (snd (api_Remove (sch_store s) i w)) = (times w)(i := None)"
  using remove [OF assms(1), of i "fst (api_Remove (sch_store s) i w)"] calm_remove [OF assms(2), of i]
  by (metis prod.collapse)

lemma push_tasks_frame:
  assumes "ok w" "calm w"
  shows "ok (snd (pushTasksForIP s t u ip w)) \<and> calm (snd (pushTasksForIP s t u ip w)) \<and>
    times (snd (pushTasksForIP s t u ip w)) = times w"
proof -
  let ?p = "PushTask (sch_queue s) (sch_codec s) (Some (ip_task (sch_config s) t u ip)) w"
  have "snd (pushTasksForIP s t u ip w) = (if ip_Name ip = '''' then w else snd ?p)"
    by (simp add: pushTasksForIP_def split: prod.split sum.split)
  then show ?thesis using push_frame [OF assms(1)] calm_push [OF assms(2)] assms by simp
qed

lemma interval_ok:
  assumes "pass_times_ok s p" and d: "d = Minute \<or> d = CalculateInterval (sch_oor s) (sch_config s) wt"
  shows "exact_time (pass_now p + d)" "Unix (pass_due p) < Unix (pass_now p + d)"
proof -
  have d1: "Second \<le> d" "d \<le> max Minute (MaxInterval (sch_config s))"
    using d assms(1) CalculateInterval_def
    by (auto simp: pass_times_ok_def CalculateInterval_def Let_def Minute_def Second_def)
  have "0 \<le> Unix (pass_now p + d)" "Unix (pass_now p + d) \<le> Unix (pass_now p + max Minute (MaxInterval (sch_config s)))"
    unfolding Unix_def using d1 assms(1)
    by (auto simp: pass_times_ok_def Second_def pos_imp_zdiv_nonneg_iff intro!: zdiv_mono1)
  then show "exact_time (pass_now p + d)" using assms(1) by (simp add: pass_times_ok_def exact_time_def)
  have "Unix (pass_due p + Second) \<le> Unix (pass_now p + d)"
    unfolding Unix_def using d1 assms(1) by (intro zdiv_mono1) (auto simp: pass_times_ok_def Second_def)
  moreover have "Unix (pass_due p + Second) = Unix (pass_due p) + 1" by (simp add: Unix_def Second_def)
  ultimately show "Unix (pass_due p) < Unix (pass_now p + d)" by simp
qed

lemma schedule_ip_effect:
  assumes "ok w" "calm w" "pass_times_ok s p"
  shows "ok (schedule_ip s p i w) \<and> calm (schedule_ip s p i w) \<and>
    (\<forall>j. j \<noteq> i \<longrightarrow> times (schedule_ip s p i w) j = times w j) \<and>
    (\<forall>u. times (schedule_ip s p i w) i = Some u \<longrightarrow> Unix (pass_due p) < u)"
proof -
  obtain r w1 where r: "getIPByID s i w = (r, w1)" by fastforce
  have w1: "ok w1" "calm w1" "times w1 = times w"
    using ip_frame [OF assms(1), of i] calm_ip [OF assms(2), of i] r by auto
  show ?thesis
  proof (cases r)
    case None
    then show ?thesis using r sure_remove [OF w1(1,2), of i] w1(3) by (simp add: schedule_ip_def)
  next
    case (Some ip)
    show ?thesis
    proof (cases "ip_Status ip = IPStatusActive")
      case False
      then show ?thesis using r Some sure_remove [OF w1(1,2), of i] w1(3) by (simp add: schedule_ip_def)
    next
      case True
      obtain e w2 where e: "pushTasksForIP s (pass_tick p i) (pass_uuid p i) ip w1 = (e, w2)" by fastforce
      have w2: "ok w2" "calm w2" "times w2 = times w"
        using push_tasks_frame [OF w1(1,2), of "pass_tick p i" "pass_uuid p i" ip] e w1(3) by auto
      define d where "d = (if e then Minute else CalculateInterval (sch_oor s) (sch_config s) (ip_Weight ip))"
      have d: "exact_time (pass_now p + d)" "Unix (pass_due p) < Unix (pass_now p + d)"
        using interval_ok [OF assms(3), of d "ip_Weight ip"] by (auto simp: d_def)
      have "schedule_ip s p i w = snd (api_Schedule (sch_store s) i (pass_now p + d) w2)"
        using r Some True e by (simp add: schedule_ip_def d_def)
      then show ?thesis using sure_schedule [OF w2(1,2) d(1), of i] d(2) w2(3) by simp
    qed
  qed
qed

lemma schedule_batch_effect:
  assumes "ok w" "calm w" "pass_times_ok s p"
  shows "ok (schedule_batch s p ids w) \<and> calm (schedule_batch s p ids w) \<and>
    (\<forall>j. j \<notin> set ids \<longrightarrow> times (schedule_batch s p ids w) j = times w j) \<and>
    (\<forall>j u. j \<in> set ids \<longrightarrow> times (schedule_batch s p ids w) j = Some u \<longrightarrow> Unix (pass_due p) < u)"
  using assms
proof (induction ids arbitrary: w)
  case (Cons i ids)
  note e = schedule_ip_effect [OF Cons.prems, of i]
  have IH: "ok (schedule_batch s p ids (schedule_ip s p i w)) \<and> calm (schedule_batch s p ids (schedule_ip s p i w)) \<and>
    (\<forall>j. j \<notin> set ids \<longrightarrow> times (schedule_batch s p ids (schedule_ip s p i w)) j = times (schedule_ip s p i w) j) \<and>
    (\<forall>j u. j \<in> set ids \<longrightarrow> times (schedule_batch s p ids (schedule_ip s p i w)) j = Some u \<longrightarrow> Unix (pass_due p) < u)"
    using Cons.IH e Cons.prems(3) by blast
  show ?case using IH e by (auto; metis)
qed simp

lemma drain_frame:
  "drain_loop (sch_queue s) thr dl es w = Some w' \<Longrightarrow> ok w \<Longrightarrow> calm w \<Longrightarrow>
   ok w' \<and> calm w' \<and> times w' = times w"
proof (induction "sch_queue s" thr dl es w rule: drain_loop.induct)
  case (3 thr dl t es w)
  obtain r w1 where r: "GetQueueStats (sch_queue s) w = (r, w1)" by fastforce
  have w1: "ok w1" "calm w1" "times w1 = times w"
    using stats_frame [OF 3(4)] calm_stats [OF 3(5)] r by auto
  show ?case using 3 r w1 by (auto split: if_splits sum.splits)
qed simp_all

lemma schedule_batches_effect:
  assumes "ok w" "calm w" "pass_times_ok s p" "\<And>k. \<not> pass_done p k"
    and "schedule_batches s p thr k bs w = Some w'"
  shows "ok w' \<and> calm w' \<and> (\<forall>j. j \<notin> set (concat bs) \<longrightarrow> times w' j = times w j) \<and>
    (\<forall>j u. j \<in> set (concat bs) \<longrightarrow> times w' j = Some u \<longrightarrow> Unix (pass_due p) < u)"
  using assms(1,2,5)
proof (induction bs arbitrary: w k)
  case (Cons b bs)
  note e = schedule_batch_effect [OF Cons.prems(1,2) assms(3), of b]
  show ?case
  proof (cases "bs = []")
    case True
    then show ?thesis using e Cons.prems(3) assms(4) by (auto simp: Let_def)
  next
    case False
    then obtain w2 where w2: "waitForQueueDrain s thr (pass_wait p k) (pass_drain p k) (schedule_batch s p b w) = Some w2"
      "schedule_batches s p thr (k + 1) bs w2 = Some w'"
      using Cons.prems(3) assms(4) [of k] by (auto simp: Let_def split: option.splits)
    have f: "ok w2" "calm w2" "times w2 = times (schedule_batch s p b w)"
      using drain_frame [OF w2(1) [unfolded waitForQueueDrain_def]] e by auto
    show ?thesis using Cons.IH [OF f(1,2) w2(2)] e f(3) by (auto; metis)
  qed
qed simp

lemma batch_size_pos: "0 < nat (batch_size c)"
  by (simp add: batch_size_def)

lemma checkAndSchedule_effect:
  assumes "ok w" "calm w" "pass_times_ok s p" "\<And>k. \<not> pass_done p k" "checkAndSchedule s p w = Some w'"
  shows "ok w' \<and> calm w' \<and> (\<forall>j u. times w' j = Some u \<longrightarrow> Unix (pass_due p) < u) \<and>
    (\<forall>j u. times w j = Some u \<longrightarrow> Unix (pass_due p) < u \<longrightarrow> times w' j = Some u)"
proof -
  have "0 \<le> Unix (pass_due p)" "Unix (pass_due p) \<le> Unix (pass_now p + max Minute (MaxInterval (sch_config s)))"
    unfolding Unix_def using assms(3)
    by (auto simp: pass_times_ok_def duration_defs pos_imp_zdiv_nonneg_iff intro!: zdiv_mono1)
  then have t: "exact_time (pass_due p)" using assms(3) by (simp add: pass_times_ok_def exact_time_def)
  obtain r w1 where r: "api_GetDue (sch_store s) (pass_due p) w = (r, w1)" by fastforce
  then obtain ids where ids: "r = Some ids" "calm w1" using calm_due [OF assms(2), of "pass_due p"] by auto
  have d: "ok w1" "times w1 = times w" "set ids = {i. \<exists>u. times w i = Some u \<and> u \<le> Unix (pass_due p)}"
    using get_due [OF assms(1) t r] ids by auto
  show ?thesis
  proof (cases "ids = []")
    case True
    then show ?thesis using assms(5) r ids d by (force simp: checkAndSchedule_def)
  next
    case False
    let ?bs = "chunks (nat (batch_size (sch_config s))) ids"
    have bs: "concat ?bs = ids" by (rule concat_chunks [OF batch_size_pos])
    have "schedule_batches s p (backpressure (sch_config s)) 0 ?bs w1 = Some w'"
      using assms(5) r ids False by (simp add: checkAndSchedule_def)
    from schedule_batches_effect [OF d(1) ids(2) assms(3,4) this]
    have e: "ok w'" "calm w'" "\<And>j. j \<notin> set ids \<Longrightarrow> times w' j = times w j"
      "\<And>j u. j \<in> set ids \<Longrightarrow> times w' j = Some u \<Longrightarrow> Unix (pass_due p) < u"
      unfolding bs using d(2) by auto
    have "Unix (pass_due p) < u" if "times w' j = Some u" for j u
      using e(3) [of j] e(4) [of j u] that d(3) by (metis (mono_tags, lifting) linorder_not_le mem_Collect_eq)
    moreover have "times w' j = Some u" if "times w j = Some u" "Unix (pass_due p) < u" for j u
      using e(3) [of j] that d(3) by auto
    ultimately show ?thesis using e(1,2) by blast
  qed
qed

lemma sure_time:
  assumes "ok w" "calm w"
  shows "ok (snd (api_GetScheduleTime (sch_store s) i w)) \<and> calm (snd (api_GetScheduleTime (sch_store s) i w)) \<and>
    times (snd (api_GetScheduleTime (sch_store s) i w)) = times w \<and>
    fst (api_GetScheduleTime (sch_store s) i w) = Some (map_option UnixTime (times w i))"
proof -
  obtain r w1 where r: "api_GetScheduleTime (sch_store s) i w = (r, w1)" by fastforce
  then show ?thesis using get_time [OF assms(1) r] calm_time [OF assms(2), of i] by auto
qed

lemma refresh_add_effect:
  assumes "ok w" "calm w" "\<And>i. exact_time (now i)"
  shows "ok (refresh_add s now ips w) \<and> calm (refresh_add s now ips w) \<and>
    dom (times (refresh_add s now ips w)) = dom (times w) \<union> ip_ID ` set ips \<and>
    (\<forall>i u. times w i = Some u \<longrightarrow> times (refresh_add s now ips w) i = Some u)"
  using assms(1,2)
proof (induction ips arbitrary: w)
  case (Cons ip ips)
  obtain r w1 where r: "api_GetScheduleTime (sch_store s) (ip_ID ip) w = (r, w1)" by fastforce
  have w1: "ok w1" "calm w1" "times w1 = times w" "r = Some (map_option UnixTime (times w (ip_ID ip)))"
    using sure_time [OF Cons.prems, of "ip_ID ip"] r by auto
  show ?case
  proof (cases "times w (ip_ID ip)")
    case None
    let ?w2 = "snd (api_Schedule (sch_store s) (ip_ID ip) (now (ip_ID ip)) w1)"
    have w2: "ok ?w2" "calm ?w2" "times ?w2 = (times w)(ip_ID ip \<mapsto> Unix (now (ip_ID ip)))"
      using sure_schedule [OF w1(1,2) assms(3)] w1(3) by auto
    have "refresh_add s now (ip # ips) w = refresh_add s now ips ?w2" using r w1(4) None by simp
    then show ?thesis using Cons.IH [OF w2(1,2)] w2(3) None
      by (auto simp: dom_fun_upd split: if_splits) (metis option.distinct(1))
  next
    case (Some u)
    have "refresh_add s now (ip # ips) w = refresh_add s now ips w1" using r w1(4) Some by simp
    then show ?thesis using Cons.IH [OF w1(1,2)] w1(3) Some by auto
  qed
qed simp

lemma refresh_drop_effect:
  assumes "ok w" "calm w"
  shows "ok (refresh_drop s active ids w) \<and> calm (refresh_drop s active ids w) \<and>
    times (refresh_drop s active ids w) = (\<lambda>i. if i \<in> set ids \<and> i \<notin> set active then None else times w i)"
  using assms
proof (induction ids arbitrary: w)
  case (Cons i ids)
  note e = sure_remove [OF Cons.prems, of i]
  show ?case
  proof (cases "i \<in> set active")
    case True
    then show ?thesis using Cons.IH [OF Cons.prems] by (auto simp: fun_eq_iff)
  next
    case False
    then show ?thesis using Cons.IH [of "snd (api_Remove (sch_store s) i w)"] e by (auto simp: fun_eq_iff)
  qed
qed simp

lemma refresh_effect:
  assumes "ok w" "calm w" "\<And>i. exact_time (now i)"
  defines "act \<equiv> filter (\<lambda>ip. ip_DeletedAt ip = None \<and> ip_Status ip = IPStatusActive) (ip_metadata (sch_db s) (db_st w))"
  shows "fst (RefreshActiveIPs s now w) = False \<and>
    dom (times (snd (RefreshActiveIPs s now w))) = ip_ID ` set act \<and>
    (\<forall>i u. i \<in> ip_ID ` set act \<longrightarrow> times w i = Some u \<longrightarrow> times (snd (RefreshActiveIPs s now w)) i = Some u)"
proof -
  obtain w1 where g: "getActiveIPs s w = (Some act, w1)"
    using calm_active [OF assms(2)] by (metis act_def prod.collapse)
  have w1: "ok w1" "calm w1" "times w1 = times w"
    using active_frame [OF assms(1)] calm_active [OF assms(2)] g by auto
  note add = refresh_add_effect [OF w1(1,2), of now act, OF assms(3)]
  obtain r w2 where a: "api_GetAll (sch_store s) (refresh_add s now act w1) = (r, w2)" by fastforce
  then obtain m where m: "r = Some m" using calm_all [of "refresh_add s now act w1"] add by auto
  have w2: "ok w2" "calm w2" "times w2 = times (refresh_add s now act w1)"
    "map_of m = (\<lambda>i. map_option UnixTime (times (refresh_add s now act w1) i))"
    using get_all [OF _ a] calm_all [of "refresh_add s now act w1"] add a m by auto
  have dm: "fst ` set m = dom (times (refresh_add s now act w1))"
    using w2(4) by (auto simp: dom_map_of_conv_image_fst [symmetric])
  have "RefreshActiveIPs s now w = (False, refresh_drop s (map ip_ID act) (map fst m) w2)"
    using g a m by (simp add: RefreshActiveIPs_def)
  moreover define A where "A = times (refresh_add s now act w1)"
  have A: "dom A = dom (times w) \<union> ip_ID ` set act" "\<And>i u. times w i = Some u \<Longrightarrow> A i = Some u"
    using add w1(3) by (auto simp: A_def)
  have "times (refresh_drop s (map ip_ID act) (map fst m) w2) =
      (\<lambda>i. if i \<in> dom A \<and> i \<notin> ip_ID ` set act then None else A i)"
    using refresh_drop_effect [OF w2(1,2), of "map ip_ID act" "map fst m"] dm [folded A_def]
    by (simp only: set_map w2(3) [folded A_def])
  moreover have "dom (\<lambda>i. if i \<in> dom A \<and> i \<notin> ip_ID ` set act then None else A i) = ip_ID ` set act"
  proof -
    have "ip_ID ` set act \<subseteq> dom A" using A(1) by simp
    then show ?thesis by (auto simp: domIff split: if_splits)
  qed
  ultimately show ?thesis using A(2) by auto
qed

end


section \<open>The Redis store as environment\<close>

definition redis_scheduler :: "'s redis \<Rightarrow> ('s, 'd) IPScheduler \<Rightarrow> bool" where
  "redis_scheduler R s \<longleftrightarrow> sch_queue s = Some R \<and> sch_store s = NewRedisScheduleStore (sch_oor s) R"

context redis_server
begin

lemma zset_frame:
  assumes "\<And>st. zsets (view (snd (c st))) = zsets (view st)"
  shows "zset_ok R (snd (rdo c w)) = zset_ok R w" "zset_times R (snd (rdo c w)) = zset_times R w"
proof -
  have "zsets (view (redis_st (snd (rdo c w)))) = zsets (view (redis_st w))"
    by (rule rdo_preserves [where P = "\<lambda>st. zsets (view st) = zsets (view (redis_st w))"]) (simp_all add: assms)
  then show "zset_ok R (snd (rdo c w)) = zset_ok R w" "zset_times R (snd (rdo c w)) = zset_times R w"
    by (simp_all add: zset_ok_iff zset_times_view)
qed

lemma push_script_zsets: "zsets (view (snd (pushTaskScript R k d st))) = zsets (view st)"
  by (simp add: pushTaskScript_def case_prod_unfold sadd_view lpush)

lemma PushTask_world:
  "snd (PushTask (Some R) C q w) = w \<or>
   (\<exists>k d. snd (PushTask (Some R) C q w) = snd (rdo (pushTaskScript R k d) w))"
proof (cases q)
  case (Some t)
  then show ?thesis
  proof (cases "MarshalReq C t")
    case (Some d)
    have "snd (PushTask (Some R) C (Some t) w) = w \<or>
      snd (PushTask (Some R) C (Some t) w) = snd (rdo (pushTaskScript R (dedup_key (req_IpId t)) d) w)"
      using Some by (simp add: PushTask_def split: prod.split option.split)
    then show ?thesis using \<open>q = Some t\<close> by blast
  qed (simp add: PushTask_def)
qed (simp add: PushTask_def)

lemma read_or_zero_world: "snd (read_or_zero f w) = snd (rdo (readc f) w)"
  by (simp add: read_or_zero_def split: prod.split option.split)

lemma GetQueueStats_st:
  "redis_st (snd (GetQueueStats (Some R) w)) = redis_st w"
  "quiet w \<Longrightarrow> quiet (snd (GetQueueStats (Some R) w))"
proof -
  have r: "redis_st (snd (read_or_zero f v)) = redis_st v" for f and v :: "('s, 'e) world"
    by (simp add: read_or_zero_world)
  have q: "quiet v \<Longrightarrow> quiet (snd (read_or_zero f v))" for f and v :: "('s, 'e) world"
    by (simp add: read_or_zero_world)
  show "redis_st (snd (GetQueueStats (Some R) w)) = redis_st w"
    by (simp add: GetQueueStats_def Let_def case_prod_unfold r)
  show "quiet w \<Longrightarrow> quiet (snd (GetQueueStats (Some R) w))"
    by (simp add: GetQueueStats_def Let_def case_prod_unfold q)
qed

lemma zset_same_st:
  "zset_ok R (snd (ddo c w)) = zset_ok R w" "zset_times R (snd (ddo c w)) = zset_times R w"
  "zset_ok R (snd (GetQueueStats (Some R) w)) = zset_ok R w"
  "zset_times R (snd (GetQueueStats (Some R) w)) = zset_times R w"
  by (simp_all add: zset_ok_def zset_times_def fun_eq_iff GetQueueStats_st)

lemma quiet_PushTask: "quiet w \<Longrightarrow> quiet (snd (PushTask (Some R) C q w))"
  using PushTask_world [of C q w] by auto

lemma getIPByID_world: "snd (getIPByID s i w) = snd (ddo (readc (\<lambda>d. find (\<lambda>ip. ip_DeletedAt ip = None \<and> ip_ID ip = i)
    (ip_metadata (sch_db s) d))) w)"
  by (simp add: getIPByID_def split: prod.split option.split)

lemma redis_scheduler_env:
  fixes s :: "('s, 'd) IPScheduler"
  assumes "redis_scheduler R s"
  shows "scheduler_env s (zset_ok R) (zset_times R) quiet"
proof -
  have q: "sch_queue s = Some R" and st: "sch_store s = NewRedisScheduleStore (sch_oor s) R"
    using assms by (simp_all add: redis_scheduler_def)
  have store: "schedule_store (sch_store s) (zset_ok R :: ('s, 'd) world \<Rightarrow> bool) (zset_times R)"
    unfolding st by (rule store.schedule_store_axioms)
  have push: "zset_ok R w \<longrightarrow> zset_ok R (snd (PushTask (Some R) C r w)) \<and>
      zset_times R (snd (PushTask (Some R) C r w)) = zset_times R w" for C r and w :: "('s, 'd) world"
  proof (cases "snd (PushTask (Some R) C r w) = w")
    case False
    then obtain k d where "snd (PushTask (Some R) C r w) = snd (rdo (pushTaskScript R k d) w)"
      using PushTask_world [of C r w] by blast
    then show ?thesis by (simp add: zset_frame [OF push_script_zsets])
  qed simp
  show ?thesis
  proof (intro scheduler_env.intro store scheduler_env_axioms.intro)
  qed (simp_all add: push GetQueueStats_st zset_same_st quiet_PushTask q st NewRedisScheduleStore_def
      Schedule_def Remove_def GetDue_def GetScheduleTime_def GetAll_def getActiveIPs_def getIPByID_world
      split: option.split)
qed

end


section \<open>A sample scheduler\<close>

definition sample_sched :: "codec \<Rightarrow> (mem, tables) IPScheduler" where
  "sample_sched C = \<lparr>sch_db = mem_db, sch_queue = Some mem_redis, sch_codec = C,
     sch_store = NewRedisScheduleStore (\<lambda>_. 0) mem_redis, sch_config = Scheduler DefaultConfig,
     sch_oor = (\<lambda>_. 0)\<rparr>"

definition no_codec :: codec where
  "no_codec = tagged_codec [] []"

definition sched_world :: "(string \<times> rat) list \<Rightarrow> IPMetadata list \<Rightarrow> outcome list \<Rightarrow> (mem, tables) world" where
  "sched_world z ips os = \<lparr>redis_st = mem_empty\<lparr>m_zsets := [(ScheduleZSetKey, z)]\<rparr>,
     db_st = no_tables\<lparr>t_ip := ips\<rparr>, outcomes = os\<rparr>"

definition sample_pass :: pass where
  "sample_pass = \<lparr>pass_due = 100 * Second, pass_now = 100 * Second + 5, pass_tick = (\<lambda>_. 100 * Second),
     pass_uuid = (\<lambda>_. ''a1''), pass_done = (\<lambda>_. False), pass_wait = (\<lambda>_. 0), pass_drain = (\<lambda>_. [DrainCancelled])\<rparr>"

lemma sample_redis_scheduler: "redis_scheduler mem_redis (sample_sched C)"
  by (simp add: redis_scheduler_def sample_sched_def)

interpretation sample_env: scheduler_env "sample_sched C" "zset_ok mem_redis" "zset_times mem_redis" quiet
  for C :: codec
  by (rule memory.redis_scheduler_env [OF sample_redis_scheduler])

section \<open>Properties\<close>

text \<open>
  (C19) A fault-free pass over the due IPs leaves no IP due: every IP that was due is rescheduled
  to a later second (by its interval, or by a minute when its task could not be pushed) or removed
  (when it is gone or not active), and an IP that was not due keeps its time; so the main loop
  never meets the same due entry again at once.
\<close>

theorem checkAndSchedule_leaves_none_due:
  assumes "redis_server R view" and "redis_scheduler R s" and "zset_ok R w" and "quiet w"
    and "pass_times_ok s p" and "\<And>k. \<not> pass_done p k" and "checkAndSchedule s p w = Some w'"
  shows "(\<forall>i u. zset_times R w' i = Some u \<longrightarrow> Unix (pass_due p) < u) \<and>
    (\<forall>i u. zset_times R w i = Some u \<longrightarrow> Unix (pass_due p) < u \<longrightarrow> zset_times R w' i = Some u)"
  using scheduler_env.checkAndSchedule_effect [OF redis_server.redis_scheduler_env [OF assms(1,2)] assms(3-7)]
  by blast

theorem checkAndSchedule_leaves_none_due_witness:
  "\<nexists>i u. zset_times mem_redis (the (checkAndSchedule (sample_sched no_codec) sample_pass
     (sched_world [(''7'', 90), (''8'', 95), (''9'', 200)] [sample_ip 7 IPStatusActive] []))) i = Some u \<and> u \<le> 100"
proof -
  let ?s = "sample_sched no_codec"
  let ?w = "sched_world [(''7'', 90), (''8'', 95), (''9'', 200)] [sample_ip 7 IPStatusActive] []"
  have f: "zset_ok mem_redis ?w" "quiet ?w" "pass_times_ok ?s sample_pass" "Unix (pass_due sample_pass) = 100"
    "checkAndSchedule ?s sample_pass ?w \<noteq> None"
    by code_simp+
  have d: "\<not> pass_done sample_pass k" for k by (simp add: sample_pass_def)
  from f(5) have "checkAndSchedule ?s sample_pass ?w = Some (the (checkAndSchedule ?s sample_pass ?w))" by simp
  from checkAndSchedule_leaves_none_due [OF memory.redis_server_axioms sample_redis_scheduler f(1-3) d this]
  show ?thesis unfolding f(4) not_ex not_le [symmetric] by blast
qed

lemma drain_loop_ends:
  "DrainCancelled \<in> set es \<or> (\<exists>t. DrainTick t \<in> set es \<and> deadline < t) \<Longrightarrow>
   \<exists>w'. drain_loop q thr deadline es w = Some w'"
proof (induction q thr deadline es w rule: drain_loop.induct)
  case (3 q thr deadline t es w)
  show ?case
  proof (cases "deadline < t")
    case False
    then have ends: "DrainCancelled \<in> set es \<or> (\<exists>t. DrainTick t \<in> set es \<and> deadline < t)"
      using 3(3) by auto
    obtain r w1 where r: "GetQueueStats q w = (r, w1)" by fastforce
    show ?thesis
    proof (cases r)
      case (Inl e)
      then show ?thesis using 3(1) [OF False r [symmetric] Inl ends] False r by simp
    next
      case (Inr st)
      then show ?thesis using 3(2) [OF False r [symmetric] Inr _ ends] False r by simp
    qed
  qed simp
qed simp_all

lemma schedule_batches_return:
  assumes "\<And>k. DrainCancelled \<in> set (pass_drain p k) \<or>
    (\<exists>t. DrainTick t \<in> set (pass_drain p k) \<and> pass_wait p k + 10 * Minute < t)"
  shows "\<exists>w'. schedule_batches s p thr k bs w = Some w'"
proof (induction bs arbitrary: k w)
  case (Cons b bs)
  obtain w2 where "waitForQueueDrain s thr (pass_wait p k) (pass_drain p k) (schedule_batch s p b w) = Some w2"
    using drain_loop_ends [OF assms] unfolding waitForQueueDrain_def by blast
  then show ?case using Cons.IH by (simp add: Let_def)
qed simp

text \<open>
  A pass always returns: whatever the queue, the database and Redis do, each wait between two
  batches ends at the latest with the first tick after its ten minutes, or when the context is
  done, and the number of batches is bounded by the number of due IPs.
\<close>

theorem checkAndSchedule_returns:
  assumes "\<And>k. DrainCancelled \<in> set (pass_drain p k) \<or>
    (\<exists>t. DrainTick t \<in> set (pass_drain p k) \<and> pass_wait p k + 10 * Minute < t)"
  shows "\<exists>w'. checkAndSchedule s p w = Some w'"
  using schedule_batches_return [OF assms]
  by (auto simp: checkAndSchedule_def split: prod.split option.split)

theorem checkAndSchedule_returns_witness:
  "\<exists>w'. checkAndSchedule (sample_sched no_codec)
     (sample_pass\<lparr>pass_drain := (\<lambda>_. [DrainTick 0, DrainTick (11 * Minute)])\<rparr>)
     (sched_world [(''7'', 90)] [sample_ip 7 IPStatusActive] [Lost 0]) = Some w'"
  by (rule checkAndSchedule_returns) (auto simp: sample_pass_def duration_defs intro: exI [of _ "11 * Minute"])

text \<open>
  (C29) After a fault-free refresh the schedule holds exactly the active IPs of the database: new
  ones are added, those no longer active are dropped, and an IP that stays keeps its time.
\<close>

theorem RefreshActiveIPs_exact:
  fixes w :: "('s, 'd) world"
  assumes "redis_server R view" and "redis_scheduler R s" and "zset_ok R w" and "quiet w"
    and "\<And>i. exact_time (now i)"
    and "act = filter (\<lambda>ip. ip_DeletedAt ip = None \<and> ip_Status ip = IPStatusActive) (ip_metadata (sch_db s) (db_st w))"
  shows "fst (RefreshActiveIPs s now w) = False \<and>
    dom (zset_times R (snd (RefreshActiveIPs s now w))) = ip_ID ` set act \<and>
    (\<forall>i u. i \<in> ip_ID ` set act \<longrightarrow> zset_times R w i = Some u \<longrightarrow>
      zset_times R (snd (RefreshActiveIPs s now w)) i = Some u)"
  using scheduler_env.refresh_effect [OF redis_server.redis_scheduler_env [OF assms(1,2)] assms(3-5)] assms(6)
  by simp

theorem RefreshActiveIPs_exact_witness:
  "dom (zset_times mem_redis (snd (RefreshActiveIPs (sample_sched no_codec) (\<lambda>_. 100 * Second)
     (sched_world [(''7'', 90), (''8'', 95)] [sample_ip 7 IPStatusActive, sample_ip 8 IPStatusPaused, sample_ip 9 IPStatusActive] []))))
   = {7, 9}"
proof -
  let ?w = "sched_world [(''7'', 90), (''8'', 95)] [sample_ip 7 IPStatusActive, sample_ip 8 IPStatusPaused, sample_ip 9 IPStatusActive] []"
  have f: "zset_ok mem_redis ?w" "quiet ?w" "exact_time (100 * Second)"
    by code_simp+
  have a: "[sample_ip 7 IPStatusActive, sample_ip 9 IPStatusActive] =
      filter (\<lambda>ip. ip_DeletedAt ip = None \<and> ip_Status ip = IPStatusActive)
        (ip_metadata (sch_db (sample_sched no_codec)) (db_st ?w))"
    by (simp add: sample_ip_def sample_sched_def mem_db_def sched_world_def)
  show ?thesis
    using RefreshActiveIPs_exact [OF memory.redis_server_axioms sample_redis_scheduler f(1,2) f(3) a]
    by (simp add: sample_ip_def)
qed

lemma guarded_run_record:
  assumes "guarded_run due today lst run w = (l', w')" "w' \<noteq> w \<or> l' \<noteq> lst"
  shows "due \<and> \<not> sameDay lst today"
  using assms by (auto simp: guarded_run_def split: if_splits)

text \<open>
  Each archive run succeeds at most once per day of Japan standard time: when a tick of the
  archiver loop has recorded a successful daily run, later ticks on the same day do not run it
  again; nor do they repeat a cleanup.
\<close>

theorem archiver_tick_once_a_day:
  assumes "archiver_tick A now l w = (l1, w1)" and "lastDailyArchive l1 = Some (midnight JST now)"
    and "lastCleanup l1 = Some (midnight JST now)"
    and "local_days JST now2 = local_days JST now"
  shows "lastDailyArchive (fst (archiver_tick A now2 l1 w2)) = lastDailyArchive l1 \<and>
    fst (archiver_tick (A\<lparr>RunDaily := r, RunClean := c\<rparr>) now2 l1 w2) = fst (archiver_tick A now2 l1 w2) \<and>
    snd (archiver_tick (A\<lparr>RunDaily := r, RunClean := c\<rparr>) now2 l1 w2) = snd (archiver_tick A now2 l1 w2)"
proof -
  have "midnight JST now2 = midnight JST now" using assms(4) by (simp add: midnight_def)
  then have same: "sameDay (lastDailyArchive l1) (midnight JST now2)" "sameDay (lastCleanup l1) (midnight JST now2)"
    using assms(2,3) by (simp_all add: sameDay_def last_Date_def)
  have skip: "sameDay l t \<Longrightarrow> guarded_run b t l f v = (l, v)" for b t l f v
    by (simp add: guarded_run_def)
  show ?thesis by (simp add: archiver_tick_def Let_def case_prod_unfold skip [OF same(1)] skip [OF same(2)])
qed

text \<open>
  A failed start leaves the scheduler marked as running with none of its loops started: when
  the initial schedule cannot be set up, \<open>Start\<close> returns the error but every later \<open>Start\<close> is
  refused as already running until \<open>Stop\<close> is called.
\<close>

theorem failed_Start_stays_running:
  assumes "Start s fuel now p st w = Some (Some InitFailed, st1, w1)" and "\<not> loops st"
  shows "IsRunning st1 \<and> \<not> loops st1 \<and> Start s fuel2 now2 p2 st1 w2 = Some (Some AlreadyRunning, st1, w2)"
  using assms by (auto simp: Start_def IsRunning_def Let_def split: if_splits option.splits prod.splits bool.splits)


theorem failed_Start_stays_running_witness:
  "\<exists>st1 w1. Start (sample_sched no_codec) 1 0 sample_pass \<lparr>running = False, loops = False\<rparr>
       (sched_world [] [] [Reply 0, Lost 0]) = Some (Some InitFailed, st1, w1) \<and>
     Start (sample_sched no_codec) 1 0 sample_pass st1 w1 = Some (Some AlreadyRunning, st1, w1)"
proof -
  let ?r = "Start (sample_sched no_codec) 1 0 sample_pass \<lparr>running = False, loops = False\<rparr>
       (sched_world [] [] [Reply 0, Lost 0])"
  have "map_option fst ?r = Some (Some InitFailed)" by code_simp
  then obtain st1 w1 where r: "?r = Some (Some InitFailed, st1, w1)" by (cases ?r) auto
  from failed_Start_stays_running [OF r] r show ?thesis by auto
qed

theorem archiver_tick_once_a_day_witness:
  "let A = \<lparr>RunDaily = (\<lambda>_ n. (False, n + 1)), RunWeekly = (\<lambda>_ n. (False, n)),
            RunMonthly = (\<lambda>_ n. (False, n)), RunClean = (\<lambda>_ n. (False, n + 1))\<rparr>;
       day0 = 100 * Day - JST * Second;
       l = \<lparr>lastDailyArchive = Some day0, lastWeeklyArchive = None, lastMonthlyArchive = None, lastCleanup = None\<rparr>;
       (l1, n1) = archiver_tick A (day0 + Hour) l (0::nat)
   in snd (archiver_tick (A\<lparr>RunDaily := (\<lambda>_ n. (False, n + 7)), RunClean := (\<lambda>_ n. (False, n + 7))\<rparr>) (day0 + Hour + Second) l1 n1)
      = snd (archiver_tick A (day0 + Hour + Second) l1 n1)"
proof -
  let ?A = "\<lparr>RunDaily = (\<lambda>_ n. (False, n + 1)), RunWeekly = (\<lambda>_ n. (False, n)),
            RunMonthly = (\<lambda>_ n. (False, n)), RunClean = (\<lambda>_ n. (False, n + 1))\<rparr> :: nat archive_runs"
  let ?day0 = "100 * Day - JST * Second"
  let ?l = "\<lparr>lastDailyArchive = Some ?day0, lastWeeklyArchive = None, lastMonthlyArchive = None, lastCleanup = None\<rparr>"
  let ?t = "archiver_tick ?A (?day0 + Hour) ?l 0"
  have f: "lastDailyArchive (fst ?t) = Some (midnight JST (?day0 + Hour))"
    "lastCleanup (fst ?t) = Some (midnight JST (?day0 + Hour))"
    "local_days JST (?day0 + Hour + Second) = local_days JST (?day0 + Hour)"
    by code_simp+
  have "?t = (fst ?t, snd ?t)" by simp
  from archiver_tick_once_a_day [OF this f] show ?thesis by (simp only: Let_def case_prod_unfold)
qed

end
