(* ===== verification/StateMachine.thy ===== *)
theory StateMachine
  imports Redis Proto Float64
begin

text \<open>
  \<open>internal/analyzer/state_machine.go\<close>: the state of every item of an IP in a Redis hash, and the
  transitions found when a crawl reports the items again. A Redis pipeline is a sequence of
  commands of which any may fail; its error is \<open>None\<close>. \<open>now\<close> is the clock reading in seconds. The
  cursor loops of \<open>SCAN\<close> are the command \<open>KEYS_MATCHING\<close>.
\<close>

section \<open>Types\<close>

definition ItemKeyPrefix :: string where
  "ItemKeyPrefix = ''animetop:item''"

definition DefaultItemTTLAvailable :: int where
  "DefaultItemTTLAvailable = 24 * Hour"

definition DefaultItemTTLSold :: int where
  "DefaultItemTTLSold = 48 * Hour"

record TrackedItemState =
  ts_Status :: string
  ts_Price :: i32
  ts_FirstSeen :: int
  ts_LastSeen :: int

datatype TransitionType = TransitionNewListing | TransitionNewSold | TransitionSold
  | TransitionPriceChange | TransitionRelisted

record StateTransition =
  tr_SourceID :: string
  tr_Type :: TransitionType
  tr_OldPrice :: i32
  tr_NewPrice :: i32
  tr_IpID :: u64

record StateMachine =
  ttlAvailable :: int
  ttlSold :: int

definition NewStateMachine :: "int \<Rightarrow> int \<Rightarrow> StateMachine" where
  "NewStateMachine ttlA ttlS = \<lparr>ttlAvailable = (if ttlA = 0 then DefaultItemTTLAvailable else ttlA),
     ttlSold = (if ttlS = 0 then DefaultItemTTLSold else ttlS)\<rparr>"

definition getTTLForStatus :: "StateMachine \<Rightarrow> string \<Rightarrow> int" where
  "getTTLForStatus sm status = (if status = ''sold'' then ttlSold sm else ttlAvailable sm)"

definition itemKey :: "u64 \<Rightarrow> string \<Rightarrow> string" where
  "itemKey ipID sourceID = ItemKeyPrefix @ '':'' @ FormatUint ipID @ '':'' @ sourceID"

definition statusToString :: "ItemStatus \<Rightarrow> string" where
  "statusToString status = (if status = ITEM_STATUS_SOLD then ''sold'' else ''available'')"

section \<open>Reading the state\<close>

definition parseHashResult :: "(string \<times> string) list \<Rightarrow> TrackedItemState option" where
  "parseHashResult result = (if result = [] then None
     else Some \<lparr>
       ts_Status = (case map_of result ''status'' of None \<Rightarrow> '''' | Some s \<Rightarrow> s),
       ts_Price = (case map_of result ''price'' of None \<Rightarrow> 0 | Some s \<Rightarrow>
          (case ParseInt 32 s of (price, err) \<Rightarrow> if err then 0 else word_of_int price)),
       ts_FirstSeen = (case map_of result ''first_seen'' of None \<Rightarrow> 0 | Some s \<Rightarrow> fst (ParseInt 64 s)),
       ts_LastSeen = (case map_of result ''last_seen'' of None \<Rightarrow> 0 | Some s \<Rightarrow> fst (ParseInt 64 s))\<rparr>)"

definition GetItemState :: "'s redis \<Rightarrow> u64 \<Rightarrow> string \<Rightarrow> ('s, 'd) world
    \<Rightarrow> TrackedItemState option option \<times> ('s, 'd) world" where
  "GetItemState R ipID sourceID w = (case rdo (readc (HGETALL R (itemKey ipID sourceID))) w of
     (None, w1) \<Rightarrow> (None, w1) | (Some result, w1) \<Rightarrow> (Some (parseHashResult result), w1))"

section \<open>One item\<close>

definition new_fields :: "string \<Rightarrow> i32 \<Rightarrow> int \<Rightarrow> int \<Rightarrow> (string \<times> string) list" where
  "new_fields status price firstSeen lastSeen = [(''status'', status), (''price'', FormatInt (sint price)),
     (''first_seen'', FormatInt firstSeen), (''last_seen'', FormatInt lastSeen)]"

definition upd_fields :: "string \<Rightarrow> i32 \<Rightarrow> int \<Rightarrow> (string \<times> string) list" where
  "upd_fields status price lastSeen = [(''status'', status), (''price'', FormatInt (sint price)),
     (''last_seen'', FormatInt lastSeen)]"

text \<open>The pipeline of an update: \<open>HSET\<close>, then \<open>EXPIRE\<close>; the result is whether it failed.\<close>

definition pipe_set :: "'s redis \<Rightarrow> string \<Rightarrow> (string \<times> string) list \<Rightarrow> int \<Rightarrow> ('s, 'd) world \<Rightarrow> bool \<times> ('s, 'd) world" where
  "pipe_set R key fvs ttl w = (case rdo (writec (HSET R key fvs)) w of (r1, w1) \<Rightarrow>
     (case rdo (writec (EXPIRE R key ttl)) w1 of (r2, w2) \<Rightarrow> (r1 = None \<or> r2 = None, w2)))"

definition UpdateItemState :: "StateMachine \<Rightarrow> 's redis \<Rightarrow> u64 \<Rightarrow> int \<Rightarrow> Item option \<Rightarrow> ('s, 'd) world
    \<Rightarrow> StateTransition option option \<times> ('s, 'd) world" where
  "UpdateItemState sm R ipID now it w = (case it of None \<Rightarrow> (Some None, w) | Some item \<Rightarrow>
     if it_SourceId item = '''' then (Some None, w)
     else (let key = itemKey ipID (it_SourceId item); newStatus = statusToString (it_Status item) in
       case GetItemState R ipID (it_SourceId item) w of
         (None, w1) \<Rightarrow> (None, w1)
       | (Some None, w1) \<Rightarrow>
           (let transition =
              (if it_Status item = ITEM_STATUS_ON_SALE then
                 Some \<lparr>tr_SourceID = it_SourceId item, tr_Type = TransitionNewListing, tr_OldPrice = 0,
                       tr_NewPrice = it_Price item, tr_IpID = ipID\<rparr>
               else if it_Status item = ITEM_STATUS_SOLD then
                 Some \<lparr>tr_SourceID = it_SourceId item, tr_Type = TransitionNewSold, tr_OldPrice = 0,
                       tr_NewPrice = it_Price item, tr_IpID = ipID\<rparr>
               else None)
            in case pipe_set R key (new_fields newStatus (it_Price item) now now) (getTTLForStatus sm newStatus) w1 of
                 (err, w2) \<Rightarrow> (if err then None else Some transition, w2))
       | (Some (Some oldState), w1) \<Rightarrow>
           (let transition =
              (if ts_Status oldState = ''available'' \<and> newStatus = ''sold'' then
                 Some \<lparr>tr_SourceID = it_SourceId item, tr_Type = TransitionSold, tr_OldPrice = ts_Price oldState,
                       tr_NewPrice = it_Price item, tr_IpID = ipID\<rparr>
               else if ts_Status oldState = ''sold'' \<and> newStatus = ''available'' then
                 Some \<lparr>tr_SourceID = it_SourceId item, tr_Type = TransitionRelisted, tr_OldPrice = ts_Price oldState,
                       tr_NewPrice = it_Price item, tr_IpID = ipID\<rparr>
               else if ts_Status oldState = ''available'' \<and> newStatus = ''available''
                     \<and> ts_Price oldState \<noteq> it_Price item then
                 Some \<lparr>tr_SourceID = it_SourceId item, tr_Type = TransitionPriceChange, tr_OldPrice = ts_Price oldState,
                       tr_NewPrice = it_Price item, tr_IpID = ipID\<rparr>
               else None)
            in case pipe_set R key (upd_fields newStatus (it_Price item) now) (getTTLForStatus sm newStatus) w1 of
                 (err, w2) \<Rightarrow> (if err then None else Some transition, w2))))"

section \<open>A batch of items\<close>

definition determineTransition :: "u64 \<Rightarrow> Item \<Rightarrow> TrackedItemState option \<Rightarrow> string \<Rightarrow> StateTransition option" where
  "determineTransition ipID item old newStatus =
     (let mk = (\<lambda>ty p. Some \<lparr>tr_SourceID = it_SourceId item, tr_Type = ty, tr_OldPrice = p,
                    tr_NewPrice = it_Price item, tr_IpID = ipID\<rparr>) in
      case old of
        None \<Rightarrow> if it_Status item = ITEM_STATUS_ON_SALE then mk TransitionNewListing 0
                else if it_Status item = ITEM_STATUS_SOLD then mk TransitionNewSold 0
                else None
      | Some oldState \<Rightarrow>
          if ts_Status oldState = ''available'' \<and> newStatus = ''sold'' then mk TransitionSold (ts_Price oldState)
          else if ts_Status oldState = ''sold'' \<and> newStatus = ''available'' then mk TransitionRelisted (ts_Price oldState)
          else if ts_Status oldState = ''available'' \<and> newStatus = ''available'' \<and> ts_Price oldState \<noteq> it_Price item
            then mk TransitionPriceChange (ts_Price oldState)
          else None)"

definition pipelineBatchSize :: nat where
  "pipelineBatchSize = 500"

definition valid_items :: "Item option list \<Rightarrow> Item list" where
  "valid_items items = List.map_filter (\<lambda>it. case it of None \<Rightarrow> None
     | Some item \<Rightarrow> if it_SourceId item = '''' then None else Some item) items"

text \<open>One pipeline of reads: every command is issued, and the error is reported at the end.\<close>

fun pipe_hgetall :: "'s redis \<Rightarrow> string list \<Rightarrow> ('s, 'd) world \<Rightarrow> (string \<times> string) list list option \<times> ('s, 'd) world" where
  "pipe_hgetall R [] w = (Some [], w)"
| "pipe_hgetall R (k # ks) w = (case rdo (readc (HGETALL R k)) w of (r, w1) \<Rightarrow>
     (case pipe_hgetall R ks w1 of (rs, w2) \<Rightarrow>
        (case (r, rs) of (Some x, Some xs) \<Rightarrow> (Some (x # xs), w2) | _ \<Rightarrow> (None, w2))))"

fun fetch_states :: "'s redis \<Rightarrow> u64 \<Rightarrow> Item list list \<Rightarrow> ('s, 'd) world
    \<Rightarrow> TrackedItemState option list option \<times> ('s, 'd) world" where
  "fetch_states R ipID [] w = (Some [], w)"
| "fetch_states R ipID (b # bs) w = (case pipe_hgetall R (map (\<lambda>i. itemKey ipID (it_SourceId i)) b) w of
     (None, w1) \<Rightarrow> (None, w1)
   | (Some rs, w1) \<Rightarrow> (case fetch_states R ipID bs w1 of
        (None, w2) \<Rightarrow> (None, w2) | (Some xs, w2) \<Rightarrow> (Some (map parseHashResult rs @ xs), w2)))"

record updateInfo =
  u_key :: string
  u_isNew :: bool
  u_status :: string
  u_price :: i32
  u_firstSeen :: int
  u_lastSeen :: int

definition update_of :: "u64 \<Rightarrow> int \<Rightarrow> Item \<times> TrackedItemState option \<Rightarrow> updateInfo" where
  "update_of ipID now p = (case p of (item, old) \<Rightarrow>
     \<lparr>u_key = itemKey ipID (it_SourceId item), u_isNew = (old = None),
      u_status = statusToString (it_Status item), u_price = it_Price item,
      u_firstSeen = (case old of None \<Rightarrow> now | Some st \<Rightarrow> ts_FirstSeen st), u_lastSeen = now\<rparr>)"

definition u_fields :: "updateInfo \<Rightarrow> (string \<times> string) list" where
  "u_fields u = (if u_isNew u then new_fields (u_status u) (u_price u) (u_firstSeen u) (u_lastSeen u)
     else upd_fields (u_status u) (u_price u) (u_lastSeen u))"

fun pipe_updates :: "StateMachine \<Rightarrow> 's redis \<Rightarrow> updateInfo list \<Rightarrow> ('s, 'd) world \<Rightarrow> bool \<times> ('s, 'd) world" where
  "pipe_updates sm R [] w = (False, w)"
| "pipe_updates sm R (u # us) w =
     (case pipe_set R (u_key u) (u_fields u) (getTTLForStatus sm (u_status u)) w of (e1, w1) \<Rightarrow>
        (case pipe_updates sm R us w1 of (e2, w2) \<Rightarrow> (e1 \<or> e2, w2)))"

fun apply_updates :: "StateMachine \<Rightarrow> 's redis \<Rightarrow> updateInfo list list \<Rightarrow> ('s, 'd) world \<Rightarrow> bool \<times> ('s, 'd) world" where
  "apply_updates sm R [] w = (False, w)"
| "apply_updates sm R (b # bs) w = (case pipe_updates sm R b w of (err, w1) \<Rightarrow>
     if err then (True, w1) else apply_updates sm R bs w1)"

definition ProcessItemsBatch :: "StateMachine \<Rightarrow> 's redis \<Rightarrow> u64 \<Rightarrow> int \<Rightarrow> Item option list \<Rightarrow> ('s, 'd) world
    \<Rightarrow> StateTransition list option \<times> ('s, 'd) world" where
  "ProcessItemsBatch sm R ipID now items w =
     (let validItems = valid_items items in
      if items = [] \<or> validItems = [] then (Some [], w)
      else (case fetch_states R ipID (chunks pipelineBatchSize validItems) w of
         (None, w1) \<Rightarrow> (None, w1)
       | (Some oldStates, w1) \<Rightarrow>
           (let ps = zip validItems oldStates;
                transitions = List.map_filter (\<lambda>(item, old).
                  determineTransition ipID item old (statusToString (it_Status item))) ps;
                updates = map (update_of ipID now) ps
            in case apply_updates sm R (chunks pipelineBatchSize updates) w1 of
                 (err, w2) \<Rightarrow> (if err then None else Some transitions, w2))))"

section \<open>Summary and clearing\<close>

record TransitionSummary =
  sm_NewListings :: nat
  sm_Sold :: nat
  sm_PriceChanges :: nat
  sm_Relisted :: nat

fun summarize :: "TransitionSummary \<Rightarrow> StateTransition list \<Rightarrow> TransitionSummary" where
  "summarize s [] = s"
| "summarize s (t # ts) = summarize (case tr_Type t of
      TransitionNewListing \<Rightarrow> s\<lparr>sm_NewListings := sm_NewListings s + 1\<rparr>
    | TransitionSold \<Rightarrow> s\<lparr>sm_Sold := sm_Sold s + 1\<rparr>
    | TransitionNewSold \<Rightarrow> s\<lparr>sm_Sold := sm_Sold s + 1\<rparr>
    | TransitionPriceChange \<Rightarrow> s\<lparr>sm_PriceChanges := sm_PriceChanges s + 1\<rparr>
    | TransitionRelisted \<Rightarrow> s\<lparr>sm_Relisted := sm_Relisted s + 1\<rparr>) ts"

definition SummarizeTransitions :: "StateTransition list \<Rightarrow> TransitionSummary" where
  "SummarizeTransitions ts = summarize \<lparr>sm_NewListings = 0, sm_Sold = 0, sm_PriceChanges = 0, sm_Relisted = 0\<rparr> ts"

definition ClearItemState :: "'s redis \<Rightarrow> u64 \<Rightarrow> string \<Rightarrow> ('s, 'd) world \<Rightarrow> unit option \<times> ('s, 'd) world" where
  "ClearItemState R ipID sourceID w = rdo (writec (DEL R [itemKey ipID sourceID])) w"

definition ClearAllItems :: "'s redis \<Rightarrow> u64 \<Rightarrow> ('s, 'd) world \<Rightarrow> unit option \<times> ('s, 'd) world" where
  "ClearAllItems R ipID w =
     (case rdo (readc (KEYS_MATCHING R (ItemKeyPrefix @ '':'' @ FormatUint ipID @ '':''))) w of
        (None, w1) \<Rightarrow> (None, w1)
      | (Some keys, w1) \<Rightarrow> if keys = [] then (Some (), w1) else rdo (writec (DEL R keys)) w1)"

definition GetItemCount :: "'s redis \<Rightarrow> u64 \<Rightarrow> ('s, 'd) world \<Rightarrow> nat option \<times> ('s, 'd) world" where
  "GetItemCount R ipID w =
     (case rdo (readc (KEYS_MATCHING R (ItemKeyPrefix @ '':'' @ FormatUint ipID @ '':''))) w of
        (None, w1) \<Rightarrow> (None, w1) | (Some keys, w1) \<Rightarrow> (Some (length keys), w1))"


section \<open>Fault-free behaviour\<close>

definition parse_fields :: "(string \<rightharpoonup> string) \<Rightarrow> TrackedItemState" where
  "parse_fields h = \<lparr>ts_Status = (case h ''status'' of None \<Rightarrow> '''' | Some s \<Rightarrow> s),
     ts_Price = (case h ''price'' of None \<Rightarrow> 0 | Some s \<Rightarrow>
        (case ParseInt 32 s of (price, err) \<Rightarrow> if err then 0 else word_of_int price)),
     ts_FirstSeen = (case h ''first_seen'' of None \<Rightarrow> 0 | Some s \<Rightarrow> fst (ParseInt 64 s)),
     ts_LastSeen = (case h ''last_seen'' of None \<Rightarrow> 0 | Some s \<Rightarrow> fst (ParseInt 64 s))\<rparr>"

definition set_item :: "StateMachine \<Rightarrow> 's redis \<Rightarrow> updateInfo \<Rightarrow> 's \<Rightarrow> 's" where
  "set_item sm R u s = EXPIRE R (u_key u) (getTTLForStatus sm (u_status u)) (HSET R (u_key u) (u_fields u) s)"

definition old_state :: "'s redis \<Rightarrow> u64 \<Rightarrow> 's \<Rightarrow> Item \<Rightarrow> TrackedItemState option" where
  "old_state R ipID s item = parseHashResult (HGETALL R (itemKey ipID (it_SourceId item)) s)"

definition item_transition :: "'s redis \<Rightarrow> u64 \<Rightarrow> 's \<Rightarrow> Item \<Rightarrow> StateTransition option" where
  "item_transition R ipID s item = determineTransition ipID item (old_state R ipID s item) (statusToString (it_Status item))"

definition item_update :: "'s redis \<Rightarrow> u64 \<Rightarrow> int \<Rightarrow> 's \<Rightarrow> Item \<Rightarrow> updateInfo" where
  "item_update R ipID now s item = update_of ipID now (item, old_state R ipID s item)"

text \<open>The items of a batch one by one.\<close>

fun update_each :: "StateMachine \<Rightarrow> 's redis \<Rightarrow> u64 \<Rightarrow> int \<Rightarrow> Item option list \<Rightarrow> ('s, 'd) world
    \<Rightarrow> StateTransition list option \<times> ('s, 'd) world" where
  "update_each sm R ipID now [] w = (Some [], w)"
| "update_each sm R ipID now (it # its) w = (case UpdateItemState sm R ipID now it w of
     (None, w1) \<Rightarrow> (None, w1)
   | (Some t, w1) \<Rightarrow> (case update_each sm R ipID now its w1 of
        (None, w2) \<Rightarrow> (None, w2)
      | (Some ts, w2) \<Rightarrow> (Some (case t of None \<Rightarrow> ts | Some x \<Rightarrow> x # ts), w2)))"

definition ttls_ok :: "StateMachine \<Rightarrow> bool" where
  "ttls_ok sm \<longleftrightarrow> 0 < ttlAvailable sm \<and> 0 < ttlSold sm"

lemma itemKey_inj [simp]: "itemKey ip a = itemKey ip b \<longleftrightarrow> a = b"
  by (simp add: itemKey_def)

lemma update_of_key [simp]: "u_key (item_update R ip now s item) = itemKey ip (it_SourceId item)"
  by (simp add: item_update_def update_of_def)

lemma pipe_set_quiet:
  "quiet w \<Longrightarrow> pipe_set R k f t w = (False, w\<lparr>redis_st := EXPIRE R k t (HSET R k f (redis_st w))\<rparr>)"
  by (simp add: pipe_set_def)

lemma pipe_hgetall_quiet: "quiet w \<Longrightarrow> pipe_hgetall R ks w = (Some (map (\<lambda>k. HGETALL R k (redis_st w)) ks), w)"
  by (induction ks) simp_all

lemma fetch_states_quiet:
  "quiet w \<Longrightarrow> fetch_states R ip bs w = (Some (map (old_state R ip (redis_st w)) (concat bs)), w)"
  by (induction bs) (simp_all add: pipe_hgetall_quiet old_state_def comp_def)

lemma pipe_updates_quiet:
  "quiet w \<Longrightarrow> pipe_updates sm R us w = (False, w\<lparr>redis_st := fold (set_item sm R) us (redis_st w)\<rparr>)"
  by (induction us arbitrary: w) (simp_all add: pipe_set_quiet set_item_def)

lemma apply_updates_quiet:
  "quiet w \<Longrightarrow> apply_updates sm R bs w = (False, w\<lparr>redis_st := fold (set_item sm R) (concat bs) (redis_st w)\<rparr>)"
  by (induction bs arbitrary: w) (simp_all add: pipe_updates_quiet)

lemma UpdateItemState_quiet:
  assumes "quiet w" "it_SourceId item \<noteq> ''''"
  shows "UpdateItemState sm R ip now (Some item) w = (Some (item_transition R ip (redis_st w) item),
    w\<lparr>redis_st := set_item sm R (item_update R ip now (redis_st w) item) (redis_st w)\<rparr>)"
  using assms
  by (auto simp: UpdateItemState_def GetItemState_def Let_def pipe_set_quiet item_transition_def
      determineTransition_def old_state_def item_update_def update_of_def set_item_def u_fields_def
      split: option.split)

lemma zip_map_self: "zip xs (map f xs) = map (\<lambda>x. (x, f x)) xs"
  by (induction xs) auto

lemma ProcessItemsBatch_quiet:
  assumes "quiet w"
  shows "ProcessItemsBatch sm R ip now items w =
    (Some (List.map_filter (item_transition R ip (redis_st w)) (valid_items items)),
     w\<lparr>redis_st := fold (set_item sm R) (map (item_update R ip now (redis_st w)) (valid_items items)) (redis_st w)\<rparr>)"
proof (cases "valid_items items = []")
  case True
  then show ?thesis by (simp add: ProcessItemsBatch_def List.map_filter_def)
next
  case False
  then have "items \<noteq> []" by (auto simp: valid_items_def List.map_filter_def)
  then show ?thesis using False assms
    by (simp add: ProcessItemsBatch_def Let_def fetch_states_quiet apply_updates_quiet pipelineBatchSize_def
        concat_chunks zip_map_self map_filter_map item_transition_def [abs_def] item_update_def [abs_def] comp_def)
qed

context redis_server
begin

lemma parse_view: "parseHashResult (HGETALL R k s) =
    (if hashes (view s) k = Map.empty then None else Some (parse_fields (hashes (view s) k)))"
  by (simp add: parseHashResult_def parse_fields_def hgetall hgetall_nil)

lemma set_item_hashes:
  assumes "ttls_ok sm"
  shows "hashes (view (set_item sm R u s)) k =
    (if k = u_key u then hashes (view s) k ++ map_of (rev (u_fields u)) else hashes (view s) k)"
proof -
  have "0 < getTTLForStatus sm (u_status u)" using assms by (simp add: ttls_ok_def getTTLForStatus_def)
  then show ?thesis by (simp add: set_item_def expire hset)
qed

lemma old_state_frame:
  "ttls_ok sm \<Longrightarrow> u_key u \<noteq> itemKey ip (it_SourceId j) \<Longrightarrow> old_state R ip (set_item sm R u s) j = old_state R ip s j"
  using set_item_hashes [of sm u s "itemKey ip (it_SourceId j)"]
  by (auto simp: old_state_def parse_view)

lemma update_each_quiet:
  assumes "quiet w" "ttls_ok sm" "distinct (map it_SourceId (valid_items items))"
  shows "update_each sm R ip now items w =
    (Some (List.map_filter (item_transition R ip (redis_st w)) (valid_items items)),
     w\<lparr>redis_st := fold (set_item sm R) (map (item_update R ip now (redis_st w)) (valid_items items)) (redis_st w)\<rparr>)"
  using assms(1,3)
proof (induction items arbitrary: w)
  case Nil
  then show ?case by (simp add: valid_items_def List.map_filter_def)
next
  case (Cons it items)
  show ?case
  proof (cases "\<exists>item. it = Some item \<and> it_SourceId item \<noteq> ''''")
    case False
    then have v: "valid_items (it # items) = valid_items items"
      by (auto simp: valid_items_def List.map_filter_def split: option.split)
    have "UpdateItemState sm R ip now it w = (Some None, w)"
      using False by (auto simp: UpdateItemState_def split: option.split)
    then show ?thesis using Cons v by simp
  next
    case True
    then obtain item where it: "it = Some item" "it_SourceId item \<noteq> ''''" by blast
    have v: "valid_items (it # items) = item # valid_items items"
      using it by (simp add: valid_items_def List.map_filter_def)
    define s where "s = redis_st w"
    define s1 where "s1 = set_item sm R (item_update R ip now s item) s"
    have u: "UpdateItemState sm R ip now it w = (Some (item_transition R ip s item), w\<lparr>redis_st := s1\<rparr>)"
      unfolding it(1) s_def s1_def using UpdateItemState_quiet [OF Cons.prems(1) it(2)] .
    have same: "old_state R ip s1 j = old_state R ip s j" if "j \<in> set (valid_items items)" for j
      unfolding s1_def using assms(2) that Cons.prems(2) v by (intro old_state_frame) auto
    then have eq: "List.map_filter (item_transition R ip s1) (valid_items items) = List.map_filter (item_transition R ip s) (valid_items items)"
      "map (item_update R ip now s1) (valid_items items) = map (item_update R ip now s) (valid_items items)"
      by (auto simp: item_transition_def item_update_def intro!: map_filter_cong)
    have IH: "update_each sm R ip now items (w\<lparr>redis_st := s1\<rparr>) =
      (Some (List.map_filter (item_transition R ip s1) (valid_items items)),
       w\<lparr>redis_st := fold (set_item sm R) (map (item_update R ip now s1) (valid_items items)) s1\<rparr>)"
      using Cons.IH [of "w\<lparr>redis_st := s1\<rparr>"] Cons.prems v by simp
    show ?thesis using u IH eq v
      by (simp add: s_def [symmetric] s1_def [symmetric] split: option.split)
  qed
qed

end


lemma sint32_range: "- (2 ^ 31) \<le> sint (p :: i32)" "sint (p :: i32) < 2 ^ 31"
  using sint_greater_eq [of p] sint_less [of p] by simp_all

lemma price_roundtrip: "ParseInt 32 (FormatInt (sint (p :: i32))) = (sint p, False)"
  using sint32_range [of p] by (intro ParseInt_FormatInt) simp_all

context redis_server
begin

text \<open>What is read back of an item after its update.\<close>

lemma old_state_after:
  assumes "ttls_ok sm" "- (2 ^ 63) \<le> now" "now < 2 ^ 63"
  shows "old_state R ip (set_item sm R (item_update R ip now s item) s) item =
    Some \<lparr>ts_Status = statusToString (it_Status item), ts_Price = it_Price item,
      ts_FirstSeen = (case old_state R ip s item of None \<Rightarrow> now | Some st \<Rightarrow> ts_FirstSeen st), ts_LastSeen = now\<rparr>"
proof -
  let ?k = "itemKey ip (it_SourceId item)"
  let ?u = "item_update R ip now s item"
  have h: "hashes (view (set_item sm R ?u s)) ?k = hashes (view s) ?k ++ map_of (rev (u_fields ?u))"
    using set_item_hashes [OF assms(1), of ?u s ?k] by simp
  have ne: "hashes (view s) ?k ++ map_of (rev (u_fields ?u)) \<noteq> Map.empty"
    by (auto simp: u_fields_def new_fields_def upd_fields_def fun_eq_iff)
  have n: "ParseInt 64 (FormatInt now) = (now, False)" using assms(2,3) by (intro ParseInt_FormatInt) simp_all
  show ?thesis
  proof (cases "hashes (view s) ?k = Map.empty")
    case True
    then have "old_state R ip s item = None" by (simp add: old_state_def parse_view)
    then show ?thesis using h ne True n
      by (simp add: old_state_def parse_view parse_fields_def item_update_def update_of_def u_fields_def
          new_fields_def price_roundtrip)
  next
    case False
    then obtain st where st: "old_state R ip s item = Some st" "st = parse_fields (hashes (view s) ?k)"
      by (simp add: old_state_def parse_view)
    have "old_state R ip (set_item sm R ?u s) item = Some (parse_fields (hashes (view s) ?k ++ map_of (rev (u_fields ?u))))"
      using h ne by (simp add: old_state_def parse_view)
    also have "u_fields ?u = upd_fields (statusToString (it_Status item)) (it_Price item) now"
      using st by (simp add: item_update_def update_of_def u_fields_def)
    finally show ?thesis using st n
      by (simp add: parse_fields_def upd_fields_def price_roundtrip map_add_def)
  qed
qed

lemma old_state_fold:
  assumes "ttls_ok sm" "- (2 ^ 63) \<le> now" "now < 2 ^ 63" "distinct (map it_SourceId xs)" "item \<in> set xs"
    and "\<And>j. j \<in> set xs \<Longrightarrow> old_state R ip s' j = old_state R ip s j"
  shows "\<exists>st. old_state R ip (fold (set_item sm R) (map (item_update R ip now s) xs) s') item = Some st \<and>
    ts_Status st = statusToString (it_Status item) \<and> ts_Price st = it_Price item"
  using assms(4-6)
proof (induction xs arbitrary: s')
  case (Cons x xs)
  let ?s1 = "set_item sm R (item_update R ip now s x) s'"
  have ux: "item_update R ip now s x = item_update R ip now s' x"
    using Cons.prems(3) by (simp add: item_update_def)
  have frame: "old_state R ip ?s1 j = old_state R ip s' j" if "it_SourceId j \<noteq> it_SourceId x" for j
    using that by (intro old_state_frame [OF assms(1)]) auto
  have keep: "old_state R ip (fold (set_item sm R) (map (item_update R ip now s) ys) t) x = old_state R ip t x"
    if "it_SourceId x \<notin> it_SourceId ` set ys" for ys t
    using that
  proof (induction ys arbitrary: t)
    case (Cons y ys)
    then show ?case using old_state_frame [OF assms(1), of "item_update R ip now s y" ip x t] by auto
  qed simp
  show ?case
  proof (cases "item = x")
    case True
    have "old_state R ip (fold (set_item sm R) (map (item_update R ip now s) (x # xs)) s') x = old_state R ip ?s1 x"
      using keep [of xs ?s1] Cons.prems(1) by simp
    then show ?thesis using True old_state_after [OF assms(1-3), of ip s' x] by (simp add: ux)
  next
    case False
    then have mem: "item \<in> set xs" using Cons.prems(2) by simp
    have "old_state R ip ?s1 j = old_state R ip s j" if "j \<in> set xs" for j
    proof -
      have "it_SourceId j \<noteq> it_SourceId x" using Cons.prems(1) that by (metis distinct.simps(2) image_eqI list.simps(9) set_map)
      then show ?thesis using frame Cons.prems(3) that by simp
    qed
    then show ?thesis using Cons.IH [of ?s1] Cons.prems(1) mem by simp
  qed
qed simp

end

section \<open>Properties\<close>

definition sample_item :: "string \<Rightarrow> int \<Rightarrow> ItemStatus \<Rightarrow> Item" where
  "sample_item i p st = \<lparr>it_SourceId = i, it_Title = '''', it_Price = word_of_int p, it_ImageUrl = '''',
     it_ItemUrl = '''', it_Status = st\<rparr>"

definition item_world :: "outcome list \<Rightarrow> (mem, unit) world" where
  "item_world os = \<lparr>redis_st = mem_empty, db_st = (), outcomes = os\<rparr>"



text \<open>
  Processing the same items again finds nothing new: after a fault-free batch without
  repeated source ids, a second batch with the same items yields no transition, so a result that
  is delivered twice does not count its flow twice.
\<close>

theorem ProcessItemsBatch_idempotent:
  assumes "redis_server R view" and "quiet w" and "ttls_ok sm"
    and "distinct (map it_SourceId (valid_items items))" and "- (2 ^ 63) \<le> now" and "now < 2 ^ 63"
  shows "fst (ProcessItemsBatch sm R ipID now2 items (snd (ProcessItemsBatch sm R ipID now items w))) = Some []"
proof -
  define s' where "s' = fold (set_item sm R) (map (item_update R ipID now (redis_st w)) (valid_items items)) (redis_st w)"
  have p: "snd (ProcessItemsBatch sm R ipID now items w) = w\<lparr>redis_st := s'\<rparr>"
    using ProcessItemsBatch_quiet [OF assms(2)] by (simp add: s'_def)
  have "item_transition R ipID s' i = None" if i: "i \<in> set (valid_items items)" for i
  proof -
    obtain st where "old_state R ipID s' i = Some st" "ts_Status st = statusToString (it_Status i)" "ts_Price st = it_Price i"
      using redis_server.old_state_fold [OF assms(1,3,5,6,4) i refl, of ipID "redis_st w"]
      unfolding s'_def by blast
    then show ?thesis by (simp add: item_transition_def determineTransition_def statusToString_def)
  qed
  then have "List.map_filter (item_transition R ipID s') (valid_items items) = List.map_filter (\<lambda>_. None) (valid_items items)"
    by (rule map_filter_cong)
  also have "List.map_filter (\<lambda>_. None :: StateTransition option) xs = []" for xs :: "Item list"
    by (induction xs) auto
  finally show ?thesis using assms(2) unfolding p by (simp add: ProcessItemsBatch_quiet)
qed

theorem ProcessItemsBatch_idempotent_witness:
  "fst (ProcessItemsBatch (NewStateMachine 0 0) mem_redis 7 200 [Some (sample_item ''m1'' 300 ITEM_STATUS_ON_SALE)]
     (snd (ProcessItemsBatch (NewStateMachine 0 0) mem_redis 7 100 [Some (sample_item ''m1'' 300 ITEM_STATUS_ON_SALE)] (item_world []))))
   = Some []"
proof -
  let ?items = "[Some (sample_item ''m1'' 300 ITEM_STATUS_ON_SALE)]"
  have f: "quiet (item_world [])" "ttls_ok (NewStateMachine 0 0)" "distinct (map it_SourceId (valid_items ?items))"
    "- (2 ^ 63) \<le> (100 :: int)" "(100 :: int) < 2 ^ 63"
    by code_simp+
  show ?thesis by (rule ProcessItemsBatch_idempotent [OF memory.redis_server_axioms f])
qed

text \<open>
  Reading back a tracked item after a fault-free update gives its new status and price, the
  time of the update as last seen, and the time of its first update as first seen.
\<close>

theorem UpdateItemState_readback:
  assumes "redis_server R view" and "quiet w" and "ttls_ok sm" and "it_SourceId item \<noteq> ''''"
    and "- (2 ^ 63) \<le> now" and "now < 2 ^ 63"
    and "fst (GetItemState R ipID (it_SourceId item) w) = Some old"
  shows "fst (GetItemState R ipID (it_SourceId item) (snd (UpdateItemState sm R ipID now (Some item) w))) =
    Some (Some \<lparr>ts_Status = statusToString (it_Status item), ts_Price = it_Price item,
      ts_FirstSeen = (case old of None \<Rightarrow> now | Some st \<Rightarrow> ts_FirstSeen st), ts_LastSeen = now\<rparr>)"
proof -
  have g: "fst (GetItemState R ipID (it_SourceId item) v) = Some (old_state R ipID (redis_st v) item)" if "quiet v" for v
    using that by (simp add: GetItemState_def old_state_def)
  show ?thesis using assms(2,4,7) g [of w]
    by (simp add: UpdateItemState_quiet g redis_server.old_state_after [OF assms(1,3,5,6)])
qed

theorem UpdateItemState_readback_witness:
  "fst (GetItemState mem_redis 7 ''m1'' (snd (UpdateItemState (NewStateMachine 0 0) mem_redis 7 100
     (Some (sample_item ''m1'' (- 300) ITEM_STATUS_SOLD)) (item_world []))))
   = Some (Some \<lparr>ts_Status = ''sold'', ts_Price = - 300, ts_FirstSeen = 100, ts_LastSeen = 100\<rparr>)"
proof -
  let ?i = "sample_item ''m1'' (- 300) ITEM_STATUS_SOLD"
  have f: "quiet (item_world [])" "ttls_ok (NewStateMachine 0 0)" "it_SourceId ?i \<noteq> ''''"
    "- (2 ^ 63) \<le> (100 :: int)" "(100 :: int) < 2 ^ 63"
    "fst (GetItemState mem_redis 7 (it_SourceId ?i) (item_world [])) = Some None"
    by code_simp+
  from UpdateItemState_readback [OF memory.redis_server_axioms f] show ?thesis
    by (simp add: sample_item_def statusToString_def)
qed

text \<open>
  The summary counts every transition exactly once, a first sighting as sold together with a
  sale as outflow.
\<close>

theorem SummarizeTransitions_counts:
  "SummarizeTransitions ts = \<lparr>
     sm_NewListings = length (filter (\<lambda>t. tr_Type t = TransitionNewListing) ts),
     sm_Sold = length (filter (\<lambda>t. tr_Type t \<in> {TransitionSold, TransitionNewSold}) ts),
     sm_PriceChanges = length (filter (\<lambda>t. tr_Type t = TransitionPriceChange) ts),
     sm_Relisted = length (filter (\<lambda>t. tr_Type t = TransitionRelisted) ts)\<rparr>"
proof -
  have "summarize s ts = \<lparr>
     sm_NewListings = sm_NewListings s + length (filter (\<lambda>t. tr_Type t = TransitionNewListing) ts),
     sm_Sold = sm_Sold s + length (filter (\<lambda>t. tr_Type t \<in> {TransitionSold, TransitionNewSold}) ts),
     sm_PriceChanges = sm_PriceChanges s + length (filter (\<lambda>t. tr_Type t = TransitionPriceChange) ts),
     sm_Relisted = sm_Relisted s + length (filter (\<lambda>t. tr_Type t = TransitionRelisted) ts)\<rparr>" for s
    by (induction ts arbitrary: s) (auto split: TransitionType.split)
  then show ?thesis by (simp add: SummarizeTransitions_def)
qed

text \<open>
  A source id that occurs twice in one batch is counted twice: both occurrences are compared
  with the state read before the batch, so an item seen for the first time and listed twice yields
  two new listings, where updating one by one yields one.
\<close>

theorem repeated_item_counted_twice:
  "let items = [Some (sample_item ''m1'' 300 ITEM_STATUS_ON_SALE), Some (sample_item ''m1'' 300 ITEM_STATUS_ON_SALE)]
   in map_option length (fst (ProcessItemsBatch (NewStateMachine 0 0) mem_redis 7 100 items (item_world []))) = Some 2 \<and>
      map_option length (fst (update_each (NewStateMachine 0 0) mem_redis 7 100 items (item_world []))) = Some 1"
  by code_simp

end
