(* ===== verification/Interval.thy ===== *)
theory Interval
  imports Model Config
begin

text \<open>
  \<open>internal/analyzer/interval_adjuster.go\<close>: the automatic adjustment of the crawl interval of an IP
  from its inflow and outflow, through the weight stored with the IP. \<open>col\<close> is what the database
  column keeps of a weight written to it. Go's \<open>int\<close> has 64 bits; the minute counts here are far
  from its ends.
\<close>

record IntervalAdjuster =
  ia_baseInterval :: int
  ia_minInterval :: int
  ia_maxInterval :: int
  activeInflowThreshold :: int
  activeOutflowThreshold :: int
  coldInflowThreshold :: int
  coldOutflowThreshold :: int
  activeStepMinutes :: int
  coldStepMinutes :: int
  regressStepMinutes :: int

record IntervalAdjusterConfig =
  iac_BaseInterval :: int
  iac_MinInterval :: int
  iac_MaxInterval :: int
  iac_PagesOnSale :: int
  iac_PagesSold :: int

definition NewIntervalAdjuster :: "IntervalAdjusterConfig \<Rightarrow> IntervalAdjuster" where
  "NewIntervalAdjuster cfg =
     (let pagesOnSale = (if iac_PagesOnSale cfg \<le> 0 then 3 else iac_PagesOnSale cfg);
          pagesSold = (if iac_PagesSold cfg \<le> 0 then 3 else iac_PagesSold cfg)
      in \<lparr>ia_baseInterval = (if iac_BaseInterval cfg \<le> 0 then Hour else iac_BaseInterval cfg),
          ia_minInterval = (if iac_MinInterval cfg \<le> 0 then 15 * Minute else iac_MinInterval cfg),
          ia_maxInterval = (if iac_MaxInterval cfg \<le> 0 then Hour else iac_MaxInterval cfg),
          activeInflowThreshold = 100 * pagesOnSale, activeOutflowThreshold = 100 * pagesSold,
          coldInflowThreshold = 50 * pagesOnSale, coldOutflowThreshold = 3 * pagesSold,
          activeStepMinutes = 15, coldStepMinutes = 15, regressStepMinutes = 5\<rparr>)"

datatype AdjustmentType = AdjustmentTypeActive | AdjustmentTypeCold | AdjustmentTypeRegress | AdjustmentTypeNone

text \<open>The seven fixed texts of the field \<open>Reason\<close>.\<close>

datatype AdjustReason = FirstCrawlSkipped | IntervalUnchanged | InflowAboveActive | OutflowAboveActive
  | BothBelowCold | RegressToDefault | AlreadyAtDefault

record AdjustResult =
  ar_Type :: AdjustmentType
  ar_OldWeight :: rat
  ar_NewWeight :: rat
  ar_OldIntervalMin :: int
  ar_NewIntervalMin :: int
  ar_Reason :: AdjustReason

text \<open>\<open>int (d.Minutes ())\<close>: an \<open>int64\<close> duration in minutes is in range.\<close>

definition minutes :: "int \<Rightarrow> int" where
  "minutes d = trunc (Minutes d)"

definition determineAdjustment :: "IntervalAdjuster \<Rightarrow> int \<Rightarrow> int \<Rightarrow> int \<Rightarrow> AdjustmentType \<times> AdjustReason" where
  "determineAdjustment a inflow outflow currentIntervalMin =
     (if inflow > activeInflowThreshold a then (AdjustmentTypeActive, InflowAboveActive)
      else if outflow > activeOutflowThreshold a then (AdjustmentTypeActive, OutflowAboveActive)
      else if inflow < coldInflowThreshold a \<and> outflow < coldOutflowThreshold a then (AdjustmentTypeCold, BothBelowCold)
      else if currentIntervalMin \<noteq> minutes (ia_baseInterval a) then (AdjustmentTypeRegress, RegressToDefault)
      else (AdjustmentTypeNone, AlreadyAtDefault))"

definition calculateNewInterval :: "IntervalAdjuster \<Rightarrow> int \<Rightarrow> AdjustmentType \<Rightarrow> int" where
  "calculateNewInterval a currentIntervalMin adjustType =
     (let minI = minutes (ia_minInterval a); maxI = minutes (ia_maxInterval a); baseI = minutes (ia_baseInterval a)
      in case adjustType of
           AdjustmentTypeActive \<Rightarrow>
             (let n = currentIntervalMin - activeStepMinutes a in if n < minI then minI else n)
         | AdjustmentTypeCold \<Rightarrow>
             (let n = currentIntervalMin + coldStepMinutes a in if n > maxI then maxI else n)
         | AdjustmentTypeRegress \<Rightarrow>
             (if currentIntervalMin < baseI
              then (let n = currentIntervalMin + regressStepMinutes a in if n > baseI then baseI else n)
              else (let n = currentIntervalMin - regressStepMinutes a in if n < baseI then baseI else n))
         | AdjustmentTypeNone \<Rightarrow> currentIntervalMin)"

text \<open>\<open>math.Round\<close>: half away from zero.\<close>

definition Round :: "rat \<Rightarrow> int" where
  "Round x = (if 0 \<le> x then \<lfloor>x + 1 / 2\<rfloor> else - \<lfloor>- x + 1 / 2\<rfloor>)"

definition weightToIntervalMinutes :: "(rat \<Rightarrow> int) \<Rightarrow> IntervalAdjuster \<Rightarrow> rat \<Rightarrow> int" where
  "weightToIntervalMinutes oor a weight0 =
     (let weight = (if weight0 \<le> 0 then 1 else weight0)
      in f64_to_int64 oor (of_int (Round (fdiv (Minutes (ia_baseInterval a)) weight))))"

definition intervalMinutesToWeight :: "IntervalAdjuster \<Rightarrow> int \<Rightarrow> rat" where
  "intervalMinutesToWeight a m0 =
     (let m = (if m0 \<le> 0 then minutes (ia_baseInterval a) else m0)
      in fdiv (Minutes (ia_baseInterval a)) (f64_of_int m))"

text \<open>The statements go to the table itself, soft-deleted rows included.\<close>

definition updateWeight :: "'d database \<Rightarrow> (rat \<Rightarrow> rat) \<Rightarrow> u64 \<Rightarrow> rat \<Rightarrow> ('s, 'd) world \<Rightarrow> unit option \<times> ('s, 'd) world" where
  "updateWeight D col ipID newWeight w = ddo (writec (\<lambda>d. put_ip_metadata D
     (map (\<lambda>r. if ip_ID r = ipID then r\<lparr>ip_Weight := col newWeight\<rparr> else r) (ip_metadata D d)) d)) w"

definition GetCurrentWeight :: "'d database \<Rightarrow> u64 \<Rightarrow> ('s, 'd) world \<Rightarrow> rat \<times> bool \<times> ('s, 'd) world" where
  "GetCurrentWeight D ipID w =
     (case ddo (readc (\<lambda>d. map ip_Weight (filter (\<lambda>r. ip_ID r = ipID) (ip_metadata D d)))) w of
        (None, w1) \<Rightarrow> (1, True, w1)
      | (Some ws, w1) \<Rightarrow> (let weight = (if ws = [] then 0 else last ws)
                         in (if weight \<le> 0 then 1 else weight, False, w1)))"

definition Adjust :: "'d database \<Rightarrow> (rat \<Rightarrow> rat) \<Rightarrow> (rat \<Rightarrow> int) \<Rightarrow> IntervalAdjuster \<Rightarrow> u64 \<Rightarrow> rat \<Rightarrow> int \<Rightarrow> int \<Rightarrow> bool
    \<Rightarrow> ('s, 'd) world \<Rightarrow> AdjustResult option \<times> ('s, 'd) world" where
  "Adjust D col oor a ipID currentWeight inflow outflow isFirstCrawl w =
     (if isFirstCrawl
      then (Some \<lparr>ar_Type = AdjustmentTypeNone, ar_OldWeight = currentWeight, ar_NewWeight = currentWeight,
                  ar_OldIntervalMin = 0, ar_NewIntervalMin = 0, ar_Reason = FirstCrawlSkipped\<rparr>, w)
      else (let oldIntervalMin = weightToIntervalMinutes oor a currentWeight;
                (adjustType, reason) = determineAdjustment a inflow outflow oldIntervalMin;
                newIntervalMin = calculateNewInterval a oldIntervalMin adjustType
            in if newIntervalMin = oldIntervalMin
               then (Some \<lparr>ar_Type = AdjustmentTypeNone, ar_OldWeight = currentWeight, ar_NewWeight = currentWeight,
                           ar_OldIntervalMin = oldIntervalMin, ar_NewIntervalMin = newIntervalMin,
                           ar_Reason = IntervalUnchanged\<rparr>, w)
               else (let newWeight = intervalMinutesToWeight a newIntervalMin in
                     case updateWeight D col ipID newWeight w of
                       (None, w1) \<Rightarrow> (None, w1)
                     | (Some _, w1) \<Rightarrow>
                         (Some \<lparr>ar_Type = adjustType, ar_OldWeight = currentWeight, ar_NewWeight = newWeight,
                                ar_OldIntervalMin = oldIntervalMin, ar_NewIntervalMin = newIntervalMin,
                                ar_Reason = reason\<rparr>, w1))))"

section \<open>Lemmas\<close>

lemma calc_bounds:
  assumes "minutes (ia_minInterval a) \<le> minutes (ia_baseInterval a)"
    and "minutes (ia_baseInterval a) \<le> minutes (ia_maxInterval a)"
    and "minutes (ia_minInterval a) \<le> m" "m \<le> minutes (ia_maxInterval a)"
    and "0 \<le> activeStepMinutes a" "0 \<le> coldStepMinutes a" "0 \<le> regressStepMinutes a"
  shows "minutes (ia_minInterval a) \<le> calculateNewInterval a m ty \<and> calculateNewInterval a m ty \<le> minutes (ia_maxInterval a)"
  using assms by (cases ty) (auto simp: calculateNewInterval_def Let_def)

lemma regress_step:
  assumes "regressStepMinutes a = 5"
  shows "calculateNewInterval a m AdjustmentTypeRegress =
    (let b = minutes (ia_baseInterval a) in if \<bar>m - b\<bar> \<le> 5 then b else if m < b then m + 5 else m - 5)"
  using assms by (auto simp: calculateNewInterval_def Let_def)

lemma regress_iter:
  assumes "regressStepMinutes a = 5" "\<bar>m - minutes (ia_baseInterval a)\<bar> \<le> 5 * int n"
  shows "((\<lambda>m. calculateNewInterval a m AdjustmentTypeRegress) ^^ n) m = minutes (ia_baseInterval a)"
  using assms(2)
proof (induction n arbitrary: m)
  case (Suc n)
  have "\<bar>calculateNewInterval a m AdjustmentTypeRegress - minutes (ia_baseInterval a)\<bar> \<le> 5 * int n"
    using Suc.prems unfolding regress_step [OF assms(1)] Let_def by auto
  from Suc.IH [OF this] show ?case by (simp only: funpow_Suc_right comp_apply)
qed simp

lemma Round_near:
  assumes "\<bar>x - of_int m\<bar> < 1 / 2"
  shows "Round x = m"
proof -
  have d: "x - of_int m < 1 / 2" "of_int m - x < 1 / 2" using assms by linarith+
  have "\<lfloor>x + 1 / 2\<rfloor> = m" by (rule floor_unique) (use d in linarith)+
  moreover have "\<lfloor>- x + 1 / 2\<rfloor> = - m" by (rule floor_unique) (simp_all only: of_int_minus, (use d in linarith)+)
  ultimately show ?thesis by (simp add: Round_def)
qed

lemma quotient_back:
  fixes b m :: rat
  assumes b: "0 < b" and m: "0 < m" "m \<le> 2 ^ 40"
  shows "\<bar>fdiv b (fdiv b m) - m\<bar> < 1 / 2"
proof -
  let ?e = "1 / 2 ^ 53 :: rat"
  define w where "w = fdiv b m"
  have bm: "0 < b / m" using b m by simp
  have w: "b / m * (1 - ?e) \<le> w" "w \<le> b / m * (1 + ?e)" using rnd64_rel [OF bm] by (simp_all add: w_def fdiv_def)
  have "0 < b / m * (1 - ?e)" by (rule mult_pos_pos [OF bm]) simp
  then have wpos: "0 < w" using w(1) by linarith
  have lo: "m / (1 + ?e) \<le> b / w"
  proof -
    have "0 < b / m * (1 + ?e)" by (rule mult_pos_pos [OF bm]) simp
    then have "b / (b / m * (1 + ?e)) \<le> b / w" using w(2) wpos b by (intro divide_left_mono mult_pos_pos) simp_all
    also have "b / (b / m * (1 + ?e)) = m / (1 + ?e)" using b m by (simp add: field_simps)
    finally show ?thesis .
  qed
  have hi: "b / w \<le> m / (1 - ?e)"
  proof -
    have "b / w \<le> b / (b / m * (1 - ?e))" using w(1) wpos b \<open>0 < b / m * (1 - ?e)\<close> by (intro divide_left_mono mult_pos_pos) simp_all
    also have "b / (b / m * (1 - ?e)) = m / (1 - ?e)" using b m by (simp add: field_simps)
    finally show ?thesis .
  qed
  have q: "0 < b / w" using b wpos by simp
  have r: "b / w * (1 - ?e) \<le> fdiv b w" "fdiv b w \<le> b / w * (1 + ?e)"
    using rnd64_rel [OF q] by (simp_all add: fdiv_def)
  have "fdiv b w \<le> m / (1 - ?e) * (1 + ?e)"
    by (rule order_trans [OF r(2)]) (intro mult_right_mono hi, simp)
  moreover have "m / (1 + ?e) * (1 - ?e) \<le> fdiv b w"
    by (rule order_trans [OF _ r(1)]) (intro mult_right_mono lo, simp)
  moreover have "m / (1 - ?e) * (1 + ?e) = m + m * (2 * ?e / (1 - ?e))" "m / (1 + ?e) * (1 - ?e) = m - m * (2 * ?e / (1 + ?e))"
    by (simp_all add: field_simps)
  moreover have "m * (2 * ?e / (1 - ?e)) \<le> 2 ^ 40 * (2 * ?e / (1 - ?e))" "m * (2 * ?e / (1 + ?e)) \<le> 2 ^ 40 * (2 * ?e / (1 + ?e))"
    using m by (intro mult_right_mono; simp)+
  moreover have "2 ^ 40 * (2 * ?e / (1 - ?e)) < 1 / 2" "2 ^ 40 * (2 * ?e / (1 + ?e)) < 1 / 2" by simp_all
  ultimately show ?thesis unfolding w_def [symmetric] abs_less_iff by linarith
qed

lemma minutes_pos:
  assumes "0 < minutes d"
  shows "0 < Minutes d"
proof (rule ccontr)
  assume "\<not> 0 < Minutes d"
  then have "trunc (Minutes d) \<le> trunc 0" by (intro trunc_mono) simp
  then show False using assms by (simp add: minutes_def trunc_def)
qed

lemma roundtrip_minutes:
  assumes "0 < minutes (ia_baseInterval a)" "0 < m" "m \<le> 2 ^ 40"
  shows "weightToIntervalMinutes oor a (intervalMinutesToWeight a m) = m"
proof -
  let ?b = "Minutes (ia_baseInterval a)"
  have b: "0 < ?b" by (rule minutes_pos [OF assms(1)])
  have mm: "f64_of_int m = of_int m" unfolding f64_of_int_def using assms by (intro rnd64_of_int) simp
  have q: "\<bar>fdiv ?b (fdiv ?b (of_int m)) - of_int m\<bar> < 1 / 2"
  proof (rule quotient_back [OF b])
    show "(of_int m :: rat) \<le> 2 ^ 40" using assms(3) by (metis of_int_le_iff of_int_numeral of_int_power)
  qed (use assms in simp)
  have bm: "0 < ?b / of_int m" using b assms(2) by simp
  have "0 < ?b / of_int m * (1 - 1 / 2 ^ 53)" by (rule mult_pos_pos [OF bm]) simp
  then have w: "0 < fdiv ?b (of_int m)" using rnd64_rel(1) [OF bm] unfolding fdiv_def by linarith
  have "weightToIntervalMinutes oor a (intervalMinutesToWeight a m) = f64_to_int64 oor (of_int m)"
    using w assms(2) Round_near [OF q] by (simp add: weightToIntervalMinutes_def intervalMinutesToWeight_def mm Let_def)
  also have "\<dots> = m" using assms by (simp add: f64_to_int64_def)
  finally show ?thesis .
qed

lemma NewIntervalAdjuster_steps [simp]:
  "activeStepMinutes (NewIntervalAdjuster cfg) = 15" "coldStepMinutes (NewIntervalAdjuster cfg) = 15"
  "regressStepMinutes (NewIntervalAdjuster cfg) = 5"
  by (simp_all add: NewIntervalAdjuster_def Let_def)

lemma Adjust_cases:
  assumes "fst (Adjust D col oor a ipID cw inflow outflow False w) = Some r"
  obtains (same) "ar_Type r = AdjustmentTypeNone" "ar_NewWeight r = cw"
      "ar_OldIntervalMin r = weightToIntervalMinutes oor a cw" "ar_NewIntervalMin r = ar_OldIntervalMin r"
  | (changed) "ar_Type r = fst (determineAdjustment a inflow outflow (weightToIntervalMinutes oor a cw))"
      "ar_OldIntervalMin r = weightToIntervalMinutes oor a cw"
      "ar_NewIntervalMin r = calculateNewInterval a (weightToIntervalMinutes oor a cw) (ar_Type r)"
      "ar_NewWeight r = intervalMinutesToWeight a (ar_NewIntervalMin r)"
      "ar_NewIntervalMin r \<noteq> ar_OldIntervalMin r"
  using assms by (auto simp: Adjust_def Let_def split: prod.splits if_splits option.splits)

lemma Adjust_world:
  "snd (Adjust D col oor a ipID cw inflow outflow first w) = w \<or>
   (\<exists>x. snd (Adjust D col oor a ipID cw inflow outflow first w) = snd (updateWeight D col ipID x w))"
  by (simp add: Adjust_def Let_def split: prod.split option.split) (metis snd_conv)

lemma calc_change:
  assumes "minutes (ia_minInterval a) \<le> m" "m \<le> minutes (ia_maxInterval a)"
    "activeStepMinutes a = 15" "coldStepMinutes a = 15" "regressStepMinutes a = 5"
  shows "\<bar>calculateNewInterval a m ty - m\<bar> \<le> 15"
  using assms by (cases ty) (auto simp: calculateNewInterval_def Let_def)

section \<open>Properties\<close>

text \<open>(C33) An adjustment keeps the interval of an IP between the configured minimum and maximum and
  moves it by at most fifteen minutes, whatever the traffic.\<close>

theorem Adjust_bounds:
  assumes "a = NewIntervalAdjuster cfg"
    and "fst (Adjust D col oor a ipID cw inflow outflow False w) = Some r"
    and "minutes (ia_minInterval a) \<le> minutes (ia_baseInterval a)"
    and "minutes (ia_baseInterval a) \<le> minutes (ia_maxInterval a)"
    and "minutes (ia_minInterval a) \<le> ar_OldIntervalMin r" and "ar_OldIntervalMin r \<le> minutes (ia_maxInterval a)"
  shows "minutes (ia_minInterval a) \<le> ar_NewIntervalMin r \<and> ar_NewIntervalMin r \<le> minutes (ia_maxInterval a) \<and>
    \<bar>ar_NewIntervalMin r - ar_OldIntervalMin r\<bar> \<le> 15"
  using assms(2)
proof (cases rule: Adjust_cases)
  case same
  then show ?thesis using assms by simp
next
  case changed
  have s: "activeStepMinutes a = 15" "coldStepMinutes a = 15" "regressStepMinutes a = 5" by (simp_all add: assms(1))
  show ?thesis using changed calc_bounds [OF assms(3,4), of "ar_OldIntervalMin r" "ar_Type r"]
      calc_change [of a "ar_OldIntervalMin r", OF assms(5,6) s] assms(5,6) s by simp
qed

definition sample_adjuster_config :: IntervalAdjusterConfig where
  "sample_adjuster_config = \<lparr>iac_BaseInterval = 2 * Hour, iac_MinInterval = Hour, iac_MaxInterval = 2 * Hour,
     iac_PagesOnSale = 5, iac_PagesSold = 5\<rparr>"

definition sample_ip_world :: "(mem, tables) world" where
  "sample_ip_world = \<lparr>redis_st = mem_empty, db_st = no_tables\<lparr>t_ip := [sample_ip 7 IPStatusActive]\<rparr>, outcomes = []\<rparr>"

abbreviation sample_adjust :: "AdjustResult option \<times> (mem, tables) world" where
  "sample_adjust \<equiv> Adjust mem_db (\<lambda>x. x) (\<lambda>_. 0) (NewIntervalAdjuster sample_adjuster_config) 7 1 900 2 False sample_ip_world"

theorem Adjust_bounds_witness:
  "60 \<le> ar_NewIntervalMin (the (fst sample_adjust)) \<and> ar_NewIntervalMin (the (fst sample_adjust)) \<le> 120 \<and>
   \<bar>ar_NewIntervalMin (the (fst sample_adjust)) - 120\<bar> \<le> 15"
proof -
  let ?a = "NewIntervalAdjuster sample_adjuster_config"
  have s: "fst sample_adjust = Some (the (fst sample_adjust))" by code_simp
  have m: "minutes (ia_minInterval ?a) = 60" "minutes (ia_baseInterval ?a) = 120" "minutes (ia_maxInterval ?a) = 120"
    "ar_OldIntervalMin (the (fst sample_adjust)) = 120" by code_simp+
  show ?thesis using Adjust_bounds [OF refl s] unfolding m by (simp only: order_refl)
qed


text \<open>The weight written for an interval gives that interval back: the next adjustment starts from the
  number of minutes this one chose, although the weight is a rounded quotient.\<close>

theorem Adjust_weight_roundtrip:
  assumes "fst (Adjust D col oor a ipID cw inflow outflow False w) = Some r"
    and "0 < minutes (ia_baseInterval a)" and "0 < ar_NewIntervalMin r" and "ar_NewIntervalMin r \<le> 2 ^ 40"
  shows "weightToIntervalMinutes oor a (ar_NewWeight r) = ar_NewIntervalMin r"
  using assms(1)
proof (cases rule: Adjust_cases)
  case same
  then show ?thesis by simp
next
  case changed
  then show ?thesis using roundtrip_minutes [OF assms(2,3,4)] by simp
qed

theorem Adjust_weight_roundtrip_witness:
  "weightToIntervalMinutes (\<lambda>_. 0) (NewIntervalAdjuster sample_adjuster_config)
     (ar_NewWeight (the (fst sample_adjust))) = 105"
proof -
  let ?a = "NewIntervalAdjuster sample_adjuster_config"
  have s: "fst sample_adjust = Some (the (fst sample_adjust))" by code_simp
  have m: "minutes (ia_baseInterval ?a) = 120" "ar_NewIntervalMin (the (fst sample_adjust)) = 105" by code_simp+
  show ?thesis using Adjust_weight_roundtrip [OF s] unfolding m by simp
qed




text \<open>An adjustment touches nothing but the weight of its own IP: the cache, the items and the rows of
  every other IP stay, the other columns of the IP stay, also when the statement fails or its reply is lost.
  For a first crawl nothing is written at all.\<close>

theorem Adjust_frame:
  assumes "sql_database D"
  shows "redis_st (snd (Adjust D col oor a ipID cw inflow outflow first w)) = redis_st w \<and>
    item_snapshots D (db_st (snd (Adjust D col oor a ipID cw inflow outflow first w))) = item_snapshots D (db_st w) \<and>
    image_mset (\<lambda>r. if ip_ID r = ipID then r\<lparr>ip_Weight := 0\<rparr> else r)
      (mset (ip_metadata D (db_st (snd (Adjust D col oor a ipID cw inflow outflow first w))))) =
    image_mset (\<lambda>r. if ip_ID r = ipID then r\<lparr>ip_Weight := 0\<rparr> else r) (mset (ip_metadata D (db_st w))) \<and>
    (first \<longrightarrow> snd (Adjust D col oor a ipID cw inflow outflow first w) = w)"
proof -
  let ?n = "\<lambda>r. if ip_ID r = ipID then r\<lparr>ip_Weight := 0\<rparr> else r"
  let ?same = "\<lambda>v. redis_st v = redis_st w \<and> item_snapshots D (db_st v) = item_snapshots D (db_st w) \<and>
    image_mset ?n (mset (ip_metadata D (db_st v))) = image_mset ?n (mset (ip_metadata D (db_st w)))"
  have u: "?same (snd (updateWeight D col ipID x w))" for x
  proof -
    have f: "image_mset ?n (mset (map (\<lambda>r. if ip_ID r = ipID then r\<lparr>ip_Weight := col x\<rparr> else r) rs)) = image_mset ?n (mset rs)" for rs
      by (induction rs) auto
    show ?thesis
      unfolding updateWeight_def
      by (intro conjI ddo_preserves [where P = "\<lambda>d. item_snapshots D d = item_snapshots D (db_st w)"]
          ddo_preserves [where P = "\<lambda>d. image_mset ?n (mset (ip_metadata D d)) = image_mset ?n (mset (ip_metadata D (db_st w)))"])
        (simp_all only: writec_simps sql_database.put_ip [OF assms] sql_database.items_frame(1) [OF assms] f other_state)
  qed
  then have "?same (snd (Adjust D col oor a ipID cw inflow outflow first w))"
  proof (cases "snd (Adjust D col oor a ipID cw inflow outflow first w) = w")
    case False
    then obtain x where "snd (Adjust D col oor a ipID cw inflow outflow first w) = snd (updateWeight D col ipID x w)"
      using Adjust_world [of D col oor a ipID cw inflow outflow first w] by blast
    then show ?thesis using u [of x] by (simp only:)
  qed (simp only:)
  then show ?thesis by (auto simp: Adjust_def)
qed

theorem Adjust_frame_witness:
  "redis_st (snd sample_adjust) = mem_empty \<and> item_snapshots mem_db (db_st (snd sample_adjust)) = [] \<and>
   map ip_Weight (ip_metadata mem_db (db_st (snd sample_adjust))) \<noteq> [1]"
proof -
  have "map ip_Weight (ip_metadata mem_db (db_st (snd sample_adjust))) \<noteq> [1]" by code_simp
  moreover have "redis_st sample_ip_world = mem_empty" "item_snapshots mem_db (db_st sample_ip_world) = []" by code_simp+
  ultimately show ?thesis
    using Adjust_frame [OF memdb.sql_database_axioms, of "\<lambda>x. x" "\<lambda>_. 0" "NewIntervalAdjuster sample_adjuster_config" 7 1 900 2 False sample_ip_world]
    by simp
qed

lemma nearest_unique:
  fixes x :: rat
  assumes "\<bar>x - of_int k / 100\<bar> \<le> 1 / 200" and "\<bar>100 * x - of_int j\<bar> < 1 / 2"
  shows "k = j"
proof -
  have "\<bar>of_int (k - j) :: rat\<bar> < 1" using assms unfolding abs_le_iff abs_less_iff by simp
  then show ?thesis by linarith
qed

text \<open>For one interval: the weight is not half-way between two hundredths, and the nearest hundredth still
  leads back to the interval.\<close>

definition survives :: "IntervalAdjuster \<Rightarrow> int \<Rightarrow> bool" where
  "survives a m = (let x = intervalMinutesToWeight a m; j = Round (100 * x); y = rnd64 (of_int j / 100)
     in 0 \<le> x \<and> x \<le> 999 \<and> \<bar>100 * x - of_int j\<bar> < 1 / 2 \<and> 0 < y
       \<and> Round (fdiv (Minutes (ia_baseInterval a)) y) = m)"

lemma sample_survives_0: "survives (NewIntervalAdjuster sample_adjuster_config) 60"
  by code_simp

lemma sample_survives_1: "survives (NewIntervalAdjuster sample_adjuster_config) 65"
  by code_simp

lemma sample_survives_2: "survives (NewIntervalAdjuster sample_adjuster_config) 70"
  by code_simp

lemma sample_survives_3: "survives (NewIntervalAdjuster sample_adjuster_config) 75"
  by code_simp

lemma sample_survives_4: "survives (NewIntervalAdjuster sample_adjuster_config) 80"
  by code_simp

lemma sample_survives_5: "survives (NewIntervalAdjuster sample_adjuster_config) 85"
  by code_simp

lemma sample_survives_6: "survives (NewIntervalAdjuster sample_adjuster_config) 90"
  by code_simp

lemma sample_survives_7: "survives (NewIntervalAdjuster sample_adjuster_config) 95"
  by code_simp

lemma sample_survives_8: "survives (NewIntervalAdjuster sample_adjuster_config) 100"
  by code_simp

lemma sample_survives_9: "survives (NewIntervalAdjuster sample_adjuster_config) 105"
  by code_simp

lemma sample_survives_10: "survives (NewIntervalAdjuster sample_adjuster_config) 110"
  by code_simp

lemma sample_survives_11: "survives (NewIntervalAdjuster sample_adjuster_config) 115"
  by code_simp

lemma sample_survives_12: "survives (NewIntervalAdjuster sample_adjuster_config) 120"
  by code_simp

lemma sample_survives:
  assumes "i \<le> 12"
  shows "survives (NewIntervalAdjuster sample_adjuster_config) (60 + 5 * int i)"
proof -
  have "i \<in> set [0..<13]" using assms by simp
  then show ?thesis by (simp add: upt_rec) (elim disjE, simp_all add: sample_survives_0 sample_survives_1 sample_survives_2 sample_survives_3 sample_survives_4 sample_survives_5 sample_survives_6 sample_survives_7 sample_survives_8 sample_survives_9 sample_survives_10 sample_survives_11 sample_survives_12)
qed

text \<open>The column of the weight is a \<open>DECIMAL(5,2)\<close>: it keeps the nearest hundredth. With the
  intervals of the shipped configuration (base and maximum two hours, minimum one hour), every interval the steps of
  five and fifteen minutes can reach still survives being stored: the weight read back gives the same minutes.\<close>

theorem stored_weight_keeps_interval:
  assumes "\<forall>x. 0 \<le> x \<and> x \<le> 999 \<longrightarrow> (\<exists>k. col x = rnd64 (of_int k / 100) \<and> \<bar>x - of_int k / 100\<bar> \<le> 1 / 200)"
    and "a = NewIntervalAdjuster sample_adjuster_config" and "m = 60 + 5 * int i" and "i \<le> 12"
  shows "weightToIntervalMinutes oor a (col (intervalMinutesToWeight a m)) = m"
proof -
  have s: "survives a m" unfolding assms(2,3) by (rule sample_survives [OF assms(4)])
  then obtain k where k: "col (intervalMinutesToWeight a m) = rnd64 (of_int k / 100)"
    "\<bar>intervalMinutesToWeight a m - of_int k / 100\<bar> \<le> 1 / 200"
    using assms(1) unfolding survives_def Let_def by blast
  have "k = Round (100 * intervalMinutesToWeight a m)"
    by (rule nearest_unique [OF k(2)]) (use s in \<open>simp add: survives_def Let_def\<close>)
  then have "0 < col (intervalMinutesToWeight a m)"
    "Round (fdiv (Minutes (ia_baseInterval a)) (col (intervalMinutesToWeight a m))) = m"
    using s k(1) by (simp_all add: survives_def Let_def)
  then show ?thesis using assms(3,4) by (simp add: weightToIntervalMinutes_def f64_to_int64_def)
qed

theorem stored_weight_keeps_interval_witness:
  "weightToIntervalMinutes (\<lambda>_. 0) (NewIntervalAdjuster sample_adjuster_config)
     ((\<lambda>x. rnd64 (of_int (Round (100 * x)) / 100)) (intervalMinutesToWeight (NewIntervalAdjuster sample_adjuster_config) 105)) = 105"
proof -
  have "\<bar>x - of_int (Round (100 * x)) / 100\<bar> \<le> 1 / 200" if "0 \<le> x" for x :: rat
  proof -
    have "\<bar>100 * x - of_int (Round (100 * x))\<bar> \<le> 1 / 2"
    proof -
      have "Round (100 * x) = \<lfloor>100 * x + 1 / 2\<rfloor>" using that by (simp add: Round_def)
      then show ?thesis using floor_correct [of "100 * x + 1 / 2"] unfolding abs_le_iff of_int_add of_int_1
        by linarith
    qed
    moreover have "x - of_int (Round (100 * x)) / 100 = (100 * x - of_int (Round (100 * x))) / 100" by (simp add: field_simps)
    ultimately show ?thesis by (simp only: abs_divide)
  qed
  then have "\<forall>x. 0 \<le> x \<and> x \<le> 999 \<longrightarrow> (\<exists>k. rnd64 (of_int (Round (100 * x)) / 100) = rnd64 (of_int k / 100) \<and>
      \<bar>x - of_int k / 100\<bar> \<le> 1 / 200)" by blast
  from stored_weight_keeps_interval [OF this refl, of 105 9] show ?thesis by simp
qed

end
