(* ===== verification/Aggregator.thy ===== *)
theory Aggregator
  imports Model Proto Calendar
begin

text \<open>
  \<open>internal/analyzer/aggregator.go\<close> and the types of \<open>internal/analyzer/diff_engine.go\<close>: the
  hourly statistics of an IP, the snapshots of its items and the alerts, written to MySQL.

  The record \<open>mysql\<close> is what the statements need from GORM and MySQL: what a \<open>DECIMAL\<close> or
  \<open>DATETIME(3)\<close> column keeps of a value, the order in which the assignments of \<open>ON DUPLICATE KEY
  UPDATE\<close> are evaluated, the number of affected rows and the next id of an alert. A statement is one
  function on the rows of its table; a statement MySQL refuses changes nothing. Texts are compared byte by
  byte. The clock is the argument \<open>now\<close>, a location a fixed offset \<open>zone\<close> in seconds.
\<close>

section \<open>Types\<close>

record PriceItemInfo =
  pii_SourceID :: string
  pii_Title :: string
  pii_Price :: i32
  pii_ImageURL :: string
  pii_ItemURL :: string

record HourlyStats =
  hs_IPID :: u64
  hs_HourBucket :: int
  hs_Inflow :: int
  hs_Outflow :: int
  hs_LiquidityIndex :: "rat option"
  hs_ActiveCount :: int
  hs_AvgPrice :: "rat option"
  hs_MedianPrice :: "rat option"
  hs_MinPrice :: "rat option"
  hs_MaxPrice :: "rat option"
  hs_PriceStddev :: "rat option"
  hs_SampleCount :: int
  hs_MinPriceItem :: "PriceItemInfo option"
  hs_MaxPriceItem :: "PriceItemInfo option"

record LiquidityResult =
  lr_IpID :: u64
  lr_Timestamp :: int
  lr_OnSaleInflow :: int
  lr_OnSaleOutflow :: int
  lr_OnSaleTotal :: int
  lr_SoldInflow :: int
  lr_SoldTotal :: int
  lr_LiquidityIndex :: rat

record DiffEngine =
  de_ttl :: int

definition NewDiffEngine :: "int \<Rightarrow> DiffEngine" where
  "NewDiffEngine cacheTTL = \<lparr>de_ttl = (if cacheTTL = 0 then 48 * Hour else cacheTTL)\<rparr>"

record PriceStats =
  ps_Avg :: rat
  ps_Median :: rat
  ps_Min :: rat
  ps_Max :: rat
  ps_Stddev :: rat
  ps_MinItem :: "PriceItemInfo option"
  ps_MaxItem :: "PriceItemInfo option"

record AlertThresholds =
  at_HighOutflow :: int
  at_LowLiquidity :: rat
  at_HighLiquidity :: rat

text \<open>The columns assigned when an hourly row exists.\<close>

datatype hourly_column = c_active_count | c_avg_price | c_inflow | c_liquidity_index | c_max_price
  | c_max_price_item | c_median_price | c_min_price | c_min_price_item | c_outflow | c_price_stddev
  | c_sample_count

record mysql =
  col_price :: "rat \<Rightarrow> rat"
  col_index :: "rat \<Rightarrow> rat"
  col_metric :: "rat \<Rightarrow> rat"
  col_weight :: "rat \<Rightarrow> rat"
  col_ms :: "int \<Rightarrow> int"
  hourly_order :: "hourly_column list"
  snapshot_rows :: "ItemSnapshot list \<Rightarrow> ItemSnapshot list \<Rightarrow> int"
  alert_id :: "IPAlert list \<Rightarrow> u64"

text \<open>\<open>INSERT ... ON DUPLICATE KEY UPDATE\<close> of one row; \<open>None\<close> when the update is refused.\<close>

fun upsert :: "('r \<Rightarrow> bool) \<Rightarrow> ('r \<Rightarrow> 'r option) \<Rightarrow> 'r \<Rightarrow> 'r list \<Rightarrow> 'r list option" where
  "upsert P u new [] = Some [new]"
| "upsert P u new (r # rs) = (if P r then map_option (\<lambda>r'. r' # rs) (u r)
     else map_option ((#) r) (upsert P u new rs))"

section \<open>Prices\<close>

definition CollectPricesFromItems :: "Item list \<Rightarrow> i32 list" where
  "CollectPricesFromItems items = map it_Price (filter (\<lambda>i. 0 < sint (it_Price i)) items)"

definition f64_of_i32 :: "i32 \<Rightarrow> rat" where
  "f64_of_i32 p = f64_of_int (sint p)"

text \<open>The loop over the prices: sum, minimum and maximum with the first items that have them.\<close>

fun price_loop :: "(PriceItemInfo \<times> PriceItemInfo) \<Rightarrow> (rat \<times> rat \<times> rat) \<Rightarrow> PriceItemInfo list
    \<Rightarrow> (rat \<times> rat \<times> rat) \<times> (PriceItemInfo \<times> PriceItemInfo)" where
  "price_loop (minItem, maxItem) (s, mn, mx) [] = ((s, mn, mx), (minItem, maxItem))"
| "price_loop (minItem, maxItem) (s, mn, mx) (i # is) =
     (let fp = f64_of_i32 (pii_Price i)
      in price_loop (if fp < mn then i else minItem, if fp > mx then i else maxItem)
           (fadd s fp, if fp < mn then fp else mn, if fp > mx then fp else mx) is)"

text \<open>The median of the sorted prices; the sum of the two middle ones is an \<open>int32\<close> and wraps.\<close>

definition price_median :: "i32 list \<Rightarrow> rat" where
  "price_median ps = (let sorted = sort_key sint ps; n = length sorted
     in if n mod 2 = 0 then fdiv (f64_of_i32 (sorted ! (n div 2 - 1) + sorted ! (n div 2))) 2
        else f64_of_i32 (sorted ! (n div 2)))"

fun variance_loop :: "rat \<Rightarrow> rat \<Rightarrow> i32 list \<Rightarrow> rat" where
  "variance_loop avg v [] = v"
| "variance_loop avg v (p # ps) = (let diff = fsub (f64_of_i32 p) avg in variance_loop avg (fadd v (fmul diff diff)) ps)"

definition price_stddev :: "rat \<Rightarrow> i32 list \<Rightarrow> rat" where
  "price_stddev avg ps = fsqrt (fdiv (variance_loop avg 0 ps) (f64_of_int (int (length ps))))"

definition calculatePriceStatsWithItems :: "PriceItemInfo list \<Rightarrow> PriceStats" where
  "calculatePriceStatsWithItems items = (case items of
     [] \<Rightarrow> \<lparr>ps_Avg = 0, ps_Median = 0, ps_Min = 0, ps_Max = 0, ps_Stddev = 0, ps_MinItem = None, ps_MaxItem = None\<rparr>
   | i0 # _ \<Rightarrow>
       (let p0 = f64_of_i32 (pii_Price i0) in
        case price_loop (i0, i0) (0, p0, p0) items of ((s, mn, mx), (mi, ma)) \<Rightarrow>
          (let avg = fdiv s (f64_of_int (int (length items)))
           in \<lparr>ps_Avg = avg, ps_Median = price_median (map pii_Price items), ps_Min = mn, ps_Max = mx,
               ps_Stddev = price_stddev avg (map pii_Price items), ps_MinItem = Some mi, ps_MaxItem = Some ma\<rparr>)))"

fun plain_loop :: "(rat \<times> rat \<times> rat) \<Rightarrow> i32 list \<Rightarrow> rat \<times> rat \<times> rat" where
  "plain_loop (s, mn, mx) [] = (s, mn, mx)"
| "plain_loop (s, mn, mx) (p # ps) = (let fp = f64_of_i32 p
     in plain_loop (fadd s fp, if fp < mn then fp else mn, if fp > mx then fp else mx) ps)"

definition calculatePriceStats :: "i32 list \<Rightarrow> PriceStats" where
  "calculatePriceStats prices = (case prices of
     [] \<Rightarrow> \<lparr>ps_Avg = 0, ps_Median = 0, ps_Min = 0, ps_Max = 0, ps_Stddev = 0, ps_MinItem = None, ps_MaxItem = None\<rparr>
   | p # _ \<Rightarrow>
       (let p0 = f64_of_i32 p in
        case plain_loop (0, p0, p0) prices of (s, mn, mx) \<Rightarrow>
          (let avg = fdiv s (f64_of_int (int (length prices)))
           in \<lparr>ps_Avg = avg, ps_Median = price_median prices, ps_Min = mn, ps_Max = mx,
               ps_Stddev = price_stddev avg prices, ps_MinItem = None, ps_MaxItem = None\<rparr>)))"

definition truncateToHour :: "int \<Rightarrow> int \<Rightarrow> int" where
  "truncateToHour zone t = midnight zone t + clock_Hour zone t * Hour"

section \<open>Hourly statistics\<close>

definition price_item :: "PriceItemInfo \<Rightarrow> PriceItemJSON" where
  "price_item p = \<lparr>pi_SourceID = pii_SourceID p, pi_Title = pii_Title p, pi_Price = pii_Price p,
     pi_ImageURL = pii_ImageURL p, pi_ItemURL = pii_ItemURL p\<rparr>"

text \<open>What the JSON column keeps of an item: \<open>Value\<close> turns an item without source id into \<open>NULL\<close>.\<close>

definition col_item :: "PriceItemInfo option \<Rightarrow> PriceItemJSON option" where
  "col_item p = (case p of None \<Rightarrow> None
     | Some i \<Rightarrow> if pii_SourceID i = '''' then None else Some (price_item i))"

text \<open>An \<open>INT UNSIGNED\<close> column refuses a value outside its range.\<close>

definition col_u32 :: "int \<Rightarrow> u32 option" where
  "col_u32 n = (if 0 \<le> n \<and> n < 2 ^ 32 then Some (word_of_int n) else None)"

definition smaller :: "rat option \<Rightarrow> rat option \<Rightarrow> bool" where
  "smaller new old = (case new of None \<Rightarrow> False | Some p \<Rightarrow> (case old of None \<Rightarrow> True | Some q \<Rightarrow> p < q))"

definition larger :: "rat option \<Rightarrow> rat option \<Rightarrow> bool" where
  "larger new old = (case new of None \<Rightarrow> False | Some p \<Rightarrow> (case old of None \<Rightarrow> True | Some q \<Rightarrow> p > q))"

text \<open>One assignment; its expression reads the columns as the assignments before it left them.\<close>

definition hourly_assign :: "mysql \<Rightarrow> HourlyStats \<Rightarrow> hourly_column \<Rightarrow> IPStatsHourly \<Rightarrow> IPStatsHourly option" where
  "hourly_assign M s c r = (case c of
     c_inflow \<Rightarrow> map_option (\<lambda>n. r\<lparr>sh_Inflow := n\<rparr>) (col_u32 (uint (sh_Inflow r) + hs_Inflow s))
   | c_outflow \<Rightarrow> map_option (\<lambda>n. r\<lparr>sh_Outflow := n\<rparr>) (col_u32 (uint (sh_Outflow r) + hs_Outflow s))
   | c_active_count \<Rightarrow> map_option (\<lambda>n. r\<lparr>sh_ActiveCount := n\<rparr>) (col_u32 (hs_ActiveCount s))
   | c_avg_price \<Rightarrow> Some (r\<lparr>sh_AvgPrice := map_option (col_price M) (hs_AvgPrice s)\<rparr>)
   | c_median_price \<Rightarrow> Some (r\<lparr>sh_MedianPrice := map_option (col_price M) (hs_MedianPrice s)\<rparr>)
   | c_min_price \<Rightarrow> Some (if smaller (hs_MinPrice s) (sh_MinPrice r)
        then r\<lparr>sh_MinPrice := map_option (col_price M) (hs_MinPrice s)\<rparr> else r)
   | c_max_price \<Rightarrow> Some (if larger (hs_MaxPrice s) (sh_MaxPrice r)
        then r\<lparr>sh_MaxPrice := map_option (col_price M) (hs_MaxPrice s)\<rparr> else r)
   | c_min_price_item \<Rightarrow> Some (if smaller (hs_MinPrice s) (sh_MinPrice r)
        then r\<lparr>sh_MinPriceItem := col_item (hs_MinPriceItem s)\<rparr> else r)
   | c_max_price_item \<Rightarrow> Some (if larger (hs_MaxPrice s) (sh_MaxPrice r)
        then r\<lparr>sh_MaxPriceItem := col_item (hs_MaxPriceItem s)\<rparr> else r)
   | c_price_stddev \<Rightarrow> Some (r\<lparr>sh_PriceStddev := map_option (col_price M) (hs_PriceStddev s)\<rparr>)
   | c_sample_count \<Rightarrow> map_option (\<lambda>n. r\<lparr>sh_SampleCount := n\<rparr>) (col_u32 (uint (sh_SampleCount r) + hs_SampleCount s))
   | c_liquidity_index \<Rightarrow> (let i = uint (sh_Inflow r) + hs_Inflow s
        in Some (r\<lparr>sh_LiquidityIndex := (if i > 0
             then Some (col_index M (of_int (uint (sh_Outflow r) + hs_Outflow s) / of_int i)) else None)\<rparr>)))"

fun hourly_update :: "mysql \<Rightarrow> HourlyStats \<Rightarrow> hourly_column list \<Rightarrow> IPStatsHourly \<Rightarrow> IPStatsHourly option" where
  "hourly_update M s [] r = Some r"
| "hourly_update M s (c # cs) r = (case hourly_assign M s c r of None \<Rightarrow> None | Some r' \<Rightarrow> hourly_update M s cs r')"

definition hourly_record :: "mysql \<Rightarrow> int \<Rightarrow> HourlyStats \<Rightarrow> IPStatsHourly" where
  "hourly_record M now s = \<lparr>sh_IPID = hs_IPID s, sh_HourBucket = hs_HourBucket s,
     sh_Inflow = word_of_int (hs_Inflow s), sh_Outflow = word_of_int (hs_Outflow s),
     sh_LiquidityIndex = map_option (col_index M) (hs_LiquidityIndex s),
     sh_ActiveCount = word_of_int (hs_ActiveCount s),
     sh_AvgPrice = map_option (col_price M) (hs_AvgPrice s),
     sh_MedianPrice = map_option (col_price M) (hs_MedianPrice s),
     sh_MinPrice = map_option (col_price M) (hs_MinPrice s),
     sh_MaxPrice = map_option (col_price M) (hs_MaxPrice s),
     sh_MinPriceItem = col_item (hs_MinPriceItem s), sh_MaxPriceItem = col_item (hs_MaxPriceItem s),
     sh_PriceStddev = map_option (col_price M) (hs_PriceStddev s),
     sh_SampleCount = word_of_int (hs_SampleCount s), sh_CreatedAt = col_ms M now\<rparr>"

definition hourly_key :: "u64 \<Rightarrow> int \<Rightarrow> IPStatsHourly \<Rightarrow> bool" where
  "hourly_key ip h r = (sh_IPID r = ip \<and> sh_HourBucket r = h)"

text \<open>The result is whether the statement succeeded.\<close>

definition upsertHourlyStats :: "mysql \<Rightarrow> 'd database \<Rightarrow> int \<Rightarrow> HourlyStats \<Rightarrow> ('s, 'd) world \<Rightarrow> bool \<times> ('s, 'd) world" where
  "upsertHourlyStats M D now s w =
     (case ddo (\<lambda>d. (case upsert (hourly_key (hs_IPID s) (hs_HourBucket s)) (hourly_update M s (hourly_order M))
              (hourly_record M now s) (ip_stats_hourly D d) of
            None \<Rightarrow> (False, d) | Some rows \<Rightarrow> (True, put_ip_stats_hourly D rows d))) w of
        (None, w1) \<Rightarrow> (False, w1) | (Some ok, w1) \<Rightarrow> (ok, w1))"

definition hourly_stats :: "int \<Rightarrow> int \<Rightarrow> u64 \<Rightarrow> LiquidityResult option \<Rightarrow> PriceItemInfo list \<Rightarrow> HourlyStats" where
  "hourly_stats zone now ipID lr soldItems =
     (let ps = calculatePriceStatsWithItems soldItems; some = (\<lambda>x. if soldItems = [] then None else Some x)
      in \<lparr>hs_IPID = ipID, hs_HourBucket = truncateToHour zone now,
          hs_Inflow = (case lr of None \<Rightarrow> 0 | Some l \<Rightarrow> lr_OnSaleInflow l),
          hs_Outflow = (case lr of None \<Rightarrow> 0 | Some l \<Rightarrow> lr_SoldInflow l),
          hs_LiquidityIndex = (case lr of None \<Rightarrow> None
             | Some l \<Rightarrow> if lr_LiquidityIndex l > 0 then Some (lr_LiquidityIndex l) else None),
          hs_ActiveCount = (case lr of None \<Rightarrow> 0 | Some l \<Rightarrow> lr_OnSaleTotal l),
          hs_AvgPrice = some (ps_Avg ps), hs_MedianPrice = some (ps_Median ps),
          hs_MinPrice = some (ps_Min ps), hs_MaxPrice = some (ps_Max ps),
          hs_PriceStddev = (if soldItems \<noteq> [] \<and> ps_Stddev ps > 0 then Some (ps_Stddev ps) else None),
          hs_SampleCount = int (length soldItems),
          hs_MinPriceItem = (if soldItems = [] then None else ps_MinItem ps),
          hs_MaxPriceItem = (if soldItems = [] then None else ps_MaxItem ps)\<rparr>)"

definition AggregateHourlyStats :: "mysql \<Rightarrow> 'd database \<Rightarrow> int \<Rightarrow> int \<Rightarrow> u64 \<Rightarrow> LiquidityResult option
    \<Rightarrow> PriceItemInfo list \<Rightarrow> ('s, 'd) world \<Rightarrow> HourlyStats option \<times> ('s, 'd) world" where
  "AggregateHourlyStats M D zone now ipID lr soldItems w =
     (let stats = hourly_stats zone now ipID lr soldItems in
      case upsertHourlyStats M D now stats w of (ok, w1) \<Rightarrow> (if ok then Some stats else None, w1))"

section \<open>Item snapshots\<close>

definition snapshot_of :: "mysql \<Rightarrow> u64 \<Rightarrow> int \<Rightarrow> Item \<Rightarrow> ItemSnapshot" where
  "snapshot_of M ipID now item =
     (let sold = (it_Status item = ITEM_STATUS_SOLD); t = col_ms M now
      in \<lparr>is_IPID = ipID, is_SourceID = it_SourceId item, is_Title = it_Title item,
          is_Price = ucast (it_Price item), is_Status = (if sold then ItemStatusSold else ItemStatusOnSale),
          is_ImageURL = it_ImageUrl item, is_ItemURL = it_ItemUrl item,
          is_FirstSeenAt = t, is_LastSeenAt = t, is_SoldAt = (if sold then Some t else None),
          is_PriceChanged = False, is_CreatedAt = t, is_UpdatedAt = t\<rparr>)"

definition snapshot_update :: "ItemSnapshot \<Rightarrow> ItemSnapshot \<Rightarrow> ItemSnapshot" where
  "snapshot_update new r = r\<lparr>is_LastSeenAt := is_LastSeenAt new, is_Price := is_Price new, is_Status := is_Status new,
     is_Title := is_Title new, is_ImageURL := is_ImageURL new, is_ItemURL := is_ItemURL new,
     is_UpdatedAt := is_UpdatedAt new\<rparr>"

definition same_item :: "ItemSnapshot \<Rightarrow> ItemSnapshot \<Rightarrow> bool" where
  "same_item a b = (is_IPID a = is_IPID b \<and> is_SourceID a = is_SourceID b)"

fun upsert_snapshots :: "ItemSnapshot list \<Rightarrow> ItemSnapshot list \<Rightarrow> ItemSnapshot list" where
  "upsert_snapshots [] rows = rows"
| "upsert_snapshots (n # ns) rows =
     upsert_snapshots ns (the (upsert (same_item n) (\<lambda>r. Some (snapshot_update n r)) n rows))"

text \<open>The batches of a hundred run in one transaction.\<close>

definition UpsertItemSnapshots :: "mysql \<Rightarrow> 'd database \<Rightarrow> int \<Rightarrow> CrawlResponse option \<Rightarrow> ('s, 'd) world
    \<Rightarrow> int option \<times> ('s, 'd) world" where
  "UpsertItemSnapshots M D now resp w = (case resp of None \<Rightarrow> (Some 0, w) | Some r \<Rightarrow>
     (let snapshots = map (snapshot_of M (resp_IpId r) now) (filter (\<lambda>i. it_SourceId i \<noteq> '''') (resp_Items r))
      in if resp_Items r = [] \<or> snapshots = [] then (Some 0, w)
         else ddo (\<lambda>d. (snapshot_rows M snapshots (item_snapshots D d),
                        put_item_snapshots D (upsert_snapshots snapshots (item_snapshots D d)) d)) w))"

section \<open>Queries\<close>

datatype db_error = DBError | ErrRecordNotFound

text \<open>\<open>First\<close> and \<open>Find\<close> on the rows a query selects, in the order it asks for.\<close>

definition db_first :: "('d \<Rightarrow> 'r list) \<Rightarrow> ('s, 'd) world \<Rightarrow> (db_error + 'r) \<times> ('s, 'd) world" where
  "db_first q w = (case ddo (readc q) w of (None, w1) \<Rightarrow> (Inl DBError, w1)
     | (Some [], w1) \<Rightarrow> (Inl ErrRecordNotFound, w1) | (Some (r # _), w1) \<Rightarrow> (Inr r, w1))"

definition GetHourlyStats :: "'d database \<Rightarrow> u64 \<Rightarrow> int \<Rightarrow> ('s, 'd) world \<Rightarrow> (db_error + IPStatsHourly) \<times> ('s, 'd) world" where
  "GetHourlyStats D ipID h = db_first (\<lambda>d. filter (hourly_key ipID h) (ip_stats_hourly D d))"

definition GetLatestHourlyStats :: "'d database \<Rightarrow> u64 \<Rightarrow> ('s, 'd) world \<Rightarrow> (db_error + IPStatsHourly) \<times> ('s, 'd) world" where
  "GetLatestHourlyStats D ipID = db_first (\<lambda>d. sort_key (\<lambda>r. - sh_HourBucket r)
     (filter (\<lambda>r. sh_IPID r = ipID) (ip_stats_hourly D d)))"

definition GetHourlyStatsRange :: "'d database \<Rightarrow> u64 \<Rightarrow> int \<Rightarrow> int \<Rightarrow> ('s, 'd) world \<Rightarrow> IPStatsHourly list option \<times> ('s, 'd) world" where
  "GetHourlyStatsRange D ipID start until = ddo (readc (\<lambda>d. sort_key (\<lambda>r. - sh_HourBucket r)
     (filter (\<lambda>r. sh_IPID r = ipID \<and> start \<le> sh_HourBucket r \<and> sh_HourBucket r < until) (ip_stats_hourly D d))))"

definition GetItemSnapshot :: "'d database \<Rightarrow> u64 \<Rightarrow> string \<Rightarrow> ('s, 'd) world \<Rightarrow> (db_error + ItemSnapshot) \<times> ('s, 'd) world" where
  "GetItemSnapshot D ipID sourceID = db_first (\<lambda>d. filter (\<lambda>r. is_IPID r = ipID \<and> is_SourceID r = sourceID) (item_snapshots D d))"

definition db_limit :: "int \<Rightarrow> 'r list \<Rightarrow> 'r list" where
  "db_limit limit rs = (if limit > 0 then take (nat limit) rs else rs)"

definition GetActiveItems :: "'d database \<Rightarrow> u64 \<Rightarrow> int \<Rightarrow> ('s, 'd) world \<Rightarrow> ItemSnapshot list option \<times> ('s, 'd) world" where
  "GetActiveItems D ipID limit = ddo (readc (\<lambda>d. db_limit limit (sort_key (\<lambda>r. - is_LastSeenAt r)
     (filter (\<lambda>r. is_IPID r = ipID \<and> is_Status r = ItemStatusOnSale) (item_snapshots D d)))))"

text \<open>A row without sale time does not satisfy \<open>sold_at >= ?\<close>.\<close>

definition GetRecentSoldItems :: "'d database \<Rightarrow> u64 \<Rightarrow> int \<Rightarrow> int \<Rightarrow> ('s, 'd) world \<Rightarrow> ItemSnapshot list option \<times> ('s, 'd) world" where
  "GetRecentSoldItems D ipID since limit = ddo (readc (\<lambda>d. db_limit limit (sort_key (\<lambda>r. - the (is_SoldAt r))
     (filter (\<lambda>r. is_IPID r = ipID \<and> is_Status r = ItemStatusSold \<and>
        (case is_SoldAt r of None \<Rightarrow> False | Some t \<Rightarrow> since \<le> t)) (item_snapshots D d)))))"

section \<open>IP row and alerts\<close>

text \<open>An update through the model leaves soft-deleted rows alone and sets \<open>updated_at\<close>.\<close>

definition UpdateIPLastCrawled :: "mysql \<Rightarrow> 'd database \<Rightarrow> int \<Rightarrow> u64 \<Rightarrow> ('s, 'd) world \<Rightarrow> unit option \<times> ('s, 'd) world" where
  "UpdateIPLastCrawled M D now ipID = ddo (writec (\<lambda>d. put_ip_metadata D
     (map (\<lambda>r. if ip_ID r = ipID \<and> ip_DeletedAt r = None
        then r\<lparr>ip_LastCrawledAt := Some (col_ms M now), ip_UpdatedAt := col_ms M now\<rparr> else r) (ip_metadata D d)) d))"

definition CreateAlert :: "mysql \<Rightarrow> 'd database \<Rightarrow> int \<Rightarrow> IPAlert \<Rightarrow> ('s, 'd) world \<Rightarrow> unit option \<times> ('s, 'd) world" where
  "CreateAlert M D now a = ddo (writec (\<lambda>d. put_ip_alerts D (ip_alerts D d @
     [a\<lparr>al_ID := alert_id M (ip_alerts D d), al_MetricValue := map_option (col_metric M) (al_MetricValue a),
        al_ThresholdValue := map_option (col_metric M) (al_ThresholdValue a), al_CreatedAt := col_ms M now\<rparr>]) d))"

definition utf8 :: "nat list \<Rightarrow> string" where
  "utf8 bs = map char_of bs"

text \<open>\<open>%.4f\<close>.\<close>

definition format_4f :: "rat \<Rightarrow> string" where
  "format_4f x = (let n = nat (round_even (\<bar>x\<bar> * 10000)); f = FormatNat (n mod 10000)
     in (if x < 0 then ''-'' else '''') @ FormatNat (n div 10000) @ ''.'' @ replicate (4 - length f) CHR ''0'' @ f)"

definition outflow_message :: "int \<Rightarrow> int \<Rightarrow> string" where
  "outflow_message n t =
     utf8 [0xE5, 0x87, 0xBA, 0xE8, 0xB4, 0xA7, 0xE9, 0x87, 0x8F, 0xE8, 0xBE, 0xBE, 0xE5, 0x88, 0xB0, 0x20] @ FormatInt n @
     utf8 [0xEF, 0xBC, 0x8C, 0xE8, 0xB6, 0x85, 0xE8, 0xBF, 0x87, 0xE9, 0x98, 0x88, 0xE5, 0x80, 0xBC, 0x20] @ FormatInt t"

definition liquidity_prefix :: string where
  "liquidity_prefix = utf8 [0xE6, 0xB5, 0x81, 0xE5, 0x8A, 0xA8, 0xE6, 0x80, 0xA7, 0xE6, 0x8C, 0x87, 0xE6, 0x95, 0xB0, 0x20]"

definition low_message :: "rat \<Rightarrow> rat \<Rightarrow> string" where
  "low_message x t = liquidity_prefix @ format_4f x @
     utf8 [0xEF, 0xBC, 0x8C, 0xE4, 0xBD, 0x8E, 0xE4, 0xBA, 0x8E, 0xE9, 0x98, 0x88, 0xE5, 0x80, 0xBC, 0x20] @ format_4f t"

definition surge_message :: "rat \<Rightarrow> rat \<Rightarrow> string" where
  "surge_message x t = liquidity_prefix @ format_4f x @
     utf8 [0xEF, 0xBC, 0x8C, 0xE8, 0xB6, 0x85, 0xE8, 0xBF, 0x87, 0xE9, 0x98, 0x88, 0xE5, 0x80, 0xBC, 0x20] @ format_4f t @
     utf8 [0x20, 0x28, 0xE4, 0xBE, 0x9B, 0xE4, 0xB8, 0x8D, 0xE5, 0xBA, 0x94, 0xE6, 0xB1, 0x82, 0x29]"

definition new_alert :: "u64 \<Rightarrow> int \<Rightarrow> AlertType \<Rightarrow> AlertSeverity \<Rightarrow> string \<Rightarrow> rat \<Rightarrow> rat \<Rightarrow> IPAlert" where
  "new_alert ipID hour ty sev msg v t = \<lparr>al_ID = 0, al_IPID = ipID, al_AlertType = ty, al_Severity = sev,
     al_Message = msg, al_MetricValue = Some v, al_ThresholdValue = Some t, al_HourBucket = hour,
     al_Acknowledged = False, al_AcknowledgedAt = None, al_CreatedAt = 0\<rparr>"

text \<open>The alerts the three checks ask for, in their order.\<close>

definition due_alerts :: "int \<Rightarrow> u64 \<Rightarrow> HourlyStats \<Rightarrow> AlertThresholds \<Rightarrow> IPAlert list" where
  "due_alerts hour ipID s th =
     (if at_HighOutflow th > 0 \<and> hs_Outflow s \<ge> at_HighOutflow th
      then [new_alert ipID hour AlertTypeHighOutflow AlertSeverityWarning
              (outflow_message (hs_Outflow s) (at_HighOutflow th))
              (f64_of_int (hs_Outflow s)) (f64_of_int (at_HighOutflow th))] else []) @
     (case hs_LiquidityIndex s of None \<Rightarrow> [] | Some li \<Rightarrow>
        (if at_LowLiquidity th > 0 \<and> li < at_LowLiquidity th
         then [new_alert ipID hour AlertTypeLowLiquidity AlertSeverityInfo
                 (low_message li (at_LowLiquidity th)) li (at_LowLiquidity th)] else []) @
        (if at_HighLiquidity th > 0 \<and> li > at_HighLiquidity th
         then [new_alert ipID hour AlertTypeSurge AlertSeverityCritical
                 (surge_message li (at_HighLiquidity th)) li (at_HighLiquidity th)] else []))"

text \<open>They are created one after the other; the first error ends the routine.\<close>

fun create_alerts :: "mysql \<Rightarrow> 'd database \<Rightarrow> int \<Rightarrow> IPAlert list \<Rightarrow> ('s, 'd) world \<Rightarrow> unit option \<times> ('s, 'd) world" where
  "create_alerts M D now [] w = (Some (), w)"
| "create_alerts M D now (a # as) w = (case CreateAlert M D now a w of
     (None, w1) \<Rightarrow> (None, w1) | (Some _, w1) \<Rightarrow> create_alerts M D now as w1)"

definition CheckAndCreateAlerts :: "mysql \<Rightarrow> 'd database \<Rightarrow> int \<Rightarrow> int \<Rightarrow> u64 \<Rightarrow> HourlyStats \<Rightarrow> AlertThresholds
    \<Rightarrow> ('s, 'd) world \<Rightarrow> unit option \<times> ('s, 'd) world" where
  "CheckAndCreateAlerts M D zone now ipID s th w = create_alerts M D now (due_alerts (truncateToHour zone now) ipID s th) w"

section \<open>Lemmas on prices\<close>

declare of_int_sint [simp del]

lemma f64_of_i32_exact: "f64_of_i32 p = of_int (sint p)"
proof -
  have "- (2 ^ 31) \<le> sint p" "sint p < 2 ^ 31" using sint_ge [of p] sint_lt [of p] by simp_all
  then show ?thesis unfolding f64_of_i32_def f64_of_int_def by (intro rnd64_of_int) simp
qed

lemma i32_bound: "\<bar>sint (p :: i32)\<bar> \<le> 2 ^ 31"
  using sint_ge [of p] sint_lt [of p] by simp

lemma fadd_int: "\<bar>a + b\<bar> \<le> 2 ^ 53 \<Longrightarrow> fadd (of_int a) (of_int b) = of_int (a + b)"
  unfolding fadd_def of_int_add [symmetric] by (rule rnd64_of_int)

text \<open>What the loop computes: the float sum of up to four million prices is exact.\<close>

definition loop_ok :: "PriceItemInfo list \<Rightarrow> int \<Rightarrow> PriceItemInfo \<Rightarrow> PriceItemInfo
    \<Rightarrow> (rat \<times> rat \<times> rat) \<times> (PriceItemInfo \<times> PriceItemInfo) \<Rightarrow> bool" where
  "loop_ok is s mi ma res = (case res of ((s', mn, mx), (mi', ma')) \<Rightarrow>
     s' = of_int (s + (\<Sum>i\<leftarrow>is. sint (pii_Price i))) \<and>
     mn = of_int (sint (pii_Price mi')) \<and> mx = of_int (sint (pii_Price ma')) \<and>
     mi' \<in> insert mi (set is) \<and> ma' \<in> insert ma (set is) \<and>
     (\<forall>i \<in> insert mi (set is). sint (pii_Price mi') \<le> sint (pii_Price i)) \<and>
     (\<forall>i \<in> insert ma (set is). sint (pii_Price i) \<le> sint (pii_Price ma')))"

lemma loop_ok_Cons:
  assumes "loop_ok is (s + sint (pii_Price i)) (if sint (pii_Price i) < sint (pii_Price mi) then i else mi)
      (if sint (pii_Price ma) < sint (pii_Price i) then i else ma) res"
  shows "loop_ok (i # is) s mi ma res"
proof -
  obtain s' mn mx mi' ma' where r: "res = ((s', mn, mx), (mi', ma'))" by (metis surj_pair)
  show ?thesis using assms unfolding r loop_ok_def prod.case list.map sum_list.Cons list.set
    by (auto split: if_splits)
qed

lemma price_loop_ok:
  assumes "\<bar>s\<bar> + 2 ^ 31 * int (length is) \<le> 2 ^ 53"
  shows "loop_ok is s mi ma (price_loop (mi, ma) (of_int s, of_int (sint (pii_Price mi)), of_int (sint (pii_Price ma))) is)"
  using assms
proof (induction "is" arbitrary: s mi ma)
  case Nil
  then show ?case by (simp add: loop_ok_def)
next
  case (Cons i "is")
  let ?p = "sint (pii_Price i)"
  have b: "\<bar>s + ?p\<bar> + 2 ^ 31 * int (length is) \<le> 2 ^ 53" using Cons.prems i32_bound [of "pii_Price i"] by simp
  then have f: "fadd (of_int s) (of_int ?p) = of_int (s + ?p)" by (intro fadd_int) simp
  have "price_loop (mi, ma) (of_int s, of_int (sint (pii_Price mi)), of_int (sint (pii_Price ma))) (i # is) =
      price_loop (if ?p < sint (pii_Price mi) then i else mi, if sint (pii_Price ma) < ?p then i else ma)
        (of_int (s + ?p), of_int (sint (pii_Price (if ?p < sint (pii_Price mi) then i else mi))),
         of_int (sint (pii_Price (if sint (pii_Price ma) < ?p then i else ma)))) is"
    by (simp add: f64_of_i32_exact f Let_def del: of_int_add)
  then show ?case using loop_ok_Cons [OF Cons.IH [OF b]] by (simp only:)
qed

lemma sum_between:
  fixes f :: "'a \<Rightarrow> int"
  assumes "\<forall>x \<in> set xs. a \<le> f x \<and> f x \<le> b"
  shows "a * int (length xs) \<le> sum_list (map f xs) \<and> sum_list (map f xs) \<le> b * int (length xs)"
  using assms by (induction xs) (auto simp: algebra_simps)

text \<open>A rounded quotient stays between two integers that bound the exact one.\<close>

lemma fdiv_between:
  assumes "0 < n" "n \<le> 2 ^ 53" "\<bar>a\<bar> \<le> 2 ^ 53" "\<bar>b\<bar> \<le> 2 ^ 53" "a * n \<le> s" "s \<le> b * n"
  shows "of_int a \<le> fdiv (of_int s) (f64_of_int n) \<and> fdiv (of_int s) (f64_of_int n) \<le> of_int b"
proof -
  have n: "f64_of_int n = of_int n" unfolding f64_of_int_def using assms by (intro rnd64_of_int) simp
  have "(of_int a :: rat) \<le> of_int s / of_int n" "of_int s / of_int n \<le> (of_int b :: rat)"
    using assms(1,5,6) by (simp_all add: pos_le_divide_eq pos_divide_le_eq flip: of_int_mult)
  then show ?thesis unfolding n fdiv_def using rnd64_mono rnd64_of_int assms(3,4) by metis
qed

lemma median_between:
  assumes "ps \<noteq> []" "\<forall>p \<in> set ps. a \<le> sint p \<and> sint p \<le> b" "- (2 ^ 30) \<le> a" "b < 2 ^ 30"
  shows "of_int a \<le> price_median ps \<and> price_median ps \<le> of_int b"
proof -
  define qs where "qs = sort_key sint ps"
  have len: "length qs = length ps" and qs: "set qs = set ps" by (simp_all add: qs_def)
  have in_range: "a \<le> sint (qs ! k) \<and> sint (qs ! k) \<le> b" if "k < length qs" for k
    using assms(2) nth_mem [OF that] unfolding qs by blast
  let ?n = "length qs"
  have n: "0 < ?n" using assms(1) len by simp
  show ?thesis
  proof (cases "?n mod 2 = 0")
    case False
    then show ?thesis using in_range [of "?n div 2"] n
      by (simp add: price_median_def qs_def [symmetric] Let_def f64_of_i32_exact)
  next
    case True
    let ?x = "qs ! (?n div 2 - 1)" and ?y = "qs ! (?n div 2)"
    have k: "?n div 2 - 1 < ?n" "?n div 2 < ?n" using n by linarith+
    have x: "a \<le> sint ?x" "sint ?x \<le> b" and y: "a \<le> sint ?y" "sint ?y \<le> b"
      using in_range [OF k(1)] in_range [OF k(2)] by simp_all
    have "sint (?x + ?y) = sint ?x + sint ?y"
      unfolding sint_word_ariths(1) by (rule signed_take_bit_int_eq_self) (use x y assms(3,4) in simp_all)
    then have m: "price_median ps = fdiv (of_int (sint ?x + sint ?y)) (f64_of_int 2)"
      using True by (simp add: price_median_def qs_def [symmetric] Let_def f64_of_i32_exact f64_of_int_def)
    show ?thesis unfolding m by (rule fdiv_between) (use x y assms(3,4) in simp_all)
  qed
qed

lemma plain_loop_price_loop:
  "plain_loop v (map pii_Price is) = fst (price_loop m v is)"
proof (induction "is" arbitrary: v m)
  case Nil
  then show ?case by (cases v; cases m) auto
next
  case (Cons i "is")
  then show ?case by (cases v; cases m) (simp add: Let_def)
qed

section \<open>Hourly rows\<close>

lemma hourly_assign_key:
  "hourly_assign M s c r = Some r' \<Longrightarrow> sh_IPID r' = sh_IPID r \<and> sh_HourBucket r' = sh_HourBucket r \<and> sh_CreatedAt r' = sh_CreatedAt r"
  by (auto simp: hourly_assign_def Let_def split: hourly_column.splits if_splits)

text \<open>Each column is touched by its own assignment only.\<close>

lemma hourly_assign_frame:
  assumes "hourly_assign M s c r = Some r'"
  shows "c \<noteq> c_inflow \<Longrightarrow> sh_Inflow r' = sh_Inflow r" "c \<noteq> c_outflow \<Longrightarrow> sh_Outflow r' = sh_Outflow r"
    "c \<noteq> c_sample_count \<Longrightarrow> sh_SampleCount r' = sh_SampleCount r"
    "c \<noteq> c_min_price \<Longrightarrow> sh_MinPrice r' = sh_MinPrice r" "c \<noteq> c_max_price \<Longrightarrow> sh_MaxPrice r' = sh_MaxPrice r"
  using assms by (auto simp: hourly_assign_def Let_def split: hourly_column.splits if_splits)

text \<open>A column with one assignment in the order gets the value of that assignment.\<close>

lemma hourly_update_once:
  assumes "hourly_update M s cs r = Some r'" "distinct cs"
    and f: "\<And>c r r'. hourly_assign M s c r = Some r' \<Longrightarrow> c \<noteq> k \<Longrightarrow> f r' = f r"
    and k: "\<And>r r'. hourly_assign M s k r = Some r' \<Longrightarrow> f r' = g (f r)"
  shows "f r' = (if k \<in> set cs then g (f r) else f r)"
  using assms(1,2)
proof (induction cs arbitrary: r)
  case (Cons c cs)
  then obtain r1 where r1: "hourly_assign M s c r = Some r1" "hourly_update M s cs r1 = Some r'"
    by (auto split: option.splits)
  have "f r' = (if k \<in> set cs then g (f r1) else f r1)" using Cons.IH [OF r1(2)] Cons.prems(2) by simp
  then show ?case using f [OF r1(1)] k [of r r1] r1(1) Cons.prems(2) by (cases "c = k") auto
qed simp

definition min_opt :: "(rat \<Rightarrow> rat) \<Rightarrow> rat option \<Rightarrow> rat option \<Rightarrow> rat option" where
  "min_opt col new old = (if smaller new old then map_option col new else old)"

definition max_opt :: "(rat \<Rightarrow> rat) \<Rightarrow> rat option \<Rightarrow> rat option \<Rightarrow> rat option" where
  "max_opt col new old = (if larger new old then map_option col new else old)"

lemma col_u32_SomeD: "col_u32 n = Some x \<Longrightarrow> uint x = n"
  by (auto simp: col_u32_def unsigned_of_int take_bit_int_eq_self split: if_splits)

lemma hourly_assign_own:
  "hourly_assign M s c_inflow r = Some r' \<Longrightarrow> uint (sh_Inflow r') = uint (sh_Inflow r) + hs_Inflow s"
  "hourly_assign M s c_outflow r = Some r' \<Longrightarrow> uint (sh_Outflow r') = uint (sh_Outflow r) + hs_Outflow s"
  "hourly_assign M s c_sample_count r = Some r' \<Longrightarrow> uint (sh_SampleCount r') = uint (sh_SampleCount r) + hs_SampleCount s"
  "hourly_assign M s c_min_price r = Some r' \<Longrightarrow> sh_MinPrice r' = min_opt (col_price M) (hs_MinPrice s) (sh_MinPrice r)"
  "hourly_assign M s c_max_price r = Some r' \<Longrightarrow> sh_MaxPrice r' = max_opt (col_price M) (hs_MaxPrice s) (sh_MaxPrice r)"
  by (auto simp: hourly_assign_def min_opt_def max_opt_def dest: col_u32_SomeD)

lemma hourly_update_sums:
  assumes "hourly_update M s cs r = Some r'" "distinct cs" "set cs = UNIV"
  shows "uint (sh_Inflow r') = uint (sh_Inflow r) + hs_Inflow s"
    and "uint (sh_Outflow r') = uint (sh_Outflow r) + hs_Outflow s"
    and "uint (sh_SampleCount r') = uint (sh_SampleCount r) + hs_SampleCount s"
    and "sh_MinPrice r' = min_opt (col_price M) (hs_MinPrice s) (sh_MinPrice r)"
    and "sh_MaxPrice r' = max_opt (col_price M) (hs_MaxPrice s) (sh_MaxPrice r)"
proof -
  note once = hourly_update_once [OF assms(1,2), unfolded assms(3), simplified]
  show "uint (sh_Inflow r') = uint (sh_Inflow r) + hs_Inflow s"
    by (rule once [where k = c_inflow and g = "\<lambda>n. n + hs_Inflow s"])
      (simp_all add: hourly_assign_frame(1) hourly_assign_own(1))
  show "uint (sh_Outflow r') = uint (sh_Outflow r) + hs_Outflow s"
    by (rule once [where k = c_outflow and g = "\<lambda>n. n + hs_Outflow s"])
      (simp_all add: hourly_assign_frame(2) hourly_assign_own(2))
  show "uint (sh_SampleCount r') = uint (sh_SampleCount r) + hs_SampleCount s"
    by (rule once [where k = c_sample_count and g = "\<lambda>n. n + hs_SampleCount s"])
      (simp_all add: hourly_assign_frame(3) hourly_assign_own(3))
  show "sh_MinPrice r' = min_opt (col_price M) (hs_MinPrice s) (sh_MinPrice r)"
    by (rule once [where k = c_min_price and g = "min_opt (col_price M) (hs_MinPrice s)"])
      (simp_all add: hourly_assign_frame(4) hourly_assign_own(4))
  show "sh_MaxPrice r' = max_opt (col_price M) (hs_MaxPrice s) (sh_MaxPrice r)"
    by (rule once [where k = c_max_price and g = "max_opt (col_price M) (hs_MaxPrice s)"])
      (simp_all add: hourly_assign_frame(5) hourly_assign_own(5))
qed

section \<open>Upserts\<close>

text \<open>A table with a key, seen as a map; \<open>f\<close> is what the map shows of a row.\<close>

definition keyed :: "('r \<Rightarrow> 'k) \<Rightarrow> ('r \<Rightarrow> 'v) \<Rightarrow> 'r list \<Rightarrow> 'k \<rightharpoonup> 'v" where
  "keyed key f rs = map_of (map (\<lambda>r. (key r, f r)) rs)"

lemma keyed_set:
  assumes "distinct (map key rs)" "mset rs' = mset rs"
  shows "keyed key f rs' = keyed key f rs" "distinct (map key rs')"
proof -
  have "mset (map key rs') = mset (map key rs)" using assms(2) by simp
  then show d: "distinct (map key rs')" using assms(1) mset_eq_imp_distinct_iff by blast
  have s: "set rs' = set rs" using assms(2) by (metis set_mset_mset)
  show "keyed key f rs' = keyed key f rs" unfolding keyed_def
    by (subst map_of_inject_set) (use d assms(1) s in \<open>simp_all add: comp_def\<close>)
qed

lemma upsert_keyed:
  assumes "upsert (\<lambda>r. key r = k) u new rs = Some rs'" "key new = k"
    and "\<And>r r'. u r = Some r' \<Longrightarrow> key r' = key r \<and> f r' = g (f r)"
  shows "keyed key f rs' = (keyed key f rs)(k \<mapsto> (case keyed key f rs k of None \<Rightarrow> f new | Some v \<Rightarrow> g v))"
  using assms(1)
proof (induction rs arbitrary: rs')
  case Nil
  then show ?case using assms(2) by (auto simp: keyed_def)
next
  case (Cons r rs)
  show ?case
  proof (cases "key r = k")
    case True
    then show ?thesis using Cons.prems assms(3) by (auto simp: keyed_def)
  next
    case False
    then obtain rs1 where "upsert (\<lambda>r. key r = k) u new rs = Some rs1" "rs' = r # rs1" using Cons.prems by auto
    then show ?thesis using Cons.IH False by (auto simp: keyed_def fun_upd_twist)
  qed
qed

lemma upsert_keys:
  assumes "upsert (\<lambda>r. key r = k) u new rs = Some rs'" "key new = k" "\<And>r r'. u r = Some r' \<Longrightarrow> key r' = key r"
  shows "map key rs' = map key rs @ (if k \<in> key ` set rs then [] else [k])"
  using assms(1)
proof (induction rs arbitrary: rs')
  case Nil
  then show ?case using assms(2) by auto
next
  case (Cons r rs)
  then show ?case using assms(3) by (auto split: if_splits)
qed

lemma upsert_distinct:
  assumes "upsert (\<lambda>r. key r = k) u new rs = Some rs'" "key new = k" "\<And>r r'. u r = Some r' \<Longrightarrow> key r' = key r"
    and "distinct (map key rs)"
  shows "distinct (map key rs')"
  using assms(4) upsert_keys [of key k u new rs rs', OF assms(1-3)] by auto

section \<open>Properties\<close>

text \<open>
  The price statistics of the sold items: the minimum and the maximum are prices of the items
  reported with them and bound all prices, and the average, summed and divided in floating point, and
  the median lie between them.
\<close>

theorem price_stats_correct:
  assumes "items \<noteq> []" and "length items \<le> 2 ^ 22" and "\<forall>i \<in> set items. 0 \<le> sint (pii_Price i) \<and> sint (pii_Price i) < 2 ^ 30"
    and "st = calculatePriceStatsWithItems items"
  shows "\<exists>mi \<in> set items. \<exists>ma \<in> set items. ps_MinItem st = Some mi \<and> ps_MaxItem st = Some ma \<and>
    ps_Min st = of_int (sint (pii_Price mi)) \<and> ps_Max st = of_int (sint (pii_Price ma)) \<and>
    (\<forall>i \<in> set items. sint (pii_Price mi) \<le> sint (pii_Price i) \<and> sint (pii_Price i) \<le> sint (pii_Price ma)) \<and>
    ps_Min st \<le> ps_Avg st \<and> ps_Avg st \<le> ps_Max st \<and> ps_Min st \<le> ps_Median st \<and> ps_Median st \<le> ps_Max st"
proof -
  obtain i0 rest where i0: "items = i0 # rest" using assms(1) by (cases items) auto
  let ?n = "int (length items)"
  have n: "0 < ?n" "?n \<le> 2 ^ 22" using assms(1,2) i0 by simp_all
  obtain s mn mx mi ma where r: "price_loop (i0, i0) (0, f64_of_i32 (pii_Price i0), f64_of_i32 (pii_Price i0)) items = ((s, mn, mx), (mi, ma))"
    by (metis surj_pair)
  have "loop_ok items 0 i0 i0 ((s, mn, mx), (mi, ma))"
    using price_loop_ok [of 0 items i0 i0] n r by (simp add: f64_of_i32_exact)
  then have l: "s = of_int (\<Sum>i\<leftarrow>items. sint (pii_Price i))" "mn = of_int (sint (pii_Price mi))" "mx = of_int (sint (pii_Price ma))"
    "mi \<in> set items" "ma \<in> set items"
    "\<forall>i \<in> set items. sint (pii_Price mi) \<le> sint (pii_Price i) \<and> sint (pii_Price i) \<le> sint (pii_Price ma)"
    using i0 by (auto simp: loop_ok_def)
  have st: "ps_Min st = mn" "ps_Max st = mx" "ps_MinItem st = Some mi" "ps_MaxItem st = Some ma"
    "ps_Avg st = fdiv s (f64_of_int ?n)" "ps_Median st = price_median (map pii_Price items)"
    using r unfolding assms(4) calculatePriceStatsWithItems_def i0 by (simp_all add: Let_def)
  have av: "mn \<le> ps_Avg st \<and> ps_Avg st \<le> mx" unfolding st l(1-3)
    by (rule fdiv_between) (use n l assms(3) sum_between [of items, OF l(6)] in auto)
  have md: "mn \<le> ps_Median st \<and> ps_Median st \<le> mx" unfolding st l(2,3)
    by (rule median_between) (use assms l in fastforce)+
  show ?thesis by (intro bexI [OF _ l(4)] bexI [OF _ l(5)] conjI l(6)) (use st l(2,3) av md in simp_all)
qed

definition sample_sold :: "string \<Rightarrow> int \<Rightarrow> PriceItemInfo" where
  "sample_sold s p = \<lparr>pii_SourceID = s, pii_Title = '''', pii_Price = word_of_int p, pii_ImageURL = '''', pii_ItemURL = ''''\<rparr>"

definition sample_solds :: "PriceItemInfo list" where
  "sample_solds = [sample_sold ''m1'' 300, sample_sold ''m2'' 120, sample_sold ''m3'' 801, sample_sold ''m4'' 500]"

theorem price_stats_correct_witness:
  "ps_Min (calculatePriceStatsWithItems sample_solds) \<le> ps_Avg (calculatePriceStatsWithItems sample_solds) \<and>
   ps_Median (calculatePriceStatsWithItems sample_solds) = 400"
proof -
  have f: "sample_solds \<noteq> []" "length sample_solds \<le> 2 ^ 22"
    "\<forall>i \<in> set sample_solds. 0 \<le> sint (pii_Price i) \<and> sint (pii_Price i) < 2 ^ 30"
    by (simp add: sample_solds_def, simp add: sample_solds_def, code_simp)
  have m: "ps_Median (calculatePriceStatsWithItems sample_solds) = 400" by code_simp
  show ?thesis using price_stats_correct [OF f refl] m by blast
qed

text \<open>The totals of an hour: new listings, sales, samples, lowest and highest price.\<close>

type_synonym totals = "int \<times> int \<times> int \<times> rat option \<times> rat option"

definition totals_of :: "IPStatsHourly \<Rightarrow> totals" where
  "totals_of r = (uint (sh_Inflow r), uint (sh_Outflow r), uint (sh_SampleCount r), sh_MinPrice r, sh_MaxPrice r)"

definition hour_key :: "IPStatsHourly \<Rightarrow> u64 \<times> int" where
  "hour_key r = (sh_IPID r, sh_HourBucket r)"

definition hour_totals :: "IPStatsHourly list \<Rightarrow> u64 \<times> int \<rightharpoonup> totals" where
  "hour_totals = keyed hour_key totals_of"

definition add_totals :: "mysql \<Rightarrow> HourlyStats \<Rightarrow> totals option \<Rightarrow> totals" where
  "add_totals M s t = (case t of
     None \<Rightarrow> (hs_Inflow s, hs_Outflow s, hs_SampleCount s,
        map_option (col_price M) (hs_MinPrice s), map_option (col_price M) (hs_MaxPrice s))
   | Some (i, out, n, mn, mx) \<Rightarrow> (i + hs_Inflow s, out + hs_Outflow s, n + hs_SampleCount s,
        min_opt (col_price M) (hs_MinPrice s) mn, max_opt (col_price M) (hs_MaxPrice s) mx))"

lemma hourly_update_key:
  "hourly_update M s cs r = Some r' \<Longrightarrow> hour_key r' = hour_key r"
  by (induction cs arbitrary: r) (auto simp: hour_key_def dest: hourly_assign_key split: option.splits)

lemma hourly_update_totals:
  assumes "hourly_update M s (hourly_order M) r = Some r'" "distinct (hourly_order M)" "set (hourly_order M) = UNIV"
  shows "totals_of r' = add_totals M s (Some (totals_of r))"
  using hourly_update_sums [OF assms] by (simp add: totals_of_def add_totals_def)

lemma hourly_record_totals:
  assumes "0 \<le> hs_Inflow s" "hs_Inflow s < 2 ^ 32" "0 \<le> hs_Outflow s" "hs_Outflow s < 2 ^ 32"
    "0 \<le> hs_SampleCount s" "hs_SampleCount s < 2 ^ 32"
  shows "totals_of (hourly_record M now s) = add_totals M s None"
  using assms by (simp add: totals_of_def add_totals_def hourly_record_def unsigned_of_int take_bit_int_eq_self)

lemma hourly_upsert_totals:
  assumes "upsert (hourly_key (hs_IPID s) (hs_HourBucket s)) (hourly_update M s (hourly_order M)) (hourly_record M now s) rs = Some rs'"
    and "distinct (hourly_order M)" "set (hourly_order M) = UNIV" "totals_of (hourly_record M now s) = add_totals M s None"
  shows "hour_totals rs' = (hour_totals rs)((hs_IPID s, hs_HourBucket s) \<mapsto> add_totals M s (hour_totals rs (hs_IPID s, hs_HourBucket s)))"
    and "distinct (map hour_key rs) \<Longrightarrow> distinct (map hour_key rs')"
proof -
  let ?k = "(hs_IPID s, hs_HourBucket s)"
  have P: "hourly_key (hs_IPID s) (hs_HourBucket s) = (\<lambda>r. hour_key r = ?k)"
    by (auto simp: hourly_key_def hour_key_def)
  have new: "hour_key (hourly_record M now s) = ?k" by (simp add: hour_key_def hourly_record_def)
  have u: "hour_key r' = hour_key r \<and> totals_of r' = (\<lambda>v. add_totals M s (Some v)) (totals_of r)"
    if "hourly_update M s (hourly_order M) r = Some r'" for r r'
    using that hourly_update_key hourly_update_totals [OF that assms(2,3)] by blast
  show "hour_totals rs' = (hour_totals rs)(?k \<mapsto> add_totals M s (hour_totals rs ?k))"
    using upsert_keyed [of hour_key ?k _ _ rs rs' totals_of, OF assms(1) [unfolded P] new u] assms(4)
    unfolding hour_totals_def by (auto split: option.splits)
  show "distinct (map hour_key rs')" if "distinct (map hour_key rs)"
    using upsert_distinct [of hour_key ?k _ _ rs rs', OF assms(1) [unfolded P] new _ that] u by blast
qed

lemma upsertHourlyStats_quiet:
  assumes "quiet w" "upsertHourlyStats M D now s w = (True, w')"
  shows "\<exists>rs'. upsert (hourly_key (hs_IPID s) (hs_HourBucket s)) (hourly_update M s (hourly_order M)) (hourly_record M now s)
      (ip_stats_hourly D (db_st w)) = Some rs' \<and> db_st w' = put_ip_stats_hourly D rs' (db_st w)"
  using assms(2) unfolding upsertHourlyStats_def
  by (auto simp: ddo_quiet [OF assms(1)] split: option.splits)

definition flows_ok :: "LiquidityResult option \<Rightarrow> PriceItemInfo list \<Rightarrow> bool" where
  "flows_ok lr soldItems = (int (length soldItems) < 2 ^ 32 \<and> (case lr of None \<Rightarrow> True
     | Some l \<Rightarrow> 0 \<le> lr_OnSaleInflow l \<and> lr_OnSaleInflow l < 2 ^ 32 \<and> 0 \<le> lr_SoldInflow l \<and> lr_SoldInflow l < 2 ^ 32))"

text \<open>
  (C7) The hourly table implements totals per IP and hour: seen as a map from IP and hour to totals, a
  successful call of \<open>AggregateHourlyStats\<close> adds its counts and widens the price range of its own hour,
  creating it if need be, and changes no other hour; each IP keeps at most one row per hour. This holds for
  every order in which the database evaluates the assignments of the update.
\<close>

theorem AggregateHourlyStats_refines:
  assumes "sql_database D" and "quiet w" and "distinct (map hour_key (ip_stats_hourly D (db_st w)))"
    and "distinct (hourly_order M)" and "set (hourly_order M) = UNIV" and "flows_ok lr soldItems"
    and "AggregateHourlyStats M D zone now ipID lr soldItems w = (Some s, w')"
  shows "distinct (map hour_key (ip_stats_hourly D (db_st w'))) \<and>
    hour_totals (ip_stats_hourly D (db_st w')) =
      (hour_totals (ip_stats_hourly D (db_st w)))((ipID, truncateToHour zone now) \<mapsto>
         add_totals M s (hour_totals (ip_stats_hourly D (db_st w)) (ipID, truncateToHour zone now)))"
proof -
  let ?s = "hourly_stats zone now ipID lr soldItems" and ?rs = "ip_stats_hourly D (db_st w)"
  have s: "s = ?s" using assms(7) by (auto simp: AggregateHourlyStats_def Let_def split: prod.splits if_splits)
  have k: "hs_IPID s = ipID" "hs_HourBucket s = truncateToHour zone now" by (simp_all add: s hourly_stats_def Let_def)
  have new: "totals_of (hourly_record M now s) = add_totals M s None"
    by (rule hourly_record_totals) (use assms(6) in \<open>auto simp: s hourly_stats_def Let_def flows_ok_def split: option.splits\<close>)
  obtain rs' where u: "upsert (hourly_key (hs_IPID s) (hs_HourBucket s)) (hourly_update M s (hourly_order M)) (hourly_record M now s) ?rs = Some rs'"
    and w': "db_st w' = put_ip_stats_hourly D rs' (db_st w)"
  proof -
    have "upsertHourlyStats M D now s w = (True, w')"
      using assms(7) unfolding s AggregateHourlyStats_def Let_def by (auto split: prod.splits if_splits)
    from upsertHourlyStats_quiet [OF assms(2) this] show thesis using that by blast
  qed
  note h = hourly_upsert_totals [OF u assms(4,5) new]
  have m: "mset (ip_stats_hourly D (db_st w')) = mset rs'" unfolding w' by (rule sql_database.put_hourly [OF assms(1)])
  show ?thesis using keyed_set(2) [OF h(2) [OF assms(3)] m] h(1) unfolding k
    by (simp add: hour_totals_def keyed_set(1) [OF h(2) [OF assms(3)] m])
qed

definition alphabetical :: "hourly_column list" where
  "alphabetical = [c_active_count, c_avg_price, c_inflow, c_liquidity_index, c_max_price, c_max_price_item,
     c_median_price, c_min_price, c_min_price_item, c_outflow, c_price_stddev, c_sample_count]"

definition sample_mysql :: mysql where
  "sample_mysql = \<lparr>col_price = (\<lambda>x. x), col_index = (\<lambda>x. x), col_metric = (\<lambda>x. x), col_weight = (\<lambda>x. x),
     col_ms = (\<lambda>t. t), hourly_order = alphabetical, snapshot_rows = (\<lambda>ns _. int (length ns)),
     alert_id = (\<lambda>as. of_nat (length as + 1))\<rparr>"

definition sample_flow :: "int \<Rightarrow> int \<Rightarrow> LiquidityResult" where
  "sample_flow i out = \<lparr>lr_IpID = 7, lr_Timestamp = 0, lr_OnSaleInflow = i, lr_OnSaleOutflow = 0, lr_OnSaleTotal = 0,
     lr_SoldInflow = out, lr_SoldTotal = 0, lr_LiquidityIndex = of_int out / of_int i\<rparr>"

definition db_world :: "tables \<Rightarrow> (unit, tables) world" where
  "db_world d = \<lparr>redis_st = (), db_st = d, outcomes = []\<rparr>"

text \<open>Two results in the same hour.\<close>

definition sample_hour :: "(unit, tables) world" where
  "sample_hour = snd (AggregateHourlyStats sample_mysql mem_db JST 100 7 (Some (sample_flow 10 2)) [sample_sold ''m1'' 300] (db_world no_tables))"

lemma alphabetical_complete: "distinct alphabetical" "set alphabetical = UNIV"
proof -
  have "c \<in> set alphabetical" for c by (cases c) (simp_all add: alphabetical_def)
  then show "set alphabetical = UNIV" by blast
qed (simp add: alphabetical_def)

theorem AggregateHourlyStats_refines_witness:
  "hour_totals (ip_stats_hourly mem_db (db_st (snd (AggregateHourlyStats sample_mysql mem_db JST 200 7
     (Some (sample_flow 6 4)) [sample_sold ''m2'' 120] sample_hour)))) (7, truncateToHour JST 200)
   = Some (16, 6, 2, Some 120, Some 300)"
proof -
  let ?lr = "Some (sample_flow 6 4)" and ?it = "[sample_sold ''m2'' 120]"
  let ?a = "AggregateHourlyStats sample_mysql mem_db JST 200 7 ?lr ?it sample_hour"
  have q: "quiet sample_hour" "distinct (map hour_key (ip_stats_hourly mem_db (db_st sample_hour)))"
    "flows_ok ?lr ?it" by code_simp+
  have o: "distinct (hourly_order sample_mysql)" "set (hourly_order sample_mysql) = UNIV"
    using alphabetical_complete by (simp_all add: sample_mysql_def)
  have "fst ?a \<noteq> None" by code_simp
  then have s: "?a = (Some (the (fst ?a)), snd ?a)" by (cases ?a) auto
  have t: "add_totals sample_mysql (the (fst ?a)) (hour_totals (ip_stats_hourly mem_db (db_st sample_hour)) (7, truncateToHour JST 200))
    = (16, 6, 2, Some 120, Some 300)" by code_simp
  show ?thesis using AggregateHourlyStats_refines [OF memdb.sql_database_axioms q(1,2) o q(3) s] t by simp
qed

text \<open>
  (C39) When the assignments of the update are evaluated in alphabetical order, as GORM writes them, a new
  lowest price replaces \<open>min_price\<close> before the item of the lowest price is looked at: the condition on the item
  then compares the new price with itself, and the item of the old lowest price stays. In the same way the
  liquidity index is computed from an inflow to which the new listings were already added: they count twice.
\<close>

theorem hourly_update_alphabetical:
  assumes "hourly_order M = alphabetical" and "hourly_update M s (hourly_order M) r = Some r'"
    and "sh_MinPrice r = Some q" and "hs_MinPrice s = Some p" and "p < q" and "col_price M p = p"
    and "0 < uint (sh_Inflow r)" and "0 \<le> hs_Inflow s"
  shows "sh_MinPrice r' = Some p \<and> sh_MinPriceItem r' = sh_MinPriceItem r \<and>
    sh_LiquidityIndex r' = Some (col_index M (of_int (uint (sh_Outflow r) + hs_Outflow s) /
      of_int (uint (sh_Inflow r) + 2 * hs_Inflow s)))"
proof -
  obtain n where n: "col_u32 (uint (sh_Inflow r) + hs_Inflow s) = Some n"
    using assms(1,2) by (cases "col_u32 (uint (sh_Inflow r) + hs_Inflow s)")
      (auto simp: alphabetical_def hourly_assign_def split: option.splits)
  have u: "uint n = uint (sh_Inflow r) + hs_Inflow s" by (rule col_u32_SomeD [OF n])
  show ?thesis using assms(2-8) n u unfolding assms(1)
    by (auto simp: alphabetical_def hourly_assign_def smaller_def Let_def algebra_simps split: option.splits if_splits)
qed

theorem hourly_update_alphabetical_witness:
  "map_option pi_SourceID (sh_MinPriceItem (the (hourly_update sample_mysql
      (hourly_stats JST 200 7 (Some (sample_flow 6 4)) [sample_sold ''m2'' 120]) alphabetical
      (hd (ip_stats_hourly mem_db (db_st sample_hour)))))) = Some ''m1''"
proof -
  let ?s = "hourly_stats JST 200 7 (Some (sample_flow 6 4)) [sample_sold ''m2'' 120]"
  let ?r = "hd (ip_stats_hourly mem_db (db_st sample_hour))"
  have o: "hourly_order sample_mysql = alphabetical" by (simp add: sample_mysql_def)
  have "hourly_update sample_mysql ?s (hourly_order sample_mysql) ?r \<noteq> None" unfolding o by code_simp
  then have u: "hourly_update sample_mysql ?s (hourly_order sample_mysql) ?r = Some (the (hourly_update sample_mysql ?s alphabetical ?r))"
    by (simp add: o)
  have f: "sh_MinPrice ?r = Some 300" "hs_MinPrice ?s = Some 120" "(120 :: rat) < 300" "col_price sample_mysql 120 = 120"
    "0 < uint (sh_Inflow ?r)" "0 \<le> hs_Inflow ?s" "map_option pi_SourceID (sh_MinPriceItem ?r) = Some ''m1''" by code_simp+
  show ?thesis using hourly_update_alphabetical [OF o u f(1-6)] f(7) by simp
qed

section \<open>Snapshots\<close>

definition item_key :: "ItemSnapshot \<Rightarrow> u64 \<times> string" where
  "item_key r = (is_IPID r, is_SourceID r)"

abbreviation snapshot_at :: "ItemSnapshot list \<Rightarrow> u64 \<times> string \<rightharpoonup> ItemSnapshot" where
  "snapshot_at \<equiv> keyed item_key (\<lambda>r. r)"

lemma snapshot_update_key [simp]: "item_key (snapshot_update n r) = item_key r"
  by (simp add: item_key_def snapshot_update_def)

lemma upsert_total: "(\<And>r. u r \<noteq> None) \<Longrightarrow> \<exists>rs'. upsert P u new rs = Some rs'"
  by (induction rs) auto

lemma upsert_snapshot_step:
  fixes rs :: "ItemSnapshot list" and n :: ItemSnapshot
  defines "rs' \<equiv> the (upsert (same_item n) (\<lambda>r. Some (snapshot_update n r)) n rs)"
  shows "snapshot_at rs' = (snapshot_at rs)(item_key n \<mapsto>
      (case snapshot_at rs (item_key n) of None \<Rightarrow> n | Some r \<Rightarrow> snapshot_update n r))"
    and "distinct (map item_key rs) \<Longrightarrow> distinct (map item_key rs')"
proof -
  have P: "same_item n = (\<lambda>r. item_key r = item_key n)" by (auto simp: same_item_def item_key_def)
  have u: "upsert (\<lambda>r. item_key r = item_key n) (\<lambda>r. Some (snapshot_update n r)) n rs = Some rs'"
    unfolding rs'_def P using upsert_total [of "\<lambda>r. Some (snapshot_update n r)" _ n rs] by auto
  show "snapshot_at rs' = (snapshot_at rs)(item_key n \<mapsto>
      (case snapshot_at rs (item_key n) of None \<Rightarrow> n | Some r \<Rightarrow> snapshot_update n r))"
    using upsert_keyed [of item_key _ _ _ _ _ "\<lambda>r. r" "snapshot_update n", OF u] by auto
  show "distinct (map item_key rs')" if "distinct (map item_key rs)"
    using upsert_distinct [OF u refl _ that] by auto
qed

lemma upsert_snapshots_effect:
  assumes "distinct (map item_key ns)"
  shows "n \<in> set ns \<Longrightarrow> snapshot_at (upsert_snapshots ns rs) (item_key n) =
      Some (case snapshot_at rs (item_key n) of None \<Rightarrow> n | Some r \<Rightarrow> snapshot_update n r)"
    and "k \<notin> item_key ` set ns \<Longrightarrow> snapshot_at (upsert_snapshots ns rs) k = snapshot_at rs k"
    and "distinct (map item_key rs) \<Longrightarrow> distinct (map item_key (upsert_snapshots ns rs))"
  using assms
proof (induction ns arbitrary: rs n k)
  case (Cons m ns)
  { case 1
    show ?case
    proof (cases "n = m")
      case True
      show ?thesis using 1 Cons.IH(2) unfolding True by (simp add: upsert_snapshot_step(1))
    next
      case False
      then have n: "n \<in> set ns" using 1 by simp
      then have "item_key n \<in> item_key ` set ns" by (rule imageI)
      then have "item_key n \<noteq> item_key m" using 1 by auto
      then show ?thesis using 1 n Cons.IH(1) by (simp add: upsert_snapshot_step(1))
    qed
  next
    case 2
    then show ?case using Cons.IH(2) by (simp add: upsert_snapshot_step(1))
  next
    case 3
    then show ?case using Cons.IH(3) upsert_snapshot_step(2) by simp }
qed simp_all

lemma UpsertItemSnapshots_quiet:
  assumes "quiet w"
  shows "UpsertItemSnapshots M D now (Some r) w =
    (let ns = map (snapshot_of M (resp_IpId r) now) (filter (\<lambda>i. it_SourceId i \<noteq> '''') (resp_Items r))
     in if ns = [] then (Some 0, w)
        else (Some (snapshot_rows M ns (item_snapshots D (db_st w))),
              w\<lparr>db_st := put_item_snapshots D (upsert_snapshots ns (item_snapshots D (db_st w))) (db_st w)\<rparr>))"
  by (auto simp: UpsertItemSnapshots_def Let_def ddo_quiet [OF assms])

lemma UpsertItemSnapshots_rows:
  assumes "sql_database D" and "quiet w" and "distinct (map item_key (item_snapshots D (db_st w)))"
    and "distinct (map it_SourceId (filter (\<lambda>i. it_SourceId i \<noteq> '''') (resp_Items r)))"
    and "rows = item_snapshots D (db_st (snd (UpsertItemSnapshots M D now (Some r) w)))"
  shows "distinct (map item_key rows)"
    and "i \<in> set (resp_Items r) \<Longrightarrow> it_SourceId i \<noteq> '''' \<Longrightarrow> snapshot_at rows (resp_IpId r, it_SourceId i) =
      Some (case snapshot_at (item_snapshots D (db_st w)) (resp_IpId r, it_SourceId i) of
        None \<Rightarrow> snapshot_of M (resp_IpId r) now i | Some y \<Rightarrow> snapshot_update (snapshot_of M (resp_IpId r) now i) y)"
    and "k \<notin> (\<lambda>i. (resp_IpId r, it_SourceId i)) ` {i \<in> set (resp_Items r). it_SourceId i \<noteq> ''''} \<Longrightarrow>
      snapshot_at rows k = snapshot_at (item_snapshots D (db_st w)) k"
    and "quiet (snd (UpsertItemSnapshots M D now (Some r) w))"
proof -
  let ?rs = "item_snapshots D (db_st w)" and ?vs = "filter (\<lambda>i. it_SourceId i \<noteq> '''') (resp_Items r)"
  define ns where "ns = map (snapshot_of M (resp_IpId r) now) ?vs"
  have key: "item_key (snapshot_of M (resp_IpId r) now i) = (resp_IpId r, it_SourceId i)" for i
    by (simp add: item_key_def snapshot_of_def Let_def)
  have "distinct (map item_key ns)" using assms(4) unfolding ns_def
    by (simp add: comp_def key distinct_map inj_on_def)
  note e = upsert_snapshots_effect [OF this]
  have m: "mset rows = mset (upsert_snapshots ns ?rs)"
  proof (cases "ns = []")
    case True
    then show ?thesis by (simp add: assms(5) UpsertItemSnapshots_quiet [OF assms(2)] ns_def [symmetric])
  next
    case False
    then show ?thesis by (simp add: assms(5) UpsertItemSnapshots_quiet [OF assms(2)] ns_def [symmetric]
        sql_database.put_items [OF assms(1)])
  qed
  note k = keyed_set [OF e(3) [OF assms(3)] m]
  have row: "snapshot_at rows (resp_IpId r, it_SourceId i) = Some (case snapshot_at ?rs (resp_IpId r, it_SourceId i) of
      None \<Rightarrow> snapshot_of M (resp_IpId r) now i | Some y \<Rightarrow> snapshot_update (snapshot_of M (resp_IpId r) now i) y)"
    if "i \<in> set ?vs" for i
    using e(1) [of "snapshot_of M (resp_IpId r) now i" ?rs] that unfolding k(1) key by (simp add: ns_def)
  have other: "snapshot_at rows x = snapshot_at ?rs x" if "x \<notin> (\<lambda>i. (resp_IpId r, it_SourceId i)) ` set ?vs" for x
    unfolding k(1) by (rule e(2)) (use that in \<open>auto simp: ns_def key\<close>)
  show "distinct (map item_key rows)" by (rule k(2))
  show "snapshot_at rows (resp_IpId r, it_SourceId i) = Some (case snapshot_at ?rs (resp_IpId r, it_SourceId i) of
      None \<Rightarrow> snapshot_of M (resp_IpId r) now i | Some y \<Rightarrow> snapshot_update (snapshot_of M (resp_IpId r) now i) y)"
    if "i \<in> set (resp_Items r)" "it_SourceId i \<noteq> ''''" by (rule row) (use that in simp)
  show "snapshot_at rows k = snapshot_at ?rs k"
    if "k \<notin> (\<lambda>i. (resp_IpId r, it_SourceId i)) ` {i \<in> set (resp_Items r). it_SourceId i \<noteq> ''''}" by (rule other) (use that in simp)
  show "quiet (snd (UpsertItemSnapshots M D now (Some r) w))" using assms(2) by (simp add: UpsertItemSnapshots_quiet [OF assms(2)] Let_def)
qed

text \<open>
  (C32) After a fault-free \<open>UpsertItemSnapshots\<close> every item of the response with a source id has exactly one
  row, with its price, its status and the time of this crawl as last sighting; the time of the first sighting and
  the time of sale are those of the first crawl that saw the item. The rows of all other items stay.
\<close>

theorem UpsertItemSnapshots_effect:
  assumes "sql_database D" and "quiet w" and "distinct (map item_key (item_snapshots D (db_st w)))"
    and "distinct (map it_SourceId (filter (\<lambda>i. it_SourceId i \<noteq> '''') (resp_Items r)))"
    and "rows = item_snapshots D (db_st (snd (UpsertItemSnapshots M D now (Some r) w)))"
  shows "distinct (map item_key rows) \<and>
    (\<forall>i \<in> set (resp_Items r). it_SourceId i \<noteq> '''' \<longrightarrow>
      (\<exists>x. snapshot_at rows (resp_IpId r, it_SourceId i) = Some x \<and> is_Price x = ucast (it_Price i) \<and>
        is_Status x = (if it_Status i = ITEM_STATUS_SOLD then ItemStatusSold else ItemStatusOnSale) \<and>
        is_LastSeenAt x = col_ms M now \<and>
        (case snapshot_at (item_snapshots D (db_st w)) (resp_IpId r, it_SourceId i) of
           None \<Rightarrow> is_FirstSeenAt x = col_ms M now \<and>
             is_SoldAt x = (if it_Status i = ITEM_STATUS_SOLD then Some (col_ms M now) else None)
         | Some y \<Rightarrow> is_FirstSeenAt x = is_FirstSeenAt y \<and> is_SoldAt x = is_SoldAt y))) \<and>
    (\<forall>k. k \<notin> (\<lambda>i. (resp_IpId r, it_SourceId i)) ` {i \<in> set (resp_Items r). it_SourceId i \<noteq> ''''} \<longrightarrow>
      snapshot_at rows k = snapshot_at (item_snapshots D (db_st w)) k)"
  using UpsertItemSnapshots_rows [OF assms] by (auto simp: snapshot_of_def snapshot_update_def Let_def split: option.splits)

definition crawl_item :: "string \<Rightarrow> int \<Rightarrow> ItemStatus \<Rightarrow> Item" where
  "crawl_item s p st = \<lparr>it_SourceId = s, it_Title = '''', it_Price = word_of_int p, it_ImageUrl = '''', it_ItemUrl = '''', it_Status = st\<rparr>"

definition crawl_of :: "string \<Rightarrow> Item list \<Rightarrow> CrawlResponse" where
  "crawl_of t is = \<lparr>resp_IpId = 7, resp_Items = is, resp_TotalFound = 0, resp_ErrorMessage = '''', resp_TaskId = t,
     resp_CrawledAt = 0, resp_PagesCrawled = 1, resp_RetryCount = 0\<rparr>"

text \<open>An item seen on sale and, a hundred nanoseconds later, sold: its time of sale stays empty.\<close>

definition sample_listed :: "(unit, tables) world" where
  "sample_listed = snd (UpsertItemSnapshots sample_mysql mem_db 100 (Some (crawl_of ''t1'' [crawl_item ''m1'' 300 ITEM_STATUS_ON_SALE])) (db_world no_tables))"

theorem UpsertItemSnapshots_effect_witness:
  "\<exists>x. snapshot_at (item_snapshots mem_db (db_st (snd (UpsertItemSnapshots sample_mysql mem_db 200
       (Some (crawl_of ''t2'' [crawl_item ''m1'' 280 ITEM_STATUS_SOLD])) sample_listed)))) (7, ''m1'') = Some x \<and>
     is_Status x = ItemStatusSold \<and> is_Price x = 280 \<and> is_SoldAt x = None"
proof -
  let ?r = "crawl_of ''t2'' [crawl_item ''m1'' 280 ITEM_STATUS_SOLD]"
  have f: "quiet sample_listed" "distinct (map item_key (item_snapshots mem_db (db_st sample_listed)))"
    "distinct (map it_SourceId (filter (\<lambda>i. it_SourceId i \<noteq> '''') (resp_Items ?r)))" by code_simp+
  have i: "crawl_item ''m1'' 280 ITEM_STATUS_SOLD \<in> set (resp_Items ?r)" by (simp add: crawl_of_def)
  have old: "map_option is_SoldAt (snapshot_at (item_snapshots mem_db (db_st sample_listed)) (7, ''m1'')) = Some None" by code_simp
  show ?thesis
    using UpsertItemSnapshots_effect [OF memdb.sql_database_axioms f refl, where M = sample_mysql and now = 200] i old
    by (auto simp: crawl_of_def crawl_item_def)
qed

end
