(* ===== verification/Cache.thy ===== *)
theory Cache
  imports Redis Float64
begin

text \<open>
  \<open>internal/analyzer/cache.go\<close>: the cached leaderboards and IP details the API keeps in Redis, and how the
  analyzer drops them. The manager without a client (\<open>None\<close>) does nothing; the cursor loops over \<open>SCAN\<close> are
  the command \<open>KEYS_MATCHING\<close>.
\<close>

definition LeaderboardCacheKeyPrefix :: string where
  "LeaderboardCacheKeyPrefix = ''animetop:leaderboard''"

definition IPDetailCacheKeyPrefix :: string where
  "IPDetailCacheKeyPrefix = ''animetop:ip''"

definition IPDetailCacheTTL :: int where
  "IPDetailCacheTTL = 10 * Minute"

text \<open>The keys of the three boards over a number of hours.\<close>

definition board_keys :: "nat \<Rightarrow> string list" where
  "board_keys hours = map (\<lambda>kind. LeaderboardCacheKeyPrefix @ '':'' @ kind @ '':'' @ FormatNat hours)
     [''hot'', ''inflow'', ''outflow'']"

definition invalidate_keys :: "'s redis option \<Rightarrow> string list \<Rightarrow> ('s, 'd) world \<Rightarrow> unit option \<times> ('s, 'd) world" where
  "invalidate_keys m keys w = (case m of None \<Rightarrow> (Some (), w) | Some R \<Rightarrow> rdo (writec (DEL R keys)) w)"

definition InvalidateHourlyLeaderboard :: "'s redis option \<Rightarrow> ('s, 'd) world \<Rightarrow> unit option \<times> ('s, 'd) world" where
  "InvalidateHourlyLeaderboard m = invalidate_keys m (board_keys 1)"

definition InvalidateDailyLeaderboard :: "'s redis option \<Rightarrow> ('s, 'd) world \<Rightarrow> unit option \<times> ('s, 'd) world" where
  "InvalidateDailyLeaderboard m = invalidate_keys m (board_keys 24)"

definition InvalidateWeeklyLeaderboard :: "'s redis option \<Rightarrow> ('s, 'd) world \<Rightarrow> unit option \<times> ('s, 'd) world" where
  "InvalidateWeeklyLeaderboard m = invalidate_keys m (board_keys 168)"

definition invalidate_matching :: "'s redis option \<Rightarrow> string \<Rightarrow> ('s, 'd) world \<Rightarrow> unit option \<times> ('s, 'd) world" where
  "invalidate_matching m prefix w = (case m of None \<Rightarrow> (Some (), w) | Some R \<Rightarrow>
     (case rdo (readc (KEYS_MATCHING R prefix)) w of
        (None, w1) \<Rightarrow> (None, w1)
      | (Some keys, w1) \<Rightarrow> if keys = [] then (Some (), w1) else rdo (writec (DEL R keys)) w1))"

definition InvalidateAllLeaderboards :: "'s redis option \<Rightarrow> ('s, 'd) world \<Rightarrow> unit option \<times> ('s, 'd) world" where
  "InvalidateAllLeaderboards m = invalidate_matching m (LeaderboardCacheKeyPrefix @ '':'')"

definition ip_detail_prefix :: "u64 \<Rightarrow> string" where
  "ip_detail_prefix ipID = IPDetailCacheKeyPrefix @ '':'' @ FormatUint ipID @ '':''"

definition InvalidateIPDetailCache :: "'s redis option \<Rightarrow> u64 \<Rightarrow> ('s, 'd) world \<Rightarrow> unit option \<times> ('s, 'd) world" where
  "InvalidateIPDetailCache m ipID = invalidate_matching m (ip_detail_prefix ipID)"

section \<open>Lemmas\<close>

text \<open>A key the manager never drops: neither a leaderboard nor the detail of an IP.\<close>

context redis_server
begin

lemma rdo_write_reply:
  assumes "rdo (writec f) w = (Some x, w')" and "\<And>s. view (f (f s)) = view (f s)"
  shows "view (redis_st w') = view (f (redis_st w))"
proof -
  have "view ((f ^^ Suc n) s) = view (f s)" for n s
    by (induction n arbitrary: s) (simp_all add: funpow_swap1 assms(2))
  then show ?thesis using assms(1)
    by (auto simp: rdo_def remote_def writec_def Let_def split: outcome.splits)
qed

lemma invalidate_keys_gone:
  assumes "fst (invalidate_keys (Some R) keys w) = Some x"
  shows "strings (view (redis_st (snd (invalidate_keys (Some R) keys w)))) =
    (\<lambda>k. if k \<in> set keys then None else strings (view (redis_st w)) k)"
proof -
  obtain w' where r: "rdo (writec (DEL R keys)) w = (Some x, w')"
    using assms by (cases "rdo (writec (DEL R keys)) w") (auto simp: invalidate_keys_def)
  show ?thesis using rdo_write_reply [OF r] r by (simp add: invalidate_keys_def del fun_eq_iff)
qed

end

lemma not_is_digit_colon [simp]: "\<not> is_digit CHR '':''"
  by (simp add: is_digit_def)

lemma takeWhile_digits_colon: "takeWhile is_digit (FormatUint i @ CHR '':'' # x) = FormatUint i"
  using FormatUint_digits [of i] by (simp add: takeWhile_append2 list_all_iff)

lemma ip_detail_prefix_unique:
  assumes "ip_detail_prefix i @ x = ip_detail_prefix j @ y"
  shows "i = j"
proof -
  have "FormatUint i @ CHR '':'' # x = FormatUint j @ CHR '':'' # y" using assms by (simp add: ip_detail_prefix_def)
  then have "FormatUint i = FormatUint j" by (metis takeWhile_digits_colon)
  then show ?thesis by simp
qed

lemma board_keys_not_detail: "k \<in> set (board_keys h) \<Longrightarrow> k \<noteq> ip_detail_prefix i @ x"
  by (auto simp: board_keys_def ip_detail_prefix_def LeaderboardCacheKeyPrefix_def IPDetailCacheKeyPrefix_def)

context redis_server
begin

lemma invalidate_matching_gone:
  assumes "fst (invalidate_matching (Some R) p w) = Some x"
  shows "strings (view (redis_st (snd (invalidate_matching (Some R) p w)))) =
    (\<lambda>k. if (\<exists>r. k = p @ r) then None else strings (view (redis_st w)) k)"
proof -
  let ?keys = "KEYS_MATCHING R p (redis_st w)"
  obtain w1 where r: "rdo (readc (KEYS_MATCHING R p)) w = (Some ?keys, w1)" "redis_st w1 = redis_st w"
    using assms rdo_read_val [of "KEYS_MATCHING R p" w] rdo_read_st [of "KEYS_MATCHING R p" w]
    by (cases "rdo (readc (KEYS_MATCHING R p)) w") (auto simp: invalidate_matching_def)
  have m: "k \<in> set ?keys \<longleftrightarrow> (\<exists>r. k = p @ r)" if "strings (view (redis_st w)) k \<noteq> None" for k
    using keys_matching that by blast
  have eq: "(\<lambda>k. if k \<in> set ?keys then None else strings (view (redis_st w)) k) =
      (\<lambda>k. if (\<exists>r. k = p @ r) then None else strings (view (redis_st w)) k)"
  proof (rule ext)
    show "(if k \<in> set ?keys then None else strings (view (redis_st w)) k) =
        (if (\<exists>r. k = p @ r) then None else strings (view (redis_st w)) k)" for k
      using m [of k] by (cases "strings (view (redis_st w)) k") auto
  qed
  show ?thesis
  proof (cases "?keys = []")
    case True
    then show ?thesis using r eq by (simp add: invalidate_matching_def)
  next
    case False
    then have i: "invalidate_matching (Some R) p w = invalidate_keys (Some R) ?keys w1"
      using r by (simp add: invalidate_matching_def invalidate_keys_def)
    show ?thesis using invalidate_keys_gone [of ?keys w1 x] assms unfolding i r(2) eq by simp
  qed
qed

end

section \<open>Properties\<close>

text \<open>
  When \<open>InvalidateIPDetailCache\<close> reports success, no cached detail of the IP is left, whatever was lost and
  resent on the way, and the cached details of every other IP are untouched: the number in the key cannot be
  taken for the beginning of another.
\<close>

theorem InvalidateIPDetailCache_exact:
  assumes "redis_server R view" and "fst (InvalidateIPDetailCache (Some R) ipID w) = Some x"
    and "w' = snd (InvalidateIPDetailCache (Some R) ipID w)"
  shows "GET R (ip_detail_prefix ipID @ r) (redis_st w') = None \<and>
    (j \<noteq> ipID \<longrightarrow> GET R (ip_detail_prefix j @ r) (redis_st w') = GET R (ip_detail_prefix j @ r) (redis_st w))"
proof -
  note g = redis_server.invalidate_matching_gone [OF assms(1) assms(2) [unfolded InvalidateIPDetailCache_def]]
  have "strings (view (redis_st w')) = (\<lambda>k. if (\<exists>r. k = ip_detail_prefix ipID @ r) then None else strings (view (redis_st w)) k)"
    using g by (simp add: assms(3) InvalidateIPDetailCache_def)
  then show ?thesis using ip_detail_prefix_unique [of j r ipID] by (auto simp: redis_server.get [OF assms(1)])
qed

definition cache_world :: "outcome list \<Rightarrow> (mem, unit) world" where
  "cache_world os = \<lparr>redis_st = mem_empty\<lparr>m_strings := [(''animetop:ip:7:items'', ''a''), (''animetop:ip:71:items'', ''b'')]\<rparr>,
     db_st = (), outcomes = os\<rparr>"

theorem InvalidateIPDetailCache_exact_witness:
  "GET mem_redis ''animetop:ip:7:items'' (redis_st (snd (InvalidateIPDetailCache (Some mem_redis) 7 (cache_world [Reply 0, Reply 2])))) = None \<and>
   GET mem_redis ''animetop:ip:71:items'' (redis_st (snd (InvalidateIPDetailCache (Some mem_redis) 7 (cache_world [Reply 0, Reply 2])))) = Some ''b''"
proof -
  let ?w = "cache_world [Reply 0, Reply 2]"
  have f: "fst (InvalidateIPDetailCache (Some mem_redis) 7 ?w) = Some ()" by code_simp
  have p: "ip_detail_prefix 7 @ ''items'' = ''animetop:ip:7:items''" "ip_detail_prefix 71 @ ''items'' = ''animetop:ip:71:items''"
    "GET mem_redis ''animetop:ip:71:items'' (redis_st ?w) = Some ''b''" "(71 :: u64) \<noteq> 7" by code_simp+
  from InvalidateIPDetailCache_exact [OF memory.redis_server_axioms f refl, of "''items''" 71] p show ?thesis by simp
qed

end
