(* ===== verification/Pipeline.thy ===== *)
theory Pipeline
  imports Queue StateMachine Interval Aggregator Cache
begin

text \<open>
  \<open>internal/analyzer/pipeline.go\<close>: the worker that takes crawl results from the queue through the item state
  machine, the aggregator, the interval adjuster, the scheduler and the caches.

  The goroutines of an \<open>errgroup\<close> issue their statements on different tables or columns; the record \<open>run\<close> says in
  which order they took effect, together with the readings of the clock. A goroutine whose context was cancelled meets
  a lost call. The goroutine that drops the caches is the last step. The scheduler is the interface \<open>IPScheduler\<close>, an
  argument.
\<close>

section \<open>Types\<close>

record PipelineConfig =
  pc_Workers :: int
  pc_PopTimeout :: int
  pc_ProcessTimeout :: int
  pc_RetryCount :: int
  pc_RetryDelay :: int
  pc_AlertThresholds :: AlertThresholds
  pc_IntervalAdjuster :: IntervalAdjusterConfig
  pc_ScheduleSlot :: int

definition DefaultPipelineConfig :: PipelineConfig where
  "DefaultPipelineConfig = \<lparr>pc_Workers = 2, pc_PopTimeout = 5 * Second, pc_ProcessTimeout = 30 * Second,
     pc_RetryCount = 3, pc_RetryDelay = Second,
     pc_AlertThresholds = \<lparr>at_HighOutflow = 50, at_LowLiquidity = rnd64 (3 / 10), at_HighLiquidity = 2\<rparr>,
     pc_IntervalAdjuster = \<lparr>iac_BaseInterval = Hour, iac_MinInterval = 15 * Minute, iac_MaxInterval = 4 * Hour,
       iac_PagesOnSale = 3, iac_PagesSold = 3\<rparr>,
     pc_ScheduleSlot = 0\<rparr>"

datatype pipeline_error = PopError queue_error | ProcessError u64 | AckError u64 queue_error
  | FirstCrawlError u64 | SnapshotsError u64 | AlertsError u64 | LastCrawledError u64 | WeightError u64 | AdjustError u64

text \<open>Counters and times are \<open>int64\<close>, far from overflow; the zero time is \<open>None\<close>.\<close>

record PipelineStats =
  ps_Processed :: int
  ps_Failed :: int
  ps_Skipped :: int
  ps_TotalDuration :: int
  ps_LastProcessed :: "int option"
  ps_LastError :: "pipeline_error option"
  ps_LastErrorTime :: "int option"

definition no_stats :: PipelineStats where
  "no_stats = \<lparr>ps_Processed = 0, ps_Failed = 0, ps_Skipped = 0, ps_TotalDuration = 0, ps_LastProcessed = None,
     ps_LastError = None, ps_LastErrorTime = None\<rparr>"

record ('s, 'd) Pipeline =
  pl_queue :: "'s client"
  pl_codec :: codec
  pl_rdb :: "'s redis"
  pl_db :: "'d database"
  pl_mysql :: mysql
  pl_diffEngine :: DiffEngine
  pl_stateMachine :: StateMachine
  pl_intervalAdjuster :: "IntervalAdjuster option"
  pl_cacheManager :: "'s redis option option"
  pl_scheduler :: "(u64 \<Rightarrow> int \<Rightarrow> ('s, 'd) world \<Rightarrow> unit option \<times> ('s, 'd) world) option"
  pl_config :: PipelineConfig
  pl_zone :: int
  pl_oor :: "rat \<Rightarrow> int"

definition NewPipeline :: "'d database \<Rightarrow> mysql \<Rightarrow> int \<Rightarrow> (rat \<Rightarrow> int) \<Rightarrow> 's redis \<Rightarrow> 's client \<Rightarrow> codec \<Rightarrow> AnalyzerConfig option
    \<Rightarrow> PipelineConfig option \<Rightarrow> (u64 \<Rightarrow> int \<Rightarrow> ('s, 'd) world \<Rightarrow> unit option \<times> ('s, 'd) world) option \<Rightarrow> ('s, 'd) Pipeline" where
  "NewPipeline db M zone oor rdb queue C analyzerCfg pipelineCfg scheduler =
     (let cfg = (case pipelineCfg of None \<Rightarrow> DefaultPipelineConfig | Some c \<Rightarrow> c);
          snapshotTTL = (case analyzerCfg of None \<Rightarrow> 48 * Hour
             | Some a \<Rightarrow> if SnapshotTTL a > 0 then SnapshotTTL a else 48 * Hour);
          ttlAvailable = (case analyzerCfg of None \<Rightarrow> 0 | Some a \<Rightarrow> ItemTTLAvailable a);
          ttlSold = (case analyzerCfg of None \<Rightarrow> 0 | Some a \<Rightarrow> ItemTTLSold a)
      in \<lparr>pl_queue = queue, pl_codec = C, pl_rdb = rdb, pl_db = db, pl_mysql = M,
          pl_diffEngine = NewDiffEngine snapshotTTL, pl_stateMachine = NewStateMachine ttlAvailable ttlSold,
          pl_intervalAdjuster = Some (NewIntervalAdjuster (pc_IntervalAdjuster cfg)),
          pl_cacheManager = Some (Some rdb), pl_scheduler = scheduler, pl_config = cfg, pl_zone = zone, pl_oor = oor\<rparr>)"

section \<open>Helpers\<close>

definition recordError :: "pipeline_error \<Rightarrow> int \<Rightarrow> PipelineStats \<Rightarrow> PipelineStats" where
  "recordError e t st = st\<lparr>ps_LastError := Some e, ps_LastErrorTime := Some t\<rparr>"

definition collectSoldItemsInfo :: "StateTransition list \<Rightarrow> Item list \<Rightarrow> PriceItemInfo list" where
  "collectSoldItemsInfo transitions items =
     (let itemMap = map_of (rev (map (\<lambda>i. (it_SourceId i, i)) (filter (\<lambda>i. it_SourceId i \<noteq> '''') items)))
      in List.map_filter (\<lambda>t. if tr_Type t \<noteq> TransitionSold \<and> tr_Type t \<noteq> TransitionNewSold then None
           else (case itemMap (tr_SourceID t) of None \<Rightarrow> None
             | Some item \<Rightarrow> if 0 < sint (it_Price item)
                 then Some \<lparr>pii_SourceID = it_SourceId item, pii_Title = it_Title item, pii_Price = it_Price item,
                            pii_ImageURL = it_ImageUrl item, pii_ItemURL = it_ItemUrl item\<rparr> else None)) transitions)"

definition alignToSlot :: "int \<Rightarrow> int \<Rightarrow> int" where
  "alignToSlot t slot = (if slot \<le> 0 then t
     else (let truncated = Truncate t slot in if truncated = t then t else truncated + slot))"

section \<open>One result\<close>

datatype phase3_task = DoAlerts | DoLastCrawled | DoAdjust

record run =
  rn_pop :: int
  rn_items :: int
  rn_stats :: int
  rn_snapshots :: int
  rn_alerts :: int
  rn_crawled :: int
  rn_next :: int
  rn_error :: int
  rn_start :: int
  rn_end :: int
  rn_snapshots_first :: bool
  rn_phase3 :: "phase3_task list"

text \<open>The interval until the next crawl, and its time.\<close>

definition next_interval :: "(rat \<Rightarrow> int) \<Rightarrow> IntervalAdjusterConfig \<Rightarrow> rat \<Rightarrow> int" where
  "next_interval oor cfg newWeight =
     (let i0 = (if newWeight > 0 then f64_to_int64 oor (fdiv (f64_of_int (iac_BaseInterval cfg)) newWeight)
                else iac_BaseInterval cfg);
          i1 = (if i0 < iac_MinInterval cfg then iac_MinInterval cfg else i0)
      in if i1 > iac_MaxInterval cfg then iac_MaxInterval cfg else i1)"

definition next_time :: "(rat \<Rightarrow> int) \<Rightarrow> PipelineConfig \<Rightarrow> int \<Rightarrow> rat \<Rightarrow> int" where
  "next_time oor cfg now newWeight =
     (let t = now + next_interval oor (pc_IntervalAdjuster cfg) newWeight
      in if pc_ScheduleSlot cfg > 0 then alignToSlot t (pc_ScheduleSlot cfg) else t)"

definition liquidity_of :: "u64 \<Rightarrow> int \<Rightarrow> int \<Rightarrow> int \<Rightarrow> LiquidityResult" where
  "liquidity_of ipID now inflow outflow = \<lparr>lr_IpID = ipID, lr_Timestamp = now, lr_OnSaleInflow = inflow, lr_OnSaleOutflow = 0,
     lr_OnSaleTotal = 0, lr_SoldInflow = outflow, lr_SoldTotal = 0,
     lr_LiquidityIndex = (if inflow > 0 then fdiv (f64_of_int outflow) (f64_of_int inflow) else 0)\<rparr>"

text \<open>Phase 2: snapshots and hourly statistics; only the latter can fail the result.\<close>

definition write_snapshots :: "('s, 'd) Pipeline \<Rightarrow> run \<Rightarrow> CrawlResponse \<Rightarrow> PipelineStats \<Rightarrow> ('s, 'd) world
    \<Rightarrow> PipelineStats \<times> ('s, 'd) world" where
  "write_snapshots p rn resp st w = (case UpsertItemSnapshots (pl_mysql p) (pl_db p) (rn_snapshots rn) (Some resp) w of
     (None, w1) \<Rightarrow> (recordError (SnapshotsError (resp_IpId resp)) (rn_error rn) st, w1) | (Some _, w1) \<Rightarrow> (st, w1))"

definition persist :: "('s, 'd) Pipeline \<Rightarrow> run \<Rightarrow> CrawlResponse \<Rightarrow> LiquidityResult \<Rightarrow> PriceItemInfo list \<Rightarrow> PipelineStats \<Rightarrow> ('s, 'd) world
    \<Rightarrow> HourlyStats option \<times> PipelineStats \<times> ('s, 'd) world" where
  "persist p rn resp lr soldItems st w =
     (let agg = AggregateHourlyStats (pl_mysql p) (pl_db p) (pl_zone p) (rn_stats rn) (resp_IpId resp) (Some lr) soldItems in
      if rn_snapshots_first rn
      then (case write_snapshots p rn resp st w of (st1, w1) \<Rightarrow> (case agg w1 of (stats, w2) \<Rightarrow> (stats, st1, w2)))
      else (case agg w of (stats, w1) \<Rightarrow> (case write_snapshots p rn resp st w1 of (st1, w2) \<Rightarrow> (stats, st1, w2))))"

text \<open>Phase 3: one of the three goroutines.\<close>

definition phase3_step :: "('s, 'd) Pipeline \<Rightarrow> run \<Rightarrow> u64 \<Rightarrow> HourlyStats \<Rightarrow> int \<Rightarrow> int \<Rightarrow> bool \<Rightarrow> phase3_task
    \<Rightarrow> rat \<times> PipelineStats \<times> ('s, 'd) world \<Rightarrow> rat \<times> PipelineStats \<times> ('s, 'd) world" where
  "phase3_step p rn ipID stats inflow sold first task x = (case x of (weight, st, w) \<Rightarrow> (case task of
     DoAlerts \<Rightarrow> (case CheckAndCreateAlerts (pl_mysql p) (pl_db p) (pl_zone p) (rn_alerts rn) ipID stats (pc_AlertThresholds (pl_config p)) w of
        (None, w1) \<Rightarrow> (weight, recordError (AlertsError ipID) (rn_error rn) st, w1) | (Some _, w1) \<Rightarrow> (weight, st, w1))
   | DoLastCrawled \<Rightarrow> (case UpdateIPLastCrawled (pl_mysql p) (pl_db p) (rn_crawled rn) ipID w of
        (None, w1) \<Rightarrow> (weight, recordError (LastCrawledError ipID) (rn_error rn) st, w1) | (Some _, w1) \<Rightarrow> (weight, st, w1))
   | DoAdjust \<Rightarrow> (case pl_intervalAdjuster p of None \<Rightarrow> (weight, st, w) | Some a \<Rightarrow>
        (case GetCurrentWeight (pl_db p) ipID w of (currentWeight, err, w1) \<Rightarrow>
           if err then (weight, recordError (WeightError ipID) (rn_error rn) st, w1)
           else (case Adjust (pl_db p) (col_weight (pl_mysql p)) (pl_oor p) a ipID currentWeight inflow sold first w1 of
               (None, w2) \<Rightarrow> (currentWeight, recordError (AdjustError ipID) (rn_error rn) st, w2)
             | (Some result, w2) \<Rightarrow> (ar_NewWeight result, st, w2))))))"

fun phase3 :: "('s, 'd) Pipeline \<Rightarrow> run \<Rightarrow> u64 \<Rightarrow> HourlyStats \<Rightarrow> int \<Rightarrow> int \<Rightarrow> bool \<Rightarrow> phase3_task list
    \<Rightarrow> rat \<times> PipelineStats \<times> ('s, 'd) world \<Rightarrow> rat \<times> PipelineStats \<times> ('s, 'd) world" where
  "phase3 p rn ipID stats inflow sold first [] x = x"
| "phase3 p rn ipID stats inflow sold first (t # ts) x =
     phase3 p rn ipID stats inflow sold first ts (phase3_step p rn ipID stats inflow sold first t x)"

text \<open>Phase 3.5 and phase 4: errors are only logged.\<close>

definition reschedule :: "('s, 'd) Pipeline \<Rightarrow> run \<Rightarrow> u64 \<Rightarrow> rat \<Rightarrow> ('s, 'd) world \<Rightarrow> ('s, 'd) world" where
  "reschedule p rn ipID newWeight w = (case pl_scheduler p of None \<Rightarrow> w
     | Some f \<Rightarrow> snd (f ipID (next_time (pl_oor p) (pl_config p) (rn_next rn) newWeight) w))"

definition drop_caches :: "('s, 'd) Pipeline \<Rightarrow> u64 \<Rightarrow> ('s, 'd) world \<Rightarrow> ('s, 'd) world" where
  "drop_caches p ipID w = (case pl_cacheManager p of None \<Rightarrow> w
     | Some m \<Rightarrow> snd (InvalidateIPDetailCache m ipID (snd (InvalidateHourlyLeaderboard m w))))"

text \<open>Phases 1 to 3 of a response without error: the weight for the next interval, or \<open>None\<close> on an error.\<close>

definition process_phases :: "('s, 'd) Pipeline \<Rightarrow> run \<Rightarrow> CrawlResponse \<Rightarrow> PipelineStats \<Rightarrow> ('s, 'd) world
    \<Rightarrow> rat option \<times> PipelineStats \<times> ('s, 'd) world" where
  "process_phases p rn resp st w = (let ipID = resp_IpId resp in
     case GetItemCount (pl_rdb p) ipID w of (existingCount, w1) \<Rightarrow>
     (let st1 = (if existingCount = None then recordError (FirstCrawlError ipID) (rn_error rn) st else st);
          isFirstCrawl = (existingCount = Some 0) in
      case ProcessItemsBatch (pl_stateMachine p) (pl_rdb p) ipID (rn_items rn) (map Some (resp_Items resp)) w1 of
        (None, w2) \<Rightarrow> (None, st1, w2)
      | (Some transitions, w2) \<Rightarrow>
          (let summary = SummarizeTransitions transitions;
               inflow = (if isFirstCrawl then 0 else int (sm_NewListings summary));
               outflow = (if isFirstCrawl then 0 else int (sm_Sold summary));
               soldItems = (if isFirstCrawl then [] else collectSoldItemsInfo transitions (resp_Items resp)) in
           case persist p rn resp (liquidity_of ipID (rn_stats rn) inflow outflow) soldItems st1 w2 of
             (None, st2, w3) \<Rightarrow> (None, st2, w3)
           | (Some stats, st2, w3) \<Rightarrow>
               (case phase3 p rn ipID stats inflow (int (sm_Sold summary)) isFirstCrawl (rn_phase3 rn) (1, st2, w3) of
                  (newWeight, st3, w4) \<Rightarrow> (Some newWeight, st3, w4)))))"

text \<open>The result is whether processing succeeded.\<close>

definition processResult :: "('s, 'd) Pipeline \<Rightarrow> run \<Rightarrow> CrawlResponse option \<Rightarrow> PipelineStats \<Rightarrow> ('s, 'd) world
    \<Rightarrow> bool \<times> PipelineStats \<times> ('s, 'd) world" where
  "processResult p rn response st w = (case response of None \<Rightarrow> (True, st, w) | Some resp \<Rightarrow>
     if resp_ErrorMessage resp \<noteq> '''' \<and> resp_ErrorMessage resp \<noteq> ''no_items'' then (True, st, w)
     else (case process_phases p rn resp st w of
         (None, st1, w1) \<Rightarrow> (False, st1, w1)
       | (Some newWeight, st1, w1) \<Rightarrow>
           (True, st1, drop_caches p (resp_IpId resp) (reschedule p rn (resp_IpId resp) newWeight w1))))"

definition ProcessSingle :: "('s, 'd) Pipeline \<Rightarrow> run \<Rightarrow> CrawlResponse option \<Rightarrow> PipelineStats \<Rightarrow> ('s, 'd) world
    \<Rightarrow> bool \<times> PipelineStats \<times> ('s, 'd) world" where
  "ProcessSingle = processResult"

fun ProcessResultBatch :: "('s, 'd) Pipeline \<Rightarrow> (run \<times> CrawlResponse option) list \<Rightarrow> nat \<Rightarrow> nat \<Rightarrow> PipelineStats \<Rightarrow> ('s, 'd) world
    \<Rightarrow> nat \<times> nat \<times> PipelineStats \<times> ('s, 'd) world" where
  "ProcessResultBatch p [] processed failed st w = (processed, failed, st, w)"
| "ProcessResultBatch p ((rn, resp) # rs) processed failed st w = (case processResult p rn resp st w of (ok, st1, w1) \<Rightarrow>
     if ok then ProcessResultBatch p rs (processed + 1) failed st1 w1 else ProcessResultBatch p rs processed (failed + 1) st1 w1)"

section \<open>The worker\<close>

definition processedTTL :: int where
  "processedTTL = 24 * Hour"

definition processOne :: "('s, 'd) Pipeline \<Rightarrow> run \<Rightarrow> PipelineStats \<Rightarrow> ('s, 'd) world \<Rightarrow> PipelineStats \<times> ('s, 'd) world" where
  "processOne p rn st w = (case PopResult (pl_queue p) (pl_codec p) (rn_pop rn) w of
     (Inl err, w1) \<Rightarrow> (if err = ErrNoResult then st else recordError (PopError err) (rn_error rn) st, w1)
   | (Inr resp, w1) \<Rightarrow>
       (let taskID = resp_TaskId resp in
        case (if taskID \<noteq> '''' then IsProcessed (pl_queue p) taskID w1 else (Inr False, w1)) of (seen, w2) \<Rightarrow>
        if seen = Inr True
        then (st\<lparr>ps_Skipped := ps_Skipped st + 1\<rparr>, snd (AckResult (pl_queue p) (Some resp) w2))
        else (case processResult p rn (Some resp) st w2 of (ok, st3, w3) \<Rightarrow>
          if \<not> ok
          then ((recordError (ProcessError (resp_IpId resp)) (rn_error rn) st3)\<lparr>ps_Failed := ps_Failed st3 + 1\<rparr>, w3)
          else (let w4 = (if taskID \<noteq> '''' then snd (MarkProcessed (pl_queue p) taskID processedTTL w3) else w3) in
            case AckResult (pl_queue p) (Some resp) w4 of (ackErr, w5) \<Rightarrow>
            (let st4 = (case ackErr of Inl e \<Rightarrow> recordError (AckError (resp_IpId resp) e) (rn_error rn) st3 | Inr _ \<Rightarrow> st3)
             in (st4\<lparr>ps_Processed := ps_Processed st4 + 1,
                     ps_TotalDuration := ps_TotalDuration st4 + (rn_end rn - rn_start rn),
                     ps_LastProcessed := Some (rn_end rn)\<rparr>, w5))))))"

text \<open>A worker makes one pass after the other until it is told to stop.\<close>

fun worker :: "('s, 'd) Pipeline \<Rightarrow> run list \<Rightarrow> PipelineStats \<Rightarrow> ('s, 'd) world \<Rightarrow> PipelineStats \<times> ('s, 'd) world" where
  "worker p [] st w = (st, w)"
| "worker p (rn # rns) st w = (case processOne p rn st w of (st1, w1) \<Rightarrow> worker p rns st1 w1)"

text \<open>Starting: \<open>Inl\<close> when the pipeline already runs, \<open>None\<close> when the fuel of the recovery loop runs out; then the number
  of workers started.\<close>

definition pipeline_Start :: "nat \<Rightarrow> ('s, 'd) Pipeline \<Rightarrow> bool \<Rightarrow> ('s, 'd) world \<Rightarrow> ((unit + int) \<times> bool \<times> ('s, 'd) world) option" where
  "pipeline_Start fuel p running w = (if running then Some (Inl (), running, w)
     else (case RecoverOrphanedResults fuel (pl_queue p) (pl_codec p) w of None \<Rightarrow> None
       | Some (_, _, w1) \<Rightarrow> Some (Inr (max 0 (pc_Workers (pl_config p))), True, w1)))"

definition pipeline_Stop :: "bool \<Rightarrow> bool" where
  "pipeline_Stop running = False"

definition pipeline_IsRunning :: "bool \<Rightarrow> bool" where
  "pipeline_IsRunning running = running"

record PipelineStatsSnapshot =
  pss_Processed :: int
  pss_Failed :: int
  pss_AvgDuration :: int
  pss_LastProcessed :: "int option"
  pss_LastError :: "pipeline_error option"
  pss_LastErrorTime :: "int option"
  pss_SuccessRate :: rat

definition calculateSuccessRate :: "PipelineStats \<Rightarrow> rat" where
  "calculateSuccessRate st = (let total = ps_Processed st + ps_Failed st
     in if total = 0 then 1 else fdiv (f64_of_int (ps_Processed st)) (f64_of_int total))"

definition pipeline_GetStats :: "PipelineStats \<Rightarrow> PipelineStatsSnapshot" where
  "pipeline_GetStats st = \<lparr>pss_Processed = ps_Processed st, pss_Failed = ps_Failed st,
     pss_AvgDuration = (if ps_Processed st > 0 then tdiv (ps_TotalDuration st) (ps_Processed st) else 0),
     pss_LastProcessed = ps_LastProcessed st, pss_LastError = ps_LastError st, pss_LastErrorTime = ps_LastErrorTime st,
     pss_SuccessRate = calculateSuccessRate st\<rparr>"

end
