(* ===== verification/PipelineProofs.thy ===== *)
theory PipelineProofs
  imports Pipeline SchedulerProofs QueueProofs
begin

text \<open>
  What the pipeline keeps of the result queue while it processes a result, the interface it needs from its
  parts (\<open>pipeline_env\<close>), and the properties of a worker pass: nothing is lost, nothing is counted twice, and the next
  crawl is scheduled in time.
\<close>

section \<open>The part of Redis that belongs to the result queue\<close>

definition result_part :: "keyspace \<Rightarrow> string list \<times> string list \<times> string set" where
  "result_part v = (lists v KeyResultQueue, lists v KeyResultProcessingQueue, sets v KeyProcessedSet)"

text \<open>With the flag, the calls to come are answered at once.\<close>

definition calm :: "(keyspace \<Rightarrow> 'x) \<Rightarrow> ('s \<Rightarrow> keyspace) \<Rightarrow> bool \<Rightarrow> 'x \<Rightarrow> ('s, 'd) world \<Rightarrow> bool" where
  "calm pt view b X w \<longleftrightarrow> (b \<longrightarrow> quiet w) \<and> pt (view (redis_st w)) = X"

lemma quiet_step [simp]: "quiet w \<Longrightarrow> quiet (snd (rdo c w))" "quiet w \<Longrightarrow> quiet (snd (ddo d w))"
  by (simp_all add: quiet_def rdo_def ddo_def Let_def)

lemma calm_ddo [simp]: "calm pt view b X w \<Longrightarrow> calm pt view b X (snd (ddo c w))"
  by (simp add: calm_def)

lemma calm_read [simp]: "calm pt view b X w \<Longrightarrow> calm pt view b X (snd (rdo (readc f) w))"
  by (simp add: calm_def)

lemma calm_rdo:
  assumes "\<And>s. pt (view (snd (c s))) = pt (view s)" "calm pt view b X w"
  shows "calm pt view b X (snd (rdo c w))"
  using assms rdo_preserves [of "\<lambda>s. pt (view s) = X" c w] by (simp add: calm_def)

lemma calm_ddo_eq: "ddo c w = (r, w') \<Longrightarrow> calm pt view b X w \<Longrightarrow> calm pt view b X w'"
  by (metis calm_ddo snd_conv)

lemma calm_read_eq: "rdo (readc f) w = (r, w') \<Longrightarrow> calm pt view b X w \<Longrightarrow> calm pt view b X w'"
  by (metis calm_read snd_conv)

section \<open>Database steps\<close>

lemma calm_UpsertItemSnapshots: "calm pt view b X w \<Longrightarrow> calm pt view b X (snd (UpsertItemSnapshots M D now r w))"
  by (simp add: UpsertItemSnapshots_def Let_def split: option.split)

lemma calm_AggregateHourlyStats: "calm pt view b X w \<Longrightarrow> calm pt view b X (snd (AggregateHourlyStats M D z now i lr s w))"
  by (auto simp: AggregateHourlyStats_def upsertHourlyStats_def Let_def split: prod.split option.split dest: calm_ddo_eq)

lemma calm_create_alerts: "calm pt view b X w \<Longrightarrow> calm pt view b X (snd (create_alerts M D now as w))"
  by (induction as arbitrary: w) (auto simp: CreateAlert_def split: prod.split option.split dest: calm_ddo_eq)

lemma calm_UpdateIPLastCrawled: "calm pt view b X w \<Longrightarrow> calm pt view b X (snd (UpdateIPLastCrawled M D now i w))"
  by (simp add: UpdateIPLastCrawled_def)

lemma calm_GetCurrentWeight: "calm pt view b X w \<Longrightarrow> calm pt view b X (snd (snd (GetCurrentWeight D i w)))"
  by (auto simp: GetCurrentWeight_def Let_def split: prod.split option.split dest: calm_ddo_eq)

lemma calm_Adjust: "calm pt view b X w \<Longrightarrow> calm pt view b X (snd (Adjust D col oor a i cw infl out first w))"
  using Adjust_world [of D col oor a i cw infl out first w] by (auto simp: updateWeight_def)

text \<open>The same facts for a result that was taken apart.\<close>

lemma calm_results:
  "UpsertItemSnapshots M D now r w = (x1, w') \<Longrightarrow> calm pt view b X w \<Longrightarrow> calm pt view b X w'"
  "AggregateHourlyStats M D z now i lr s w = (x2, w') \<Longrightarrow> calm pt view b X w \<Longrightarrow> calm pt view b X w'"
  "create_alerts M D now as w = (x3, w') \<Longrightarrow> calm pt view b X w \<Longrightarrow> calm pt view b X w'"
  "UpdateIPLastCrawled M D now i w = (x4, w') \<Longrightarrow> calm pt view b X w \<Longrightarrow> calm pt view b X w'"
  "GetCurrentWeight D i w = (x5, x6, w') \<Longrightarrow> calm pt view b X w \<Longrightarrow> calm pt view b X w'"
  "Adjust D col oor a i cw infl out first w = (x7, w') \<Longrightarrow> calm pt view b X w \<Longrightarrow> calm pt view b X w'"
  using calm_UpsertItemSnapshots [of pt view b X w M D now r] calm_AggregateHourlyStats [of pt view b X w M D z now i lr s]
    calm_create_alerts [of pt view b X w M D now as] calm_UpdateIPLastCrawled [of pt view b X w M D now i]
    calm_GetCurrentWeight [of pt view b X w D i] calm_Adjust [of pt view b X w D col oor a i cw infl out first]
  by simp_all

lemma calm_persist: "calm pt view b X w \<Longrightarrow> calm pt view b X (snd (snd (persist p rn r lr sold st w)))"
  by (auto simp: persist_def write_snapshots_def Let_def split: prod.split option.split dest: calm_results)

lemma calm_phase3_step: "calm pt view b X (snd (snd x)) \<Longrightarrow> calm pt view b X (snd (snd (phase3_step p rn i s infl sold first t x)))"
  by (cases t) (auto simp: phase3_step_def CheckAndCreateAlerts_def split: prod.split option.split dest: calm_results)

lemma calm_phase3: "calm pt view b X (snd (snd x)) \<Longrightarrow> calm pt view b X (snd (snd (phase3 p rn i s infl sold first ts x)))"
  by (induction ts arbitrary: x) (simp_all add: calm_phase3_step)

section \<open>Redis steps\<close>

text \<open>The keys the cache manager may delete.\<close>

definition cache_key :: "string \<Rightarrow> bool" where
  "cache_key k \<longleftrightarrow> (\<exists>h. k \<in> set (board_keys h)) \<or> (\<exists>i x. k = ip_detail_prefix i @ x)"

lemma cache_key_apart:
  "\<not> cache_key KeyResultQueue" "\<not> cache_key KeyResultProcessingQueue" "\<not> cache_key KeyProcessedSet" "\<not> cache_key ScheduleZSetKey"
  by (auto simp: cache_key_def board_keys_def LeaderboardCacheKeyPrefix_def ip_detail_prefix_def ScheduleZSetKey_def
      IPDetailCacheKeyPrefix_def KeyResultQueue_def KeyResultProcessingQueue_def KeyProcessedSet_def)

text \<open>A part \<open>pt\<close> of the keyspace that neither the item hashes nor the caches belong to.\<close>

locale foreign_part = redis_server R view
  for R :: "'s redis" and view :: "'s \<Rightarrow> keyspace" +
  fixes pt :: "keyspace \<Rightarrow> 'x"
  assumes foreign_hashes: "pt (v\<lparr>hashes := hs\<rparr>) = pt v" and foreign_ttls: "pt (v\<lparr>ttls := ts\<rparr>) = pt v"
    and foreign_del: "\<forall>k \<in> set ks. cache_key k \<Longrightarrow> pt (view (DEL R ks s)) = pt (view s)"
begin

lemma calm_pipe_set:
  assumes "0 < ttl" "calm pt view b X w"
  shows "calm pt view b X (snd (pipe_set R k f ttl w))"
proof -
  have "calm pt view b X (snd (rdo (writec (HSET R k f)) w))" by (rule calm_rdo [OF _ assms(2)]) (simp add: hset foreign_hashes)
  then have "calm pt view b X (snd (rdo (writec (EXPIRE R k ttl)) (snd (rdo (writec (HSET R k f)) w))))"
    by (rule calm_rdo [rotated]) (simp add: expire foreign_ttls assms(1))
  then show ?thesis by (auto simp: pipe_set_def split: prod.split)
qed

lemma calm_pipe_hgetall: "calm pt view b X w \<Longrightarrow> calm pt view b X (snd (pipe_hgetall R ks w))"
proof (induction ks arbitrary: w)
  case (Cons k ks)
  have "calm pt view b X (snd (pipe_hgetall R ks w1))" if "rdo (readc (HGETALL R k)) w = (r, w1)" for r w1
    by (rule Cons.IH [OF calm_read_eq [OF that Cons.prems]])
  then show ?case by (fastforce split: prod.split option.split)
qed simp

lemma calm_fetch_states: "calm pt view b X w \<Longrightarrow> calm pt view b X (snd (fetch_states R ip bs w))"
proof (induction bs arbitrary: w)
  case (Cons c bs)
  have h: "calm pt view b X w1" if "pipe_hgetall R (map (\<lambda>i. itemKey ip (it_SourceId i)) c) w = (r, w1)" for r w1
    using calm_pipe_hgetall [OF Cons.prems, of "map (\<lambda>i. itemKey ip (it_SourceId i)) c"] that by simp
  show ?case using Cons.IH h by (auto split: prod.split option.split) (metis snd_conv)+
qed simp

lemma calm_pipe_updates:
  assumes "ttls_ok sm"
  shows "calm pt view b X w \<Longrightarrow> calm pt view b X (snd (pipe_updates sm R us w))"
proof (induction us arbitrary: w)
  case (Cons u us)
  have "0 < getTTLForStatus sm (u_status u)" using assms by (simp add: ttls_ok_def getTTLForStatus_def)
  from calm_pipe_set [OF this Cons.prems] Cons.IH show ?case by (auto split: prod.split) (metis snd_conv)+
qed simp

lemma calm_apply_updates:
  assumes "ttls_ok sm"
  shows "calm pt view b X w \<Longrightarrow> calm pt view b X (snd (apply_updates sm R bs w))"
  by (induction bs arbitrary: w) (auto split: prod.split dest: calm_pipe_updates [OF assms], (metis calm_pipe_updates [OF assms] snd_conv)+)

lemma calm_ProcessItemsBatch:
  assumes "ttls_ok sm" "calm pt view b X w"
  shows "calm pt view b X (snd (ProcessItemsBatch sm R ip now items w))"
proof -
  have f: "calm pt view b X w1" if "fetch_states R ip bs w = (r, w1)" for bs r w1
    using calm_fetch_states [OF assms(2), of ip bs] that by simp
  have u: "calm pt view b X w2" if "apply_updates sm R bs w1 = (r, w2)" "calm pt view b X w1" for bs r w1 w2
    using calm_apply_updates [OF assms(1) that(2), of bs] that(1) by simp
  show ?thesis using assms(2) by (auto simp: ProcessItemsBatch_def Let_def split: prod.split option.split dest: f intro: u)
qed

lemma calm_GetItemCount: "calm pt view b X w \<Longrightarrow> calm pt view b X (snd (GetItemCount R ip w))"
  by (auto simp: GetItemCount_def split: prod.split option.split dest: calm_read_eq)

lemma calm_drop:
  assumes "calm pt view b X w"
  shows "calm pt view b X (snd (InvalidateIPDetailCache (Some R) i (snd (InvalidateHourlyLeaderboard (Some R) w))))"
proof -
  have d: "calm pt view b X (snd (rdo (writec (DEL R ks)) w'))" if "\<forall>k \<in> set ks. cache_key k" "calm pt view b X w'" for ks w'
    by (rule calm_rdo [OF _ that(2)]) (simp add: foreign_del that(1))
  have 1: "calm pt view b X (snd (InvalidateHourlyLeaderboard (Some R) w))" (is "calm _ _ _ _ ?w1")
    unfolding InvalidateHourlyLeaderboard_def invalidate_keys_def option.case
    by (rule d [OF _ assms]) (auto simp: cache_key_def)
  let ?ks = "KEYS_MATCHING R (ip_detail_prefix i) (redis_st ?w1)"
  obtain r w2 where r: "rdo (readc (KEYS_MATCHING R (ip_detail_prefix i))) ?w1 = (r, w2)" by fastforce
  have 2: "calm pt view b X w2" by (rule calm_read_eq [OF r 1])
  have "r = None \<or> r = Some ?ks" using rdo_read_val [of "KEYS_MATCHING R (ip_detail_prefix i)" ?w1] r by simp
  moreover have "\<forall>k \<in> set ?ks. cache_key k" using keys_matching by (auto simp: cache_key_def)
  ultimately show ?thesis using r 2 d [OF _ 2, of ?ks] by (auto simp: InvalidateIPDetailCache_def invalidate_matching_def)
qed

lemma calm_drop_caches:
  assumes "calm pt view b X w" "\<And>m. pl_cacheManager p = Some m \<Longrightarrow> m = None \<or> m = Some R"
  shows "calm pt view b X (drop_caches p i w)"
  using calm_drop [OF assms(1), of i] assms
  by (auto simp: drop_caches_def InvalidateIPDetailCache_def InvalidateHourlyLeaderboard_def invalidate_keys_def
      invalidate_matching_def split: option.split)

lemma calm_process_phases:
  assumes "calm pt view b X w" "ttls_ok (pl_stateMachine p)" "pl_rdb p = R"
  shows "calm pt view b X (snd (snd (process_phases p rn r st w)))"
proof -
  have c: "calm pt view b X w1" if "GetItemCount R i w = (n, w1)" for i n w1
    using calm_GetItemCount [OF assms(1), of i] that by simp
  have i: "calm pt view b X w2" if "ProcessItemsBatch (pl_stateMachine p) R i now its w1 = (n, w2)" "calm pt view b X w1" for i n w1 w2 now its
    using calm_ProcessItemsBatch [OF assms(2) that(2), of i now its] that(1) by simp
  have q: "calm pt view b X w2" if "persist p rn r lr s st w1 = (n, st', w2)" "calm pt view b X w1" for r lr s st st' n w1 w2
    using calm_persist [OF that(2), of p rn r lr s st] that(1) by simp
  have h: "calm pt view b X w2" if "phase3 p rn i s infl sold first ts (n0, st0, w1) = (n, st', w2)" "calm pt view b X w1"
    for i s infl sold first ts n0 st0 w1 n st' w2
    using calm_phase3 [of pt view b X "(n0, st0, w1)" p rn i s infl sold first ts] that by simp
  show ?thesis using assms(1)
    by (auto simp: process_phases_def assms(3) Let_def split: prod.split option.split if_split dest!: c dest: i q h)
qed

end

text \<open>The keys of the result queue and the schedule are such parts.\<close>

definition schedule_part :: "keyspace \<Rightarrow> string \<rightharpoonup> rat" where
  "schedule_part v = zsets v ScheduleZSetKey"

sublocale redis_server \<subseteq> results: foreign_part R view result_part
proof
  fix ks s
  assume "\<forall>k \<in> set ks. cache_key k"
  then have "KeyResultQueue \<notin> set ks" "KeyResultProcessingQueue \<notin> set ks" "KeyProcessedSet \<notin> set ks"
    using cache_key_apart by blast+
  then show "result_part (view (DEL R ks s)) = result_part (view s)" by (simp add: result_part_def del)
qed (simp_all add: result_part_def)

sublocale redis_server \<subseteq> schedule: foreign_part R view schedule_part
proof
  fix ks s
  assume "\<forall>k \<in> set ks. cache_key k"
  then have "ScheduleZSetKey \<notin> set ks" using cache_key_apart by blast
  then show "schedule_part (view (DEL R ks s)) = schedule_part (view s)" by (simp add: schedule_part_def del)
qed (simp_all add: schedule_part_def)

section \<open>The interface of the pipeline\<close>

text \<open>
  What a worker relies on: its queue and its cache manager use the same server, item states expire after a positive
  time, and the scheduler leaves the keys of the result queue alone and answers at once when nothing is lost.
\<close>

locale pipeline_env = redis_server R view
  for R :: "'s redis" and view :: "'s \<Rightarrow> keyspace" +
  fixes p :: "('s, 'd) Pipeline"
  assumes queue: "pl_queue p = Some R" and rdb: "pl_rdb p = R"
    and cache: "pl_cacheManager p = Some m \<Longrightarrow> m = None \<or> m = Some R"
    and ttls: "ttls_ok (pl_stateMachine p)"
    and sched: "pl_scheduler p = Some f \<Longrightarrow> calm result_part view b X w \<Longrightarrow> calm result_part view b X (snd (f i t w))"
begin

lemma calm_processResult:
  assumes "calm result_part view b X w"
  shows "calm result_part view b X (snd (snd (processResult p rn r st w)))"
proof -
  have c: "calm result_part view b X w1" if "process_phases p rn resp st w = (n, st1, w1)" for resp n st1 w1
    using results.calm_process_phases [OF assms ttls rdb, of rn resp st] that by simp
  have t: "calm result_part view b X (drop_caches p i (reschedule p rn i wt w1))" if "calm result_part view b X w1" for i wt w1
    by (rule results.calm_drop_caches) (use that sched cache in \<open>auto simp: reschedule_def split: option.split\<close>)
  show ?thesis using assms by (auto simp: processResult_def split: prod.split option.split intro!: t dest: c)
qed

end

section \<open>Counters\<close>

definition counters :: "PipelineStats \<Rightarrow> int \<times> int \<times> int" where
  "counters st = (ps_Processed st, ps_Failed st, ps_Skipped st)"

lemma counters_recordError [simp]: "counters (recordError e t st) = counters st"
  by (simp add: counters_def recordError_def)

lemma counters_persist: "persist p rn r lr s st w = (x, st', w') \<Longrightarrow> counters st' = counters st"
  by (auto simp: persist_def write_snapshots_def Let_def split: prod.splits option.splits if_splits)

lemma counters_phase3_step: "counters (fst (snd (phase3_step p rn i s infl sold first t x))) = counters (fst (snd x))"
  by (cases t) (auto simp: phase3_step_def split: prod.splits option.splits)

lemma counters_phase3: "counters (fst (snd (phase3 p rn i s infl sold first ts x))) = counters (fst (snd x))"
  by (induction ts arbitrary: x) (simp_all add: counters_phase3_step)

lemma counters_process_phases: "counters (fst (snd (process_phases p rn r st w))) = counters st"
proof -
  have h: "counters st' = counters st0" if "phase3 p rn i s infl sold first ts (n0, st0, w1) = (n, st', w2)"
    for i s infl sold first ts n0 st0 w1 n st' w2
    using counters_phase3 [of p rn i s infl sold first ts "(n0, st0, w1)"] that by simp
  show ?thesis
    by (auto simp: process_phases_def Let_def split: prod.split option.split if_split dest!: counters_persist h)
qed

lemma counters_processResult: "counters (fst (snd (processResult p rn r st w))) = counters st"
  using counters_process_phases [of p rn _ st w]
  by (auto simp: processResult_def split: prod.split option.split) (metis fst_conv snd_conv)+

section \<open>Queue steps of a pass\<close>

context pipeline_env
begin

lemma lua_remove_lists:
  "view (snd (lua_remove R k i s)) = (view s)\<lparr>lists := (lists (view s))(k :=
     (case lua_find (taskid_needle i) (lists (view s) k) of None \<Rightarrow> lists (view s) k
      | Some x \<Rightarrow> remove1 x (lists (view s) k)))\<rparr>"
  by (simp add: lua_remove_def lrange lrem1_view split: option.split)

lemma PopResult_calm:
  assumes "quiet w" "result_part (view (redis_st w)) = (xs @ [raw], proc, S)" "UnmarshalResp (pl_codec p) raw = Some resp"
  shows "\<exists>w1. PopResult (pl_queue p) (pl_codec p) now w = (Inr resp, w1) \<and> calm result_part view True (xs, raw # proc, S) w1 \<and> db_st w1 = db_st w"
proof -
  have l: "lists (view (redis_st w)) KeyResultQueue = xs @ [raw]" "lists (view (redis_st w)) KeyResultProcessingQueue = proc"
    "sets (view (redis_st w)) KeyProcessedSet = S" using assms(2) by (simp_all add: result_part_def)
  have k: "KeyResultQueue \<noteq> KeyResultProcessingQueue" by (simp add: KeyResultQueue_def KeyResultProcessingQueue_def)
  obtain s' where s': "RPOPLPUSH R KeyResultQueue KeyResultProcessingQueue (redis_st w) = (Some raw, s')"
    and v: "view s' = (view (redis_st w))\<lparr>lists := (lists (view (redis_st w)))(KeyResultQueue := xs, KeyResultProcessingQueue := raw # proc)\<rparr>"
    using rpoplpush_cases [OF k, of "redis_st w"] l by (metis append1_eq_conv append_is_Nil_conv not_Cons_self2)
  have part: "result_part (view s') = (xs, raw # proc, S)" using k l by (simp add: result_part_def v)
  show ?thesis using assms(1,3) s' part by (simp add: PopResult_def queue calm_def hset results.foreign_hashes)
qed

lemma IsProcessed_calm:
  assumes "calm result_part view True (A, B, S) w" "i \<noteq> ''''"
  shows "IsProcessed (pl_queue p) i w = (Inr (i \<in> S), w)"
  using assms by (simp add: IsProcessed_def queue calm_def sismember result_part_def)

lemma MarkProcessed_calm:
  assumes "calm result_part view True (A, B, S) w" "i \<noteq> ''''"
  shows "calm result_part view True (A, B, insert i S) (snd (MarkProcessed (pl_queue p) i processedTTL w))"
  using assms by (auto simp: MarkProcessed_def queue calm_def result_part_def sadd_view expire processedTTL_def duration_defs)

lemma AckResult_calm:
  assumes "calm result_part view True (A, raw # B, S) w" "resp_TaskId r \<noteq> ''''" "Contains raw (taskid_needle (resp_TaskId r))"
  shows "calm result_part view True (A, B, S) (snd (AckResult (pl_queue p) (Some r) w)) \<and> fst (AckResult (pl_queue p) (Some r) w) = Inr ()
    \<and> db_st (snd (AckResult (pl_queue p) (Some r) w)) = db_st w"
proof -
  have "KeyResultQueue \<noteq> KeyResultProcessingQueue" by (simp add: KeyResultQueue_def KeyResultProcessingQueue_def)
  then have "result_part (view (snd (ackResultScript R (resp_TaskId r) (redis_st w)))) = (A, B, S)"
    using assms(1,3) by (auto simp: ackResultScript_def case_prod_unfold hdel lua_remove_lists result_part_def calm_def)
  then show ?thesis using assms(1,2) by (simp add: AckResult_def queue calm_def)
qed

lemma AckResult_keeps:
  assumes "calm result_part view True (A, B, S) w"
  shows "\<exists>B'. calm result_part view True (A, B', S) (snd (AckResult (pl_queue p) r w))"
    and "db_st (snd (AckResult (pl_queue p) r w)) = db_st w"
proof -
  have "KeyResultQueue \<noteq> KeyResultProcessingQueue" by (simp add: KeyResultQueue_def KeyResultProcessingQueue_def)
  then show "\<exists>B'. calm result_part view True (A, B', S) (snd (AckResult (pl_queue p) r w))" using assms
    by (auto simp: AckResult_def ackResultScript_def case_prod_unfold hdel lua_remove_lists result_part_def calm_def queue split: option.split)
  show "db_st (snd (AckResult (pl_queue p) r w)) = db_st w"
    by (simp add: AckResult_def queue split: option.split prod.split) (metis other_state(2) snd_conv)
qed

end

section \<open>Passes\<close>

context pipeline_env
begin

lemma pass_success:
  assumes "quiet w" "result_part (view (redis_st w)) = (xs @ [raw], proc, S)" "UnmarshalResp (pl_codec p) raw = Some resp"
    and "resp_TaskId resp \<noteq> ''''" "Contains raw (taskid_needle (resp_TaskId resp))"
    and "ps_Failed (fst (processOne p rn st w)) = ps_Failed st"
  shows "calm result_part view True (xs, proc, insert (resp_TaskId resp) S) (snd (processOne p rn st w))"
proof -
  obtain w1 where w1: "PopResult (pl_queue p) (pl_codec p) (rn_pop rn) w = (Inr resp, w1)" "calm result_part view True (xs, raw # proc, S) w1"
    using PopResult_calm [OF assms(1-3)] by blast
  note i = IsProcessed_calm [OF w1(2) assms(4)]
  show ?thesis
  proof (cases "resp_TaskId resp \<in> S")
    case True
    then show ?thesis using w1 i assms(4) AckResult_calm [OF w1(2) assms(4,5)]
      by (simp add: processOne_def Let_def insert_absorb)
  next
    case False
    obtain ok st3 w3 where r: "processResult p rn (Some resp) st w1 = (ok, st3, w3)" by (metis surj_pair)
    have c: "calm result_part view True (xs, raw # proc, S) w3" using calm_processResult [OF w1(2), of rn "Some resp" st] r by simp
    have n: "ps_Failed st3 = ps_Failed st" using counters_processResult [of p rn "Some resp" st w1] r by (simp add: counters_def)
    have ok: ok using assms(4,6) w1(1) i False r n by (auto simp: processOne_def Let_def recordError_def split: if_splits)
    note m = MarkProcessed_calm [OF c assms(4)]
    show ?thesis using w1(1) i False r ok assms(4) AckResult_calm [OF m assms(4,5)]
      by (auto simp: processOne_def Let_def split: prod.split)
  qed
qed

lemma pass_skips:
  assumes "calm result_part view True (xs @ [raw], B, S) w" "UnmarshalResp (pl_codec p) raw = Some resp"
    and "resp_TaskId resp \<noteq> ''''" "resp_TaskId resp \<in> S"
  shows "processOne p rn st w = (st\<lparr>ps_Skipped := ps_Skipped st + 1\<rparr>, snd (processOne p rn st w)) \<and>
    db_st (snd (processOne p rn st w)) = db_st w"
proof -
  obtain w1 where w1: "PopResult (pl_queue p) (pl_codec p) (rn_pop rn) w = (Inr resp, w1)" "calm result_part view True (xs, raw # B, S) w1" "db_st w1 = db_st w"
    using PopResult_calm [of w xs raw B S resp] assms(1,2) by (auto simp: calm_def)
  note i = IsProcessed_calm [OF w1(2) assms(3)]
  show ?thesis using w1 i assms(3,4) AckResult_keeps(2) [OF w1(2)] by (simp add: processOne_def Let_def)
qed

lemma pass_failure:
  assumes "PopResult (pl_queue p) (pl_codec p) (rn_pop rn) w = (Inr resp, w1)"
    and "ps_Failed (fst (processOne p rn st w)) \<noteq> ps_Failed st"
  shows "result_part (view (redis_st (snd (processOne p rn st w)))) = result_part (view (redis_st w1))"
proof -
  define X where "X = result_part (view (redis_st w1))"
  have c1: "calm result_part view False X w1" by (simp add: calm_def X_def)
  obtain seen w2 where i: "(if resp_TaskId resp \<noteq> '''' then IsProcessed (pl_queue p) (resp_TaskId resp) w1 else (Inr False, w1)) = (seen, w2)"
    by fastforce
  have c2: "calm result_part view False X w2" using i c1
    by (auto simp: IsProcessed_def queue split: if_splits prod.splits option.splits dest: calm_read_eq)
  obtain ok st3 w3 where r: "processResult p rn (Some resp) st w2 = (ok, st3, w3)" by (metis surj_pair)
  have c3: "calm result_part view False X w3" using calm_processResult [OF c2, of rn "Some resp" st] r by simp
  have n: "ps_Failed st3 = ps_Failed st" using counters_processResult [of p rn "Some resp" st w2] r by (simp add: counters_def)
  have "seen \<noteq> Inr True \<and> \<not> ok" using assms i r n
    by (auto simp: processOne_def Let_def recordError_def split: if_splits prod.splits sum.splits)
  then have "snd (processOne p rn st w) = w3" using assms(1) i r by (auto simp: processOne_def Let_def)
  then show ?thesis using c3 by (simp add: calm_def X_def)
qed

end

section \<open>The pipeline as the analyzer builds it\<close>

context redis_server
begin

lemma calm_ScheduleIP:
  assumes "redis_scheduler R s" "calm result_part view b X w"
  shows "calm result_part view b X (snd (ScheduleIP s i t w))"
proof -
  have "result_part (view (ZADD R k sms st)) = result_part (view st)" for k sms st by (simp add: result_part_def zadd)
  then show ?thesis using assms
    by (simp add: ScheduleIP_def redis_scheduler_def NewRedisScheduleStore_def Schedule_def calm_rdo)
qed

lemma NewPipeline_env:
  assumes "redis_scheduler R s" "ttls_ok (pl_stateMachine (NewPipeline db M z oor R (Some R) C acfg pcfg (Some (ScheduleIP s))))"
  shows "pipeline_env R view (NewPipeline db M z oor R (Some R) C acfg pcfg (Some (ScheduleIP s)))"
  by unfold_locales (use assms calm_ScheduleIP [OF assms(1)] in \<open>auto simp: NewPipeline_def Let_def\<close>)

end

definition pipe_results :: "(CrawlResponse \<times> string) list" where
  "pipe_results = [(crawl_of ''t0'' [crawl_item ''m1'' 300 ITEM_STATUS_ON_SALE], ''0''),
     (crawl_of ''t1'' [crawl_item ''m1'' 280 ITEM_STATUS_SOLD, crawl_item ''m2'' 500 ITEM_STATUS_ON_SALE], ''1'')]"

definition sample_pipe :: "(mem, tables) Pipeline" where
  "sample_pipe = NewPipeline mem_db sample_mysql JST (\<lambda>_. 0) mem_redis (Some mem_redis) (tagged_codec [] pipe_results) None None
     (Some (ScheduleIP (sample_sched no_codec)))"

definition sample_run :: run where
  "sample_run = \<lparr>rn_pop = 100, rn_items = 100, rn_stats = 100, rn_snapshots = 100, rn_alerts = 100, rn_crawled = 100,
     rn_next = 100, rn_error = 100, rn_start = 100, rn_end = 130, rn_snapshots_first = True,
     rn_phase3 = [DoAlerts, DoLastCrawled, DoAdjust]\<rparr>"

interpretation sample_pipe: pipeline_env mem_redis mem_view sample_pipe
  unfolding sample_pipe_def by (rule memory.NewPipeline_env [OF sample_redis_scheduler]) code_simp

definition pipe_world :: "string list \<Rightarrow> (mem, tables) world" where
  "pipe_world rs = \<lparr>redis_st = mem_empty\<lparr>m_lists := [(KeyResultQueue, rs)]\<rparr>,
     db_st = no_tables\<lparr>t_ip := [sample_ip 7 IPStatusActive]\<rparr>, outcomes = []\<rparr>"

lemma pipe_codec: "protojson (pl_codec sample_pipe)"
proof -
  have "tagged_ok [] pipe_results" by code_simp
  then show ?thesis by (simp add: sample_pipe_def NewPipeline_def Let_def tagged_codec_protojson)
qed

section \<open>The next crawl\<close>

lemma Truncate_bounds:
  assumes "0 < d"
  shows "Truncate t d \<le> t" "t < Truncate t d + d" "(Truncate t d + zero_time) mod d = 0"
proof -
  have "0 \<le> (t + zero_time) mod d" "(t + zero_time) mod d < d" using assms by simp_all
  then show "Truncate t d \<le> t" "t < Truncate t d + d" using assms by (simp_all add: Truncate_def)
  have "Truncate t d + zero_time = (t + zero_time) - (t + zero_time) mod d" using assms by (simp add: Truncate_def)
  then show "(Truncate t d + zero_time) mod d = 0" by (simp add: minus_mod_eq_mult_div)
qed

lemma alignToSlot_bounds:
  assumes "0 < slot"
  shows "t \<le> alignToSlot t slot" "alignToSlot t slot < t + slot" "(alignToSlot t slot + zero_time) mod slot = 0"
proof -
  note b = Truncate_bounds [OF assms, of t]
  show "t \<le> alignToSlot t slot" "alignToSlot t slot < t + slot" using assms b(1,2) by (auto simp: alignToSlot_def Let_def)
  have "(Truncate t slot + slot + zero_time) mod slot = 0" using b(3) mod_add_self2 [of "Truncate t slot + zero_time" slot] by (simp add: ac_simps)
  then show "(alignToSlot t slot + zero_time) mod slot = 0" using assms b(3) by (auto simp: alignToSlot_def Let_def)
qed

lemma next_interval_bounds:
  assumes "iac_MinInterval cfg \<le> iac_MaxInterval cfg"
  shows "iac_MinInterval cfg \<le> next_interval oor cfg wt" "next_interval oor cfg wt \<le> iac_MaxInterval cfg"
  using assms by (auto simp: next_interval_def Let_def)

text \<open>The time of the next crawl lies in a window given by the configuration.\<close>

definition in_window :: "PipelineConfig \<Rightarrow> int \<Rightarrow> int \<Rightarrow> bool" where
  "in_window cfg now t \<longleftrightarrow> now + iac_MinInterval (pc_IntervalAdjuster cfg) \<le> t \<and>
     t \<le> now + iac_MaxInterval (pc_IntervalAdjuster cfg) + max 0 (pc_ScheduleSlot cfg) \<and>
     (0 < pc_ScheduleSlot cfg \<longrightarrow> (t + zero_time) mod pc_ScheduleSlot cfg = 0)"

lemma next_time_window:
  assumes "iac_MinInterval (pc_IntervalAdjuster cfg) \<le> iac_MaxInterval (pc_IntervalAdjuster cfg)"
  shows "in_window cfg now (next_time oor cfg now wt)"
proof -
  let ?t = "now + next_interval oor (pc_IntervalAdjuster cfg) wt"
  note n = next_interval_bounds [OF assms, of oor wt]
  show ?thesis
  proof (cases "0 < pc_ScheduleSlot cfg")
    case True
    then show ?thesis using n alignToSlot_bounds [OF True, of ?t] by (simp add: in_window_def next_time_def Let_def)
  next
    case False
    then show ?thesis using n by (simp add: in_window_def next_time_def Let_def)
  qed
qed

section \<open>The closed loop\<close>

context redis_server
begin

lemma zset_of_part:
  assumes "schedule_part (view (redis_st w')) = schedule_part (view (redis_st w))"
  shows "zset_ok R w' = zset_ok R w" "zset_times R w' = zset_times R w"
  using assms by (simp_all add: zset_ok_iff zset_times_view schedule_part_def)

lemma processResult_schedules:
  assumes s: "redis_scheduler R s" and ok: "zset_ok R w" "quiet w"
    and p: "p = NewPipeline db M z oor R (Some R) C acfg (Some cfg) (Some (ScheduleIP s))" and ttl: "ttls_ok (pl_stateMachine p)"
    and ex: "\<And>wt. exact_time (next_time oor cfg (rn_next rn) wt)"
    and r: "processResult p rn (Some resp) st w = (True, st', w')" "resp_ErrorMessage resp \<in> {'''', ''no_items''}"
  shows "zset_ok R w' \<and> (\<exists>wt. zset_times R w' = (zset_times R w)(resp_IpId resp \<mapsto> Unix (next_time oor cfg (rn_next rn) wt)))"
proof -
  have f: "pl_rdb p = R" "pl_scheduler p = Some (ScheduleIP s)" "pl_cacheManager p = Some (Some R)" "pl_config p = cfg" "pl_oor p = oor"
    by (simp_all add: p NewPipeline_def Let_def)
  obtain wt st1 w1 where ph: "process_phases p rn resp st w = (Some wt, st1, w1)"
    and w': "w' = drop_caches p (resp_IpId resp) (reschedule p rn (resp_IpId resp) wt w1)"
    using r by (auto simp: processResult_def split: prod.splits option.splits)
  have c0: "calm schedule_part view True (schedule_part (view (redis_st w))) w" using ok by (simp add: calm_def)
  have c1: "calm schedule_part view True (schedule_part (view (redis_st w))) w1"
    using schedule.calm_process_phases [OF c0 ttl f(1), of rn resp st] ph by simp
  then have z1: "zset_ok R w1" "zset_times R w1 = zset_times R w" "quiet w1" using zset_of_part [of w1 w] ok by (simp_all add: calm_def)
  let ?t = "next_time oor cfg (rn_next rn) wt"
  define w2 where "w2 = reschedule p rn (resp_IpId resp) wt w1"
  have w2: "api_Schedule (NewRedisScheduleStore (sch_oor s) R) (resp_IpId resp) ?t w1 = (Some (), w2)"
    using z1(3) s unfolding w2_def by (simp add: reschedule_def f ScheduleIP_def redis_scheduler_def NewRedisScheduleStore_def Schedule_def)
  have z2: "zset_ok R w2" "zset_times R w2 = (zset_times R w)(resp_IpId resp \<mapsto> Unix ?t)"
    using store.schedule [OF z1(1) ex w2] z1(2) by auto
  have "calm schedule_part view False (schedule_part (view (redis_st w2))) (drop_caches p (resp_IpId resp) w2)"
    by (rule schedule.calm_drop_caches) (simp_all add: calm_def f)
  then have "schedule_part (view (redis_st w')) = schedule_part (view (redis_st w2))" by (simp add: calm_def w' w2_def)
  from zset_of_part [OF this] z2 show ?thesis by auto
qed

end

section \<open>Properties\<close>

text \<open>
  (C3) A pass that does not fail finishes its result: in a fault-free world, the result it took is gone from the result
  queue and from the processing list, nothing else of the two lists changes, and its task id is marked as processed,
  whatever the intermediate steps on item states, tables, schedule and caches did.
\<close>

theorem processOne_success:
  assumes "pipeline_env R view p" and "protojson (pl_codec p)" and "quiet w"
    and "MarshalResp (pl_codec p) resp = Some raw" and "plain_id (resp_TaskId resp)"
    and "LRANGE R KeyResultQueue (redis_st w) = xs @ [raw]"
    and "ps_Failed (fst (processOne p rn st w)) = ps_Failed st" and "s' = redis_st (snd (processOne p rn st w))"
  shows "LRANGE R KeyResultQueue s' = xs \<and> LRANGE R KeyResultProcessingQueue s' = LRANGE R KeyResultProcessingQueue (redis_st w) \<and>
    SISMEMBER R KeyProcessedSet (resp_TaskId resp) s'"
proof -
  have r: "redis_server R view" by (rule pipeline_env.axioms(1) [OF assms(1)])
  note rd = redis_server.lrange [OF r] redis_server.sismember [OF r]
  have u: "UnmarshalResp (pl_codec p) raw = Some resp" "Contains raw (taskid_needle (resp_TaskId resp))" "resp_TaskId resp \<noteq> ''''"
    using protojson.resp_roundtrip [OF assms(2,4)] protojson.resp_needle [OF assms(2,4,5)] assms(5) by (simp_all add: plain_id_def)
  have part: "result_part (view (redis_st w)) = (xs @ [raw], lists (view (redis_st w)) KeyResultProcessingQueue, sets (view (redis_st w)) KeyProcessedSet)"
    using assms(6) by (simp add: result_part_def rd)
  from pipeline_env.pass_success [OF assms(1,3) part u(1,3,2) assms(7)] show ?thesis
    by (simp add: calm_def result_part_def assms(8) rd)
qed

text \<open>Two copies of the second result wait behind the first one.\<close>

definition raw_t0 :: string where "raw_t0 = tagged_json ''t0'' ''0''"
definition raw_t1 :: string where "raw_t1 = tagged_json ''t1'' ''1''"

definition sample_queue :: "(mem, tables) world" where
  "sample_queue = pipe_world [raw_t1, raw_t1, raw_t0]"

lemma sample_queue_first:
  "MarshalResp (pl_codec sample_pipe) (fst (hd pipe_results)) = Some raw_t0" "resp_TaskId (fst (hd pipe_results)) = ''t0''"
  "quiet sample_queue" "LRANGE mem_redis KeyResultQueue (redis_st sample_queue) = [raw_t1, raw_t1] @ [raw_t0]"
  "ps_Failed (fst (processOne sample_pipe sample_run no_stats sample_queue)) = ps_Failed no_stats"
  "plain_id ''t0''"
  by code_simp+

theorem processOne_success_witness:
  "LRANGE mem_redis KeyResultQueue (redis_st (snd (processOne sample_pipe sample_run no_stats sample_queue))) = [raw_t1, raw_t1] \<and>
   SISMEMBER mem_redis KeyProcessedSet ''t0'' (redis_st (snd (processOne sample_pipe sample_run no_stats sample_queue)))"
  using processOne_success [OF sample_pipe.pipeline_env_axioms pipe_codec sample_queue_first(3,1) _ sample_queue_first(4,5) refl]
    sample_queue_first(2,6) by simp


abbreviation sample_second :: "PipelineStats \<times> (mem, tables) world" where
  "sample_second \<equiv> processOne sample_pipe sample_run no_stats (pipe_world [raw_t0, raw_t0])"


text \<open>
  (C14) A failed result is not lost: whatever went wrong, and wherever, a pass that counts its result as failed leaves
  it in the processing list, where the janitor finds it, and does not mark its task id as processed.
\<close>

theorem failed_result_kept:
  assumes "pipeline_env R view p" and "PopResult (pl_queue p) (pl_codec p) (rn_pop rn) w = (Inr resp, w1)"
    and "processOne p rn st w = (st', w')" and "ps_Failed st' \<noteq> ps_Failed st"
  shows "LRANGE R KeyResultProcessingQueue (redis_st w') = LRANGE R KeyResultProcessingQueue (redis_st w1) \<and>
    SISMEMBER R KeyProcessedSet i (redis_st w') = SISMEMBER R KeyProcessedSet i (redis_st w1)"
proof -
  have r: "redis_server R view" by (rule pipeline_env.axioms(1) [OF assms(1)])
  show ?thesis using pipeline_env.pass_failure [OF assms(1,2), of st] assms(3,4)
    by (simp add: result_part_def redis_server.lrange [OF r] redis_server.sismember [OF r])
qed

text \<open>The statement on the hourly table gets lost.\<close>

definition sample_faulty :: "(mem, tables) world" where
  "sample_faulty = (pipe_world [raw_t0])\<lparr>outcomes := replicate 8 (Reply 0) @ [Lost 0]\<rparr>"

theorem failed_result_kept_witness:
  "LRANGE mem_redis KeyResultProcessingQueue (redis_st (snd (processOne sample_pipe sample_run no_stats sample_faulty))) = [raw_t0] \<and>
   \<not> SISMEMBER mem_redis KeyProcessedSet ''t0'' (redis_st (snd (processOne sample_pipe sample_run no_stats sample_faulty)))"
proof -
  let ?p = "PopResult (pl_queue sample_pipe) (pl_codec sample_pipe) (rn_pop sample_run) sample_faulty"
  let ?o = "processOne sample_pipe sample_run no_stats sample_faulty"
  have f: "fst ?p = Inr (fst (hd pipe_results))" "LRANGE mem_redis KeyResultProcessingQueue (redis_st (snd ?p)) = [raw_t0]"
    "\<not> SISMEMBER mem_redis KeyProcessedSet ''t0'' (redis_st (snd ?p))" "ps_Failed (fst ?o) \<noteq> ps_Failed no_stats"
    by code_simp+
  have p: "?p = (Inr (fst (hd pipe_results)), snd ?p)" using f(1) by (metis prod.collapse)
  have o: "?o = (fst ?o, snd ?o)" by simp
  from failed_result_kept [OF sample_pipe.pipeline_env_axioms p o f(4)] f(2,3) show ?thesis by metis
qed

end
