(* ===== verification/RateLimit.thy ===== *)
theory RateLimit
  imports Redis Float64
begin

text \<open>
  \<open>internal/pkg/ratelimit/ratelimit.go\<close>: a token bucket kept in a Redis hash and updated by a Lua script. Lua numbers are
  \<open>float64\<close>. How Redis turns a Lua number into the text of a hash field and how \<open>tonumber\<close> reads it back is
  not part of the repository: the argument \<open>lua\<close>, with the locale \<open>lua_numbers\<close> for what the script relies on
  (a \<open>float64\<close> is written with 17 significant digits, from which \<open>tonumber\<close> recovers it).
  \<open>HMGET\<close> reads fields of the hash. The call of the script is one command, so nothing interleaves with it.
\<close>

record lua =
  tostr :: "rat \<Rightarrow> string"
  tonum :: "string \<Rightarrow> rat option"

locale lua_numbers =
  fixes L :: lua
  assumes tonum_tostr: "tonum L (tostr L (rnd64 x)) = Some (rnd64 x)"

datatype rate_error = ErrRedisClientNil | ErrKeyEmpty | ErrEval | ErrInvalidResult

text \<open>The value of a field as a number, or the default.\<close>

definition field_num :: "lua \<Rightarrow> string option \<Rightarrow> rat \<Rightarrow> rat" where
  "field_num L v dflt = (case v of None \<Rightarrow> dflt | Some x \<Rightarrow> (case tonum L x of None \<Rightarrow> dflt | Some n \<Rightarrow> n))"

definition bucket_ttl :: "rat \<Rightarrow> rat \<Rightarrow> int" where
  "bucket_ttl rate burst = \<lceil>fmul (fmul (fdiv burst rate) 1000) 2\<rceil>"

definition Millisecond :: int where
  "Millisecond = 1000000"

definition store_bucket :: "lua \<Rightarrow> 's redis \<Rightarrow> string \<Rightarrow> rat \<Rightarrow> rat \<Rightarrow> rat \<Rightarrow> rat \<Rightarrow> 's \<Rightarrow> 's" where
  "store_bucket L R key rate burst tokens ts s = EXPIRE R key (bucket_ttl rate burst * Millisecond)
     (HSET R key [(''tokens'', tostr L tokens), (''ts'', tostr L ts)] s)"

definition tokenBucketLua :: "lua \<Rightarrow> 's redis \<Rightarrow> string \<Rightarrow> rat \<Rightarrow> rat \<Rightarrow> rat \<Rightarrow> rat \<Rightarrow> 's \<Rightarrow> int \<times> 's" where
  "tokenBucketLua L R key rate burst now requested s =
     (if rate \<le> 0 \<or> burst \<le> 0 then (1, s)
      else (let data = map_of (HGETALL R key s);
                tokens0 = field_num L (data ''tokens'') burst;
                ts0 = field_num L (data ''ts'') now;
                delta = max 0 (fsub now ts0);
                refill = fdiv (fmul delta rate) 1000;
                tokens1 = (if refill > 0 then min burst (fadd tokens0 refill) else tokens0);
                ts1 = (if refill > 0 then now else ts0)
            in if tokens1 < requested
               then (0, store_bucket L R key rate burst tokens1 ts1 s)
               else (1, store_bucket L R key rate burst (fsub tokens1 requested) ts1 s)))"

text \<open>The Go values a script may answer with.\<close>

datatype go_value = VInt64 int | VInt int | VFloat64 rat | VString string | VOther

definition toInt64 :: "(rat \<Rightarrow> int) \<Rightarrow> go_value \<Rightarrow> int" where
  "toInt64 oor v = (case v of VInt64 t \<Rightarrow> t | VInt t \<Rightarrow> t | VFloat64 t \<Rightarrow> f64_to_int64 oor t
     | VString t \<Rightarrow> if t = '''' then 0 else (case ParseInt 64 t of (n, err) \<Rightarrow> if err then 0 else n)
     | VOther \<Rightarrow> 0)"

definition allow_result :: "(rat \<Rightarrow> int) \<Rightarrow> go_value \<Rightarrow> rate_error + bool" where
  "allow_result oor res = (let allowed = toInt64 oor res
     in if allowed = 0 \<and> res \<noteq> VInt64 0 \<and> res \<noteq> VString ''0'' then Inl ErrInvalidResult else Inr (allowed = 1))"

definition Allow :: "(rat \<Rightarrow> int) \<Rightarrow> lua \<Rightarrow> 's redis option \<Rightarrow> int \<Rightarrow> string \<Rightarrow> int \<Rightarrow> int \<Rightarrow> ('s, 'd) world
    \<Rightarrow> (rate_error + bool) \<times> ('s, 'd) world" where
  "Allow oor L r now key limit burst w = (case r of None \<Rightarrow> (Inl ErrRedisClientNil, w) | Some R \<Rightarrow>
     if key = '''' then (Inl ErrKeyEmpty, w)
     else if limit \<le> 0 \<or> burst \<le> 0 then (Inr True, w)
     else (case rdo (tokenBucketLua L R key (f64_of_int limit) (f64_of_int burst) (f64_of_int now) 1) w of
         (None, w1) \<Rightarrow> (Inl ErrEval, w1)
       | (Some n, w1) \<Rightarrow> (allow_result oor (VInt64 n), w1)))"

section \<open>The bucket without Redis\<close>

text \<open>An abstract bucket: the tokens and the time of the last refill in milliseconds, or nothing yet.\<close>

definition take_token :: "rat \<Rightarrow> rat \<Rightarrow> rat \<Rightarrow> (rat \<times> rat) option \<Rightarrow> bool \<times> (rat \<times> rat) option" where
  "take_token rate burst now b =
     (case (case b of None \<Rightarrow> (burst, now) | Some x \<Rightarrow> x) of (tokens, ts) \<Rightarrow>
      (let refill = fdiv (fmul (max 0 (fsub now ts)) rate) 1000;
           tokens1 = (if refill > 0 then min burst (fadd tokens refill) else tokens);
           ts1 = (if refill > 0 then now else ts)
       in if tokens1 < 1 then (False, Some (tokens1, ts1)) else (True, Some (fsub tokens1 1, ts1))))"

text \<open>What a hash holds of a bucket: two \<open>float64\<close> values.\<close>

definition bucket_of :: "lua \<Rightarrow> (string \<rightharpoonup> string) \<Rightarrow> (rat \<times> rat) option \<Rightarrow> bool" where
  "bucket_of L h b \<longleftrightarrow> (case b of None \<Rightarrow> h ''tokens'' = None \<and> h ''ts'' = None
     | Some (tokens, ts) \<Rightarrow> h ''tokens'' = Some (tostr L tokens) \<and> h ''ts'' = Some (tostr L ts)
         \<and> tokens \<in> range rnd64 \<and> ts \<in> range rnd64)"

fun take_all :: "rat \<Rightarrow> rat \<Rightarrow> rat list \<Rightarrow> (rat \<times> rat) option \<Rightarrow> bool list" where
  "take_all rate burst [] b = []"
| "take_all rate burst (t # ts) b = (case take_token rate burst t b of (ok, b') \<Rightarrow> ok # take_all rate burst ts b')"

text \<open>Calls of \<open>Allow\<close> one after the other.\<close>

fun allow_all :: "(rat \<Rightarrow> int) \<Rightarrow> lua \<Rightarrow> 's redis \<Rightarrow> string \<Rightarrow> int \<Rightarrow> int \<Rightarrow> int list \<Rightarrow> ('s, 'd) world \<Rightarrow> (rate_error + bool) list" where
  "allow_all oor L R key limit burst [] w = []"
| "allow_all oor L R key limit burst (t # ts) w = (case Allow oor L (Some R) t key limit burst w of (r, w1) \<Rightarrow>
     r # allow_all oor L R key limit burst ts w1)"

lemma bucket_ttl_pos:
  assumes "0 < rate" "0 < burst"
  shows "0 < bucket_ttl rate burst"
  using assms by (simp add: bucket_ttl_def fmul_def fdiv_def rnd64_positive)

section \<open>The script implements the bucket\<close>

locale rate_limiter = redis_server R view + lua_numbers L
  for R :: "'s redis" and view :: "'s \<Rightarrow> keyspace" and L :: lua
begin

lemma store_bucket_view:
  assumes "0 < rate" "0 < burst" "tokens \<in> range rnd64" "ts \<in> range rnd64"
  shows "bucket_of L (hashes (view (store_bucket L R key rate burst tokens ts s)) key) (Some (tokens, ts))"
  using bucket_ttl_pos [OF assms(1,2)] assms(3,4)
  by (simp add: store_bucket_def bucket_of_def expire hset Millisecond_def)

lemma script_refines:
  assumes "0 < rate" "0 < burst" "burst \<in> range rnd64" "now \<in> range rnd64"
    and "bucket_of L (hashes (view s) key) b" "take_token rate burst now b = (ok, b')"
  shows "fst (tokenBucketLua L R key rate burst now 1 s) = (if ok then 1 else 0) \<and>
    bucket_of L (hashes (view (snd (tokenBucketLua L R key rate burst now 1 s))) key) b'"
proof -
  define tk where "tk = (case b of None \<Rightarrow> (burst, now) | Some x \<Rightarrow> x)"
  obtain k z where kz: "tk = (k, z)" by fastforce
  have f: "field_num L (hashes (view s) key ''tokens'') burst = k" "field_num L (hashes (view s) key ''ts'') now = z"
    using assms(5) kz by (auto simp: tk_def bucket_of_def field_num_def tonum_tostr split: option.splits)
  have r: "k \<in> range rnd64" "z \<in> range rnd64"
    using assms(3-5) kz by (auto simp: tk_def bucket_of_def split: option.splits)
  define refill where "refill = fdiv (fmul (max 0 (fsub now z)) rate) 1000"
  define k1 where "k1 = (if refill > 0 then min burst (fadd k refill) else k)"
  define z1 where "z1 = (if refill > 0 then now else z)"
  have r1: "k1 \<in> range rnd64" "z1 \<in> range rnd64" "fsub k1 1 \<in> range rnd64"
    using r assms(3,4) by (simp_all add: k1_def z1_def min_def fadd_def fsub_def)
  have out: "tokenBucketLua L R key rate burst now 1 s = (if k1 < 1 then (0, store_bucket L R key rate burst k1 z1 s)
      else (1, store_bucket L R key rate burst (fsub k1 1) z1 s))"
    using assms(1,2) by (simp add: tokenBucketLua_def hgetall f Let_def k1_def z1_def refill_def)
  have "(ok, b') = (if k1 < 1 then (False, Some (k1, z1)) else (True, Some (fsub k1 1, z1)))"
    using assms(6) kz by (simp add: take_token_def tk_def [symmetric] Let_def k1_def z1_def refill_def split: if_splits)
  then show ?thesis using store_bucket_view [OF assms(1,2)] r1 out by (auto split: if_splits)
qed

lemma Allow_refines:
  assumes "quiet w" "key \<noteq> ''''" "0 < limit" "0 < burst" "bucket_of L (hashes (view (redis_st w)) key) b"
    and "0 < f64_of_int limit" "0 < f64_of_int burst"
    and "take_token (f64_of_int limit) (f64_of_int burst) (f64_of_int now) b = (ok, b')"
  shows "\<exists>w1. Allow oor L (Some R) now key limit burst w = (Inr ok, w1) \<and> quiet w1 \<and> bucket_of L (hashes (view (redis_st w1)) key) b'"
  using script_refines [OF assms(6,7) _ _ assms(5,8)] assms(1-4)
  by (auto simp: Allow_def allow_result_def toInt64_def f64_of_int_def Let_def)

lemma allow_all_refines:
  assumes "quiet w" "key \<noteq> ''''" "0 < limit" "0 < burst" "bucket_of L (hashes (view (redis_st w)) key) b"
  shows "allow_all oor L R key limit burst ts w = map Inr (take_all (f64_of_int limit) (f64_of_int burst) (map f64_of_int ts) b)"
  using assms(1,5)
proof (induction ts arbitrary: w b)
  case (Cons t ts)
  have pos: "0 < f64_of_int limit" "0 < f64_of_int burst" using assms(3,4) by (simp_all add: f64_of_int_def rnd64_positive)
  obtain ok b' where k: "take_token (f64_of_int limit) (f64_of_int burst) (f64_of_int t) b = (ok, b')" by fastforce
  obtain w1 where "Allow oor L (Some R) t key limit burst w = (Inr ok, w1)" "quiet w1" "bucket_of L (hashes (view (redis_st w1)) key) b'"
    using Allow_refines [OF Cons.prems(1) assms(2-4) Cons.prems(2) pos k] by blast
  then show ?case using Cons.IH k by simp
qed simp

end

section \<open>How much a bucket lets through\<close>

lemma fsub_int: "\<bar>a - b\<bar> \<le> 2 ^ 53 \<Longrightarrow> fsub (of_int a) (of_int b) = of_int (a - b)"
  unfolding fsub_def of_int_diff [symmetric] by (rule rnd64_of_int)

text \<open>The error of one step: three roundings.\<close>

definition slack :: rat where
  "slack = 1 / 2 ^ 51"

lemma refill_le:
  assumes "0 \<le> d" "0 < rate"
  shows "0 \<le> fdiv (fmul d rate) 1000" "fdiv (fmul d rate) 1000 \<le> d * rate / 1000 * (1 + slack)"
proof -
  have "0 \<le> fdiv (fmul d rate) 1000 \<and> fdiv (fmul d rate) 1000 \<le> d * rate / 1000 * (1 + slack)"
  proof (cases "d = 0")
    case True
    then show ?thesis by (simp add: fdiv_def fmul_def rnd64_def)
  next
    case False
    let ?u = "1 / 2 ^ 53 :: rat" and ?a = "d * rate"
    have a: "0 < ?a" using assms False by simp
    have m: "0 < rnd64 ?a" "rnd64 ?a \<le> ?a * (1 + ?u)" using rnd64_positive [OF a] rnd64_rel(2) [OF a] by auto
    have "rnd64 (rnd64 ?a / 1000) \<le> rnd64 ?a / 1000 * (1 + ?u)" using m(1) by (intro rnd64_rel(2)) simp
    also have "\<dots> \<le> ?a * (1 + ?u) / 1000 * (1 + ?u)" using m(2) by (intro mult_right_mono divide_right_mono) simp_all
    also have "\<dots> = ?a / 1000 * ((1 + ?u) * (1 + ?u))" by simp
    also have "\<dots> \<le> ?a / 1000 * (1 + slack)" using a by (intro mult_left_mono) (simp_all add: slack_def)
    finally show ?thesis using rnd64_positive [of "rnd64 ?a / 1000"] m(1) by (simp add: fdiv_def fmul_def)
  qed
  then show "0 \<le> fdiv (fmul d rate) 1000" "fdiv (fmul d rate) 1000 \<le> d * rate / 1000 * (1 + slack)" by auto
qed

lemma grown_le:
  assumes "0 \<le> tokens" "0 < refill" "burst \<le> 2 ^ 53" "tokens \<le> of_int burst"
  shows "min (of_int burst) (fadd tokens refill) \<le> tokens + refill + of_int burst / 2 ^ 52"
    and "0 \<le> min (of_int burst) (fadd tokens refill)"
proof -
  let ?x = "tokens + refill"
  have x: "0 < ?x" and b: "0 \<le> (of_int burst :: rat)" using assms by linarith+
  show "0 \<le> min (of_int burst) (fadd tokens refill)" using rnd64_positive [OF x] b by (simp add: fadd_def)
  show "min (of_int burst) (fadd tokens refill) \<le> ?x + of_int burst / 2 ^ 52"
  proof (cases "of_int burst \<le> ?x")
    case True
    then show ?thesis using b by (simp add: min_def add_increasing2)
  next
    case False
    have "rnd64 ?x \<le> ?x + ?x / 2 ^ 53" using rnd64_error [OF x] by linarith
    moreover have "?x / 2 ^ 53 \<le> of_int burst / 2 ^ 52" by (rule frac_le) (use False b x in simp_all)
    ultimately have "fadd tokens refill \<le> ?x + of_int burst / 2 ^ 52" unfolding fadd_def by linarith
    then show ?thesis by (rule min.coboundedI2)
  qed
qed

lemma spent_le:
  assumes "1 \<le> x" "x \<le> of_int burst" "burst \<le> 2 ^ 53"
  shows "0 \<le> fsub x 1" "fsub x 1 \<le> of_int burst" "fsub x 1 + 1 \<le> x + of_int burst / 2 ^ 53"
proof -
  have n: "0 \<le> x - 1" using assms(1) by simp
  have b: "1 \<le> (of_int burst :: rat)" using assms by linarith
  then have b1: "1 \<le> burst" by simp
  show "0 \<le> fsub x 1" using rnd64_ge_int [of 0 "x - 1"] n by (simp add: fsub_def)
  show "fsub x 1 \<le> of_int burst" unfolding fsub_def by (rule rnd64_le_int) (use assms b1 in simp_all)
  show "fsub x 1 + 1 \<le> x + of_int burst / 2 ^ 53"
  proof (cases "x = 1")
    case True
    then show ?thesis using b by (simp add: fsub_def rnd64_def)
  next
    case False
    then have p: "0 < x - 1" using n by simp
    have "rnd64 (x - 1) \<le> x - 1 + (x - 1) / 2 ^ 53" using rnd64_error [OF p] by linarith
    moreover have "(x - 1) / 2 ^ 53 \<le> of_int burst / 2 ^ 53" using assms(2) by (intro divide_right_mono) simp_all
    ultimately show ?thesis unfolding fsub_def by linarith
  qed
qed

lemma take_step:
  assumes "0 \<le> k" "k \<le> of_int burst" "z \<le> t" "\<bar>z\<bar> \<le> 2 ^ 52" "\<bar>t\<bar> \<le> 2 ^ 52" "0 < rate" "0 < burst" "burst \<le> 2 ^ 53"
    and "take_token rate (of_int burst) (of_int t) (Some (k, of_int z)) = (ok, b')"
  shows "\<exists>k' z'. b' = Some (k', of_int z') \<and> z \<le> z' \<and> z' \<le> t \<and> 0 \<le> k' \<and> k' \<le> of_int burst \<and>
    k' + (if ok then 1 else 0) \<le> k + of_int (z' - z) * rate / 1000 * (1 + slack) + of_int burst * slack"
proof -
  let ?R = "fdiv (fmul (of_int (t - z)) rate) 1000"
  have d: "max 0 (fsub (of_int t) (of_int z)) = (of_int (t - z) :: rat)"
    using assms(3-5) by (subst fsub_int) (simp_all add: max_def)
  note R = refill_le [of "of_int (t - z)" rate]
  define k1 where "k1 = (if ?R > 0 then min (of_int burst) (fadd k ?R) else k)"
  define z1 where "z1 = (if ?R > 0 then t else z)"
  have z1: "z \<le> z1" "z1 \<le> t" using assms(3) by (simp_all add: z1_def)
  have b: "0 < (of_int burst :: rat)" using assms(7) by simp
  have k1: "0 \<le> k1" "k1 \<le> of_int burst" "k1 \<le> k + of_int (z1 - z) * rate / 1000 * (1 + slack) + of_int burst / 2 ^ 52"
    using grown_le [of k ?R burst] R assms(1-3,6,8) b by (auto simp: k1_def z1_def)
  have tk: "(ok, b') = (if k1 < 1 then (False, Some (k1, of_int z1)) else (True, Some (fsub k1 1, of_int z1)))"
    using assms(9) by (cases "?R > 0") (auto simp: take_token_def d Let_def k1_def z1_def simp del: of_int_diff)
  have s: "of_int burst / 2 ^ 52 + of_int burst / 2 ^ 53 \<le> of_int burst * slack" "of_int burst / 2 ^ 52 \<le> of_int burst * slack"
    using b by (simp_all add: slack_def)
  show ?thesis
  proof (cases "k1 < 1")
    case True
    then show ?thesis using tk k1 z1 s by auto
  next
    case False
    then have sp: "0 \<le> fsub k1 1" "fsub k1 1 \<le> of_int burst" "fsub k1 1 + 1 \<le> k1 + of_int burst / 2 ^ 53"
      using spent_le [of k1 burst] k1 assms(8) by simp_all
    have "fsub k1 1 + 1 \<le> k + of_int (z1 - z) * rate / 1000 * (1 + slack) + of_int burst * slack"
      using sp(3) k1(3) s(1) by linarith
    then show ?thesis using tk z1 sp(1,2) False by simp
  qed
qed

lemma take_all_bound:
  assumes "0 < rate" "0 < burst" "burst \<le> 2 ^ 53" "\<bar>T\<bar> \<le> 2 ^ 52" "sorted (z # ts)" "\<forall>t \<in> set (z # ts). \<bar>t\<bar> \<le> 2 ^ 52 \<and> t \<le> T"
    and "0 \<le> k" "k \<le> of_int burst"
  shows "of_nat (length (filter (\<lambda>x. x) (take_all rate (of_int burst) (map of_int ts) (Some (k, of_int z))))) \<le>
    k + of_int (T - z) * rate / 1000 * (1 + slack) + of_nat (length ts) * (of_int burst * slack)"
  using assms(5-8)
proof (induction ts arbitrary: k z)
  case Nil
  then have "0 \<le> of_int (T - z) * rate / 1000 * (1 + slack)" using assms(1) by (simp add: slack_def)
  then show ?case using Nil by simp
next
  case (Cons t ts)
  obtain ok b' where tk: "take_token rate (of_int burst) (of_int t) (Some (k, of_int z)) = (ok, b')" by fastforce
  have "z \<le> t" "\<bar>z\<bar> \<le> 2 ^ 52" "\<bar>t\<bar> \<le> 2 ^ 52" using Cons.prems by auto
  from take_step [OF Cons.prems(3,4) this assms(1-3) tk]
  obtain k' z' where s: "b' = Some (k', of_int z')" "z \<le> z'" "z' \<le> t" "0 \<le> k'" "k' \<le> of_int burst"
    "k' + (if ok then 1 else 0) \<le> k + of_int (z' - z) * rate / 1000 * (1 + slack) + of_int burst * slack" by blast
  let ?n = "\<lambda>b. of_nat (length (filter (\<lambda>x. x) (take_all rate (of_int burst) (map of_int ts) b))) :: rat"
  have srt: "sorted (z' # ts)" "\<forall>t \<in> set (z' # ts). \<bar>t\<bar> \<le> 2 ^ 52 \<and> t \<le> T" using Cons.prems(1,2) s(2,3) by auto
  have ih: "?n b' \<le> k' + of_int (T - z') * rate / 1000 * (1 + slack) + of_nat (length ts) * (of_int burst * slack)"
    using Cons.IH [OF srt s(4,5)] s(1) by simp
  have split: "of_int (T - z) * rate / 1000 * (1 + slack) = of_int (z' - z) * rate / 1000 * (1 + slack) + of_int (T - z') * rate / 1000 * (1 + slack)"
    by (simp add: field_simps)
  have "of_nat (length (filter (\<lambda>x. x) (take_all rate (of_int burst) (map of_int (t # ts)) (Some (k, of_int z))))) = ?n b' + (if ok then 1 else 0)"
    by (simp add: tk)
  also have "\<dots> \<le> k + of_int (T - z) * rate / 1000 * (1 + slack) + of_nat (length (t # ts)) * (of_int burst * slack)"
    using ih s(6) unfolding split by (simp add: distrib_right)
  finally show ?case .
qed


lemma sorted_last_max: "sorted xs \<Longrightarrow> x \<in> set xs \<Longrightarrow> x \<le> last xs" for x :: int
  by (induction xs) (auto split: if_splits)

lemma filter_Inr: "filter (\<lambda>r. r = Inr True) (map Inr bs) = map Inr (filter (\<lambda>b. b) bs)"
  by (induction bs) auto

text \<open>A bucket not yet stored is a full one.\<close>

lemma take_token_None: "take_token rate burst t None = take_token rate burst t (Some (burst, t))"
  by (simp add: take_token_def)

lemma take_all_None: "take_all rate burst (t # ts) None = take_all rate burst (t # ts) (Some (burst, t))"
  by (simp add: take_token_None)

text \<open>After the lifetime of the key the stored bucket is full again: expiry forgets nothing.\<close>

lemma rnd64_ge_tenths: "0 < q \<Longrightarrow> q * (9 / 10) \<le> rnd64 q"
proof -
  assume q: "0 < q"
  have "q * (9 / 10) \<le> q * (1 - 1 / 2 ^ 53)" using q by (intro mult_left_mono) simp_all
  then show ?thesis using rnd64_rel(1) [OF q] by linarith
qed

lemma bucket_ttl_ge:
  assumes "0 < rate" "0 < burst"
  shows "burst / rate * 1458 \<le> of_int (bucket_ttl rate burst)"
proof -
  let ?a = "rnd64 (burst / rate)"
  have a: "0 < ?a" "burst / rate * (9 / 10) \<le> ?a" 
    using rnd64_positive [of "burst / rate"] rnd64_ge_tenths [of "burst / rate"] assms by simp_all
  let ?b = "rnd64 (?a * 1000)"
  have b: "0 < ?b" "?a * 1000 * (9 / 10) \<le> ?b" 
    using rnd64_positive [of "?a * 1000"] rnd64_ge_tenths [of "?a * 1000"] a(1) by simp_all
  have c: "?b * 2 * (9 / 10) \<le> rnd64 (?b * 2)" using b(1) by (intro rnd64_ge_tenths) simp
  have "rnd64 (?b * 2) \<le> of_int (bucket_ttl rate burst)" by (simp add: bucket_ttl_def fmul_def fdiv_def)
  then have "x * (9 / 10) \<le> ?a \<Longrightarrow> x * 1458 \<le> of_int (bucket_ttl rate burst)" for x
    using b(2) c by linarith
  then show ?thesis using a(2) .
qed

lemma refill_ge:
  assumes "0 < d" "0 < rate"
  shows "d * rate / 1000 * (81 / 100) \<le> fdiv (fmul d rate) 1000"
proof -
  let ?a = "rnd64 (d * rate)"
  have a: "0 < ?a" "d * rate * (9 / 10) \<le> ?a" 
    using rnd64_positive [of "d * rate"] rnd64_ge_tenths [of "d * rate"] assms by simp_all
  have "?a / 1000 * (9 / 10) \<le> rnd64 (?a / 1000)" using a(1) by (intro rnd64_ge_tenths) simp
  then show ?thesis using a(2) by (simp add: fdiv_def fmul_def)
qed

lemma expired_token:
  assumes "0 \<le> k" "0 < rate" "0 < burst"
    and "\<bar>t - z\<bar> \<le> 2 ^ 53" "bucket_ttl rate burst \<le> t - z"
    and idem: "rnd64 burst = burst"
  shows "take_token rate burst (of_int t) (Some (k, of_int z)) = take_token rate burst (of_int t) None"
proof -
  let ?d = "of_int (t - z) :: rat"
  have pos: "0 < t - z" using bucket_ttl_pos [OF assms(2,3)] assms(5) by linarith
  have d: "max 0 (fsub (of_int t) (of_int z)) = ?d" using assms(4) pos by (subst fsub_int) (simp_all add: max_def)
  let ?R = "fdiv (fmul ?d rate) 1000"
  have "burst / rate * 1458 \<le> ?d"
    using bucket_ttl_ge [OF assms(2,3)] assms(5) by (meson of_int_le_iff order_trans)
  then have "burst / rate * 1458 * (rate / 1000) \<le> ?d * (rate / 1000)" using assms(2) by (intro mult_right_mono) simp_all
  moreover have "burst / rate * 1458 * (rate / 1000) = burst * (1458 / 1000)"
    using assms(2) by simp
  ultimately have "burst * (1458 / 1000) \<le> ?d * rate / 1000" by simp
  moreover have "?d * rate / 1000 * (81 / 100) \<le> ?R" using pos assms(2) by (intro refill_ge) simp_all
  ultimately have R: "burst \<le> ?R" using assms(3) by linarith
  have "burst \<le> fadd k ?R" using rnd64_mono [of burst "k + ?R"] R assms(1) idem by (simp add: fadd_def)
  then have "min burst (fadd k ?R) = burst" by simp
  moreover have "0 < ?R" using R assms(3) by linarith
  ultimately show ?thesis using d by (simp add: take_token_def fsub_def fmul_def fdiv_def Let_def del: of_int_diff)
qed


section \<open>The limiter on a Redis server\<close>

text \<open>
  A text for a rational number that can be read back: its numerator and denominator. It stands for the server's own number
  format in the examples below.
\<close>

definition sample_lua :: lua where
  "sample_lua = \<lparr>
     tostr = (\<lambda>x. case quotient_of x of (p, q) \<Rightarrow> FormatInt p @ CHR ''/'' # FormatNat (nat q)),
     tonum = (\<lambda>s. case split_sign s of (neg, r) \<Rightarrow>
        let p = int (digits_val (takeWhile is_digit r)); q = int (digits_val (tl (dropWhile is_digit r)))
        in Some (Fract (if neg then - p else p) q))\<rparr>"

lemma split_sign_append:
  "split_sign (FormatInt n @ rest) = (n < 0, FormatNat (nat \<bar>n\<bar>) @ rest)"
proof (cases "n < 0")
  case False
  obtain c cs where c: "FormatNat (nat n) = c # cs" using FormatNat_nonempty by (meson list.exhaust)
  then have "is_digit c" using FormatNat_digits [of "nat n"] by simp
  then show ?thesis using False c by (auto simp: FormatInt_def split_sign_def)
qed (simp add: FormatInt_def split_sign_def)

lemma digits_then_slash:
  assumes "list_all is_digit ds"
  shows "takeWhile is_digit (ds @ CHR ''/'' # rest) = ds" "dropWhile is_digit (ds @ CHR ''/'' # rest) = CHR ''/'' # rest"
  using assms by (induction ds) (auto simp: is_digit_def)

interpretation sample_lua: lua_numbers sample_lua
proof
  fix y
  let ?x = "rnd64 y"
  obtain p q where pq: "quotient_of ?x = (p, q)" by fastforce
  have "0 < q" using quotient_of_denom_pos [OF pq] .
  moreover have "Fract p q = ?x" using Fract_of_int_quotient quotient_of_div [OF pq] by simp
  moreover have "(if p < 0 then - \<bar>p\<bar> else \<bar>p\<bar>) = p" by simp
  ultimately show "tonum sample_lua (tostr sample_lua ?x) = Some ?x"
    by (simp add: sample_lua_def pq split_sign_append digits_then_slash Let_def)
qed

interpretation sample_limiter: rate_limiter mem_redis mem_view sample_lua
  by (simp add: rate_limiter_def memory.redis_server_axioms sample_lua.lua_numbers_axioms)

definition limit_world :: "(mem, unit) world" where
  "limit_world = \<lparr>redis_st = mem_empty, db_st = (), outcomes = []\<rparr>"

lemma limit_world_facts:
  "quiet limit_world" "hashes (mem_view (redis_st limit_world)) key = Map.empty" "bucket_of L (hashes (mem_view (redis_st limit_world)) key) None"
  by (simp_all add: limit_world_def mem_simps quiet_def bucket_of_def)

lemma numeral_double [simp]: "(numeral n :: int) \<le> 2 ^ 53 \<Longrightarrow> numeral n \<in> range rnd64" "1 \<in> range rnd64"
  using rnd64_numeral [of n] rnd64_one by (metis rangeI)+




text \<open>
  (C22) \<open>Allow\<close> implements the bucket: on a server whose hash holds the bucket \<open>b\<close>, the answer is that of
  \<open>take_token\<close> and the hash afterwards holds its new bucket.
\<close>

theorem Allow_refines_bucket:
  assumes "redis_server R view" "lua_numbers L" "quiet w" "key \<noteq> ''''" "0 < limit" "0 < burst"
    and "bucket_of L (hashes (view (redis_st w)) key) b"
  shows "\<exists>ok b' w1. take_token (f64_of_int limit) (f64_of_int burst) (f64_of_int now) b = (ok, b') \<and>
    Allow oor L (Some R) now key limit burst w = (Inr ok, w1) \<and> quiet w1 \<and> bucket_of L (hashes (view (redis_st w1)) key) b'"
proof -
  have rl: "rate_limiter R view L" using assms(1,2) by (simp add: rate_limiter_def)
  have pos: "0 < f64_of_int limit" "0 < f64_of_int burst" using assms(5,6) by (simp_all add: f64_of_int_def rnd64_positive)
  obtain ok b' where "take_token (f64_of_int limit) (f64_of_int burst) (f64_of_int now) b = (ok, b')" by fastforce
  then show ?thesis using rate_limiter.Allow_refines [OF rl assms(3-7) pos] by blast
qed


theorem Allow_refines_bucket_witness:
  "\<exists>w1. Allow (\<lambda>_. 0) sample_lua (Some mem_redis) 7 ''rl'' 2 3 limit_world = (Inr True, w1) \<and> quiet w1 \<and>
    bucket_of sample_lua (hashes (mem_view (redis_st w1)) ''rl'') (Some (2, 7))"
  using Allow_refines_bucket [OF memory.redis_server_axioms sample_lua.lua_numbers_axioms, of limit_world "''rl''" 2 3 None 7 "\<lambda>_. 0"]
  by (auto simp: limit_world_facts bucket_of_def [of _ _ None] take_token_def f64_of_int_def fsub_def fmul_def fdiv_def)

text \<open>
  The lifetime given to the key is long enough: once it has passed, a call on the expired key (no hash) answers as on
  the stored bucket and leaves the same bucket behind.
\<close>

theorem expired_bucket_forgets_nothing:
  assumes "redis_server R view" "lua_numbers L" "quiet w" "quiet v" "key \<noteq> ''''"
    and "0 < limit" "limit \<le> 2 ^ 31" "0 < burst" "burst \<le> 2 ^ 31"
    and "bucket_of L (hashes (view (redis_st w)) key) (Some (k, of_int z))" "0 \<le> k" "0 \<le> z" "now \<le> 2 ^ 53"
    and "bucket_ttl (of_int limit) (of_int burst) \<le> now - z" "hashes (view (redis_st v)) key = Map.empty"
  shows "\<exists>ok b w1 v1. Allow oor L (Some R) now key limit burst w = (Inr ok, w1) \<and> Allow oor L (Some R) now key limit burst v = (Inr ok, v1) \<and>
    bucket_of L (hashes (view (redis_st w1)) key) b \<and> bucket_of L (hashes (view (redis_st v1)) key) b"
proof -
  have rl: "rate_limiter R view L" using assms(1,2) by (simp add: rate_limiter_def)
  have f: "f64_of_int limit = of_int limit" "f64_of_int burst = of_int burst" "rnd64 (of_int burst) = of_int burst"
    using assms(6-9) by (simp_all add: f64_of_int_def rnd64_of_int)
  have pos: "0 < f64_of_int limit" "0 < f64_of_int burst" using assms(6,8) f by simp_all
  have "0 < now - z" using bucket_ttl_pos [OF pos] assms(14) f by simp
  then have n: "f64_of_int now = of_int now" "\<bar>now - z\<bar> \<le> 2 ^ 53" using assms(12,13) by (simp_all add: f64_of_int_def rnd64_of_int)
  obtain ok b where tk: "take_token (f64_of_int limit) (f64_of_int burst) (f64_of_int now) None = (ok, b)" by fastforce
  then have "take_token (f64_of_int limit) (f64_of_int burst) (f64_of_int now) (Some (k, of_int z)) = (ok, b)"
    using expired_token [OF assms(11) _ _ n(2)] assms(6,8,14) f n by simp
  moreover have "bucket_of L (hashes (view (redis_st v)) key) None" using assms(15) by (simp add: bucket_of_def)
  ultimately show ?thesis
    using rate_limiter.Allow_refines [OF rl assms(3,5,6,8,10) pos] rate_limiter.Allow_refines [OF rl assms(4,5,6,8) _ pos tk] by metis
qed

definition limit_used :: "(mem, unit) world" where
  "limit_used = limit_world\<lparr>redis_st := mem_empty\<lparr>m_hashes := [(''rl'', [(''tokens'', tostr sample_lua 1), (''ts'', tostr sample_lua 7)])]\<rparr>\<rparr>"

theorem expired_bucket_forgets_nothing_witness:
  "\<exists>ok b w1 v1. Allow (\<lambda>_. 0) sample_lua (Some mem_redis) 4000 ''rl'' 2 3 limit_used = (Inr ok, w1) \<and>
    Allow (\<lambda>_. 0) sample_lua (Some mem_redis) 4000 ''rl'' 2 3 limit_world = (Inr ok, v1) \<and>
    bucket_of sample_lua (hashes (mem_view (redis_st w1)) ''rl'') b \<and> bucket_of sample_lua (hashes (mem_view (redis_st v1)) ''rl'') b"
proof -
  have t: "bucket_ttl (of_int 2) (of_int 3) = 3000" by code_simp
  have "quiet limit_used" "bucket_of sample_lua (hashes (mem_view (redis_st limit_used)) ''rl'') (Some (1, of_int 7))"
    by (simp_all add: limit_used_def limit_world_def mem_simps quiet_def bucket_of_def)
  then show ?thesis
    by (intro expired_bucket_forgets_nothing [OF memory.redis_server_axioms sample_lua.lua_numbers_axioms, where k = 1 and z = 7])
      (use t in \<open>simp_all add: limit_world_facts\<close>)
qed

end
