(* ===== verification/Archiver.thy ===== *)
theory Archiver
  imports Aggregator Cache Scheduler
begin

text \<open>
  \<open>internal/analyzer/archiver.go\<close>: hourly rows are rolled up into days, days into weeks, weeks into months, and old rows
  are deleted. All boundaries are in JST; the times passed in are located there, so that \<open>time.Date\<close> of their year, month
  and day is \<open>midnight JST\<close>. The argument \<open>zone\<close> is the location of the database connection: a \<open>DATE\<close> column
  keeps the local day of a time. A query without \<open>ORDER BY\<close> answers in the order of the table. The aggregation functions
  return whether they succeeded, the runs whether they failed.
\<close>

section \<open>Helpers\<close>

definition toMondayJST :: "int \<Rightarrow> int" where
  "toMondayJST t = (let d = midnight JST t; weekday = Weekday JST d; weekday' = (if weekday = 0 then 7 else weekday)
     in d - (weekday' - 1) * Day)"

definition calculateMedian :: "rat list \<Rightarrow> rat" where
  "calculateMedian vs = (let n = length vs in if n = 0 then 0
     else if n mod 2 = 0 then fdiv (fadd (vs ! (n div 2 - 1)) (vs ! (n div 2))) 2
     else vs ! (n div 2))"

fun sum_loop :: "rat \<Rightarrow> rat list \<Rightarrow> rat" where
  "sum_loop s [] = s"
| "sum_loop s (v # vs) = sum_loop (fadd s v) vs"

definition calculateAverage :: "rat list \<Rightarrow> rat" where
  "calculateAverage values = (if values = [] then 0 else fdiv (sum_loop 0 values) (f64_of_int (int (length values))))"

text \<open>The first day of the month of a time and of the months after it.\<close>

definition month_start :: "int \<Rightarrow> int \<Rightarrow> int" where
  "month_start k t = (case Date JST t of (y, m, _) \<Rightarrow> DateAt JST y (m + k) 1)"

text \<open>\<open>Find\<close> leaves soft-deleted IPs out.\<close>

definition live_ips :: "'d database \<Rightarrow> 'd \<Rightarrow> IPMetadata list" where
  "live_ips D d = filter (\<lambda>r. ip_DeletedAt r = None) (ip_metadata D d)"

text \<open>The loop over the IPs: an error is logged and the loop goes on.\<close>

fun for_ips :: "(u64 \<Rightarrow> 'w \<Rightarrow> bool \<times> 'w) \<Rightarrow> IPMetadata list \<Rightarrow> 'w \<Rightarrow> 'w" where
  "for_ips f [] w = w"
| "for_ips f (ip # ips) w = for_ips f ips (snd (f (ip_ID ip) w))"

section \<open>Writing a row\<close>

definition col_json :: "PriceItemJSON option \<Rightarrow> PriceItemJSON option" where
  "col_json p = (case p of None \<Rightarrow> None | Some i \<Rightarrow> if pi_SourceID i = '''' then None else p)"

definition period_key :: "u64 \<Rightarrow> int \<Rightarrow> IPStatsPeriod \<Rightarrow> bool" where
  "period_key ip t r = (sp_IPID r = ip \<and> sp_Start r = t)"

text \<open>The row an \<open>INSERT\<close> leaves.\<close>

definition period_row :: "mysql \<Rightarrow> int \<Rightarrow> int \<Rightarrow> IPStatsPeriod \<Rightarrow> IPStatsPeriod" where
  "period_row M zone now p = p\<lparr>sp_Start := midnight zone (sp_Start p), sp_AvgLiquidity := map_option (col_index M) (sp_AvgLiquidity p),
     sp_MaxSoldPrice := map_option (col_price M) (sp_MaxSoldPrice p), sp_MinSoldPrice := map_option (col_price M) (sp_MinSoldPrice p),
     sp_MedianSoldPrice := map_option (col_price M) (sp_MedianSoldPrice p), sp_AvgSoldPrice := map_option (col_price M) (sp_AvgSoldPrice p),
     sp_MinPriceItem := col_json (sp_MinPriceItem p), sp_MaxPriceItem := col_json (sp_MaxPriceItem p), sp_CreatedAt := col_ms M now\<rparr>"

text \<open>\<open>Assign\<close> with a structure: an existing row gets the fields that are not the zero value of their type.\<close>

definition keep_none :: "('a \<Rightarrow> 'b) \<Rightarrow> 'a option \<Rightarrow> 'b option \<Rightarrow> 'b option" where
  "keep_none f new old = (case new of None \<Rightarrow> old | Some x \<Rightarrow> Some (f x))"

definition keep_zero :: "u32 \<Rightarrow> u32 \<Rightarrow> u32" where
  "keep_zero new old = (if new = 0 then old else new)"

definition period_assign :: "mysql \<Rightarrow> IPStatsPeriod \<Rightarrow> IPStatsPeriod \<Rightarrow> IPStatsPeriod" where
  "period_assign M p r = r\<lparr>sp_TotalInflow := keep_zero (sp_TotalInflow p) (sp_TotalInflow r),
     sp_TotalOutflow := keep_zero (sp_TotalOutflow p) (sp_TotalOutflow r),
     sp_AvgLiquidity := keep_none (col_index M) (sp_AvgLiquidity p) (sp_AvgLiquidity r),
     sp_MaxSoldPrice := keep_none (col_price M) (sp_MaxSoldPrice p) (sp_MaxSoldPrice r),
     sp_MinSoldPrice := keep_none (col_price M) (sp_MinSoldPrice p) (sp_MinSoldPrice r),
     sp_MedianSoldPrice := keep_none (col_price M) (sp_MedianSoldPrice p) (sp_MedianSoldPrice r),
     sp_AvgSoldPrice := keep_none (col_price M) (sp_AvgSoldPrice p) (sp_AvgSoldPrice r),
     sp_MinPriceItem := (if sp_MinPriceItem p = None then sp_MinPriceItem r else col_json (sp_MinPriceItem p)),
     sp_MaxPriceItem := (if sp_MaxPriceItem p = None then sp_MaxPriceItem r else col_json (sp_MaxPriceItem p)),
     sp_SampleCount := keep_zero (sp_SampleCount p) (sp_SampleCount r),
     sp_Records := keep_zero (sp_Records p) (sp_Records r)\<rparr>"

text \<open>
  \<open>Where (key).Assign (p).FirstOrCreate (&p)\<close>: a query, then an insert that the unique key of the table may refuse, or an update.
\<close>

definition FirstOrCreate :: "mysql \<Rightarrow> int \<Rightarrow> int \<Rightarrow> ('d \<Rightarrow> IPStatsPeriod list) \<Rightarrow> (IPStatsPeriod list \<Rightarrow> 'd \<Rightarrow> 'd)
    \<Rightarrow> IPStatsPeriod \<Rightarrow> ('s, 'd) world \<Rightarrow> bool \<times> ('s, 'd) world" where
  "FirstOrCreate M zone now rows put p w =
     (let key = period_key (sp_IPID p) (sp_Start p); new = period_row M zone now p in
      case ddo (readc (\<lambda>d. filter key (rows d))) w of
        (None, w1) \<Rightarrow> (False, w1)
      | (Some found, w1) \<Rightarrow>
          (case (if found = []
                 then ddo (\<lambda>d. if list_ex (period_key (sp_IPID new) (sp_Start new)) (rows d) then (False, d)
                               else (True, put (rows d @ [new]) d)) w1
                 else ddo (\<lambda>d. (True, put (map (\<lambda>r. if key r then period_assign M p r else r) (rows d)) d)) w1) of
             (None, w2) \<Rightarrow> (False, w2) | (Some ok, w2) \<Rightarrow> (ok, w2)))"

section \<open>Hours to a day\<close>

fun hour_loop :: "(u32 \<times> u32 \<times> rat \<times> int) \<Rightarrow> IPStatsHourly list \<Rightarrow> u32 \<times> u32 \<times> rat \<times> int" where
  "hour_loop acc [] = acc"
| "hour_loop (i, ou, s, n) (h # hs) = hour_loop (i + sh_Inflow h, ou + sh_Outflow h,
     case sh_LiquidityIndex h of None \<Rightarrow> s | Some x \<Rightarrow> fadd s x,
     case sh_LiquidityIndex h of None \<Rightarrow> n | Some _ \<Rightarrow> n + 1) hs"

fun sold_loop :: "(rat list \<times> ItemSnapshot option \<times> ItemSnapshot option) \<Rightarrow> ItemSnapshot list
    \<Rightarrow> rat list \<times> ItemSnapshot option \<times> ItemSnapshot option" where
  "sold_loop acc [] = acc"
| "sold_loop (ps, mn, mx) (i # is) = sold_loop (ps @ [f64_of_u32 (is_Price i)],
     case mn of None \<Rightarrow> Some i | Some m \<Rightarrow> if is_Price i < is_Price m then Some i else mn,
     case mx of None \<Rightarrow> Some i | Some m \<Rightarrow> if is_Price i > is_Price m then Some i else mx) is"

definition snapshot_json :: "ItemSnapshot \<Rightarrow> PriceItemJSON" where
  "snapshot_json i = \<lparr>pi_SourceID = is_SourceID i, pi_Title = is_Title i, pi_Price = ucast (is_Price i),
     pi_ImageURL = is_ImageURL i, pi_ItemURL = is_ItemURL i\<rparr>"

definition mean_of :: "rat \<Rightarrow> int \<Rightarrow> rat option" where
  "mean_of s n = (if n > 0 then Some (fdiv s (f64_of_int n)) else None)"

definition daily_stats :: "u64 \<Rightarrow> int \<Rightarrow> IPStatsHourly list \<Rightarrow> ItemSnapshot list \<Rightarrow> IPStatsDaily" where
  "daily_stats ipID date hourlyStats soldItems =
     (case hour_loop (0, 0, 0, 0) hourlyStats of (totalInflow, totalOutflow, liquiditySum, liquidityCount) \<Rightarrow>
      case sold_loop ([], None, None) soldItems of (soldPrices, minItem, maxItem) \<Rightarrow>
        (let ps = sort soldPrices; some = (\<lambda>x. if soldPrices = [] then None else Some x)
         in \<lparr>sp_IPID = ipID, sp_Start = date, sp_TotalInflow = totalInflow, sp_TotalOutflow = totalOutflow,
             sp_AvgLiquidity = mean_of liquiditySum liquidityCount,
             sp_MaxSoldPrice = some (last ps), sp_MinSoldPrice = some (hd ps), sp_MedianSoldPrice = some (calculateMedian ps),
             sp_AvgSoldPrice = some (calculateAverage ps),
             sp_MinPriceItem = (if soldPrices = [] then None else map_option snapshot_json minItem),
             sp_MaxPriceItem = (if soldPrices = [] then None else map_option snapshot_json maxItem),
             sp_SampleCount = of_nat (length soldPrices), sp_Records = of_nat (length hourlyStats), sp_CreatedAt = 0\<rparr>))"

text \<open>A row without sale time satisfies no comparison with it.\<close>

definition sold_between :: "int \<Rightarrow> int \<Rightarrow> ItemSnapshot \<Rightarrow> bool" where
  "sold_between t u r = (case is_SoldAt r of None \<Rightarrow> False | Some x \<Rightarrow> t \<le> x \<and> x < u)"

definition hours_of :: "u64 \<Rightarrow> int \<Rightarrow> int \<Rightarrow> IPStatsHourly list \<Rightarrow> IPStatsHourly list" where
  "hours_of ip t u = filter (\<lambda>r. sh_IPID r = ip \<and> t \<le> sh_HourBucket r \<and> sh_HourBucket r < u)"

definition sales_of :: "u64 \<Rightarrow> int \<Rightarrow> int \<Rightarrow> ItemSnapshot list \<Rightarrow> ItemSnapshot list" where
  "sales_of ip t u = filter (\<lambda>r. is_IPID r = ip \<and> sold_between t u r)"

definition aggregateHourlyToDailyForIP :: "mysql \<Rightarrow> 'd database \<Rightarrow> int \<Rightarrow> int \<Rightarrow> int \<Rightarrow> int \<Rightarrow> u64 \<Rightarrow> ('s, 'd) world \<Rightarrow> bool \<times> ('s, 'd) world" where
  "aggregateHourlyToDailyForIP M D zone now date nextDate ipID w =
     (case ddo (readc (\<lambda>d. hours_of ipID date nextDate (ip_stats_hourly D d))) w of
        (None, w1) \<Rightarrow> (False, w1)
      | (Some hourlyStats, w1) \<Rightarrow> if hourlyStats = [] then (True, w1) else
          (case ddo (readc (\<lambda>d. sales_of ipID date nextDate (item_snapshots D d))) w1 of
             (None, w2) \<Rightarrow> (False, w2)
           | (Some soldItems, w2) \<Rightarrow>
               FirstOrCreate M zone now (ip_stats_daily D) (put_ip_stats_daily D) (daily_stats ipID date hourlyStats soldItems) w2))"

definition AggregateHourlyToDaily :: "mysql \<Rightarrow> 'd database \<Rightarrow> int \<Rightarrow> 's redis option \<Rightarrow> int \<Rightarrow> int \<Rightarrow> ('s, 'd) world \<Rightarrow> bool \<times> ('s, 'd) world" where
  "AggregateHourlyToDaily M D zone C now t w =
     (let date = midnight JST t; nextDate = date + Day in
      case ddo (readc (live_ips D)) w of
        (None, w1) \<Rightarrow> (False, w1)
      | (Some ips, w1) \<Rightarrow> (True, snd (InvalidateDailyLeaderboard C
          (for_ips (aggregateHourlyToDailyForIP M D zone now date nextDate) ips w1))))"

section \<open>Days to a week, weeks to a month\<close>

record roll =
  totalInflow :: u32
  totalOutflow :: u32
  totalSampleCount :: u32
  liquiditySum :: rat
  liquidityCount :: int
  minPrice :: "rat option"
  maxPrice :: "rat option"
  minPriceItem :: "PriceItemJSON option"
  maxPriceItem :: "PriceItemJSON option"
  priceSum :: rat
  priceCount :: int
  medianPrices :: "rat list"

definition no_roll :: roll where
  "no_roll = \<lparr>totalInflow = 0, totalOutflow = 0, totalSampleCount = 0, liquiditySum = 0, liquidityCount = 0,
     minPrice = None, maxPrice = None, minPriceItem = None, maxPriceItem = None, priceSum = 0, priceCount = 0, medianPrices = []\<rparr>"

text \<open>One pass of the loop; the loops over days and over weeks are the same.\<close>

definition roll_step :: "IPStatsPeriod \<Rightarrow> roll \<Rightarrow> roll" where
  "roll_step d a = \<lparr>totalInflow = totalInflow a + sp_TotalInflow d, totalOutflow = totalOutflow a + sp_TotalOutflow d,
     totalSampleCount = totalSampleCount a + sp_SampleCount d,
     liquiditySum = (case sp_AvgLiquidity d of None \<Rightarrow> liquiditySum a | Some x \<Rightarrow> fadd (liquiditySum a) x),
     liquidityCount = (case sp_AvgLiquidity d of None \<Rightarrow> liquidityCount a | Some _ \<Rightarrow> liquidityCount a + 1),
     minPrice = (if smaller (sp_MinSoldPrice d) (minPrice a) then sp_MinSoldPrice d else minPrice a),
     maxPrice = (if larger (sp_MaxSoldPrice d) (maxPrice a) then sp_MaxSoldPrice d else maxPrice a),
     minPriceItem = (if smaller (sp_MinSoldPrice d) (minPrice a) then sp_MinPriceItem d else minPriceItem a),
     maxPriceItem = (if larger (sp_MaxSoldPrice d) (maxPrice a) then sp_MaxPriceItem d else maxPriceItem a),
     priceSum = (case sp_AvgSoldPrice d of None \<Rightarrow> priceSum a
        | Some x \<Rightarrow> if sp_SampleCount d > 0 then fadd (priceSum a) (fmul x (f64_of_u32 (sp_SampleCount d))) else priceSum a),
     priceCount = (case sp_AvgSoldPrice d of None \<Rightarrow> priceCount a
        | Some x \<Rightarrow> if sp_SampleCount d > 0 then priceCount a + uint (sp_SampleCount d) else priceCount a),
     medianPrices = (case sp_MedianSoldPrice d of None \<Rightarrow> medianPrices a | Some x \<Rightarrow> medianPrices a @ [x])\<rparr>"

fun roll_loop :: "roll \<Rightarrow> IPStatsPeriod list \<Rightarrow> roll" where
  "roll_loop a [] = a"
| "roll_loop a (d # ds) = roll_loop (roll_step d a) ds"

definition rolled :: "u64 \<Rightarrow> int \<Rightarrow> IPStatsPeriod list \<Rightarrow> IPStatsPeriod" where
  "rolled ipID start rows = (let a = roll_loop no_roll rows
     in \<lparr>sp_IPID = ipID, sp_Start = start, sp_TotalInflow = totalInflow a, sp_TotalOutflow = totalOutflow a,
         sp_AvgLiquidity = mean_of (liquiditySum a) (liquidityCount a), sp_MaxSoldPrice = maxPrice a, sp_MinSoldPrice = minPrice a,
         sp_MedianSoldPrice = (if medianPrices a = [] then None else Some (calculateMedian (sort (medianPrices a)))),
         sp_AvgSoldPrice = mean_of (priceSum a) (priceCount a), sp_MinPriceItem = minPriceItem a, sp_MaxPriceItem = maxPriceItem a,
         sp_SampleCount = totalSampleCount a, sp_Records = of_nat (length rows), sp_CreatedAt = 0\<rparr>)"

definition periods_of :: "u64 \<Rightarrow> int \<Rightarrow> int \<Rightarrow> IPStatsPeriod list \<Rightarrow> IPStatsPeriod list" where
  "periods_of ip t u = filter (\<lambda>r. sp_IPID r = ip \<and> t \<le> sp_Start r \<and> sp_Start r < u)"

definition aggregateDailyToWeeklyForIP :: "mysql \<Rightarrow> 'd database \<Rightarrow> int \<Rightarrow> int \<Rightarrow> int \<Rightarrow> int \<Rightarrow> u64 \<Rightarrow> ('s, 'd) world \<Rightarrow> bool \<times> ('s, 'd) world" where
  "aggregateDailyToWeeklyForIP M D zone now weekStart weekEnd ipID w =
     (case ddo (readc (\<lambda>d. periods_of ipID weekStart weekEnd (ip_stats_daily D d))) w of
        (None, w1) \<Rightarrow> (False, w1)
      | (Some dailyStats, w1) \<Rightarrow> if dailyStats = [] then (True, w1)
          else FirstOrCreate M zone now (ip_stats_weekly D) (put_ip_stats_weekly D) (rolled ipID weekStart dailyStats) w1)"

definition AggregateDailyToWeekly :: "mysql \<Rightarrow> 'd database \<Rightarrow> int \<Rightarrow> 's redis option \<Rightarrow> int \<Rightarrow> int \<Rightarrow> ('s, 'd) world \<Rightarrow> bool \<times> ('s, 'd) world" where
  "AggregateDailyToWeekly M D zone C now t w =
     (let weekStart = toMondayJST t; weekEnd = weekStart + 7 * Day in
      case ddo (readc (live_ips D)) w of
        (None, w1) \<Rightarrow> (False, w1)
      | (Some ips, w1) \<Rightarrow> (True, snd (InvalidateWeeklyLeaderboard C
          (for_ips (aggregateDailyToWeeklyForIP M D zone now weekStart weekEnd) ips w1))))"

definition aggregateWeeklyToMonthlyForIP :: "mysql \<Rightarrow> 'd database \<Rightarrow> int \<Rightarrow> int \<Rightarrow> int \<Rightarrow> int \<Rightarrow> u64 \<Rightarrow> ('s, 'd) world \<Rightarrow> bool \<times> ('s, 'd) world" where
  "aggregateWeeklyToMonthlyForIP M D zone now monthStart monthEnd ipID w =
     (case ddo (readc (\<lambda>d. periods_of ipID monthStart monthEnd (ip_stats_weekly D d))) w of
        (None, w1) \<Rightarrow> (False, w1)
      | (Some weeklyStats, w1) \<Rightarrow> if weeklyStats = [] then (True, w1)
          else FirstOrCreate M zone now (ip_stats_monthly D) (put_ip_stats_monthly D) (rolled ipID monthStart weeklyStats) w1)"

definition AggregateWeeklyToMonthly :: "mysql \<Rightarrow> 'd database \<Rightarrow> int \<Rightarrow> int \<Rightarrow> int \<Rightarrow> ('s, 'd) world \<Rightarrow> bool \<times> ('s, 'd) world" where
  "AggregateWeeklyToMonthly M D zone now t w =
     (let monthStart = month_start 0 t; monthEnd = month_start 1 t in
      case ddo (readc (live_ips D)) w of
        (None, w1) \<Rightarrow> (False, w1)
      | (Some ips, w1) \<Rightarrow> (True, for_ips (aggregateWeeklyToMonthlyForIP M D zone now monthStart monthEnd) ips w1))"

section \<open>Cleaning up\<close>

text \<open>\<open>DELETE ... WHERE\<close>: the answer is the number of rows removed.\<close>

definition db_delete :: "('d \<Rightarrow> 'r list) \<Rightarrow> ('r list \<Rightarrow> 'd \<Rightarrow> 'd) \<Rightarrow> ('r \<Rightarrow> bool) \<Rightarrow> ('s, 'd) world \<Rightarrow> int option \<times> ('s, 'd) world" where
  "db_delete rows put P = ddo (\<lambda>d. (int (length (filter P (rows d))), put (filter (\<lambda>r. \<not> P r) (rows d)) d))"

definition CleanupOldHourlyData :: "'d database \<Rightarrow> int \<Rightarrow> int \<Rightarrow> ('s, 'd) world \<Rightarrow> int option \<times> ('s, 'd) world" where
  "CleanupOldHourlyData D now retentionDays = (let cutoff = midnight JST (now - retentionDays * Day)
     in db_delete (ip_stats_hourly D) (put_ip_stats_hourly D) (\<lambda>r. sh_HourBucket r < cutoff))"

definition CleanupOldDailyData :: "'d database \<Rightarrow> int \<Rightarrow> int \<Rightarrow> ('s, 'd) world \<Rightarrow> int option \<times> ('s, 'd) world" where
  "CleanupOldDailyData D now retentionDays = (let cutoff = midnight JST (now - retentionDays * Day)
     in db_delete (ip_stats_daily D) (put_ip_stats_daily D) (\<lambda>r. sp_Start r < cutoff))"

definition CleanupOldWeeklyData :: "'d database \<Rightarrow> int \<Rightarrow> int \<Rightarrow> ('s, 'd) world \<Rightarrow> int option \<times> ('s, 'd) world" where
  "CleanupOldWeeklyData D now retentionDays = (let cutoff = toMondayJST (now - retentionDays * Day)
     in db_delete (ip_stats_weekly D) (put_ip_stats_weekly D) (\<lambda>r. sp_Start r < cutoff))"

definition stale_snapshot :: "int \<Rightarrow> int \<Rightarrow> ItemSnapshot \<Rightarrow> bool" where
  "stale_snapshot dayStart dayEnd r = (sold_between dayStart dayEnd r \<or>
     (is_Status r \<noteq> ItemStatusSold \<and> dayStart \<le> is_UpdatedAt r \<and> is_UpdatedAt r < dayEnd))"

definition CleanupItemSnapshotsForDate :: "'d database \<Rightarrow> int \<Rightarrow> ('s, 'd) world \<Rightarrow> int option \<times> ('s, 'd) world" where
  "CleanupItemSnapshotsForDate D date = (let dayStart = midnight JST date; dayEnd = dayStart + Day
     in db_delete (item_snapshots D) (put_item_snapshots D) (stale_snapshot dayStart dayEnd))"

text \<open>Whether it failed.\<close>

definition RunSnapshotCleanup :: "'d database \<Rightarrow> int \<Rightarrow> ('s, 'd) world \<Rightarrow> bool \<times> ('s, 'd) world" where
  "RunSnapshotCleanup D now w = (case CleanupItemSnapshotsForDate D (now - 8 * Day) w of (r, w1) \<Rightarrow> (r = None, w1))"

text \<open>The clock is read once by each step; a step that fails is logged.\<close>

definition RunCleanup :: "'d database \<Rightarrow> int \<Rightarrow> int \<Rightarrow> int \<Rightarrow> int \<Rightarrow> ('s, 'd) world \<Rightarrow> bool \<times> ('s, 'd) world" where
  "RunCleanup D now1 now2 now3 now4 w =
     (let w1 = snd (CleanupOldHourlyData D now1 7 w); w2 = snd (CleanupOldDailyData D now2 90 w1);
          w3 = snd (CleanupOldWeeklyData D now3 365 w2); w4 = snd (RunSnapshotCleanup D now4 w3)
      in (False, w4))"

section \<open>The runs\<close>

definition RunDailyArchive :: "mysql \<Rightarrow> 'd database \<Rightarrow> int \<Rightarrow> 's redis option \<Rightarrow> int \<Rightarrow> ('s, 'd) world \<Rightarrow> bool \<times> ('s, 'd) world" where
  "RunDailyArchive M D zone C now w = (case AggregateHourlyToDaily M D zone C now (now - Day) w of (ok, w1) \<Rightarrow> (\<not> ok, w1))"

definition RunWeeklyArchive :: "mysql \<Rightarrow> 'd database \<Rightarrow> int \<Rightarrow> 's redis option \<Rightarrow> int \<Rightarrow> ('s, 'd) world \<Rightarrow> bool \<times> ('s, 'd) world" where
  "RunWeeklyArchive M D zone C now w =
     (case AggregateDailyToWeekly M D zone C now (toMondayJST now - 7 * Day) w of (ok, w1) \<Rightarrow> (\<not> ok, w1))"

definition RunMonthlyArchive :: "mysql \<Rightarrow> 'd database \<Rightarrow> int \<Rightarrow> int \<Rightarrow> ('s, 'd) world \<Rightarrow> bool \<times> ('s, 'd) world" where
  "RunMonthlyArchive M D zone now w = (case AggregateWeeklyToMonthly M D zone now (month_start (- 1) now) w of (ok, w1) \<Rightarrow> (\<not> ok, w1))"

text \<open>The archiver as the scheduler's archive loop starts it.\<close>

definition archive_runs_of :: "mysql \<Rightarrow> 'd database \<Rightarrow> int \<Rightarrow> 's redis option \<Rightarrow> ('s, 'd) world archive_runs" where
  "archive_runs_of M D zone C = \<lparr>RunDaily = RunDailyArchive M D zone C, RunWeekly = RunWeeklyArchive M D zone C,
     RunMonthly = RunMonthlyArchive M D zone, RunClean = (\<lambda>now. RunCleanup D now now now now)\<rparr>"

end
