(* ===== verification/ArchiverProofs.thy ===== *)
theory ArchiverProofs
  imports Archiver
begin

text \<open>
  The archiver's roll-ups: calendar boundaries, what a daily, weekly and monthly row holds, that the weekly totals are those of
  the hours, what a repeated run overwrites and what the cleanups may delete.
\<close>

section \<open>Boundaries\<close>

lemma Day_pos: "0 < Day"
  by (simp add: Day_def duration_defs)

lemma local_days_shift: "local_days zone (t + k * Day) = local_days zone t + k"
proof -
  have "(t + zone * Second + k * Day) div Day = k + (t + zone * Second) div Day" using Day_pos by (intro div_mult_self1) simp
  then show ?thesis by (simp add: local_days_def add_ac)
qed

lemma midnight_shift: "midnight zone (t + k * Day) = midnight zone t + k * Day"
  unfolding midnight_def local_days_shift by (simp add: distrib_right)

lemma midnight_idem [simp]: "midnight zone (midnight zone t) = midnight zone t"
  by (simp add: midnight_def [of zone "midnight zone t"]) (simp add: midnight_def)

lemma day_le: "a * Day - zone * Second \<le> x \<longleftrightarrow> a \<le> local_days zone x"
proof (cases "a \<le> local_days zone x")
  case True
  then have "a * Day \<le> local_days zone x * Day" using Day_pos by simp
  then show ?thesis using True midnight_bounds(1) [of zone x] unfolding midnight_def by linarith
next
  case False
  then have "(local_days zone x + 1) * Day \<le> a * Day" using Day_pos by (intro mult_right_mono) simp_all
  then show ?thesis using False midnight_bounds(2) [of x zone] unfolding midnight_def by (simp add: distrib_right)
qed

text \<open>Mondays are the days four modulo seven of the Unix epoch, a Thursday.\<close>

lemma toMonday_day: "\<exists>j. toMondayJST t = (7 * j + 4) * Day - JST * Second \<and> 7 * j + 4 \<le> local_days JST t \<and> local_days JST t < 7 * j + 11"
proof -
  let ?n = "local_days JST t" let ?wd = "(?n + 4) mod 7"
  define k where "k = (if ?wd = 0 then 7 else ?wd) - 1"
  have k: "0 \<le> k" "k \<le> 6" "(?n - k - 4) mod 7 = 0" unfolding k_def by (cases "?wd = 0", presburger, presburger)+
  then obtain j where "?n - k = 7 * j + 4" by (metis add.commute diff_add_cancel mod_0_imp_dvd dvdE)
  moreover have "toMondayJST t = (?n - k) * Day - JST * Second"
    by (simp add: toMondayJST_def Weekday_def k_def midnight_def [of JST t] Let_def left_diff_distrib del: local_days_midnight)
      (simp add: midnight_def [symmetric] left_diff_distrib)
  ultimately show ?thesis using k(1,2) by (intro exI [of _ j]) simp
qed

lemma toMonday_le: "toMondayJST t \<le> t"
proof -
  obtain j where "toMondayJST t = (7 * j + 4) * Day - JST * Second" "7 * j + 4 \<le> local_days JST t" using toMonday_day by blast
  then show ?thesis using day_le by metis
qed

lemma toMonday_midnight: "midnight JST (toMondayJST t) = toMondayJST t"
proof -
  obtain j where "toMondayJST t = (7 * j + 4) * Day - JST * Second" using toMonday_day by blast
  then show ?thesis using Day_pos by (simp add: midnight_def local_days_def)
qed

text \<open>
  \<open>toMondayJST\<close> is the midnight of the Monday of the week of \<open>t\<close> in JST: a Monday, at most \<open>t\<close>, less than seven
  days before it, and the same for exactly the times of the seven days it starts.
\<close>

theorem toMondayJST_week:
  "Weekday JST (toMondayJST t) = 1 \<and> midnight JST (toMondayJST t) = toMondayJST t \<and> toMondayJST t \<le> t \<and> t < toMondayJST t + 7 * Day \<and>
   (toMondayJST u = toMondayJST t) = (toMondayJST t \<le> u \<and> u < toMondayJST t + 7 * Day)"
proof -
  have days: "local_days JST (n * Day - JST * Second) = n" for n using Day_pos by (simp add: local_days_def)
  obtain i where i: "toMondayJST t = (7 * i + 4) * Day - JST * Second" "7 * i + 4 \<le> local_days JST t" "local_days JST t < 7 * i + 11"
    using toMonday_day by blast
  obtain j where j: "toMondayJST u = (7 * j + 4) * Day - JST * Second" "7 * j + 4 \<le> local_days JST u" "local_days JST u < 7 * j + 11"
    using toMonday_day by blast
  have week: "(7 * k + 4) * Day - JST * Second \<le> x \<and> x < (7 * k + 11) * Day - JST * Second \<longleftrightarrow> 7 * k + 4 \<le> local_days JST x \<and> local_days JST x < 7 * k + 11" for k x
    using day_le [of "7 * k + 4" JST x] day_le [of "7 * k + 11" JST x] by linarith
  have "Weekday JST (toMondayJST t) = 1" unfolding i(1) Weekday_def days by presburger
  moreover have "midnight JST (toMondayJST t) = toMondayJST t" unfolding i(1) midnight_def days ..
  moreover have w7: "toMondayJST t + 7 * Day = (7 * i + 11) * Day - JST * Second" unfolding i(1) by (simp add: algebra_simps)
  moreover have "(toMondayJST u = toMondayJST t) = (i = j)" unfolding i(1) j(1) using Day_pos by auto
  moreover have "(i = j) = (7 * i + 4 \<le> local_days JST u \<and> local_days JST u < 7 * i + 11)" using j(2,3) by presburger
  ultimately show ?thesis using week [of i t] week [of i u] i unfolding w7 by simp
qed


section \<open>Tables of periods\<close>

definition own :: "u64 \<Rightarrow> IPStatsPeriod list \<Rightarrow> IPStatsPeriod multiset" where
  "own ip rs = filter_mset (\<lambda>r. sp_IPID r = ip) (mset rs)"

lemma own_mset_cong: "mset rs = mset rs' \<Longrightarrow> own ip rs = own ip rs'"
  by (simp add: own_def)

lemma own_map_other: "(\<And>r. P r \<Longrightarrow> sp_IPID r \<noteq> ip \<and> sp_IPID (g r) \<noteq> ip) \<Longrightarrow> own ip (map (\<lambda>r. if P r then g r else r) rs) = own ip rs"
  by (induction rs) (auto simp: own_def)

lemma own_keys: "period_key ip t r \<Longrightarrow> r \<in> set rs \<Longrightarrow> r \<in># own ip rs"
  by (simp add: own_def period_key_def)

text \<open>A table of daily, weekly or monthly rows.\<close>

locale period_table =
  fixes rows :: "'d \<Rightarrow> IPStatsPeriod list" and put :: "IPStatsPeriod list \<Rightarrow> 'd \<Rightarrow> 'd"
  assumes put_rows: "mset (rows (put ps d)) = mset ps"
begin

lemma FirstOrCreate_new:
  assumes "quiet w" "midnight zone (sp_Start p) = sp_Start p" "\<And>r. r \<in># own (sp_IPID p) (rows (db_st w)) \<Longrightarrow> sp_Start r \<noteq> sp_Start p"
  shows "FirstOrCreate M zone now rows put p w = (True, w\<lparr>db_st := put (rows (db_st w) @ [period_row M zone now p]) (db_st w)\<rparr>)"
proof -
  have n: "\<not> period_key (sp_IPID p) (sp_Start p) r" if "r \<in> set (rows (db_st w))" for r
    using assms(3) [of r] that by (auto simp: period_key_def own_def)
  have f: "filter (period_key (sp_IPID p) (sp_Start p)) (rows (db_st w)) = []" using n by (simp add: filter_empty_conv)
  have e: "\<not> list_ex (period_key (sp_IPID p) (sp_Start p)) (rows (db_st w))" using n by (auto simp: list_ex_iff)
  show ?thesis using assms(1,2) f e by (simp add: FirstOrCreate_def readc_def period_row_def)
qed

lemma own_new: "own (sp_IPID p) (rows (put (rows d @ [period_row M zone now p]) d)) = add_mset (period_row M zone now p) (own (sp_IPID p) (rows d))"
  unfolding own_mset_cong [OF put_rows] by (simp add: own_def period_row_def)

lemma FirstOrCreate_other:
  assumes "quiet w"
  shows "\<exists>ok w'. FirstOrCreate M zone now rows put p w = (ok, w') \<and> (w' = w \<or> (\<exists>ps. w' = w\<lparr>db_st := put ps (db_st w)\<rparr> \<and>
    (\<forall>ip. ip \<noteq> sp_IPID p \<longrightarrow> own ip ps = own ip (rows (db_st w)))))"
proof -
  let ?u = "map (\<lambda>r. if period_key (sp_IPID p) (sp_Start p) r then period_assign M p r else r) (rows (db_st w))"
  have "own ip ?u = own ip (rows (db_st w))" if "ip \<noteq> sp_IPID p" for ip
    by (rule own_map_other) (use that in \<open>auto simp: period_key_def period_assign_def\<close>)
  moreover have "own ip (rows (db_st w) @ [period_row M zone now p]) = own ip (rows (db_st w))" if "ip \<noteq> sp_IPID p" for ip
    using that by (simp add: own_def period_row_def)
  ultimately show ?thesis using assms by (simp add: FirstOrCreate_def readc_def Let_def) blast
qed

end

sublocale sql_database \<subseteq> daily: period_table "ip_stats_daily D" "put_ip_stats_daily D"
  by unfold_locales (rule put_daily)

sublocale sql_database \<subseteq> weekly: period_table "ip_stats_weekly D" "put_ip_stats_weekly D"
  by unfold_locales (rule put_weekly)

sublocale sql_database \<subseteq> monthly: period_table "ip_stats_monthly D" "put_ip_stats_monthly D"
  by unfold_locales (rule put_monthly)

lemma for_ips_append: "for_ips f (xs @ ys) w = for_ips f ys (for_ips f xs w)"
  by (induction xs arbitrary: w) simp_all

lemma for_ips_frame:
  assumes "\<And>ip w. ip \<in> ip_ID ` set ips \<Longrightarrow> Q w \<Longrightarrow> Q (snd (f ip w)) \<and> g (snd (f ip w)) = g w" "Q w"
  shows "Q (for_ips f ips w) \<and> g (for_ips f ips w) = g w"
  using assms
proof (induction ips arbitrary: w)
  case (Cons i ips)
  have "Q (snd (f (ip_ID i) w)) \<and> g (snd (f (ip_ID i) w)) = g w" using Cons.prems(1) [of "ip_ID i" w] Cons.prems(2) by simp
  then show ?case using Cons.IH [of "snd (f (ip_ID i) w)"] Cons.prems(1) by simp
qed simp

text \<open>In a loop over distinct IPs, what concerns one of them is changed by its own pass only.\<close>

lemma for_ips_one:
  assumes "distinct (map ip_ID ips)" "ip \<in> ip_ID ` set ips" "Q w"
    and other: "\<And>j w. j \<noteq> ip \<Longrightarrow> Q w \<Longrightarrow> Q (snd (f j w)) \<and> g (snd (f j w)) = g w"
    and own: "\<And>v. Q v \<Longrightarrow> g v = g w \<Longrightarrow> Q (snd (f ip v)) \<and> g (snd (f ip v)) = y"
  shows "Q (for_ips f ips w) \<and> g (for_ips f ips w) = y"
proof -
  obtain i where i: "i \<in> set ips" "ip_ID i = ip" using assms(2) by auto
  then obtain xs ys where s: "ips = xs @ i # ys" by (meson split_list)
  then have d: "ip \<notin> ip_ID ` set xs" "ip \<notin> ip_ID ` set ys" using assms(1) i(2) by auto
  have "Q (for_ips f xs w) \<and> g (for_ips f xs w) = g w"
    by (rule for_ips_frame) (metis other d(1), rule assms(3))
  then have "Q (snd (f ip (for_ips f xs w))) \<and> g (snd (f ip (for_ips f xs w))) = y" using own by blast
  moreover from this have "Q (for_ips f ys (snd (f ip (for_ips f xs w)))) \<and> g (for_ips f ys (snd (f ip (for_ips f xs w)))) = g (snd (f ip (for_ips f xs w)))"
    by (intro for_ips_frame) (metis other d(2), blast)
  ultimately show ?thesis using s i(2) by (simp add: for_ips_append)
qed

lemma invalidate_quiet:
  assumes "quiet w"
  shows "quiet (snd (invalidate_keys C keys w)) \<and> db_st (snd (invalidate_keys C keys w)) = db_st w"
  using assms by (cases C) (simp_all add: invalidate_keys_def)


section \<open>One day and one week\<close>

text \<open>What the roll-ups of one IP depend on.\<close>

definition seen :: "'d database \<Rightarrow> u64 \<Rightarrow> 'd \<Rightarrow> IPMetadata list \<times> IPStatsHourly list \<times> ItemSnapshot list \<times> IPStatsPeriod multiset \<times> IPStatsPeriod multiset" where
  "seen D ip d = (ip_metadata D d, ip_stats_hourly D d, item_snapshots D d, own ip (ip_stats_daily D d), own ip (ip_stats_weekly D d))"

definition day_row :: "mysql \<Rightarrow> u64 \<Rightarrow> int \<Rightarrow> int \<Rightarrow> IPStatsHourly list \<Rightarrow> ItemSnapshot list \<Rightarrow> IPStatsDaily" where
  "day_row M ip now date H S = period_row M JST now (daily_stats ip date (hours_of ip date (date + Day) H) (sales_of ip date (date + Day) S))"

lemma daily_stats_key [simp]: "sp_IPID (daily_stats ip date H S) = ip" "sp_Start (daily_stats ip date H S) = date"
  by (simp_all add: daily_stats_def Let_def split: prod.splits)

lemma rolled_key [simp]: "sp_IPID (rolled ip t rs) = ip" "sp_Start (rolled ip t rs) = t"
  by (simp_all add: rolled_def Let_def)

lemma period_row_simps [simp]: "sp_IPID (period_row M zone now p) = sp_IPID p" "sp_Start (period_row M zone now p) = midnight zone (sp_Start p)"
  "sp_TotalInflow (period_row M zone now p) = sp_TotalInflow p" "sp_TotalOutflow (period_row M zone now p) = sp_TotalOutflow p"
  "sp_SampleCount (period_row M zone now p) = sp_SampleCount p" "sp_Records (period_row M zone now p) = sp_Records p"
  by (simp_all add: period_row_def)

lemma day_row_key [simp]: "sp_IPID (day_row M ip now date H S) = ip" "sp_Start (day_row M ip now date H S) = midnight JST date"
  by (simp_all add: day_row_def)

context sql_database
begin

lemma own_put:
  "own ip (ip_stats_daily D (put_ip_stats_daily D ps d)) = own ip ps" "own ip (ip_stats_weekly D (put_ip_stats_weekly D ps d)) = own ip ps"
  by (simp_all add: own_def put_daily put_weekly)

lemma day_other:
  assumes "j \<noteq> ip" "quiet w"
  shows "quiet (snd (aggregateHourlyToDailyForIP M D zone now date nextDate j w)) \<and>
    seen D ip (db_st (snd (aggregateHourlyToDailyForIP M D zone now date nextDate j w))) = seen D ip (db_st w)"
proof -
  let ?p = "daily_stats j date (hours_of j date nextDate (ip_stats_hourly D (db_st w))) (sales_of j date nextDate (item_snapshots D (db_st w)))"
  obtain ok w' where r: "FirstOrCreate M zone now (ip_stats_daily D) (put_ip_stats_daily D) ?p w = (ok, w')"
    "w' = w \<or> (\<exists>ps. w' = w\<lparr>db_st := put_ip_stats_daily D ps (db_st w)\<rparr> \<and> (\<forall>ip. ip \<noteq> j \<longrightarrow> own ip ps = own ip (ip_stats_daily D (db_st w))))"
    using daily.FirstOrCreate_other [OF assms(2), of M zone now ?p] by auto
  have "quiet w' \<and> seen D ip (db_st w') = seen D ip (db_st w)"
    using r(2) assms by (auto simp: seen_def own_put ip_frame hourly_frame items_frame weekly_frame)
  then show ?thesis using assms(2) r(1) by (simp add: aggregateHourlyToDailyForIP_def readc_def)
qed

lemma day_own:
  assumes "quiet v" "midnight JST date = date" "\<And>r. r \<in># own ip (ip_stats_daily D (db_st v)) \<Longrightarrow> sp_Start r \<noteq> date"
    and "hours_of ip date (date + Day) (ip_stats_hourly D (db_st v)) \<noteq> []"
  shows "aggregateHourlyToDailyForIP M D JST now date (date + Day) ip v = (True, v\<lparr>db_st := put_ip_stats_daily D (ip_stats_daily D (db_st v) @
    [day_row M ip now date (ip_stats_hourly D (db_st v)) (item_snapshots D (db_st v))]) (db_st v)\<rparr>)"
  using assms daily.FirstOrCreate_new [of v JST "daily_stats ip date (hours_of ip date (date + Day) (ip_stats_hourly D (db_st v)))
    (sales_of ip date (date + Day) (item_snapshots D (db_st v)))" M now]
  by (simp add: aggregateHourlyToDailyForIP_def readc_def day_row_def)

lemma day_run:
  assumes q: "quiet w" and ids: "distinct (map ip_ID (ip_metadata D (db_st w)))" "ip \<in> ip_ID ` set (live_ips D (db_st w))"
    and new: "\<And>r. r \<in># own ip (ip_stats_daily D (db_st w)) \<Longrightarrow> sp_Start r \<noteq> midnight JST t"
    and sn: "seen D ip (db_st w) = (ms, H, S, ds, ws)"
  shows "quiet (snd (AggregateHourlyToDaily M D JST C now t w)) \<and> seen D ip (db_st (snd (AggregateHourlyToDaily M D JST C now t w))) =
    (ms, H, S, (if hours_of ip (midnight JST t) (midnight JST t + Day) H = [] then ds else add_mset (day_row M ip now (midnight JST t) H S) ds), ws)"
proof -
  let ?date = "midnight JST t" let ?f = "aggregateHourlyToDailyForIP M D JST now ?date (?date + Day)"
  let ?y = "(ms, H, S, (if hours_of ip ?date (?date + Day) H = [] then ds else add_mset (day_row M ip now ?date H S) ds), ws)"
  let ?ips = "live_ips D (db_st w)"
  have d: "distinct (map ip_ID ?ips)" using ids(1) by (simp add: live_ips_def distinct_map_filter)
  have own: "quiet (snd (?f ip v)) \<and> seen D ip (db_st (snd (?f ip v))) = ?y" if v: "quiet v" "seen D ip (db_st v) = seen D ip (db_st w)" for v
  proof (cases "hours_of ip ?date (?date + Day) H = []")
    case True
    then show ?thesis using v sn by (simp add: aggregateHourlyToDailyForIP_def readc_def seen_def)
  next
    case False
    have e: "ip_stats_hourly D (db_st v) = H" "item_snapshots D (db_st v) = S" "own ip (ip_stats_daily D (db_st v)) = ds" "ip_metadata D (db_st v) = ms"
      "own ip (ip_stats_weekly D (db_st v)) = ws" "own ip (ip_stats_daily D (db_st w)) = ds"
      using v(2) sn by (simp_all add: seen_def)
    have "?f ip v = (True, v\<lparr>db_st := put_ip_stats_daily D (ip_stats_daily D (db_st v) @ [day_row M ip now ?date H S]) (db_st v)\<rparr>)"
      using day_own [OF v(1), of ?date ip M now] new False by (simp add: e)
    moreover have "own ip (ip_stats_daily D (db_st v) @ [day_row M ip now ?date H S]) = add_mset (day_row M ip now ?date H S) ds"
      using e(3) by (simp add: own_def)
    ultimately show ?thesis using v(1) False e by (simp add: seen_def own_put ip_frame hourly_frame items_frame weekly_frame)
  qed
  have "quiet (for_ips ?f ?ips w) \<and> seen D ip (db_st (for_ips ?f ?ips w)) = ?y"
    by (rule for_ips_one [where Q = quiet and g = "\<lambda>w. seen D ip (db_st w)", OF d ids(2) q]) (rule day_other, assumption+, rule own)
  then show ?thesis using q invalidate_quiet [of "for_ips ?f ?ips w" C "board_keys 24"]
    by (simp add: AggregateHourlyToDaily_def readc_def InvalidateDailyLeaderboard_def Let_def)
qed

end


text \<open>The daily runs for several days, each at its own time.\<close>

fun archive_days :: "mysql \<Rightarrow> 'd database \<Rightarrow> int \<Rightarrow> 's redis option \<Rightarrow> (int \<times> int) list \<Rightarrow> ('s, 'd) world \<Rightarrow> ('s, 'd) world" where
  "archive_days M D zone C [] w = w"
| "archive_days M D zone C ((t, now) # ds) w = archive_days M D zone C ds (snd (AggregateHourlyToDaily M D zone C now t w))"

definition day_rows :: "mysql \<Rightarrow> u64 \<Rightarrow> (int \<times> int) list \<Rightarrow> IPStatsHourly list \<Rightarrow> ItemSnapshot list \<Rightarrow> IPStatsPeriod list" where
  "day_rows M ip ds H S = map (\<lambda>(t, now). day_row M ip now (midnight JST t) H S)
     (filter (\<lambda>(t, now). hours_of ip (midnight JST t) (midnight JST t + Day) H \<noteq> []) ds)"

context sql_database
begin

lemma archive_days_own:
  assumes "quiet w" "distinct (map ip_ID (ip_metadata D (db_st w)))" "ip \<in> ip_ID ` set (live_ips D (db_st w))"
    and "distinct (map (\<lambda>(t, now). midnight JST t) ds)"
    and "\<And>r t now. r \<in># own ip (ip_stats_daily D (db_st w)) \<Longrightarrow> (t, now) \<in> set ds \<Longrightarrow> sp_Start r \<noteq> midnight JST t"
    and "seen D ip (db_st w) = (ms, H, S, dys, ws)"
  shows "quiet (archive_days M D JST C ds w) \<and> seen D ip (db_st (archive_days M D JST C ds w)) = (ms, H, S, mset (day_rows M ip ds H S) + dys, ws)"
  using assms
proof (induction ds arbitrary: w dys)
  case Nil
  then show ?case by (simp add: day_rows_def)
next
  case (Cons x ds)
  obtain t now where x: "x = (t, now)" by fastforce
  let ?w = "snd (AggregateHourlyToDaily M D JST C now t w)"
  let ?d = "if hours_of ip (midnight JST t) (midnight JST t + Day) H = [] then dys else add_mset (day_row M ip now (midnight JST t) H S) dys"
  have n0: "sp_Start r \<noteq> midnight JST t" if "r \<in># own ip (ip_stats_daily D (db_st w))" for r using Cons.prems(5) [OF that, of t now] x by simp
  have r: "quiet ?w" "seen D ip (db_st ?w) = (ms, H, S, ?d, ws)"
    using day_run [OF Cons.prems(1-3) n0 Cons.prems(6), of M C now] by simp_all
  have ms: "ip_metadata D (db_st ?w) = ip_metadata D (db_st w)" "own ip (ip_stats_daily D (db_st ?w)) = ?d" "own ip (ip_stats_daily D (db_st w)) = dys"
    using r(2) Cons.prems(6) by (simp_all add: seen_def)
  have new: "sp_Start r \<noteq> midnight JST u" if "r \<in># own ip (ip_stats_daily D (db_st ?w))" "(u, n) \<in> set ds" for r u n
    using that Cons.prems(4,5) ms(2,3) x by (force split: if_splits)
  have live: "live_ips D (db_st ?w) = live_ips D (db_st w)" by (simp add: live_ips_def ms(1))
  have "quiet (archive_days M D JST C ds ?w) \<and> seen D ip (db_st (archive_days M D JST C ds ?w)) = (ms, H, S, mset (day_rows M ip ds H S) + ?d, ws)"
    by (rule Cons.IH [OF r(1) _ _ _ new r(2)]) (use Cons.prems(2-4) ms(1) live in simp_all)
  then show ?case by (simp add: x day_rows_def)
qed

lemma week_other:
  assumes "j \<noteq> ip" "quiet w"
  shows "quiet (snd (aggregateDailyToWeeklyForIP M D zone now t u j w)) \<and>
    (own ip (ip_stats_daily D (db_st (snd (aggregateDailyToWeeklyForIP M D zone now t u j w)))),
     own ip (ip_stats_weekly D (db_st (snd (aggregateDailyToWeeklyForIP M D zone now t u j w))))) =
    (own ip (ip_stats_daily D (db_st w)), own ip (ip_stats_weekly D (db_st w)))"
proof -
  let ?p = "rolled j t (periods_of j t u (ip_stats_daily D (db_st w)))"
  obtain ok w' where r: "FirstOrCreate M zone now (ip_stats_weekly D) (put_ip_stats_weekly D) ?p w = (ok, w')"
    "w' = w \<or> (\<exists>ps. w' = w\<lparr>db_st := put_ip_stats_weekly D ps (db_st w)\<rparr> \<and> (\<forall>ip. ip \<noteq> j \<longrightarrow> own ip ps = own ip (ip_stats_weekly D (db_st w))))"
    using weekly.FirstOrCreate_other [OF assms(2), of M zone now ?p] by auto
  have "quiet w' \<and> own ip (ip_stats_daily D (db_st w')) = own ip (ip_stats_daily D (db_st w)) \<and> own ip (ip_stats_weekly D (db_st w')) = own ip (ip_stats_weekly D (db_st w))"
    using r(2) assms by (auto simp: own_put daily_frame)
  then show ?thesis using assms(2) r(1) by (simp add: aggregateDailyToWeeklyForIP_def readc_def)
qed

lemma mset_periods_of: "mset (periods_of ip t u rs) = filter_mset (\<lambda>r. t \<le> sp_Start r \<and> sp_Start r < u) (own ip rs)"
  by (simp add: periods_of_def own_def filter_filter_mset conj_commute)

end


context sql_database
begin

lemma week_run:
  assumes q: "quiet w" and ids: "distinct (map ip_ID (ip_metadata D (db_st w)))" "ip \<in> ip_ID ` set (live_ips D (db_st w))"
    and new: "\<And>r. r \<in># own ip (ip_stats_weekly D (db_st w)) \<Longrightarrow> sp_Start r \<noteq> toMondayJST t"
    and days: "filter_mset (\<lambda>r. toMondayJST t \<le> sp_Start r \<and> sp_Start r < toMondayJST t + 7 * Day) (own ip (ip_stats_daily D (db_st w))) = ds"
    and ne: "ds \<noteq> {#}"
  shows "\<exists>rs. mset rs = ds \<and> period_row M JST now (rolled ip (toMondayJST t) rs) \<in># own ip (ip_stats_weekly D (db_st (snd (AggregateDailyToWeekly M D JST C now t w))))"
proof -
  let ?m = "toMondayJST t" let ?f = "aggregateDailyToWeeklyForIP M D JST now ?m (?m + 7 * Day)" let ?ips = "live_ips D (db_st w)"
  let ?g = "\<lambda>w. (own ip (ip_stats_daily D (db_st w)), own ip (ip_stats_weekly D (db_st w)))"
  let ?P = "\<lambda>w. \<exists>rs. mset rs = ds \<and> period_row M JST now (rolled ip ?m rs) \<in># own ip (ip_stats_weekly D (db_st w))"
  have d: "distinct (map ip_ID ?ips)" using ids(1) by (simp add: live_ips_def distinct_map_filter)
  have mon: "midnight JST ?m = ?m" using toMonday_midnight .
  have own: "quiet (snd (?f ip v)) \<and> ?P (snd (?f ip v))" if v: "quiet v" "?g v = ?g w" for v
  proof -
    define rs where "rs = periods_of ip ?m (?m + 7 * Day) (ip_stats_daily D (db_st v))"
    have rs: "mset rs = ds" using v(2) days by (simp add: rs_def mset_periods_of)
    then have "rs \<noteq> []" using ne by auto
    moreover have "FirstOrCreate M JST now (ip_stats_weekly D) (put_ip_stats_weekly D) (rolled ip ?m rs) v =
        (True, v\<lparr>db_st := put_ip_stats_weekly D (ip_stats_weekly D (db_st v) @ [period_row M JST now (rolled ip ?m rs)]) (db_st v)\<rparr>)"
      using v new mon by (intro weekly.FirstOrCreate_new) auto
    moreover have "period_row M JST now (rolled ip ?m rs) \<in># own ip (ip_stats_weekly D (db_st v) @ [period_row M JST now (rolled ip ?m rs)])"
      by (simp add: own_def)
    ultimately show ?thesis using v(1) rs by (auto simp: aggregateDailyToWeeklyForIP_def readc_def rs_def [symmetric] own_put)
  qed
  obtain i where i: "i \<in> set ?ips" "ip_ID i = ip" using ids(2) by auto
  then obtain xs ys where s: "?ips = xs @ i # ys" by (meson split_list)
  then have nd: "ip \<notin> ip_ID ` set xs" "ip \<notin> ip_ID ` set ys" using d i(2) by auto
  have "quiet (for_ips ?f xs w) \<and> ?g (for_ips ?f xs w) = ?g w"
    by (rule for_ips_frame [where g = ?g]) (metis week_other nd(1), rule q)
  then have o: "quiet (snd (?f ip (for_ips ?f xs w)))" "?P (snd (?f ip (for_ips ?f xs w)))" using own by blast+
  then have fin: "quiet (for_ips ?f ys (snd (?f ip (for_ips ?f xs w)))) \<and> ?g (for_ips ?f ys (snd (?f ip (for_ips ?f xs w)))) = ?g (snd (?f ip (for_ips ?f xs w)))"
    by (intro for_ips_frame [where g = ?g]) (metis week_other nd(2), blast)
  then have "quiet (for_ips ?f ?ips w)" "?P (for_ips ?f ?ips w)" using o(2) s i(2) by (auto simp: for_ips_append)
  then show ?thesis using q invalidate_quiet [of "for_ips ?f ?ips w" C "board_keys 168"]
    by (simp add: AggregateDailyToWeekly_def readc_def InvalidateWeeklyLeaderboard_def Let_def)
qed

end

section \<open>Totals\<close>

lemma hour_loop_flows: "hour_loop (i, ou, s, n) hs = (i', o', x) \<Longrightarrow> i' = i + sum_list (map sh_Inflow hs) \<and> o' = ou + sum_list (map sh_Outflow hs)"
proof (induction hs arbitrary: i ou s n)
  case (Cons h hs)
  then have "i' = (i + sh_Inflow h) + sum_list (map sh_Inflow hs) \<and> o' = (ou + sh_Outflow h) + sum_list (map sh_Outflow hs)"
    unfolding hour_loop.simps by blast
  then show ?case by (simp add: add.assoc)
qed simp

lemma daily_stats_flows: "sp_TotalInflow (daily_stats ip date H S) = sum_list (map sh_Inflow H)"
  "sp_TotalOutflow (daily_stats ip date H S) = sum_list (map sh_Outflow H)"
  by (auto simp: daily_stats_def Let_def split: prod.splits dest: hour_loop_flows)

lemma roll_loop_flows: "totalInflow (roll_loop a rs) = totalInflow a + sum_list (map sp_TotalInflow rs)"
  "totalOutflow (roll_loop a rs) = totalOutflow a + sum_list (map sp_TotalOutflow rs)"
  by (induction rs arbitrary: a) (simp_all add: roll_step_def add.assoc)

lemma rolled_flows: "sp_TotalInflow (rolled ip t rs) = sum_list (map sp_TotalInflow rs)" "sp_TotalOutflow (rolled ip t rs) = sum_list (map sp_TotalOutflow rs)"
  by (simp_all add: rolled_def Let_def roll_loop_flows no_roll_def)

lemma sum_hours_split: "a \<le> b \<Longrightarrow> b \<le> c \<Longrightarrow> sum_list (map f (hours_of ip a c H)) = sum_list (map f (hours_of ip a b H)) + (sum_list (map f (hours_of ip b c H)) :: u32)"
  by (induction H) (auto simp: hours_of_def)

lemma sum_perm: "mset xs = mset ys \<Longrightarrow> sum_list (map f xs) = (sum_list (map f ys) :: u32)"
  by (metis mset_map sum_mset_sum_list)


text \<open>The seven days of a week, each archived at a time of its own.\<close>

definition week_days :: "int \<Rightarrow> (nat \<Rightarrow> int) \<Rightarrow> (int \<times> int) list" where
  "week_days monday nows = map (\<lambda>k. (monday + int k * Day, nows k)) [0..<7]"

lemma midnight_week: "midnight JST m = m \<Longrightarrow> midnight JST (m + int k * Day) = m + int k * Day"
  by (simp add: midnight_shift)

lemma week_days_simps:
  assumes "midnight JST m = m"
  shows "distinct (map (\<lambda>(t, now). midnight JST t) (week_days m nows))"
    and "(t, now) \<in> set (week_days m nows) \<Longrightarrow> m \<le> midnight JST t \<and> midnight JST t < m + 7 * Day"
proof -
  have "map (\<lambda>(t, now). midnight JST t) (week_days m nows) = map (\<lambda>k. m + int k * Day) [0..<7]"
    using midnight_week [OF assms] by (simp add: week_days_def)
  then show "distinct (map (\<lambda>(t, now). midnight JST t) (week_days m nows))" using Day_pos by (simp add: distinct_map inj_on_def)
  assume "(t, now) \<in> set (week_days m nows)"
  then obtain k where "k < 7" "t = m + int k * Day" by (auto simp: week_days_def)
  moreover from \<open>k < 7\<close> have "int k * Day < 7 * Day" using Day_pos by (intro mult_strict_right_mono) simp_all
  ultimately show "m \<le> midnight JST t \<and> midnight JST t < m + 7 * Day" using Day_pos midnight_week [OF assms, of k] by simp
qed

lemma sum_if_empty: "sum_list (map f (filter (\<lambda>x. g x \<noteq> []) xs)) = (sum_list (map f xs) :: u32)" if "\<And>x. g x = [] \<Longrightarrow> f x = 0"
  using that by (induction xs) auto

lemma day_rows_flow:
  assumes "midnight JST m = m" "\<And>ip now date H S. f (day_row M ip now date H S) = (sum_list (map h (hours_of ip date (date + Day) H)) :: u32)"
  shows "sum_list (map f (day_rows M ip (week_days m nows) H S)) = sum_list (map h (hours_of ip m (m + 7 * Day) H))"
proof -
  let ?s = "\<lambda>k. sum_list (map h (hours_of ip (m + int k * Day) (m + int k * Day + Day) H))"
  have "sum_list (map f (day_rows M ip (week_days m nows) H S)) = sum_list (map ?s (filter (\<lambda>k. hours_of ip (m + int k * Day) (m + int k * Day + Day) H \<noteq> []) [0..<7]))"
    using midnight_week [OF assms(1)] by (simp add: day_rows_def week_days_def filter_map o_def case_prod_beta assms(2))
  also have "\<dots> = sum_list (map ?s [0..<7])" by (rule sum_if_empty) simp
  also have "\<dots> = sum_list (map h (hours_of ip m (m + int 7 * Day) H))"
  proof -
    have "sum_list (map ?s [0..<n]) = sum_list (map h (hours_of ip m (m + int n * Day) H))" for n
    proof (induction n)
      case 0
      have "hours_of ip m m H = []" by (auto simp: hours_of_def filter_empty_conv)
      then show ?case by simp
    next
      case (Suc n)
      have "sum_list (map h (hours_of ip m (m + int n * Day + Day) H)) = sum_list (map h (hours_of ip m (m + int n * Day) H)) + ?s n"
        using Day_pos by (intro sum_hours_split) simp_all
      then show ?case using Suc by (simp add: algebra_simps)
    qed
    then show ?thesis .
  qed
  finally show ?thesis by simp
qed

lemma day_row_flows: "sp_TotalInflow (day_row M ip now date H S) = sum_list (map sh_Inflow (hours_of ip date (date + Day) H))"
  "sp_TotalOutflow (day_row M ip now date H S) = sum_list (map sh_Outflow (hours_of ip date (date + Day) H))"
  by (simp_all add: day_row_def daily_stats_flows)

lemma day_rows_nonempty:
  assumes "midnight JST m = m" "hours_of ip m (m + 7 * Day) H \<noteq> []"
  shows "day_rows M ip (week_days m nows) H S \<noteq> []"
proof -
  obtain h where h: "h \<in> set H" "sh_IPID h = ip" "m \<le> sh_HourBucket h" "sh_HourBucket h < m + 7 * Day"
    using assms(2) by (auto simp: hours_of_def filter_empty_conv)
  define k where "k = nat ((sh_HourBucket h - m) div Day)"
  have k0: "0 \<le> (sh_HourBucket h - m) div Day" using h(3) Day_pos by (simp add: pos_imp_zdiv_nonneg_iff)
  have "(sh_HourBucket h - m) div Day \<le> (7 * Day - 1) div Day" using h(4) Day_pos by (intro zdiv_mono1) simp_all
  then have "(sh_HourBucket h - m) div Day < 7" by (simp add: Day_def duration_defs)
  then have "k < 7" using k0 by (simp add: k_def)
  moreover have "m + int k * Day \<le> sh_HourBucket h" "sh_HourBucket h < m + int k * Day + Day"
    using div_mult_mod_eq [of "sh_HourBucket h - m" Day] pos_mod_sign [of Day "sh_HourBucket h - m"] pos_mod_bound [of Day "sh_HourBucket h - m"] Day_pos
    unfolding k_def int_nat_eq if_P [OF k0] by linarith+
  then have "hours_of ip (m + int k * Day) (m + int k * Day + Day) H \<noteq> []" using h(1,2) by (auto simp: hours_of_def filter_empty_conv)
  ultimately show ?thesis using midnight_week [OF assms(1)]
    by (auto simp: day_rows_def week_days_def filter_map filter_empty_conv intro!: bexI [of _ k])
qed

text \<open>
  (C8) After the seven daily runs of a week and the weekly run, the weekly row of an IP holds as its inflow and outflow the
  sums over all hourly rows of the week (as 32-bit numbers): no hour is lost and none is counted twice.
\<close>

theorem week_is_sum_of_hours:
  assumes "sql_database D" "quiet w" "distinct (map ip_ID (ip_metadata D (db_st w)))" "ip \<in> ip_ID ` set (live_ips D (db_st w))"
    and "monday = toMondayJST t"
    and "\<nexists>r. r \<in> set (ip_stats_daily D (db_st w)) \<and> sp_IPID r = ip \<and> monday \<le> sp_Start r \<and> sp_Start r < monday + 7 * Day"
    and "\<nexists>r. r \<in> set (ip_stats_weekly D (db_st w)) \<and> sp_IPID r = ip \<and> sp_Start r = monday"
    and "hours_of ip monday (monday + 7 * Day) (ip_stats_hourly D (db_st w)) = hours" "hours \<noteq> []"
  shows "\<exists>r. r \<in> set (ip_stats_weekly D (db_st (snd (AggregateDailyToWeekly M D JST C now t (archive_days M D JST C (week_days monday nows) w))))) \<and>
    sp_IPID r = ip \<and> sp_Start r = monday \<and> sp_TotalInflow r = sum_list (map sh_Inflow hours) \<and> sp_TotalOutflow r = sum_list (map sh_Outflow hours)"
proof -
  note D = assms(1)
  let ?w = "archive_days M D JST C (week_days monday nows) w"
  obtain ms H S dys ws where sn: "seen D ip (db_st w) = (ms, H, S, dys, ws)" by (cases "seen D ip (db_st w)") auto
  have mon: "midnight JST monday = monday" using assms(5) toMonday_midnight by simp
  have H: "hours_of ip monday (monday + 7 * Day) H = hours" "dys = own ip (ip_stats_daily D (db_st w))" "ip_metadata D (db_st w) = ms"
    using sn assms(8) by (simp_all add: seen_def)
  have new: "sp_Start r \<noteq> midnight JST u" if "r \<in># own ip (ip_stats_daily D (db_st w))" "(u, n) \<in> set (week_days monday nows)" for r u n
  proof -
    have "r \<in> set (ip_stats_daily D (db_st w))" "sp_IPID r = ip" using that(1) by (simp_all add: own_def)
    then show ?thesis using week_days_simps(2) [OF mon that(2)] assms(6) by metis
  qed
  have "quiet ?w \<and> seen D ip (db_st ?w) = (ms, H, S, mset (day_rows M ip (week_days monday nows) H S) + dys, ws)"
    by (rule sql_database.archive_days_own [OF D assms(2-4) week_days_simps(1) [OF mon] _ sn]) (rule new)
  then have a: "quiet ?w" "seen D ip (db_st ?w) = (ms, H, S, mset (day_rows M ip (week_days monday nows) H S) + dys, ws)" by blast+
  have ms: "ip_metadata D (db_st ?w) = ms" "own ip (ip_stats_weekly D (db_st ?w)) = own ip (ip_stats_weekly D (db_st w))"
    "own ip (ip_stats_daily D (db_st ?w)) = mset (day_rows M ip (week_days monday nows) H S) + dys"
    using a(2) sn by (simp_all add: seen_def)
  have rng: "monday \<le> sp_Start r \<and> sp_Start r < monday + 7 * Day" if "r \<in> set (day_rows M ip (week_days monday nows) H S)" for r
    using that week_days_simps(2) [OF mon] by (auto simp: day_rows_def)
  have old: "filter_mset (\<lambda>r. monday \<le> sp_Start r \<and> sp_Start r < monday + 7 * Day) dys = {#}"
    using assms(6) by (intro multiset_eqI) (auto simp: H(2) own_def count_eq_zero_iff)
  have days: "filter_mset (\<lambda>r. toMondayJST t \<le> sp_Start r \<and> sp_Start r < toMondayJST t + 7 * Day) (own ip (ip_stats_daily D (db_st ?w)))
      = mset (day_rows M ip (week_days monday nows) H S)"
    unfolding ms(3) assms(5) [symmetric] filter_union_mset old using rng
    by (simp add: filter_mset_eq_conv)
  have w1: "distinct (map ip_ID (ip_metadata D (db_st ?w)))" "ip \<in> ip_ID ` set (live_ips D (db_st ?w))"
    using assms(3,4) H(3) ms(1) by (simp_all add: live_ips_def)
  have w2: "sp_Start r \<noteq> toMondayJST t" if "r \<in># own ip (ip_stats_weekly D (db_st ?w))" for r
    using that [unfolded ms(2)] assms(5,7) by (auto simp: own_def)
  have w3: "mset (day_rows M ip (week_days monday nows) H S) \<noteq> {#}" using day_rows_nonempty [OF mon] H(1) assms(9) by simp
  obtain rs where rs: "mset rs = mset (day_rows M ip (week_days monday nows) H S)"
    "period_row M JST now (rolled ip monday rs) \<in># own ip (ip_stats_weekly D (db_st (snd (AggregateDailyToWeekly M D JST C now t ?w))))"
    using sql_database.week_run [OF D a(1) w1 w2 days w3, of M now C] assms(5) by auto
  have "sum_list (map sp_TotalInflow rs) = sum_list (map sh_Inflow hours)" "sum_list (map sp_TotalOutflow rs) = sum_list (map sh_Outflow hours)"
    using day_rows_flow [OF mon day_row_flows(1), of M ip nows H S] day_rows_flow [OF mon day_row_flows(2), of M ip nows H S]
    unfolding H(1) sum_perm [OF rs(1)] by blast+
  then show ?thesis using rs(2) mon
    by (intro exI [of _ "period_row M JST now (rolled ip monday rs)"]) (auto simp: own_def rolled_flows)
qed


definition sample_hourly :: "u64 \<Rightarrow> int \<Rightarrow> u32 \<Rightarrow> u32 \<Rightarrow> IPStatsHourly" where
  "sample_hourly ip t i ou = \<lparr>sh_IPID = ip, sh_HourBucket = t, sh_Inflow = i, sh_Outflow = ou, sh_LiquidityIndex = None, sh_ActiveCount = 0,
     sh_AvgPrice = None, sh_MedianPrice = None, sh_MinPrice = None, sh_MaxPrice = None, sh_MinPriceItem = None, sh_MaxPriceItem = None,
     sh_PriceStddev = None, sh_SampleCount = 0, sh_CreatedAt = 0\<rparr>"

text \<open>Three hours of one week, on two days.\<close>

definition sample_week :: "(unit, tables) world" where
  "sample_week = db_world (no_tables\<lparr>t_ip := [sample_ip 3 IPStatusActive, sample_ip 7 IPStatusActive],
     t_hourly := [sample_hourly 7 0 10 2, sample_hourly 7 Hour 5 1, sample_hourly 3 Hour 9 9, sample_hourly 7 (2 * Day) 4 3]\<rparr>)"

theorem week_is_sum_of_hours_witness:
  "\<exists>r. r \<in> set (ip_stats_weekly mem_db (db_st (snd (AggregateDailyToWeekly sample_mysql mem_db JST None 0 0
      (archive_days sample_mysql mem_db JST None (week_days (toMondayJST 0) (\<lambda>_. 0)) sample_week))))) \<and>
    sp_IPID r = 7 \<and> sp_Start r = toMondayJST 0 \<and> sp_TotalInflow r = 19 \<and> sp_TotalOutflow r = 6"
proof -
  let ?hs = "[sample_hourly 7 0 10 2, sample_hourly 7 Hour 5 1, sample_hourly 7 (2 * Day) 4 3]"
  have h: "hours_of 7 (toMondayJST 0) (toMondayJST 0 + 7 * Day) (ip_stats_hourly mem_db (db_st sample_week)) = ?hs" by code_simp
  have f: "quiet sample_week" "distinct (map ip_ID (ip_metadata mem_db (db_st sample_week)))" "7 \<in> ip_ID ` set (live_ips mem_db (db_st sample_week))"
    "sum_list (map sh_Inflow ?hs) = 19" "sum_list (map sh_Outflow ?hs) = 6" by code_simp+
  have e: "ip_stats_daily mem_db (db_st sample_week) = []" "ip_stats_weekly mem_db (db_st sample_week) = []"
    by (simp_all add: sample_week_def db_world_def no_tables_def mem_db_def)
  show ?thesis
    using week_is_sum_of_hours [OF memdb.sql_database_axioms f(1-3) refl _ _ h, of sample_mysql None 0 "\<lambda>_. 0"] f(4,5) e by simp
qed

section \<open>Running a day twice\<close>

lemma period_assign_again: "period_assign M p (period_row M zone now p) = period_row M zone now p"
  by (cases p) (simp add: period_assign_def period_row_def keep_zero_def keep_none_def col_json_def split: option.split)

text \<open>
  A daily run repeated on unchanged hours and sales changes nothing: a retry after a partial failure is safe.
\<close>

theorem daily_archive_idempotent:
  assumes "sql_database D" "quiet w" "midnight JST date = date"
    and "\<nexists>r. r \<in> set (ip_stats_daily D (db_st w)) \<and> sp_IPID r = ip \<and> sp_Start r = date"
    and "aggregateHourlyToDailyForIP M D JST now date (date + Day) ip w = (ok, w1)"
    and "aggregateHourlyToDailyForIP M D JST now' date (date + Day) ip w1 = (ok', w2)"
  shows "ok \<and> ok' \<and> mset (ip_stats_daily D (db_st w2)) = mset (ip_stats_daily D (db_st w1))"
proof (cases "hours_of ip date (date + Day) (ip_stats_hourly D (db_st w)) = []")
  case True
  then show ?thesis using assms(2,5,6) by (simp add: aggregateHourlyToDailyForIP_def readc_def)
next
  case False
  let ?H = "hours_of ip date (date + Day) (ip_stats_hourly D (db_st w))" and ?S = "sales_of ip date (date + Day) (item_snapshots D (db_st w))"
  let ?p = "daily_stats ip date ?H ?S" let ?r = "period_row M JST now ?p" let ?k = "period_key ip date"
  have n: "sp_Start r \<noteq> date" if "r \<in># own ip (ip_stats_daily D (db_st w))" for r using that assms(4) by (auto simp: own_def)
  have w1: "ok" "w1 = w\<lparr>db_st := put_ip_stats_daily D (ip_stats_daily D (db_st w) @ [?r]) (db_st w)\<rparr>"
    using sql_database.day_own [OF assms(1,2,3) n False, of M now] assms(5) by (simp_all add: day_row_def)
  have m: "mset (ip_stats_daily D (db_st w1)) = mset (ip_stats_daily D (db_st w)) + {#?r#}"
    using sql_database.put_daily [OF assms(1)] w1(2) by simp
  have rk: "?k ?r" using assms(3) by (simp add: period_key_def)
  have same: "map (\<lambda>r. if ?k r then period_assign M ?p r else r) (ip_stats_daily D (db_st w1)) = ip_stats_daily D (db_st w1)"
  proof (rule map_idI)
    fix r assume "r \<in> set (ip_stats_daily D (db_st w1))"
    then have "r \<in># mset (ip_stats_daily D (db_st w)) + {#?r#}" using m by (metis set_mset_mset)
    then have "r = ?r \<or> r \<in> set (ip_stats_daily D (db_st w))" by auto
    moreover have "\<not> ?k r" if "r \<in> set (ip_stats_daily D (db_st w))" using that assms(4) by (auto simp: period_key_def)
    ultimately show "(if ?k r then period_assign M ?p r else r) = r" using period_assign_again by metis
  qed
  have "?r \<in> set (ip_stats_daily D (db_st w1))" using m by (metis add_mset_add_single set_mset_mset union_single_eq_member)
  then have found: "filter ?k (ip_stats_daily D (db_st w1)) \<noteq> []" using rk by (auto simp: filter_empty_conv)
  have src: "ip_stats_hourly D (db_st w1) = ip_stats_hourly D (db_st w)" "item_snapshots D (db_st w1) = item_snapshots D (db_st w)" "quiet w1"
    using w1(2) assms(2) by (simp_all add: sql_database.hourly_frame [OF assms(1)] sql_database.items_frame [OF assms(1)])
  have "ok'" "w2 = w1\<lparr>db_st := put_ip_stats_daily D (ip_stats_daily D (db_st w1)) (db_st w1)\<rparr>"
    using assms(6) False found by (simp_all add: aggregateHourlyToDailyForIP_def readc_def src FirstOrCreate_def same Let_def)
  then show ?thesis using w1(1) sql_database.put_daily [OF assms(1)] by simp
qed

theorem daily_archive_idempotent_witness:
  "\<exists>w1 w2. aggregateHourlyToDailyForIP sample_mysql mem_db JST 5 (midnight JST 0) (midnight JST 0 + Day) 7 sample_week = (True, w1) \<and>
    aggregateHourlyToDailyForIP sample_mysql mem_db JST 6 (midnight JST 0) (midnight JST 0 + Day) 7 w1 = (True, w2) \<and>
    mset (ip_stats_daily mem_db (db_st w2)) = mset (ip_stats_daily mem_db (db_st w1))"
proof -
  obtain ok w1 where 1: "aggregateHourlyToDailyForIP sample_mysql mem_db JST 5 (midnight JST 0) (midnight JST 0 + Day) 7 sample_week = (ok, w1)" by fastforce
  obtain ok' w2 where 2: "aggregateHourlyToDailyForIP sample_mysql mem_db JST 6 (midnight JST 0) (midnight JST 0 + Day) 7 w1 = (ok', w2)" by fastforce
  have "quiet sample_week" "\<nexists>r. r \<in> set (ip_stats_daily mem_db (db_st sample_week)) \<and> sp_IPID r = 7 \<and> sp_Start r = midnight JST 0"
    by (simp_all add: quiet_def sample_week_def db_world_def no_tables_def mem_db_def)
  from daily_archive_idempotent [OF memdb.sql_database_axioms this(1) midnight_idem this(2) 1 2] 1 2 show ?thesis by auto
qed


section \<open>Cleaning up\<close>

lemma db_delete_quiet:
  "quiet w \<Longrightarrow> db_delete rows put P w = (Some (int (length (filter P (rows (db_st w))))), w\<lparr>db_st := put (filter (\<lambda>r. \<not> P r) (rows (db_st w))) (db_st w)\<rparr>)"
  by (simp add: db_delete_def)

lemma filter_keep: "(\<And>r. r \<in> set rs \<Longrightarrow> P r \<Longrightarrow> Q r) \<Longrightarrow> filter P (filter Q rs) = filter P rs"
  by (induction rs) auto

lemma mset_filter_eq: "mset xs = mset ys \<Longrightarrow> mset (filter P xs) = mset (filter P ys)"
  by simp

context sql_database
begin

lemmas frames = ip_frame items_frame hourly_frame daily_frame weekly_frame monthly_frame alerts_frame

lemma RunCleanup_tables:
  assumes "quiet w" and "w' = snd (RunCleanup D n1 n2 n3 n4 w)"
  shows "mset (ip_stats_hourly D (db_st w')) = mset (filter (\<lambda>r. \<not> sh_HourBucket r < midnight JST (n1 - 7 * Day)) (ip_stats_hourly D (db_st w)))"
    and "mset (ip_stats_daily D (db_st w')) = mset (filter (\<lambda>r. \<not> sp_Start r < midnight JST (n2 - 90 * Day)) (ip_stats_daily D (db_st w)))"
    and "mset (ip_stats_weekly D (db_st w')) = mset (filter (\<lambda>r. \<not> sp_Start r < toMondayJST (n3 - 365 * Day)) (ip_stats_weekly D (db_st w)))"
    and "mset (item_snapshots D (db_st w')) = mset (filter (\<lambda>r. \<not> stale_snapshot (midnight JST (n4 - 8 * Day)) (midnight JST (n4 - 8 * Day) + Day) r) (item_snapshots D (db_st w)))"
    and "ip_stats_monthly D (db_st w') = ip_stats_monthly D (db_st w)"
  using assms by (simp_all add: RunCleanup_def CleanupOldHourlyData_def CleanupOldDailyData_def CleanupOldWeeklyData_def RunSnapshotCleanup_def
    CleanupItemSnapshotsForDate_def db_delete_quiet Let_def frames put_hourly put_daily put_weekly put_items)

end

lemma midnight_back: "midnight JST (n - k * Day) = midnight JST n - k * Day"
  using midnight_shift [of JST n "- k"] by simp



text \<open>An hour of the day before, and one of nine days before.\<close>

definition sample_clean :: "(unit, tables) world" where
  "sample_clean = db_world (no_tables\<lparr>t_hourly := [sample_hourly 7 0 10 2, sample_hourly 7 (8 * Day) 5 1]\<rparr>)"


section \<open>Sales of items seen before\<close>

lemma snapshot_at_set: "snapshot_at rows k = Some x \<Longrightarrow> x \<in> set rows \<and> item_key x = k"
  by (auto simp: keyed_def dest: map_of_SomeD)

text \<open>
  (C40) An item first seen on sale and later crawled as sold gets the status \<open>sold\<close> but no time of sale. Its row then counts
  in the sales of no period the archiver looks at, whatever its limits, and no cleanup ever removes it.
\<close>

theorem sale_of_known_item_lost:
  assumes "sql_database D" "quiet w" "distinct (map item_key (item_snapshots D (db_st w)))"
    and "distinct (map it_SourceId (filter (\<lambda>i. it_SourceId i \<noteq> '''') (resp_Items r)))"
    and "i \<in> set (resp_Items r)" "it_SourceId i \<noteq> ''''" "it_Status i = ITEM_STATUS_SOLD"
    and "snapshot_at (item_snapshots D (db_st w)) (resp_IpId r, it_SourceId i) = Some y" "is_SoldAt y = None"
    and "w' = snd (UpsertItemSnapshots M D now (Some r) w)"
  shows "\<exists>x. x \<in> set (item_snapshots D (db_st w')) \<and> item_key x = (resp_IpId r, it_SourceId i) \<and> is_Status x = ItemStatusSold \<and>
    x \<notin> set (sales_of (resp_IpId r) a b (item_snapshots D (db_st w'))) \<and>
    x \<in> set (item_snapshots D (db_st (snd (RunCleanup D n1 n2 n3 n4 w'))))"
proof -
  note u = UpsertItemSnapshots_rows [OF assms(1-4) refl, where M = M and now = now]
  let ?x = "snapshot_update (snapshot_of M (resp_IpId r) now i) y"
  have x: "?x \<in> set (item_snapshots D (db_st w'))" "item_key ?x = (resp_IpId r, it_SourceId i)"
    using u(2) [OF assms(5,6)] assms(8,10) snapshot_at_set by (metis option.simps(5))+
  have st: "is_Status ?x = ItemStatusSold" "is_SoldAt ?x = None"
    using assms(7,9) by (simp_all add: snapshot_update_def snapshot_of_def Let_def)
  have "quiet w'" using u(4) assms(10) by simp
  from sql_database.RunCleanup_tables(4) [OF assms(1) this refl, of n1 n2 n3 n4]
  have "set (item_snapshots D (db_st (snd (RunCleanup D n1 n2 n3 n4 w')))) =
      set (filter (\<lambda>r. \<not> stale_snapshot (midnight JST (n4 - 8 * Day)) (midnight JST (n4 - 8 * Day) + Day) r) (item_snapshots D (db_st w')))"
    by (metis set_mset_mset)
  then have "?x \<in> set (item_snapshots D (db_st (snd (RunCleanup D n1 n2 n3 n4 w'))))"
    using x(1) st by (simp add: stale_snapshot_def sold_between_def)
  then show ?thesis using x st by (intro exI [of _ ?x]) (simp add: sales_of_def sold_between_def)
qed

theorem sale_of_known_item_lost_witness:
  "\<exists>x. x \<in> set (item_snapshots mem_db (db_st (snd (UpsertItemSnapshots sample_mysql mem_db 200 (Some (crawl_of ''t2'' [crawl_item ''m1'' 280 ITEM_STATUS_SOLD])) sample_listed)))) \<and>
    item_key x = (7, ''m1'') \<and> is_Status x = ItemStatusSold \<and>
    x \<notin> set (sales_of 7 0 1000 (item_snapshots mem_db (db_st (snd (UpsertItemSnapshots sample_mysql mem_db 200 (Some (crawl_of ''t2'' [crawl_item ''m1'' 280 ITEM_STATUS_SOLD])) sample_listed)))))"
proof -
  let ?i = "crawl_item ''m1'' 280 ITEM_STATUS_SOLD" let ?r = "crawl_of ''t2'' [?i]"
  have f: "quiet sample_listed" "distinct (map item_key (item_snapshots mem_db (db_st sample_listed)))"
    "distinct (map it_SourceId (filter (\<lambda>i. it_SourceId i \<noteq> '''') (resp_Items ?r)))" by code_simp+
  have i: "?i \<in> set (resp_Items ?r)" "it_SourceId ?i \<noteq> ''''" "it_Status ?i = ITEM_STATUS_SOLD" "(resp_IpId ?r, it_SourceId ?i) = (7, ''m1'')"
    by (simp_all add: crawl_of_def crawl_item_def)
  have "map_option is_SoldAt (snapshot_at (item_snapshots mem_db (db_st sample_listed)) (7, ''m1'')) = Some None" by code_simp
  then obtain y where y: "snapshot_at (item_snapshots mem_db (db_st sample_listed)) (resp_IpId ?r, it_SourceId ?i) = Some y" "is_SoldAt y = None"
    unfolding i(4) by auto
  from sale_of_known_item_lost [OF memdb.sql_database_axioms f i(1-3) y refl, of sample_mysql 200 0 1000 0 0 0 0] i(4) show ?thesis by auto
qed

end
