(* ===== verification/Text.thy ===== *)
theory Text
  imports Prelude "HOL-Library.List_Lexorder" "HOL-Library.Char_ord"
begin

text \<open>
  More of Go's \<open>strings\<close> and \<open>net/url\<close> packages, as far as the crawler uses them. A string is the list of its UTF-8 bytes.
\<close>

section \<open>Strings\<close>

abbreviation HasPrefix :: "string \<Rightarrow> string \<Rightarrow> bool" where
  "HasPrefix s p \<equiv> is_prefix p s"

definition TrimSuffix :: "string \<Rightarrow> string \<Rightarrow> string" where
  "TrimSuffix s suf = (if is_prefix (rev suf) (rev s) then take (length s - length suf) s else s)"

text \<open>\<open>ReplaceAll (s, old, new)\<close> for an \<open>old\<close> that is not empty.\<close>

function ReplaceAll :: "string \<Rightarrow> string \<Rightarrow> string \<Rightarrow> string" where
  "ReplaceAll s old new = (if s = [] \<or> old = [] then s
     else if is_prefix old s then new @ ReplaceAll (drop (length old) s) old new
     else hd s # ReplaceAll (tl s) old new)"
  by pat_completeness auto
termination
  by (relation "measure (\<lambda>(s, _). length s)") auto

declare ReplaceAll.simps [simp del]

text \<open>\<open>Split (s, sep)\<close> for a separator of one byte.\<close>

fun split_at :: "char \<Rightarrow> string \<Rightarrow> string list" where
  "split_at c [] = [[]]"
| "split_at c (x # xs) = (if x = c then [] # split_at c xs
     else (case split_at c xs of [] \<Rightarrow> [[x]] | y # ys \<Rightarrow> (x # y) # ys))"

text \<open>
  \<open>ToLower\<close> on the letters of ASCII and on the two letters outside ASCII whose lower case is in it; the other letters have
  lower-case forms outside ASCII, which no search in the sources asks for.
\<close>

definition lower_char :: "char \<Rightarrow> char" where
  "lower_char c = (let n = (of_char c :: int) in if 65 \<le> n \<and> n \<le> 90 then char_of (n + 32) else c)"

function ToLower :: "string \<Rightarrow> string" where
  "ToLower s = (if s = [] then []
     else if is_prefix [CHR 0xE2, CHR 0x84, CHR 0xAA] s then CHR ''k'' # ToLower (drop 3 s)
     else if is_prefix [CHR 0xC4, CHR 0xB0] s then CHR ''i'' # ToLower (drop 2 s)
     else lower_char (hd s) # ToLower (tl s))"
  by pat_completeness auto
termination
  by (relation "measure length") auto

declare ToLower.simps [simp del]

text \<open>The UTF-8 bytes of a text given by its code points below \<open>U+10000\<close>.\<close>

definition utf8_char :: "int \<Rightarrow> string" where
  "utf8_char n = (if n < 0x80 then [char_of n]
     else if n < 0x800 then [char_of (0xC0 + n div 64), char_of (0x80 + n mod 64)]
     else [char_of (0xE0 + n div 4096), char_of (0x80 + n div 64 mod 64), char_of (0x80 + n mod 64)])"

definition utf8 :: "int list \<Rightarrow> string" where
  "utf8 ns = concat (map utf8_char ns)"

text \<open>The white space of Unicode; \<open>TrimSpace\<close> leaves nothing of a text of white space only.\<close>

definition white_space :: "string list" where
  "white_space = map utf8_char ([9, 10, 11, 12, 13, 32, 0x85, 0xA0, 0x1680] @ [0x2000..0x200A] @ [0x2028, 0x2029, 0x202F, 0x205F, 0x3000])"

fun strip_one :: "string list \<Rightarrow> string \<Rightarrow> string option" where
  "strip_one [] s = None"
| "strip_one (p # ps) s = (if p \<noteq> [] \<and> is_prefix p s then Some (drop (length p) s) else strip_one ps s)"

lemma strip_one_shorter: "strip_one ps s = Some s' \<Longrightarrow> length s' < length s"
proof (induction ps)
  case (Cons p ps)
  then show ?case by (cases p) (auto simp: is_prefix_iff split: if_splits)
qed simp

function blank_text :: "string \<Rightarrow> bool" where
  "blank_text s = (if s = [] then True else (case strip_one white_space s of None \<Rightarrow> False | Some s' \<Rightarrow> blank_text s'))"
  by pat_completeness auto
termination
  by (relation "measure length") (auto dest: strip_one_shorter)

declare blank_text.simps [simp del]

text \<open>\<open>TrimSpace\<close>: white space dropped at the front, then at the back.\<close>

function trim_left :: "string list \<Rightarrow> string \<Rightarrow> string" where
  "trim_left ws s = (case strip_one ws s of None \<Rightarrow> s | Some s' \<Rightarrow> trim_left ws s')"
  by pat_completeness auto
termination
  by (relation "measure (\<lambda>(_, s). length s)") (auto dest: strip_one_shorter)

declare trim_left.simps [simp del]

definition TrimSpace :: "string \<Rightarrow> string" where
  "TrimSpace s = rev (trim_left (map rev white_space) (rev (trim_left white_space s)))"

section \<open>Query strings\<close>

definition hex_digit :: "nat \<Rightarrow> char" where
  "hex_digit d = (if d < 10 then char_of (48 + d) else char_of (55 + d))"

text \<open>The bytes \<open>url.QueryEscape\<close> keeps: letters, digits and four marks.\<close>

definition unreserved :: "char \<Rightarrow> bool" where
  "unreserved c = (let n = (of_char c :: nat) in (97 \<le> n \<and> n \<le> 122) \<or> (65 \<le> n \<and> n \<le> 90) \<or> (48 \<le> n \<and> n \<le> 57)
     \<or> c \<in> {CHR ''-'', CHR ''_'', CHR ''.'', CHR ''~''})"

definition percent :: "char \<Rightarrow> string" where
  "percent c = [CHR ''%'', hex_digit (of_char c div 16), hex_digit (of_char c mod 16)]"

definition escape_char :: "char \<Rightarrow> string" where
  "escape_char c = (if unreserved c then [c] else if c = CHR '' '' then ''+'' else percent c)"

definition QueryEscape :: "string \<Rightarrow> string" where
  "QueryEscape s = concat (map escape_char s)"

definition encode_pair :: "string \<times> string \<Rightarrow> string" where
  "encode_pair kv = QueryEscape (fst kv) @ ''='' @ QueryEscape (snd kv)"

fun join :: "string \<Rightarrow> string list \<Rightarrow> string" where
  "join sep [] = []"
| "join sep [x] = x"
| "join sep (x # y # xs) = x @ sep @ join sep (y # xs)"

text \<open>\<open>url.Values\<close> with one value per key: \<open>Set\<close>, and \<open>Encode\<close> in the order of the keys.\<close>

definition Values_Set :: "string \<Rightarrow> string \<Rightarrow> (string \<times> string) list \<Rightarrow> (string \<times> string) list" where
  "Values_Set k v vs = filter (\<lambda>p. fst p \<noteq> k) vs @ [(k, v)]"

definition Values_Encode :: "(string \<times> string) list \<Rightarrow> string" where
  "Values_Encode vs = join ''&'' (map encode_pair (sort_key fst vs))"

text \<open>How a server reads a query string: pairs at \<open>&\<close>, key and value at the first \<open>=\<close>, percent escapes.\<close>

definition unhex :: "char \<Rightarrow> nat" where
  "unhex c = (let n = of_char c in if n < 58 then n - 48 else if n < 71 then n - 55 else n - 87)"

fun unescape :: "string \<Rightarrow> string" where
  "unescape [] = []"
| "unescape (c # s) = (if c = CHR ''%'' then (case s of a # b # r \<Rightarrow> char_of (16 * unhex a + unhex b) # unescape r | _ \<Rightarrow> c # unescape s)
     else (if c = CHR ''+'' then CHR '' '' else c) # unescape s)"

definition read_pair :: "string \<Rightarrow> string \<times> string" where
  "read_pair s = (unescape (takeWhile (\<lambda>c. c \<noteq> CHR ''='') s), unescape (drop 1 (dropWhile (\<lambda>c. c \<noteq> CHR ''='') s)))"

definition read_query :: "string \<Rightarrow> (string \<times> string) list" where
  "read_query q = map read_pair (split_at CHR ''&'' q)"

section \<open>Lemmas\<close>

lemma ReplaceAll_char: "ReplaceAll s [c] new = concat (map (\<lambda>x. if x = c then new else [x]) s)"
proof (induction s)
  case Nil
  then show ?case by (simp add: ReplaceAll.simps)
next
  case (Cons x s)
  then show ?case by (subst ReplaceAll.simps) auto
qed

lemma split_at_nonempty [simp]: "split_at c s \<noteq> []"
  by (induction s) (auto split: list.splits)

lemma split_at_none: "c \<notin> set s \<Longrightarrow> split_at c s = [s]"
  by (induction s) auto

lemma split_at_append: "c \<notin> set a \<Longrightarrow> split_at c (a @ c # b) = a # split_at c b"
  by (induction a) auto

lemma split_at_join: "xs \<noteq> [] \<Longrightarrow> \<forall>x \<in> set xs. c \<notin> set x \<Longrightarrow> split_at c (join [c] xs) = xs"
  by (induction "[c]" xs rule: join.induct) (auto simp: split_at_none split_at_append)

lemma split_at_append2: "split_at c (a @ c # b) = split_at c a @ split_at c b"
proof (induction a)
  case (Cons x a)
  then show ?case by (cases "split_at c a") auto
qed simp

lemma last_split_at: "c \<notin> set b \<Longrightarrow> last (split_at c (a @ c # b)) = b"
  by (simp add: split_at_append2 split_at_none)

lemma of_char_bound: "(of_char c :: nat) < 256"
  by simp

lemma unhex_hex [simp]: "d < 16 \<Longrightarrow> unhex (hex_digit d) = d"
  by (auto simp: unhex_def hex_digit_def Let_def)

lemma hex_digit_plain: "d < 16 \<Longrightarrow> hex_digit d \<noteq> CHR ''&'' \<and> hex_digit d \<noteq> CHR ''='' \<and> hex_digit d \<noteq> CHR ''+'' \<and> hex_digit d \<noteq> CHR '' ''"
proof -
  assume d: "d < 16"
  then have "(of_char (hex_digit d) :: nat) \<ge> 48 \<and> (of_char (hex_digit d) :: nat) \<noteq> 61"
    by (auto simp: hex_digit_def)
  then show ?thesis by auto
qed

text \<open>The escape of a byte once \<open>+\<close> has become \<open>%20\<close>.\<close>

definition url_char :: "char \<Rightarrow> string" where
  "url_char c = (if unreserved c then [c] else percent c)"

lemma unreserved_plain: "unreserved c \<Longrightarrow> c \<noteq> CHR ''&'' \<and> c \<noteq> CHR ''='' \<and> c \<noteq> CHR ''+'' \<and> c \<noteq> CHR ''%'' \<and> c \<noteq> CHR '' ''"
  by (auto simp: unreserved_def Let_def)

lemma percent_space: "percent CHR '' '' = ''%20''"
  by code_simp

lemma half_bytes: "(of_char c :: nat) div 16 < 16" "(of_char c :: nat) mod 16 < 16"
  by (rule less_mult_imp_div_less) simp_all

lemma ReplaceAll_append: "ReplaceAll (a @ b) [c] new = ReplaceAll a [c] new @ ReplaceAll b [c] new"
  by (simp add: ReplaceAll_char)

lemma escape_char_replaced: "ReplaceAll (escape_char c) ''+'' ''%20'' = url_char c"
proof (cases "unreserved c")
  case True
  then show ?thesis using unreserved_plain [OF True] by (simp add: escape_char_def url_char_def ReplaceAll_char)
next
  case False
  then show ?thesis using hex_digit_plain [OF half_bytes(1), of c] hex_digit_plain [OF half_bytes(2), of c]
    by (auto simp: escape_char_def url_char_def ReplaceAll_char percent_space) (auto simp: percent_def)
qed

lemma QueryEscape_replaced: "ReplaceAll (QueryEscape s) ''+'' ''%20'' = concat (map url_char s)"
proof (induction s)
  case Nil
  then show ?case by (simp add: QueryEscape_def ReplaceAll_char)
next
  case (Cons c s)
  have "QueryEscape (c # s) = escape_char c @ QueryEscape s" by (simp add: QueryEscape_def)
  then show ?case using Cons by (simp add: ReplaceAll_append escape_char_replaced)
qed

lemma url_char_plain: "x \<in> set (url_char c) \<Longrightarrow> x \<noteq> CHR ''&'' \<and> x \<noteq> CHR ''='' \<and> x \<noteq> CHR ''+''"
  using unreserved_plain [of c] hex_digit_plain [OF half_bytes(1), of c] hex_digit_plain [OF half_bytes(2), of c]
  by (auto simp: url_char_def percent_def split: if_splits)

lemma unescape_url_char: "unescape (url_char c @ rest) = c # unescape rest"
proof (cases "unreserved c")
  case True
  then show ?thesis using unreserved_plain [OF True] by (simp add: url_char_def)
next
  case False
  have "char_of (16 * ((of_char c :: nat) div 16) + (of_char c :: nat) mod 16) = c" by (simp add: mult.commute)
  then show ?thesis using False half_bytes [of c] by (simp add: url_char_def percent_def)
qed

lemma unescape_url: "unescape (concat (map url_char s) @ rest) = s @ unescape rest"
  by (induction s) (simp_all add: unescape_url_char)

lemma url_plain: "x \<in> set (concat (map url_char s)) \<Longrightarrow> x \<noteq> CHR ''&'' \<and> x \<noteq> CHR ''='' \<and> x \<noteq> CHR ''+''"
  using url_char_plain by auto

text \<open>A pair written by \<open>Encode\<close>, with spaces as \<open>%20\<close>, is read back.\<close>

definition url_pair :: "string \<times> string \<Rightarrow> string" where
  "url_pair kv = concat (map url_char (fst kv)) @ ''='' @ concat (map url_char (snd kv))"

lemma read_url_pair: "read_pair (url_pair kv) = kv"
proof -
  have no: "\<forall>x \<in> set (concat (map url_char (fst kv))). x \<noteq> CHR ''=''" using url_plain by blast
  have "takeWhile (\<lambda>c. c \<noteq> CHR ''='') (url_pair kv) = concat (map url_char (fst kv))"
    using no by (simp add: url_pair_def takeWhile_append)
  moreover have "dropWhile (\<lambda>c. c \<noteq> CHR ''='') (url_pair kv) = ''='' @ concat (map url_char (snd kv))"
    using no by (simp add: url_pair_def dropWhile_append)
  ultimately show ?thesis using unescape_url [of "fst kv" "[]"] unescape_url [of "snd kv" "[]"] by (simp add: read_pair_def)
qed

lemma url_pair_no_amp: "CHR ''&'' \<notin> set (url_pair kv)"
  using url_plain by (auto simp: url_pair_def)

lemma encode_pair_replaced: "ReplaceAll (encode_pair kv) ''+'' ''%20'' = url_pair kv"
proof -
  have "ReplaceAll ''='' ''+'' ''%20'' = ''=''" by (simp add: ReplaceAll_char)
  then show ?thesis by (simp add: encode_pair_def url_pair_def ReplaceAll_append QueryEscape_replaced del: append_Cons append_Nil)
qed

lemma Encode_replaced: "ReplaceAll (join ''&'' (map encode_pair kvs)) ''+'' ''%20'' = join ''&'' (map url_pair kvs)"
proof (induction kvs rule: induct_list012)
  case (3 x y zs)
  have "ReplaceAll ''&'' ''+'' ''%20'' = ''&''" by (simp add: ReplaceAll_char)
  then show ?case using 3(2) by (simp add: ReplaceAll_append encode_pair_replaced del: append_Cons append_Nil)
qed (simp_all add: ReplaceAll_char [of "[]"] encode_pair_replaced)

lemma read_encoded:
  assumes "vs \<noteq> []"
  shows "read_query (ReplaceAll (Values_Encode vs) ''+'' ''%20'') = sort_key fst vs"
proof -
  have ne: "map url_pair (sort_key fst vs) \<noteq> []" using assms by (metis length_0_conv length_map length_sort)
  have "split_at CHR ''&'' (join ''&'' (map url_pair (sort_key fst vs))) = map url_pair (sort_key fst vs)"
    using ne by (rule split_at_join) (use url_pair_no_amp in auto)
  then show ?thesis by (simp add: read_query_def Values_Encode_def Encode_replaced o_def read_url_pair)
qed

end
