(* ===== verification/Pages.thy ===== *)
theory Pages
  imports Text Proto
begin

text \<open>
  What the crawler reads off and asks of a search page: \<open>internal/crawler/url_builder.go\<close> (the address of a page),
  \<open>parse.go\<close> (an item of a page) and the pure part of \<open>detect.go\<close> (texts that mean a blocked page, classes of errors).
  The browser library is not part of the repository: an element of a page is a value of any type, read through the
  record \<open>dom\<close>, whose answer \<open>None\<close> is an error or an absent attribute. Texts are byte lists; the Japanese ones are
  written as their code points.
\<close>

section \<open>Errors\<close>

text \<open>An error: its message, and whether it wraps a cancelled or expired context (\<open>errors.Is\<close>).\<close>

record err =
  e_msg :: string
  e_ctx :: bool

definition errorf :: "string \<Rightarrow> err" where
  "errorf m = \<lparr>e_msg = m, e_ctx = False\<rparr>"

text \<open>\<open>fmt.Errorf ("prefix: %w", err)\<close>.\<close>

definition wrapf :: "string \<Rightarrow> err \<Rightarrow> err" where
  "wrapf pre e = e\<lparr>e_msg := pre @ '': '' @ e_msg e\<rparr>"

lemma wrapf_simps [simp]: "e_msg (wrapf p e) = p @ '': '' @ e_msg e" "e_ctx (wrapf p e) = e_ctx e"
  by (simp_all add: wrapf_def)

lemma errorf_simps [simp]: "e_msg (errorf m) = m" "e_ctx (errorf m) = False"
  by (simp_all add: errorf_def)

section \<open>The address of a search page\<close>

definition mercariBaseURL :: string where
  "mercariBaseURL = ''https://jp.mercari.com/search''"

definition keyword_values :: "string \<Rightarrow> (string \<times> string) list" where
  "keyword_values keyword = Values_Set ''order'' ''desc'' (Values_Set ''sort'' ''created_time''
     (if keyword \<noteq> '''' then Values_Set ''keyword'' keyword [] else []))"

definition page_suffix :: "int \<Rightarrow> string" where
  "page_suffix page = (if page > 0 then ''&page_token=v1:'' @ FormatInt page else '''')"

definition BuildMercariURLWithPage :: "CrawlRequest \<Rightarrow> int \<Rightarrow> string" where
  "BuildMercariURLWithPage req page = (let values = keyword_values (req_Keyword req);
     qs = ReplaceAll (Values_Encode values) ''+'' ''%20''
     in mercariBaseURL @ ''?'' @ qs @ page_suffix page)"

definition BuildMercariURL :: "CrawlRequest \<Rightarrow> string" where
  "BuildMercariURL req = BuildMercariURLWithPage req 0"

definition StatusToURLParam :: "ItemStatus \<Rightarrow> string" where
  "StatusToURLParam status = (case status of ITEM_STATUS_SOLD \<Rightarrow> ''sold_out|trading'' | _ \<Rightarrow> ''on_sale'')"

definition URLParamToStatus :: "string \<Rightarrow> ItemStatus" where
  "URLParamToStatus param = (if Contains param ''sold_out'' \<or> Contains param ''trading''
     then ITEM_STATUS_SOLD else ITEM_STATUS_ON_SALE)"

definition BuildMercariURLWithStatus :: "string \<Rightarrow> ItemStatus \<Rightarrow> int \<Rightarrow> string" where
  "BuildMercariURLWithStatus keyword status page =
     (let values = Values_Set ''status'' (StatusToURLParam status) (keyword_values keyword);
          qs = ReplaceAll (Values_Encode values) ''+'' ''%20''
      in mercariBaseURL @ ''?'' @ qs @ page_suffix page)"

section \<open>An item of a page\<close>

record 'e dom =
  Element :: "'e \<Rightarrow> string \<Rightarrow> 'e option"
  ElText :: "'e \<Rightarrow> string option"
  Attribute :: "'e \<Rightarrow> string \<Rightarrow> string option"

datatype parse_error = EmptyPrice | NoDigits | NoValidDigits | PriceElementNotFound | LinkError | PriceError parse_error

definition yen_half :: string where "yen_half = utf8 [0xA5]"
definition yen_full :: string where "yen_full = utf8 [0xFFE5]"

text \<open>\<open>priceWithCurrencyRe\<close>: a currency sign, blanks, then a digit and the longest run of digits and commas; the first match.\<close>

definition re_space :: "char \<Rightarrow> bool" where
  "re_space c = (c \<in> {CHR 0x09, CHR 0x0A, CHR 0x0C, CHR 0x0D, CHR 0x20})"

definition price_char :: "char \<Rightarrow> bool" where
  "price_char c = (is_digit c \<or> c = CHR '','')"

definition strip_currency :: "string \<Rightarrow> string option" where
  "strip_currency s = (if is_prefix yen_half s then Some (drop (length yen_half) s)
     else if is_prefix yen_full s then Some (drop (length yen_full) s) else None)"

definition match_here :: "string \<Rightarrow> string option" where
  "match_here s = (case strip_currency s of None \<Rightarrow> None | Some r \<Rightarrow>
     (case dropWhile re_space r of [] \<Rightarrow> None
      | c # r' \<Rightarrow> if is_digit c then Some (takeWhile price_char (c # r')) else None))"

fun price_match :: "string \<Rightarrow> string option" where
  "price_match [] = None"
| "price_match (c # s) = (case match_here (c # s) of Some m \<Rightarrow> Some m | None \<Rightarrow> price_match s)"

text \<open>\<open>priceRe.FindAllString\<close>: the maximal runs of digits.\<close>

function digit_runs :: "string \<Rightarrow> string list" where
  "digit_runs s = (case dropWhile (\<lambda>c. \<not> is_digit c) s of [] \<Rightarrow> []
     | c # r \<Rightarrow> takeWhile is_digit (c # r) # digit_runs (dropWhile is_digit (c # r)))"
  by pat_completeness auto
termination
proof (relation "measure length", goal_cases)
  case (2 s c r)
  have "is_digit c" using 2 hd_dropWhile [of "\<lambda>c. \<not> is_digit c" s] by simp
  then have "length (dropWhile is_digit (c # r)) < length (c # r)" by (simp add: le_imp_less_Suc length_dropWhile_le)
  also have "\<dots> \<le> length s" using 2 length_dropWhile_le [of "\<lambda>c. \<not> is_digit c" s] by simp
  finally show ?case by simp
qed simp

declare digit_runs.simps [simp del]

text \<open>The loop over the runs: the longest, among equals the largest; \<open>None\<close> while none was found.\<close>

fun best_run :: "string list \<Rightarrow> (int \<times> nat) option \<Rightarrow> (int \<times> nat) option" where
  "best_run [] b = b"
| "best_run (m # ms) b = (case ParseInt 64 m of (val, bad) \<Rightarrow>
     if bad then best_run ms b
     else best_run ms (case b of None \<Rightarrow> Some (val, length m)
       | Some (bestVal, bestLen) \<Rightarrow> if length m > bestLen \<or> (length m = bestLen \<and> val > bestVal)
           then Some (val, length m) else b))"

text \<open>\<open>TrimSpace\<close> only matters for the test of emptiness: white space holds no digit.\<close>

definition parse_plain :: "string \<Rightarrow> parse_error + int" where
  "parse_plain txt = (let cleaned = ReplaceAll (ReplaceAll (ReplaceAll txt yen_half '''') yen_full '''') '','' '''';
       matches = digit_runs cleaned
     in if blank_text cleaned then Inl EmptyPrice
        else if matches = [] then Inl NoDigits
        else (case best_run matches None of None \<Rightarrow> Inl NoValidDigits | Some (v, _) \<Rightarrow> Inr v))"

definition parsePrice :: "string \<Rightarrow> parse_error + int" where
  "parsePrice txt = (case price_match txt of
     Some m \<Rightarrow> (case ParseInt 64 (ReplaceAll m '','' '''') of (val, bad) \<Rightarrow> if bad then parse_plain txt else Inr val)
   | None \<Rightarrow> parse_plain txt)"

definition price_selectors :: "string list" where
  \<open>price_selectors = [''.merPrice'', ''span[class^='merPrice']'', ''[data-testid='price']'']\<close>

definition number_selector :: string where
  \<open>number_selector = ''span[class^='number']''\<close>

definition price_text :: "string option \<Rightarrow> int option" where
  "price_text t = (case t of None \<Rightarrow> None | Some txt \<Rightarrow> if txt = '''' then None
     else (case parsePrice txt of Inl _ \<Rightarrow> None | Inr v \<Rightarrow> Some v))"

fun extract_price :: "'e dom \<Rightarrow> 'e \<Rightarrow> string list \<Rightarrow> parse_error + int" where
  "extract_price D el [] = Inl PriceElementNotFound"
| "extract_price D el (sel # sels) = (case Element D el sel of None \<Rightarrow> extract_price D el sels
   | Some container \<Rightarrow>
       (case (case Element D container number_selector of None \<Rightarrow> None | Some numEl \<Rightarrow> price_text (ElText D numEl)) of
          Some v \<Rightarrow> Inr v
        | None \<Rightarrow> (case price_text (ElText D container) of Some v \<Rightarrow> Inr v | None \<Rightarrow> extract_price D el sels)))"

definition extractPriceHelper :: "'e dom \<Rightarrow> 'e \<Rightarrow> parse_error + int" where
  "extractPriceHelper D el = extract_price D el price_selectors"

definition normalizeMercariURL :: "string \<Rightarrow> string" where
  "normalizeMercariURL u = (if u = '''' then u
     else if HasPrefix u ''http://'' \<or> HasPrefix u ''https://'' then u
     else if HasPrefix u ''//'' then ''https:'' @ u
     else if HasPrefix u ''/'' then ''https://jp.mercari.com'' @ u
     else ''https://jp.mercari.com'' @ u)"

definition item_id :: "string \<Rightarrow> string" where
  "item_id itemURL = (if itemURL = '''' then ''''
     else if Contains itemURL ''/item/'' then
       (let possibleID = last (split_at (CHR ''/'') itemURL) in if HasPrefix possibleID ''m'' then possibleID else '''')
     else if Contains itemURL ''/shops/product/'' then ''shops_'' @ last (split_at (CHR ''/'') itemURL)
     else '''')"

definition name_selector :: string where
  \<open>name_selector = ''[data-testid="thumbnail-item-name"]''\<close>

definition sticker_selector :: string where
  \<open>sticker_selector = ''[data-testid="thumbnail-sticker"]''\<close>

definition thumbnail_suffix :: string where "thumbnail_suffix = utf8 [0x306E, 0x30B5, 0x30E0, 0x30CD, 0x30A4, 0x30EB]"
definition sold_label :: string where "sold_label = utf8 [0x58F2, 0x308A, 0x5207, 0x308C]"

definition item_title :: "'e dom \<Rightarrow> 'e \<Rightarrow> string" where
  "item_title D el = (case Element D el name_selector of
     Some titleEl \<Rightarrow> (case ElText D titleEl of None \<Rightarrow> '''' | Some t \<Rightarrow> t)
   | None \<Rightarrow> (case Element D el ''img'' of None \<Rightarrow> '''' | Some img \<Rightarrow>
       (case Attribute D img ''alt'' of None \<Rightarrow> '''' | Some alt \<Rightarrow> TrimSuffix alt thumbnail_suffix)))"

definition image_url :: "'e dom \<Rightarrow> 'e \<Rightarrow> string \<Rightarrow> string" where
  "image_url D el iid = (if iid \<noteq> '''' \<and> HasPrefix iid ''m''
     then ''https://static.mercdn.net/thumb/item/webp/'' @ iid @ ''_1.jpg''
     else (case Element D el ''img'' of None \<Rightarrow> '''' | Some img \<Rightarrow>
       (case Attribute D img ''src'' of None \<Rightarrow> '''' | Some src \<Rightarrow> src)))"

definition sticker_status :: "'e dom \<Rightarrow> 'e \<Rightarrow> ItemStatus" where
  "sticker_status D el = (case Element D el sticker_selector of None \<Rightarrow> ITEM_STATUS_ON_SALE | Some sticker \<Rightarrow>
     (case Attribute D sticker ''aria-label'' of None \<Rightarrow> ITEM_STATUS_ON_SALE | Some label \<Rightarrow>
        if Contains label sold_label then ITEM_STATUS_SOLD else ITEM_STATUS_ON_SALE))"

definition extractItem :: "'e dom \<Rightarrow> 'e \<Rightarrow> parse_error + Item" where
  "extractItem D el = (case Element D el ''a'' of None \<Rightarrow> Inl LinkError | Some link \<Rightarrow>
     (let itemURL = (case Attribute D link ''href'' of None \<Rightarrow> '''' | Some h \<Rightarrow> h);
          iid = item_id itemURL
      in (case extractPriceHelper D el of Inl e \<Rightarrow> Inl (PriceError e) | Inr priceVal \<Rightarrow>
        Inr \<lparr>it_SourceId = iid, it_Title = item_title D el, it_Price = word_of_int priceVal,
          it_ImageUrl = image_url D el iid, it_ItemUrl = normalizeMercariURL itemURL, it_Status = sticker_status D el\<rparr>)))"

section \<open>Texts of blocked and empty pages\<close>

definition noItemsHints :: "string list" where
  \<open>noItemsHints = [
    utf8 [0x51FA, 0x54C1, 0x3055, 0x308C, 0x305F, 0x5546, 0x54C1, 0x304C, 0x3042, 0x308A, 0x307E, 0x305B, 0x3093],
    utf8 [0x8A72, 0x5F53, 0x3059, 0x308B, 0x5546, 0x54C1, 0x306F, 0x3042, 0x308A, 0x307E, 0x305B, 0x3093],
    utf8 [0x691C, 0x7D22, 0x7D50, 0x679C, 0x306F, 0x3042, 0x308A, 0x307E, 0x305B, 0x3093],
    utf8 [0x5546, 0x54C1, 0x304C, 0x898B, 0x3064, 0x304B, 0x308A, 0x307E, 0x305B, 0x3093],
    utf8 [0x898B, 0x3064, 0x304B, 0x308A, 0x307E, 0x305B, 0x3093, 0x3067, 0x3057, 0x305F],
    utf8 [0x691C, 0x7D22, 0x7D50, 0x679C, 0x304C, 0x3042, 0x308A, 0x307E, 0x305B, 0x3093]]\<close>

definition blockedHints :: "string list" where
  \<open>blockedHints = [
    ''cloudflare'', ''attention required'', ''verify you are human'', ''access denied'', ''temporarily unavailable'',
    ''just a moment'', ''checking your browser'', ''challenge-platform'', ''cf-browser-verification'', ''recaptcha'',
    ''hcaptcha'', ''captcha'', ''403 forbidden'', ''429 too many requests'', ''blocked'', ''rate limited'',
    ''too many requests'', ''err_connection'', ''err_proxy'', ''proxy error'']\<close>

definition blockedTitles :: "string list" where
  \<open>blockedTitles = [
    ''just a moment'', ''attention required'', ''access denied'', ''403 forbidden'', ''429 too many'', ''blocked'',
    ''cloudflare'']\<close>

definition cloudflareIndicators :: "string list" where
  \<open>cloudflareIndicators = [
    ''just a moment'', ''cloudflare'', ''cf-browser-verification'', ''challenge-platform'',
    ''challenges.cloudflare.com'', ''id="challenge-form"'', ''id="challenge-running"'', ''id="challenge-stage"'',
    ''turnstile'', ''cf-turnstile'', ''ray id:'', ''please wait'',
    utf8 [0x3057, 0x3070, 0x3089, 0x304F, 0x304A, 0x5F85, 0x3061, 0x304F, 0x3060, 0x3055, 0x3044],
    utf8 [0x30D6, 0x30E9, 0x30A6, 0x30B6, 0x3092, 0x78BA, 0x8A8D, 0x3057, 0x3066, 0x3044, 0x307E, 0x3059]]\<close>

definition captchaIndicators :: "string list" where
  \<open>captchaIndicators = [
    ''captcha'', ''recaptcha'', ''hcaptcha'', ''verify you are human'',
    utf8 [0x79C1, 0x306F, 0x30ED, 0x30DC, 0x30C3, 0x30C8, 0x3067, 0x306F, 0x3042, 0x308A, 0x307E, 0x305B, 0x3093],
    utf8 [0x8A8D, 0x8A3C, 0x304C, 0x5FC5, 0x8981, 0x3067, 0x3059], utf8 [0x30ED, 0x30DC, 0x30C3, 0x30C8]]\<close>

definition forbidden403Indicators :: "string list" where
  \<open>forbidden403Indicators = [
    ''403'', ''forbidden'', ''access denied'',
    utf8 [0x30A2, 0x30AF, 0x30BB, 0x30B9, 0x304C, 0x62D2, 0x5426, 0x3055, 0x308C, 0x307E, 0x3057, 0x305F],
    utf8 [0x30A2, 0x30AF, 0x30BB, 0x30B9, 0x3067, 0x304D, 0x307E, 0x305B, 0x3093],
    utf8 [0x3053, 0x306E, 0x30DA, 0x30FC, 0x30B8, 0x306B, 0x30A2, 0x30AF, 0x30BB, 0x30B9, 0x3059, 0x308B, 0x6A29, 0x9650],
    utf8 [0x304A, 0x63A2, 0x3057, 0x306E, 0x30DA, 0x30FC, 0x30B8, 0x306F],
    utf8 [0x30A8, 0x30E9, 0x30FC, 0x304C, 0x767A, 0x751F, 0x3057, 0x307E, 0x3057, 0x305F],
    utf8 [0x30B5, 0x30FC, 0x30D0, 0x30FC, 0x30A8, 0x30E9, 0x30FC],
    utf8 [0x30EA, 0x30AF, 0x30A8, 0x30B9, 0x30C8, 0x3092, 0x51E6, 0x7406, 0x3067, 0x304D, 0x307E, 0x305B, 0x3093],
    utf8 [0x4E0D, 0x6B63, 0x306A, 0x30A2, 0x30AF, 0x30BB, 0x30B9], ''blocked'', ''denied'']\<close>

definition rateLimitIndicators :: "string list" where
  \<open>rateLimitIndicators = [
    ''429'', ''too many requests'', ''rate limit'',
    utf8 [0x30EA, 0x30AF, 0x30A8, 0x30B9, 0x30C8, 0x304C, 0x591A, 0x3059, 0x304E, 0x307E, 0x3059],
    utf8 [0x3057, 0x3070, 0x3089, 0x304F, 0x6642, 0x9593, 0x3092, 0x304A, 0x3044, 0x3066, 0x304B, 0x3089],
    utf8 [0x30A2, 0x30AF, 0x30BB, 0x30B9, 0x304C, 0x96C6, 0x4E2D, 0x3057, 0x3066, 0x3044, 0x307E, 0x3059],
    utf8 [0x6DF7, 0x307F, 0x5408, 0x3063, 0x3066, 0x3044, 0x307E, 0x3059],
    utf8 [0x6642, 0x9593, 0x3092, 0x304A, 0x3044, 0x3066, 0x518D, 0x5EA6, 0x30A2, 0x30AF, 0x30BB, 0x30B9],
    ''temporarily unavailable'', ''service unavailable'']\<close>

definition mercariErrorIndicators :: "string list" where
  \<open>mercariErrorIndicators = [
    ''mererrorpage'', ''error-page'', ''page-not-found'', ''something went wrong'',
    utf8 [0x554F, 0x984C, 0x304C, 0x767A, 0x751F, 0x3057, 0x307E, 0x3057, 0x305F],
    utf8 [0x30DA, 0x30FC, 0x30B8, 0x304C, 0x898B, 0x3064, 0x304B, 0x308A, 0x307E, 0x305B, 0x3093],
    utf8 [0x30E1, 0x30F3, 0x30C6, 0x30CA, 0x30F3, 0x30B9, 0x4E2D],
    utf8 [0x30B5, 0x30FC, 0x30D3, 0x30B9, 0x3092, 0x4E00, 0x6642, 0x505C, 0x6B62]]\<close>

definition connectionErrorIndicators :: "string list" where
  \<open>connectionErrorIndicators = [
    ''err_connection'', ''err_proxy'', ''err_tunnel'', ''err_name_not_resolved'', ''err_internet_disconnected'',
    ''err_ssl'', ''err_cert'', ''proxy error'', ''connection refused'', ''connection reset'', ''connection timed out'',
    utf8 [0x30CD, 0x30C3, 0x30C8, 0x30EF, 0x30FC, 0x30AF, 0x30A8, 0x30E9, 0x30FC],
    utf8 [0x63A5, 0x7D9A, 0x3067, 0x304D, 0x307E, 0x305B, 0x3093]]\<close>

text \<open>The loops over the keywords, on one text or on two.\<close>

fun containsAny :: "string \<Rightarrow> string list \<Rightarrow> bool" where
  "containsAny txt [] = False"
| "containsAny txt (kw # kws) = (Contains txt kw \<or> containsAny txt kws)"

fun contains_either :: "string \<Rightarrow> string \<Rightarrow> string list \<Rightarrow> bool" where
  "contains_either a b [] = False"
| "contains_either a b (kw # kws) = (Contains a kw \<or> Contains b kw \<or> contains_either a b kws)"

definition empty_html :: string where
  "empty_html = ''<html><head></head><body></body></html>''"

definition minimal_page :: "string \<Rightarrow> string \<Rightarrow> bool" where
  "minimal_page html lowerHTML = (length html > 0 \<and> length html < 200 \<and>
     \<not> (Contains lowerHTML ''<body'' \<or> Contains lowerHTML ''meremptystate'' \<or> Contains lowerHTML ''item-cell''
        \<or> Contains lowerHTML ''search''))"

definition detectBlockType :: "string \<Rightarrow> string \<Rightarrow> string" where
  "detectBlockType title html = (let lowerTitle = ToLower title; lowerHTML = ToLower html in
     if contains_either lowerHTML lowerTitle cloudflareIndicators then ''cloudflare_challenge''
     else if Contains lowerHTML ''iframe'' \<and> Contains lowerHTML ''cloudflare'' then ''cloudflare_challenge''
     else if containsAny lowerHTML captchaIndicators then ''captcha''
     else if contains_either lowerHTML lowerTitle forbidden403Indicators then ''403_forbidden''
     else if contains_either lowerHTML lowerTitle rateLimitIndicators then ''429_rate_limited''
     else if contains_either lowerHTML lowerTitle mercariErrorIndicators then ''mercari_error_page''
     else if title = '''' \<or> title = ''about:blank'' then
       (if length html < 100 \<or> Contains html empty_html then ''blank_page'' else ''empty_title'')
     else if containsAny lowerHTML connectionErrorIndicators then ''connection_error''
     else if minimal_page html lowerHTML then ''suspicious_minimal_page''
     else ''unknown'')"

section \<open>Classes of errors\<close>

datatype crawlErrorType = errTypeUnknown | errTypeTimeout | errTypeBlocked | errTypeNetwork | errTypeParseError

definition blockedKeywords :: "string list" where
  \<open>blockedKeywords = [
    ''blocked_page'', ''cloudflare'', ''attention required'', ''access denied'', ''403'', ''429'', ''forbidden'',
    ''too many requests'']\<close>

definition networkKeywords :: "string list" where
  \<open>networkKeywords = [
    ''net::'', ''connection'', ''navigate'']\<close>

definition classifyError :: "err option \<Rightarrow> crawlErrorType" where
  "classifyError e = (case e of None \<Rightarrow> errTypeUnknown | Some x \<Rightarrow>
     if e_ctx x then errTypeTimeout
     else (let msg = ToLower (e_msg x) in
       if containsAny msg blockedKeywords then errTypeBlocked
       else if Contains msg ''timeout'' \<or> Contains msg ''deadline exceeded'' then errTypeTimeout
       else if containsAny msg networkKeywords then errTypeNetwork
       else if Contains msg ''parse'' \<or> Contains msg ''extract'' then errTypeParseError
       else errTypeUnknown))"

definition shouldActivateProxy :: "err option \<Rightarrow> bool" where
  "shouldActivateProxy e = (case e of None \<Rightarrow> False
     | Some _ \<Rightarrow> classifyError e \<in> {errTypeBlocked, errTypeTimeout, errTypeNetwork})"

definition classifyCrawlerError :: "err option \<Rightarrow> string" where
  "classifyCrawlerError e = (case classifyError e of errTypeTimeout \<Rightarrow> ''timeout'' | errTypeNetwork \<Rightarrow> ''network_error''
     | errTypeParseError \<Rightarrow> ''parse_error'' | errTypeBlocked \<Rightarrow> ''blocked'' | errTypeUnknown \<Rightarrow> ''unknown'')"

definition classifyCrawlStatus :: "err option \<Rightarrow> string" where
  "classifyCrawlStatus e = (case e of None \<Rightarrow> ''success''
     | Some _ \<Rightarrow> if classifyError e = errTypeBlocked then ''403_forbidden'' else ''error'')"

section \<open>The query of an address is read back\<close>

text \<open>The pairs of the query in the order of their keys.\<close>

definition search_pairs :: "string \<Rightarrow> string list \<Rightarrow> (string \<times> string) list" where
  "search_pairs keyword st = (if keyword = '''' then [] else [(''keyword'', keyword)]) @
     [(''order'', ''desc''), (''sort'', ''created_time'')] @ map (\<lambda>s. (''status'', s)) st"

definition token_pairs :: "int \<Rightarrow> (string \<times> string) list" where
  "token_pairs page = (if page > 0 then [(''page_token'', ''v1:'' @ FormatInt page)] else [])"

lemma key_order:
  "''keyword'' \<le> ''order''" "''keyword'' \<le> ''sort''" "''keyword'' \<le> ''status''" "''order'' \<le> ''sort''"
  "''order'' \<le> ''status''" "''sort'' \<le> ''status''" "\<not> ''sort'' \<le> ''order''" "\<not> ''order'' \<le> ''keyword''"
  "\<not> ''sort'' \<le> ''keyword''" "\<not> ''status'' \<le> ''keyword''" "\<not> ''status'' \<le> ''order''" "\<not> ''status'' \<le> ''sort''"
  by code_simp+

lemma sorted_keyword_values: "sort_key fst (keyword_values kw) = search_pairs kw []"
  by (simp add: keyword_values_def search_pairs_def Values_Set_def key_order)

lemma sorted_status_values:
  "sort_key fst (Values_Set ''status'' st (keyword_values kw)) = search_pairs kw [st]"
  by (simp add: keyword_values_def search_pairs_def Values_Set_def key_order)

lemma keyword_values_nonempty [simp]: "keyword_values kw \<noteq> []" "Values_Set k v vs \<noteq> []"
  by (simp_all add: keyword_values_def Values_Set_def)

lemma unescape_plain: "CHR ''%'' \<notin> set s \<Longrightarrow> CHR ''+'' \<notin> set s \<Longrightarrow> unescape s = s"
  by (induction s rule: unescape.induct) auto

lemma FormatNat_no: "\<not> is_digit c \<Longrightarrow> c \<notin> set (FormatNat n)"
  using FormatNat_digits [of n] by (auto simp: list_all_iff)

lemma read_token:
  assumes "0 < page"
  shows "read_query (''page_token=v1:'' @ FormatInt page) = [(''page_token'', ''v1:'' @ FormatInt page)]"
proof -
  have no: "c \<notin> set (FormatInt page)" if "\<not> is_digit c" for c
    using assms FormatNat_no [OF that] by (simp add: FormatInt_def)
  have "unescape (''v1:'' @ FormatInt page) = ''v1:'' @ FormatInt page"
    by (rule unescape_plain) (use no in \<open>auto simp: is_digit_def\<close>)
  moreover have "split_at CHR ''&'' (''page_token=v1:'' @ FormatInt page) = [''page_token=v1:'' @ FormatInt page]"
    by (rule split_at_none) (use no in \<open>auto simp: is_digit_def\<close>)
  moreover have "unescape ''page_token'' = ''page_token''" by code_simp
  ultimately show ?thesis by (simp add: read_query_def read_pair_def)
qed

lemma read_query_append: "read_query (a @ CHR ''&'' # b) = read_query a @ read_query b"
  by (simp add: read_query_def split_at_append2)

lemma read_with_token:
  "vs \<noteq> [] \<Longrightarrow> read_query (ReplaceAll (Values_Encode vs) ''+'' ''%20'' @ page_suffix page) = sort_key fst vs @ token_pairs page"
  using read_token [of page] read_encoded [of vs]
  by (simp add: page_suffix_def token_pairs_def read_query_append)

definition query_of :: "string \<Rightarrow> string" where
  "query_of url = drop 1 (dropWhile (\<lambda>c. c \<noteq> CHR ''?'') url)"

lemma query_of_base: "query_of (mercariBaseURL @ CHR ''?'' # q) = q"
  by (simp add: query_of_def mercariBaseURL_def)

section \<open>Prices are read back\<close>

text \<open>An amount with a comma before every three digits from the right, as the pages show it.\<close>

definition pad3 :: "nat \<Rightarrow> string" where
  "pad3 n = [digit_char (n div 100 mod 10), digit_char (n div 10 mod 10), digit_char (n mod 10)]"

fun commas :: "nat \<Rightarrow> string" where
  "commas n = (if n < 1000 then FormatNat n else commas (n div 1000) @ '','' @ pad3 (n mod 1000))"

declare commas.simps [simp del]

lemma digits_val_append: "digits_val (a @ b) = digits_val a * 10 ^ length b + digits_val b"
proof (induction b rule: rev_induct)
  case (snoc c b)
  have "digits_val (a @ b @ [c]) = 10 * digits_val (a @ b) + digit_val c"
    using digits_val_snoc [of "a @ b" c] by simp
  then show ?case using snoc by (simp add: algebra_simps)
qed simp

lemma pad3_facts: "n < 1000 \<Longrightarrow> digits_val (pad3 n) = n" "list_all is_digit (pad3 n)" "length (pad3 n) = 3"
proof -
  assume n: "n < 1000"
  have "digits_val (pad3 n) = 100 * (n div 100 mod 10) + 10 * (n div 10 mod 10) + n mod 10"
    by (simp add: pad3_def digits_val_def)
  also have "\<dots> = n"
  proof -
    define a where "a = n div 10"
    define b where "b = a div 10"
    have "n div 100 = n div 10 div 10" by (simp add: div_mult2_eq [symmetric])
    then have b: "n div 100 = b" by (simp add: a_def b_def)
    have "n = 10 * a + n mod 10" "a = 10 * b + a mod 10" by (simp_all add: a_def b_def)
    moreover have "b < 10" using n b by linarith
    ultimately show ?thesis unfolding b a_def [symmetric] by simp
  qed
  finally show "digits_val (pad3 n) = n" .
qed (simp_all add: pad3_def)

lemma filter_digits: "list_all is_digit s \<Longrightarrow> filter is_digit s = s"
  by (simp add: list_all_iff)

lemma not_is_digit_comma [simp]: "\<not> is_digit CHR '',''"
  by (simp add: is_digit_def)

lemma commas_digits: "digits_val (filter is_digit (commas n)) = n"
proof (induction n rule: commas.induct)
  case (1 n)
  show ?case
  proof (cases "n < 1000")
    case True
    then show ?thesis by (subst commas.simps) (simp add: filter_digits)
  next
    case False
    then have "filter is_digit (commas n) = filter is_digit (commas (n div 1000)) @ pad3 (n mod 1000)"
      by (subst commas.simps) (simp add: filter_digits pad3_facts)
    then show ?thesis using 1 False by (simp add: digits_val_append pad3_facts)
  qed
qed

lemma commas_chars: "list_all price_char (commas n)"
proof (induction n rule: commas.induct)
  case (1 n)
  have d: "list_all price_char s" if "list_all is_digit s" for s
    using that by (auto simp: list_all_iff price_char_def)
  have "price_char CHR '',''" by (simp add: price_char_def)
  then show ?case using 1 by (subst commas.simps) (auto simp: d pad3_facts)
qed

lemma commas_hd: "\<exists>c r. commas n = c # r \<and> is_digit c"
proof (induction n rule: commas.induct)
  case (1 n)
  show ?case
  proof (cases "n < 1000")
    case True
    then have "commas n = FormatNat n" by (simp add: commas.simps)
    then show ?thesis using FormatNat_digits [of n] FormatNat_nonempty [of n] by (cases "FormatNat n") auto
  next
    case False
    then have "commas n = commas (n div 1000) @ '','' @ pad3 (n mod 1000)" by (simp add: commas.simps)
    then show ?thesis using 1 False by auto
  qed
qed

lemma currency_bytes: "yen_half = [CHR 0xC2, CHR 0xA5]" "yen_full = [CHR 0xEF, CHR 0xBF, CHR 0xA5]"
  by (simp_all add: yen_half_def yen_full_def utf8_def utf8_char_def char_of_def)

lemma strip_currency_sign: "sign \<in> {yen_half, yen_full} \<Longrightarrow> strip_currency (sign @ r) = Some r"
  by (auto simp: strip_currency_def currency_bytes)

lemma price_match_skip:
  "CHR 0xC2 \<notin> set pre \<Longrightarrow> CHR 0xEF \<notin> set pre \<Longrightarrow> price_match (pre @ s) = price_match s"
  by (induction pre) (auto simp: match_here_def strip_currency_def currency_bytes)

lemma price_match_sign:
  assumes "sign \<in> {yen_half, yen_full}" "list_all re_space sp" "is_digit c" "list_all price_char r"
    and "rest = [] \<or> \<not> price_char (hd rest)"
  shows "price_match (sign @ sp @ (c # r) @ rest) = Some (c # r)"
proof -
  have "re_space c = False" using assms(3) by (auto simp: re_space_def is_digit_def)
  then have d: "dropWhile re_space (sp @ (c # r) @ rest) = c # r @ rest"
    using assms(2) by (simp add: dropWhile_append2 list_all_iff)
  have "price_char c" using assms(3) by (simp add: price_char_def)
  moreover have "takeWhile price_char (r @ rest) = r"
    using assms(4,5) by (cases rest) (auto simp: list_all_iff takeWhile_append)
  ultimately have m: "match_here (sign @ sp @ (c # r) @ rest) = Some (c # r)"
    using d assms(3) by (simp add: match_here_def strip_currency_sign [OF assms(1)] del: append_Cons)
  obtain x xs where "sign @ sp @ (c # r) @ rest = x # xs" using assms(1) by (auto simp: currency_bytes)
  then show ?thesis using m by simp
qed

lemma drop_commas: "list_all price_char s \<Longrightarrow> ReplaceAll s '','' '''' = filter is_digit s"
  by (induction s) (auto simp: ReplaceAll_char price_char_def)

lemma ParseInt_digits:
  assumes "s \<noteq> []" "list_all is_digit s" "digits_val s < 2 ^ 63"
  shows "ParseInt 64 s = (int (digits_val s), False)"
proof -
  have "int (digits_val s) < 2 ^ 63" using assms(3) by (metis of_nat_less_iff of_nat_numeral of_nat_power)
  then show ?thesis using assms(1,2) by (simp add: ParseInt_def split_sign_digits Let_def)
qed

text \<open>What \<open>ParseInt\<close> accepts of a text of digits is in range.\<close>

lemma ParseInt_range: "list_all is_digit s \<Longrightarrow> ParseInt 64 s = (v, False) \<Longrightarrow> 0 \<le> v \<and> v < 2 ^ 63"
  by (auto simp: ParseInt_def split_sign_digits Let_def split: if_splits)

lemma digit_runs_digits: "m \<in> set (digit_runs s) \<Longrightarrow> list_all is_digit m"
proof (induction s rule: digit_runs.induct)
  case (1 s)
  show ?case
  proof (cases "dropWhile (\<lambda>c. \<not> is_digit c) s")
    case Nil
    then have "digit_runs s = []" by (subst digit_runs.simps) (simp only: list.case)
    then show ?thesis using 1(2) by simp
  next
    case (Cons c r)
    have "digit_runs s = takeWhile is_digit (c # r) # digit_runs (dropWhile is_digit (c # r))"
      using Cons by (subst digit_runs.simps) (simp only: list.case)
    then consider "m = takeWhile is_digit (c # r)" | "m \<in> set (digit_runs (dropWhile is_digit (c # r)))"
      using 1(2) by auto
    then show ?thesis
    proof cases
      case 1
      then show ?thesis by (auto simp: list_all_iff dest: set_takeWhileD)
    next
      case 2
      then show ?thesis using 1(1) Cons by blast
    qed
  qed
qed

lemma best_run_range:
  "\<forall>m \<in> set ms. list_all is_digit m \<Longrightarrow> (case b of None \<Rightarrow> True | Some (v, _) \<Rightarrow> 0 \<le> v \<and> v < 2 ^ 63) \<Longrightarrow>
   best_run ms b = Some (v, n) \<Longrightarrow> 0 \<le> v \<and> v < 2 ^ 63"
proof (induction ms b rule: best_run.induct)
  case (2 m ms b)
  obtain val bad where p: "ParseInt 64 m = (val, bad)" by fastforce
  have r: "\<not> bad \<Longrightarrow> 0 \<le> val \<and> val < 2 ^ 63" using ParseInt_range [of m val] 2(3) p by auto
  show ?case
  proof (cases bad)
    case True
    then show ?thesis using 2 p by simp
  next
    case False
    show ?thesis by (rule 2(2) [OF p [symmetric] False]) (use 2(3-5) False p r in \<open>auto split: option.splits\<close>)
  qed
qed simp

lemma match_here_chars: "match_here s = Some m \<Longrightarrow> list_all price_char m"
  by (auto simp: match_here_def list_all_iff dest: set_takeWhileD split: option.splits list.splits if_splits)

lemma price_match_chars: "price_match s = Some m \<Longrightarrow> list_all price_char m"
  by (induction s) (auto dest: match_here_chars split: option.splits)

section \<open>Properties\<close>

text \<open>
  (C26) A server that reads the query of a search address finds the keyword byte for byte, the fixed order, the status
  filter and, from the second page on, the page token; nothing else.
\<close>

theorem search_url_roundtrip:
  "read_query (query_of (BuildMercariURLWithStatus keyword status page)) =
     search_pairs keyword [StatusToURLParam status] @ token_pairs page
   \<and> read_query (query_of (BuildMercariURLWithPage req page)) = search_pairs (req_Keyword req) [] @ token_pairs page"
  by (simp add: BuildMercariURLWithStatus_def BuildMercariURLWithPage_def Let_def query_of_base read_with_token
      sorted_keyword_values sorted_status_values)

text \<open>(C27) The price of an item is read back from the text a page shows for it: any words before, a currency sign, blanks,
  the amount with its commas, and any text after that does not go on with a digit or a comma.\<close>

theorem parsePrice_roundtrip:
  assumes "CHR 0xC2 \<notin> set pre" "CHR 0xEF \<notin> set pre" "sign \<in> {yen_half, yen_full}" "list_all re_space sp"
    and "rest = [] \<or> \<not> price_char (hd rest)" and "n < 2 ^ 63"
  shows "parsePrice (pre @ sign @ sp @ commas n @ rest) = Inr (int n)"
proof -
  obtain c r where cr: "commas n = c # r" "is_digit c" using commas_hd by blast
  have ch: "list_all price_char (commas n)" by (rule commas_chars)
  have "price_match (pre @ sign @ sp @ commas n @ rest) = Some (commas n)"
    using price_match_sign [OF assms(3,4) cr(2) _ assms(5), of r] ch price_match_skip [OF assms(1,2)] cr(1) by simp
  moreover have "ParseInt 64 (filter is_digit (commas n)) = (int n, False)"
  proof -
    have "filter is_digit (commas n) \<noteq> []" "list_all is_digit (filter is_digit (commas n))"
      using cr by (simp_all add: list_all_iff)
    then show ?thesis using ParseInt_digits assms(6) commas_digits by metis
  qed
  ultimately show ?thesis by (simp add: parsePrice_def drop_commas [OF ch])
qed

theorem parsePrice_roundtrip_witness:
  "parsePrice (''now '' @ yen_half @ '' '' @ commas 1299800 @ ''-'') = Inr (int 1299800) \<and> commas 1299800 = ''1,299,800''"
proof
  show "parsePrice (''now '' @ yen_half @ '' '' @ commas 1299800 @ ''-'') = Inr (int 1299800)"
    by (rule parsePrice_roundtrip) (simp_all add: re_space_def price_char_def is_digit_def)
  show "commas 1299800 = ''1,299,800''"
    by (simp add: commas.simps FormatNat.simps pad3_def digit_char_def char_of_def bit_0)
qed

text \<open>Whatever the text, a price that is read is a non-negative \<open>int64\<close>.\<close>

theorem parsePrice_bounds:
  assumes "parsePrice txt = Inr v"
  shows "0 \<le> v \<and> v < 2 ^ 63"
proof -
  have plain: "0 \<le> v \<and> v < 2 ^ 63" if "parse_plain txt = Inr v"
    using that best_run_range [of "digit_runs (ReplaceAll (ReplaceAll (ReplaceAll txt yen_half '''') yen_full '''') '','' '''')" None v]
      digit_runs_digits
    by (auto simp: parse_plain_def Let_def split: if_splits option.splits)
  show ?thesis
  proof (cases "price_match txt")
    case None
    then show ?thesis using assms plain by (simp add: parsePrice_def)
  next
    case (Some m)
    have "list_all is_digit (ReplaceAll m '','' '''')"
      using drop_commas [OF price_match_chars [OF Some]] by (simp add: list_all_iff)
    then show ?thesis using Some assms plain ParseInt_range [of "ReplaceAll m '','' ''''" v]
      by (auto simp: parsePrice_def split: prod.splits if_splits)
  qed
qed

theorem parsePrice_bounds_witness: "(0::int) \<le> 980 \<and> (980::int) < 2 ^ 63"
proof -
  have "parsePrice (yen_full @ ''980'') = Inr 980"
    by (simp add: parsePrice_def match_here_def strip_currency_def currency_bytes re_space_def is_digit_def price_char_def
        ReplaceAll_char ParseInt_def split_sign_def digits_val_def digit_val_def)
  from parsePrice_bounds [OF this] show ?thesis .
qed

end
