(* ===== verification/Service.thy ===== *)
theory Service
  imports Pages Queue RateLimit Config
begin

text \<open>
  The state of the crawler service and the parts of it that face Redis and the browser: \<open>internal/crawler/service.go\<close> (the
  service, its construction and statistics), \<open>adaptive.go\<close> (the kept cookies, the throttle on blocked pages),
  \<open>proxy.go\<close> (proxy mode and the count of failures) and \<open>browser.go\<close> (starting, draining and rotating the browser).
  What the program does not contain is the record \<open>outside\<close>: the browser library, the clock, the random numbers and the
  context of the running task, each call a function on an outside state \<open>'b\<close>. The operations here are those of one
  goroutine between two interferences; what other goroutines do meanwhile is left to the outside.
\<close>

section \<open>The world outside\<close>

text \<open>The cookies of the browser protocol; \<open>ck_Expires\<close> is a \<open>float64\<close> of seconds.\<close>

record cookie_param =
  ck_Name :: string
  ck_Value :: string
  ck_Domain :: string
  ck_Path :: string
  ck_Secure :: bool
  ck_HTTPOnly :: bool
  ck_SameSite :: string

record cookie = cookie_param +
  ck_Expires :: rat

text \<open>
  A \<open>select\<close> over a result, a timer and \<open>ctx.Done ()\<close> says which came first. In a race of selectors, the number of the
  selector that appeared first, an error of the library, or the expiry of the context.
\<close>

datatype 'a awaited = Ready 'a | Timer | CtxDone

datatype race = Won nat | RaceError err | RaceTimeout err

datatype waited = Elapsed | DeadlinePassed | WaitCancelled

record parsed_url =
  u_Scheme :: string
  u_Host :: string
  u_User :: "(string \<times> string option) option"

record ('b, 'e) outside =
  dom :: "'e dom"
  Clock :: "'b \<Rightarrow> int"
  CtxErr :: "'b \<Rightarrow> err option"
  Int63n :: "int \<Rightarrow> 'b \<Rightarrow> int \<times> 'b"
  RandFloat64 :: "'b \<Rightarrow> rat \<times> 'b"
  Sleep :: "int \<Rightarrow> 'b \<Rightarrow> bool \<times> 'b"
  RateSelect :: "int \<Rightarrow> 'b \<Rightarrow> waited \<times> 'b"
  ScrollSelect :: "int \<Rightarrow> 'b \<Rightarrow> bool \<times> 'b"
  DrainSelect :: "int \<Rightarrow> 'b \<Rightarrow> bool \<times> 'b"
  BehaviorSleep :: "int \<Rightarrow> 'b \<Rightarrow> bool \<times> 'b"
  HealthErr :: "'b \<Rightarrow> bool"
  HealthSleep :: "int \<Rightarrow> 'b \<Rightarrow> bool \<times> 'b"
  DownloadBrowser :: "'b \<Rightarrow> (err + string) \<times> 'b"
  ParseURL :: "string \<Rightarrow> err + parsed_url"
  Launch :: "string \<Rightarrow> bool \<Rightarrow> int \<times> int \<Rightarrow> string option \<Rightarrow> 'b \<Rightarrow> (err + string) \<times> 'b"
  Connect :: "string \<Rightarrow> (string \<times> string) option \<Rightarrow> 'b \<Rightarrow> (err + nat) \<times> 'b"
  CloseBrowser :: "nat \<Rightarrow> 'b \<Rightarrow> bool \<times> 'b"
  ProbePage :: "nat \<Rightarrow> 'b \<Rightarrow> bool \<times> 'b"
  OpenPage :: "nat \<Rightarrow> string \<Rightarrow> 'b \<Rightarrow> bool \<times> 'b"
  WaitLoad :: "'b \<Rightarrow> bool \<times> 'b"
  CreatePage :: "nat \<Rightarrow> 'b \<Rightarrow> err option awaited \<times> 'b"
  ApplyStealth :: "'b \<Rightarrow> err option awaited \<times> 'b"
  SetupPage :: "string \<Rightarrow> 'b \<Rightarrow> 'b"
  ClosePage :: "'b \<Rightarrow> 'b"
  Cookies :: "'b \<Rightarrow> cookie list option \<times> 'b"
  SetCookies :: "cookie_param list \<Rightarrow> 'b \<Rightarrow> bool \<times> 'b"
  Navigate :: "string \<Rightarrow> 'b \<Rightarrow> err option awaited \<times> 'b"
  WaitLoaded :: "'b \<Rightarrow> 'b"
  EvalViewport :: "'b \<Rightarrow> (int option \<times> int option) option \<times> 'b"
  EvalMouse :: "int \<Rightarrow> int \<Rightarrow> 'b \<Rightarrow> bool \<times> 'b"
  EvalScroll :: "int \<Rightarrow> 'b \<Rightarrow> bool \<times> 'b"
  ScrollPage :: "'b \<Rightarrow> 'b"
  Info :: "'b \<Rightarrow> (string \<times> string) option \<times> 'b"
  PageElement :: "string \<Rightarrow> 'b \<Rightarrow> 'e option \<times> 'b"
  PageElements :: "string \<Rightarrow> 'b \<Rightarrow> 'e list option \<times> 'b"
  Race :: "string list \<Rightarrow> 'b \<Rightarrow> race \<times> 'b"
  MapOrder :: "Item list \<Rightarrow> 'b \<Rightarrow> Item list \<times> 'b"
  Diagnose :: "string \<Rightarrow> 'b \<Rightarrow> 'b"

text \<open>
  What of it is relied on: an expired context stays expired and its error is one of the two context errors, so that a
  \<open>select\<close> that took \<open>ctx.Done ()\<close> sees it; time does not run backwards; \<open>rand.Int63n\<close> is below its bound; a timed
  \<open>select\<close> that took the short timer saw it run out before the deadline.
\<close>

definition ahead :: "('b, 'e) outside \<Rightarrow> 'b \<Rightarrow> 'b \<Rightarrow> bool" where
  "ahead E b b' \<longleftrightarrow> Clock E b \<le> Clock E b' \<and> (CtxErr E b \<noteq> None \<longrightarrow> CtxErr E b' \<noteq> None)"

definition scrollWaitInterval :: int where "scrollWaitInterval = 500 * Millisecond"
definition rateLimitPoll :: int where "rateLimitPoll = 50 * Millisecond"

locale outside_laws =
  fixes E :: "('b, 'e) outside"
  assumes pure_ahead: "ahead E b (ClosePage E b)" "ahead E b (WaitLoaded E b)" "ahead E b (ScrollPage E b)"
      "ahead E b (SetupPage E ua b)" "ahead E b (Diagnose E what b)"
    and call_ahead: "Int63n E n b = (ri, b') \<Longrightarrow> ahead E b b'" "RandFloat64 E b = (rf, b') \<Longrightarrow> ahead E b b'"
      "MapOrder E items b = (items', b') \<Longrightarrow> ahead E b b'" "Sleep E d b = (r, b') \<Longrightarrow> ahead E b b'"
      "RateSelect E d b = (rw, b') \<Longrightarrow> ahead E b b'" "ScrollSelect E d b = (r, b') \<Longrightarrow> ahead E b b'"
      "DrainSelect E d b = (r, b') \<Longrightarrow> ahead E b b'" "BehaviorSleep E d b = (r, b') \<Longrightarrow> ahead E b b'"
      "HealthSleep E d b = (r, b') \<Longrightarrow> ahead E b b'" "DownloadBrowser E b = (rs, b') \<Longrightarrow> ahead E b b'"
      "Launch E bin r win proxy b = (rs, b') \<Longrightarrow> ahead E b b'" "Connect E ws auth b = (rn, b') \<Longrightarrow> ahead E b b'"
      "CloseBrowser E m b = (r, b') \<Longrightarrow> ahead E b b'" "ProbePage E m b = (r, b') \<Longrightarrow> ahead E b b'"
      "OpenPage E m ws b = (r, b') \<Longrightarrow> ahead E b b'" "WaitLoad E b = (r, b') \<Longrightarrow> ahead E b b'"
      "CreatePage E m b = (ra, b') \<Longrightarrow> ahead E b b'" "ApplyStealth E b = (ra, b') \<Longrightarrow> ahead E b b'"
      "Navigate E ws b = (ra, b') \<Longrightarrow> ahead E b b'" "Cookies E b = (rc, b') \<Longrightarrow> ahead E b b'"
      "SetCookies E cs b = (r, b') \<Longrightarrow> ahead E b b'" "EvalViewport E b = (rv, b') \<Longrightarrow> ahead E b b'"
      "EvalMouse E x y b = (r, b') \<Longrightarrow> ahead E b b'" "EvalScroll E x b = (r, b') \<Longrightarrow> ahead E b b'"
      "Info E b = (rt, b') \<Longrightarrow> ahead E b b'" "PageElement E ws b = (re, b') \<Longrightarrow> ahead E b b'"
      "PageElements E ws b = (res, b') \<Longrightarrow> ahead E b b'" "Race E sels b = (rr, b') \<Longrightarrow> ahead E b b'"
    and random_below: "0 < n \<Longrightarrow> Int63n E n b = (ri, b') \<Longrightarrow> 0 \<le> ri \<and> ri < n"
    and order_perm: "MapOrder E items b = (items', b') \<Longrightarrow> mset items' = mset items"
    and context_errors: "CtxErr E b = Some e \<Longrightarrow> e_ctx e"
    and scroll_waits: "ScrollSelect E d b = (False, b') \<Longrightarrow> Clock E b < d \<and> Clock E b + scrollWaitInterval \<le> Clock E b'"
    and rate_waits: "RateSelect E d b = (Elapsed, b') \<Longrightarrow> Clock E b < d \<and> Clock E b + rateLimitPoll \<le> Clock E b'"

text \<open>\<open>INCR\<close> answers an error when the value is not a number; \<open>EXISTS\<close> counts the key.\<close>

record 's counters =
  INCR :: "string \<Rightarrow> 's \<Rightarrow> int option \<times> 's"
  EXISTS :: "string \<Rightarrow> 's \<Rightarrow> bool"

locale redis_counters = redis_server R view
  for R :: "'s redis" and view :: "'s \<Rightarrow> keyspace" +
  fixes X :: "'s counters"
  assumes incr_new: "strings (view s) k = None \<Longrightarrow> fst (INCR X k s) = Some 1 \<and>
      view (snd (INCR X k s)) = (view s)\<lparr>strings := (strings (view s))(k \<mapsto> ''1'')\<rparr>"
    and incr_old: "strings (view s) k = Some t \<Longrightarrow> ParseInt 64 t = (n, False) \<Longrightarrow> n < 2 ^ 63 - 1 \<Longrightarrow>
      fst (INCR X k s) = Some (n + 1) \<and>
      view (snd (INCR X k s)) = (view s)\<lparr>strings := (strings (view s))(k \<mapsto> FormatInt (n + 1))\<rparr>"
    and incr_bad: "strings (view s) k = Some t \<Longrightarrow> snd (ParseInt 64 t) \<or> fst (ParseInt 64 t) = 2 ^ 63 - 1 \<Longrightarrow> INCR X k s = (None, s)"
    and key_exists: "EXISTS X k s \<longleftrightarrow> lists (view s) k \<noteq> [] \<or> sets (view s) k \<noteq> {} \<or> hashes (view s) k \<noteq> Map.empty
      \<or> zsets (view s) k \<noteq> Map.empty \<or> strings (view s) k \<noteq> None"

section \<open>The service\<close>

definition rateLimitKey :: string where "rateLimitKey = ''animetop:ratelimit:global''"
definition proxyCooldownKey :: string where "proxyCooldownKey = ''animetop:proxy:cooldown''"
definition consecutiveFailuresKey :: string where "consecutiveFailuresKey = ''animetop:crawler:consecutive_failures''"
definition consecutiveFailuresTTL :: int where "consecutiveFailuresTTL = 10 * Minute"
definition proxyCacheTTL :: int where "proxyCacheTTL = 5 * Second"
definition defaultTaskTimeout :: int where "defaultTaskTimeout = 12 * Minute"
definition rateLimitMaxWait :: int where "rateLimitMaxWait = 30 * Second"
definition jitterMinDelay :: int where "jitterMinDelay = 800 * Millisecond"
definition jitterMaxDelay :: int where "jitterMaxDelay = 3500 * Millisecond"
definition drainTimeout :: int where "drainTimeout = 60 * Second"
definition defaultScreenshotTimeout :: int where "defaultScreenshotTimeout = 15 * Second"

text \<open>The fields that do not change after construction.\<close>

record ('s, 'b, 'e) service =
  rdb :: "'s redis option"
  counters :: "'s counters"
  queueCodec :: codec
  redisQueue :: "'s client"
  rateLimiter :: "'s redis option"
  luaNumbers :: lua
  outOfRange :: "rat \<Rightarrow> int"
  cookieJson :: "(cookie list \<Rightarrow> string option) \<times> (string \<Rightarrow> cookie list option)"
  ext :: "('b, 'e) outside"
  cfg :: Config
  defaultUA :: string
  pageTimeout :: int
  maxFetchCount :: int
  maxTasks :: u64
  proxyFailureThreshold :: int
  proxyAutoSwitch :: bool
  screenshotTimeout :: int
  taskTimeout :: int
  watchdogTimeout :: int
  stuckTaskThreshold :: int

text \<open>
  The fields that do: with the Redis connection (\<open>net\<close>) and the outside (\<open>out\<close>). A browser is the number of its
  connection. \<open>drainComplete\<close> is the channel, \<open>Some True\<close> when closed; a zero time is \<open>None\<close>.
\<close>

record ('s, 'd, 'b) crawler =
  net :: "('s, 'd) world"
  out :: 'b
  browser :: "nat option"
  currentIsProxy :: bool
  proxyCache :: bool
  proxyCacheUntil :: "int option"
  forceProxyOnce :: bool
  taskCounter :: u64
  restartSignal :: bool
  TotalProcessed :: int
  TotalSucceeded :: int
  TotalFailed :: int
  TotalPanics :: int
  draining :: bool
  activePages :: int
  drainComplete :: "bool option"
  cachedCookies :: "cookie list"
  cacheTime :: "int option"
  cookieCreatedAt :: "int option"
  consecutiveBlocks :: i32
  inCooldown :: bool

definition call_redis :: "('s \<Rightarrow> 'a \<times> 's) \<Rightarrow> ('s, 'd, 'b) crawler \<Rightarrow> 'a option \<times> ('s, 'd, 'b) crawler" where
  "call_redis c st = (case rdo c (net st) of (r, w) \<Rightarrow> (r, st\<lparr>net := w\<rparr>))"

definition call_out :: "('b \<Rightarrow> 'a \<times> 'b) \<Rightarrow> ('s, 'd, 'b) crawler \<Rightarrow> 'a \<times> ('s, 'd, 'b) crawler" where
  "call_out f st = (case f (out st) of (r, b) \<Rightarrow> (r, st\<lparr>out := b\<rparr>))"

definition run_out :: "('b \<Rightarrow> 'b) \<Rightarrow> ('s, 'd, 'b) crawler \<Rightarrow> ('s, 'd, 'b) crawler" where
  "run_out f st = st\<lparr>out := f (out st)\<rparr>"

section \<open>Cookies\<close>

definition cookieCacheKey :: string where "cookieCacheKey = ''animetop:cookies:mercari''"
definition cookieCacheTTL :: int where "cookieCacheTTL = 30 * Minute"
definition cookieMaxAge :: int where "cookieMaxAge = 2 * Hour"
definition cookieRefreshRatio :: rat where "cookieRefreshRatio = rnd64 (5 / 100)"
definition cookieMemoryTTL :: int where "cookieMemoryTTL = 5 * Minute"

datatype cookie_error = GetCookiesError | MarshalCookiesError | SaveCookiesError | LoadCookiesError
  | UnmarshalCookiesError | SetCookiesError

definition valid_cookie :: "(rat \<Rightarrow> int) \<Rightarrow> int \<Rightarrow> cookie \<Rightarrow> bool" where
  "valid_cookie oor now c \<longleftrightarrow> (ck_Domain c = ''.mercari.com'' \<or> ck_Domain c = ''jp.mercari.com'') \<and>
     \<not> (ck_Expires c > 0 \<and> f64_to_int64 oor (ck_Expires c) * Second < now)"

definition first_time :: "int \<Rightarrow> int option \<Rightarrow> int option" where
  "first_time now t = (case t of None \<Rightarrow> Some now | Some x \<Rightarrow> Some x)"

definition SaveCookies :: "('s, 'b, 'e) service \<Rightarrow> ('s, 'd, 'b) crawler \<Rightarrow> cookie_error option \<times> ('s, 'd, 'b) crawler" where
  "SaveCookies S st = (case rdb S of None \<Rightarrow> (None, st) | Some R \<Rightarrow>
     (case call_out (Cookies (ext S)) st of
        (None, st1) \<Rightarrow> (Some GetCookiesError, st1)
      | (Some cookies, st1) \<Rightarrow>
          if cookies = [] then (None, st1)
          else (let now = Clock (ext S) (out st1); validCookies = filter (valid_cookie (outOfRange S) now) cookies in
            if validCookies = [] then (None, st1)
            else (case fst (cookieJson S) validCookies of None \<Rightarrow> (Some MarshalCookiesError, st1) | Some data \<Rightarrow>
              (case call_redis (writec (SET_EX R cookieCacheKey data cookieCacheTTL)) st1 of
                 (None, st2) \<Rightarrow> (Some SaveCookiesError, st2)
               | (Some _, st2) \<Rightarrow> (None, st2\<lparr>cachedCookies := validCookies, cacheTime := Some now,
                   cookieCreatedAt := first_time now (cookieCreatedAt st2)\<rparr>))))))"

definition applyCookies :: "('s, 'b, 'e) service \<Rightarrow> cookie list \<Rightarrow> ('s, 'd, 'b) crawler \<Rightarrow> cookie_error option \<times> ('s, 'd, 'b) crawler" where
  "applyCookies S cookies st = (if cookies = [] then (None, st)
     else (case call_out (SetCookies (ext S) (map cookie_param.truncate cookies)) st of
        (ok, st1) \<Rightarrow> (if ok then None else Some SetCookiesError, st1)))"

definition ClearCookies :: "('s, 'b, 'e) service \<Rightarrow> ('s, 'd, 'b) crawler \<Rightarrow> ('s, 'd, 'b) crawler" where
  "ClearCookies S st = (let st1 = st\<lparr>cachedCookies := [], cacheTime := None, cookieCreatedAt := None\<rparr> in
     case rdb S of None \<Rightarrow> st1 | Some R \<Rightarrow> snd (call_redis (writec (DEL R [cookieCacheKey])) st1))"

definition LoadCookies :: "('s, 'b, 'e) service \<Rightarrow> ('s, 'd, 'b) crawler \<Rightarrow> cookie_error option \<times> ('s, 'd, 'b) crawler" where
  "LoadCookies S st = (case rdb S of None \<Rightarrow> (None, st) | Some R \<Rightarrow>
     (case call_out (RandFloat64 (ext S)) st of (x, st1) \<Rightarrow>
       if x < cookieRefreshRatio then (None, st1)
       else (let now = Clock (ext S) (out st1) in
         if (case cookieCreatedAt st1 of None \<Rightarrow> False | Some t \<Rightarrow> now - t > cookieMaxAge)
         then (None, ClearCookies S st1)
         else if cachedCookies st1 \<noteq> [] \<and> (case cacheTime st1 of None \<Rightarrow> False | Some t \<Rightarrow> now - t < cookieMemoryTTL)
         then applyCookies S (cachedCookies st1) st1
         else (case call_redis (readc (GET R cookieCacheKey)) st1 of
             (None, st2) \<Rightarrow> (Some LoadCookiesError, st2)
           | (Some None, st2) \<Rightarrow> (None, st2)
           | (Some (Some data), st2) \<Rightarrow>
               (case snd (cookieJson S) data of None \<Rightarrow> (Some UnmarshalCookiesError, st2) | Some cookies \<Rightarrow>
                  (let now2 = Clock (ext S) (out st2) in
                   applyCookies S cookies (st2\<lparr>cachedCookies := cookies, cacheTime := Some now2,
                     cookieCreatedAt := first_time now2 (cookieCreatedAt st2)\<rparr>)))))))"

section \<open>The throttle\<close>

definition consecutiveBlockKey :: string where "consecutiveBlockKey = ''animetop:crawler:consecutive_blocks''"
definition consecutiveBlockTTL :: int where "consecutiveBlockTTL = 10 * Minute"
definition blockThresholdForSleep :: int where "blockThresholdForSleep = 3"
definition minSleepDuration :: int where "minSleepDuration = 30 * Second"
definition maxSleepDuration :: int where "maxSleepDuration = 60 * Second"

definition incr_expire :: "'s redis \<Rightarrow> 's counters \<Rightarrow> string \<Rightarrow> int \<Rightarrow> 's \<Rightarrow> int option \<times> 's" where
  "incr_expire R X k ttl s = (case INCR X k s of (n, s1) \<Rightarrow> (n, EXPIRE R k ttl s1))"

text \<open>The count with the one all crawlers share, when it is larger; a failed pipeline leaves the local one.\<close>

definition shared_count :: "i32 \<Rightarrow> int option option \<Rightarrow> i32" where
  "shared_count cnt r = (case r of Some (Some redisCount) \<Rightarrow> if redisCount > sint cnt then word_of_int redisCount else cnt
     | _ \<Rightarrow> cnt)"

definition RecordBlock :: "('s, 'b, 'e) service \<Rightarrow> ('s, 'd, 'b) crawler \<Rightarrow> (bool \<times> int) \<times> ('s, 'd, 'b) crawler" where
  "RecordBlock S st = (let st1 = st\<lparr>consecutiveBlocks := consecutiveBlocks st + 1\<rparr>;
       count0 = consecutiveBlocks st1;
       (count, st2) = (case rdb S of None \<Rightarrow> (count0, st1) | Some R \<Rightarrow>
         (case call_redis (incr_expire R (counters S) consecutiveBlockKey consecutiveBlockTTL) st1 of
            (r, st2) \<Rightarrow> (shared_count count0 r, st2)))
     in if sint count \<ge> blockThresholdForSleep \<and> \<not> inCooldown st2 then
          (case call_out (Int63n (ext S) (maxSleepDuration - minSleepDuration)) (st2\<lparr>inCooldown := True\<rparr>) of
             (x, st3) \<Rightarrow> ((True, minSleepDuration + x), st3))
        else ((False, 0), st2))"

definition RecordSuccess :: "('s, 'b, 'e) service \<Rightarrow> ('s, 'd, 'b) crawler \<Rightarrow> ('s, 'd, 'b) crawler" where
  "RecordSuccess S st = (let oldCount = consecutiveBlocks st; st1 = st\<lparr>consecutiveBlocks := 0, inCooldown := False\<rparr> in
     case rdb S of None \<Rightarrow> st1 | Some R \<Rightarrow>
       if sint oldCount > 0 then snd (call_redis (writec (DEL R [consecutiveBlockKey])) st1) else st1)"

definition ExitCooldown :: "('s, 'd, 'b) crawler \<Rightarrow> ('s, 'd, 'b) crawler" where
  "ExitCooldown st = st\<lparr>inCooldown := False\<rparr>"

definition GetConsecutiveBlocks :: "('s, 'd, 'b) crawler \<Rightarrow> int" where
  "GetConsecutiveBlocks st = sint (consecutiveBlocks st)"

definition ShouldReduceConcurrency :: "('s, 'd, 'b) crawler \<Rightarrow> bool" where
  "ShouldReduceConcurrency st \<longleftrightarrow> sint (consecutiveBlocks st) \<ge> blockThresholdForSleep"

text \<open>\<open>handleBlockEvent\<close> of \<open>crawl.go\<close>; the service always has a cookie manager and a throttler.\<close>

definition handleBlockEvent :: "('s, 'b, 'e) service \<Rightarrow> string \<Rightarrow> ('s, 'd, 'b) crawler \<Rightarrow> ('s, 'd, 'b) crawler" where
  "handleBlockEvent S blockType st =
     (let st1 = (if blockType = ''403_forbidden'' then ClearCookies S st else st) in
      case RecordBlock S st1 of ((shouldSleep, sleepDuration), st2) \<Rightarrow>
        if shouldSleep then ExitCooldown (snd (call_out (Sleep (ext S) sleepDuration) st2)) else st2)"

section \<open>Starting a browser\<close>

definition windowSizes :: "(int \<times> int) list" where
  "windowSizes = [(1366, 768), (1440, 900), (1536, 864), (1600, 900), (1920, 1080)]"

text \<open>The proxy of the configuration: the address for the launcher and the credentials of a named user.\<close>

definition proxy_of :: "('b, 'e) outside \<Rightarrow> Config \<Rightarrow> err + string \<times> (string \<times> string) option" where
  "proxy_of E c = (let u = ProxyURL (Browser c) in
     if u = '''' then Inl (errorf ''proxy enabled but no proxy url configured'')
     else (case ParseURL E u of Inl e \<Rightarrow> Inl (wrapf ''parse proxy url'' e) | Inr p \<Rightarrow>
       if u_Scheme p = '''' \<or> u_Host p = '''' then Inl (errorf (''invalid proxy url: '' @ u))
       else Inr (u_Scheme p @ ''://'' @ u_Host p, (case u_User p of None \<Rightarrow> None
         | Some (name, pass) \<Rightarrow> if name = '''' then None else Some (name, case pass of None \<Rightarrow> '''' | Some x \<Rightarrow> x)))))"

definition browser_bin :: "('b, 'e) outside \<Rightarrow> Config \<Rightarrow> 'b \<Rightarrow> (err + string) \<times> 'b" where
  "browser_bin E c b = (if BinPath (Browser c) \<noteq> '''' then (Inr (BinPath (Browser c)), b)
     else (case DownloadBrowser E b of (Inl e, b1) \<Rightarrow> (Inl (wrapf ''download browser'' e), b1) | (Inr p, b1) \<Rightarrow> (Inr p, b1)))"

definition startBrowser :: "('b, 'e) outside \<Rightarrow> Config \<Rightarrow> bool \<Rightarrow> 'b \<Rightarrow> (err + nat) \<times> 'b" where
  "startBrowser E c useProxy b = (case browser_bin E c b of
     (Inl e, b1) \<Rightarrow> (Inl e, b1)
   | (Inr bin, b1) \<Rightarrow>
      (case Int63n E 5 b1 of (windowIdx, b2) \<Rightarrow>
        (case (if useProxy then map_sum id (\<lambda>p. Some p) (proxy_of E c) else Inr None) of
           Inl e \<Rightarrow> (Inl e, b2)
         | Inr proxy \<Rightarrow>
            (case Launch E bin (Headless (Browser c)) (windowSizes ! nat windowIdx) (map_option fst proxy) b2 of
               (Inl e, b3) \<Rightarrow> (Inl (wrapf ''launch browser'' e), b3)
             | (Inr wsURL, b3) \<Rightarrow>
                (case Connect E wsURL (Option.bind proxy snd) b3 of
                   (Inl e, b4) \<Rightarrow> (Inl (wrapf ''connect browser'' e), b4)
                 | (Inr n, b4) \<Rightarrow> (Inr n, b4))))))"

definition checkBrowserHealth :: "('s, 'b, 'e) service \<Rightarrow> ('s, 'd, 'b) crawler \<Rightarrow> bool \<times> ('s, 'd, 'b) crawler" where
  "checkBrowserHealth S st = (case browser st of None \<Rightarrow> (False, st) | Some n \<Rightarrow> call_out (ProbePage (ext S) n) st)"

definition restartBrowserInstance :: "('s, 'b, 'e) service \<Rightarrow> ('s, 'd, 'b) crawler \<Rightarrow> err option \<times> ('s, 'd, 'b) crawler" where
  "restartBrowserInstance S st = (let shouldUseProxy = currentIsProxy st;
       st1 = (case browser st of None \<Rightarrow> st | Some n \<Rightarrow> (snd (call_out (CloseBrowser (ext S) n) st))\<lparr>browser := None\<rparr>)
     in case call_out (startBrowser (ext S) (cfg S) shouldUseProxy) st1 of
          (Inl e, st2) \<Rightarrow> (Some (wrapf ''start new browser'' e), st2)
        | (Inr n, st2) \<Rightarrow> (None, st2\<lparr>browser := Some n\<rparr>))"

text \<open>One tick of the health check.\<close>

definition healthTick :: "('s, 'b, 'e) service \<Rightarrow> ('s, 'd, 'b) crawler \<Rightarrow> ('s, 'd, 'b) crawler" where
  "healthTick S st = (case checkBrowserHealth S st of (healthy, st1) \<Rightarrow>
     if healthy then st1 else snd (restartBrowserInstance S st1))"

text \<open>One tick of the cleanup of stuck tasks.\<close>

definition stuckTaskTick :: "('s, 'b, 'e) service \<Rightarrow> int \<Rightarrow> ('s, 'd, 'b) crawler \<Rightarrow> ('s, 'd, 'b) crawler" where
  "stuckTaskTick S now st = (case redisQueue S of None \<Rightarrow> st | Some R \<Rightarrow>
     (case RescueStuckTasks (Some R) (queueCodec S) (stuckTaskThreshold S) now (net st) of (_, _, w) \<Rightarrow> st\<lparr>net := w\<rparr>))"

section \<open>Draining\<close>

definition startDraining :: "('s, 'd, 'b) crawler \<Rightarrow> ('s, 'd, 'b) crawler" where
  "startDraining st = (if draining st then st else st\<lparr>draining := True, drainComplete := Some False\<rparr>)"

definition waitForDrain :: "('s, 'b, 'e) service \<Rightarrow> int \<Rightarrow> ('s, 'd, 'b) crawler \<Rightarrow> bool \<times> ('s, 'd, 'b) crawler" where
  "waitForDrain S timeout st = (if \<not> draining st then (True, st)
     else if activePages st \<le> 0 then (True, st)
     else if drainComplete st = None then (True, st)
     else call_out (DrainSelect (ext S) timeout) st)"

definition completeDraining :: "('s, 'd, 'b) crawler \<Rightarrow> ('s, 'd, 'b) crawler" where
  "completeDraining st = st\<lparr>draining := False, drainComplete := None\<rparr>"

definition trackPageStart :: "('s, 'd, 'b) crawler \<Rightarrow> (nat option \<times> bool) \<times> ('s, 'd, 'b) crawler" where
  "trackPageStart st = (if draining st then ((None, False), st)
     else (case browser st of None \<Rightarrow> ((None, False), st)
       | Some n \<Rightarrow> ((Some n, True), st\<lparr>activePages := activePages st + 1\<rparr>)))"

definition trackPageEnd :: "('s, 'd, 'b) crawler \<Rightarrow> ('s, 'd, 'b) crawler" where
  "trackPageEnd st = (let newCount = activePages st - 1; st1 = st\<lparr>activePages := newCount\<rparr> in
     if draining st1 \<and> newCount \<le> 0 then
       (case drainComplete st1 of None \<Rightarrow> st1 | Some _ \<Rightarrow> st1\<lparr>drainComplete := Some True\<rparr>)
     else st1)"

text \<open>The old browser is closed half a second later by its own goroutine: the last step here.\<close>

definition rotateBrowser :: "('s, 'b, 'e) service \<Rightarrow> bool \<Rightarrow> ('s, 'd, 'b) crawler \<Rightarrow> err option \<times> ('s, 'd, 'b) crawler" where
  "rotateBrowser S useProxy st = (case waitForDrain S drainTimeout (startDraining st) of (_, st1) \<Rightarrow>
     (case call_out (startBrowser (ext S) (cfg S) useProxy) st1 of
        (Inl e, st2) \<Rightarrow> (Some e, completeDraining st2)
      | (Inr n, st2) \<Rightarrow>
          (let st3 = completeDraining (st2\<lparr>browser := Some n\<rparr>) in
           (None, case browser st2 of None \<Rightarrow> st3 | Some old \<Rightarrow> snd (call_out (CloseBrowser (ext S) old) st3)))))"

section \<open>Proxy mode\<close>

definition isUsingProxy :: "('s, 'd, 'b) crawler \<Rightarrow> bool" where
  "isUsingProxy st = currentIsProxy st"

definition getProxyState :: "('s, 'b, 'e) service \<Rightarrow> ('s, 'd, 'b) crawler \<Rightarrow> bool \<times> ('s, 'd, 'b) crawler" where
  "getProxyState S st = (let now = Clock (ext S) (out st) in
     if (case proxyCacheUntil st of None \<Rightarrow> False | Some t \<Rightarrow> now < t) then (proxyCache st, st)
     else (case rdb S of None \<Rightarrow> (False, st) | Some R \<Rightarrow>
       (case call_redis (readc (EXISTS (counters S) proxyCooldownKey)) st of
          (None, st1) \<Rightarrow> (proxyCache st1, st1)
        | (Some state, st1) \<Rightarrow> (state, st1\<lparr>proxyCache := state, proxyCacheUntil := Some (now + proxyCacheTTL)\<rparr>))))"

definition cache_proxy :: "('s, 'b, 'e) service \<Rightarrow> bool \<Rightarrow> ('s, 'd, 'b) crawler \<Rightarrow> ('s, 'd, 'b) crawler" where
  "cache_proxy S state st = st\<lparr>proxyCache := state, proxyCacheUntil := Some (Clock (ext S) (out st) + proxyCacheTTL)\<rparr>"

definition ensureBrowserState :: "('s, 'b, 'e) service \<Rightarrow> ('s, 'd, 'b) crawler \<Rightarrow> err option \<times> ('s, 'd, 'b) crawler" where
  "ensureBrowserState S st = (case getProxyState S st of (shouldUseProxy, st1) \<Rightarrow>
     if shouldUseProxy = currentIsProxy st1 then (None, st1)
     else (case rotateBrowser S shouldUseProxy st1 of
        (Some e, st2) \<Rightarrow> (Some e, if shouldUseProxy then cache_proxy S False st2 else st2)
      | (None, st2) \<Rightarrow> (None, st2\<lparr>currentIsProxy := shouldUseProxy\<rparr>)))"

definition setProxyCooldown :: "('s, 'b, 'e) service \<Rightarrow> int \<Rightarrow> ('s, 'd, 'b) crawler \<Rightarrow> err option \<times> ('s, 'd, 'b) crawler" where
  "setProxyCooldown S duration st = (let dur = (if duration \<le> 0 then ProxyCooldown (App (cfg S)) else duration) in
     case rdb S of None \<Rightarrow> (Some (errorf ''redis client is not initialized''), st) | Some R \<Rightarrow>
       (None, cache_proxy S True (snd (call_redis (writec (SET_EX R proxyCooldownKey ''1'' dur)) st))))"

definition ClearProxyCooldown :: "('s, 'b, 'e) service \<Rightarrow> ('s, 'd, 'b) crawler \<Rightarrow> err option \<times> ('s, 'd, 'b) crawler" where
  "ClearProxyCooldown S st = (case rdb S of None \<Rightarrow> (Some (errorf ''redis client is not initialized''), st) | Some R \<Rightarrow>
     (None, cache_proxy S False (snd (call_redis (writec (DEL R [proxyCooldownKey])) st))))"

definition incrConsecutiveFailures :: "('s, 'b, 'e) service \<Rightarrow> ('s, 'd, 'b) crawler \<Rightarrow> int \<times> ('s, 'd, 'b) crawler" where
  "incrConsecutiveFailures S st = (case rdb S of None \<Rightarrow> (0, st) | Some R \<Rightarrow>
     (case call_redis (INCR (counters S) consecutiveFailuresKey) st of
        (Some (Some newVal), st1) \<Rightarrow>
          (newVal, snd (call_redis (writec (EXPIRE R consecutiveFailuresKey consecutiveFailuresTTL)) st1))
      | (_, st1) \<Rightarrow> (0, st1)))"

definition resetConsecutiveFailures :: "('s, 'b, 'e) service \<Rightarrow> ('s, 'd, 'b) crawler \<Rightarrow> ('s, 'd, 'b) crawler" where
  "resetConsecutiveFailures S st = (case rdb S of None \<Rightarrow> st | Some R \<Rightarrow>
     snd (call_redis (writec (DEL R [consecutiveFailuresKey])) st))"

definition getConsecutiveFailures :: "('s, 'b, 'e) service \<Rightarrow> ('s, 'd, 'b) crawler \<Rightarrow> int \<times> ('s, 'd, 'b) crawler" where
  "getConsecutiveFailures S st = (case rdb S of None \<Rightarrow> (0, st) | Some R \<Rightarrow>
     (case call_redis (readc (GET R consecutiveFailuresKey)) st of
        (Some (Some t), st1) \<Rightarrow> (case ParseInt 64 t of (n, bad) \<Rightarrow> (if bad then 0 else n, st1))
      | (_, st1) \<Rightarrow> (0, st1)))"

text \<open>The text of the page of \<open>detect.go\<close>: of its body, empty on an error.\<close>

definition getPageBodyText :: "('b, 'e) outside \<Rightarrow> 'b \<Rightarrow> string \<times> 'b" where
  "getPageBodyText E b = (case PageElement E ''body'' b of
     (None, b1) \<Rightarrow> ('''', b1)
   | (Some body, b1) \<Rightarrow> (case ElText (dom E) body of None \<Rightarrow> ('''', b1) | Some t \<Rightarrow> (t, b1)))"

text \<open>The check of a proxy: a browser started on it loads a page, whose text or title shows that it did.\<close>

definition proxy_page_ok :: "('b, 'e) outside \<Rightarrow> 'b \<Rightarrow> bool \<times> 'b" where
  "proxy_page_ok E b = (case Info E b of
     (None, b1) \<Rightarrow> (False, b1)
   | (Some (title, _), b1) \<Rightarrow>
       (case (if title \<noteq> '''' \<and> title \<noteq> ''about:blank'' then getPageBodyText E b1 else ('''', b1)) of (body, b2) \<Rightarrow>
          if title \<noteq> '''' \<and> title \<noteq> ''about:blank'' \<and> Contains body ''origin'' then (True, b2)
          else if title \<noteq> ''about:blank'' then (True, b2)
          else (False, b2)))"

definition check_proxy_browser :: "('b, 'e) outside \<Rightarrow> nat \<Rightarrow> 'b \<Rightarrow> bool \<times> 'b" where
  "check_proxy_browser E n b = (case OpenPage E n ''https://httpbin.org/ip'' b of
     (False, b1) \<Rightarrow> (False, b1)
   | (True, b1) \<Rightarrow>
      (case WaitLoad E b1 of
         (False, b2) \<Rightarrow> (False, ClosePage E b2)
       | (True, b2) \<Rightarrow> (case proxy_page_ok E b2 of (ok, b3) \<Rightarrow> (ok, ClosePage E b3))))"

definition checkProxyHealth :: "('s, 'b, 'e) service \<Rightarrow> ('s, 'd, 'b) crawler \<Rightarrow> bool \<times> ('s, 'd, 'b) crawler" where
  "checkProxyHealth S st = (if ProxyURL (Browser (cfg S)) = '''' then (False, st)
     else (case call_out (startBrowser (ext S) (cfg S) True) st of
        (Inl _, st1) \<Rightarrow> (False, st1)
      | (Inr n, st1) \<Rightarrow>
          (case call_out (check_proxy_browser (ext S) n) st1 of (ok, st2) \<Rightarrow>
             (ok, snd (call_out (CloseBrowser (ext S) n) st2)))))"

text \<open>
  The retries, for \<open>i\<close> from 0; \<open>left\<close> is \<open>maxRetries - i\<close>. The context of the check is its own: \<open>HealthErr\<close> says whether it has
  expired, \<open>HealthSleep\<close> waits for the backoff or its expiry.
\<close>

fun checkProxyHealthWithRetry :: "nat \<Rightarrow> nat \<Rightarrow> ('s, 'b, 'e) service \<Rightarrow> ('s, 'd, 'b) crawler \<Rightarrow> bool \<times> ('s, 'd, 'b) crawler" where
  "checkProxyHealthWithRetry 0 i S st = (False, st)"
| "checkProxyHealthWithRetry (Suc left) i S st = (if HealthErr (ext S) (out st) then (False, st)
     else (case checkProxyHealth S st of (healthy, st1) \<Rightarrow>
       if healthy then (True, st1)
       else if left = 0 then (False, st1)
       else (case call_out (HealthSleep (ext S) (2 ^ i * Second)) st1 of (elapsed, st2) \<Rightarrow>
          if elapsed then checkProxyHealthWithRetry left (Suc i) S st2 else (False, st2))))"

section \<open>Construction\<close>

definition userAgents :: "string list" where
  "userAgents = [
     ''Mozilla/5.0 (Windows NT 10.0; Win64; x64) AppleWebKit/537.36 (KHTML, like Gecko) Chrome/144.0.0.0 Safari/537.36'',
     ''Mozilla/5.0 (Macintosh; Intel Mac OS X 10_15_7) AppleWebKit/537.36 (KHTML, like Gecko) Chrome/144.0.0.0 Safari/537.36'',
     ''Mozilla/5.0 (X11; Linux x86_64) AppleWebKit/537.36 (KHTML, like Gecko) Chrome/144.0.0.0 Safari/537.36'',
     ''Mozilla/5.0 (Macintosh; Intel Mac OS X 14_0) AppleWebKit/537.36 (KHTML, like Gecko) Chrome/144.0.0.0 Safari/537.36'',
     ''Mozilla/5.0 (Windows NT 10.0; Win64; x64) AppleWebKit/537.36 (KHTML, like Gecko) Chrome/143.0.0.0 Safari/537.36'',
     ''Mozilla/5.0 (Macintosh; Intel Mac OS X 10_15_7) AppleWebKit/537.36 (KHTML, like Gecko) Chrome/143.0.0.0 Safari/537.36'',
     ''Mozilla/5.0 (Windows NT 11.0; Win64; x64) AppleWebKit/537.36 (KHTML, like Gecko) Chrome/143.0.0.0 Safari/537.36'',
     ''Mozilla/5.0 (Windows NT 10.0; Win64; x64) AppleWebKit/537.36 (KHTML, like Gecko) Chrome/142.0.0.0 Safari/537.36'',
     ''Mozilla/5.0 (Macintosh; Intel Mac OS X 10_15_7) AppleWebKit/537.36 (KHTML, like Gecko) Chrome/142.0.0.0 Safari/537.36'',
     ''Mozilla/5.0 (Macintosh; Intel Mac OS X 10_15_7) AppleWebKit/605.1.15 (KHTML, like Gecko) Version/18.3 Safari/605.1.15'',
     ''Mozilla/5.0 (Macintosh; Intel Mac OS X 15_0) AppleWebKit/605.1.15 (KHTML, like Gecko) Version/18.3 Safari/605.1.15'',
     ''Mozilla/5.0 (Macintosh; Intel Mac OS X 14_0) AppleWebKit/605.1.15 (KHTML, like Gecko) Version/18.2 Safari/605.1.15'',
     ''Mozilla/5.0 (Windows NT 10.0; Win64; x64) AppleWebKit/537.36 (KHTML, like Gecko) Chrome/144.0.0.0 Safari/537.36 Edg/144.0.0.0'',
     ''Mozilla/5.0 (Windows NT 11.0; Win64; x64) AppleWebKit/537.36 (KHTML, like Gecko) Chrome/144.0.0.0 Safari/537.36 Edg/144.0.0.0'',
     ''Mozilla/5.0 (Macintosh; Intel Mac OS X 10_15_7) AppleWebKit/537.36 (KHTML, like Gecko) Chrome/144.0.0.0 Safari/537.36 Edg/144.0.0.0'',
     ''Mozilla/5.0 (Windows NT 10.0; Win64; x64) AppleWebKit/537.36 (KHTML, like Gecko) Chrome/143.0.0.0 Safari/537.36 Edg/143.0.0.0'',
     ''Mozilla/5.0 (Windows NT 10.0; Win64; x64; rv:134.0) Gecko/20100101 Firefox/134.0'',
     ''Mozilla/5.0 (Macintosh; Intel Mac OS X 10.15; rv:134.0) Gecko/20100101 Firefox/134.0'',
     ''Mozilla/5.0 (X11; Linux x86_64; rv:134.0) Gecko/20100101 Firefox/134.0'',
     ''Mozilla/5.0 (Windows NT 11.0; Win64; x64; rv:134.0) Gecko/20100101 Firefox/134.0'']"

definition pos_or :: "int \<Rightarrow> int \<Rightarrow> int" where
  "pos_or d x = (if x \<le> 0 then d else x)"

text \<open>\<open>FORCE_PROXY_ONCE\<close> of the environment, trimmed and in lower case.\<close>

definition force_once :: "string \<Rightarrow> bool" where
  "force_once v = (ToLower (TrimSpace v) \<in> {''1'', ''true'', ''yes''})"

definition new_limiter :: "'s redis \<Rightarrow> Config \<Rightarrow> 's redis option" where
  "new_limiter R c = (if RateLimit (App c) > 0 \<and> RateBurst (App c) > 0 then Some R else None)"

text \<open>The parts of the environment a service is built on.\<close>

record ('s, 'b, 'e) parts =
  p_redis :: "'s redis"
  p_counters :: "'s counters"
  p_codec :: codec
  p_queue :: "'s client"
  p_lua :: lua
  p_oor :: "rat \<Rightarrow> int"
  p_json :: "(cookie list \<Rightarrow> string option) \<times> (string \<Rightarrow> cookie list option)"
  p_ext :: "('b, 'e) outside"

definition new_service :: "('s, 'b, 'e) parts \<Rightarrow> Config \<Rightarrow> int \<Rightarrow> ('s, 'b, 'e) service" where
  "new_service P c ua = (let tt = pos_or defaultTaskTimeout (TaskTimeout (Browser c)); wd = tt + 1 * Minute in
     \<lparr>rdb = Some (p_redis P), counters = p_counters P, queueCodec = p_codec P, redisQueue = p_queue P,
      rateLimiter = new_limiter (p_redis P) c, luaNumbers = p_lua P, outOfRange = p_oor P, cookieJson = p_json P,
      ext = p_ext P, cfg = c, defaultUA = userAgents ! nat ua,
      pageTimeout = pos_or (60 * Second) (PageTimeout (Browser c)), maxFetchCount = MaxFetchCount (Browser c),
      maxTasks = (if MaxTasks (App c) > 0 then word_of_int (MaxTasks (App c)) else 0),
      proxyFailureThreshold = pos_or 10 (ProxyFailureThreshold (App c)), proxyAutoSwitch = ProxyAutoSwitch (App c),
      screenshotTimeout = pos_or defaultScreenshotTimeout (ScreenshotTimeout (Browser c)),
      taskTimeout = tt, watchdogTimeout = wd, stuckTaskThreshold = tt + wd\<rparr>)"

definition new_crawler :: "bool \<Rightarrow> nat \<Rightarrow> ('s, 'd) world \<Rightarrow> 'b \<Rightarrow> ('s, 'd, 'b) crawler" where
  "new_crawler force n w b = \<lparr>net = w, out = b, browser = Some n, currentIsProxy = False, proxyCache = False,
     proxyCacheUntil = None, forceProxyOnce = force, taskCounter = 0, restartSignal = False, TotalProcessed = 0,
     TotalSucceeded = 0, TotalFailed = 0, TotalPanics = 0, draining = False, activePages = 0, drainComplete = None,
     cachedCookies = [], cacheTime = None, cookieCreatedAt = None, consecutiveBlocks = 0, inCooldown = False\<rparr>"

definition NewService :: "('s, 'b, 'e) parts \<Rightarrow> Config \<Rightarrow> string \<Rightarrow> ('s, 'd) world \<Rightarrow> 'b
    \<Rightarrow> (err + ('s, 'b, 'e) service \<times> ('s, 'd, 'b) crawler) \<times> ('s, 'd) world \<times> 'b" where
  "NewService P c force w b = (case startBrowser (p_ext P) c False b of
     (Inl e, b1) \<Rightarrow> (Inl e, w, b1)
   | (Inr n, b1) \<Rightarrow>
      (case rdo (readc (\<lambda>_. ())) w of
         (None, w1) \<Rightarrow> (Inl (errorf ''connect redis''), w1, b1)
       | (Some _, w1) \<Rightarrow>
          (case Int63n (p_ext P) (int (length userAgents)) b1 of (ua, b2) \<Rightarrow>
             (Inr (new_service P c ua, new_crawler (force_once force) n w1 b2), w1, b2))))"

text \<open>\<open>Shutdown\<close> closes the browser and the connection; it never fails.\<close>

definition Shutdown :: "('s, 'b, 'e) service \<Rightarrow> ('s, 'd, 'b) crawler \<Rightarrow> ('s, 'd, 'b) crawler" where
  "Shutdown S st = (case browser st of None \<Rightarrow> st
     | Some n \<Rightarrow> snd (call_out (CloseBrowser (ext S) n) (st\<lparr>browser := None\<rparr>)))"

record CrawlerStats =
  cs_TotalProcessed :: int
  cs_TotalSucceeded :: int
  cs_TotalFailed :: int
  cs_TotalPanics :: int

definition Stats :: "('s, 'd, 'b) crawler \<Rightarrow> CrawlerStats" where
  "Stats st = \<lparr>cs_TotalProcessed = TotalProcessed st, cs_TotalSucceeded = TotalSucceeded st,
     cs_TotalFailed = TotalFailed st, cs_TotalPanics = TotalPanics st\<rparr>"

end
