(* ===== verification/Fetch.thy ===== *)
theory Fetch
  imports Service
begin

text \<open>
  One search page: \<open>internal/crawler/page_fetch.go\<close> (the whole of \<open>fetchPageContent\<close>), \<open>humanize.go\<close> (the simulated user) and the
  part of \<open>detect.go\<close> that looks at a page. A run of the goroutine returns, panics, or is still in its loop when the fuel is
  used up; the fuel of the scroll loop is the number of its half seconds in the page timeout, and two.
\<close>

datatype 'a run = Done 'a | Panic | NoFuel

section \<open>The simulated user\<close>

record humanBehaviorConfig =
  EnableMouseMove :: bool
  EnableRandomScroll :: bool
  MinScrollPixels :: int
  MaxScrollPixels :: int
  ActionDelay :: int

definition defaultHumanBehavior :: humanBehaviorConfig where
  "defaultHumanBehavior = \<lparr>EnableMouseMove = True, EnableRandomScroll = True, MinScrollPixels = 200, MaxScrollPixels = 500,
     ActionDelay = 300 * Millisecond\<rparr>"

text \<open>\<open>rand.Intn\<close> panics on a bound that is not positive.\<close>

definition Intn :: "('b, 'e) outside \<Rightarrow> int \<Rightarrow> 'b \<Rightarrow> int run \<times> 'b" where
  "Intn E n b = (if n \<le> 0 then (Panic, b) else (case Int63n E n b of (x, b1) \<Rightarrow> (Done x, b1)))"

definition randomMouseMove :: "('b, 'e) outside \<Rightarrow> 'b \<Rightarrow> unit run \<times> 'b" where
  "randomMouseMove E b = (case EvalViewport E b of (r, b1) \<Rightarrow>
     (let viewportWidth = (case r of Some (Some width, _) \<Rightarrow> width | _ \<Rightarrow> 1280);
          viewportHeight = (case r of Some (_, Some height) \<Rightarrow> height | _ \<Rightarrow> 800);
          margin = 100
      in (case Intn E (viewportWidth - 2 * margin) b1 of
            (Done x, b2) \<Rightarrow>
              (case Intn E (viewportHeight - 2 * margin) b2 of
                 (Done y, b3) \<Rightarrow> (Done (), snd (EvalMouse E (margin + x) (margin + y) b3))
               | (_, b3) \<Rightarrow> (Panic, b3))
          | (_, b2) \<Rightarrow> (Panic, b2))))"

definition randomScroll :: "('b, 'e) outside \<Rightarrow> int \<Rightarrow> int \<Rightarrow> 'b \<Rightarrow> unit run \<times> 'b" where
  "randomScroll E minPixels maxPixels b = (case Intn E (maxPixels - minPixels) b of
     (Done x, b1) \<Rightarrow> (Done (), snd (EvalScroll E (minPixels + x) b1))
   | (_, b1) \<Rightarrow> (Panic, b1))"

definition simulateHumanBehavior :: "('b, 'e) outside \<Rightarrow> 'b \<Rightarrow> unit run \<times> 'b" where
  "simulateHumanBehavior E b = (let c = defaultHumanBehavior in
     case (if EnableMouseMove c then randomMouseMove E b else (Done (), b)) of
       (Done _, b1) \<Rightarrow>
         (case BehaviorSleep E (ActionDelay c) b1 of (elapsed, b2) \<Rightarrow>
            if \<not> elapsed then (Done (), b2)
            else (case (if EnableRandomScroll c then randomScroll E (MinScrollPixels c) (MaxScrollPixels c) b2 else (Done (), b2)) of
                (Done _, b3) \<Rightarrow> (Done (), snd (BehaviorSleep E (ActionDelay c) b3))
              | (r, b3) \<Rightarrow> (r, b3)))
     | (r, b1) \<Rightarrow> (r, b1))"

section \<open>Looking at a page\<close>

definition isNoItemsPage :: "('b, 'e) outside \<Rightarrow> 'b \<Rightarrow> bool \<times> 'b" where
  "isNoItemsPage E b = (case PageElements E ''.merEmptyState'' b of (r, b1) \<Rightarrow>
     if (case r of Some elems \<Rightarrow> elems \<noteq> [] | None \<Rightarrow> False) then (True, b1)
     else (case getPageBodyText E b1 of (txt, b2) \<Rightarrow> (txt \<noteq> '''' \<and> containsAny txt noItemsHints, b2)))"

definition blocked_info :: "string \<times> string \<Rightarrow> bool" where
  "blocked_info i = (let title = ToLower (fst i); url = ToLower (snd i) in
     ((title = ''about:blank'' \<or> title = '''') \<and> (url = ''about:blank'' \<or> url = '''')) \<or> containsAny title blockedTitles)"

definition isBlockedPage :: "('b, 'e) outside \<Rightarrow> 'b \<Rightarrow> bool \<times> 'b" where
  "isBlockedPage E b = (case Info E b of (r, b1) \<Rightarrow>
     if (case r of Some i \<Rightarrow> blocked_info i | None \<Rightarrow> False) then (True, b1)
     else (case getPageBodyText E b1 of (txt, b2) \<Rightarrow>
        if length txt < 50 then (True, b2) else (containsAny (ToLower txt) blockedHints, b2)))"

definition challenge_selectors :: "(string \<times> string) list" where
  \<open>challenge_selectors = [
     (''iframe[src*="cloudflare"], iframe[src*="challenges"]'', ''cloudflare_challenge''),
     (''#challenge-form, #challenge-running, #challenge-stage'', ''cloudflare_challenge''),
     (''.cf-turnstile, [data-sitekey]'', ''cloudflare_challenge''),
     (''.g-recaptcha, .h-captcha, [class*="recaptcha"], [class*="hcaptcha"]'', ''captcha''),
     (''[class*="ray-id"], .ray_id'', ''cloudflare_challenge'')]\<close>

fun first_selector :: "('b, 'e) outside \<Rightarrow> (string \<times> string) list \<Rightarrow> 'b \<Rightarrow> string \<times> 'b" where
  "first_selector E [] b = ('''', b)"
| "first_selector E ((sel, kind) # sels) b = (case PageElement E sel b of
     (Some _, b1) \<Rightarrow> (kind, b1) | (None, b1) \<Rightarrow> first_selector E sels b1)"

definition detectBlockTypeFromPage :: "('b, 'e) outside \<Rightarrow> 'b \<Rightarrow> string \<times> 'b" where
  "detectBlockTypeFromPage E b = first_selector E challenge_selectors b"

section \<open>The steps of a fetch\<close>

record PageFetchOptions =
  SkipHumanize :: bool
  SkipCookies :: bool
  SkipBlockDetection :: bool
  PageNum :: int

text \<open>\<open>ctx.Err ()\<close> as an operand of \<open>%w\<close>, and the error of a context that ran out of time.\<close>

definition ctx_error :: "('s, 'b, 'e) service \<Rightarrow> ('s, 'd, 'b) crawler \<Rightarrow> err" where
  "ctx_error S st = (case CtxErr (ext S) (out st) of Some e \<Rightarrow> e | None \<Rightarrow> errorf ''%!w(<nil>)'')"

definition DeadlineExceeded :: err where
  "DeadlineExceeded = \<lparr>e_msg = ''context deadline exceeded'', e_ctx = True\<rparr>"

text \<open>1, 2: the page and the scripts that hide the automation.\<close>

definition open_page :: "('s, 'b, 'e) service \<Rightarrow> nat \<Rightarrow> ('s, 'd, 'b) crawler \<Rightarrow> err option \<times> ('s, 'd, 'b) crawler" where
  "open_page S n st = (case call_out (CreatePage (ext S) n) st of
     (Ready (Some e), st1) \<Rightarrow> (Some (wrapf ''create page failed'' e), st1)
   | (Timer, st1) \<Rightarrow> (Some (errorf ''create page timeout after 10s''), st1)
   | (CtxDone, st1) \<Rightarrow> (Some (wrapf ''context cancelled during page creation'' (ctx_error S st1)), st1)
   | (Ready None, st1) \<Rightarrow>
      (case call_out (ApplyStealth (ext S)) st1 of
         (Ready (Some e), st2) \<Rightarrow> (Some (wrapf ''apply stealth script'' e), run_out (ClosePage (ext S)) st2)
       | (Timer, st2) \<Rightarrow> (Some (errorf ''apply stealth script timeout after 5s''), run_out (ClosePage (ext S)) st2)
       | (CtxDone, st2) \<Rightarrow>
           (Some (wrapf ''context cancelled during stealth script'' (ctx_error S st2)), run_out (ClosePage (ext S)) st2)
       | (Ready None, st2) \<Rightarrow> (None, st2)))"

text \<open>3 to 9: settings, cookies, navigation, waiting, the simulated user.\<close>

definition load_page :: "('s, 'b, 'e) service \<Rightarrow> string \<Rightarrow> PageFetchOptions \<Rightarrow> ('s, 'd, 'b) crawler
    \<Rightarrow> err option run \<times> ('s, 'd, 'b) crawler" where
  "load_page S url opts st = (let st1 = run_out (SetupPage (ext S) (defaultUA S)) st;
       st2 = (if SkipCookies opts then st1 else snd (LoadCookies S st1))
     in case call_out (Navigate (ext S) url) st2 of
          (Ready (Some e), st3) \<Rightarrow> (Done (Some (wrapf ''navigate'' e)), st3)
        | (Timer, st3) \<Rightarrow> (Done (Some (wrapf ''navigate timeout'' DeadlineExceeded)), st3)
        | (CtxDone, st3) \<Rightarrow> (Done (Some (wrapf ''navigate timeout'' (ctx_error S st3))), st3)
        | (Ready None, st3) \<Rightarrow> (let st4 = run_out (WaitLoaded (ext S)) st3 in
            if SkipHumanize opts then (Done None, st4)
            else (case call_out (simulateHumanBehavior (ext S)) st4 of
                (Done _, st5) \<Rightarrow> (Done None, st5) | (Panic, st5) \<Rightarrow> (Panic, st5) | (NoFuel, st5) \<Rightarrow> (NoFuel, st5))))"

text \<open>10: the blank page and the traces of a challenge.\<close>

definition blocked_error :: "string \<Rightarrow> err" where
  "blocked_error blockType = errorf (''blocked_page: '' @ blockType)"

definition check_page :: "('s, 'b, 'e) service \<Rightarrow> PageFetchOptions \<Rightarrow> ('s, 'd, 'b) crawler
    \<Rightarrow> err option \<times> (string \<times> string) option \<times> ('s, 'd, 'b) crawler" where
  "check_page S opts st = (case call_out (Info (ext S)) st of (info, st1) \<Rightarrow>
     if (case info of Some (title, _) \<Rightarrow> title = ''about:blank'' \<or> title = '''' | None \<Rightarrow> False) then
       (let blockType = detectBlockType (fst (the info)) '''';
            st2 = run_out (Diagnose (ext S) ''blank_page'') st1
        in (Some (blocked_error blockType), info, if SkipBlockDetection opts then st2 else handleBlockEvent S blockType st2))
     else if SkipBlockDetection opts then (None, info, st1)
     else (case call_out (detectBlockTypeFromPage (ext S)) st1 of (domBlockType, st2) \<Rightarrow>
        if domBlockType \<noteq> '''' then
          (Some (blocked_error domBlockType), info,
           handleBlockEvent S domBlockType (run_out (Diagnose (ext S) (''blocked_'' @ domBlockType)) st2))
        else (None, info, st2)))"

definition item_selector :: string where
  \<open>item_selector = ''[data-testid="item-cell"]''\<close>

definition race_selectors :: "string list" where
  \<open>race_selectors = [item_selector, ''.merEmptyState'', ''[data-testid="search-result-empty"]'',
     ''[class*="challenge"], [id*="challenge"]'']\<close>

definition race_error :: "race \<Rightarrow> err option" where
  "race_error r = (case r of
     Won k \<Rightarrow> (if k = 0 then None else if k = 1 then Some (errorf ''no_items_state'')
       else if k = 2 then Some (errorf ''no_items'') else Some (errorf ''challenge_page''))
   | RaceError e \<Rightarrow> Some e
   | RaceTimeout e \<Rightarrow> Some (wrapf ''race timeout'' e))"

text \<open>11, after the race was lost: no items, a challenge, a blocked page, or an error. \<open>Inr ()\<close> is an empty page.\<close>

definition lost_race :: "('s, 'b, 'e) service \<Rightarrow> PageFetchOptions \<Rightarrow> (string \<times> string) option \<Rightarrow> err \<Rightarrow> ('s, 'd, 'b) crawler
    \<Rightarrow> (err + unit) \<times> ('s, 'd, 'b) crawler" where
  "lost_race S opts info e st =
     (case (if e_msg e = ''no_items_state'' \<or> e_msg e = ''no_items'' then (True, st) else call_out (isNoItemsPage (ext S)) st) of
        (True, st1) \<Rightarrow> (Inr (), st1)
      | (False, st1) \<Rightarrow>
         if e_msg e = ''challenge_page'' then
           (Inl (errorf ''blocked_page: challenge''), run_out (Diagnose (ext S) ''challenge_page'') st1)
         else (case (if SkipBlockDetection opts then (False, st1) else call_out (isBlockedPage (ext S)) st1) of
             (True, st2) \<Rightarrow>
               (case (case info of None \<Rightarrow> (''unknown'', st2)
                      | Some (title, _) \<Rightarrow> (case call_out (getPageBodyText (ext S)) st2 of (txt, st3) \<Rightarrow> (detectBlockType title txt, st3))) of
                  (blockType, st3) \<Rightarrow> (Inl (blocked_error blockType),
                    handleBlockEvent S blockType (run_out (Diagnose (ext S) (''blocked_'' @ blockType)) st3)))
           | (False, st2) \<Rightarrow> (Inl (wrapf ''wait for items'' e),
               if e_ctx e \<or> Contains (e_msg e) ''context deadline exceeded''
               then run_out (Diagnose (ext S) ''wait_for_items'') st2 else st2)))"

text \<open>12: the items seen so far, in the order they were first seen, and the extraction of the visible ones.\<close>

fun add_items :: "'e dom \<Rightarrow> 'e list \<Rightarrow> Item list \<Rightarrow> nat \<Rightarrow> nat \<times> Item list" where
  "add_items D [] itemsMap newCount = (newCount, itemsMap)"
| "add_items D (el # els) itemsMap newCount = (case extractItem D el of
     Inl _ \<Rightarrow> add_items D els itemsMap newCount
   | Inr item \<Rightarrow>
       if it_SourceId item = '''' then add_items D els itemsMap newCount
       else if it_SourceId item \<in> it_SourceId ` set itemsMap then add_items D els itemsMap newCount
       else add_items D els (itemsMap @ [item]) (newCount + 1))"

definition extractVisibleItems :: "('s, 'b, 'e) service \<Rightarrow> Item list \<Rightarrow> ('s, 'd, 'b) crawler
    \<Rightarrow> (nat \<times> Item list) \<times> ('s, 'd, 'b) crawler" where
  "extractVisibleItems S itemsMap st = (case call_out (PageElements (ext S) item_selector) st of
     (None, st1) \<Rightarrow> ((0, itemsMap), st1)
   | (Some elements, st1) \<Rightarrow> (add_items (dom (ext S)) elements itemsMap 0, st1))"

fun scroll_loop :: "nat \<Rightarrow> ('s, 'b, 'e) service \<Rightarrow> int \<Rightarrow> int \<Rightarrow> int \<Rightarrow> Item list \<Rightarrow> ('s, 'd, 'b) crawler
    \<Rightarrow> Item list option \<times> ('s, 'd, 'b) crawler" where
  "scroll_loop 0 S limit deadline noGrowthAttempts itemsMap st = (None, st)"
| "scroll_loop (Suc fuel) S limit deadline noGrowthAttempts itemsMap st =
     (if int (length itemsMap) \<ge> limit then (Some itemsMap, st)
      else (case call_out (ScrollSelect (ext S) deadline) (run_out (ScrollPage (ext S)) st) of
          (True, st1) \<Rightarrow> (Some itemsMap, st1)
        | (False, st1) \<Rightarrow>
            (case extractVisibleItems S itemsMap st1 of ((newCount, itemsMap'), st2) \<Rightarrow>
               if newCount = 0 then
                 (if noGrowthAttempts + 1 \<ge> 3 \<and> itemsMap' \<noteq> [] then (Some itemsMap', st2)
                  else scroll_loop fuel S limit deadline (noGrowthAttempts + 1) itemsMap' st2)
               else scroll_loop fuel S limit deadline 0 itemsMap' st2)))"

definition fetch_limit :: "('s, 'b, 'e) service \<Rightarrow> int" where
  "fetch_limit S = (if maxFetchCount S \<le> 0 then 50 else maxFetchCount S)"

definition scroll_fuel :: "('s, 'b, 'e) service \<Rightarrow> nat" where
  "scroll_fuel S = nat (pageTimeout S div scrollWaitInterval) + 2"

text \<open>12 to 14: the list of a map comes in no particular order, cut at the limit; the cookies; the success.\<close>

definition collect_items :: "('s, 'b, 'e) service \<Rightarrow> PageFetchOptions \<Rightarrow> ('s, 'd, 'b) crawler
    \<Rightarrow> Item list run \<times> ('s, 'd, 'b) crawler" where
  "collect_items S opts st = (let limit = fetch_limit S; deadline = Clock (ext S) (out st) + pageTimeout S in
     case extractVisibleItems S [] st of ((_, itemsMap), st1) \<Rightarrow>
       (case scroll_loop (scroll_fuel S) S limit deadline 0 itemsMap st1 of
          (None, st2) \<Rightarrow> (NoFuel, st2)
        | (Some itemsMap', st2) \<Rightarrow>
            (case call_out (MapOrder (ext S) itemsMap') st2 of (listed, st3) \<Rightarrow>
               (let items = take (nat limit) listed;
                    st4 = (if \<not> SkipCookies opts \<and> items \<noteq> [] then snd (SaveCookies S st3) else st3)
                in (Done items, RecordSuccess S st4)))))"

definition read_page :: "('s, 'b, 'e) service \<Rightarrow> PageFetchOptions \<Rightarrow> ('s, 'd, 'b) crawler
    \<Rightarrow> (err + Item list) run \<times> ('s, 'd, 'b) crawler" where
  "read_page S opts st = (case check_page S opts st of
     (Some e, _, st1) \<Rightarrow> (Done (Inl e), st1)
   | (None, info, st1) \<Rightarrow>
      (case call_out (Race (ext S) race_selectors) st1 of (r, st2) \<Rightarrow>
         (case race_error r of
            Some e \<Rightarrow>
              (case lost_race S opts info e
                  (case r of RaceTimeout _ \<Rightarrow> run_out (Diagnose (ext S) ''wait_for_items'') st2 | _ \<Rightarrow> st2) of
                 (Inl e', st3) \<Rightarrow> (Done (Inl e'), st3)
               | (Inr _, st3) \<Rightarrow> (Done (Inr []), st3))
          | None \<Rightarrow>
              (case collect_items S opts st2 of
                 (Done items, st3) \<Rightarrow> (Done (Inr items), st3)
               | (Panic, st3) \<Rightarrow> (Panic, st3) | (NoFuel, st3) \<Rightarrow> (NoFuel, st3)))))"

definition fetchPageContent :: "('s, 'b, 'e) service \<Rightarrow> nat \<Rightarrow> string \<Rightarrow> PageFetchOptions \<Rightarrow> ('s, 'd, 'b) crawler
    \<Rightarrow> (err + Item list) run \<times> ('s, 'd, 'b) crawler" where
  "fetchPageContent S n url opts st = (case open_page S n st of
     (Some e, st1) \<Rightarrow> (Done (Inl e), st1)
   | (None, st1) \<Rightarrow>
      (case load_page S url opts st1 of
         (Done (Some e), st2) \<Rightarrow> (Done (Inl e), run_out (ClosePage (ext S)) st2)
       | (Done None, st2) \<Rightarrow>
           (case read_page S opts st2 of (r, st3) \<Rightarrow> (r, run_out (ClosePage (ext S)) st3))
       | (Panic, st2) \<Rightarrow> (Panic, run_out (ClosePage (ext S)) st2)
       | (NoFuel, st2) \<Rightarrow> (NoFuel, st2)))"

end
