(* ===== verification/Crawl.thy ===== *)
theory Crawl
  imports Fetch
begin

text \<open>
  A task: \<open>internal/crawler/fixed_pages.go\<close> (the pages of a keyword) and \<open>crawl.go\<close> (a crawl with its rate limit, its switch
  to the proxy and its one retry, and the worker that takes a task from the queue, pushes its result and acknowledges it).
  A panic inside a crawl is not in the goroutine that recovers: it ends the process, here \<open>Panic\<close>.
\<close>

section \<open>The pages of a keyword\<close>

definition page_count :: "i32 \<Rightarrow> int" where
  "page_count n = (if sint n \<le> 0 then 3 else sint n)"

definition on_sale_page :: "string \<Rightarrow> int \<Rightarrow> string \<times> PageFetchOptions" where
  "on_sale_page keyword page = (BuildMercariURLWithStatus keyword ITEM_STATUS_ON_SALE page,
     \<lparr>SkipHumanize = page > 0, SkipCookies = page > 0, SkipBlockDetection = False, PageNum = page\<rparr>)"

definition sold_page :: "string \<Rightarrow> int \<Rightarrow> int \<Rightarrow> string \<times> PageFetchOptions" where
  "sold_page keyword pagesOnSale page = (BuildMercariURLWithStatus keyword ITEM_STATUS_SOLD page,
     \<lparr>SkipHumanize = True, SkipCookies = True, SkipBlockDetection = False, PageNum = pagesOnSale + page\<rparr>)"

definition mark_status :: "ItemStatus \<Rightarrow> Item list \<Rightarrow> Item list" where
  "mark_status status items = map (\<lambda>item. item\<lparr>it_Status := status\<rparr>) items"

text \<open>The loop over the pages of one status: a page that fails is skipped, an empty one is the last.\<close>

fun page_loop :: "('s, 'b, 'e) service \<Rightarrow> nat \<Rightarrow> string \<Rightarrow> ItemStatus \<Rightarrow> (int \<Rightarrow> string \<times> PageFetchOptions) \<Rightarrow> int list
    \<Rightarrow> Item list \<Rightarrow> int \<Rightarrow> ('s, 'd, 'b) crawler \<Rightarrow> (err + Item list \<times> int) run \<times> ('s, 'd, 'b) crawler" where
  "page_loop S n phase status page_of [] allItems crawled st = (Done (Inr (allItems, crawled)), st)"
| "page_loop S n phase status page_of (page # pages) allItems crawled st =
     (if CtxErr (ext S) (out st) \<noteq> None
      then (Done (Inl (wrapf (''context cancelled during '' @ phase @ '' crawl'') (ctx_error S st))), st)
      else (case fetchPageContent S n (fst (page_of page)) (snd (page_of page)) st of
          (Done (Inl e), st1) \<Rightarrow> page_loop S n phase status page_of pages allItems crawled st1
        | (Done (Inr items), st1) \<Rightarrow>
            (if items = [] then (Done (Inr (allItems, crawled + 1)), st1)
             else page_loop S n phase status page_of pages (allItems @ mark_status status items) (crawled + 1) st1)
        | (Panic, st1) \<Rightarrow> (Panic, st1)
        | (NoFuel, st1) \<Rightarrow> (NoFuel, st1)))"

definition crawl_pages :: "('s, 'b, 'e) service \<Rightarrow> nat \<Rightarrow> CrawlRequest \<Rightarrow> ('s, 'd, 'b) crawler
    \<Rightarrow> (err + CrawlResponse) run \<times> ('s, 'd, 'b) crawler" where
  "crawl_pages S n req st = (let keyword = req_Keyword req;
       pagesOnSale = page_count (req_PagesOnSale req); pagesSold = page_count (req_PagesSold req)
     in case page_loop S n ''on_sale'' ITEM_STATUS_ON_SALE (on_sale_page keyword) [0..pagesOnSale - 1] [] 0 st of
          (Done (Inr (onSale, crawled1)), st1) \<Rightarrow>
            (case page_loop S n ''sold'' ITEM_STATUS_SOLD (sold_page keyword pagesOnSale) [0..pagesSold - 1] onSale crawled1 st1 of
               (Done (Inr (allItems, crawled2)), st2) \<Rightarrow>
                 (Done (Inr \<lparr>resp_IpId = req_IpId req, resp_Items = allItems, resp_TotalFound = word_of_nat (length allItems),
                    resp_ErrorMessage = '''', resp_TaskId = '''', resp_CrawledAt = 0,
                    resp_PagesCrawled = word_of_int crawled2, resp_RetryCount = 0\<rparr>), st2)
             | (Done (Inl e), st2) \<Rightarrow> (Done (Inl e), st2)
             | (Panic, st2) \<Rightarrow> (Panic, st2)
             | (NoFuel, st2) \<Rightarrow> (NoFuel, st2))
        | (Done (Inl e), st1) \<Rightarrow> (Done (Inl e), st1)
        | (Panic, st1) \<Rightarrow> (Panic, st1)
        | (NoFuel, st1) \<Rightarrow> (NoFuel, st1))"

definition crawlWithFixedPages :: "('s, 'b, 'e) service \<Rightarrow> CrawlRequest \<Rightarrow> ('s, 'd, 'b) crawler
    \<Rightarrow> (err + CrawlResponse) run \<times> ('s, 'd, 'b) crawler" where
  "crawlWithFixedPages S req st = (case trackPageStart st of
     ((_, False), st1) \<Rightarrow> (Done (Inl (errorf ''browser draining, task needs retry'')), st1)
   | ((None, True), st1) \<Rightarrow> (Done (Inl (errorf ''browser not initialized'')), st1)
   | ((Some n, True), st1) \<Rightarrow> (case crawl_pages S n req st1 of (r, st2) \<Rightarrow> (r, trackPageEnd st2)))"

section \<open>A crawl\<close>

text \<open>The wait for a token: an error of the limiter lets the crawl through, and so does the end of the longest wait.\<close>

fun rate_wait :: "nat \<Rightarrow> ('s, 'b, 'e) service \<Rightarrow> int \<Rightarrow> ('s, 'd, 'b) crawler \<Rightarrow> err option run \<times> ('s, 'd, 'b) crawler" where
  "rate_wait 0 S deadline st = (NoFuel, st)"
| "rate_wait (Suc fuel) S deadline st =
     (case Allow (outOfRange S) (luaNumbers S) (rateLimiter S) (Clock (ext S) (out st) div Millisecond) rateLimitKey
          (f64_to_int64 (outOfRange S) (RateLimit (App (cfg S)))) (f64_to_int64 (outOfRange S) (RateBurst (App (cfg S)))) (net st) of
        (Inl _, w) \<Rightarrow> (Done None, st\<lparr>net := w\<rparr>)
      | (Inr True, w) \<Rightarrow> (Done None, st\<lparr>net := w\<rparr>)
      | (Inr False, w) \<Rightarrow>
          (case call_out (RateSelect (ext S) deadline) (st\<lparr>net := w\<rparr>) of
             (WaitCancelled, st1) \<Rightarrow> (Done (Some (wrapf ''context cancelled during rate limit wait'' (ctx_error S st1))), st1)
           | (DeadlinePassed, st1) \<Rightarrow> (Done None, st1)
           | (Elapsed, st1) \<Rightarrow> rate_wait fuel S deadline st1))"

definition rate_fuel :: nat where
  "rate_fuel = nat (rateLimitMaxWait div rateLimitPoll) + 2"

definition jitter_wait :: "('s, 'b, 'e) service \<Rightarrow> ('s, 'd, 'b) crawler \<Rightarrow> err option \<times> ('s, 'd, 'b) crawler" where
  "jitter_wait S st = (if isUsingProxy st then (None, st)
     else (case call_out (Int63n (ext S) (jitterMaxDelay - jitterMinDelay)) st of (x, st1) \<Rightarrow>
       (case call_out (Sleep (ext S) (jitterMinDelay + x)) st1 of
          (True, st2) \<Rightarrow> (None, st2)
        | (False, st2) \<Rightarrow> (Some (wrapf ''context cancelled during jitter'' (ctx_error S st2)), st2))))"

definition admit :: "('s, 'b, 'e) service \<Rightarrow> ('s, 'd, 'b) crawler \<Rightarrow> err option run \<times> ('s, 'd, 'b) crawler" where
  "admit S st = (case (case rateLimiter S of None \<Rightarrow> (Done None, st)
       | Some _ \<Rightarrow> rate_wait rate_fuel S (Clock (ext S) (out st) + rateLimitMaxWait) st) of
     (Done None, st1) \<Rightarrow> (case jitter_wait S st1 of (r, st2) \<Rightarrow> (Done r, st2))
   | (r, st1) \<Rightarrow> (r, st1))"

definition count_task :: "('s, 'b, 'e) service \<Rightarrow> nat \<Rightarrow> ('s, 'd, 'b) crawler \<Rightarrow> ('s, 'd, 'b) crawler" where
  "count_task S attempt st = (if attempt = 0 \<and> maxTasks S > 0 then
     (let newCount = taskCounter st + 1; st1 = st\<lparr>taskCounter := newCount\<rparr> in
      if newCount \<ge> maxTasks S then st1\<lparr>restartSignal := True\<rparr> else st1)
     else st)"

definition fail_task :: "nat \<Rightarrow> ('s, 'd, 'b) crawler \<Rightarrow> ('s, 'd, 'b) crawler" where
  "fail_task attempt st = (if attempt = 0 then st\<lparr>TotalFailed := TotalFailed st + 1\<rparr> else st)"

definition succeed_task :: "('s, 'b, 'e) service \<Rightarrow> CrawlRequest \<Rightarrow> nat \<Rightarrow> CrawlResponse \<Rightarrow> ('s, 'd, 'b) crawler
    \<Rightarrow> CrawlResponse \<times> ('s, 'd, 'b) crawler" where
  "succeed_task S req attempt response st = (let st1 = resetConsecutiveFailures S st in
     if attempt = 0 then (response\<lparr>resp_TaskId := req_TaskId req, resp_CrawledAt := Clock (ext S) (out st1) div Second\<rparr>,
        st1\<lparr>TotalSucceeded := TotalSucceeded st1 + 1\<rparr>)
     else (response, st1))"

text \<open>After a failure: give up, or switch to the proxy and retry (\<open>Inr ()\<close>).\<close>

definition after_failure :: "('s, 'b, 'e) service \<Rightarrow> nat \<Rightarrow> err \<Rightarrow> ('s, 'd, 'b) crawler \<Rightarrow> (err + unit) \<times> ('s, 'd, 'b) crawler" where
  "after_failure S attempt e st = (case incrConsecutiveFailures S st of (failureCount, st1) \<Rightarrow>
     if proxyAutoSwitch S \<and> attempt = 0 \<and> \<not> isUsingProxy st1 \<and> shouldActivateProxy (Some e) then
       (if failureCount < proxyFailureThreshold S then (Inl e, fail_task attempt st1)
        else (case checkProxyHealthWithRetry 2 0 S st1 of
            (False, st2) \<Rightarrow> (Inl (wrapf ''direct failed and proxy unhealthy'' e), fail_task attempt st2)
          | (True, st2) \<Rightarrow>
              (let st3 = snd (setProxyCooldown S (ProxyCooldown (App (cfg S))) (resetConsecutiveFailures S st2)) in
               if CtxErr (ext S) (out st3) \<noteq> None
               then (Inl (wrapf ''proxy activated, task needs retry'' e), fail_task attempt st3)
               else (Inr (), st3))))
     else (Inl e, fail_task attempt st1))"

text \<open>One attempt: it ends with a result, or asks for the next attempt (\<open>None\<close>).\<close>

definition crawl_attempt :: "('s, 'b, 'e) service \<Rightarrow> CrawlRequest \<Rightarrow> nat \<Rightarrow> ('s, 'd, 'b) crawler
    \<Rightarrow> (err + CrawlResponse) option run \<times> ('s, 'd, 'b) crawler" where
  "crawl_attempt S req attempt st =
     (case ensureBrowserState S (if attempt = 0 then st\<lparr>TotalProcessed := TotalProcessed st + 1\<rparr> else st) of
        (Some e, st1) \<Rightarrow> (Done (Some (Inl (wrapf ''ensure browser state'' e))), fail_task attempt st1)
      | (None, st1) \<Rightarrow>
         if attempt = 0 \<and> \<not> isUsingProxy st1 \<and> forceProxyOnce st1 then
           (case setProxyCooldown S (ProxyCooldown (App (cfg S))) (st1\<lparr>forceProxyOnce := False\<rparr>) of
              (Some e, st2) \<Rightarrow> (Done (Some (Inl e)), st2)
            | (None, st2) \<Rightarrow> (Done None, st2))
         else (case admit S st1 of
             (Panic, st2) \<Rightarrow> (Panic, st2)
           | (NoFuel, st2) \<Rightarrow> (NoFuel, st2)
           | (Done (Some e), st2) \<Rightarrow> (Done (Some (Inl e)), st2)
           | (Done None, st2) \<Rightarrow>
               (case crawlWithFixedPages S req st2 of
                  (Panic, st3) \<Rightarrow> (Panic, st3)
                | (NoFuel, st3) \<Rightarrow> (NoFuel, st3)
                | (Done (Inr response), st3) \<Rightarrow>
                    (case succeed_task S req attempt response (count_task S attempt st3) of (p, st4) \<Rightarrow> (Done (Some (Inr p)), st4))
                | (Done (Inl e), st3) \<Rightarrow>
                    (case after_failure S attempt e (count_task S attempt st3) of
                       (Inl e', st4) \<Rightarrow> (Done (Some (Inl e')), st4)
                     | (Inr _, st4) \<Rightarrow> (Done None, st4)))))"

lemma crawl_attempt_retries: "fst (crawl_attempt S req attempt st) = Done None \<Longrightarrow> attempt = 0"
  by (auto simp: crawl_attempt_def after_failure_def split: prod.splits option.splits run.splits sum.splits if_splits bool.splits)

function doCrawl :: "('s, 'b, 'e) service \<Rightarrow> CrawlRequest \<Rightarrow> nat \<Rightarrow> ('s, 'd, 'b) crawler
    \<Rightarrow> (err + CrawlResponse) run \<times> ('s, 'd, 'b) crawler" where
  "doCrawl S req attempt st = (case crawl_attempt S req attempt st of
     (Done (Some r), st1) \<Rightarrow> (Done r, st1)
   | (Done None, st1) \<Rightarrow> doCrawl S req (attempt + 1) st1
   | (Panic, st1) \<Rightarrow> (Panic, st1)
   | (NoFuel, st1) \<Rightarrow> (NoFuel, st1))"
  by pat_completeness auto
termination
proof (relation "measure (\<lambda>(_, _, attempt, _). 1 - attempt)", goal_cases)
  case (2 S req attempt st r st1)
  then have "fst (crawl_attempt S req attempt st) = Done None" by (metis fst_conv)
  then show ?case using crawl_attempt_retries by auto
qed simp

declare doCrawl.simps [simp del]

section \<open>The worker\<close>

text \<open>
  The goroutine of a task waits for the crawl or for the end of its time (\<open>timedOut\<close>: the \<open>select\<close> took the context). A crawl
  that was given up runs on until it notices; here it runs first.
\<close>

definition error_response :: "('s, 'b, 'e) service \<Rightarrow> CrawlRequest \<Rightarrow> err \<Rightarrow> ('s, 'd, 'b) crawler \<Rightarrow> CrawlResponse" where
  "error_response S t e st = \<lparr>resp_IpId = req_IpId t, resp_Items = [], resp_TotalFound = 0, resp_ErrorMessage = e_msg e,
     resp_TaskId = req_TaskId t, resp_CrawledAt = Clock (ext S) (out st) div Second, resp_PagesCrawled = 0, resp_RetryCount = 0\<rparr>"

definition task_response :: "('s, 'b, 'e) service \<Rightarrow> CrawlRequest \<Rightarrow> bool \<Rightarrow> err + CrawlResponse \<Rightarrow> ('s, 'd, 'b) crawler \<Rightarrow> CrawlResponse" where
  "task_response S t timedOut r st = (let resp = (if timedOut then error_response S t (wrapf ''task context timeout'' (ctx_error S st)) st
       else (case r of Inl e \<Rightarrow> error_response S t e st | Inr p \<Rightarrow> p))
     in if resp_TaskId resp = '''' then resp\<lparr>resp_TaskId := req_TaskId t\<rparr> else resp)"

definition finish_task :: "('s, 'b, 'e) service \<Rightarrow> CrawlRequest \<Rightarrow> bool \<Rightarrow> err + CrawlResponse \<Rightarrow> ('s, 'd, 'b) crawler \<Rightarrow> ('s, 'd, 'b) crawler" where
  "finish_task S t timedOut r st =
     (let w1 = snd (PushResult (redisQueue S) (queueCodec S) (Some (task_response S t timedOut r st)) (net st));
          w2 = (if timedOut then w1 else snd (AckTask (redisQueue S) (Some t) w1))
      in st\<lparr>net := w2\<rparr>)"

definition process_task :: "('s, 'b, 'e) service \<Rightarrow> CrawlRequest \<Rightarrow> bool \<Rightarrow> ('s, 'd, 'b) crawler \<Rightarrow> unit run \<times> ('s, 'd, 'b) crawler" where
  "process_task S t timedOut st = (case doCrawl S t 0 st of
     (Panic, st1) \<Rightarrow> (Panic, st1)
   | (NoFuel, st1) \<Rightarrow> (NoFuel, st1)
   | (Done r, st1) \<Rightarrow> (Done (), finish_task S t timedOut r st1))"

text \<open>One turn of \<open>StartWorker\<close>: nothing to do and errors of the queue only cost a pause.\<close>

definition worker_turn :: "('s, 'b, 'e) service \<Rightarrow> bool \<Rightarrow> ('s, 'd, 'b) crawler \<Rightarrow> unit run \<times> ('s, 'd, 'b) crawler" where
  "worker_turn S timedOut st =
     (case PopTask (redisQueue S) (queueCodec S) (Clock (ext S) (out st) div Second) (net st) of
        (Inl _, w) \<Rightarrow> (Done (), st\<lparr>net := w\<rparr>)
      | (Inr t, w) \<Rightarrow> process_task S t timedOut (st\<lparr>net := w\<rparr>))"

end
