(* ===== verification/CrawlProofs.thy ===== *)
theory CrawlProofs
  imports Crawl
begin

text \<open>
  What a crawl keeps and what it ends with. The laws of the outside are the locale \<open>outside_laws\<close>, the service on a Redis that
  keeps its promises the locale \<open>crawler_service\<close>; every step of a crawl is shown once to lead to a later state with the
  other keys of Redis untouched (\<open>later\<close>), and the theorems follow from that relation.
\<close>

section \<open>Time goes on outside\<close>

lemma ahead_refl [simp, intro]: "ahead E b b"
  by (simp add: ahead_def)

lemma ahead_trans [trans]: "ahead E a b \<Longrightarrow> ahead E b c \<Longrightarrow> ahead E a c"
  unfolding ahead_def by (meson order_trans)

context outside_laws
begin

lemma snd_aheadI: "(\<And>r b'. p = (r, b') \<Longrightarrow> ahead E b b') \<Longrightarrow> ahead E b (snd p)"
  by (cases p) auto

lemma mouse_ahead: "ahead E b (snd (EvalMouse E x y b))" "ahead E b (snd (EvalScroll E x b))" "ahead E b (snd (BehaviorSleep E d b))"
  by (rule snd_aheadI, erule call_ahead)+

lemma body_ahead: "getPageBodyText E b = (t, b') \<Longrightarrow> ahead E b b'"
  by (auto simp: getPageBodyText_def split: prod.splits option.splits dest: call_ahead)

lemma first_selector_ahead: "first_selector E sels b = (t, b') \<Longrightarrow> ahead E b b'"
proof (induction sels arbitrary: b)
  case (Cons p sels)
  obtain sel kind where p: "p = (sel, kind)" by fastforce
  obtain r b1 where r: "PageElement E sel b = (r, b1)" by fastforce
  then have "ahead E b b1" by (rule call_ahead)
  then show ?case using Cons p r by (cases r) (auto elim: ahead_trans)
qed simp

lemma noitems_ahead: "isNoItemsPage E b = (t, b') \<Longrightarrow> ahead E b b'"
  by (auto simp: isNoItemsPage_def split: prod.splits if_splits dest!: call_ahead body_ahead; meson ahead_trans pure_ahead mouse_ahead)

lemma blocked_ahead: "isBlockedPage E b = (t, b') \<Longrightarrow> ahead E b b'"
  by (auto simp: isBlockedPage_def split: prod.splits if_splits dest!: call_ahead body_ahead; meson ahead_trans pure_ahead mouse_ahead)

lemma intn_ahead: "Intn E n b = (r, b') \<Longrightarrow> ahead E b b'"
  by (auto simp: Intn_def split: prod.splits if_splits dest!: call_ahead)

lemma mouse_move_ahead: "randomMouseMove E b = (r, b') \<Longrightarrow> ahead E b b'"
  by (auto simp: randomMouseMove_def Let_def split: prod.splits run.splits dest!: call_ahead intn_ahead; meson ahead_trans pure_ahead mouse_ahead)

lemma random_scroll_ahead: "randomScroll E x y b = (r, b') \<Longrightarrow> ahead E b b'"
  by (auto simp: randomScroll_def Let_def split: prod.splits run.splits dest!: call_ahead intn_ahead; meson ahead_trans pure_ahead mouse_ahead)

lemma human_ahead:
  assumes "simulateHumanBehavior E b = (r, b')"
  shows "ahead E b b'"
proof -
  obtain r1 b1 where m: "randomMouseMove E b = (r1, b1)" by fastforce
  obtain e2 b2 where s: "BehaviorSleep E (ActionDelay defaultHumanBehavior) b1 = (e2, b2)" by fastforce
  obtain r3 b3 where c: "randomScroll E 200 500 b2 = (r3, b3)" by fastforce
  have h: "ahead E b b1" "ahead E b1 b2" "ahead E b2 b3"
    using m s c mouse_move_ahead call_ahead(8) random_scroll_ahead by blast+
  have "b' \<in> {b1, b2, b3, snd (BehaviorSleep E (ActionDelay defaultHumanBehavior) b3)}"
    using assms m s c by (auto simp: simulateHumanBehavior_def Let_def defaultHumanBehavior_def split: run.splits if_splits)
  then show ?thesis using h mouse_ahead(3) [of b3 "ActionDelay defaultHumanBehavior"] by (auto; meson ahead_trans)
qed

lemma bin_ahead: "browser_bin E c b = (r, b') \<Longrightarrow> ahead E b b'"
  by (auto simp: browser_bin_def split: prod.splits sum.splits if_splits dest!: call_ahead)

lemma start_ahead:
  assumes "startBrowser E c p b = (r, b')"
  shows "ahead E b b'"
proof -
  obtain rb b1 where a: "browser_bin E c b = (rb, b1)" by fastforce
  show ?thesis
  proof (cases rb)
    case (Inl e)
    then show ?thesis using a assms bin_ahead by (auto simp: startBrowser_def)
  next
    case (Inr bin)
    obtain i b2 where i: "Int63n E 5 b1 = (i, b2)" by fastforce
    have 2: "ahead E b b2" by (rule ahead_trans [OF bin_ahead [OF a] call_ahead(1) [OF i]])
    show ?thesis
    proof (cases "if p then map_sum id (\<lambda>p. Some p) (proxy_of E c) else Inr None")
      case (Inl e)
      then show ?thesis using assms a Inr i 2 by (auto simp: startBrowser_def)
    next
      case (Inr proxy)
      obtain rl b3 where l: "Launch E bin (Headless (Browser c)) (windowSizes ! nat i) (map_option fst proxy) b2 = (rl, b3)" by fastforce
      have 3: "ahead E b b3" by (rule ahead_trans [OF 2 call_ahead(11) [OF l]])
      show ?thesis
      proof (cases rl)
        case (Inl e)
        then show ?thesis using assms a \<open>rb = Inr bin\<close> i l Inr 3 by (auto simp: startBrowser_def)
      next
        case (Inr ws)
        obtain rc b4 where c: "Connect E ws (Option.bind proxy snd) b3 = (rc, b4)" by fastforce
        then have "ahead E b b4" by (rule ahead_trans [OF 3 call_ahead(12)])
        moreover have "b' = b4" using assms a \<open>rb = Inr bin\<close> i l c Inr \<open>(if p then map_sum id (\<lambda>p. Some p) (proxy_of E c) else Inr None) = Inr proxy\<close>
          by (auto simp: startBrowser_def split: sum.splits)
        ultimately show ?thesis by simp
      qed
    qed
  qed
qed

lemma proxy_ok_ahead: "proxy_page_ok E b = (r, b') \<Longrightarrow> ahead E b b'"
  by (auto simp: proxy_page_ok_def split: prod.splits option.splits if_splits dest!: call_ahead body_ahead; meson ahead_trans pure_ahead mouse_ahead)

lemma check_proxy_ahead: "check_proxy_browser E n b = (r, b') \<Longrightarrow> ahead E b b'"
  by (auto simp: check_proxy_browser_def split: prod.splits bool.splits dest!: call_ahead proxy_ok_ahead; meson ahead_trans pure_ahead mouse_ahead)

end


section \<open>The keys of the crawler\<close>

definition crawler_keys :: "string set" where
  "crawler_keys = {rateLimitKey, proxyCooldownKey, consecutiveFailuresKey, cookieCacheKey, consecutiveBlockKey}"

lemma crawler_keys_simps [simp]:
  "rateLimitKey \<in> crawler_keys" "proxyCooldownKey \<in> crawler_keys" "consecutiveFailuresKey \<in> crawler_keys"
  "cookieCacheKey \<in> crawler_keys" "consecutiveBlockKey \<in> crawler_keys"
  by (simp_all add: crawler_keys_def)

text \<open>Two keyspaces that agree outside them.\<close>

definition same_keys :: "keyspace \<Rightarrow> keyspace \<Rightarrow> bool" where
  "same_keys v v' \<longleftrightarrow> (\<forall>k. k \<notin> crawler_keys \<longrightarrow> lists v' k = lists v k \<and> sets v' k = sets v k \<and> hashes v' k = hashes v k
     \<and> zsets v' k = zsets v k \<and> strings v' k = strings v k \<and> ttls v' k = ttls v k)"

lemma same_keys_refl [simp, intro]: "same_keys v v"
  by (simp add: same_keys_def)

lemma same_keys_trans: "same_keys u v \<Longrightarrow> same_keys v w \<Longrightarrow> same_keys u w"
  by (simp add: same_keys_def)

lemma same_keysD: "same_keys v v' \<Longrightarrow> k \<notin> crawler_keys \<Longrightarrow> lists v' k = lists v k \<and> sets v' k = sets v k \<and> hashes v' k = hashes v k"
  by (simp add: same_keys_def)

section \<open>Later states of a crawler\<close>

locale crawler_service = redis_counters R view "counters S" + outside_laws "ext S"
  for R :: "'s redis" and view :: "'s \<Rightarrow> keyspace" and S :: "('s, 'b, 'e) service" +
  assumes rdb_ok: "rdb S = None \<or> rdb S = Some R" and limiter_ok: "rateLimiter S = None \<or> rateLimiter S = Some R"
    and cooldown_pos: "0 < ProxyCooldown (App (cfg S))"
begin

definition later :: "('s, 'd, 'b) crawler \<Rightarrow> ('s, 'd, 'b) crawler \<Rightarrow> bool" where
  "later st st' \<longleftrightarrow> ahead (ext S) (out st) (out st') \<and> same_keys (view (redis_st (net st))) (view (redis_st (net st')))
     \<and> db_st (net st') = db_st (net st) \<and> (quiet (net st) \<longrightarrow> quiet (net st')) \<and> activePages st' = activePages st \<and> forceProxyOnce st' = forceProxyOnce st
     \<and> TotalProcessed st' = TotalProcessed st \<and> TotalSucceeded st' = TotalSucceeded st \<and> TotalFailed st' = TotalFailed st"

lemma later_refl [simp, intro]: "later st st"
  by (simp add: later_def)

lemma later_trans [trans]: "later a b \<Longrightarrow> later b c \<Longrightarrow> later a c"
  by (auto simp: later_def elim: ahead_trans same_keys_trans)

lemma later_redis:
  assumes "call_redis c st = (r, st')" and "\<And>s. same_keys (view s) (view (snd (c s)))"
  shows "later st st'"
proof -
  obtain w where w: "rdo c (net st) = (r, w)" "st' = st\<lparr>net := w\<rparr>"
    using assms(1) by (auto simp: call_redis_def split: prod.splits)
  have "same_keys (view (redis_st (net st))) (view (redis_st w))"
    by (rule rdo_preserves_eq [OF w(1), where P = "\<lambda>s. same_keys (view (redis_st (net st))) (view s)"])
      (use assms(2) same_keys_trans in \<open>blast, simp\<close>)
  moreover have "db_st w = db_st (net st)" using other_state(2) [of c "net st"] w(1) by simp
  moreover have "quiet (net st) \<longrightarrow> quiet w" using w(1) by auto
  ultimately show ?thesis using w(2) by (simp add: later_def)
qed

text \<open>The commands.\<close>

lemma same_del: "k \<in> crawler_keys \<Longrightarrow> same_keys (view s) (view (DEL R [k] s))"
  by (auto simp: same_keys_def del)

lemma same_set: "k \<in> crawler_keys \<Longrightarrow> 0 < d \<Longrightarrow> same_keys (view s) (view (SET_EX R k v d s))"
  by (auto simp: same_keys_def set_ex)

lemma same_expire: "k \<in> crawler_keys \<Longrightarrow> 0 < d \<Longrightarrow> same_keys (view s) (view (EXPIRE R k d s))"
  by (auto simp: same_keys_def expire)

lemma same_incr:
  assumes "k \<in> crawler_keys"
  shows "same_keys (view s) (view (snd (INCR (counters S) k s)))"
proof (cases "strings (view s) k")
  case None
  then show ?thesis using incr_new [OF None] assms by (auto simp: same_keys_def)
next
  case (Some t)
  obtain n bad where p: "ParseInt 64 t = (n, bad)" by fastforce
  show ?thesis
  proof (cases "bad \<or> n = 2 ^ 63 - 1")
    case True
    then show ?thesis using incr_bad [OF Some] p by simp
  next
    case False
    then have "n < 2 ^ 63 - 1" using p by (auto simp: ParseInt_def Let_def split: prod.splits if_splits)
    then show ?thesis using incr_old [OF Some, of n] p False assms by (auto simp: same_keys_def)
  qed
qed

lemma same_incr_expire: "k \<in> crawler_keys \<Longrightarrow> 0 < d \<Longrightarrow> same_keys (view s) (view (snd (incr_expire R (counters S) k d s)))"
  using same_incr [of k s] same_expire same_keys_trans by (auto simp: incr_expire_def split: prod.splits)

lemma same_bucket: "same_keys (view s) (view (snd (tokenBucketLua L R rateLimitKey rate burst now q s)))"
proof (cases "rate \<le> 0 \<or> burst \<le> 0")
  case True
  then show ?thesis by (simp add: tokenBucketLua_def)
next
  case False
  then have "0 < bucket_ttl rate burst * Millisecond" using bucket_ttl_pos [of rate burst] by (simp add: Millisecond_def)
  then have "same_keys (view s) (view (store_bucket L R rateLimitKey rate burst t ts s))" for t ts
    by (auto simp: store_bucket_def same_keys_def expire hset)
  then show ?thesis by (auto simp: tokenBucketLua_def Let_def)
qed

lemma ttl_pos [simp]: "0 < cookieCacheTTL" "0 < consecutiveBlockTTL" "0 < consecutiveFailuresTTL"
  by (simp_all add: cookieCacheTTL_def consecutiveBlockTTL_def consecutiveFailuresTTL_def Minute_def Second_def)

text \<open>Rules that carry \<open>later st\<close> through a definition: its binds, its case distinctions, its calls.\<close>

lemma later_flow:
  "later st (snd p) \<Longrightarrow> (\<And>r st1. later st st1 \<Longrightarrow> later st (snd (f r st1))) \<Longrightarrow> later st (snd (case p of (r, st1) \<Rightarrow> f r st1))"
  "later st (snd p) \<Longrightarrow> (\<And>r st1. later st st1 \<Longrightarrow> later st (g r st1)) \<Longrightarrow> later st (case p of (r, st1) \<Rightarrow> g r st1)"
  "later st st' \<Longrightarrow> later st (snd (r, st'))"
  "later st (snd (e x)) \<Longrightarrow> later st (snd (Let x e))" "later st (se x) \<Longrightarrow> later st (Let x se)"
  "later st (snd a) \<Longrightarrow> (\<And>x. later st (snd (h x))) \<Longrightarrow> later st (snd (case q of None \<Rightarrow> a | Some x \<Rightarrow> h x))"
  "later st sa \<Longrightarrow> (\<And>x. later st (sh x)) \<Longrightarrow> later st (case q of None \<Rightarrow> sa | Some x \<Rightarrow> sh x)"
  "(\<And>x. later st (snd (l x))) \<Longrightarrow> (\<And>x. later st (snd (m x))) \<Longrightarrow> later st (snd (case sm of Inl x \<Rightarrow> l x | Inr x \<Rightarrow> m x))"
  "later st (snd a) \<Longrightarrow> later st (snd a') \<Longrightarrow> later st (snd (if c then a else a'))"
  "later st sa \<Longrightarrow> later st sb \<Longrightarrow> later st (if c then sa else sb)"
  "later st (snd a) \<Longrightarrow> later st (snd a') \<Longrightarrow> later st (snd (case c of True \<Rightarrow> a | False \<Rightarrow> a'))"
  "(\<And>x. later st (snd (h x))) \<Longrightarrow> later st (snd a) \<Longrightarrow> later st (snd a') \<Longrightarrow> later st (snd (case rn of Done x \<Rightarrow> h x | Panic \<Rightarrow> a | NoFuel \<Rightarrow> a'))"
  "(\<And>x. later st (snd (h x))) \<Longrightarrow> later st (snd a) \<Longrightarrow> later st (snd a') \<Longrightarrow> later st (snd (case aw of Ready x \<Rightarrow> h x | Timer \<Rightarrow> a | CtxDone \<Rightarrow> a'))"
  by (auto split: prod.splits option.splits sum.splits bool.splits run.splits awaited.splits simp: Let_def)

lemma later_update:
  "later st s \<Longrightarrow> later st (s\<lparr>cachedCookies := c, cacheTime := t, cookieCreatedAt := u\<rparr>)"
  "later st s \<Longrightarrow> later st (s\<lparr>inCooldown := i\<rparr>)" "later st s \<Longrightarrow> later st (s\<lparr>consecutiveBlocks := n\<rparr>)"
  "later st s \<Longrightarrow> later st (s\<lparr>consecutiveBlocks := n, inCooldown := i\<rparr>)"
  "later st s \<Longrightarrow> later st (s\<lparr>proxyCache := p, proxyCacheUntil := t\<rparr>)" "later st s \<Longrightarrow> later st (s\<lparr>draining := i, drainComplete := q\<rparr>)"
  "later st s \<Longrightarrow> later st (s\<lparr>browser := br\<rparr>)" "later st s \<Longrightarrow> later st (s\<lparr>currentIsProxy := p\<rparr>)"
  by (simp_all add: later_def)

lemma later_call: "later st s \<Longrightarrow> (\<And>b. ahead (ext S) b (snd (f b))) \<Longrightarrow> later st (snd (call_out f s))"
  using ahead_trans [of "ext S" "out st" "out s" "snd (f (out s))"] by (simp add: call_out_def later_def split_beta)

lemma later_run: "later st s \<Longrightarrow> (\<And>b. ahead (ext S) b (f b)) \<Longrightarrow> later st (run_out f s)"
  by (auto simp: run_out_def later_def elim: ahead_trans)

lemma later_cmd: "later st s \<Longrightarrow> (\<And>x. same_keys (view x) (view (snd (c x)))) \<Longrightarrow> later st (snd (call_redis c s))"
  by (metis later_redis later_trans prod.exhaust_sel)

lemma later_calls:
  "later st s \<Longrightarrow> later st (snd (call_out (Int63n (ext S) n) s))" "later st s \<Longrightarrow> later st (snd (call_out (RandFloat64 (ext S)) s))"
  "later st s \<Longrightarrow> later st (snd (call_out (MapOrder (ext S) items) s))" "later st s \<Longrightarrow> later st (snd (call_out (Sleep (ext S) d) s))"
  "later st s \<Longrightarrow> later st (snd (call_out (RateSelect (ext S) d) s))" "later st s \<Longrightarrow> later st (snd (call_out (ScrollSelect (ext S) d) s))"
  "later st s \<Longrightarrow> later st (snd (call_out (DrainSelect (ext S) d) s))" "later st s \<Longrightarrow> later st (snd (call_out (HealthSleep (ext S) d) s))"
  "later st s \<Longrightarrow> later st (snd (call_out (CloseBrowser (ext S) m) s))" "later st s \<Longrightarrow> later st (snd (call_out (ProbePage (ext S) m) s))"
  "later st s \<Longrightarrow> later st (snd (call_out (CreatePage (ext S) m) s))" "later st s \<Longrightarrow> later st (snd (call_out (ApplyStealth (ext S)) s))"
  "later st s \<Longrightarrow> later st (snd (call_out (SetCookies (ext S) cs) s))" "later st s \<Longrightarrow> later st (snd (call_out (Cookies (ext S)) s))"
  "later st s \<Longrightarrow> later st (snd (call_out (Navigate (ext S) ws) s))" "later st s \<Longrightarrow> later st (snd (call_out (Info (ext S)) s))"
  "later st s \<Longrightarrow> later st (snd (call_out (PageElements (ext S) ws) s))" "later st s \<Longrightarrow> later st (snd (call_out (Race (ext S) sels) s))"
  by (erule later_call, rule snd_aheadI, erule call_ahead)+

lemma later_compound:
  "later st s \<Longrightarrow> later st (snd (call_out (getPageBodyText (ext S)) s))"
  "later st s \<Longrightarrow> later st (snd (call_out (isNoItemsPage (ext S)) s))"
  "later st s \<Longrightarrow> later st (snd (call_out (isBlockedPage (ext S)) s))"
  "later st s \<Longrightarrow> later st (snd (call_out (simulateHumanBehavior (ext S)) s))"
  "later st s \<Longrightarrow> later st (snd (call_out (startBrowser (ext S) c p) s))"
  "later st s \<Longrightarrow> later st (snd (call_out (check_proxy_browser (ext S) m) s))"
  "later st s \<Longrightarrow> later st (snd (call_out (first_selector (ext S) sels) s))"
  by (erule later_call, rule snd_aheadI,
      erule body_ahead noitems_ahead blocked_ahead human_ahead start_ahead check_proxy_ahead first_selector_ahead)+

lemma later_runs:
  "later st s \<Longrightarrow> later st (run_out (ClosePage (ext S)) s)" "later st s \<Longrightarrow> later st (run_out (WaitLoaded (ext S)) s)"
  "later st s \<Longrightarrow> later st (run_out (ScrollPage (ext S)) s)" "later st s \<Longrightarrow> later st (run_out (SetupPage (ext S) ua) s)"
  "later st s \<Longrightarrow> later st (run_out (Diagnose (ext S) what) s)"
  by (erule later_run, rule pure_ahead)+

lemma later_cmds:
  "later st s \<Longrightarrow> later st (snd (call_redis (writec (DEL R [proxyCooldownKey])) s))"
  "later st s \<Longrightarrow> later st (snd (call_redis (writec (DEL R [cookieCacheKey])) s))"
  "later st s \<Longrightarrow> later st (snd (call_redis (writec (DEL R [consecutiveBlockKey])) s))"
  "later st s \<Longrightarrow> later st (snd (call_redis (writec (DEL R [consecutiveFailuresKey])) s))"
  "later st s \<Longrightarrow> later st (snd (call_redis (writec (SET_EX R cookieCacheKey v cookieCacheTTL)) s))"
  "later st s \<Longrightarrow> 0 < d \<Longrightarrow> later st (snd (call_redis (writec (SET_EX R proxyCooldownKey v d)) s))"
  "later st s \<Longrightarrow> later st (snd (call_redis (writec (EXPIRE R consecutiveFailuresKey consecutiveFailuresTTL)) s))"
  "later st s \<Longrightarrow> later st (snd (call_redis (incr_expire R (counters S) consecutiveBlockKey consecutiveBlockTTL) s))"
  "later st s \<Longrightarrow> later st (snd (call_redis (INCR (counters S) consecutiveFailuresKey) s))"
  "later st s \<Longrightarrow> later st (snd (call_redis (readc g) s))"
  by (erule later_cmd, simp add: same_del same_set same_expire same_incr same_incr_expire)+

lemmas laters = later_flow later_update later_calls later_compound later_runs later_cmds

section \<open>Each operation leads to a later state\<close>

lemma ClearCookies_later: "later st s \<Longrightarrow> later st (ClearCookies S s)"
  by (rule disjE [OF rdb_ok]) (simp_all add: ClearCookies_def Let_def, (auto intro!: laters)+)

lemma SaveCookies_later: "later st s \<Longrightarrow> later st (snd (SaveCookies S s))"
  by (rule disjE [OF rdb_ok]) (simp_all add: SaveCookies_def Let_def, (auto intro!: laters)+)

lemma applyCookies_later: "later st s \<Longrightarrow> later st (snd (applyCookies S cs s))"
  by (auto simp: applyCookies_def intro!: laters)

lemma LoadCookies_later: "later st s \<Longrightarrow> later st (snd (LoadCookies S s))"
  by (rule disjE [OF rdb_ok]) (simp_all add: LoadCookies_def Let_def, (auto intro!: laters applyCookies_later ClearCookies_later)+)

lemma RecordBlock_later: "later st s \<Longrightarrow> later st (snd (RecordBlock S s))"
  by (rule disjE [OF rdb_ok]) (simp_all add: RecordBlock_def Let_def, (auto intro!: laters)+)

lemma RecordSuccess_later: "later st s \<Longrightarrow> later st (RecordSuccess S s)"
  by (rule disjE [OF rdb_ok]) (simp_all add: RecordSuccess_def Let_def, (auto intro!: laters)+)

lemma handleBlockEvent_later: "later st s \<Longrightarrow> later st (handleBlockEvent S bt s)"
  unfolding handleBlockEvent_def Let_def ExitCooldown_def
  by (auto intro!: laters RecordBlock_later ClearCookies_later)

lemma waitForDrain_later: "later st s \<Longrightarrow> later st (snd (waitForDrain S d s))"
  by (auto simp: waitForDrain_def intro!: laters)

lemma startDraining_later: "later st s \<Longrightarrow> later st (startDraining s)"
  by (auto simp: startDraining_def intro!: laters)

lemma completeDraining_later: "later st s \<Longrightarrow> later st (completeDraining s)"
  by (auto simp: completeDraining_def intro!: laters)

lemma rotateBrowser_later: "later st s \<Longrightarrow> later st (snd (rotateBrowser S p s))"
  unfolding rotateBrowser_def Let_def by (auto intro!: laters waitForDrain_later startDraining_later completeDraining_later)

lemma getProxyState_later: "later st s \<Longrightarrow> later st (snd (getProxyState S s))"
  by (rule disjE [OF rdb_ok]) (simp_all add: getProxyState_def Let_def, (auto intro!: laters)+)

lemma cache_proxy_later: "later st s \<Longrightarrow> later st (cache_proxy S p s)"
  by (auto simp: cache_proxy_def intro!: laters)

lemma ensureBrowserState_later: "later st s \<Longrightarrow> later st (snd (ensureBrowserState S s))"
  unfolding ensureBrowserState_def by (auto intro!: laters getProxyState_later rotateBrowser_later cache_proxy_later)

lemma setProxyCooldown_later: "later st s \<Longrightarrow> later st (snd (setProxyCooldown S d s))"
  by (rule disjE [OF rdb_ok]) (simp_all add: setProxyCooldown_def Let_def cooldown_pos, (auto intro!: laters cache_proxy_later cooldown_pos)+)

lemma incrConsecutiveFailures_later: "later st s \<Longrightarrow> later st (snd (incrConsecutiveFailures S s))"
  by (rule disjE [OF rdb_ok]) (simp_all add: incrConsecutiveFailures_def, (auto intro!: laters)+)

lemma resetConsecutiveFailures_later: "later st s \<Longrightarrow> later st (resetConsecutiveFailures S s)"
  by (rule disjE [OF rdb_ok]) (simp_all add: resetConsecutiveFailures_def, (auto intro!: laters)+)

lemma checkProxyHealth_later: "later st s \<Longrightarrow> later st (snd (checkProxyHealth S s))"
  unfolding checkProxyHealth_def by (auto intro!: laters)

lemma checkProxyHealthWithRetry_later: "later st s \<Longrightarrow> later st (snd (checkProxyHealthWithRetry m i S s))"
proof (induction m arbitrary: i s)
  case (Suc m)
  show ?case unfolding checkProxyHealthWithRetry.simps
    by (intro laters checkProxyHealth_later Suc.IH Suc.prems) assumption+
qed simp

text \<open>A page.\<close>

lemma open_page_later: "later st s \<Longrightarrow> later st (snd (open_page S n s))"
  unfolding open_page_def by (auto intro!: laters)

lemma load_page_later: "later st s \<Longrightarrow> later st (snd (load_page S url opts s))"
  unfolding load_page_def by (auto intro!: laters LoadCookies_later)

lemma later_flow2:
  "later st (snd p) \<Longrightarrow> (\<And>r st1. later st st1 \<Longrightarrow> later st (snd (snd (f r st1)))) \<Longrightarrow> later st (snd (snd (case p of (r, st1) \<Rightarrow> f r st1)))"
  "later st (snd (snd p2)) \<Longrightarrow> (\<And>r i st1. later st st1 \<Longrightarrow> later st (snd (g r i st1))) \<Longrightarrow> later st (snd (case p2 of (r, i, st1) \<Rightarrow> g r i st1))"
  "later st (snd (snd a)) \<Longrightarrow> later st (snd (snd a')) \<Longrightarrow> later st (snd (snd (if c then a else a')))"
  "later st (snd (snd (e x))) \<Longrightarrow> later st (snd (snd (Let x e)))"
  by (auto split: prod.splits simp: Let_def)

lemma check_page_later: "later st s \<Longrightarrow> later st (snd (snd (check_page S opts s)))"
  unfolding check_page_def detectBlockTypeFromPage_def by (auto intro!: later_flow2 laters handleBlockEvent_later)

lemma lost_race_later: "later st s \<Longrightarrow> later st (snd (lost_race S opts info e s))"
  unfolding lost_race_def by (auto intro!: laters handleBlockEvent_later)

lemma extractVisibleItems_later: "later st s \<Longrightarrow> later st (snd (extractVisibleItems S items s))"
  unfolding extractVisibleItems_def by (auto intro!: laters)

lemma scroll_loop_later: "later st s \<Longrightarrow> later st (snd (scroll_loop fuel S limit deadline ng items s))"
proof (induction fuel arbitrary: ng items s)
  case (Suc fuel)
  show ?case unfolding scroll_loop.simps
    by (auto intro!: laters extractVisibleItems_later Suc.IH Suc.prems)
qed simp

lemma collect_items_later: "later st s \<Longrightarrow> later st (snd (collect_items S opts s))"
  unfolding collect_items_def
  by (auto intro!: laters extractVisibleItems_later scroll_loop_later SaveCookies_later RecordSuccess_later)

lemma later_race: "later st s \<Longrightarrow> later st (case r of RaceTimeout e \<Rightarrow> run_out (Diagnose (ext S) what) s | _ \<Rightarrow> s)"
  by (auto intro!: laters split: race.splits)

lemma read_page_later:
  assumes "later st s"
  shows "later st (snd (read_page S opts s))"
proof -
  obtain e info st1 where c: "check_page S opts s = (e, info, st1)" by (metis prod.exhaust)
  have l: "later st st1" using check_page_later [OF assms, of opts] c by simp
  show ?thesis
  proof (cases e)
    case None
    have "later st (snd (case call_out (Race (ext S) race_selectors) st1 of (r, st2) \<Rightarrow> (case race_error r of
        Some e \<Rightarrow> (case lost_race S opts info e (case r of RaceTimeout _ \<Rightarrow> run_out (Diagnose (ext S) ''wait_for_items'') st2 | _ \<Rightarrow> st2) of
             (Inl e', st3) \<Rightarrow> (Done (Inl e'), st3) | (Inr _, st3) \<Rightarrow> (Done (Inr []), st3))
      | None \<Rightarrow> (case collect_items S opts st2 of (Done items, st3) \<Rightarrow> (Done (Inr items), st3)
             | (Panic, st3) \<Rightarrow> (Panic, st3) | (NoFuel, st3) \<Rightarrow> (NoFuel, st3)))))"
      using l by (auto intro!: laters lost_race_later later_race collect_items_later)
    then show ?thesis using c None by (simp add: read_page_def)
  next
    case (Some x)
    then show ?thesis using c l by (simp add: read_page_def)
  qed
qed

lemma fetchPageContent_later: "later st s \<Longrightarrow> later st (snd (fetchPageContent S n url opts s))"
  unfolding fetchPageContent_def by (auto intro!: laters open_page_later load_page_later read_page_later)

text \<open>The pages of a keyword.\<close>

lemma page_loop_later: "later st s \<Longrightarrow> later st (snd (page_loop S n phase status page_of pages items c s))"
proof (induction pages arbitrary: items c s)
  case (Cons p pages)
  show ?case unfolding page_loop.simps
    by (auto intro!: laters fetchPageContent_later Cons.IH Cons.prems)
qed simp

lemma crawl_pages_later: "later st s \<Longrightarrow> later st (snd (crawl_pages S n req s))"
  unfolding crawl_pages_def by (auto intro!: laters page_loop_later)

lemma later_track: "later (st\<lparr>activePages := activePages st + 1\<rparr>) s \<Longrightarrow> later st (trackPageEnd s)"
  by (auto simp: later_def trackPageEnd_def Let_def split: option.splits)

lemma crawlWithFixedPages_later: "later st (snd (crawlWithFixedPages S req st))"
proof (cases "draining st \<or> browser st = None")
  case True
  then show ?thesis by (auto simp: crawlWithFixedPages_def trackPageStart_def split: option.splits)
next
  case False
  then obtain n where n: "browser st = Some n" "\<not> draining st" by auto
  have "later st (trackPageEnd (snd (crawl_pages S n req (st\<lparr>activePages := activePages st + 1\<rparr>))))"
    by (rule later_track, rule crawl_pages_later) simp
  then show ?thesis using n by (simp add: crawlWithFixedPages_def trackPageStart_def split_beta)
qed

text \<open>The waits before a crawl.\<close>

lemma Allow_same:
  assumes "Allow oor L (rateLimiter S) now rateLimitKey limit burst w = (r, w')"
  shows "same_keys (view (redis_st w)) (view (redis_st w')) \<and> db_st w' = db_st w \<and> (quiet w \<longrightarrow> quiet w')"
proof -
  have "same_keys (view (redis_st w)) (view (redis_st (snd (rdo (tokenBucketLua L R rateLimitKey a b c d) w))))" for a b c d
    by (rule rdo_preserves [where P = "\<lambda>s. same_keys (view (redis_st w)) (view s)"])
      (use same_bucket same_keys_trans in \<open>blast, simp\<close>)
  moreover have "quiet w \<longrightarrow> quiet (snd (rdo c w))" "db_st (snd (rdo c w)) = db_st w" for c :: "'s \<Rightarrow> int \<times> 's" by simp_all
  ultimately have "same_keys (view (redis_st w)) (view (redis_st w1)) \<and> db_st w1 = db_st w \<and> (quiet w \<longrightarrow> quiet w1)"
    if "rdo (tokenBucketLua L R rateLimitKey a b c d) w = (x, w1)" for a b c d x w1
    using that by (metis snd_conv)
  then show ?thesis using assms limiter_ok
    by (auto simp: Allow_def split: if_splits option.splits prod.splits)
qed

lemma rate_wait_later: "later st s \<Longrightarrow> later st (snd (rate_wait fuel S deadline s))"
proof (induction fuel arbitrary: s)
  case (Suc fuel)
  obtain r w where a: "Allow (outOfRange S) (luaNumbers S) (rateLimiter S) (Clock (ext S) (out s) div Millisecond) rateLimitKey
      (f64_to_int64 (outOfRange S) (RateLimit (App (cfg S)))) (f64_to_int64 (outOfRange S) (RateBurst (App (cfg S)))) (net s) = (r, w)"
    by fastforce
  have "later st (s\<lparr>net := w\<rparr>)"
    using Allow_same [OF a] Suc.prems same_keys_trans by (auto simp: later_def)
  then show ?case using a
    by (auto intro!: laters Suc.IH split: sum.splits bool.splits waited.splits prod.splits) (metis laters snd_conv)+
qed simp

lemma jitter_wait_later: "later st s \<Longrightarrow> later st (snd (jitter_wait S s))"
  unfolding jitter_wait_def by (auto intro!: laters)

lemma admit_later: "later st s \<Longrightarrow> later st (snd (admit S s))"
  unfolding admit_def by (auto intro!: laters rate_wait_later jitter_wait_later)

section \<open>Loops end\<close>

lemma later_clock: "later st s \<Longrightarrow> Clock (ext S) (out st) \<le> Clock (ext S) (out s)"
  by (simp add: later_def ahead_def)

lemma later_ctx: "later st s \<Longrightarrow> CtxErr (ext S) (out st) \<noteq> None \<Longrightarrow> CtxErr (ext S) (out s) \<noteq> None"
  by (auto simp: later_def ahead_def)

lemma scroll_loop_ends:
  "deadline - Clock (ext S) (out s) \<le> int fuel * scrollWaitInterval \<Longrightarrow> \<exists>x s'. scroll_loop (Suc fuel) S limit deadline ng items s = (Some x, s')"
proof (induction fuel arbitrary: ng items s)
  case IH: (0 ng items s)
  let ?s1 = "run_out (ScrollPage (ext S)) s"
  have "Clock (ext S) (out s) \<le> Clock (ext S) (out ?s1)" using later_clock [OF later_runs(3) [OF later_refl]] .
  moreover obtain r b where r: "ScrollSelect (ext S) deadline (out ?s1) = (r, b)" by fastforce
  ultimately have "r" using IH scroll_waits [of deadline "out ?s1" b] by auto
  then show ?case using r by (simp add: call_out_def)
next
  case IH: (Suc fuel ng items s)
  let ?s1 = "run_out (ScrollPage (ext S)) s"
  obtain r s2 where s2: "call_out (ScrollSelect (ext S) deadline) ?s1 = (r, s2)" by fastforce
  obtain n items' s3 where s3: "extractVisibleItems S items s2 = ((n, items'), s3)" by (metis prod.exhaust)
  have c: "Clock (ext S) (out s) \<le> Clock (ext S) (out ?s1)" "Clock (ext S) (out s2) \<le> Clock (ext S) (out s3)"
    using later_clock [OF later_runs(3) [OF later_refl]] later_clock [OF extractVisibleItems_later [OF later_refl, of s2 items]] s3 by simp_all
  have "\<not> r \<Longrightarrow> deadline - Clock (ext S) (out s3) \<le> int fuel * scrollWaitInterval"
    using IH.prems s2 c scroll_waits [of deadline "out ?s1" "out s2"] by (auto simp: call_out_def algebra_simps split: prod.splits)
  then have "\<not> r \<Longrightarrow> \<exists>x s'. scroll_loop (Suc fuel) S limit deadline ng' items' s3 = (Some x, s')" for ng'
    by (rule IH.IH)
  then show ?case using s2 s3 by (subst scroll_loop.simps(2)) (auto simp del: scroll_loop.simps split: bool.splits)
qed

lemma collect_items_ends: "\<exists>x s'. collect_items S opts s = (Done x, s')"
proof -
  obtain n items s1 where s1: "extractVisibleItems S [] s = ((n, items), s1)" by (metis prod.exhaust)
  have c: "Clock (ext S) (out s) \<le> Clock (ext S) (out s1)"
    using later_clock [OF extractVisibleItems_later [OF later_refl, of s "[]"]] s1 by simp
  define q where "q = pageTimeout S div scrollWaitInterval"
  have I: "0 < scrollWaitInterval" by (simp add: scrollWaitInterval_def Millisecond_def)
  have "pageTimeout S < (q + 1) * scrollWaitInterval"
  proof -
    have "q * scrollWaitInterval + pageTimeout S mod scrollWaitInterval = pageTimeout S" by (simp add: q_def)
    moreover have "pageTimeout S mod scrollWaitInterval < scrollWaitInterval" using I by simp
    ultimately show ?thesis unfolding distrib_right by linarith
  qed
  also have "\<dots> \<le> (int (nat q) + 1) * scrollWaitInterval" using I by (intro mult_right_mono) auto
  finally have "pageTimeout S < int (nat q + 1) * scrollWaitInterval" by (simp only: of_nat_add of_nat_1)
  then have "Clock (ext S) (out s) + pageTimeout S - Clock (ext S) (out s1) \<le> int (nat q + 1) * scrollWaitInterval"
    using c by linarith
  from scroll_loop_ends [OF this] obtain x s2 where
    "scroll_loop (scroll_fuel S) S (fetch_limit S) (Clock (ext S) (out s) + pageTimeout S) 0 items s1 = (Some x, s2)"
    unfolding scroll_fuel_def q_def by (metis add_2_eq_Suc' Suc_eq_plus1 add.commute)
  then show ?thesis using s1 by (auto simp: collect_items_def Let_def split: prod.splits)
qed

lemma rate_wait_ends:
  "deadline - Clock (ext S) (out s) \<le> int fuel * rateLimitPoll \<Longrightarrow> \<exists>x s'. rate_wait (Suc fuel) S deadline s = (Done x, s')"
proof (induction fuel arbitrary: s)
  case IH: (0 s)
  then show ?case using rate_waits [of deadline "out s"]
    by (auto simp: call_out_def split: prod.splits sum.splits bool.splits waited.splits)
next
  case IH: (Suc fuel s)
  have step: "\<exists>x s'. rate_wait (Suc fuel) S deadline (s\<lparr>net := w, out := b\<rparr>) = (Done x, s')"
    if "RateSelect (ext S) deadline (out s) = (Elapsed, b)" for w b
  proof (rule IH.IH)
    show "deadline - Clock (ext S) (out (s\<lparr>net := w, out := b\<rparr>)) \<le> int fuel * rateLimitPoll"
      using IH.prems rate_waits [OF that] by (simp add: algebra_simps)
  qed
  show ?case using step
    by (subst rate_wait.simps(2)) (auto simp: call_out_def simp del: rate_wait.simps split: prod.splits sum.splits bool.splits waited.splits)
qed

lemma admit_ends: "\<exists>x s'. admit S s = (Done x, s')"
proof -
  have "nat (rateLimitMaxWait div rateLimitPoll) = 600" "rateLimitMaxWait = 600 * rateLimitPoll" "0 < rateLimitPoll"
    by (simp_all add: rateLimitMaxWait_def rateLimitPoll_def Second_def Millisecond_def)
  then have "\<exists>x s'. rate_wait rate_fuel S (Clock (ext S) (out s) + rateLimitMaxWait) s = (Done x, s')"
    using rate_wait_ends [of "Clock (ext S) (out s) + rateLimitMaxWait" s 601] by (simp add: rate_fuel_def)
  then obtain x s' where r: "rate_wait rate_fuel S (Clock (ext S) (out s) + rateLimitMaxWait) s = (Done x, s')" by blast
  show ?thesis
  proof (cases "rateLimiter S")
    case None
    then show ?thesis by (auto simp: admit_def split: prod.splits)
  next
    case (Some a)
    then show ?thesis using r by (cases x) (auto simp: admit_def split: prod.splits)
  qed
qed

end

text \<open>A viewport large enough for the simulated mouse, or none reported.\<close>

definition wide_viewport :: "('b, 'e) outside \<Rightarrow> bool" where
  "wide_viewport E \<longleftrightarrow> (\<forall>b. case fst (EvalViewport E b) of None \<Rightarrow> True
     | Some (w, h) \<Rightarrow> (case w of None \<Rightarrow> True | Some x \<Rightarrow> 200 < x) \<and> (case h of None \<Rightarrow> True | Some y \<Rightarrow> 200 < y))"

lemma Intn_ends: "0 < n \<Longrightarrow> \<exists>x b'. Intn E n b = (Done x, b')"
  by (auto simp: Intn_def split: prod.splits)

lemma mouse_ends:
  assumes "wide_viewport E"
  shows "\<exists>b'. randomMouseMove E b = (Done (), b')"
proof -
  obtain r b1 where r: "EvalViewport E b = (r, b1)" by fastforce
  define w where "w = (case r of Some (Some width, _) \<Rightarrow> width | _ \<Rightarrow> (1280::int))"
  define h where "h = (case r of Some (_, Some height) \<Rightarrow> height | _ \<Rightarrow> (800::int))"
  have "case r of None \<Rightarrow> True | Some (w, h) \<Rightarrow> (case w of None \<Rightarrow> True | Some x \<Rightarrow> 200 < x) \<and> (case h of None \<Rightarrow> True | Some y \<Rightarrow> 200 < y)"
    using assms r unfolding wide_viewport_def by (metis fst_conv)
  then have "0 < w - 2 * 100" "0 < h - 2 * 100" by (auto simp: w_def h_def split: option.splits prod.splits)
  then obtain x b2 y b3 where "Intn E (w - 2 * 100) b1 = (Done x, b2)" "Intn E (h - 2 * 100) b2 = (Done y, b3)"
    using Intn_ends by meson
  then show ?thesis using r by (simp add: randomMouseMove_def w_def h_def)
qed

lemma human_ends:
  assumes "wide_viewport E"
  shows "\<exists>b'. simulateHumanBehavior E b = (Done (), b')"
proof -
  obtain b1 where m: "randomMouseMove E b = (Done (), b1)" using mouse_ends [OF assms] by blast
  have s: "\<exists>b'. randomScroll E 200 500 b'' = (Done (), b')" for b''
    using Intn_ends [of 300 E b''] by (auto simp: randomScroll_def)
  show ?thesis using m s [of "snd (BehaviorSleep E (300 * Millisecond) b1)"]
    by (auto simp: simulateHumanBehavior_def defaultHumanBehavior_def Let_def split: prod.splits)
qed

context crawler_service
begin

lemma load_page_ends:
  assumes "wide_viewport (ext S)"
  shows "\<exists>x s'. load_page S url opts s = (Done x, s')"
proof -
  let ?s2 = "if SkipCookies opts then run_out (SetupPage (ext S) (defaultUA S)) s
    else snd (LoadCookies S (run_out (SetupPage (ext S) (defaultUA S)) s))"
  obtain r s3 where n: "call_out (Navigate (ext S) url) ?s2 = (r, s3)" by fastforce
  have "\<exists>s5. call_out (simulateHumanBehavior (ext S)) (run_out (WaitLoaded (ext S)) s3) = (Done (), s5)"
    using human_ends [OF assms, of "out (run_out (WaitLoaded (ext S)) s3)"] by (auto simp: call_out_def)
  then obtain s5 where h: "call_out (simulateHumanBehavior (ext S)) (run_out (WaitLoaded (ext S)) s3) = (Done (), s5)" by blast
  show ?thesis
  proof (cases r)
    case (Ready x)
    then show ?thesis using n h by (cases x) (simp_all add: load_page_def Let_def)
  qed (use n in \<open>simp_all add: load_page_def Let_def\<close>)
qed

lemma read_page_ends: "\<exists>x s'. read_page S opts s = (Done x, s')"
proof -
  obtain e info s1 where c: "check_page S opts s = (e, info, s1)" by (metis prod.exhaust)
  obtain r s2 where r: "call_out (Race (ext S) race_selectors) s1 = (r, s2)" by fastforce
  obtain x s3 where x: "collect_items S opts s2 = (Done x, s3)" using collect_items_ends by blast
  show ?thesis
  proof (cases e)
    case None
    then show ?thesis
    proof (cases "race_error r")
      case (Some e')
      obtain l s4 where "lost_race S opts info e' (case r of RaceTimeout _ \<Rightarrow> run_out (Diagnose (ext S) ''wait_for_items'') s2 | _ \<Rightarrow> s2) = (l, s4)"
        by fastforce
      then show ?thesis using c None r Some by (cases l) (simp_all add: read_page_def)
    qed (use c r x None in \<open>simp add: read_page_def\<close>)
  qed (use c in \<open>simp add: read_page_def\<close>)
qed

lemma fetchPageContent_ends: "wide_viewport (ext S) \<Longrightarrow> \<exists>x s'. fetchPageContent S n url opts s = (Done x, s')"
proof -
  assume w: "wide_viewport (ext S)"
  obtain o1 s1 where o1: "open_page S n s = (o1, s1)" by fastforce
  obtain l s2 where l: "load_page S url opts s1 = (Done l, s2)" using load_page_ends [OF w] by blast
  obtain r s3 where r: "read_page S opts s2 = (Done r, s3)" using read_page_ends by blast
  show ?thesis using o1 l r by (cases o1; cases l) (simp_all add: fetchPageContent_def)
qed

lemma page_loop_ends: "wide_viewport (ext S) \<Longrightarrow> \<exists>x s'. page_loop S n phase status page_of pages items c s = (Done x, s')"
proof (induction pages arbitrary: items c s)
  case (Cons p pages)
  obtain r s1 where r: "fetchPageContent S n (fst (page_of p)) (snd (page_of p)) s = (Done r, s1)"
    using fetchPageContent_ends [OF Cons.prems] by blast
  show ?case using Cons r by (cases r) auto
qed simp

lemma crawl_pages_ends: "wide_viewport (ext S) \<Longrightarrow> \<exists>x s'. crawl_pages S n req s = (Done x, s')"
proof -
  assume w: "wide_viewport (ext S)"
  obtain r1 s1 where a: "page_loop S n ''on_sale'' ITEM_STATUS_ON_SALE (on_sale_page (req_Keyword req))
      [0..page_count (req_PagesOnSale req) - 1] [] 0 s = (Done r1, s1)" using page_loop_ends [OF w] by blast
  show ?thesis
  proof (cases r1)
    case (Inl e)
    then show ?thesis using a by (simp add: crawl_pages_def Let_def)
  next
    case (Inr p)
    obtain on c where p: "p = (on, c)" by fastforce
    obtain r2 s2 where b: "page_loop S n ''sold'' ITEM_STATUS_SOLD (sold_page (req_Keyword req) (page_count (req_PagesOnSale req)))
        [0..page_count (req_PagesSold req) - 1] on c s1 = (Done r2, s2)" using page_loop_ends [OF w] by blast
    then show ?thesis using a Inr p by (cases r2) (auto simp: crawl_pages_def Let_def)
  qed
qed

lemma crawlWithFixedPages_ends:
  assumes "wide_viewport (ext S)"
  shows "\<exists>x s'. crawlWithFixedPages S req s = (Done x, s')"
proof (cases "draining s \<or> browser s = None")
  case True
  then show ?thesis by (auto simp: crawlWithFixedPages_def trackPageStart_def split: option.splits)
next
  case False
  then obtain n where n: "browser s = Some n" "\<not> draining s" by auto
  obtain x s' where "crawl_pages S n req (s\<lparr>activePages := activePages s + 1\<rparr>) = (Done x, s')" using crawl_pages_ends [OF assms] by blast
  then show ?thesis using n by (simp add: crawlWithFixedPages_def trackPageStart_def)
qed

lemma crawl_attempt_ends:
  assumes "wide_viewport (ext S)"
  shows "\<exists>x s'. crawl_attempt S req a s = (Done x, s')"
proof -
  obtain e s1 where e: "ensureBrowserState S (if a = 0 then s\<lparr>TotalProcessed := TotalProcessed s + 1\<rparr> else s) = (e, s1)" by fastforce
  obtain x s2 where x: "admit S s1 = (Done x, s2)" using admit_ends by blast
  obtain r s3 where r: "crawlWithFixedPages S req s2 = (Done r, s3)" using crawlWithFixedPages_ends [OF assms] by blast
  obtain p s4 where p: "setProxyCooldown S (ProxyCooldown (App (cfg S))) (s1\<lparr>forceProxyOnce := False\<rparr>) = (p, s4)" by fastforce
  show ?thesis
  proof (cases e)
    case None
    note e = e [unfolded None]
    show ?thesis
    proof (cases x)
      case None
      show ?thesis
      proof (cases r)
        case (Inl y)
        obtain f s5 where "after_failure S a y (count_task S a s3) = (f, s5)" by fastforce
        then show ?thesis using e x None r Inl p by (cases f; cases p) (simp_all add: crawl_attempt_def)
      next
        case (Inr y)
        obtain f s5 where "succeed_task S req a y (count_task S a s3) = (f, s5)" by fastforce
        then show ?thesis using e x None r Inr p by (cases p) (simp_all add: crawl_attempt_def)
      qed
    qed (use e x p in \<open>cases p; simp add: crawl_attempt_def\<close>)
  qed (use e in \<open>simp add: crawl_attempt_def\<close>)
qed

lemma doCrawl_ends:
  assumes "wide_viewport (ext S)"
  shows "\<exists>r s'. doCrawl S req a s = (Done r, s')"
proof -
  obtain x s1 where x: "crawl_attempt S req a s = (Done x, s1)" using crawl_attempt_ends [OF assms] by blast
  show ?thesis
  proof (cases x)
    case None
    obtain y s2 where y: "crawl_attempt S req (a + 1) s1 = (Done y, s2)" using crawl_attempt_ends [OF assms] by blast
    then obtain r where "y = Some r" using crawl_attempt_retries [of S req "a + 1" s1] by (cases y) auto
    then have "doCrawl S req (a + 1) s1 = (Done r, s2)" using y by (subst doCrawl.simps) simp
    then show ?thesis using x None by (simp add: doCrawl.simps [of S req a])
  qed (use x in \<open>simp add: doCrawl.simps [of S req a]\<close>)
qed

end

section \<open>What a page and a crawl yield\<close>

text \<open>Items seen so far: none without an identifier, none twice.\<close>

definition seen_ok :: "Item list \<Rightarrow> bool" where
  "seen_ok items \<longleftrightarrow> distinct (map it_SourceId items) \<and> '''' \<notin> it_SourceId ` set items"

lemma add_items_ok: "seen_ok items \<Longrightarrow> seen_ok (snd (add_items D els items n))"
  by (induction D els items n rule: add_items.induct) (auto simp: seen_ok_def split: sum.splits)

lemma add_items_keeps: "\<exists>new. snd (add_items D els items n) = items @ new"
  by (induction D els items n rule: add_items.induct) (auto split: sum.splits)

lemma extractVisibleItems_ok: "seen_ok items \<Longrightarrow> extractVisibleItems S items s = ((n, items'), s') \<Longrightarrow> seen_ok items'"
  using add_items_ok [of items "dom (ext S)" _ 0] by (auto simp: extractVisibleItems_def split: prod.splits option.splits) (metis snd_conv)

lemma scroll_loop_ok: "seen_ok items \<Longrightarrow> scroll_loop fuel S limit d ng items s = (Some items', s') \<Longrightarrow> seen_ok items'"
proof (induction fuel arbitrary: ng items s)
  case (Suc fuel)
  obtain r s1 where r: "call_out (ScrollSelect (ext S) d) (run_out (ScrollPage (ext S)) s) = (r, s1)" by fastforce
  obtain n items1 s2 where x: "extractVisibleItems S items s1 = ((n, items1), s2)" by (metis prod.exhaust)
  have ok: "seen_ok items1" using extractVisibleItems_ok [OF Suc.prems(1) x] .
  show ?case using Suc.prems r x Suc.IH [OF ok] ok by (auto split: if_splits bool.splits)
qed simp

lemma collect_items_ok:
  assumes "outside_laws (ext S)" and "collect_items S opts s = (Done items, s')"
  shows "seen_ok items \<and> int (length items) \<le> fetch_limit S"
proof -
  obtain n items1 s1 where x: "extractVisibleItems S [] s = ((n, items1), s1)" by (metis prod.exhaust)
  obtain r s2 where r: "scroll_loop (scroll_fuel S) S (fetch_limit S) (Clock (ext S) (out s) + pageTimeout S) 0 items1 s1 = (r, s2)" by fastforce
  obtain items2 where r2: "r = Some items2" using assms(2) x r by (cases r) (auto simp: collect_items_def)
  obtain listed s3 where m: "call_out (MapOrder (ext S) items2) s2 = (listed, s3)" by fastforce
  have i: "items = take (nat (fetch_limit S)) listed" using assms(2) x r r2 m by (simp add: collect_items_def Let_def)
  have "seen_ok items1" by (rule extractVisibleItems_ok [OF _ x]) (simp add: seen_ok_def)
  then have ok: "seen_ok items2" using scroll_loop_ok r r2 by blast
  have "mset listed = mset items2"
    using m outside_laws.order_perm [OF assms(1)] by (auto simp: call_out_def split: prod.splits)
  then have "mset (map it_SourceId listed) = mset (map it_SourceId items2)" "set listed = set items2"
    by (simp, metis mset_eq_setD)
  then have "seen_ok listed" using ok unfolding seen_ok_def by (metis distinct_count_atmost_1 mset_eq_setD)
  then have "seen_ok items" using i unfolding seen_ok_def
    by (auto simp: take_map [symmetric] dest: in_set_takeD intro: distinct_take)
  moreover have "0 < fetch_limit S" by (simp add: fetch_limit_def)
  ultimately show ?thesis using i by simp
qed

lemma read_page_ok:
  assumes "outside_laws (ext S)" and "read_page S opts s = (Done (Inr items), s')"
  shows "seen_ok items \<and> int (length items) \<le> fetch_limit S"
proof -
  obtain e info s1 where c: "check_page S opts s = (e, info, s1)" by (metis prod.exhaust)
  have n: "e = None" using assms(2) c by (cases e) (auto simp: read_page_def)
  obtain r s2 where r: "call_out (Race (ext S) race_selectors) s1 = (r, s2)" by fastforce
  have lim: "0 < fetch_limit S" by (simp add: fetch_limit_def)
  show ?thesis
  proof (cases "race_error r")
    case None
    obtain x s3 where x: "collect_items S opts s2 = (x, s3)" by fastforce
    then have "x = Done items" using assms(2) c n r None by (cases x) (auto simp: read_page_def)
    then show ?thesis using collect_items_ok [OF assms(1)] x by blast
  next
    case (Some e')
    obtain l s4 where l: "lost_race S opts info e' (case r of RaceTimeout _ \<Rightarrow> run_out (Diagnose (ext S) ''wait_for_items'') s2 | _ \<Rightarrow> s2) = (l, s4)"
      by fastforce
    then have "items = []" using assms(2) c n r Some by (cases l) (auto simp: read_page_def)
    then show ?thesis using lim by (simp add: seen_ok_def)
  qed
qed

lemma fetchPageContent_ok:
  assumes "outside_laws (ext S)" and "fetchPageContent S n url opts s = (Done (Inr items), s')"
  shows "seen_ok items \<and> int (length items) \<le> fetch_limit S"
proof -
  obtain o1 s1 where o1: "open_page S n s = (o1, s1)" by fastforce
  obtain l s2 where l: "load_page S url opts s1 = (l, s2)" by fastforce
  obtain r s3 where r: "read_page S opts s2 = (r, s3)" by fastforce
  have "r = Done (Inr items)" using assms(2) o1 l r by (auto simp: fetchPageContent_def split: option.splits run.splits)
  then show ?thesis using read_page_ok [OF assms(1)] r by blast
qed

text \<open>The pages of one status, and of both.\<close>

definition page_items :: "ItemStatus \<Rightarrow> Item list \<Rightarrow> bool" where
  "page_items status items \<longleftrightarrow> (\<forall>item \<in> set items. it_Status item = status \<and> it_SourceId item \<noteq> '''')"

lemma page_items_append [simp]: "page_items status (a @ b) \<longleftrightarrow> page_items status a \<and> page_items status b"
  by (auto simp: page_items_def)

lemma page_loop_ok:
  assumes "outside_laws (ext S)" and "page_loop S n phase status page_of pages items c s = (Done (Inr (items', c')), s')"
  shows "\<exists>new. items' = items @ new \<and> page_items status new \<and> c \<le> c' \<and> c' \<le> c + int (length pages)
    \<and> int (length new) \<le> (c' - c) * fetch_limit S"
  using assms(2)
proof (induction pages arbitrary: items c s)
  case (Cons p pages)
  obtain r s1 where r: "fetchPageContent S n (fst (page_of p)) (snd (page_of p)) s = (r, s1)" by fastforce
  have nc: "CtxErr (ext S) (out s) = None" using Cons.prems by (auto split: if_splits)
  have lim: "0 < fetch_limit S" by (simp add: fetch_limit_def)
  consider e where "r = Done (Inl e)" | pg where "r = Done (Inr pg)" using Cons.prems nc r by (auto split: run.splits sum.splits)
  then show ?case
  proof cases
    case 1
    then show ?thesis using Cons.IH [of items c s1] Cons.prems nc r by force
  next
    case (2 pg)
    have ok: "seen_ok pg" "int (length pg) \<le> fetch_limit S" using fetchPageContent_ok [OF assms(1)] r 2 by blast+
    show ?thesis
    proof (cases "pg = []")
      case True
      then show ?thesis using Cons.prems nc r 2 lim by (auto simp: page_items_def)
    next
      case False
      from Cons.IH [of "items @ mark_status status pg" "c + 1" s1] obtain new where
        n: "items' = (items @ mark_status status pg) @ new" "page_items status new" "c + 1 \<le> c'" "c' \<le> c + 1 + int (length pages)"
          "int (length new) \<le> (c' - (c + 1)) * fetch_limit S"
        using Cons.prems nc r 2 False by auto
      have m: "page_items status (mark_status status pg)" using ok(1) by (force simp: page_items_def mark_status_def seen_ok_def)
      have "int (length (mark_status status pg @ new)) \<le> fetch_limit S + (c' - (c + 1)) * fetch_limit S"
        using n(5) ok(2) by (simp add: mark_status_def)
      also have "\<dots> = (c' - c) * fetch_limit S" by (simp add: algebra_simps)
      finally show ?thesis using n m by (intro exI [of _ "mark_status status pg @ new"]) auto
    qed
  qed
qed (auto simp: page_items_def)

lemma crawl_pages_ok:
  assumes "outside_laws (ext S)" and "crawl_pages S n req s = (Done (Inr p), s')"
  shows "\<exists>onSale sold crawled. resp_Items p = onSale @ sold \<and> page_items ITEM_STATUS_ON_SALE onSale \<and> page_items ITEM_STATUS_SOLD sold
    \<and> resp_IpId p = req_IpId req \<and> resp_TotalFound p = word_of_nat (length (resp_Items p)) \<and> resp_ErrorMessage p = ''''
    \<and> resp_PagesCrawled p = word_of_int crawled \<and> 0 \<le> crawled
    \<and> crawled \<le> page_count (req_PagesOnSale req) + page_count (req_PagesSold req)
    \<and> int (length (resp_Items p)) \<le> crawled * fetch_limit S"
proof -
  have pc: "0 < page_count x" for x by (simp add: page_count_def)
  obtain r1 s1 where a: "page_loop S n ''on_sale'' ITEM_STATUS_ON_SALE (on_sale_page (req_Keyword req))
      [0..page_count (req_PagesOnSale req) - 1] [] 0 s = (r1, s1)" by fastforce
  obtain on c1 where r1: "r1 = Done (Inr (on, c1))"
    using assms(2) a by (auto simp: crawl_pages_def Let_def split: run.splits sum.splits)
  obtain r2 s2 where b: "page_loop S n ''sold'' ITEM_STATUS_SOLD (sold_page (req_Keyword req) (page_count (req_PagesOnSale req)))
      [0..page_count (req_PagesSold req) - 1] on c1 s1 = (r2, s2)" by fastforce
  obtain al c2 where r2: "r2 = Done (Inr (al, c2))"
    using assms(2) a r1 b by (auto simp: crawl_pages_def Let_def split: run.splits sum.splits)
  have p: "p = \<lparr>resp_IpId = req_IpId req, resp_Items = al, resp_TotalFound = word_of_nat (length al), resp_ErrorMessage = '''',
      resp_TaskId = '''', resp_CrawledAt = 0, resp_PagesCrawled = word_of_int c2, resp_RetryCount = 0\<rparr>"
    using assms(2) a r1 b r2 by (simp add: crawl_pages_def Let_def)
  have A: "page_items ITEM_STATUS_ON_SALE on" "0 \<le> c1" "c1 \<le> page_count (req_PagesOnSale req)" "int (length on) \<le> c1 * fetch_limit S"
    using page_loop_ok [OF assms(1), of n "''on_sale''" ITEM_STATUS_ON_SALE "on_sale_page (req_Keyword req)"
        "[0..page_count (req_PagesOnSale req) - 1]" "[]" 0 s on c1 s1] a r1 pc [of "req_PagesOnSale req"] by auto
  obtain sold where B: "al = on @ sold" "page_items ITEM_STATUS_SOLD sold" "c1 \<le> c2" "c2 \<le> c1 + page_count (req_PagesSold req)"
      "int (length sold) \<le> (c2 - c1) * fetch_limit S"
    using page_loop_ok [OF assms(1), of n "''sold''" ITEM_STATUS_SOLD "sold_page (req_Keyword req) (page_count (req_PagesOnSale req))"
        "[0..page_count (req_PagesSold req) - 1]" on c1 s1 al c2 s2] b r2 pc [of "req_PagesSold req"] by auto
  have "int (length al) \<le> c1 * fetch_limit S + (c2 - c1) * fetch_limit S" using A(4) B(1,5) by simp
  then have "int (length al) \<le> c2 * fetch_limit S" by (simp add: algebra_simps)
  then show ?thesis using p A B by (intro exI [of _ on] exI [of _ sold] exI [of _ c2]) auto
qed

section \<open>Failures\<close>

context crawler_service
begin

lemma page_loop_error:
  "page_loop S n phase status page_of pages items c s = (Done (Inl e), s') \<Longrightarrow> CtxErr (ext S) (out s') \<noteq> None \<and> e_ctx e"
proof (induction pages arbitrary: items c s)
  case (Cons p pages)
  show ?case
  proof (cases "CtxErr (ext S) (out s)")
    case None
    then show ?thesis using Cons.prems Cons.IH by (auto split: run.splits sum.splits prod.splits if_splits)
  next
    case (Some e0)
    then show ?thesis using Cons.prems context_errors [OF Some] by (auto simp: ctx_error_def)
  qed
qed simp

lemma crawl_pages_error:
  assumes "crawl_pages S n req s = (Done (Inl e), s')"
  shows "CtxErr (ext S) (out s') \<noteq> None \<and> e_ctx e"
  using assms page_loop_error by (auto simp: crawl_pages_def Let_def split: run.splits sum.splits prod.splits) blast+

text \<open>A crawl fails only because the browser is being replaced or because the time of the task is up.\<close>

lemma crawlWithFixedPages_error:
  assumes "crawlWithFixedPages S req s = (Done (Inl e), s')"
  shows "e = errorf ''browser draining, task needs retry'' \<or> CtxErr (ext S) (out s') \<noteq> None"
proof (cases "draining s \<or> browser s = None")
  case True
  then show ?thesis using assms by (auto simp: crawlWithFixedPages_def trackPageStart_def split: option.splits)
next
  case False
  then obtain n where n: "browser s = Some n" "\<not> draining s" by auto
  obtain s1 where "crawl_pages S n req (s\<lparr>activePages := activePages s + 1\<rparr>) = (Done (Inl e), s1)" "s' = trackPageEnd s1"
    using n assms by (auto simp: crawlWithFixedPages_def trackPageStart_def split: prod.splits)
  moreover have "out (trackPageEnd s1) = out s1" by (simp add: trackPageEnd_def Let_def split: option.splits)
  ultimately show ?thesis using crawl_pages_error by metis
qed

lemma count_task_out [simp]: "out (count_task S a s) = out s" "net (count_task S a s) = net s" "forceProxyOnce (count_task S a s) = forceProxyOnce s"
  "activePages (count_task S a s) = activePages s"
  by (simp_all add: count_task_def Let_def)

lemma fail_task_out [simp]: "out (fail_task a s) = out s" "net (fail_task a s) = net s" "activePages (fail_task a s) = activePages s"
  by (simp_all add: fail_task_def)

lemma draining_no_proxy: "\<not> shouldActivateProxy (Some (errorf ''browser draining, task needs retry''))"
  by code_simp

lemma after_failure_retry:
  assumes "after_failure S a e s = (Inr u, s')"
  shows "shouldActivateProxy (Some e) \<and> CtxErr (ext S) (out s) = None"
proof -
  obtain f s1 where i: "incrConsecutiveFailures S s = (f, s1)" by fastforce
  obtain h s2 where h: "checkProxyHealthWithRetry 2 0 S s1 = (h, s2)" by fastforce
  let ?s3 = "snd (setProxyCooldown S (ProxyCooldown (App (cfg S))) (resetConsecutiveFailures S s2))"
  have "later s s1" using incrConsecutiveFailures_later [OF later_refl, of s] i by simp
  then have "later s s2" using checkProxyHealthWithRetry_later [of s s1 2 0] h by simp
  then have "later s ?s3" by (intro setProxyCooldown_later resetConsecutiveFailures_later)
  then have "CtxErr (ext S) (out ?s3) = None \<Longrightarrow> CtxErr (ext S) (out s) = None" using later_ctx by blast
  then show ?thesis using assms i h by (auto simp: after_failure_def Let_def split: if_splits bool.splits)
qed

lemma crawl_attempt_no_retry:
  assumes "\<not> forceProxyOnce s"
  shows "fst (crawl_attempt S req a s) \<noteq> Done None"
proof
  assume d: "fst (crawl_attempt S req a s) = Done None"
  let ?s0 = "if a = 0 then s\<lparr>TotalProcessed := TotalProcessed s + 1\<rparr> else s"
  obtain e s1 where e: "ensureBrowserState S ?s0 = (e, s1)" by fastforce
  have "later ?s0 s1" using ensureBrowserState_later [OF later_refl, of ?s0] e by simp
  then have f: "\<not> forceProxyOnce s1" using assms by (auto simp: later_def split: if_splits)
  obtain x s2 where x: "admit S s1 = (x, s2)" by fastforce
  obtain r s3 where r: "crawlWithFixedPages S req s2 = (r, s3)" by fastforce
  have "\<exists>y. r = Done (Inl y) \<and> (\<exists>u. fst (after_failure S a y (count_task S a s3)) = Inr u)"
    using d e f x r by (auto simp: crawl_attempt_def split: option.splits run.splits sum.splits prod.splits)
  then obtain y u s4 where y: "r = Done (Inl y)" "after_failure S a y (count_task S a s3) = (Inr u, s4)" by (metis prod.exhaust_sel)
  then show False using after_failure_retry [OF y(2)] crawlWithFixedPages_error [of req s2 y s3] r draining_no_proxy by auto
qed

end

section \<open>A whole crawl\<close>

context crawler_service
begin

text \<open>As \<open>later\<close>, without the counters that a crawl itself moves.\<close>

definition calm :: "('s, 'd, 'b) crawler \<Rightarrow> ('s, 'd, 'b) crawler \<Rightarrow> bool" where
  "calm st st' \<longleftrightarrow> ahead (ext S) (out st) (out st') \<and> same_keys (view (redis_st (net st))) (view (redis_st (net st')))
     \<and> db_st (net st') = db_st (net st) \<and> (quiet (net st) \<longrightarrow> quiet (net st')) \<and> activePages st' = activePages st"

lemma calm_refl [simp, intro]: "calm st st"
  by (simp add: calm_def)

lemma calm_later: "calm st s \<Longrightarrow> later s s' \<Longrightarrow> calm st s'"
  by (auto simp: calm_def later_def elim: ahead_trans same_keys_trans)

lemma calm_trans: "calm st s \<Longrightarrow> calm s s' \<Longrightarrow> calm st s'"
  by (auto simp: calm_def elim: ahead_trans same_keys_trans)

lemma calm_update [simp]: "calm st (s\<lparr>TotalProcessed := n\<rparr>) \<longleftrightarrow> calm st s" "calm st (s\<lparr>TotalSucceeded := n\<rparr>) \<longleftrightarrow> calm st s"
  "calm st (s\<lparr>forceProxyOnce := p\<rparr>) \<longleftrightarrow> calm st s" "calm st (fail_task a s) \<longleftrightarrow> calm st s" "calm st (count_task S a s) \<longleftrightarrow> calm st s"
  by (simp_all add: calm_def)

lemma after_failure_calm:
  assumes "calm st s"
  shows "calm st (snd (after_failure S a e s))"
proof -
  obtain f s1 where i: "incrConsecutiveFailures S s = (f, s1)" by fastforce
  obtain h s2 where h: "checkProxyHealthWithRetry 2 0 S s1 = (h, s2)" by fastforce
  let ?s3 = "snd (setProxyCooldown S (ProxyCooldown (App (cfg S))) (resetConsecutiveFailures S s2))"
  have "later s s1" using incrConsecutiveFailures_later [OF later_refl, of s] i by simp
  moreover have "later s1 s2" using checkProxyHealthWithRetry_later [OF later_refl, of s1 2 0] h by simp
  moreover have "later s2 ?s3" by (intro setProxyCooldown_later resetConsecutiveFailures_later later_refl)
  ultimately have "calm st s1" "calm st s2" "calm st ?s3" using assms calm_later by blast+
  then show ?thesis using i h by (auto simp: after_failure_def Let_def split: bool.splits)
qed

lemma succeed_task_calm: "calm st s \<Longrightarrow> calm st (snd (succeed_task S req a p s))"
  using calm_later [OF _ resetConsecutiveFailures_later [OF later_refl, of s]] by (auto simp: succeed_task_def Let_def)

lemma crawl_attempt_calm: "calm st (snd (crawl_attempt S req a st))"
proof -
  let ?s0 = "if a = 0 then st\<lparr>TotalProcessed := TotalProcessed st + 1\<rparr> else st"
  obtain e s1 where e: "ensureBrowserState S ?s0 = (e, s1)" by fastforce
  have 0: "calm st ?s0" by simp
  have 1: "calm st s1" using calm_later [OF 0 ensureBrowserState_later [OF later_refl]] e by simp
  obtain p s4 where p: "setProxyCooldown S (ProxyCooldown (App (cfg S))) (s1\<lparr>forceProxyOnce := False\<rparr>) = (p, s4)" by fastforce
  have "calm st (s1\<lparr>forceProxyOnce := False\<rparr>)" using 1 by simp
  then have 4: "calm st s4"
    by (rule calm_later)
      (use setProxyCooldown_later [OF later_refl, of "s1\<lparr>forceProxyOnce := False\<rparr>" "ProxyCooldown (App (cfg S))"] p in simp)
  obtain x s2 where x: "admit S s1 = (x, s2)" by fastforce
  have 2: "calm st s2" using calm_later [OF 1 admit_later [OF later_refl]] x by simp
  obtain r s3 where r: "crawlWithFixedPages S req s2 = (r, s3)" by fastforce
  have 3: "calm st s3" using calm_later [OF 2 crawlWithFixedPages_later] r by (metis snd_conv)
  have f: "calm st (snd (after_failure S a y (count_task S a s3)))" for y by (rule after_failure_calm) (use 3 in simp)
  have g: "calm st (snd (succeed_task S req a y (count_task S a s3)))" for y by (rule succeed_task_calm) (use 3 in simp)
  have c: "calm st (snd (case crawlWithFixedPages S req s2 of (Panic, st3) \<Rightarrow> (Panic, st3) | (NoFuel, st3) \<Rightarrow> (NoFuel, st3)
      | (Done (Inr response), st3) \<Rightarrow>
          (case succeed_task S req a response (count_task S a st3) of (p, st4) \<Rightarrow> (Done (Some (Inr p)), st4))
      | (Done (Inl e), st3) \<Rightarrow> (case after_failure S a e (count_task S a st3) of
             (Inl e', st4) \<Rightarrow> (Done (Some (Inl e')), st4) | (Inr _, st4) \<Rightarrow> (Done None, st4))))"
  proof (cases r)
    case (Done y)
    then show ?thesis
    proof (cases y)
      case (Inl e)
      then show ?thesis using r Done f [of e] by (cases "after_failure S a e (count_task S a s3)") (auto split: sum.splits)
    next
      case (Inr q)
      then show ?thesis using r Done g [of q] by (cases "succeed_task S req a q (count_task S a s3)") auto
    qed
  qed (use r 3 in simp_all)
  show ?thesis
  proof (cases e)
    case None
    show ?thesis
    proof (cases "a = 0 \<and> \<not> isUsingProxy s1 \<and> forceProxyOnce s1")
      case True
      then show ?thesis using e None p 4 by (cases p) (auto simp: crawl_attempt_def)
    next
      case False
      then have "crawl_attempt S req a st = (case admit S s1 of (Panic, st2) \<Rightarrow> (Panic, st2) | (NoFuel, st2) \<Rightarrow> (NoFuel, st2)
          | (Done (Some e), st2) \<Rightarrow> (Done (Some (Inl e)), st2)
          | (Done None, st2) \<Rightarrow> (case crawlWithFixedPages S req st2 of (Panic, st3) \<Rightarrow> (Panic, st3) | (NoFuel, st3) \<Rightarrow> (NoFuel, st3)
            | (Done (Inr response), st3) \<Rightarrow>
                (case succeed_task S req a response (count_task S a st3) of (p, st4) \<Rightarrow> (Done (Some (Inr p)), st4))
            | (Done (Inl e), st3) \<Rightarrow> (case after_failure S a e (count_task S a st3) of
                   (Inl e', st4) \<Rightarrow> (Done (Some (Inl e')), st4) | (Inr _, st4) \<Rightarrow> (Done None, st4))))"
        using e None unfolding crawl_attempt_def by (simp only: prod.case option.case if_False)
      then show ?thesis using x 2 c by (cases x) (auto split: option.splits)
    qed
  next
    case (Some y)
    then show ?thesis using e 1 by (simp add: crawl_attempt_def)
  qed
qed

lemma doCrawl_calm: "calm st (snd (doCrawl S req a st))"
proof -
  obtain x s1 where x: "crawl_attempt S req a st = (x, s1)" by fastforce
  have 1: "calm st s1" using crawl_attempt_calm [of st req a] x by simp
  show ?thesis
  proof (cases "x = Done None")
    case True
    obtain y s2 where y: "crawl_attempt S req (a + 1) s1 = (y, s2)" by fastforce
    have 2: "calm st s2" using calm_trans [OF 1] crawl_attempt_calm [of s1 req "a + 1"] y by (metis snd_conv)
    have "y \<noteq> Done None" using crawl_attempt_retries [of S req "a + 1" s1] y by auto
    then have "snd (doCrawl S req (a + 1) s1) = s2" using y by (subst doCrawl.simps) (auto split: run.splits option.splits)
    moreover have "doCrawl S req a st = doCrawl S req (a + 1) s1" using x True by (subst doCrawl.simps) simp
    ultimately show ?thesis using 2 by simp
  next
    case False
    then have "snd (doCrawl S req a st) = s1" using x by (subst doCrawl.simps) (auto split: run.splits option.splits)
    then show ?thesis using 1 by simp
  qed
qed

text \<open>The response of a crawl that succeeds.\<close>

lemma crawl_attempt_response:
  assumes "crawl_attempt S req a st = (Done (Some (Inr p)), st')"
  shows "resp_IpId p = req_IpId req \<and> resp_TaskId p = (if a = 0 then req_TaskId req else '''')"
proof -
  obtain e s1 where e: "ensureBrowserState S (if a = 0 then st\<lparr>TotalProcessed := TotalProcessed st + 1\<rparr> else st) = (e, s1)" by fastforce
  obtain x s2 where x: "admit S s1 = (x, s2)" by fastforce
  obtain r s3 where r: "crawlWithFixedPages S req s2 = (r, s3)" by fastforce
  have "\<exists>q. r = Done (Inr q) \<and> fst (succeed_task S req a q (count_task S a s3)) = p"
    using assms e x r by (auto simp: crawl_attempt_def split: option.splits run.splits sum.splits prod.splits if_splits)
  then obtain q where q: "r = Done (Inr q)" "fst (succeed_task S req a q (count_task S a s3)) = p" by blast
  obtain n s4 where "crawl_pages S n req (s2\<lparr>activePages := activePages s2 + 1\<rparr>) = (Done (Inr q), s4)"
    using r q(1) by (auto simp: crawlWithFixedPages_def trackPageStart_def split: if_splits option.splits prod.splits)
  then have "resp_IpId q = req_IpId req \<and> resp_TaskId q = ''''"
    by (auto simp: crawl_pages_def Let_def split: run.splits sum.splits prod.splits)
  then show ?thesis using q(2) by (auto simp: succeed_task_def Let_def)
qed

lemma doCrawl_response:
  assumes "doCrawl S req a st = (Done (Inr p), st')"
  shows "resp_IpId p = req_IpId req \<and> (resp_TaskId p = req_TaskId req \<or> resp_TaskId p = '''')"
proof -
  obtain x s1 where x: "crawl_attempt S req a st = (x, s1)" by fastforce
  show ?thesis
  proof (cases "x = Done None")
    case True
    then have d: "doCrawl S req (a + 1) s1 = (Done (Inr p), st')" using x assms by (subst (asm) doCrawl.simps) simp
    obtain y s2 where y: "crawl_attempt S req (a + 1) s1 = (y, s2)" by fastforce
    have "y \<noteq> Done None" using crawl_attempt_retries [of S req "a + 1" s1] y by auto
    then have "y = Done (Some (Inr p))" using d y by (subst (asm) doCrawl.simps) (auto split: run.splits option.splits)
    then show ?thesis using crawl_attempt_response y by (metis add_is_0 zero_neq_one)
  next
    case False
    then have "x = Done (Some (Inr p))" using x assms by (subst (asm) doCrawl.simps) (auto split: run.splits option.splits)
    then show ?thesis using crawl_attempt_response x by metis
  qed
qed

end

end
