(* ===== verification/CrawlTheorems.thy ===== *)
theory CrawlTheorems
  imports CrawlProofs QueueProofs
begin

text \<open>
  The theorems on the crawler: a crawl always returns, what it answers, what it leaves alone, what the worker does with a task,
  and how the throttle, the janitor and the switch to the proxy behave; with the laboratory on which their hypotheses are met.
\<close>

section \<open>A task in the queue\<close>

context queue_server
begin

lemma PopTask_quiet:
  assumes "quiet w" "lists (view (redis_st w)) KeyTaskQueue = rest @ [raw]" "MarshalReq C t = Some raw" "req_TaskId t \<noteq> ''''"
  shows "\<exists>w1. PopTask (Some R) C now w = (Inr t, w1) \<and> quiet w1 \<and> db_st w1 = db_st w \<and>
    view (redis_st w1) = (view (redis_st w))\<lparr>lists := (lists (view (redis_st w)))(KeyTaskQueue := rest,
        KeyTaskProcessingQueue := raw # lists (view (redis_st w)) KeyTaskProcessingQueue),
      hashes := (hashes (view (redis_st w)))(KeyTaskStartedHash := (hashes (view (redis_st w)) KeyTaskStartedHash)(req_TaskId t \<mapsto> FormatInt now))\<rparr>"
proof -
  obtain s' where s': "RPOPLPUSH R KeyTaskQueue KeyTaskProcessingQueue (redis_st w) = (Some raw, s')"
    "view s' = (view (redis_st w))\<lparr>lists := (lists (view (redis_st w)))(KeyTaskQueue := rest,
        KeyTaskProcessingQueue := raw # lists (view (redis_st w)) KeyTaskProcessingQueue)\<rparr>"
    using assms(2) by (cases rule: rpoplpush_cases [OF keys_distinct(1), of "redis_st w"]) auto
  have "UnmarshalReq C raw = Some t" using assms(3) req_roundtrip by blast
  then show ?thesis using assms(1,4) s' by (simp add: PopTask_def hset)
qed

lemma PushResult_quiet:
  assumes "quiet w"
  shows "\<exists>w1. snd (PushResult (Some R) C (Some p) w) = w1 \<and> quiet w1 \<and>
    view (redis_st w1) = (view (redis_st w))\<lparr>lists := (lists (view (redis_st w)))(KeyResultQueue :=
      (case MarshalResp C p of None \<Rightarrow> [] | Some data \<Rightarrow> [data]) @ lists (view (redis_st w)) KeyResultQueue)\<rparr>"
  using assms by (simp add: PushResult_def lpush split: option.splits)

lemma AckTask_quiet:
  assumes "quiet w" "MarshalReq C t = Some raw" "plain_id (req_TaskId t)"
    and "lists (view (redis_st w)) KeyTaskProcessingQueue = raw # others"
  shows "\<exists>w1. snd (AckTask (Some R) (Some t) w) = w1 \<and> quiet w1 \<and>
    view (redis_st w1) = (view (redis_st w))\<lparr>lists := (lists (view (redis_st w)))(KeyTaskProcessingQueue := others),
      sets := (sets (view (redis_st w)))(KeyTaskPendingSet := sets (view (redis_st w)) KeyTaskPendingSet - {dedup_key (req_IpId t)}),
      hashes := (hashes (view (redis_st w)))(KeyTaskStartedHash := (hashes (view (redis_st w)) KeyTaskStartedHash)(req_TaskId t := None))\<rparr>"
proof -
  have "lua_find (taskid_needle (req_TaskId t)) (lists (view (redis_st w)) KeyTaskProcessingQueue) = Some raw"
    using assms(2-4) req_needle by simp
  then have "view (snd (ackTaskScript R (req_TaskId t) (dedup_key (req_IpId t)) (redis_st w))) =
      (view (redis_st w))\<lparr>lists := (lists (view (redis_st w)))(KeyTaskProcessingQueue := others),
      sets := (sets (view (redis_st w)))(KeyTaskPendingSet := sets (view (redis_st w)) KeyTaskPendingSet - {dedup_key (req_IpId t)}),
      hashes := (hashes (view (redis_st w)))(KeyTaskStartedHash := (hashes (view (redis_st w)) KeyTaskStartedHash)(req_TaskId t := None))\<rparr>"
    using lua_remove_view [of KeyTaskProcessingQueue "req_TaskId t" "redis_st w"] assms(4)
    by (simp add: ackTaskScript_def hdel srem case_prod_unfold)
  moreover have "req_TaskId t \<noteq> ''''" using assms(3) by (auto simp: plain_id_def)
  ultimately show ?thesis using assms(1) by (simp add: AckTask_def)
qed

end

lemma queue_keys_other [simp]:
  "KeyTaskQueue \<notin> crawler_keys" "KeyTaskProcessingQueue \<notin> crawler_keys" "KeyTaskPendingSet \<notin> crawler_keys"
  "KeyTaskStartedHash \<notin> crawler_keys" "KeyTaskDeadLetter \<notin> crawler_keys" "KeyResultQueue \<notin> crawler_keys"
  by (simp_all add: crawler_keys_def key_defs rateLimitKey_def proxyCooldownKey_def consecutiveFailuresKey_def cookieCacheKey_def
      consecutiveBlockKey_def)

lemma queue_keys_distinct [simp]:
  "KeyResultQueue \<noteq> KeyTaskQueue" "KeyResultQueue \<noteq> KeyTaskProcessingQueue" "KeyTaskQueue \<noteq> KeyResultQueue"
  "KeyTaskProcessingQueue \<noteq> KeyResultQueue" "KeyTaskQueue \<noteq> KeyTaskProcessingQueue" "KeyTaskProcessingQueue \<noteq> KeyTaskQueue"
  by (simp_all add: key_defs)

lemma task_response_ids:
  assumes "case r of Inl e \<Rightarrow> True | Inr p \<Rightarrow> resp_IpId p = req_IpId t \<and> (resp_TaskId p = req_TaskId t \<or> resp_TaskId p = '''')"
  shows "resp_IpId (task_response S t timedOut r st) = req_IpId t \<and> resp_TaskId (task_response S t timedOut r st) = req_TaskId t"
    and "timedOut \<Longrightarrow> resp_ErrorMessage (task_response S t timedOut r st) \<noteq> ''''"
  using assms by (auto simp: task_response_def error_response_def Let_def split: sum.splits)

section \<open>A laboratory\<close>

text \<open>A page element with its attributes, its text and what its selectors find.\<close>

datatype node = Node "(string \<times> string) list" string "(string \<times> node) list"

fun node_find :: "node \<Rightarrow> string \<Rightarrow> node option" where
  "node_find (Node attrs txt found) sel = map_of found sel"

fun node_text :: "node \<Rightarrow> string option" where
  "node_text (Node attrs txt found) = Some txt"

fun node_attr :: "node \<Rightarrow> string \<Rightarrow> string option" where
  "node_attr (Node attrs txt found) a = map_of attrs a"

definition node_dom :: "node dom" where
  "node_dom = \<lparr>Element = node_find, ElText = node_text, Attribute = node_attr\<rparr>"

text \<open>
  An outside whose state is the clock: the context never expires, the answers are the given ones (whether a page can be
  created, its title, who wins the race, the elements on it), and the timed waits move the clock.
\<close>

definition lab :: "err option \<Rightarrow> string \<times> string \<Rightarrow> race \<Rightarrow> node list \<Rightarrow> (int, node) outside" where
  "lab created info won items = \<lparr>dom = node_dom, Clock = (\<lambda>b. b), CtxErr = (\<lambda>b. None), Int63n = (\<lambda>n b. (0, b)),
     RandFloat64 = (\<lambda>b. (1 / 2, b)), Sleep = (\<lambda>d b. (True, b)),
     RateSelect = (\<lambda>d b. if b < d then (Elapsed, b + rateLimitPoll) else (DeadlinePassed, b)),
     ScrollSelect = (\<lambda>d b. if b < d then (False, b + scrollWaitInterval) else (True, b)),
     DrainSelect = (\<lambda>d b. (True, b)), BehaviorSleep = (\<lambda>d b. (True, b)), HealthErr = (\<lambda>b. False), HealthSleep = (\<lambda>d b. (True, b)),
     DownloadBrowser = (\<lambda>b. (Inr ''chrome'', b)), ParseURL = (\<lambda>u. Inl (errorf ''parse'')),
     Launch = (\<lambda>bin hl win proxy b. (Inr ''ws'', b)), Connect = (\<lambda>ws auth b. (Inr 1, b)), CloseBrowser = (\<lambda>n b. (True, b)),
     ProbePage = (\<lambda>n b. (True, b)), OpenPage = (\<lambda>n u b. (True, b)), WaitLoad = (\<lambda>b. (True, b)),
     CreatePage = (\<lambda>n b. (Ready created, b)), ApplyStealth = (\<lambda>b. (Ready None, b)), SetupPage = (\<lambda>ua b. b), ClosePage = (\<lambda>b. b),
     Cookies = (\<lambda>b. (Some [], b)), SetCookies = (\<lambda>cs b. (True, b)), Navigate = (\<lambda>u b. (Ready None, b)), WaitLoaded = (\<lambda>b. b),
     EvalViewport = (\<lambda>b. (None, b)), EvalMouse = (\<lambda>x y b. (True, b)), EvalScroll = (\<lambda>x b. (True, b)), ScrollPage = (\<lambda>b. b),
     Info = (\<lambda>b. (Some info, b)), PageElement = (\<lambda>sel b. (None, b)), PageElements = (\<lambda>sel b. (Some items, b)),
     Race = (\<lambda>sels b. (won, b)), MapOrder = (\<lambda>items b. (items, b)), Diagnose = (\<lambda>what b. b)\<rparr>"

interpretation lab: outside_laws "lab created info won items"
  by unfold_locales (auto simp: lab_def ahead_def rateLimitPoll_def scrollWaitInterval_def Millisecond_def split: if_splits)

lemma lab_wide: "wide_viewport (lab created info won items)"
  by (simp add: wide_viewport_def lab_def)

text \<open>Counters in memory.\<close>

definition mem_counters :: "mem counters" where
  "mem_counters = \<lparr>INCR = (\<lambda>k m. case map_of (m_strings m) k of
       None \<Rightarrow> (Some 1, m\<lparr>m_strings := alist_put k ''1'' (m_strings m)\<rparr>)
     | Some t \<Rightarrow> (case ParseInt 64 t of (n, bad) \<Rightarrow> if bad \<or> n = 2 ^ 63 - 1 then (None, m)
         else (Some (n + 1), m\<lparr>m_strings := alist_put k (FormatInt (n + 1)) (m_strings m)\<rparr>))),
     EXISTS = (\<lambda>k m. aget (m_lists m) k \<noteq> [] \<or> aget (m_sets m) k \<noteq> [] \<or> aget (m_hashes m) k \<noteq> []
       \<or> aget (m_zsets m) k \<noteq> [] \<or> map_of (m_strings m) k \<noteq> None)\<rparr>"

interpretation mem_counters: redis_counters mem_redis mem_view mem_counters
proof (unfold_locales, goal_cases)
  case (1 s k)
  then show ?case by (simp add: mem_counters_def mem_view_def)
next
  case (2 s k t n)
  then show ?case by (simp add: mem_counters_def mem_view_def)
next
  case (3 s k t)
  then show ?case by (auto simp: mem_counters_def mem_view_def split: prod.splits)
next
  case (4 k s)
  have "map_of xs = Map.empty \<longleftrightarrow> xs = []" for xs :: "('a \<times> 'c) list" by (cases xs) auto
  then show ?case by (auto simp: mem_counters_def mem_view_def)
qed

definition lab_parts :: "codec \<Rightarrow> (int, node) outside \<Rightarrow> (mem, int, node) parts" where
  "lab_parts C E = \<lparr>p_redis = mem_redis, p_counters = mem_counters, p_codec = C, p_queue = Some mem_redis, p_lua = sample_lua,
     p_oor = (\<lambda>q. 0), p_json = (\<lambda>cs. None, \<lambda>s. None), p_ext = E\<rparr>"

definition lab_service :: "(int, node) outside \<Rightarrow> (mem, int, node) service" where
  "lab_service E = new_service (lab_parts sample_codec E) DefaultConfig 0"

definition lab_crawler :: "mem \<Rightarrow> outcome list \<Rightarrow> (mem, unit, int) crawler" where
  "lab_crawler m os = new_crawler False 1 (sample_world m os) 0"

lemma lab_service_simps [simp]:
  "rdb (lab_service E) = Some mem_redis" "counters (lab_service E) = mem_counters" "ext (lab_service E) = E"
  "queueCodec (lab_service E) = sample_codec" "redisQueue (lab_service E) = Some mem_redis" "cfg (lab_service E) = DefaultConfig"
  by (simp_all add: lab_service_def new_service_def lab_parts_def Let_def)

interpretation lab_crawl: crawler_service mem_redis mem_view "lab_service (lab created info won items)"
proof (intro crawler_service.intro crawler_service_axioms.intro)
  show "redis_counters mem_redis mem_view (counters (lab_service (lab created info won items)))"
    using mem_counters.redis_counters_axioms by simp
  show "outside_laws (ext (lab_service (lab created info won items)))"
    using lab.outside_laws_axioms by simp
qed (auto simp: lab_service_def new_service_def lab_parts_def new_limiter_def DefaultConfig_def Let_def Minute_def Second_def)

section \<open>Properties\<close>

text \<open>
  (C16) A crawl always returns: whatever the browser, Redis and the proxy answer, the scroll loops and the wait for the rate
  limiter end within their times, the recursion makes at most one retry, and no call panics as long as the browser does not report
  a window of 200 pixels or less.
\<close>

theorem doCrawl_returns:
  assumes "crawler_service R view S" and "wide_viewport (ext S)"
  shows "\<exists>r st'. doCrawl S req attempt st = (Done r, st')"
  by (rule crawler_service.doCrawl_ends [OF assms])

theorem doCrawl_returns_witness:
  "\<exists>r st'. doCrawl (lab_service (lab None (''title'', ''url'') (Won 0) [])) task_a 0 (lab_crawler sample_mem [Lost 1]) = (Done r, st')"
  using doCrawl_returns [OF lab_crawl.crawler_service_axioms] lab_wide by simp

text \<open>
  A crawl leaves alone what is not its own: of Redis it only changes its five keys (the rate limit, the proxy cooldown,
  the two counters and the cookies), nothing of the database, and the number of active pages is what it was, so that a
  drain waits for exactly the pages that are open.
\<close>

theorem doCrawl_frame:
  assumes "crawler_service R view S" and "doCrawl S req attempt st = (r, st')"
  shows "same_keys (view (redis_st (net st))) (view (redis_st (net st'))) \<and> db_st (net st') = db_st (net st)
    \<and> activePages st' = activePages st"
  using crawler_service.doCrawl_calm [OF assms(1), of st req attempt] assms(2)
  by (simp add: crawler_service.calm_def [OF assms(1)])

theorem doCrawl_frame_witness:
  "activePages (snd (doCrawl (lab_service (lab None (''title'', ''url'') (Won 0) [])) task_a 0 (lab_crawler sample_mem [Lost 1]))) = 0"
proof -
  let ?S = "lab_service (lab None (''title'', ''url'') (Won 0) [])" and ?c = "lab_crawler sample_mem [Lost 1]"
  have "same_keys (mem_view (redis_st (net ?c))) (mem_view (redis_st (net (snd (doCrawl ?S task_a 0 ?c)))))
    \<and> db_st (net (snd (doCrawl ?S task_a 0 ?c))) = db_st (net ?c) \<and> activePages (snd (doCrawl ?S task_a 0 ?c)) = activePages ?c"
    by (rule doCrawl_frame [OF lab_crawl.crawler_service_axioms]) (rule surjective_pairing)
  then show ?thesis by (simp add: lab_crawler_def new_crawler_def)
qed

lemma page_loop_unreachable:
  assumes "\<And>b. CtxErr (ext S) b = None" and "\<And>b. \<exists>e b'. CreatePage (ext S) n b = (Ready (Some e), b')"
  shows "\<exists>st'. page_loop S n phase status page_of pages items c st = (Done (Inr (items, c)), st')"
proof (induction pages arbitrary: st)
  case (Cons p pages)
  obtain e b' where "CreatePage (ext S) n (out st) = (Ready (Some e), b')" using assms(2) by blast
  then have "fetchPageContent S n (fst (page_of p)) (snd (page_of p)) st = (Done (Inl (wrapf ''create page failed'' e)), st\<lparr>out := b'\<rparr>)"
    by (simp add: fetchPageContent_def open_page_def call_out_def)
  then show ?case using Cons assms(1) by simp
qed simp

lemma unreachable_pages:
  assumes "browser st = Some n" "\<not> draining st" "\<And>b. CtxErr (ext S) b = None"
    and "\<And>b. \<exists>e b'. CreatePage (ext S) n b = (Ready (Some e), b')"
  shows "\<exists>p st'. crawlWithFixedPages S req st = (Done (Inr p), st') \<and> resp_Items p = [] \<and> resp_ErrorMessage p = '''' \<and> resp_PagesCrawled p = 0"
proof -
  define s0 where "s0 = st\<lparr>activePages := activePages st + 1\<rparr>"
  obtain s1 where 1: "page_loop S n ''on_sale'' ITEM_STATUS_ON_SALE (on_sale_page (req_Keyword req))
      [0..page_count (req_PagesOnSale req) - 1] [] 0 s0 = (Done (Inr ([], 0)), s1)"
    using page_loop_unreachable [of S n, OF assms(3,4)] by blast
  obtain s2 where 2: "page_loop S n ''sold'' ITEM_STATUS_SOLD (sold_page (req_Keyword req) (page_count (req_PagesOnSale req)))
      [0..page_count (req_PagesSold req) - 1] [] 0 s1 = (Done (Inr ([], 0)), s2)"
    using page_loop_unreachable [of S n, OF assms(3,4)] by blast
  show ?thesis using assms(1,2) 1 2
    by (simp add: crawlWithFixedPages_def trackPageStart_def crawl_pages_def Let_def flip: s0_def)
qed



text \<open>
  One turn of the worker with a task in the queue and no fault of Redis: the task is taken off the queue; a response with
  its task and IP identifiers is pushed to the result queue; a crawl that ended, well or not, is acknowledged, so the
  task is off the processing list and its IP is free again, while a crawl that ran out of time stays on the
  processing list for the janitor, its IP still pending, and its response carries an error.
\<close>

theorem worker_turn_effect:
  assumes cs: "crawler_service R view S" and pj: "protojson C" and wide: "wide_viewport (ext S)"
    and S: "redisQueue S = Some R" "queueCodec S = C"
    and w: "quiet (net st)" "lists (view (redis_st (net st))) KeyTaskQueue = rest @ [raw]"
    and t: "MarshalReq C t = Some raw" "plain_id (req_TaskId t)"
  shows "\<exists>st' p. worker_turn S timedOut st = (Done (), st') \<and> resp_TaskId p = req_TaskId t \<and> resp_IpId p = req_IpId t
    \<and> (timedOut \<longrightarrow> resp_ErrorMessage p \<noteq> '''')
    \<and> (let v = view (redis_st (net st)); v' = view (redis_st (net st')) in
       lists v' KeyTaskQueue = rest
       \<and> lists v' KeyTaskProcessingQueue = (if timedOut then [raw] else []) @ lists v KeyTaskProcessingQueue
       \<and> lists v' KeyResultQueue = (case MarshalResp C p of None \<Rightarrow> [] | Some data \<Rightarrow> [data]) @ lists v KeyResultQueue
       \<and> sets v' KeyTaskPendingSet = (if timedOut then sets v KeyTaskPendingSet else sets v KeyTaskPendingSet - {dedup_key (req_IpId t)}))"
proof -
  note qs = queue_server.intro [OF redis_counters.axioms(1) [OF crawler_service.axioms(1) [OF cs]] pj]
  define now where "now = Clock (ext S) (out st) div Second"
  define v where "v = view (redis_st (net st))"
  have id: "req_TaskId t \<noteq> ''''" using t(2) by (auto simp: plain_id_def)
  obtain w1 where w1: "PopTask (Some R) C now (net st) = (Inr t, w1)" "quiet w1" "view (redis_st w1) =
      v\<lparr>lists := (lists v)(KeyTaskQueue := rest, KeyTaskProcessingQueue := raw # lists v KeyTaskProcessingQueue),
        hashes := (hashes v)(KeyTaskStartedHash := (hashes v KeyTaskStartedHash)(req_TaskId t \<mapsto> FormatInt now))\<rparr>"
    using queue_server.PopTask_quiet [OF qs w t(1) id, of now] by (auto simp: v_def)
  obtain r st1 where d: "doCrawl S t 0 (st\<lparr>net := w1\<rparr>) = (Done r, st1)"
    using crawler_service.doCrawl_ends [OF cs wide] by blast
  have calm: "same_keys (view (redis_st w1)) (view (redis_st (net st1)))" "quiet (net st1)"
    using crawler_service.doCrawl_calm [OF cs, of "st\<lparr>net := w1\<rparr>" t 0] d w1(2)
    by (simp_all add: crawler_service.calm_def [OF cs])
  define p where "p = task_response S t timedOut r st1"
  have ids: "resp_IpId p = req_IpId t" "resp_TaskId p = req_TaskId t" "timedOut \<Longrightarrow> resp_ErrorMessage p \<noteq> ''''"
    using task_response_ids [where r = r and t = t and S = S and timedOut = timedOut and st = st1] crawler_service.doCrawl_response [OF cs, of t 0 "st\<lparr>net := w1\<rparr>" _ st1] d
    by (auto simp: p_def split: sum.splits)
  define u where "u = view (redis_st (net st1))"
  define w2 where "w2 = snd (PushResult (Some R) C (Some p) (net st1))"
  have w2: "quiet w2" "view (redis_st w2) = u\<lparr>lists := (lists u)(KeyResultQueue :=
      (case MarshalResp C p of None \<Rightarrow> [] | Some data \<Rightarrow> [data]) @ lists u KeyResultQueue)\<rparr>"
    using queue_server.PushResult_quiet [OF qs calm(2), of p] by (simp_all add: w2_def u_def)
  have u: "lists u KeyTaskQueue = rest" "lists u KeyTaskProcessingQueue = raw # lists v KeyTaskProcessingQueue"
      "lists u KeyResultQueue = lists v KeyResultQueue" "sets u KeyTaskPendingSet = sets v KeyTaskPendingSet"
    using same_keysD [OF calm(1)] w1(3) by (simp_all add: u_def)
  obtain w3 where w3: "snd (AckTask (Some R) (Some t) w2) = w3" "lists (view (redis_st w3)) =
      (lists (view (redis_st w2)))(KeyTaskProcessingQueue := lists v KeyTaskProcessingQueue)"
      "sets (view (redis_st w3)) KeyTaskPendingSet = sets v KeyTaskPendingSet - {dedup_key (req_IpId t)}"
    using queue_server.AckTask_quiet [OF qs w2(1) t, of "lists v KeyTaskProcessingQueue"] w2(2) u by auto
  have "worker_turn S timedOut st = (Done (), st1\<lparr>net := (if timedOut then w2 else w3)\<rparr>)"
    using S w1(1) d w3(1) by (auto simp: worker_turn_def now_def process_task_def finish_task_def Let_def p_def w2_def)
  then show ?thesis using ids u w2(2) w3
    by (intro exI [of _ "st1\<lparr>net := (if timedOut then w2 else w3)\<rparr>"] exI [of _ p]) (auto simp: Let_def v_def)
qed

theorem worker_turn_effect_witness:
  "\<exists>st' (p :: CrawlResponse). worker_turn (lab_service (lab None (''title'', ''url'') (Won 0) [])) True (lab_crawler sample_mem []) = (Done (), st')
    \<and> resp_TaskId p = req_TaskId task_b \<and> resp_ErrorMessage p \<noteq> '''' \<and> lists (mem_view (redis_st (net st'))) KeyTaskProcessingQueue = [raw_b, raw_a]"
proof -
  let ?S = "lab_service (lab None (''title'', ''url'') (Won 0) [])" and ?c = "lab_crawler sample_mem []"
  have P: "lists (mem_view (redis_st (net ?c))) KeyTaskProcessingQueue = [raw_a]"
    by (simp add: lab_crawler_def new_crawler_def sample_world_def sample_mem_def mem_empty_def mem_view_def key_defs)
  have h: "wide_viewport (ext ?S)" "redisQueue ?S = Some mem_redis" "queueCodec ?S = sample_codec" "quiet (net ?c)"
      "lists (mem_view (redis_st (net ?c))) KeyTaskQueue = [] @ [raw_b]"
    using lab_wide by (simp_all add: lab_crawler_def new_crawler_def sample_world_def quiet_def sample_mem_def mem_empty_def mem_view_def)
  have t: "MarshalReq sample_codec task_b = Some raw_b" "plain_id (req_TaskId task_b)" by code_simp+
  from worker_turn_effect [OF lab_crawl.crawler_service_axioms sample.protojson_axioms h t, of True]
  show ?thesis unfolding Let_def if_True P append.simps by blast
qed

text \<open>
  After a failed crawl nothing is retried through the proxy, however the proxy is configured: a crawl only fails while the
  browser is being replaced, which does not call for a proxy, or once the time of the task is up, when it is too late for
  a retry. Pages that are blocked or out of reach do not make a crawl fail. The only retry left is the one the environment
  variable \<open>FORCE_PROXY_ONCE\<close> asks for.
\<close>

theorem no_retry_through_proxy:
  assumes "crawler_service R view S" and "\<not> forceProxyOnce st"
  shows "fst (crawl_attempt S req attempt st) \<noteq> Done None"
  by (rule crawler_service.crawl_attempt_no_retry [OF assms])

theorem no_retry_through_proxy_witness:
  "fst (crawl_attempt (lab_service (lab None (''Just a moment'', ''url'') (Won 3) [])) task_a 0 (lab_crawler sample_mem [])) \<noteq> Done None"
  by (rule no_retry_through_proxy [OF lab_crawl.crawler_service_axioms]) (simp add: lab_crawler_def new_crawler_def)

text \<open>
  A crawl of pages none of which can be opened is a success: a response without an error and without items, so the
  count of consecutive failures, which decides on the proxy, starts again from zero.
\<close>

theorem unreachable_pages_succeed:
  assumes "browser st = Some n" "\<not> draining st" "\<And>b. CtxErr (ext S) b = None"
    and "\<And>b. \<exists>e b'. CreatePage (ext S) n b = (Ready (Some e), b')"
  shows "\<exists>p st'. crawlWithFixedPages S req st = (Done (Inr p), st') \<and> resp_Items p = [] \<and> resp_ErrorMessage p = '''' \<and> resp_PagesCrawled p = 0"
  by (rule unreachable_pages [OF assms])

theorem unreachable_pages_succeed_witness:
  "\<exists>p st'. crawlWithFixedPages (lab_service (lab (Some (errorf ''net::ERR_FAILED'')) (''title'', ''url'') (Won 0) [])) task_a
      (lab_crawler sample_mem []) = (Done (Inr p), st') \<and> resp_Items p = [] \<and> resp_ErrorMessage p = '''' \<and> resp_PagesCrawled p = 0"
  by (rule unreachable_pages_succeed) (simp_all add: lab_crawler_def new_crawler_def, simp_all add: lab_def)

section \<open>The throttle\<close>

context crawler_service
begin

text \<open>After \<open>n\<close> blocked pages in a row, with no other crawler on the same Redis.\<close>

definition block_state :: "nat \<Rightarrow> ('s, 'd, 'b) crawler \<Rightarrow> bool" where
  "block_state n st \<longleftrightarrow> consecutiveBlocks st = word_of_nat n \<and> \<not> inCooldown st \<and> quiet (net st)
     \<and> strings (view (redis_st (net st))) consecutiveBlockKey = (if n = 0 then None else Some (FormatInt (int n)))"

lemma sint_small: "n < 2 ^ 31 \<Longrightarrow> sint (word_of_nat n :: i32) = int n"
  by (simp add: signed_of_nat signed_take_bit_int_eq_self)

lemma incr_block:
  assumes "strings (view s) consecutiveBlockKey = (if n = 0 then None else Some (FormatInt (int n)))" "n < 2 ^ 31"
  shows "fst (incr_expire R (counters S) consecutiveBlockKey consecutiveBlockTTL s) = Some (int n + 1)
    \<and> strings (view (snd (incr_expire R (counters S) consecutiveBlockKey consecutiveBlockTTL s))) consecutiveBlockKey = Some (FormatInt (int n + 1))"
proof (cases "n = 0")
  case True
  then show ?thesis using assms(1) incr_new [of s consecutiveBlockKey]
    by (auto simp: incr_expire_def expire FormatInt_def FormatNat.simps digit_char_def char_of_def bit_0 split: prod.splits)
next
  case False
  have b: "int n < 2 ^ 63 - 1" using assms(2) by simp
  have p: "ParseInt 64 (FormatInt (int n)) = (int n, False)" using b by (intro ParseInt_FormatInt) auto
  show ?thesis using assms(1) False incr_old [OF _ p b, of s consecutiveBlockKey]
    by (auto simp: incr_expire_def expire split: prod.splits)
qed

lemma RecordBlock_counts:
  assumes R: "rdb S = Some R" and st: "block_state n st" and n: "n + 1 < 2 ^ 31"
  shows "\<exists>d st'. RecordBlock S st = ((3 \<le> n + 1, d), st') \<and> (if 3 \<le> n + 1 then minSleepDuration \<le> d \<and> d < maxSleepDuration else d = 0)
    \<and> block_state (n + 1) (ExitCooldown st') \<and> (inCooldown st' \<longleftrightarrow> 3 \<le> n + 1)"
proof -
  define st1 where "st1 = st\<lparr>consecutiveBlocks := consecutiveBlocks st + 1\<rparr>"
  have c: "consecutiveBlocks st1 = word_of_nat (n + 1)" "\<not> inCooldown st1" "quiet (net st1)" "net st1 = net st"
    using st by (simp_all add: st1_def block_state_def)
  let ?cmd = "incr_expire R (counters S) consecutiveBlockKey consecutiveBlockTTL"
  define st2 where "st2 = st1\<lparr>net := (net st1)\<lparr>redis_st := snd (?cmd (redis_st (net st1)))\<rparr>\<rparr>"
  have i: "fst (?cmd (redis_st (net st1))) = Some (int n + 1)"
      "strings (view (redis_st (net st2))) consecutiveBlockKey = Some (FormatInt (int n + 1))"
    using incr_block [of "redis_st (net st)" n] st n c(4) by (auto simp: block_state_def st2_def)
  have r: "call_redis ?cmd st1 = (Some (Some (int n + 1)), st2)"
    using c(3) i(1) by (simp add: call_redis_def st2_def)
  have s: "sint (consecutiveBlocks st1) = int n + 1" using c(1) sint_small [OF n] by simp
  have cnt: "shared_count (consecutiveBlocks st1) (Some (Some (int n + 1))) = consecutiveBlocks st1"
    using s by (simp add: shared_count_def)
  have ok: "block_state (n + 1) (ExitCooldown (st2\<lparr>inCooldown := x, out := b\<rparr>))" for x b
    using c i(2) by (simp add: block_state_def ExitCooldown_def st2_def add.commute)
  have eq: "RecordBlock S st = (if 3 \<le> n + 1 then (case call_out (Int63n (ext S) (maxSleepDuration - minSleepDuration)) (st2\<lparr>inCooldown := True\<rparr>) of
      (x, st3) \<Rightarrow> ((True, minSleepDuration + x), st3)) else ((False, 0), st2))"
    using R r cnt s c(2) by (simp add: RecordBlock_def Let_def st1_def [symmetric] blockThresholdForSleep_def st2_def)
  show ?thesis
  proof (cases "3 \<le> n + 1")
    case True
    obtain x b where x: "Int63n (ext S) (maxSleepDuration - minSleepDuration) (out st2) = (x, b)" by fastforce
    have "0 \<le> x \<and> x < maxSleepDuration - minSleepDuration"
      by (rule random_below [OF _ x]) (simp add: maxSleepDuration_def minSleepDuration_def Second_def)
    then show ?thesis using True eq x ok [of b True] by (simp add: call_out_def)
  next
    case False
    have "block_state (n + 1) (ExitCooldown st2)" "\<not> inCooldown st2" using c i(2) by (simp_all add: block_state_def ExitCooldown_def st2_def add.commute)
    then show ?thesis using False eq by simp
  qed
qed

lemma ClearCookies_block_state:
  assumes "rdb S = Some R" "block_state n st"
  shows "block_state n (ClearCookies S st)"
  using assms
  by (simp add: ClearCookies_def Let_def call_redis_def block_state_def del cookieCacheKey_def consecutiveBlockKey_def)

lemma handleBlockEvent_block_state:
  assumes "rdb S = Some R" "block_state n st" "n + 1 < 2 ^ 31"
  shows "block_state (n + 1) (handleBlockEvent S bt st)"
proof -
  define st1 where "st1 = (if bt = ''403_forbidden'' then ClearCookies S st else st)"
  have "block_state n st1" using assms by (simp add: st1_def ClearCookies_block_state)
  then obtain d st2 where r: "RecordBlock S st1 = ((3 \<le> n + 1, d), st2)" "block_state (n + 1) (ExitCooldown st2)" "inCooldown st2 \<longleftrightarrow> 3 \<le> n + 1"
    using RecordBlock_counts [OF assms(1) _ assms(3)] by blast
  have "block_state (n + 1) (ExitCooldown (snd (call_out f st2)))" for f :: "'b \<Rightarrow> bool \<times> 'b"
    using r(2) by (simp add: block_state_def ExitCooldown_def call_out_def split_beta)
  moreover have "\<not> 3 \<le> n + 1 \<Longrightarrow> block_state (n + 1) st2" using r(2,3) by (simp add: block_state_def ExitCooldown_def)
  ultimately show ?thesis using r(1) by (simp add: handleBlockEvent_def Let_def st1_def)
qed

lemma blocks_in_a_row: "rdb S = Some R \<Longrightarrow> block_state 0 st \<Longrightarrow> n < 2 ^ 31 \<Longrightarrow> block_state n ((handleBlockEvent S bt ^^ n) st)"
proof (induction n)
  case (Suc n)
  then show ?case using handleBlockEvent_block_state [of n "(handleBlockEvent S bt ^^ n) st" bt] by simp
qed simp

lemma RecordSuccess_block_state:
  assumes "rdb S = Some R" "block_state n st" "n < 2 ^ 31"
  shows "block_state 0 (RecordSuccess S st)"
  using assms sint_small [OF assms(3)]
  by (auto simp: RecordSuccess_def Let_def call_redis_def block_state_def del)

end



text \<open>
  The browser follows the proxy mode: after a successful check it is in the mode the cooldown key (or its cached reading)
  asks for; when the switch to the proxy fails, the mode stays as it was and for the next five seconds the crawler does not try
  again but goes on directly.
\<close>

theorem proxy_mode_follows:
  assumes "ensureBrowserState S st = (e, st')" and "\<not> currentIsProxy st"
  shows "(e = None \<longrightarrow> currentIsProxy st' = fst (getProxyState S st)) \<and>
    (e \<noteq> None \<longrightarrow> fst (getProxyState S st) \<and> \<not> currentIsProxy st' \<and>
      (Clock (ext S) b < Clock (ext S) (out st') + 5 * Second \<longrightarrow> ensureBrowserState S (st'\<lparr>out := b\<rparr>) = (None, st'\<lparr>out := b\<rparr>)))"
proof -
  obtain want s1 where g: "getProxyState S st = (want, s1)" by fastforce
  have c: "currentIsProxy s1 = currentIsProxy st"
    using g by (auto simp: getProxyState_def Let_def call_redis_def split: if_splits option.splits prod.splits)
  obtain e1 s2 where r: "rotateBrowser S want s1 = (e1, s2)" by fastforce
  have c2: "currentIsProxy s2 = currentIsProxy s1"
    using r by (auto simp: rotateBrowser_def waitForDrain_def startDraining_def completeDraining_def call_out_def Let_def
        split: prod.splits sum.splits option.splits if_splits)
  show ?thesis
  proof (cases want)
    case False
    then show ?thesis using assms g c by (auto simp: ensureBrowserState_def)
  next
    case True
    have again: "ensureBrowserState S (cache_proxy S False s2\<lparr>out := b\<rparr>) = (None, cache_proxy S False s2\<lparr>out := b\<rparr>)"
      if "Clock (ext S) b < Clock (ext S) (out s2) + 5 * Second"
      using that c c2 assms(2) by (simp add: ensureBrowserState_def getProxyState_def cache_proxy_def proxyCacheTTL_def)
    show ?thesis using assms g c c2 r True again by (cases e1) (auto simp: ensureBrowserState_def cache_proxy_def)
  qed
qed

theorem proxy_mode_follows_witness:
  "\<exists>st'. ensureBrowserState (lab_service (lab None (''title'', ''url'') (Won 0) [])) (lab_crawler sample_mem []) = (None, st') \<and> \<not> currentIsProxy st'"
proof -
  let ?S = "lab_service (lab None (''title'', ''url'') (Won 0) [])" and ?c = "lab_crawler sample_mem []"
  obtain e st' where r: "ensureBrowserState ?S ?c = (e, st')" by fastforce
  have c: "\<not> currentIsProxy ?c" by (simp add: lab_crawler_def new_crawler_def)
  have g: "\<not> fst (getProxyState ?S ?c)"
    by (simp add: getProxyState_def lab_crawler_def new_crawler_def call_redis_def sample_world_def quiet_def mem_counters_def sample_mem_def
        mem_empty_def proxyCooldownKey_def key_defs)
  from proxy_mode_follows [OF r c] r g show ?thesis by auto
qed

section \<open>The janitor of the crawler\<close>

lemma Seconds_ge:
  assumes "0 \<le> d" "d div Second \<le> 2 ^ 53"
  shows "d div Second \<le> threshold d"
proof -
  have "0 \<le> d mod Second" by (simp add: Second_def)
  moreover have "tmod d Second = d mod Second" using assms(1) by (simp add: tmod_def Second_def minus_mult_div_eq_mod)
  ultimately have "0 \<le> fdiv (f64_of_int (tmod d Second)) (10 ^ 9)"
    by (simp add: fdiv_def f64_of_int_def rnd64_nonneg)
  moreover have "f64_of_int (tdiv d Second) = of_int (d div Second)"
    using assms pos_imp_zdiv_nonneg_iff [of Second d] by (simp add: f64_of_int_def rnd64_of_int Second_def)
  ultimately have "of_int (d div Second) \<le> Seconds d"
    unfolding Seconds_def fadd_def by (intro rnd64_ge_int) (use assms pos_imp_zdiv_nonneg_iff [of Second d] in \<open>simp_all add: Second_def\<close>)
  from trunc_mono [OF this] show ?thesis by (simp add: threshold_def)
qed

lemma stuck_threshold:
  assumes "taskTimeout (new_service P c ua) \<le> 2 ^ 61"
  shows "taskTimeout (new_service P c ua) div Second \<le> threshold (stuckTaskThreshold (new_service P c ua))"
proof -
  define tt where "tt = taskTimeout (new_service P c ua)"
  have s: "stuckTaskThreshold (new_service P c ua) = 2 * tt + Minute" and tt: "0 < tt"
    by (simp_all add: tt_def new_service_def pos_or_def defaultTaskTimeout_def Let_def Minute_def Second_def)
  have le: "tt \<le> 2 ^ 61" using assms by (simp add: tt_def)
  have "tt div Second \<le> (2 * tt + Minute) div Second" using tt by (intro zdiv_mono1) (simp_all add: Minute_def Second_def)
  also have "\<dots> \<le> threshold (2 * tt + Minute)"
  proof (rule Seconds_ge)
    have "(2 * tt + Minute) div Second \<le> (2 * 2 ^ 61 + Minute) div Second" using le by (intro zdiv_mono1) (simp_all add: Second_def)
    then show "(2 * tt + Minute) div Second \<le> 2 ^ 53" by (simp add: Minute_def Second_def)
  qed (use tt in \<open>simp add: Minute_def Second_def\<close>)
  finally show ?thesis using s by (simp add: tt_def)
qed

lemma running_not_stuck:
  assumes "startedTimes tid = Some (FormatInt started)" "0 \<le> started" "started \<le> now" "now < 2 ^ 62" "now - started \<le> thr"
  shows "\<not> stuck startedTimes now thr tid fallback"
  using assms by (simp add: stuck_def Sscanf_d_FormatInt)

context queue_server
begin

lemma rescue_script_others:
  assumes "raw \<noteq> other" "raw \<in> set (lists (view s) KeyTaskProcessingQueue)"
  shows "raw \<in> set (lists (view (snd (rescueScript R other tid new isDead k s))) KeyTaskProcessingQueue)"
proof -
  obtain n s1 where s1: "LREM1 R KeyTaskProcessingQueue other s = (n, s1)" by fastforce
  have v: "view s1 = (view s)\<lparr>lists := (lists (view s))(KeyTaskProcessingQueue := remove1 other (lists (view s) KeyTaskProcessingQueue))\<rparr>"
    using lrem1_view [of KeyTaskProcessingQueue other s] s1 by simp
  have "raw \<in> set (lists (view s1) KeyTaskProcessingQueue)" using assms by (simp add: v)
  then show ?thesis using s1 by (auto simp: rescueScript_def Let_def hdel lpush srem)
qed

lemma rescue_tasks_spares:
  assumes "rescue_task C started now thr raw = None" "raw \<in> set (lists (view (redis_st w)) KeyTaskProcessingQueue)"
  shows "raw \<in> set (lists (view (redis_st (snd (rescue_tasks R C started now thr raws res w)))) KeyTaskProcessingQueue)"
  using assms(2)
proof (induction raws arbitrary: res w)
  case (Cons x raws)
  show ?case
  proof (cases "rescue_task C started now thr x")
    case None
    then show ?thesis using Cons by simp
  next
    case (Some p)
    obtain t' new dead where p: "p = (t', new, dead)" by (metis prod.exhaust)
    have x: "raw \<noteq> x" using Some assms(1) by auto
    obtain r w1 where r: "rdo (rescueScript R x (req_TaskId t') new dead (dedup_key (req_IpId t'))) w = (r, w1)" by fastforce
    have "raw \<in> set (lists (view (redis_st w1)) KeyTaskProcessingQueue)"
      by (rule rdo_preserves_eq [OF r, where P = "\<lambda>s. raw \<in> set (lists (view s) KeyTaskProcessingQueue)"])
        (use rescue_script_others [OF x] Cons.prems in auto)
    then show ?thesis using Some p r Cons.IH by (auto split: option.splits)
  qed
qed simp

lemma RescueStuckTasks_spares:
  assumes "rescue_task C (hashes (view (redis_st w)) KeyTaskStartedHash) now (threshold timeout) raw = None"
    and "raw \<in> set (lists (view (redis_st w)) KeyTaskProcessingQueue)"
  shows "raw \<in> set (lists (view (redis_st (snd (snd (RescueStuckTasks (Some R) C timeout now w))))) KeyTaskProcessingQueue)"
proof -
  have hd: "lists (view (redis_st (hdel_each R KeyTaskStartedHash fs v))) KeyTaskProcessingQueue = lists (view (redis_st v)) KeyTaskProcessingQueue" for fs v
  proof (induction fs arbitrary: v)
    case (Cons f fs)
    have "lists (view (redis_st (snd (rdo (writec (HDEL R KeyTaskStartedHash f)) v)))) KeyTaskProcessingQueue = lists (view (redis_st v)) KeyTaskProcessingQueue"
      by (rule rdo_preserves [where P = "\<lambda>s. lists (view s) KeyTaskProcessingQueue = lists (view (redis_st v)) KeyTaskProcessingQueue"])
        (simp_all add: hdel)
    then show ?case using Cons by simp
  qed simp
  obtain h w1 where h: "rdo (readc (HGETALL R KeyTaskStartedHash)) w = (h, w1)" by fastforce
  have w1: "redis_st w1 = redis_st w" "h = None \<or> h = Some (HGETALL R KeyTaskStartedHash (redis_st w))"
    using rdo_read_st [of "HGETALL R KeyTaskStartedHash" w] rdo_read_val [of "HGETALL R KeyTaskStartedHash" w] h by simp_all
  obtain l w2 where l: "rdo (readc (LRANGE R KeyTaskProcessingQueue)) w1 = (l, w2)" by fastforce
  have w2: "redis_st w2 = redis_st w" using rdo_read_st [of "LRANGE R KeyTaskProcessingQueue" w1] l w1 by simp
  have "raw \<in> set (lists (view (redis_st (snd (rescue_tasks R C (map_of (HGETALL R KeyTaskStartedHash (redis_st w))) now (threshold timeout) raws no_rescue w2)))) KeyTaskProcessingQueue)" for raws
    by (rule rescue_tasks_spares) (use assms w2 in \<open>simp_all add: hgetall\<close>)
  then show ?thesis using h l w1 w2 assms(2) hd [of _ w2]
    by (auto simp: RescueStuckTasks_def split: option.splits prod.splits) (metis snd_conv)
qed

end



end
