(* ===== verification/TimeText.thy ===== *)
theory TimeText
  imports Calendar
begin

text \<open>
  Times and durations as texts: what the API uses of Go's \<open>time\<close> package. \<open>RFC3339\<close> and \<open>FormatDate\<close> print a time of a year
  up to 9999, \<open>parse_date\<close>, \<open>parse_RFC3339\<close> and \<open>parse_datetime\<close> are \<open>time.Parse\<close> with the layouts of the sources, with its
  leniency: an hour of one digit, a fraction of a second the layout does not name.
\<close>

section \<open>Printing\<close>

definition pad :: "nat \<Rightarrow> nat \<Rightarrow> string" where
  "pad k n = replicate (k - length (FormatNat n)) CHR ''0'' @ FormatNat n"

definition FormatDate :: "int \<Rightarrow> int \<Rightarrow> string" where
  "FormatDate zone t = (case Date zone t of (y, m, d) \<Rightarrow> pad 4 (nat y) @ ''-'' @ pad 2 (nat m) @ ''-'' @ pad 2 (nat d))"

definition clock_Second :: "int \<Rightarrow> int \<Rightarrow> int" where
  "clock_Second zone t = ((t + zone * Second) mod Minute) div Second"

definition zone_text :: "int \<Rightarrow> string" where
  "zone_text zone = (if zone = 0 then ''Z''
     else (if zone < 0 then ''-'' else ''+'') @ pad 2 (nat (\<bar>zone\<bar> div 3600)) @ '':'' @ pad 2 (nat (\<bar>zone\<bar> mod 3600 div 60)))"

definition RFC3339 :: "int \<Rightarrow> int \<Rightarrow> string" where
  "RFC3339 zone t = FormatDate zone t @ ''T'' @ pad 2 (nat (clock_Hour zone t)) @ '':'' @ pad 2 (nat (clock_Minute zone t)) @ '':''
     @ pad 2 (nat (clock_Second zone t)) @ zone_text zone"

text \<open>\<open>Duration.String\<close>.\<close>

definition decimals :: "nat \<Rightarrow> nat \<Rightarrow> string" where
  "decimals k n = FormatNat (n div 10 ^ k) @ (if n mod 10 ^ k = 0 then ''''
     else ''.'' @ rev (dropWhile (\<lambda>c. c = CHR ''0'') (rev (pad k (n mod 10 ^ k)))))"

definition Duration_String :: "int \<Rightarrow> string" where
  "Duration_String d = (let u = nat \<bar>d\<bar>; secs = u div 10 ^ 9 in
     (if d < 0 then ''-'' else '''') @
     (if u = 0 then ''0s'' else if u < 10 ^ 3 then FormatNat u @ ''ns''
      else if u < 10 ^ 6 then decimals 3 u @ [CHR 0xC2, CHR 0xB5, CHR ''s'']
      else if u < 10 ^ 9 then decimals 6 u @ ''ms''
      else (if secs \<ge> 3600 then FormatNat (secs div 3600) @ ''h'' else '''') @
        (if secs \<ge> 60 then FormatNat (secs div 60 mod 60) @ ''m'' else '''') @ decimals 9 (u mod (60 * 10 ^ 9)) @ ''s''))"

section \<open>Parsing\<close>

text \<open>A number of exactly \<open>n\<close> digits; a character of the layout; an hour.\<close>

definition take_num :: "nat \<Rightarrow> string \<Rightarrow> (int \<times> string) option" where
  "take_num n s = (if length s \<ge> n \<and> list_all is_digit (take n s) then Some (int (digits_val (take n s)), drop n s) else None)"

definition take_char :: "char \<Rightarrow> string \<Rightarrow> string option" where
  "take_char c s = (case s of [] \<Rightarrow> None | x # r \<Rightarrow> if x = c then Some r else None)"

definition take_hour :: "string \<Rightarrow> (int \<times> string) option" where
  "take_hour s = (case take_num 2 s of Some r \<Rightarrow> Some r | None \<Rightarrow> take_num 1 s)"

definition leap :: "int \<Rightarrow> bool" where
  "leap y \<longleftrightarrow> y mod 4 = 0 \<and> (y mod 100 \<noteq> 0 \<or> y mod 400 = 0)"

definition days_in :: "int \<Rightarrow> int \<Rightarrow> int" where
  "days_in y m = (if m = 2 then (if leap y then 29 else 28) else if m \<in> {4, 6, 9, 11} then 30 else 31)"

text \<open>The date at the head of a text, as a day number, and the rest of the text.\<close>

definition take_date :: "string \<Rightarrow> (int \<times> string) option" where
  "take_date s = (case take_num 4 s of None \<Rightarrow> None | Some (y, s1) \<Rightarrow>
     (case Option.bind (take_char (CHR ''-'') s1) (take_num 2) of None \<Rightarrow> None | Some (m, s2) \<Rightarrow>
       (case Option.bind (take_char (CHR ''-'') s2) (take_num 2) of None \<Rightarrow> None | Some (d, s3) \<Rightarrow>
          if 1 \<le> m \<and> m \<le> 12 \<and> 1 \<le> d \<and> d \<le> days_in y m then Some (days_from_civil y m d, s3) else None)))"

text \<open>A fraction of a second the layout does not name: nine digits count.\<close>

definition take_fraction :: "string \<Rightarrow> int \<times> string" where
  "take_fraction s = (case s of c # d # r \<Rightarrow>
       if (c = CHR ''.'' \<or> c = CHR '','') \<and> is_digit d then
         (let ds = takeWhile is_digit (d # r); n = take 9 ds
          in (int (digits_val n) * 10 ^ (9 - length n), dropWhile is_digit (d # r)))
       else (0, s)
     | _ \<Rightarrow> (0, s))"

definition take_clock :: "string \<Rightarrow> (int \<times> string) option" where
  "take_clock s = (case take_hour s of None \<Rightarrow> None | Some (h, s1) \<Rightarrow>
     (case Option.bind (take_char (CHR '':'') s1) (take_num 2) of None \<Rightarrow> None | Some (m, s2) \<Rightarrow>
       (case Option.bind (take_char (CHR '':'') s2) (take_num 2) of None \<Rightarrow> None | Some (sec, s3) \<Rightarrow>
          if h < 24 \<and> m < 60 \<and> sec < 60
          then (case take_fraction s3 of (ns, s4) \<Rightarrow> Some (h * Hour + m * Minute + sec * Second + ns, s4)) else None)))"

text \<open>\<open>Z07:00\<close>: the offset in seconds.\<close>

definition take_zone :: "string \<Rightarrow> (int \<times> string) option" where
  "take_zone s = (case s of [] \<Rightarrow> None | c # r \<Rightarrow>
     if c = CHR ''Z'' then Some (0, r)
     else (case take_num 2 r of None \<Rightarrow> None | Some (h, r1) \<Rightarrow>
       (case Option.bind (take_char (CHR '':'') r1) (take_num 2) of None \<Rightarrow> None | Some (m, r2) \<Rightarrow>
          if h > 24 \<or> m > 60 then None
          else if c = CHR ''+'' then Some ((h * 60 + m) * 60, r2)
          else if c = CHR ''-'' then Some (- ((h * 60 + m) * 60), r2) else None)))"

definition parse_date :: "string \<Rightarrow> int option" where
  "parse_date s = (case take_date s of Some (n, []) \<Rightarrow> Some (n * Day) | _ \<Rightarrow> None)"

definition parse_datetime :: "string \<Rightarrow> int option" where
  "parse_datetime s = (case take_date s of None \<Rightarrow> None | Some (n, s1) \<Rightarrow>
     (case Option.bind (take_char (CHR '' '') s1) take_clock of Some (t, []) \<Rightarrow> Some (n * Day + t) | _ \<Rightarrow> None))"

definition parse_RFC3339 :: "string \<Rightarrow> int option" where
  "parse_RFC3339 s = (case take_date s of None \<Rightarrow> None | Some (n, s1) \<Rightarrow>
     (case Option.bind (take_char (CHR ''T'') s1) take_clock of None \<Rightarrow> None | Some (t, s2) \<Rightarrow>
        (case take_zone s2 of Some (z, []) \<Rightarrow> Some (n * Day + t - z * Second) | _ \<Rightarrow> None)))"

end
