(* ===== verification/Api.thy ===== *)
theory Api
  imports TimeText Archiver Scheduler Pipeline Cache
begin

text \<open>
  The HTTP API: \<open>internal/api/server.go\<close> (responses, identifiers, the check of the admin key), \<open>ip_handler.go\<close> (the IPs, their
  import and the archive runs on demand), \<open>alert_handler.go\<close> and \<open>system_handler.go\<close>. Gin is not part of the repository: a
  handler gets the path parameter and the query or body Gin has bound, or the message of its refusal, and answers a \<open>Response\<close>.
  What GORM and MySQL do with a page, a \<open>LIKE\<close>, a new id or a value a column refuses is the record \<open>gorm\<close>; the text of a
  database error is left out of a message.
\<close>

section \<open>Responses\<close>

datatype 'a Response = Response (rs_status: int) (rs_code: int) (rs_message: string) (rs_data: "'a option")

definition success :: "'a \<Rightarrow> 'a Response" where
  "success d = Response 200 0 ''success'' (Some d)"

definition errorResponse :: "int \<Rightarrow> int \<Rightarrow> string \<Rightarrow> 'a Response" where
  "errorResponse st c msg = Response st c msg None"

definition badRequest :: "string \<Rightarrow> 'a Response" where
  "badRequest msg = errorResponse 400 400 msg"

definition notFound :: "string \<Rightarrow> 'a Response" where
  "notFound msg = errorResponse 404 404 msg"

definition internalError :: "string \<Rightarrow> 'a Response" where
  "internalError msg = errorResponse 500 500 msg"

record 'a paginated =
  pg_data :: "'a list"
  pg_total :: int
  pg_page :: int
  pg_page_size :: int
  pg_from_cache :: "bool option"

definition successPaginated :: "'a list \<Rightarrow> int \<Rightarrow> int \<Rightarrow> int \<Rightarrow> 'a paginated Response" where
  "successPaginated d cnt page pageSize =
     success \<lparr>pg_data = d, pg_total = cnt, pg_page = page, pg_page_size = pageSize, pg_from_cache = None\<rparr>"

definition successPaginatedWithCache :: "'a list \<Rightarrow> int \<Rightarrow> int \<Rightarrow> int \<Rightarrow> bool \<Rightarrow> 'a paginated Response" where
  "successPaginatedWithCache d cnt page pageSize fromCache =
     success \<lparr>pg_data = d, pg_total = cnt, pg_page = page, pg_page_size = pageSize, pg_from_cache = Some fromCache\<rparr>"

lemmas response_defs = success_def errorResponse_def badRequest_def notFound_def internalError_def
  successPaginated_def successPaginatedWithCache_def

text \<open>\<open>fmt.Sscanf (s, "%d", &id)\<close> for a \<open>uint64\<close>: no sign is read.\<close>

definition Sscanf_u :: "string \<Rightarrow> u64 option" where
  "Sscanf_u s = (let ds = takeWhile is_digit (dropWhile is_blank s) in
     if ds = [] \<or> digits_val ds \<ge> 2 ^ 64 then None else Some (word_of_nat (digits_val ds)))"

definition parseID :: "string \<Rightarrow> string + u64" where
  "parseID idStr = (case Sscanf_u idStr of None \<Rightarrow> Inl (''invalid id: '' @ idStr) | Some i \<Rightarrow> Inr i)"

section \<open>The server\<close>

record gorm =
  like_text :: "string \<Rightarrow> string \<Rightarrow> bool"
  same_text :: "string \<Rightarrow> string \<Rightarrow> bool"
  window :: "int \<Rightarrow> int \<Rightarrow> nat \<Rightarrow> (nat \<times> nat) option"
  new_ip_id :: "IPMetadata list \<Rightarrow> u64 option"
  ip_fits :: "IPMetadata \<Rightarrow> bool"

text \<open>
  \<open>window off lm n\<close> is what \<open>Offset (off).Limit (lm)\<close> selects of \<open>n\<close> rows, the number skipped and the number taken, \<open>None\<close>
  for a statement MySQL refuses; \<open>same_text\<close> is the collation. The laws are documented: an offset that is not positive
  and a negative limit are no condition, an id is new (there is none left after \<open>2 ^ 64\<close>).
\<close>

locale gorm_laws =
  fixes G :: gorm
  assumes window_page: "0 \<le> off \<Longrightarrow> 0 \<le> lm \<Longrightarrow> window G off lm n = Some (nat off, nat lm)"
    and window_all: "off \<le> 0 \<Longrightarrow> lm < 0 \<Longrightarrow> window G off lm n = Some (0, n)"
    and new_id: "new_ip_id G rows = Some i \<Longrightarrow> i \<notin> ip_ID ` set rows"
    and text_refl: "same_text G a a"
    and text_sym: "same_text G a b \<Longrightarrow> same_text G b a"
    and text_trans: "same_text G a b \<Longrightarrow> same_text G b c \<Longrightarrow> same_text G a c"

definition select_page :: "gorm \<Rightarrow> int \<Rightarrow> int \<Rightarrow> 'r list \<Rightarrow> 'r list option" where
  "select_page G off lm rows = (case window G off lm (length rows) of None \<Rightarrow> None
     | Some (skip, n) \<Rightarrow> Some (take n (drop skip rows)))"

record ('s, 'd) Server =
  srv_db :: "'d database"
  srv_mysql :: mysql
  srv_gorm :: gorm
  srv_zone :: int
  srv_rdb :: "'s redis option"
  srv_scheduler :: "('s, 'd) IPScheduler option"
  srv_cache :: "'s redis option"
  adminAPIKey :: string

text \<open>A query that MySQL may refuse: the failed call and the refusal are both an error.\<close>

definition db_find :: "('d \<Rightarrow> 'a option) \<Rightarrow> ('s, 'd) world \<Rightarrow> 'a option \<times> ('s, 'd) world" where
  "db_find q w = (case ddo (readc q) w of (None, w1) \<Rightarrow> (None, w1) | (Some r, w1) \<Rightarrow> (r, w1))"

definition db_count :: "('d \<Rightarrow> 'r list) \<Rightarrow> ('s, 'd) world \<Rightarrow> int option \<times> ('s, 'd) world" where
  "db_count q w = ddo (readc (\<lambda>d. int (length (q d)))) w"

text \<open>\<open>First (&ip, id)\<close>: rows with a time of deletion do not exist for GORM.\<close>

definition first_ip :: "('s, 'd) Server \<Rightarrow> u64 \<Rightarrow> ('s, 'd) world \<Rightarrow> IPMetadata option \<times> ('s, 'd) world" where
  "first_ip S i w = db_find (\<lambda>d. find (\<lambda>ip. ip_DeletedAt ip = None \<and> ip_ID ip = i) (ip_metadata (srv_db S) d)) w"

text \<open>Every handler of one IP parses the id and looks the IP up.\<close>

definition with_ip :: "('s, 'd) Server \<Rightarrow> string \<Rightarrow> (u64 \<Rightarrow> IPMetadata \<Rightarrow> ('s, 'd) world \<Rightarrow> 'a Response \<times> ('s, 'd) world)
    \<Rightarrow> ('s, 'd) world \<Rightarrow> 'a Response \<times> ('s, 'd) world" where
  "with_ip S idStr h w = (case parseID idStr of Inl e \<Rightarrow> (badRequest e, w) | Inr i \<Rightarrow>
     (case first_ip S i w of (None, w1) \<Rightarrow> (notFound ''IP not found'', w1) | (Some ip, w1) \<Rightarrow> h i ip w1))"

definition apiKeyMiddleware :: "('s, 'd) Server \<Rightarrow> string \<Rightarrow> (('s, 'd) world \<Rightarrow> 'a Response \<times> ('s, 'd) world)
    \<Rightarrow> ('s, 'd) world \<Rightarrow> 'a Response \<times> ('s, 'd) world" where
  "apiKeyMiddleware S apiKey next w = (if adminAPIKey S = '''' then next w
     else if apiKey = '''' then (errorResponse 401 401 ''missing API key'', w)
     else if apiKey \<noteq> adminAPIKey S then (errorResponse 401 401 ''invalid API key'', w)
     else next w)"

section \<open>Reading IPs\<close>

record ListIPsQuery =
  lq_Page :: int
  lq_PageSize :: int
  lq_Status :: string
  lq_Category :: string
  lq_Keyword :: string

definition ip_listed :: "gorm \<Rightarrow> ListIPsQuery \<Rightarrow> IPMetadata \<Rightarrow> bool" where
  "ip_listed G q r \<longleftrightarrow> ip_DeletedAt r = None \<and>
     (if lq_Status q \<noteq> '''' then same_text G (IPStatus_text (ip_Status r)) (lq_Status q)
      else \<not> same_text G (IPStatus_text (ip_Status r)) ''deleted'') \<and>
     (lq_Category q \<noteq> '''' \<longrightarrow> same_text G (ip_Category r) (lq_Category q)) \<and>
     (lq_Keyword q \<noteq> '''' \<longrightarrow> (let like = ''%'' @ lq_Keyword q @ ''%'' in
        like_text G (ip_Name r) like \<or> like_text G (ip_NameEN r) like \<or> like_text G (ip_NameCN r) like))"

text \<open>\<open>ORDER BY weight DESC, id ASC\<close>.\<close>

definition ip_order :: "IPMetadata list \<Rightarrow> IPMetadata list" where
  "ip_order rows = sort_key (\<lambda>r. - ip_Weight r) (sort_key ip_ID rows)"

definition page_offset :: "int \<Rightarrow> int \<Rightarrow> int" where
  "page_offset page pageSize = wrap64 ((page - 1) * pageSize)"

definition or_default :: "int \<Rightarrow> int \<Rightarrow> int" where
  "or_default d x = (if x = 0 then d else x)"

definition listIPs :: "('s, 'd) Server \<Rightarrow> string + ListIPsQuery \<Rightarrow> ('s, 'd) world \<Rightarrow> IPMetadata paginated Response \<times> ('s, 'd) world" where
  "listIPs S bound w = (case bound of Inl e \<Rightarrow> (badRequest e, w) | Inr q \<Rightarrow>
     (let page = or_default 1 (lq_Page q); pageSize = or_default 20 (lq_PageSize q);
          rows = (\<lambda>d. filter (ip_listed (srv_gorm S) q) (ip_metadata (srv_db S) d))
      in case db_count rows w of (None, w1) \<Rightarrow> (internalError ''count failed'', w1) | (Some cnt, w1) \<Rightarrow>
        (case db_find (\<lambda>d. select_page (srv_gorm S) (page_offset page pageSize) pageSize (ip_order (rows d))) w1 of
           (None, w2) \<Rightarrow> (internalError ''query failed'', w2)
         | (Some ips, w2) \<Rightarrow> (successPaginated ips cnt page pageSize, w2))))"

definition getIP :: "('s, 'd) Server \<Rightarrow> string \<Rightarrow> ('s, 'd) world \<Rightarrow> IPMetadata Response \<times> ('s, 'd) world" where
  "getIP S idStr w = with_ip S idStr (\<lambda>i ip w1. (success ip, w1)) w"

section \<open>Writing IPs\<close>

record CreateIPRequest =
  cq_Name :: string
  cq_NameEN :: string
  cq_NameCN :: string
  cq_Category :: string
  cq_Tags :: "string list"
  cq_ImageURL :: string
  cq_ExternalID :: string
  cq_Weight :: rat
  cq_Notes :: string

text \<open>The row of a request; the id and the times are not set yet.\<close>

definition request_weight :: "rat \<Rightarrow> rat" where
  "request_weight x = (if x \<le> 0 then 1 else x)"

definition new_ip :: "CreateIPRequest \<Rightarrow> IPMetadata" where
  "new_ip req = \<lparr>ip_ID = 0, ip_Name = cq_Name req, ip_NameEN = cq_NameEN req, ip_NameCN = cq_NameCN req,
     ip_Category = cq_Category req, ip_Tags = cq_Tags req, ip_ImageURL = cq_ImageURL req, ip_ExternalID = cq_ExternalID req,
     ip_Notes = cq_Notes req, ip_Weight = request_weight (cq_Weight req), ip_Status = IPStatusActive,
     ip_LastCrawledAt = None, ip_CreatedAt = 0, ip_UpdatedAt = 0, ip_DeletedAt = None\<rparr>"

text \<open>
  \<open>Create (&ip)\<close>: a row whose name is taken (by any row, the deleted ones included) or that does not fit its columns is
  refused. GORM writes the id and the times back into \<open>ip\<close>.
\<close>

definition insert_ip :: "mysql \<Rightarrow> gorm \<Rightarrow> 'd database \<Rightarrow> int \<Rightarrow> IPMetadata \<Rightarrow> 'd \<Rightarrow> IPMetadata option \<times> 'd" where
  "insert_ip M G D now ip d = (let rows = ip_metadata D d in
     if list_ex (\<lambda>r. same_text G (ip_Name r) (ip_Name ip)) rows \<or> \<not> ip_fits G ip then (None, d)
     else (case new_ip_id G rows of None \<Rightarrow> (None, d) | Some i \<Rightarrow>
       let ip' = ip\<lparr>ip_ID := i, ip_CreatedAt := now, ip_UpdatedAt := now\<rparr>
       in (Some ip', put_ip_metadata D (rows @ [ip'\<lparr>ip_Weight := col_weight M (ip_Weight ip), ip_CreatedAt := col_ms M now,
            ip_UpdatedAt := col_ms M now\<rparr>]) d)))"

definition create_ip :: "('s, 'd) Server \<Rightarrow> int \<Rightarrow> IPMetadata \<Rightarrow> ('s, 'd) world \<Rightarrow> IPMetadata option \<times> ('s, 'd) world" where
  "create_ip S now ip w = (case ddo (insert_ip (srv_mysql S) (srv_gorm S) (srv_db S) now ip) w of
     (None, w1) \<Rightarrow> (None, w1) | (Some r, w1) \<Rightarrow> (r, w1))"

text \<open>The handlers tell the scheduler, when there is one.\<close>

definition tell_scheduler :: "('s, 'd) Server \<Rightarrow> (('s, 'd) IPScheduler \<Rightarrow> ('s, 'd) world \<Rightarrow> ('s, 'd) world) \<Rightarrow> ('s, 'd) world \<Rightarrow> ('s, 'd) world" where
  "tell_scheduler S f w = (case srv_scheduler S of None \<Rightarrow> w | Some s \<Rightarrow> f s w)"

definition createIP :: "('s, 'd) Server \<Rightarrow> int \<Rightarrow> int \<Rightarrow> string + CreateIPRequest \<Rightarrow> ('s, 'd) world
    \<Rightarrow> IPMetadata Response \<times> ('s, 'd) world" where
  "createIP S now now' bound w = (case bound of Inl e \<Rightarrow> (badRequest e, w) | Inr req \<Rightarrow>
     (case create_ip S now (new_ip req) w of
        (None, w1) \<Rightarrow> (internalError ''create failed: '', w1)
      | (Some ip, w1) \<Rightarrow> (Response 201 0 ''created'' (Some ip), tell_scheduler S (\<lambda>s. AddIP s now' (Some ip)) w1)))"

record UpdateIPRequest =
  uq_Name :: "string option"
  uq_NameEN :: "string option"
  uq_NameCN :: "string option"
  uq_Category :: "string option"
  uq_Tags :: "string list option"
  uq_ImageURL :: "string option"
  uq_ExternalID :: "string option"
  uq_Weight :: "rat option"
  uq_Notes :: "string option"
  uq_Status :: "string option"

definition no_updates :: "UpdateIPRequest \<Rightarrow> bool" where
  "no_updates u \<longleftrightarrow> uq_Name u = None \<and> uq_NameEN u = None \<and> uq_NameCN u = None \<and> uq_Category u = None \<and> uq_Tags u = None \<and>
     uq_ImageURL u = None \<and> uq_ExternalID u = None \<and> uq_Weight u = None \<and> uq_Notes u = None \<and> uq_Status u = None"

definition set_field :: "'a option \<Rightarrow> 'a \<Rightarrow> 'a" where
  "set_field x old = (case x of None \<Rightarrow> old | Some v \<Rightarrow> v)"

text \<open>The row with the updates; \<open>col\<close> is what the column of the weight keeps.\<close>

definition updated_ip :: "(rat \<Rightarrow> rat) \<Rightarrow> UpdateIPRequest \<Rightarrow> IPMetadata \<Rightarrow> IPMetadata" where
  "updated_ip col u r = r\<lparr>ip_Name := set_field (uq_Name u) (ip_Name r), ip_NameEN := set_field (uq_NameEN u) (ip_NameEN r),
     ip_NameCN := set_field (uq_NameCN u) (ip_NameCN r), ip_Category := set_field (uq_Category u) (ip_Category r),
     ip_Tags := set_field (uq_Tags u) (ip_Tags r), ip_ImageURL := set_field (uq_ImageURL u) (ip_ImageURL r),
     ip_ExternalID := set_field (uq_ExternalID u) (ip_ExternalID r), ip_Notes := set_field (uq_Notes u) (ip_Notes r),
     ip_Weight := set_field (map_option col (uq_Weight u)) (ip_Weight r),
     ip_Status := set_field (map_option IPStatus_of (uq_Status u)) (ip_Status r)\<rparr>"

text \<open>\<open>Model (&ip).Updates (...)\<close>: the row of the id, refused when it does not fit or takes the name of another row.\<close>

definition is_row :: "u64 \<Rightarrow> IPMetadata \<Rightarrow> bool" where
  "is_row i r \<longleftrightarrow> ip_ID r = i \<and> ip_DeletedAt r = None"

definition write_ip :: "gorm \<Rightarrow> 'd database \<Rightarrow> u64 \<Rightarrow> (IPMetadata \<Rightarrow> IPMetadata) \<Rightarrow> 'd \<Rightarrow> bool \<times> 'd" where
  "write_ip G D i upd d = (let rows = ip_metadata D d in
     if list_ex (\<lambda>r. is_row i r \<and> (\<not> ip_fits G (upd r) \<or>
          list_ex (\<lambda>q. ip_ID q \<noteq> i \<and> same_text G (ip_Name q) (ip_Name (upd r))) rows)) rows
     then (False, d)
     else (True, put_ip_metadata D (map (\<lambda>r. if is_row i r then upd r else r) rows) d))"

definition update_ip :: "('s, 'd) Server \<Rightarrow> int \<Rightarrow> u64 \<Rightarrow> UpdateIPRequest \<Rightarrow> ('s, 'd) world \<Rightarrow> bool \<times> ('s, 'd) world" where
  "update_ip S now i u w = (case ddo (write_ip (srv_gorm S) (srv_db S) i
       (\<lambda>r. (updated_ip (col_weight (srv_mysql S)) u r)\<lparr>ip_UpdatedAt := col_ms (srv_mysql S) now\<rparr>)) w of
     (None, w1) \<Rightarrow> (False, w1) | (Some ok, w1) \<Rightarrow> (ok, w1))"

definition sync_scheduler :: "int \<Rightarrow> u64 \<Rightarrow> UpdateIPRequest \<Rightarrow> IPMetadata \<Rightarrow> ('s, 'd) IPScheduler \<Rightarrow> ('s, 'd) world \<Rightarrow> ('s, 'd) world" where
  "sync_scheduler now i u ip s w =
     (let w1 = (case uq_Weight u of None \<Rightarrow> w | Some x \<Rightarrow> UpdateIPWeight s now i x w)
      in case uq_Status u of None \<Rightarrow> w1
         | Some st \<Rightarrow> if st = ''active'' then AddIP s now (Some ip) w1 else RemoveIP s i w1)"

definition updateIP :: "('s, 'd) Server \<Rightarrow> int \<Rightarrow> int \<Rightarrow> string \<Rightarrow> string + UpdateIPRequest \<Rightarrow> ('s, 'd) world
    \<Rightarrow> IPMetadata Response \<times> ('s, 'd) world" where
  "updateIP S now now' idStr bound w = with_ip S idStr (\<lambda>i ip w1. case bound of Inl e \<Rightarrow> (badRequest e, w1) | Inr u \<Rightarrow>
     if no_updates u then (badRequest ''no fields to update'', w1)
     else (case update_ip S now i u w1 of
        (False, w2) \<Rightarrow> (internalError ''update failed'', w2)
      | (True, w2) \<Rightarrow>
          (let ip' = updated_ip id u ip; w3 = tell_scheduler S (sync_scheduler now' i u ip') w2 in
           case first_ip S i w3 of (None, w4) \<Rightarrow> (success ip', w4) | (Some row, w4) \<Rightarrow> (success row, w4)))) w"

definition status_update :: "string \<Rightarrow> UpdateIPRequest" where
  "status_update st = \<lparr>uq_Name = None, uq_NameEN = None, uq_NameCN = None, uq_Category = None, uq_Tags = None,
     uq_ImageURL = None, uq_ExternalID = None, uq_Weight = None, uq_Notes = None, uq_Status = Some st\<rparr>"

definition deleteIP :: "('s, 'd) Server \<Rightarrow> int \<Rightarrow> string \<Rightarrow> ('s, 'd) world \<Rightarrow> u64 Response \<times> ('s, 'd) world" where
  "deleteIP S now idStr w = with_ip S idStr (\<lambda>i ip w1. case update_ip S now i (status_update ''deleted'') w1 of
     (False, w2) \<Rightarrow> (internalError ''delete failed'', w2)
   | (True, w2) \<Rightarrow> (success i, tell_scheduler S (\<lambda>s. RemoveIP s i) w2)) w"

definition triggerIP :: "('s, 'd) Server \<Rightarrow> int \<Rightarrow> string \<Rightarrow> ('s, 'd) world \<Rightarrow> u64 Response \<times> ('s, 'd) world" where
  "triggerIP S now idStr w = with_ip S idStr (\<lambda>i ip w1. case srv_scheduler S of
     None \<Rightarrow> (internalError ''scheduler not available'', w1)
   | Some s \<Rightarrow> (success i, TriggerNow s now i w1)) w"

section \<open>Import\<close>

text \<open>The entry of an import has the fields of a request to create an IP.\<close>

record ImportIPsRequest =
  iq_IPs :: "CreateIPRequest list"
  iq_Upsert :: bool

record ImportIPsDetail =
  id_Name :: string
  id_Status :: string
  id_ID :: u64
  id_Error :: string

record ImportIPsResponse =
  ir_Created :: nat
  ir_Updated :: nat
  ir_Failed :: nat
  ir_Details :: "ImportIPsDetail list"

datatype import_result = Created u64 | Updated u64 | Failed string

text \<open>The columns an import writes into an existing row.\<close>

definition import_updates :: "CreateIPRequest \<Rightarrow> UpdateIPRequest" where
  "import_updates e = \<lparr>uq_Name = None, uq_NameEN = Some (cq_NameEN e), uq_NameCN = Some (cq_NameCN e),
     uq_Category = Some (cq_Category e), uq_Tags = Some (cq_Tags e), uq_ImageURL = Some (cq_ImageURL e),
     uq_ExternalID = Some (cq_ExternalID e), uq_Weight = Some (request_weight (cq_Weight e)), uq_Notes = Some (cq_Notes e),
     uq_Status = None\<rparr>"

definition import_create :: "('s, 'd) Server \<Rightarrow> int \<Rightarrow> int \<Rightarrow> CreateIPRequest \<Rightarrow> ('s, 'd) world \<Rightarrow> import_result \<times> ('s, 'd) world" where
  "import_create S now now' e w = (case create_ip S now (new_ip e) w of
     (None, w1) \<Rightarrow> (Failed '''', w1)
   | (Some ip, w1) \<Rightarrow> (Created (ip_ID ip), tell_scheduler S (\<lambda>s. AddIP s now' (Some ip)) w1))"

text \<open>\<open>Where ("name = ?").First\<close>: the first row in the order of the ids.\<close>

definition ip_named :: "('s, 'd) Server \<Rightarrow> string \<Rightarrow> ('s, 'd) world \<Rightarrow> IPMetadata option \<times> ('s, 'd) world" where
  "ip_named S name w = db_find (\<lambda>d. find (\<lambda>r. ip_DeletedAt r = None \<and> same_text (srv_gorm S) (ip_Name r) name)
     (sort_key ip_ID (ip_metadata (srv_db S) d))) w"

definition import_entry :: "('s, 'd) Server \<Rightarrow> int \<Rightarrow> int \<Rightarrow> bool \<Rightarrow> CreateIPRequest \<Rightarrow> ('s, 'd) world \<Rightarrow> import_result \<times> ('s, 'd) world" where
  "import_entry S now now' ups e w = (if cq_Name e = '''' then (Failed ''name is required'', w)
     else if \<not> ups then import_create S now now' e w
     else (case ip_named S (cq_Name e) w of
        (None, w1) \<Rightarrow> import_create S now now' e w1
      | (Some existing, w1) \<Rightarrow>
          (case update_ip S now (ip_ID existing) (import_updates e) w1 of
             (False, w2) \<Rightarrow> (Failed '''', w2)
           | (True, w2) \<Rightarrow> (Updated (ip_ID existing),
               tell_scheduler S (\<lambda>s. UpdateIPWeight s now' (ip_ID existing) (request_weight (cq_Weight e))) w2))))"

definition import_detail :: "CreateIPRequest \<Rightarrow> import_result \<Rightarrow> ImportIPsDetail" where
  "import_detail e r = (let name = (if cq_Name e = '''' then ''(empty)'' else cq_Name e) in case r of
     Created i \<Rightarrow> \<lparr>id_Name = name, id_Status = ''created'', id_ID = i, id_Error = ''''\<rparr>
   | Updated i \<Rightarrow> \<lparr>id_Name = name, id_Status = ''updated'', id_ID = i, id_Error = ''''\<rparr>
   | Failed err \<Rightarrow> \<lparr>id_Name = name, id_Status = ''failed'', id_ID = 0, id_Error = err\<rparr>)"

definition count_result :: "CreateIPRequest \<Rightarrow> import_result \<Rightarrow> ImportIPsResponse \<Rightarrow> ImportIPsResponse" where
  "count_result e r p = (let q = p\<lparr>ir_Details := ir_Details p @ [import_detail e r]\<rparr> in case r of
     Created _ \<Rightarrow> q\<lparr>ir_Created := ir_Created p + 1\<rparr> | Updated _ \<Rightarrow> q\<lparr>ir_Updated := ir_Updated p + 1\<rparr>
   | Failed _ \<Rightarrow> q\<lparr>ir_Failed := ir_Failed p + 1\<rparr>)"

text \<open>The loop over the entries; the clock is read anew for each.\<close>

fun import_loop :: "('s, 'd) Server \<Rightarrow> (nat \<Rightarrow> int) \<Rightarrow> nat \<Rightarrow> bool \<Rightarrow> CreateIPRequest list \<Rightarrow> ImportIPsResponse \<Rightarrow> ('s, 'd) world
    \<Rightarrow> ImportIPsResponse \<times> ('s, 'd) world" where
  "import_loop S clk k ups [] p w = (p, w)"
| "import_loop S clk k ups (e # es) p w = (case import_entry S (clk k) (clk (k + 1)) ups e w of (r, w1) \<Rightarrow>
     import_loop S clk (k + 2) ups es (count_result e r p) w1)"

definition importIPs :: "('s, 'd) Server \<Rightarrow> (nat \<Rightarrow> int) \<Rightarrow> string \<Rightarrow> string + ImportIPsRequest \<Rightarrow> ('s, 'd) world
    \<Rightarrow> ImportIPsResponse Response \<times> ('s, 'd) world" where
  "importIPs S clk upsertParam bound w = (case bound of Inl e \<Rightarrow> (badRequest e, w) | Inr req \<Rightarrow>
     (case import_loop S clk 0 (upsertParam \<noteq> ''false'' \<or> iq_Upsert req) (iq_IPs req)
         \<lparr>ir_Created = 0, ir_Updated = 0, ir_Failed = 0, ir_Details = []\<rparr> w of (p, w1) \<Rightarrow> (success p, w1)))"

section \<open>Archive runs on demand\<close>

text \<open>The two methods of \<open>ip_scheduler.go\<close>: the archiver's runs, with its own clock reading; \<open>False\<close> is an error.\<close>

definition TriggerDailyArchive :: "('s, 'd) Server \<Rightarrow> int \<Rightarrow> int \<Rightarrow> ('s, 'd) world \<Rightarrow> bool \<times> ('s, 'd) world" where
  "TriggerDailyArchive S now date w = AggregateHourlyToDaily (srv_mysql S) (srv_db S) (srv_zone S) (srv_cache S) now date w"

definition TriggerWeeklyArchive :: "('s, 'd) Server \<Rightarrow> int \<Rightarrow> int \<Rightarrow> ('s, 'd) world \<Rightarrow> bool \<times> ('s, 'd) world" where
  "TriggerWeeklyArchive S now weekStart w = AggregateDailyToWeekly (srv_mysql S) (srv_db S) (srv_zone S) (srv_cache S) now weekStart w"

text \<open>The date of the query, in UTC, or a default in the local zone; then the run. The reply has the date as a text.\<close>

definition archive_on :: "('s, 'd) Server \<Rightarrow> (int \<Rightarrow> ('s, 'd) world \<Rightarrow> bool \<times> ('s, 'd) world) \<Rightarrow> string \<Rightarrow> string \<Rightarrow> int
    \<Rightarrow> ('s, 'd) world \<Rightarrow> (string \<times> string) Response \<times> ('s, 'd) world" where
  "archive_on S run done_msg dateStr deflt w =
     (case (if dateStr = '''' then Some (srv_zone S, deflt) else map_option (\<lambda>t. (0, t)) (parse_date dateStr)) of
        None \<Rightarrow> (badRequest ''invalid date format, use YYYY-MM-DD'', w)
      | Some (zone, date) \<Rightarrow>
          if srv_scheduler S = None then (internalError ''scheduler not available'', w)
          else (case run date w of (ok, w1) \<Rightarrow> if \<not> ok then (internalError ''archive failed: '', w1)
            else (success (done_msg, FormatDate zone date), w1)))"

definition triggerDailyArchive :: "('s, 'd) Server \<Rightarrow> int \<Rightarrow> int \<Rightarrow> string \<Rightarrow> ('s, 'd) world \<Rightarrow> (string \<times> string) Response \<times> ('s, 'd) world" where
  "triggerDailyArchive S now now' dateStr w =
     archive_on S (TriggerDailyArchive S now') ''daily archive completed'' dateStr (now - Day) w"

text \<open>\<open>AddDate (0, 0, -weekday-6)\<close>, with Sunday as the seventh day.\<close>

definition last_week :: "int \<Rightarrow> int \<Rightarrow> int" where
  "last_week zone now = (let wd = Weekday zone now; weekday = (if wd = 0 then 7 else wd) in now - (weekday + 6) * Day)"

definition triggerWeeklyArchive :: "('s, 'd) Server \<Rightarrow> int \<Rightarrow> int \<Rightarrow> string \<Rightarrow> ('s, 'd) world \<Rightarrow> (string \<times> string) Response \<times> ('s, 'd) world" where
  "triggerWeeklyArchive S now now' dateStr w =
     archive_on S (TriggerWeeklyArchive S now') ''weekly archive completed'' dateStr (last_week (srv_zone S) now) w"

section \<open>Alerts\<close>

record AlertsQuery =
  aq_IPID :: u64
  aq_Severity :: string
  aq_Acknowledged :: "bool option"
  aq_Page :: int
  aq_PageSize :: int

record AlertResponse =
  ar_Alert :: IPAlert
  ar_IP :: "IPMetadata option"
  ar_IPName :: string

definition AlertSeverity_text :: "AlertSeverity \<Rightarrow> string" where
  "AlertSeverity_text s = (case s of AlertSeverityInfo \<Rightarrow> ''info'' | AlertSeverityWarning \<Rightarrow> ''warning'' | AlertSeverityCritical \<Rightarrow> ''critical'')"

definition alert_listed :: "gorm \<Rightarrow> AlertsQuery \<Rightarrow> IPAlert \<Rightarrow> bool" where
  "alert_listed G q a \<longleftrightarrow> (aq_IPID q \<noteq> 0 \<longrightarrow> al_IPID a = aq_IPID q) \<and>
     (aq_Severity q \<noteq> '''' \<longrightarrow> same_text G (AlertSeverity_text (al_Severity a)) (aq_Severity q)) \<and>
     al_Acknowledged a = (case aq_Acknowledged q of None \<Rightarrow> False | Some b \<Rightarrow> b)"

text \<open>The page size of the handlers that cap it: a default for 0, at most 100, and nothing against a negative one.\<close>

definition capped :: "int \<Rightarrow> int \<Rightarrow> int" where
  "capped d x = min 100 (or_default d x)"

definition alert_response :: "IPMetadata list \<Rightarrow> IPAlert \<Rightarrow> AlertResponse" where
  "alert_response ips a = (let ip = find (\<lambda>r. ip_DeletedAt r = None \<and> ip_ID r = al_IPID a) ips
     in \<lparr>ar_Alert = a, ar_IP = ip, ar_IPName = (case ip of None \<Rightarrow> '''' | Some r \<Rightarrow> ip_Name r)\<rparr>)"

text \<open>\<open>Preload ("IP")\<close> reads the IPs of the alerts in a second statement, when there are any.\<close>

definition listAlerts :: "('s, 'd) Server \<Rightarrow> string + AlertsQuery \<Rightarrow> ('s, 'd) world \<Rightarrow> AlertResponse paginated Response \<times> ('s, 'd) world" where
  "listAlerts S bound w = (case bound of Inl e \<Rightarrow> (badRequest e, w) | Inr q \<Rightarrow>
     (let page = or_default 1 (aq_Page q); pageSize = capped 20 (aq_PageSize q);
          rows = (\<lambda>d. filter (alert_listed (srv_gorm S) q) (ip_alerts (srv_db S) d))
      in case db_count rows w of (None, w1) \<Rightarrow> (internalError ''count failed'', w1) | (Some cnt, w1) \<Rightarrow>
        (case db_find (\<lambda>d. select_page (srv_gorm S) (page_offset page pageSize) pageSize (sort_key (\<lambda>a. - al_CreatedAt a) (rows d))) w1 of
           (None, w2) \<Rightarrow> (internalError ''query failed'', w2)
         | (Some alerts, w2) \<Rightarrow>
             (case (if alerts = [] then (Some [], w2) else ddo (readc (ip_metadata (srv_db S))) w2) of
                (None, w3) \<Rightarrow> (internalError ''query failed'', w3)
              | (Some ips, w3) \<Rightarrow> (successPaginated (map (alert_response ips) alerts) cnt page pageSize, w3)))))"

definition write_alert :: "'d database \<Rightarrow> int \<Rightarrow> u64 \<Rightarrow> 'd \<Rightarrow> 'd" where
  "write_alert D t i d = put_ip_alerts D (map (\<lambda>a. if al_ID a = i then Acknowledge t a else a) (ip_alerts D d)) d"

definition ackAlert :: "('s, 'd) Server \<Rightarrow> int \<Rightarrow> string \<Rightarrow> ('s, 'd) world \<Rightarrow> IPAlert Response \<times> ('s, 'd) world" where
  "ackAlert S now idStr w = (case parseID idStr of Inl e \<Rightarrow> (badRequest e, w) | Inr i \<Rightarrow>
     (case db_find (\<lambda>d. find (\<lambda>a. al_ID a = i) (ip_alerts (srv_db S) d)) w of
        (None, w1) \<Rightarrow> (notFound ''alert not found'', w1)
      | (Some alert, w1) \<Rightarrow>
          if al_Acknowledged alert then (badRequest ''alert already acknowledged'', w1)
          else (case ddo (writec (write_alert (srv_db S) (col_ms (srv_mysql S) now) i)) w1 of
             (None, w2) \<Rightarrow> (internalError ''update failed'', w2)
           | (Some _, w2) \<Rightarrow> (success (Acknowledge now alert), w2))))"

section \<open>System\<close>

record PipelineStatus =
  pst_Running :: bool
  pst_Processed :: int
  pst_Failed :: int
  pst_SuccessRate :: rat

record SchedulerStatusBrief =
  ssb_Running :: bool
  ssb_TotalIPs :: nat
  ssb_OverdueIPs :: nat

record SystemStatusResponse =
  sys_Timestamp :: string
  sys_Connected :: bool
  sys_IPCount :: int
  sys_Pipeline :: "PipelineStatus option"
  sys_Scheduler :: "SchedulerStatusBrief option"
  sys_UnackedAlerts :: int
  sys_ActiveItems :: int

definition count_or_0 :: "('d \<Rightarrow> 'r list) \<Rightarrow> ('s, 'd) world \<Rightarrow> (bool \<times> int) \<times> ('s, 'd) world" where
  "count_or_0 q w = (case db_count q w of (None, w1) \<Rightarrow> ((False, 0), w1) | (Some n, w1) \<Rightarrow> ((True, n), w1))"

text \<open>The pipeline, when there is one, as whether it runs and its counts; the scheduler as whether it runs.\<close>

definition getSystemStatus :: "('s, 'd) Server \<Rightarrow> int \<Rightarrow> int \<Rightarrow> (bool \<times> PipelineStats) option \<Rightarrow> sched_state \<Rightarrow> ('s, 'd) world
    \<Rightarrow> SystemStatusResponse Response \<times> ('s, 'd) world" where
  "getSystemStatus S now now' pipe sst w =
     (case count_or_0 (\<lambda>d. filter (\<lambda>r. ip_DeletedAt r = None \<and> same_text (srv_gorm S) (IPStatus_text (ip_Status r)) ''active'')
         (ip_metadata (srv_db S) d)) w of ((dbConnected, ipCount), w1) \<Rightarrow>
     (case (case srv_scheduler S of None \<Rightarrow> (None, w1)
           | Some s \<Rightarrow> (case GetStats s now' w1 of (st, w2) \<Rightarrow>
               (Some \<lparr>ssb_Running = IsRunning sst, ssb_TotalIPs = TotalIPs st, ssb_OverdueIPs = OverdueIPs st\<rparr>, w2))) of
        (sch, w2) \<Rightarrow>
     (case count_or_0 (\<lambda>d. filter (\<lambda>a. \<not> al_Acknowledged a) (ip_alerts (srv_db S) d)) w2 of ((_, alertCount), w3) \<Rightarrow>
     (case count_or_0 (\<lambda>d. filter (\<lambda>r. is_Status r = ItemStatusOnSale) (item_snapshots (srv_db S) d)) w3 of ((_, itemCount), w4) \<Rightarrow>
        (success \<lparr>sys_Timestamp = RFC3339 (srv_zone S) now, sys_Connected = dbConnected, sys_IPCount = ipCount,
           sys_Pipeline = map_option (\<lambda>(running, st). let p = pipeline_GetStats st in \<lparr>pst_Running = pipeline_IsRunning running,
             pst_Processed = pss_Processed p, pst_Failed = pss_Failed p, pst_SuccessRate = pss_SuccessRate p\<rparr>) pipe,
           sys_Scheduler = sch, sys_UnackedAlerts = alertCount, sys_ActiveItems = itemCount\<rparr>, w4)))))"

record ScheduleInfoResponse =
  si_IPID :: u64
  si_IPName :: string
  si_NextSchedule :: string
  si_TimeUntil :: string
  si_IsOverdue :: bool

record SchedulerStatus =
  ss_Running :: bool
  ss_TotalIPs :: nat
  ss_OverdueIPs :: nat
  ss_Schedules :: "ScheduleInfoResponse list"

definition ip_name :: "IPMetadata list \<Rightarrow> u64 \<Rightarrow> string" where
  "ip_name ips i = (case find (\<lambda>r. ip_ID r = i) ips of None \<Rightarrow> '''' | Some r \<Rightarrow> ip_Name r)"

text \<open>
  The schedules in the order the store lists them; Go ranges over a map, so theirs is any order. A failed lookup of the
  schedule or of the names shows as an empty list or empty names.
\<close>

definition getSchedulerStatus :: "('s, 'd) Server \<Rightarrow> int \<Rightarrow> int \<Rightarrow> sched_state \<Rightarrow> ('s, 'd) world \<Rightarrow> SchedulerStatus Response \<times> ('s, 'd) world" where
  "getSchedulerStatus S now now' sst w = (case srv_scheduler S of
     None \<Rightarrow> (internalError ''scheduler not available'', w)
   | Some s \<Rightarrow>
      (case GetScheduleStatus s now w of (r, w1) \<Rightarrow>
      (case GetStats s now' w1 of (st, w2) \<Rightarrow>
        (let scheduleStatus = (case r of None \<Rightarrow> [] | Some m \<Rightarrow> m); ids = map fst scheduleStatus in
         case ddo (readc (\<lambda>d. filter (\<lambda>r. ip_DeletedAt r = None \<and> ip_ID r \<in> set ids) (ip_metadata (srv_db S) d))) w2 of (q, w3) \<Rightarrow>
           (let ips = (case q of None \<Rightarrow> [] | Some rows \<Rightarrow> rows) in
            (success \<lparr>ss_Running = IsRunning sst, ss_TotalIPs = TotalIPs st, ss_OverdueIPs = OverdueIPs st,
               ss_Schedules = map (\<lambda>(i, info). \<lparr>si_IPID = i, si_IPName = ip_name ips i,
                 si_NextSchedule = RFC3339 (srv_zone S) (NextSchedule info), si_TimeUntil = Duration_String (TimeUntil info),
                 si_IsOverdue = IsOverdue info\<rparr>) scheduleStatus\<rparr>, w3))))))"

end
