(* ===== verification/Boards.thy ===== *)
theory Boards
  imports Api
begin

text \<open>
  \<open>internal/api/stats_handler.go\<close>: the liquidity, the hourly statistics and the items of an IP, and the leaderboards, each with
  its cache in Redis; and the routes of \<open>server.go\<close>. The goroutine that writes a cache entry runs after the response: a
  handler answers with the \<open>cache_write\<close> it leaves behind, and \<open>run_cache_write\<close> is that goroutine. The JSON encoders,
  the natural logarithm and the sort of Go's library are arguments.
\<close>

section \<open>Cached data\<close>

record LiquidityResponse =
  lq_IPID :: u64
  lq_IPName :: string
  lq_OnSaleInflow :: int
  lq_OnSaleOutflow :: int
  lq_OnSaleTotal :: int
  lq_SoldInflow :: int
  lq_SoldTotal :: int
  lq_LiquidityIndex :: "rat option"
  lq_HotScore :: rat
  lq_UpdatedAt :: string
  lq_FromCache :: bool

record liquidityCacheData =
  lc_IPID :: u64
  lc_IPName :: string
  lc_OnSaleInflow :: int
  lc_OnSaleOutflow :: int
  lc_OnSaleTotal :: int
  lc_SoldInflow :: int
  lc_SoldTotal :: int
  lc_LiquidityIndex :: "rat option"
  lc_HotScore :: rat
  lc_UpdatedAt :: string
  lc_CachedAt :: string

record hourlyStatsCacheData =
  hc_IPID :: u64
  hc_IPName :: string
  hc_Stats :: "IPStatsHourly list"
  hc_Count :: nat
  hc_CachedAt :: string

record itemsCacheData =
  ic_Items :: "ItemSnapshot list"
  ic_Total :: int
  ic_Page :: int
  ic_PageSize :: int
  ic_CachedAt :: string

record LeaderboardItem =
  li_Rank :: nat
  li_IPID :: u64
  li_IPName :: string
  li_IPNameEn :: string
  li_Inflow :: int
  li_Outflow :: int
  li_Score :: rat

record LeaderboardTimeRange =
  tr_Start :: string
  tr_End :: string

record LeaderboardCacheData =
  lb_Type :: string
  lb_Hours :: int
  lb_TimeRange :: LeaderboardTimeRange
  lb_Items :: "LeaderboardItem list"
  lb_Count :: nat
  lb_CachedAt :: string

record leaderboardEntry =
  le_IpID :: u64
  le_Inflow :: int
  le_Outflow :: int
  le_Score :: rat

type_synonym 'a json = "('a \<Rightarrow> string option) \<times> (string \<Rightarrow> 'a option)"

record go_lib =
  json_liquidity :: "liquidityCacheData json"
  json_hourly :: "hourlyStatsCacheData json"
  json_items :: "itemsCacheData json"
  json_board :: "LeaderboardCacheData json"
  math_Log :: "rat \<Rightarrow> rat"
  sort_Slice :: "leaderboardEntry list \<Rightarrow> leaderboardEntry list"

text \<open>What is relied on: JSON reads back what it wrote, the slice is sorted by falling scores.\<close>

definition json_ok :: "'a json \<Rightarrow> bool" where
  "json_ok j \<longleftrightarrow> (\<forall>x t. fst j x = Some t \<longrightarrow> snd j t = Some x)"

locale go_laws =
  fixes L :: go_lib
  assumes json_laws: "json_ok (json_liquidity L)" "json_ok (json_hourly L)" "json_ok (json_items L)" "json_ok (json_board L)"
    and sort_perm: "mset (sort_Slice L es) = mset es"
    and sort_falling: "sorted_wrt (\<lambda>a b. le_Score a \<ge> le_Score b) (sort_Slice L es)"

type_synonym cache_write = "(string \<times> string \<times> int) option"

definition run_cache_write :: "('s, 'd) Server \<Rightarrow> cache_write \<Rightarrow> ('s, 'd) world \<Rightarrow> ('s, 'd) world" where
  "run_cache_write S p w = (case srv_rdb S of None \<Rightarrow> w | Some R \<Rightarrow>
     (case p of None \<Rightarrow> w | Some (key, tx, ttl) \<Rightarrow> snd (rdo (writec (SET_EX R key tx ttl)) w)))"

text \<open>The entry of a key; an error of Redis or of the decoder counts as none.\<close>

definition read_cache :: "('s, 'd) Server \<Rightarrow> 'a json \<Rightarrow> string \<Rightarrow> ('s, 'd) world \<Rightarrow> 'a option \<times> ('s, 'd) world" where
  "read_cache S j key w = (case srv_rdb S of None \<Rightarrow> (None, w) | Some R \<Rightarrow>
     (case rdo (readc (GET R key)) w of
        (Some (Some tx), w1) \<Rightarrow> (snd j tx, w1)
      | (_, w1) \<Rightarrow> (None, w1)))"

definition cache_entry :: "'a json \<Rightarrow> string \<Rightarrow> int \<Rightarrow> 'a \<Rightarrow> cache_write" where
  "cache_entry j key ttl x = (case fst j x of None \<Rightarrow> None | Some tx \<Rightarrow> Some (key, tx, ttl))"

section \<open>Details of an IP\<close>

definition CalculateHotScore :: "go_lib \<Rightarrow> int \<Rightarrow> int \<Rightarrow> rat" where
  "CalculateHotScore L inflow outflow = (let ratio = fdiv (f64_of_int (outflow + 1)) (f64_of_int (inflow + 1));
     scale = math_Log L (f64_of_int (outflow + 1)) in fmul ratio scale)"

definition u32_int :: "u32 \<Rightarrow> int" where
  "u32_int x = uint x"

text \<open>The hours of an IP before the current one, the latest first.\<close>

definition past_hours :: "('s, 'd) Server \<Rightarrow> int \<Rightarrow> u64 \<Rightarrow> 'd \<Rightarrow> IPStatsHourly list" where
  "past_hours S now i d = sort_key (\<lambda>r. - sh_HourBucket r)
     (filter (\<lambda>r. sh_IPID r = i \<and> sh_HourBucket r < truncateToHour (srv_zone S) now) (ip_stats_hourly (srv_db S) d))"

definition liquidity_of :: "('s, 'd) Server \<Rightarrow> go_lib \<Rightarrow> IPMetadata \<Rightarrow> u64 \<Rightarrow> IPStatsHourly \<Rightarrow> LiquidityResponse" where
  "liquidity_of S L ip i h = \<lparr>lq_IPID = i, lq_IPName = ip_Name ip, lq_OnSaleInflow = u32_int (sh_Inflow h),
     lq_OnSaleOutflow = u32_int (sh_Outflow h), lq_OnSaleTotal = u32_int (sh_ActiveCount h),
     lq_SoldInflow = u32_int (sh_Outflow h), lq_SoldTotal = 0, lq_LiquidityIndex = sh_LiquidityIndex h,
     lq_HotScore = CalculateHotScore L (u32_int (sh_Inflow h)) (u32_int (sh_Outflow h)),
     lq_UpdatedAt = RFC3339 (srv_zone S) (sh_HourBucket h), lq_FromCache = False\<rparr>"

definition liquidity_data :: "LiquidityResponse \<Rightarrow> string \<Rightarrow> liquidityCacheData" where
  "liquidity_data r cachedAt = \<lparr>lc_IPID = lq_IPID r, lc_IPName = lq_IPName r, lc_OnSaleInflow = lq_OnSaleInflow r,
     lc_OnSaleOutflow = lq_OnSaleOutflow r, lc_OnSaleTotal = lq_OnSaleTotal r, lc_SoldInflow = lq_SoldInflow r,
     lc_SoldTotal = 0, lc_LiquidityIndex = lq_LiquidityIndex r, lc_HotScore = lq_HotScore r, lc_UpdatedAt = lq_UpdatedAt r,
     lc_CachedAt = cachedAt\<rparr>"

definition cached_liquidity :: "liquidityCacheData \<Rightarrow> LiquidityResponse" where
  "cached_liquidity c = \<lparr>lq_IPID = lc_IPID c, lq_IPName = lc_IPName c, lq_OnSaleInflow = lc_OnSaleInflow c,
     lq_OnSaleOutflow = lc_OnSaleOutflow c, lq_OnSaleTotal = lc_OnSaleTotal c, lq_SoldInflow = lc_SoldInflow c,
     lq_SoldTotal = lc_SoldTotal c, lq_LiquidityIndex = lc_LiquidityIndex c, lq_HotScore = lc_HotScore c,
     lq_UpdatedAt = lc_UpdatedAt c, lq_FromCache = True\<rparr>"

text \<open>A handler with a cache: the same steps as \<open>with_ip\<close>, with the pending write beside the response.\<close>

definition with_ip_cached :: "('s, 'd) Server \<Rightarrow> string
    \<Rightarrow> (u64 \<Rightarrow> IPMetadata \<Rightarrow> ('s, 'd) world \<Rightarrow> ('a Response \<times> cache_write) \<times> ('s, 'd) world)
    \<Rightarrow> ('s, 'd) world \<Rightarrow> ('a Response \<times> cache_write) \<times> ('s, 'd) world" where
  "with_ip_cached S idStr h w = (case parseID idStr of Inl e \<Rightarrow> ((badRequest e, None), w) | Inr i \<Rightarrow>
     (case first_ip S i w of (None, w1) \<Rightarrow> ((notFound ''IP not found'', None), w1) | (Some ip, w1) \<Rightarrow> h i ip w1))"

definition getIPLiquidity :: "('s, 'd) Server \<Rightarrow> go_lib \<Rightarrow> int \<Rightarrow> int \<Rightarrow> string \<Rightarrow> ('s, 'd) world
    \<Rightarrow> (LiquidityResponse Response \<times> cache_write) \<times> ('s, 'd) world" where
  "getIPLiquidity S L now now' idStr w = with_ip_cached S idStr (\<lambda>i ip w1.
     let key = ip_detail_prefix i @ ''liquidity'' in
     case read_cache S (json_liquidity L) key w1 of
       (Some c, w2) \<Rightarrow> ((success (cached_liquidity c), None), w2)
     | (None, w2) \<Rightarrow>
        (case db_find (\<lambda>d. case past_hours S now i d of [] \<Rightarrow> None | h # _ \<Rightarrow> Some h) w2 of
           (None, w3) \<Rightarrow> ((success \<lparr>lq_IPID = i, lq_IPName = ip_Name ip, lq_OnSaleInflow = 0, lq_OnSaleOutflow = 0,
               lq_OnSaleTotal = 0, lq_SoldInflow = 0, lq_SoldTotal = 0, lq_LiquidityIndex = None, lq_HotScore = 0,
               lq_UpdatedAt = RFC3339 (srv_zone S) now, lq_FromCache = False\<rparr>, None), w3)
         | (Some h, w3) \<Rightarrow> (let resp = liquidity_of S L ip i h in
             ((success resp, cache_entry (json_liquidity L) key IPDetailCacheTTL
                (liquidity_data resp (RFC3339 (srv_zone S) now'))), w3)))) w"

record HourlyStatsQuery =
  hq_Start :: string
  hq_End :: string
  hq_Limit :: int

record HourlyStatsReply =
  hr_IPID :: u64
  hr_IPName :: string
  hr_Stats :: "IPStatsHourly list"
  hr_Count :: nat
  hr_FromCache :: bool

definition parseTime :: "string \<Rightarrow> int option" where
  "parseTime s = (case parse_RFC3339 s of Some t \<Rightarrow> Some t | None \<Rightarrow>
     (case parse_date s of Some t \<Rightarrow> Some t | None \<Rightarrow> parse_datetime s))"

text \<open>A bound of the query: none, a time, or a text that is not one.\<close>

definition time_bound :: "string \<Rightarrow> int option option" where
  "time_bound s = (if s = '''' then Some None else map_option Some (parseTime s))"

definition in_bounds :: "int option \<Rightarrow> int option \<Rightarrow> int \<Rightarrow> bool" where
  "in_bounds t u x \<longleftrightarrow> (case t of None \<Rightarrow> True | Some a \<Rightarrow> a \<le> x) \<and> (case u of None \<Rightarrow> True | Some b \<Rightarrow> x \<le> b)"

definition hourly_limit :: "int \<Rightarrow> int" where
  "hourly_limit n = min 168 (or_default 24 n)"

definition getIPHourlyStats :: "('s, 'd) Server \<Rightarrow> go_lib \<Rightarrow> int \<Rightarrow> int \<Rightarrow> string \<Rightarrow> string + HourlyStatsQuery \<Rightarrow> ('s, 'd) world
    \<Rightarrow> (HourlyStatsReply Response \<times> cache_write) \<times> ('s, 'd) world" where
  "getIPHourlyStats S L now now' idStr bound w = with_ip_cached S idStr (\<lambda>i ip w1. case bound of
       Inl e \<Rightarrow> ((badRequest e, None), w1)
     | Inr q \<Rightarrow>
        (let lm = hourly_limit (hq_Limit q); useCache = (hq_Start q = '''' \<and> hq_End q = '''');
             key = ip_detail_prefix i @ ''hourly_stats:'' @ FormatInt lm in
         case (if useCache then read_cache S (json_hourly L) key w1 else (None, w1)) of
           (Some c, w2) \<Rightarrow> ((success \<lparr>hr_IPID = hc_IPID c, hr_IPName = hc_IPName c, hr_Stats = hc_Stats c,
               hr_Count = hc_Count c, hr_FromCache = True\<rparr>, None), w2)
         | (None, w2) \<Rightarrow>
            (case time_bound (hq_Start q) of None \<Rightarrow> ((badRequest ''invalid start time'', None), w2) | Some t \<Rightarrow>
            (case time_bound (hq_End q) of None \<Rightarrow> ((badRequest ''invalid end time'', None), w2) | Some u \<Rightarrow>
              (case db_find (\<lambda>d. select_page (srv_gorm S) 0 lm (filter (\<lambda>r. in_bounds t u (sh_HourBucket r)) (past_hours S now i d))) w2 of
                 (None, w3) \<Rightarrow> ((internalError ''query failed'', None), w3)
               | (Some stats, w3) \<Rightarrow>
                   ((success \<lparr>hr_IPID = i, hr_IPName = ip_Name ip, hr_Stats = stats, hr_Count = length stats, hr_FromCache = False\<rparr>,
                     if useCache then cache_entry (json_hourly L) key IPDetailCacheTTL \<lparr>hc_IPID = i, hc_IPName = ip_Name ip,
                       hc_Stats = stats, hc_Count = length stats, hc_CachedAt = RFC3339 (srv_zone S) now'\<rparr> else None), w3)))))) w"

record ItemsQuery =
  iq_Status :: string
  iq_Page :: int
  iq_PageSize :: int

definition SnapshotStatus_text :: "SnapshotStatus \<Rightarrow> string" where
  "SnapshotStatus_text s = (case s of ItemStatusOnSale \<Rightarrow> ''on_sale'' | ItemStatusSold \<Rightarrow> ''sold'' | ItemStatusDeleted \<Rightarrow> ''deleted'')"

definition items_of :: "('s, 'd) Server \<Rightarrow> u64 \<Rightarrow> string \<Rightarrow> 'd \<Rightarrow> ItemSnapshot list" where
  "items_of S i status d = filter (\<lambda>r. is_IPID r = i \<and> (status \<noteq> '''' \<longrightarrow> same_text (srv_gorm S) (SnapshotStatus_text (is_Status r)) status))
     (item_snapshots (srv_db S) d)"

definition items_key :: "u64 \<Rightarrow> string \<Rightarrow> int \<Rightarrow> int \<Rightarrow> string" where
  "items_key i status page pageSize = ip_detail_prefix i @ ''items:'' @ (if status = '''' then ''all'' else status) @ '':''
     @ FormatInt page @ '':'' @ FormatInt pageSize"

definition getIPItems :: "('s, 'd) Server \<Rightarrow> go_lib \<Rightarrow> int \<Rightarrow> string \<Rightarrow> string + ItemsQuery \<Rightarrow> ('s, 'd) world
    \<Rightarrow> (ItemSnapshot paginated Response \<times> cache_write) \<times> ('s, 'd) world" where
  "getIPItems S L now' idStr bound w = with_ip_cached S idStr (\<lambda>i ip w1. case bound of
       Inl e \<Rightarrow> ((badRequest e, None), w1)
     | Inr q \<Rightarrow>
        (let page = or_default 1 (iq_Page q); pageSize = capped 50 (iq_PageSize q); key = items_key i (iq_Status q) page pageSize in
         case read_cache S (json_items L) key w1 of
           (Some c, w2) \<Rightarrow> ((successPaginatedWithCache (ic_Items c) (ic_Total c) (ic_Page c) (ic_PageSize c) True, None), w2)
         | (None, w2) \<Rightarrow>
            (case db_count (items_of S i (iq_Status q)) w2 of
               (None, w3) \<Rightarrow> ((internalError ''count failed'', None), w3)
             | (Some cnt, w3) \<Rightarrow>
                (case db_find (\<lambda>d. select_page (srv_gorm S) (page_offset page pageSize) pageSize
                    (sort_key (\<lambda>r. - is_LastSeenAt r) (items_of S i (iq_Status q) d))) w3 of
                   (None, w4) \<Rightarrow> ((internalError ''query failed'', None), w4)
                 | (Some items, w4) \<Rightarrow>
                     ((successPaginatedWithCache items cnt page pageSize False,
                       cache_entry (json_items L) key IPDetailCacheTTL \<lparr>ic_Items = items, ic_Total = cnt, ic_Page = page,
                         ic_PageSize = pageSize, ic_CachedAt = RFC3339 (srv_zone S) now'\<rparr>), w4))))) w"

section \<open>Leaderboards\<close>

definition leaderboardCacheTTL1H :: int where "leaderboardCacheTTL1H = 10 * Minute"
definition leaderboardCacheTTL24H :: int where "leaderboardCacheTTL24H = 1 * Hour"
definition leaderboardCacheTTL7D :: int where "leaderboardCacheTTL7D = 1 * Hour"

record LeaderboardQuery =
  bq_Type :: string
  bq_Hours :: int
  bq_Limit :: int

record board_row =
  br_IpID :: u64
  br_Inflow :: int
  br_Outflow :: int

definition board_score :: "go_lib \<Rightarrow> string \<Rightarrow> board_row \<Rightarrow> rat" where
  "board_score L lbType r = (if lbType = ''inflow'' then f64_of_int (br_Inflow r)
     else if lbType = ''outflow'' then f64_of_int (br_Outflow r) else CalculateHotScore L (br_Inflow r) (br_Outflow r))"

definition board_entry :: "go_lib \<Rightarrow> string \<Rightarrow> board_row \<Rightarrow> leaderboardEntry" where
  "board_entry L lbType r = \<lparr>le_IpID = br_IpID r, le_Inflow = br_Inflow r, le_Outflow = br_Outflow r, le_Score = board_score L lbType r\<rparr>"

definition idle :: "board_row \<Rightarrow> bool" where
  "idle r \<longleftrightarrow> br_Inflow r = 0 \<and> br_Outflow r = 0"

definition calculateAndSortEntries :: "go_lib \<Rightarrow> board_row list \<Rightarrow> string \<Rightarrow> nat \<Rightarrow> leaderboardEntry list" where
  "calculateAndSortEntries L results lbType lm =
     take lm (sort_Slice L (map (board_entry L lbType) (filter (\<lambda>r. \<not> idle r) results)))"

text \<open>\<open>GROUP BY ip_id\<close> with the sums of the hours in \<open>[t, u)\<close>; groups of no traffic are left out.\<close>

definition hour_sums :: "IPStatsHourly list \<Rightarrow> u64 \<Rightarrow> board_row" where
  "hour_sums rows i = \<lparr>br_IpID = i, br_Inflow = (\<Sum>r \<leftarrow> filter (\<lambda>r. sh_IPID r = i) rows. u32_int (sh_Inflow r)),
     br_Outflow = (\<Sum>r \<leftarrow> filter (\<lambda>r. sh_IPID r = i) rows. u32_int (sh_Outflow r))\<rparr>"

definition hourly_board :: "IPStatsHourly list \<Rightarrow> board_row list" where
  "hourly_board rows = filter (\<lambda>r. br_Inflow r > 0 \<or> br_Outflow r > 0) (map (hour_sums rows) (remdups (map sh_IPID rows)))"

definition getLeaderboardFromHourlyDB :: "('s, 'd) Server \<Rightarrow> go_lib \<Rightarrow> string \<Rightarrow> int \<Rightarrow> int \<Rightarrow> nat \<Rightarrow> ('s, 'd) world
    \<Rightarrow> leaderboardEntry list option \<times> ('s, 'd) world" where
  "getLeaderboardFromHourlyDB S L lbType t u lm w =
     (case ddo (readc (\<lambda>d. hourly_board (filter (\<lambda>r. t \<le> sh_HourBucket r \<and> sh_HourBucket r < u) (ip_stats_hourly (srv_db S) d)))) w of
        (None, w1) \<Rightarrow> (None, w1) | (Some rows, w1) \<Rightarrow> (Some (calculateAndSortEntries L rows lbType lm), w1))"

text \<open>The rows of one period: the column is a date, the start of its day in the zone of the connection.\<close>

definition period_board :: "int \<Rightarrow> IPStatsPeriod list \<Rightarrow> board_row list" where
  "period_board start rows = map (\<lambda>r. \<lparr>br_IpID = sp_IPID r, br_Inflow = u32_int (sp_TotalInflow r), br_Outflow = u32_int (sp_TotalOutflow r)\<rparr>)
     (filter (\<lambda>r. sp_Start r = start) rows)"

definition getLeaderboardFromDailyDB :: "('s, 'd) Server \<Rightarrow> go_lib \<Rightarrow> string \<Rightarrow> int \<Rightarrow> nat \<Rightarrow> ('s, 'd) world
    \<Rightarrow> leaderboardEntry list option \<times> ('s, 'd) world" where
  "getLeaderboardFromDailyDB S L lbType date lm w =
     (case ddo (readc (\<lambda>d. period_board (midnight (srv_zone S) date) (ip_stats_daily (srv_db S) d))) w of
        (None, w1) \<Rightarrow> (None, w1) | (Some rows, w1) \<Rightarrow> (Some (calculateAndSortEntries L rows lbType lm), w1))"

definition getLeaderboardFromWeeklyDB :: "('s, 'd) Server \<Rightarrow> go_lib \<Rightarrow> string \<Rightarrow> int \<Rightarrow> nat \<Rightarrow> ('s, 'd) world
    \<Rightarrow> leaderboardEntry list option \<times> ('s, 'd) world" where
  "getLeaderboardFromWeeklyDB S L lbType weekStart lm w =
     (case ddo (readc (\<lambda>d. period_board (midnight (srv_zone S) weekStart) (ip_stats_weekly (srv_db S) d))) w of
        (None, w1) \<Rightarrow> (None, w1) | (Some rows, w1) \<Rightarrow> (Some (calculateAndSortEntries L rows lbType lm), w1))"

definition getLastWeekStart :: "int \<Rightarrow> int \<Rightarrow> int" where
  "getLastWeekStart zone now = (let wd = Weekday zone now; weekday = (if wd = 0 then 7 else wd);
     thisMonday = midnight zone (now - (weekday - 1) * Day) in thisMonday - 7 * Day)"

text \<open>The query with its defaults: any unknown type is \<open>hot\<close>, the window 168, 24 or a number of hours below 24.\<close>

definition board_limit :: "int \<Rightarrow> int" where
  "board_limit n = (let l = (if n \<le> 0 then 10 else n) in if l > 100 then 100 else l)"

definition board_hours :: "int \<Rightarrow> int" where
  "board_hours n = (let h = (if n \<le> 0 then 24 else n) in if h \<ge> 168 then 168 else if h \<ge> 24 then 24 else h)"

definition board_type :: "string \<Rightarrow> string" where
  "board_type t = (if t = '''' \<or> (t \<noteq> ''hot'' \<and> t \<noteq> ''inflow'' \<and> t \<noteq> ''outflow'') then ''hot'' else t)"

definition board_key :: "string \<Rightarrow> int \<Rightarrow> string" where
  "board_key lbType hours = LeaderboardCacheKeyPrefix @ '':'' @ lbType @ '':'' @ FormatInt hours"

definition cacheLimit :: nat where "cacheLimit = 100"

definition board_window :: "int \<Rightarrow> int \<Rightarrow> int \<Rightarrow> int \<times> int" where
  "board_window zone now hours = (if hours \<ge> 168 then (getLastWeekStart zone now, getLastWeekStart zone now + 7 * Day)
     else if hours \<ge> 24 then (midnight zone now - Day, midnight zone now)
     else (truncateToHour zone now - hours * Hour, truncateToHour zone now))"

definition board_entries :: "('s, 'd) Server \<Rightarrow> go_lib \<Rightarrow> string \<Rightarrow> int \<Rightarrow> int \<Rightarrow> ('s, 'd) world
    \<Rightarrow> leaderboardEntry list option \<times> ('s, 'd) world" where
  "board_entries S L lbType hours now w = (case board_window (srv_zone S) now hours of (t, u) \<Rightarrow>
     if hours \<ge> 168 then getLeaderboardFromWeeklyDB S L lbType t cacheLimit w
     else if hours \<ge> 24 then getLeaderboardFromDailyDB S L lbType t cacheLimit w
     else getLeaderboardFromHourlyDB S L lbType t u cacheLimit w)"

text \<open>The names of the IPs: of every row, the deleted ones included; without an answer they stay empty.\<close>

definition board_names :: "('s, 'd) Server \<Rightarrow> u64 list \<Rightarrow> ('s, 'd) world \<Rightarrow> IPMetadata list \<times> ('s, 'd) world" where
  "board_names S ids w = (if ids = [] then ([], w)
     else (case ddo (readc (\<lambda>d. filter (\<lambda>r. ip_ID r \<in> set ids) (ip_metadata (srv_db S) d))) w of
        (None, w1) \<Rightarrow> ([], w1) | (Some rows, w1) \<Rightarrow> (rows, w1)))"

definition board_item :: "IPMetadata list \<Rightarrow> nat \<Rightarrow> leaderboardEntry \<Rightarrow> LeaderboardItem" where
  "board_item ips k e = \<lparr>li_Rank = k + 1, li_IPID = le_IpID e, li_IPName = ip_name ips (le_IpID e),
     li_IPNameEn = (case find (\<lambda>r. ip_ID r = le_IpID e) ips of None \<Rightarrow> '''' | Some r \<Rightarrow> ip_NameEN r),
     li_Inflow = le_Inflow e, li_Outflow = le_Outflow e, li_Score = le_Score e\<rparr>"

definition board_items :: "IPMetadata list \<Rightarrow> leaderboardEntry list \<Rightarrow> LeaderboardItem list" where
  "board_items ips es = map (\<lambda>(k, e). board_item ips k e) (enumerate 0 es)"

record LeaderboardReply =
  lr_Type :: string
  lr_Hours :: int
  lr_TimeRange :: LeaderboardTimeRange
  lr_Items :: "LeaderboardItem list"
  lr_Count :: nat
  lr_FromCache :: bool
  lr_CachedAt :: "string option"

definition getLeaderboardFromCache :: "('s, 'd) Server \<Rightarrow> go_lib \<Rightarrow> string \<Rightarrow> ('s, 'd) world \<Rightarrow> LeaderboardCacheData option \<times> ('s, 'd) world" where
  "getLeaderboardFromCache S L key w = read_cache S (json_board L) key w"

definition board_ttl :: "int \<Rightarrow> int" where
  "board_ttl hours = (if hours \<ge> 168 then leaderboardCacheTTL7D else if hours \<ge> 24 then leaderboardCacheTTL24H else leaderboardCacheTTL1H)"

definition setLeaderboardCache :: "go_lib \<Rightarrow> string \<Rightarrow> LeaderboardCacheData \<Rightarrow> int \<Rightarrow> cache_write" where
  "setLeaderboardCache L key c hours = cache_entry (json_board L) key (board_ttl hours) c"

definition getLeaderboard :: "('s, 'd) Server \<Rightarrow> go_lib \<Rightarrow> int \<Rightarrow> int \<Rightarrow> string + LeaderboardQuery \<Rightarrow> ('s, 'd) world
    \<Rightarrow> (LeaderboardReply Response \<times> cache_write) \<times> ('s, 'd) world" where
  "getLeaderboard S L now now' bound w = (case bound of Inl e \<Rightarrow> ((badRequest e, None), w) | Inr q \<Rightarrow>
     (let lm = nat (board_limit (bq_Limit q)); hours = board_hours (bq_Hours q); lbType = board_type (bq_Type q);
          key = board_key lbType hours in
      case getLeaderboardFromCache S L key w of
        (Some c, w1) \<Rightarrow> (let items = take lm (lb_Items c) in
          ((success \<lparr>lr_Type = lb_Type c, lr_Hours = lb_Hours c, lr_TimeRange = lb_TimeRange c, lr_Items = items,
             lr_Count = length items, lr_FromCache = True, lr_CachedAt = Some (lb_CachedAt c)\<rparr>, None), w1))
      | (None, w1) \<Rightarrow>
         (case board_entries S L lbType hours now w1 of
            (None, w2) \<Rightarrow> ((internalError ''get leaderboard failed'', None), w2)
          | (Some entries, w2) \<Rightarrow>
             (case board_names S (map le_IpID entries) w2 of (ips, w3) \<Rightarrow>
               (case board_window (srv_zone S) now hours of (t, u) \<Rightarrow>
                 (let items = board_items ips entries; responseItems = take lm items;
                      timeRange = \<lparr>tr_Start = RFC3339 (srv_zone S) t, tr_End = RFC3339 (srv_zone S) u\<rparr> in
                  ((success \<lparr>lr_Type = lbType, lr_Hours = hours, lr_TimeRange = timeRange, lr_Items = responseItems,
                      lr_Count = length responseItems, lr_FromCache = False, lr_CachedAt = None\<rparr>,
                    setLeaderboardCache L key \<lparr>lb_Type = lbType, lb_Hours = hours, lb_TimeRange = timeRange, lb_Items = items,
                      lb_Count = length items, lb_CachedAt = RFC3339 (srv_zone S) now'\<rparr> hours), w3)))))))"

section \<open>Routes\<close>

text \<open>A request as Gin hands it to a handler, and what the handlers answer.\<close>

datatype request =
    Health
  | ListIPs "string + ListIPsQuery"
  | CreateIP "string + CreateIPRequest"
  | GetIP string
  | UpdateIP string "string + UpdateIPRequest"
  | DeleteIP string
  | TriggerIP string
  | GetIPLiquidity string
  | GetIPHourlyStats string "string + HourlyStatsQuery"
  | GetIPItems string "string + ItemsQuery"
  | ListAlerts "string + AlertsQuery"
  | AckAlert string
  | GetSystemStatus
  | GetSchedulerStatus
  | ImportIPs string "string + ImportIPsRequest"
  | DailyArchive string
  | WeeklyArchive string
  | GetLeaderboard "string + LeaderboardQuery"

datatype body = HealthBody string | IPsBody "IPMetadata paginated" | IPBody IPMetadata | DeletedBody u64 | TriggeredBody u64
  | LiquidityBody LiquidityResponse | HourlyBody HourlyStatsReply | ItemsBody "ItemSnapshot paginated"
  | AlertsBody "AlertResponse paginated" | AlertBody IPAlert | SystemBody SystemStatusResponse
  | SchedulerBody SchedulerStatus | ImportBody ImportIPsResponse | ArchiveBody "string \<times> string" | BoardBody LeaderboardReply

definition healthCheck :: "('s, 'd) Server \<Rightarrow> int \<Rightarrow> string" where
  "healthCheck S now = RFC3339 (srv_zone S) now"

text \<open>The state of the other parts of the process a handler looks at, the clock, and the header with the key.\<close>

record serving =
  sv_clock :: "nat \<Rightarrow> int"
  sv_pipeline :: "(bool \<times> PipelineStats) option"
  sv_sched :: sched_state
  sv_apiKey :: string

definition plain :: "('a \<Rightarrow> body) \<Rightarrow> 'a Response \<times> 'w \<Rightarrow> (body Response \<times> cache_write) \<times> 'w" where
  "plain f r = ((map_Response f (fst r), None), snd r)"

definition cached :: "('a \<Rightarrow> body) \<Rightarrow> ('a Response \<times> cache_write) \<times> 'w \<Rightarrow> (body Response \<times> cache_write) \<times> 'w" where
  "cached f r = ((map_Response f (fst (fst r)), snd (fst r)), snd r)"

definition serve :: "('s, 'd) Server \<Rightarrow> go_lib \<Rightarrow> serving \<Rightarrow> request \<Rightarrow> ('s, 'd) world
    \<Rightarrow> (body Response \<times> cache_write) \<times> ('s, 'd) world" where
  "serve S L v rq w = (let clk = sv_clock v; key = sv_apiKey v in case rq of
     Health \<Rightarrow> plain HealthBody (Response 200 0 ''ok'' (Some (healthCheck S (clk 0))), w)
   | ListIPs b \<Rightarrow> plain IPsBody (listIPs S b w)
   | CreateIP b \<Rightarrow> plain IPBody (createIP S (clk 0) (clk 1) b w)
   | GetIP i \<Rightarrow> plain IPBody (getIP S i w)
   | UpdateIP i b \<Rightarrow> plain IPBody (updateIP S (clk 0) (clk 1) i b w)
   | DeleteIP i \<Rightarrow> plain DeletedBody (deleteIP S (clk 0) i w)
   | TriggerIP i \<Rightarrow> plain TriggeredBody (triggerIP S (clk 0) i w)
   | GetIPLiquidity i \<Rightarrow> cached LiquidityBody (getIPLiquidity S L (clk 0) (clk 1) i w)
   | GetIPHourlyStats i b \<Rightarrow> cached HourlyBody (getIPHourlyStats S L (clk 0) (clk 1) i b w)
   | GetIPItems i b \<Rightarrow> cached ItemsBody (getIPItems S L (clk 0) i b w)
   | ListAlerts b \<Rightarrow> plain AlertsBody (listAlerts S b w)
   | AckAlert i \<Rightarrow> plain AlertBody (ackAlert S (clk 0) i w)
   | GetSystemStatus \<Rightarrow> plain SystemBody (getSystemStatus S (clk 0) (clk 1) (sv_pipeline v) (sv_sched v) w)
   | GetSchedulerStatus \<Rightarrow> plain SchedulerBody (getSchedulerStatus S (clk 0) (clk 1) (sv_sched v) w)
   | ImportIPs p b \<Rightarrow> plain ImportBody (apiKeyMiddleware S key (importIPs S clk p b) w)
   | DailyArchive t \<Rightarrow> plain ArchiveBody (apiKeyMiddleware S key (triggerDailyArchive S (clk 0) (clk 1) t) w)
   | WeeklyArchive t \<Rightarrow> plain ArchiveBody (apiKeyMiddleware S key (triggerWeeklyArchive S (clk 0) (clk 1) t) w)
   | GetLeaderboard b \<Rightarrow> cached BoardBody (getLeaderboard S L (clk 0) (clk 1) b w))"

end
