(* ===== verification/ApiProofs.thy ===== *)
theory ApiProofs
  imports Boards SchedulerProofs
begin

text \<open>
  What the requests of the HTTP API keep: those that read change neither store and leave behind short-lived cache entries; all of them keep
  properties of Redis and of the tables that the single writes keep (\<open>kept_tables\<close>, \<open>kept_state\<close>), the types of the keys and the table of IPs
  in particular.
\<close>

section \<open>Requests that read\<close>

text \<open>A step that leaves both stores as they are and uses up some of the outcomes.\<close>

definition same :: "('s, 'd) world \<Rightarrow> ('s, 'd) world \<Rightarrow> bool" where
  "same w w' \<longleftrightarrow> redis_st w' = redis_st w \<and> db_st w' = db_st w \<and> (\<exists>n. outcomes w' = drop n (outcomes w))"

named_theorems sames

lemma outcomes_used: "outcomes (snd (ddo c w)) = drop 1 (outcomes w)" "outcomes (snd (rdo k w)) = drop 1 (outcomes w)"
  by (simp_all add: ddo_def rdo_def Let_def drop_Suc)

lemma same_refl [simp]: "same w w"
  by (auto simp: same_def intro: exI [of _ 0])

lemma same_trans [trans]: "same u v \<Longrightarrow> same v w \<Longrightarrow> same u w"
  unfolding same_def by (metis drop_drop)

lemma same_ddo [sames]: "ddo (readc q) w = (r, w') \<Longrightarrow> same w w'"
  by (metis ddo_read_st other_state(1) outcomes_used(1) same_def snd_conv)

lemma same_rdo [sames]: "rdo (readc q) w = (r, w') \<Longrightarrow> same w w'"
  by (metis rdo_read_st other_state(2) outcomes_used(2) same_def snd_conv)

lemma same_db_find [sames]: "db_find q w = (r, w') \<Longrightarrow> same w w'"
  by (auto simp: db_find_def split: prod.splits option.splits dest: same_ddo)

lemma same_db_count [sames]: "db_count q w = (r, w') \<Longrightarrow> same w w'"
  by (auto simp: db_count_def dest: same_ddo)

lemma same_count_or_0 [sames]: "count_or_0 q w = (r, w') \<Longrightarrow> same w w'"
  by (auto simp: count_or_0_def split: prod.splits option.splits dest: same_db_count)

lemma same_first_ip [sames]: "first_ip S i w = (r, w') \<Longrightarrow> same w w'"
  by (auto simp: first_ip_def dest: same_db_find)

lemma same_read_cache [sames]: "read_cache S j key w = (r, w') \<Longrightarrow> same w w'"
  by (auto simp: read_cache_def split: prod.splits option.splits dest: same_rdo)

lemma same_board_names [sames]: "board_names S ids w = (r, w') \<Longrightarrow> same w w'"
  by (auto simp: board_names_def split: prod.splits option.splits if_splits dest: same_ddo)

lemma same_board_entries [sames]: "board_entries S L ty hours now w = (r, w') \<Longrightarrow> same w w'"
  by (auto simp: board_entries_def getLeaderboardFromWeeklyDB_def getLeaderboardFromDailyDB_def getLeaderboardFromHourlyDB_def
      split: prod.splits option.splits if_splits dest: same_ddo)

lemma same_with_ip:
  assumes "\<And>i ip w1 r w2. h i ip w1 = (r, w2) \<Longrightarrow> same w1 w2" "with_ip S idStr h w = (r, w')"
  shows "same w w'"
  using assms(2) by (auto simp: with_ip_def split: sum.splits prod.splits option.splits dest!: same_first_ip assms(1) intro: same_trans)

lemma same_with_ip_cached:
  assumes "\<And>i ip w1 r w2. h i ip w1 = (r, w2) \<Longrightarrow> same w1 w2" "with_ip_cached S idStr h w = (r, w')"
  shows "same w w'"
  using assms(2) by (auto simp: with_ip_cached_def split: sum.splits prod.splits option.splits dest!: same_first_ip assms(1) intro: same_trans)

text \<open>The server of the program: Redis and the schedule store on it.\<close>

definition wired :: "'s redis \<Rightarrow> (rat \<Rightarrow> int) \<Rightarrow> ('s, 'd) Server \<Rightarrow> bool" where
  "wired R oor S \<longleftrightarrow> srv_rdb S = Some R \<and> srv_cache S = Some R \<and>
     (\<forall>s. srv_scheduler S = Some s \<longrightarrow> sch_store s = NewRedisScheduleStore oor R \<and> sch_db s = srv_db S)"

lemma same_GetAll [sames]: "GetAll oor R w = (r, w') \<Longrightarrow> same w w'"
  by (auto simp: GetAll_def split: prod.splits option.splits dest: same_rdo)

lemma same_GetStats: "sch_store s = NewRedisScheduleStore oor R \<Longrightarrow> GetStats s now w = (r, w') \<Longrightarrow> same w w'"
  by (auto simp: GetStats_def NewRedisScheduleStore_def split: prod.splits option.splits dest: same_GetAll)

lemma same_GetScheduleStatus: "sch_store s = NewRedisScheduleStore oor R \<Longrightarrow> GetScheduleStatus s now w = (r, w') \<Longrightarrow> same w w'"
  by (auto simp: GetScheduleStatus_def NewRedisScheduleStore_def split: prod.splits option.splits dest: same_GetAll)

definition reads :: "request \<Rightarrow> bool" where
  "reads rq = (case rq of Health \<Rightarrow> True | ListIPs _ \<Rightarrow> True | GetIP _ \<Rightarrow> True | GetIPLiquidity _ \<Rightarrow> True | GetIPHourlyStats _ _ \<Rightarrow> True
     | GetIPItems _ _ \<Rightarrow> True | ListAlerts _ \<Rightarrow> True | GetSystemStatus \<Rightarrow> True | GetSchedulerStatus \<Rightarrow> True | GetLeaderboard _ \<Rightarrow> True
     | _ \<Rightarrow> False)"

lemma same_listIPs: "listIPs S b w = (r, w') \<Longrightarrow> same w w'"
  by (auto simp: listIPs_def Let_def split: sum.splits prod.splits option.splits dest!: sames intro: same_trans)

lemma same_getIP: "getIP S i w = (r, w') \<Longrightarrow> same w w'"
  unfolding getIP_def by (erule same_with_ip [rotated]) auto

lemma same_getIPLiquidity: "getIPLiquidity S L t t' i w = (r, w') \<Longrightarrow> same w w'"
  unfolding getIPLiquidity_def
  by (erule same_with_ip_cached [rotated]) (auto simp: Let_def split: prod.splits option.splits dest!: sames intro: same_trans)

lemma same_getIPHourlyStats: "getIPHourlyStats S L t t' i b w = (r, w') \<Longrightarrow> same w w'"
  unfolding getIPHourlyStats_def
  by (erule same_with_ip_cached [rotated])
    (auto simp: Let_def split: prod.splits option.splits sum.splits if_splits dest!: sames intro: same_trans)

lemma same_getIPItems: "getIPItems S L t' i b w = (r, w') \<Longrightarrow> same w w'"
  unfolding getIPItems_def
  by (erule same_with_ip_cached [rotated])
    (auto simp: Let_def split: prod.splits option.splits sum.splits dest!: sames intro: same_trans)

lemma same_listAlerts: "listAlerts S b w = (r, w') \<Longrightarrow> same w w'"
  by (auto simp: listAlerts_def Let_def split: sum.splits prod.splits option.splits if_splits dest!: sames intro: same_trans)

lemma same_getLeaderboard: "getLeaderboard S L t t' b w = (r, w') \<Longrightarrow> same w w'"
  by (auto simp: getLeaderboard_def getLeaderboardFromCache_def Let_def split: sum.splits prod.splits option.splits dest!: sames intro: same_trans)

lemma same_getSchedulerStatus:
  assumes "wired R oor S" "getSchedulerStatus S t t' sst w = (r, w')"
  shows "same w w'"
proof (cases "srv_scheduler S")
  case (Some s)
  have "sch_store s = NewRedisScheduleStore oor R" using assms(1) Some by (simp add: wired_def)
  note st = same_GetScheduleStatus [OF this] same_GetStats [OF this]
  show ?thesis using assms(2) Some
    by (auto simp: getSchedulerStatus_def Let_def split: prod.splits dest!: st(1) st(2) same_ddo intro: same_trans)
qed (use assms in \<open>simp add: getSchedulerStatus_def\<close>)

lemma same_getSystemStatus:
  assumes "wired R oor S" "getSystemStatus S t t' p sst w = (r, w')"
  shows "same w w'"
proof (cases "srv_scheduler S")
  case (Some s)
  have "sch_store s = NewRedisScheduleStore oor R" using assms(1) Some by (simp add: wired_def)
  note st = same_GetStats [OF this]
  show ?thesis using assms(2) Some
    by (auto simp: getSystemStatus_def split: prod.splits dest!: st same_count_or_0 intro: same_trans)
next
  case None
  then show ?thesis using assms(2) by (auto simp: getSystemStatus_def split: prod.splits dest!: same_count_or_0 intro: same_trans)
qed

lemma same_serve:
  assumes "wired R oor S" "reads rq" "serve S L v rq w = (r, w')"
  shows "same w w'"
proof -
  note handlers = same_listIPs same_getIP same_getIPLiquidity same_getIPHourlyStats same_getIPItems same_listAlerts
    same_getLeaderboard same_getSchedulerStatus [OF assms(1)] same_getSystemStatus [OF assms(1)]
  have "same w (snd (serve S L v rq w))"
    using assms(2) by (cases rq) (auto simp: serve_def reads_def Let_def plain_def cached_def intro: handlers [OF surjective_pairing])
  then show ?thesis using assms(3) by simp
qed

section \<open>What a request leaves to its goroutine\<close>

definition cache_key :: "string \<Rightarrow> bool" where
  "cache_key k \<longleftrightarrow> (\<exists>x. k = LeaderboardCacheKeyPrefix @ '':'' @ x) \<or> (\<exists>i x. k = ip_detail_prefix i @ x)"

lemma board_key_cache [simp]: "cache_key (board_key ty h)"
  by (auto simp: cache_key_def board_key_def)

lemma detail_key_cache [simp]: "cache_key (ip_detail_prefix i @ x)"
  by (auto simp: cache_key_def)

definition short_write :: "cache_write \<Rightarrow> bool" where
  "short_write p \<longleftrightarrow> (case p of None \<Rightarrow> True | Some (key, tx, ttl) \<Rightarrow> cache_key key \<and> 0 < ttl \<and> ttl \<le> Hour)"

lemma short_write_None [simp]: "short_write None"
  by (simp add: short_write_def)

lemma short_cache_entry: "cache_key key \<Longrightarrow> 0 < ttl \<Longrightarrow> ttl \<le> Hour \<Longrightarrow> short_write (cache_entry j key ttl x)"
  by (simp add: short_write_def cache_entry_def split: option.splits)

lemma short_detail [simp]: "short_write (cache_entry j (ip_detail_prefix i @ x) IPDetailCacheTTL y)"
  by (rule short_cache_entry) (simp_all add: IPDetailCacheTTL_def Minute_def Hour_def Second_def)

lemma short_board [simp]: "short_write (setLeaderboardCache L (board_key ty h) c hours)"
  unfolding setLeaderboardCache_def
  by (rule short_cache_entry) (simp_all add: board_ttl_def leaderboardCacheTTL1H_def leaderboardCacheTTL24H_def leaderboardCacheTTL7D_def
      Minute_def Hour_def Second_def)

lemma short_with_ip:
  assumes "\<And>i ip w1. short_write (snd (fst (h i ip w1)))"
  shows "short_write (snd (fst (with_ip_cached S idStr h w)))"
  using assms by (auto simp: with_ip_cached_def split: sum.splits prod.splits option.splits)

lemma short_serve: "short_write (snd (fst (serve S L v rq w)))"
proof (cases rq)
  case (GetIPLiquidity i)
  have "short_write (snd (fst (getIPLiquidity S L t t' i w)))" for t t'
    unfolding getIPLiquidity_def by (rule short_with_ip) (simp add: Let_def split: prod.splits option.splits)
  then show ?thesis using GetIPLiquidity by (simp add: serve_def Let_def cached_def)
next
  case (GetIPHourlyStats i b)
  have "short_write (snd (fst (getIPHourlyStats S L t t' i b w)))" for t t'
    unfolding getIPHourlyStats_def by (rule short_with_ip) (simp add: Let_def split: prod.splits option.splits sum.splits)
  then show ?thesis using GetIPHourlyStats by (simp add: serve_def Let_def cached_def)
next
  case (GetIPItems i b)
  have "short_write (snd (fst (getIPItems S L t' i b w)))" for t'
    unfolding getIPItems_def items_key_def by (rule short_with_ip) (simp add: Let_def split: prod.splits option.splits sum.splits)
  then show ?thesis using GetIPItems by (simp add: serve_def Let_def cached_def)
next
  case (GetLeaderboard b)
  have "short_write (snd (fst (getLeaderboard S L t t' b w)))" for t t'
    by (simp add: getLeaderboard_def Let_def split: prod.splits option.splits sum.splits)
  then show ?thesis using GetLeaderboard by (simp add: serve_def Let_def cached_def)
qed (simp_all add: serve_def Let_def plain_def)

lemma run_cache_write_db [simp]: "db_st (run_cache_write S p w) = db_st w"
  by (simp add: run_cache_write_def split: option.splits prod.splits)

text \<open>A cache write touches the strings of cache keys and their lifetimes, nothing else.\<close>

definition caches_only :: "keyspace \<Rightarrow> keyspace \<Rightarrow> bool" where
  "caches_only a b \<longleftrightarrow> lists b = lists a \<and> sets b = sets a \<and> hashes b = hashes a \<and> zsets b = zsets a \<and>
     (\<forall>k. \<not> cache_key k \<longrightarrow> strings b k = strings a k \<and> ttls b k = ttls a k)"

context redis_server
begin

lemma run_cache_write_caches:
  assumes "srv_rdb S = Some R" "short_write p"
  shows "caches_only (view (redis_st w)) (view (redis_st (run_cache_write S p w)))"
proof (cases p)
  case (Some x)
  obtain key tx ttl where x: "x = (key, tx, ttl)" by (metis prod.exhaust)
  have ok: "cache_key key" "0 < ttl" using assms(2) Some x by (simp_all add: short_write_def)
  have "caches_only (view (redis_st w)) (view (redis_st (snd (rdo (writec (SET_EX R key tx ttl)) w))))"
    by (rule rdo_preserves [where P = "\<lambda>s. caches_only (view (redis_st w)) (view s)"]) (use ok in \<open>auto simp: caches_only_def set_ex\<close>)
  then show ?thesis using assms(1) Some x by (simp add: run_cache_write_def)
qed (use assms(1) in \<open>simp add: run_cache_write_def caches_only_def\<close>)

end

section \<open>What a request does to Redis and to the tables\<close>

text \<open>
  A property \<open>P\<close> of the Redis state and a property \<open>Q\<close> of the database that the writes of the handlers keep, beside a
  property \<open>E\<close> of the outcomes to come: \<open>kept_tables\<close> for the handlers that leave the IPs alone (the deletion of boards, an
  acknowledged alert, a row of an archive run), \<open>kept_state\<close> for all of them (the schedule, a new or a changed row of an IP).
\<close>

locale kept_tables =
  fixes R :: "'s redis" and oor :: "rat \<Rightarrow> int" and S :: "('s, 'd) Server" and P :: "'s \<Rightarrow> bool" and Q :: "'d \<Rightarrow> bool"
    and E :: "outcome list \<Rightarrow> bool"
  assumes wired: "wired R oor S"
    and keep_drop: "E os \<Longrightarrow> E (drop n os)"
    and keep_del: "P s \<Longrightarrow> P (DEL R (board_keys h) s)"
    and keep_alert: "Q d \<Longrightarrow> Q (write_alert (srv_db S) t i d)"
    and keep_daily: "Q d \<Longrightarrow> Q (put_ip_stats_daily (srv_db S) ps d)"
    and keep_weekly: "Q d \<Longrightarrow> Q (put_ip_stats_weekly (srv_db S) ps d)"
begin

definition holds :: "('s, 'd) world \<Rightarrow> bool" where
  "holds w \<longleftrightarrow> P (redis_st w) \<and> Q (db_st w) \<and> E (outcomes w)"

lemma holds_same: "holds w \<Longrightarrow> same w w' \<Longrightarrow> holds w'"
  by (auto simp: holds_def same_def intro: keep_drop)

lemma holds_rdo: "holds w \<Longrightarrow> (\<And>s. P s \<Longrightarrow> P (snd (c s))) \<Longrightarrow> holds (snd (rdo c w))"
  using keep_drop [of "outcomes w" 1] by (auto simp: holds_def outcomes_used intro: rdo_preserves)

lemma holds_ddo: "holds w \<Longrightarrow> (\<And>d. Q d \<Longrightarrow> Q (snd (c d))) \<Longrightarrow> holds (snd (ddo c w))"
  using keep_drop [of "outcomes w" 1] by (auto simp: holds_def outcomes_used intro: ddo_preserves)

lemma holds_ddo_eq: "ddo c w = (r, w') \<Longrightarrow> holds w \<Longrightarrow> (\<And>d. Q d \<Longrightarrow> Q (snd (c d))) \<Longrightarrow> holds w'"
  using holds_ddo [of w c] by simp

lemma holds_ackAlert: "holds w \<Longrightarrow> holds (snd (ackAlert S t i w))"
  by (auto simp: ackAlert_def split: sum.splits prod.splits option.splits dest!: same_db_find holds_ddo_eq
      intro: holds_same simp: keep_alert)

text \<open>An archive run: one statement per IP on the table of its period, then the boards of the period are dropped.\<close>

lemma holds_FirstOrCreate:
  assumes "holds w" "\<And>ps d. Q d \<Longrightarrow> Q (put ps d)"
  shows "holds (snd (FirstOrCreate M zone now rows put p w))"
proof -
  let ?key = "period_key (sp_IPID p) (sp_Start p)" and ?new = "period_row M zone now p"
  obtain found w1 where f: "ddo (readc (\<lambda>d. filter ?key (rows d))) w = (found, w1)" by fastforce
  have w1: "holds w1" using assms(1) same_ddo [OF f] by (rule holds_same)
  define ins where "ins = (\<lambda>d. if list_ex (period_key (sp_IPID ?new) (sp_Start ?new)) (rows d) then (False, d) else (True, put (rows d @ [?new]) d))"
  define upd where "upd = (\<lambda>d. (True, put (map (\<lambda>r. if ?key r then period_assign M p r else r) (rows d)) d))"
  have "holds (snd (ddo ins w1))" "holds (snd (ddo upd w1))"
    by (rule holds_ddo [OF w1], simp add: ins_def upd_def assms(2))+
  then have "holds w2" if "ddo ins w1 = (r, w2) \<or> ddo upd w1 = (r, w2)" for r w2 using that by auto
  then show ?thesis using f w1
    by (auto simp: FirstOrCreate_def Let_def ins_def [symmetric] upd_def [symmetric] split: prod.splits option.splits)
qed

lemma holds_for_ips: "holds w \<Longrightarrow> (\<And>i w. holds w \<Longrightarrow> holds (snd (f i w))) \<Longrightarrow> holds (for_ips f ips w)"
  by (induction ips arbitrary: w) simp_all

lemma holds_invalidate: "holds w \<Longrightarrow> holds (snd (invalidate_keys (srv_cache S) (board_keys h) w))"
  using wired by (simp add: invalidate_keys_def wired_def holds_rdo keep_del)

lemma holds_daily: "holds w \<Longrightarrow> holds (snd (aggregateHourlyToDailyForIP M (srv_db S) zone now t u i w))"
proof -
  assume h: "holds w"
  have "holds w2" if "ddo (readc a) w = (x, w1)" "ddo (readc b) w1 = (y, w2)" for a b x y w1 w2
    using h same_trans [OF same_ddo [OF that(1)] same_ddo [OF that(2)]] by (rule holds_same)
  moreover have "holds w1" if "ddo (readc a) w = (x, w1)" for a x w1 using h same_ddo [OF that] by (rule holds_same)
  ultimately show ?thesis
    by (auto simp: aggregateHourlyToDailyForIP_def split: prod.splits option.splits intro!: holds_FirstOrCreate keep_daily)
qed

lemma holds_weekly: "holds w \<Longrightarrow> holds (snd (aggregateDailyToWeeklyForIP M (srv_db S) zone now t u i w))"
proof -
  assume h: "holds w"
  have "holds w1" if "ddo (readc a) w = (x, w1)" for a x w1 using h same_ddo [OF that] by (rule holds_same)
  then show ?thesis
    by (auto simp: aggregateDailyToWeeklyForIP_def split: prod.splits option.splits intro!: holds_FirstOrCreate keep_weekly)
qed

lemma holds_archives:
  assumes "holds w"
  shows "holds (snd (TriggerDailyArchive S now t w))" "holds (snd (TriggerWeeklyArchive S now t w))"
proof -
  have r: "holds w1" if "ddo (readc a) w = (x, w1)" for a x w1 using assms same_ddo [OF that] by (rule holds_same)
  show "holds (snd (TriggerDailyArchive S now t w))"
    unfolding TriggerDailyArchive_def AggregateHourlyToDaily_def InvalidateDailyLeaderboard_def
    by (auto simp: Let_def split: prod.splits option.splits intro!: holds_invalidate holds_for_ips holds_daily dest: r)
  show "holds (snd (TriggerWeeklyArchive S now t w))"
    unfolding TriggerWeeklyArchive_def AggregateDailyToWeekly_def InvalidateWeeklyLeaderboard_def
    by (auto simp: Let_def split: prod.splits option.splits intro!: holds_invalidate holds_for_ips holds_weekly dest: r)
qed

lemma holds_archive_on:
  assumes "holds w" "\<And>t. holds (snd (run t w))"
  shows "holds (snd (archive_on S run msg date deflt w))"
  using assms(1) assms(2) by (auto simp: archive_on_def split: option.splits prod.splits) (metis snd_conv)+

end

locale kept_state = kept_tables R oor S P Q E
  for R :: "'s redis" and oor :: "rat \<Rightarrow> int" and S :: "('s, 'd) Server" and P :: "'s \<Rightarrow> bool" and Q :: "'d \<Rightarrow> bool"
    and E :: "outcome list \<Rightarrow> bool" +
  assumes keep_zadd: "P s \<Longrightarrow> P (ZADD R ScheduleZSetKey z s)"
    and keep_zrem: "P s \<Longrightarrow> P (ZREM R ScheduleZSetKey m s)"
    and keep_insert: "Q d \<Longrightarrow> Q (snd (insert_ip (srv_mysql S) (srv_gorm S) (srv_db S) now ip d))"
    and keep_write: "Q d \<Longrightarrow> (\<And>r. ip_ID (upd r) = ip_ID r) \<Longrightarrow> Q (snd (write_ip (srv_gorm S) (srv_db S) i upd d))"
begin

lemma holds_Schedule: "holds w \<Longrightarrow> holds (snd (Schedule R i t w))"
  unfolding Schedule_def by (erule holds_rdo) (simp add: keep_zadd)

lemma holds_Remove: "holds w \<Longrightarrow> holds (snd (Remove R i w))"
  unfolding Remove_def by (erule holds_rdo) (simp add: keep_zrem)

lemma store: "srv_scheduler S = Some s \<Longrightarrow> sch_store s = NewRedisScheduleStore oor R"
  using wired by (simp add: wired_def)

lemma holds_AddIP: "srv_scheduler S = Some s \<Longrightarrow> holds w \<Longrightarrow> holds (AddIP s now ip w)"
  by (auto simp: AddIP_def store NewRedisScheduleStore_def holds_Schedule split: option.splits)

lemma holds_RemoveIP: "srv_scheduler S = Some s \<Longrightarrow> holds w \<Longrightarrow> holds (RemoveIP s i w)"
  by (auto simp: RemoveIP_def store NewRedisScheduleStore_def holds_Remove)

lemma holds_TriggerNow: "srv_scheduler S = Some s \<Longrightarrow> holds w \<Longrightarrow> holds (TriggerNow s now i w)"
  by (auto simp: TriggerNow_def store NewRedisScheduleStore_def holds_Schedule)

lemma same_GetScheduleTime: "GetScheduleTime oor R i w = (r, w') \<Longrightarrow> same w w'"
  by (auto simp: GetScheduleTime_def split: prod.splits option.splits dest: same_rdo)

lemma holds_UpdateIPWeight: "srv_scheduler S = Some s \<Longrightarrow> holds w \<Longrightarrow> holds (UpdateIPWeight s now i x w)"
  by (auto simp: UpdateIPWeight_def store NewRedisScheduleStore_def split: prod.splits option.splits
      intro: holds_Schedule holds_same dest: same_GetScheduleTime)

lemma holds_tell: "holds w \<Longrightarrow> (\<And>s. srv_scheduler S = Some s \<Longrightarrow> holds (f s w)) \<Longrightarrow> holds (tell_scheduler S f w)"
  by (simp add: tell_scheduler_def split: option.splits)

lemma holds_create_ip: "create_ip S now ip w = (r, w') \<Longrightarrow> holds w \<Longrightarrow> holds w'"
  by (auto simp: create_ip_def split: prod.splits option.splits dest!: holds_ddo_eq intro: keep_insert)

lemma holds_update_ip: "update_ip S now i u w = (r, w') \<Longrightarrow> holds w \<Longrightarrow> holds w'"
  by (auto simp: update_ip_def split: prod.splits option.splits dest!: holds_ddo_eq intro: keep_write simp: updated_ip_def)

lemma holds_with_ip:
  assumes "holds w" "\<And>i ip w1. holds w1 \<Longrightarrow> holds (snd (h i ip w1))"
  shows "holds (snd (with_ip S idStr h w))"
proof -
  have "holds w1" if "first_ip S i w = (r, w1)" for i r w1 using assms(1) same_first_ip [OF that] by (rule holds_same)
  then show ?thesis using assms by (auto simp: with_ip_def split: sum.splits prod.splits option.splits)
qed

lemma holds_createIP: "holds w \<Longrightarrow> holds (snd (createIP S t t' b w))"
  by (auto simp: createIP_def split: sum.splits prod.splits option.splits dest!: holds_create_ip intro: holds_tell holds_AddIP)

lemma holds_sync: "srv_scheduler S = Some s \<Longrightarrow> holds w \<Longrightarrow> holds (sync_scheduler now i u ip s w)"
  by (auto simp: sync_scheduler_def Let_def split: option.splits intro: holds_AddIP holds_RemoveIP holds_UpdateIPWeight)

lemma holds_updateIP: "holds w \<Longrightarrow> holds (snd (updateIP S t t' i b w))"
  unfolding updateIP_def
proof (erule holds_with_ip, goal_cases)
  case (1 i ip w1)
  have u: "holds w2" if "update_ip S t i u w1 = (r, w2)" for u r w2 using holds_update_ip [OF that 1] .
  have t: "holds (tell_scheduler S (sync_scheduler t' i u ip') w2)" if "update_ip S t i u w1 = (r, w2)" for u ip' r w2
    by (rule holds_tell) (use u [OF that] in \<open>auto intro: holds_sync\<close>)
  have f: "holds w4" if "update_ip S t i u w1 = (r, w2)" "first_ip S i (tell_scheduler S (sync_scheduler t' i u ip') w2) = (q, w4)" for u ip' r w2 q w4
    using t [OF that(1)] same_first_ip [OF that(2)] by (rule holds_same)
  show ?case using 1 u f by (auto simp: Let_def split: sum.splits prod.splits option.splits bool.splits)
qed

lemma holds_deleteIP: "holds w \<Longrightarrow> holds (snd (deleteIP S t i w))"
  unfolding deleteIP_def
  by (erule holds_with_ip) (auto split: prod.splits bool.splits dest: holds_update_ip intro: holds_tell holds_RemoveIP)

lemma holds_triggerIP: "holds w \<Longrightarrow> holds (snd (triggerIP S t i w))"
  unfolding triggerIP_def by (erule holds_with_ip) (auto split: option.splits intro: holds_TriggerNow)

lemma holds_import_create: "holds w \<Longrightarrow> holds (snd (import_create S t t' e w))"
  by (auto simp: import_create_def split: prod.splits option.splits dest!: holds_create_ip intro: holds_tell holds_AddIP)

lemma holds_import_entry:
  assumes "holds w"
  shows "holds (snd (import_entry S t t' ups e w))"
proof -
  have n: "holds w1" if "ip_named S name w = (r, w1)" for name r w1
    using assms that by (auto simp: ip_named_def dest!: same_db_find intro: holds_same)
  have u: "holds w2" if "ip_named S name w = (r, w1)" "update_ip S t i v w1 = (ok, w2)" for name r w1 i v ok w2
    using holds_update_ip [OF that(2) n [OF that(1)]] .
  have "holds (tell_scheduler S (\<lambda>s. UpdateIPWeight s t' i x) w2)" if "holds w2" for i x w2
    using that by (intro holds_tell) (auto intro: holds_UpdateIPWeight)
  then show ?thesis using assms n u by (auto simp: import_entry_def holds_import_create split: prod.splits option.splits bool.splits)
qed

lemma holds_import_loop: "holds w \<Longrightarrow> holds (snd (import_loop S clk k ups es p w))"
proof (induction es arbitrary: k p w)
  case (Cons e es)
  obtain r w1 where r: "import_entry S (clk k) (clk (k + 1)) ups e w = (r, w1)" by fastforce
  then have "holds w1" using holds_import_entry [OF Cons.prems] by (metis snd_conv)
  then show ?case using Cons.IH r by simp
qed simp

lemma holds_importIPs: "holds w \<Longrightarrow> holds (snd (importIPs S clk ps b w))"
  by (auto simp: importIPs_def split: sum.splits prod.splits) (metis holds_import_loop snd_conv)

lemma holds_admin: "holds w \<Longrightarrow> holds (snd (h w)) \<Longrightarrow> holds (snd (apiKeyMiddleware S key h w))"
  by (simp add: apiKeyMiddleware_def)

lemma serve_holds:
  assumes "holds w"
  shows "holds (snd (serve S L v rq w))"
proof (cases "reads rq")
  case True
  then show ?thesis using holds_same [OF assms same_serve [OF wired True surjective_pairing]] by blast
next
  case False
  note handlers = holds_createIP holds_updateIP holds_deleteIP holds_triggerIP holds_ackAlert holds_admin holds_importIPs
    holds_archive_on holds_archives
  show ?thesis using False assms
    by (cases rq) (simp_all add: serve_def reads_def plain_def Let_def handlers triggerDailyArchive_def triggerWeeklyArchive_def)
qed

end

section \<open>Invariants of every request\<close>

text \<open>The type of the keys the API uses: a cache entry is a string, the schedule a sorted set, and neither is anything else.\<close>

definition typed :: "keyspace \<Rightarrow> bool" where
  "typed ks \<longleftrightarrow> (\<forall>k. cache_key k \<longrightarrow> lists ks k = [] \<and> sets ks k = {} \<and> hashes ks k = Map.empty \<and> zsets ks k = Map.empty) \<and>
     lists ks ScheduleZSetKey = [] \<and> sets ks ScheduleZSetKey = {} \<and> hashes ks ScheduleZSetKey = Map.empty \<and> strings ks ScheduleZSetKey = None"

lemma schedule_no_cache [simp]: "\<not> cache_key ScheduleZSetKey"
  by (auto simp: cache_key_def ScheduleZSetKey_def ip_detail_prefix_def LeaderboardCacheKeyPrefix_def IPDetailCacheKeyPrefix_def)

lemma typed_caches_only: "caches_only a b \<Longrightarrow> typed a \<Longrightarrow> typed b"
  by (simp add: caches_only_def typed_def)

text \<open>The table of IPs: an id and a name (up to the collation) belong to one row.\<close>

definition ip_table_ok :: "gorm \<Rightarrow> IPMetadata list \<Rightarrow> bool" where
  "ip_table_ok G rows \<longleftrightarrow> distinct (map ip_ID rows) \<and>
     (\<forall>a\<in>set rows. \<forall>b\<in>set rows. same_text G (ip_Name a) (ip_Name b) \<longrightarrow> ip_ID a = ip_ID b)"

lemma ip_table_ok_mset: "mset rows = mset rows' \<Longrightarrow> ip_table_ok G rows = ip_table_ok G rows'"
proof -
  assume eq: "mset rows = mset rows'"
  then have "mset (map ip_ID rows) = mset (map ip_ID rows')" by simp
  then have "distinct (map ip_ID rows) = distinct (map ip_ID rows')" by (rule mset_eq_imp_distinct_iff)
  moreover have "set rows = set rows'" using eq by (rule mset_eq_setD)
  ultimately show ?thesis by (simp add: ip_table_ok_def)
qed

locale api_env = redis_server R view + sql_database "srv_db S" + gorm_laws "srv_gorm S"
  for R :: "'s redis" and view :: "'s \<Rightarrow> keyspace" and S :: "('s, 'd) Server" +
  fixes oor :: "rat \<Rightarrow> int"
  assumes env_wired: "wired R oor S"
begin

abbreviation ips :: "'d \<Rightarrow> IPMetadata list" where
  "ips d \<equiv> ip_metadata (srv_db S) d"

lemma table_insert:
  assumes "ip_table_ok (srv_gorm S) (ips d)"
  shows "ip_table_ok (srv_gorm S) (ips (snd (insert_ip M (srv_gorm S) (srv_db S) now ip d)))"
proof (cases "fst (insert_ip M (srv_gorm S) (srv_db S) now ip d)")
  case (Some new)
  then obtain i where i: "new_ip_id (srv_gorm S) (ips d) = Some i"
    and free: "\<not> list_ex (\<lambda>r. same_text (srv_gorm S) (ip_Name r) (ip_Name ip)) (ips d)" "ip_fits (srv_gorm S) ip"
    by (auto simp: insert_ip_def Let_def split: if_splits option.splits)
  define row where "row = ip\<lparr>ip_ID := i, ip_Weight := col_weight M (ip_Weight ip), ip_CreatedAt := col_ms M now,
    ip_UpdatedAt := col_ms M now\<rparr>"
  have eq: "snd (insert_ip M (srv_gorm S) (srv_db S) now ip d) = put_ip_metadata (srv_db S) (ips d @ [row]) d"
    using i free by (simp add: insert_ip_def Let_def row_def)
  have "ip_ID row \<notin> ip_ID ` set (ips d)" using new_id [OF i] by (simp add: row_def)
  moreover have "\<not> same_text (srv_gorm S) (ip_Name r) (ip_Name row)" if "r \<in> set (ips d)" for r
    using free that by (auto simp: row_def list_ex_iff)
  moreover from this have "\<not> same_text (srv_gorm S) (ip_Name row) (ip_Name r)" if "r \<in> set (ips d)" for r
    using that text_sym by blast
  ultimately have "ip_table_ok (srv_gorm S) (ips d @ [row])"
    using assms by (simp add: ip_table_ok_def ball_Un)
  then show ?thesis unfolding eq using ip_table_ok_mset [OF put_ip] by blast
qed (use assms in \<open>auto simp: insert_ip_def Let_def split: if_splits option.splits\<close>)

lemma table_write:
  assumes "ip_table_ok (srv_gorm S) (ips d)" "\<And>r. ip_ID (upd r) = ip_ID r"
  shows "ip_table_ok (srv_gorm S) (ips (snd (write_ip (srv_gorm S) (srv_db S) i upd d)))"
proof (cases "fst (write_ip (srv_gorm S) (srv_db S) i upd d)")
  case True
  let ?f = "\<lambda>r. if is_row i r then upd r else r"
  have eq: "snd (write_ip (srv_gorm S) (srv_db S) i upd d) = put_ip_metadata (srv_db S) (map ?f (ips d)) d"
    using True by (auto simp: write_ip_def Let_def split: if_splits)
  have other: "ip_ID q = i" if "r \<in> set (ips d)" "is_row i r" "q \<in> set (ips d)" "same_text (srv_gorm S) (ip_Name q) (ip_Name (upd r))" for r q
    using True that by (auto simp: write_ip_def Let_def list_ex_iff split: if_splits)
  have ids: "map ip_ID (map ?f (ips d)) = map ip_ID (ips d)" using assms(2) by simp
  have "ip_ID (?f a) = ip_ID (?f b)" if ab: "a \<in> set (ips d)" "b \<in> set (ips d)" and same: "same_text (srv_gorm S) (ip_Name (?f a)) (ip_Name (?f b))" for a b
  proof (cases "is_row i a"; cases "is_row i b")
    assume "\<not> is_row i a" "\<not> is_row i b"
    then show ?thesis using assms(1) ab same by (simp add: ip_table_ok_def)
  next
    assume r: "is_row i a" "\<not> is_row i b"
    then have "ip_ID b = i" using other [of a b] ab text_sym [OF same] by simp
    then show ?thesis using r assms(2) by (simp add: is_row_def)
  next
    assume r: "\<not> is_row i a" "is_row i b"
    then have "ip_ID a = i" using other [of b a] ab same by simp
    then show ?thesis using r assms(2) by (simp add: is_row_def)
  next
    assume "is_row i a" "is_row i b"
    then show ?thesis using assms(2) by (simp add: is_row_def)
  qed
  then have "\<forall>a\<in>set (map ?f (ips d)). \<forall>b\<in>set (map ?f (ips d)). same_text (srv_gorm S) (ip_Name a) (ip_Name b) \<longrightarrow> ip_ID a = ip_ID b"
    unfolding set_map by blast
  then have "ip_table_ok (srv_gorm S) (map ?f (ips d))" using assms(1) unfolding ip_table_ok_def ids by blast
  then show ?thesis unfolding eq using ip_table_ok_mset [OF put_ip] by blast
qed (use assms in \<open>auto simp: write_ip_def Let_def split: if_splits\<close>)

end

sublocale api_env \<subseteq> kept: kept_state R oor S "\<lambda>s. typed (view s)" "\<lambda>d. ip_table_ok (srv_gorm S) (ip_metadata (srv_db S) d)"
  "\<lambda>_. True"
proof (unfold_locales, goal_cases)
  case 1 then show ?case by (rule env_wired)
next
  case (3 s h) then show ?case by (auto simp: typed_def del)
next
  case (7 s z) then show ?case by (auto simp: typed_def zadd)
next
  case (8 s m) then show ?case by (auto simp: typed_def zrem)
next
  case (9 d now ip) then show ?case by (rule table_insert)
next
  case (10 d upd i) then show ?case by (rule table_write)
qed (simp_all add: write_alert_def ip_frame)

context api_env
begin

lemma request_typed:
  assumes "typed (view (redis_st w))" "ip_table_ok (srv_gorm S) (ips (db_st w))" "serve S L v rq w = ((r, p), w')"
  shows "typed (view (redis_st w')) \<and> typed (view (redis_st (run_cache_write S p w'))) \<and> ip_table_ok (srv_gorm S) (ips (db_st w'))"
proof -
  have "kept.holds w'" using kept.serve_holds [of w L v rq] assms by (simp add: kept.holds_def)
  moreover have "short_write p" using short_serve [of S L v rq w] assms(3) by simp
  moreover have "srv_rdb S = Some R" using env_wired by (simp add: wired_def)
  ultimately show ?thesis
    using run_cache_write_caches [of S p w'] typed_caches_only by (auto simp: kept.holds_def)
qed

end

end
