(* ===== verification/ApiSync.thy ===== *)
theory ApiSync
  imports ApiProofs
begin

text \<open>
  The schedule follows the table of IPs: what the handlers tell the scheduler, composed with the schedule store, keeps the
  scheduled IPs and the active rows in step through any sequence of requests.
\<close>

definition active_ids :: "IPMetadata list \<Rightarrow> u64 set" where
  "active_ids rows = ip_ID ` {r \<in> set rows. ip_DeletedAt r = None \<and> ip_Status r = IPStatusActive}"

text \<open>Every active IP is scheduled and, when \<open>exact\<close>, no other.\<close>

definition in_step :: "'s redis \<Rightarrow> 'd database \<Rightarrow> bool \<Rightarrow> ('s, 'd) world \<Rightarrow> bool" where
  "in_step R D exact w \<longleftrightarrow> active_ids (ip_metadata D (db_st w)) \<subseteq> dom (zset_times R w) \<and>
     (exact \<longrightarrow> dom (zset_times R w) \<subseteq> active_ids (ip_metadata D (db_st w)))"

text \<open>Times a score holds exactly, also after an interval has been added.\<close>

definition clock_fits :: "('s, 'd) IPScheduler \<Rightarrow> int \<Rightarrow> bool" where
  "clock_fits s t \<longleftrightarrow> 0 \<le> t \<and> 0 \<le> MinInterval (sch_config s) \<and> MinInterval (sch_config s) \<le> MaxInterval (sch_config s) \<and>
     Unix (t + MaxInterval (sch_config s)) \<le> 2 ^ 53"

lemma clock_fits_exact:
  assumes "clock_fits s t"
  shows "exact_time t" "exact_time (t + CalculateInterval (sch_oor s) (sch_config s) x)"
proof -
  have e: "exact_time (t + d)" if "0 \<le> d" "d \<le> MaxInterval (sch_config s)" for d
  proof -
    have "0 \<le> Unix (t + d)" "Unix (t + d) \<le> Unix (t + MaxInterval (sch_config s))"
      unfolding Unix_def using assms that by (auto simp: clock_fits_def Second_def pos_imp_zdiv_nonneg_iff intro!: zdiv_mono1)
    then show ?thesis using assms by (simp add: clock_fits_def exact_time_def)
  qed
  show "exact_time t" using e [of 0] assms by (simp add: clock_fits_def)
  show "exact_time (t + CalculateInterval (sch_oor s) (sch_config s) x)"
    by (rule e) (use assms in \<open>auto simp: clock_fits_def CalculateInterval_def Let_def\<close>)
qed

lemma IPStatus_of_active [simp]: "IPStatus_of st = IPStatusActive \<longleftrightarrow> st = ''active''"
  by (simp add: IPStatus_of_def)

lemma active_ids_mset: "mset rows = mset rows' \<Longrightarrow> active_ids rows = active_ids rows'"
  by (metis active_ids_def mset_eq_setD)

lemma active_ids_append [simp]:
  "active_ids (rows @ [r]) = (if ip_DeletedAt r = None \<and> ip_Status r = IPStatusActive then insert (ip_ID r) (active_ids rows) else active_ids rows)"
  by (auto simp: active_ids_def)

lemma in_active_ids: "j \<in> active_ids rows \<longleftrightarrow> (\<exists>r \<in> set rows. ip_ID r = j \<and> ip_DeletedAt r = None \<and> ip_Status r = IPStatusActive)"
  by (auto simp: active_ids_def)

text \<open>One row changes: with unique ids, exactly its id may enter or leave the active ones.\<close>

lemma active_ids_update:
  assumes "distinct (map ip_ID rows)" "ip \<in> set rows" "is_row i ip" "\<And>r. ip_ID (upd r) = ip_ID r" "ip_DeletedAt (upd ip) = None"
  shows "active_ids (map (\<lambda>r. if is_row i r then upd r else r) rows) =
    (if ip_Status (upd ip) = IPStatusActive then insert i (active_ids rows) else active_ids rows - {i})"
proof -
  let ?f = "\<lambda>r. if is_row i r then upd r else r"
  have one: "r = ip" if "r \<in> set rows" "ip_ID r = i" for r
    using assms(1-3) that by (auto simp: is_row_def distinct_map inj_on_def)
  have id: "ip_ID (?f r) = ip_ID r" for r using assms(4) by simp
  have m: "j \<in> active_ids (map ?f rows) \<longleftrightarrow> (\<exists>r \<in> set rows. ip_ID r = j \<and> ip_DeletedAt (?f r) = None \<and> ip_Status (?f r) = IPStatusActive)" for j
    unfolding in_active_ids by (simp only: list.set_map bex_simps id)
  have "(\<exists>r \<in> set rows. ip_ID r = i \<and> ip_DeletedAt (?f r) = None \<and> ip_Status (?f r) = IPStatusActive) \<longleftrightarrow> ip_Status (upd ip) = IPStatusActive"
  proof
    assume "\<exists>r \<in> set rows. ip_ID r = i \<and> ip_DeletedAt (?f r) = None \<and> ip_Status (?f r) = IPStatusActive"
    then obtain r where "r \<in> set rows" "ip_ID r = i" "ip_Status (?f r) = IPStatusActive" by blast
    then show "ip_Status (upd ip) = IPStatusActive" using one [of r] assms(3) by simp
  next
    assume "ip_Status (upd ip) = IPStatusActive"
    then show "\<exists>r \<in> set rows. ip_ID r = i \<and> ip_DeletedAt (?f r) = None \<and> ip_Status (?f r) = IPStatusActive"
      using assms(2,3,5) by (intro bexI [of _ ip]) (simp_all add: is_row_def)
  qed
  then have "i \<in> active_ids (map ?f rows) \<longleftrightarrow> ip_Status (upd ip) = IPStatusActive" unfolding m .
  moreover have "j \<in> active_ids (map ?f rows) \<longleftrightarrow> j \<in> active_ids rows" if "j \<noteq> i" for j
  proof -
    have eq: "(ip_ID r = j \<and> ip_DeletedAt (?f r) = None \<and> ip_Status (?f r) = IPStatusActive) =
      (ip_ID r = j \<and> ip_DeletedAt r = None \<and> ip_Status r = IPStatusActive)" for r
      using that by (cases "is_row i r") (auto simp: is_row_def)
    show ?thesis unfolding m eq unfolding in_active_ids ..
  qed
  ultimately have "j \<in> active_ids (map ?f rows) \<longleftrightarrow> (if j = i then ip_Status (upd ip) = IPStatusActive else j \<in> active_ids rows)" for j
    by (cases "j = i") simp_all
  then show ?thesis by (intro set_eqI) simp
qed

definition is_trigger :: "request \<Rightarrow> bool" where
  "is_trigger rq \<longleftrightarrow> (\<exists>i. rq = TriggerIP i)"

locale api_sync = api_env R view S oor
  for R :: "'s redis" and view :: "'s \<Rightarrow> keyspace" and S :: "('s, 'd) Server" and oor :: "rat \<Rightarrow> int" +
  fixes s :: "('s, 'd) IPScheduler"
  assumes has_scheduler: "srv_scheduler S = Some s"
begin

definition fine :: "('s, 'd) world \<Rightarrow> bool" where
  "fine w \<longleftrightarrow> quiet w \<and> zset_ok R w \<and> ip_table_ok (srv_gorm S) (ips (db_st w))"

definition synced :: "bool \<Rightarrow> ('s, 'd) world \<Rightarrow> bool" where
  "synced b w \<longleftrightarrow> fine w \<and> in_step R (srv_db S) b w"

lemma store_ops:
  "api_Schedule (sch_store s) = Schedule R" "api_Remove (sch_store s) = Remove R" "api_GetScheduleTime (sch_store s) = GetScheduleTime oor R"
  using env_wired has_scheduler by (simp_all add: wired_def NewRedisScheduleStore_def)

lemma zset_same:
  assumes "redis_st w' = redis_st w"
  shows "zset_ok R w' = zset_ok R w" "zset_times R w' = zset_times R w"
  using assms by (simp_all add: zset_ok_def zset_times_def fun_eq_iff)

lemma fine_same: "fine w \<Longrightarrow> same w w' \<Longrightarrow> fine w' \<and> zset_times R w' = zset_times R w \<and> db_st w' = db_st w"
  using zset_same [of w' w] by (auto simp: fine_def same_def quiet_def)

lemma synced_same: "synced b w \<Longrightarrow> same w w' \<Longrightarrow> synced b w'"
  using fine_same [of w w'] by (simp add: synced_def in_step_def)

lemma Schedule_effect:
  assumes "fine w" "exact_time t"
  shows "fine (snd (Schedule R i t w)) \<and> db_st (snd (Schedule R i t w)) = db_st w \<and>
    zset_times R (snd (Schedule R i t w)) = (zset_times R w)(i \<mapsto> Unix t)"
proof -
  obtain w' where w': "Schedule R i t w = (Some (), w')" using assms(1) by (simp add: Schedule_def fine_def)
  have "quiet w'" "db_st w' = db_st w" using w' assms(1) by (auto simp: Schedule_def fine_def)
  then show ?thesis using schedule_law [OF _ assms(2) w'] assms(1) w' by (simp add: fine_def)
qed

lemma Remove_effect:
  assumes "fine w"
  shows "fine (snd (Remove R i w)) \<and> db_st (snd (Remove R i w)) = db_st w \<and>
    zset_times R (snd (Remove R i w)) = (zset_times R w)(i := None)"
proof -
  obtain w' where w': "Remove R i w = (Some (), w')" using assms(1) by (simp add: Remove_def fine_def)
  have "quiet w'" "db_st w' = db_st w" using w' assms(1) by (auto simp: Remove_def fine_def)
  then show ?thesis using remove_law [OF _ w'] assms(1) w' by (simp add: fine_def)
qed

lemma UpdateIPWeight_effect:
  assumes "fine w" "clock_fits s t"
  shows "fine (UpdateIPWeight s t i x w) \<and> db_st (UpdateIPWeight s t i x w) = db_st w \<and>
    dom (zset_times R (UpdateIPWeight s t i x w)) = dom (zset_times R w)"
proof -
  obtain r w1 where r: "GetScheduleTime oor R i w = (r, w1)" by fastforce
  have st: "same w w1" using r by (auto simp: GetScheduleTime_def split: prod.splits option.splits dest: same_rdo)
  note w1 = fine_same [OF assms(1) st]
  have "r = Some None \<and> zset_times R w i = None \<or> (\<exists>u. r = Some (Some u)) \<and> zset_times R w i \<noteq> None"
    using r assms(1) by (auto simp: GetScheduleTime_def fine_def zset_times_def split: prod.splits option.splits)
  then show ?thesis
  proof (elim disjE conjE exE)
    fix u assume u: "r = Some (Some u)" "zset_times R w i \<noteq> None"
    then have "UpdateIPWeight s t i x w = snd (Schedule R i (t + CalculateInterval (sch_oor s) (sch_config s) x) w1)"
      using r by (simp add: UpdateIPWeight_def store_ops)
    then show ?thesis using Schedule_effect [OF conjunct1 [OF w1] clock_fits_exact(2) [OF assms(2)]] w1 u(2) by auto
  qed (use r w1 in \<open>simp add: UpdateIPWeight_def store_ops\<close>)
qed

lemma AddIP_effect:
  assumes "fine w" "clock_fits s t" "ip_Status ip = IPStatusActive"
  shows "fine (AddIP s t (Some ip) w) \<and> db_st (AddIP s t (Some ip) w) = db_st w \<and>
    dom (zset_times R (AddIP s t (Some ip) w)) = insert (ip_ID ip) (dom (zset_times R w))"
  using Schedule_effect [OF assms(1) clock_fits_exact(1) [OF assms(2)]] assms(3) by (simp add: AddIP_def store_ops)

text \<open>A new row, and a changed row.\<close>

lemma create_ip_effect:
  assumes "fine w" "create_ip S t ip w = (r, w')" "ip_Status ip = IPStatusActive" "ip_DeletedAt ip = None"
  shows "fine w' \<and> zset_times R w' = zset_times R w \<and> (case r of
     None \<Rightarrow> active_ids (ips (db_st w')) = active_ids (ips (db_st w))
   | Some new \<Rightarrow> active_ids (ips (db_st w')) = insert (ip_ID new) (active_ids (ips (db_st w))) \<and> ip_Status new = IPStatusActive)"
proof -
  let ?c = "insert_ip (srv_mysql S) (srv_gorm S) (srv_db S) t ip (db_st w)"
  have eq: "r = fst ?c" "w' = w\<lparr>db_st := snd ?c\<rparr>"
    using assms(1,2) by (auto simp: create_ip_def fine_def split: option.splits)
  have "fine w'" using eq assms(1) table_insert [of "db_st w" "srv_mysql S" t ip] zset_same(1) [of w' w] by (simp add: fine_def)
  moreover have "zset_times R w' = zset_times R w" using eq zset_same(2) [of w' w] by simp
  moreover have "case r of None \<Rightarrow> active_ids (ips (snd ?c)) = active_ids (ips (db_st w))
     | Some new \<Rightarrow> active_ids (ips (snd ?c)) = insert (ip_ID new) (active_ids (ips (db_st w))) \<and> ip_Status new = IPStatusActive"
    unfolding eq(1) insert_ip_def Let_def using assms(3,4)
    by (auto simp: active_ids_mset [OF put_ip] split: option.splits)
  ultimately show ?thesis using eq(2) by (simp split: option.splits)
qed

lemma update_ip_effect:
  assumes "fine w" "update_ip S t i u w = (ok, w')" "ip \<in> set (ips (db_st w))" "is_row i ip"
  shows "fine w' \<and> zset_times R w' = zset_times R w \<and> active_ids (ips (db_st w')) =
    (if ok then (if ip_Status (updated_ip id u ip) = IPStatusActive then insert i (active_ids (ips (db_st w)))
       else active_ids (ips (db_st w)) - {i}) else active_ids (ips (db_st w)))"
proof -
  define upd where "upd = (\<lambda>r. (updated_ip (col_weight (srv_mysql S)) u r)\<lparr>ip_UpdatedAt := col_ms (srv_mysql S) t\<rparr>)"
  let ?c = "write_ip (srv_gorm S) (srv_db S) i upd (db_st w)"
  have f: "\<And>r. ip_ID (upd r) = ip_ID r" "ip_DeletedAt (upd ip) = None" "ip_Status (upd ip) = ip_Status (updated_ip id u ip)"
    using assms(4) by (simp_all add: upd_def updated_ip_def is_row_def)
  have eq: "ok = fst ?c" "w' = w\<lparr>db_st := snd ?c\<rparr>"
    using assms(1,2) by (auto simp: update_ip_def fine_def upd_def split: option.splits)
  have ids: "distinct (map ip_ID (ips (db_st w)))" using assms(1) by (simp add: fine_def ip_table_ok_def)
  have "fine w'" using eq assms(1) table_write [of "db_st w" upd i] f(1) zset_same(1) [of w' w] by (simp add: fine_def)
  moreover have "zset_times R w' = zset_times R w" using eq zset_same(2) [of w' w] by simp
  moreover have "active_ids (ips (snd ?c)) = (if fst ?c then active_ids (map (\<lambda>r. if is_row i r then upd r else r) (ips (db_st w)))
      else active_ids (ips (db_st w)))"
    by (simp add: write_ip_def Let_def active_ids_mset [OF put_ip])
  ultimately show ?thesis unfolding eq active_ids_update [OF ids assms(3,4) f(1,2)] by (simp add: f(3))
qed

end

text \<open>The handlers.\<close>

context api_sync
begin

lemma tell [simp]: "tell_scheduler S f w = f s w"
  by (simp add: tell_scheduler_def has_scheduler)

lemma first_ip_found:
  assumes "first_ip S i w = (Some ip, w')"
  shows "ip \<in> set (ips (db_st w)) \<and> is_row i ip"
proof -
  have "find (\<lambda>ip. ip_DeletedAt ip = None \<and> ip_ID ip = i) (ips (db_st w)) = Some ip"
    using assms ddo_read_val [of "\<lambda>d. find (\<lambda>ip. ip_DeletedAt ip = None \<and> ip_ID ip = i) (ips d)" w]
    by (auto simp: first_ip_def db_find_def split: prod.splits option.splits)
  then show ?thesis by (auto simp: find_Some_iff is_row_def)
qed

lemma synced_with_ip:
  assumes "synced b w" "\<And>i ip w1. synced b w1 \<Longrightarrow> ip \<in> set (ips (db_st w1)) \<Longrightarrow> is_row i ip \<Longrightarrow> synced b (snd (h i ip w1))"
  shows "synced b (snd (with_ip S idStr h w))"
proof -
  have "synced b (snd (h i ip w1))" if "first_ip S i w = (Some ip, w1)" for i ip w1
    using assms(2) [of w1 ip i] synced_same [OF assms(1) same_first_ip [OF that]] first_ip_found [OF that] same_first_ip [OF that]
    by (simp add: same_def)
  moreover have "synced b w1" if "first_ip S i w = (r, w1)" for i r w1 using synced_same [OF assms(1) same_first_ip [OF that]] .
  ultimately show ?thesis using assms(1) by (auto simp: with_ip_def split: sum.splits prod.splits option.splits)
qed

lemma synced_create:
  assumes "synced b w" "create_ip S t (new_ip e) w = (r, w')" "clock_fits s t'"
  shows "synced b (case r of None \<Rightarrow> w' | Some new \<Rightarrow> AddIP s t' (Some new) w')"
proof -
  have n: "ip_Status (new_ip e) = IPStatusActive" "ip_DeletedAt (new_ip e) = None" by (simp_all add: new_ip_def)
  have "fine w" using assms(1) by (simp add: synced_def)
  note c = create_ip_effect [OF this assms(2) n]
  show ?thesis
  proof (cases r)
    case None
    then show ?thesis using c assms(1) by (simp add: synced_def in_step_def)
  next
    case (Some new)
    with c have "fine w'" "ip_Status new = IPStatusActive" by simp_all
    from AddIP_effect [OF this(1) assms(3) this(2)] show ?thesis using c Some assms(1) by (auto simp: synced_def in_step_def)
  qed
qed

lemma synced_createIP: "synced b w \<Longrightarrow> clock_fits s t' \<Longrightarrow> synced b (snd (createIP S t t' bound w))"
  by (auto simp: createIP_def split: sum.splits prod.splits option.splits dest: synced_create)

text \<open>The schedule after an update of the row: the new status decides.\<close>

lemma synced_sync:
  assumes "synced b w" "update_ip S t i u w = (True, w')" "ip \<in> set (ips (db_st w))" "is_row i ip" "clock_fits s t'"
  shows "synced b (sync_scheduler t' i u (updated_ip id u ip) s w')"
proof -
  have "fine w" using assms(1) by (simp add: synced_def)
  note c = update_ip_effect [OF this assms(2-4)]
  define w1 where "w1 = (case uq_Weight u of None \<Rightarrow> w' | Some x \<Rightarrow> UpdateIPWeight s t' i x w')"
  have w1: "fine w1 \<and> db_st w1 = db_st w' \<and> dom (zset_times R w1) = dom (zset_times R w)"
    using c UpdateIPWeight_effect [OF _ assms(5)] by (simp add: w1_def split: option.splits)
  have i: "i \<in> active_ids (ips (db_st w)) \<longleftrightarrow> ip_Status ip = IPStatusActive"
  proof -
    have one: "r = ip" if "r \<in> set (ips (db_st w))" "ip_ID r = i" for r
      using \<open>fine w\<close> assms(3,4) that by (auto simp: fine_def ip_table_ok_def is_row_def distinct_map inj_on_def)
    have "ip_ID ip = i" "ip_DeletedAt ip = None" using assms(4) by (simp_all add: is_row_def)
    then show ?thesis unfolding in_active_ids using one assms(3) by blast
  qed
  show ?thesis
  proof (cases "uq_Status u")
    case None
    then have "ip_Status (updated_ip id u ip) = ip_Status ip" by (simp add: updated_ip_def set_field_def)
    with c i have "active_ids (ips (db_st w')) = active_ids (ips (db_st w))"
      by (cases "ip_Status ip = IPStatusActive") (simp_all add: insert_absorb)
    then show ?thesis using None w1 assms(1) by (simp add: sync_scheduler_def Let_def w1_def [symmetric] synced_def in_step_def)
  next
    case (Some st)
    have st: "ip_Status (updated_ip id u ip) = IPStatus_of st" "ip_ID (updated_ip id u ip) = i"
      using Some assms(4) by (simp_all add: updated_ip_def set_field_def is_row_def)
    show ?thesis
    proof (cases "st = ''active''")
      case True
      then have eq: "sync_scheduler t' i u (updated_ip id u ip) s w' = AddIP s t' (Some (updated_ip id u ip)) w1"
        using Some by (simp add: sync_scheduler_def Let_def w1_def)
      show ?thesis unfolding eq using AddIP_effect [OF conjunct1 [OF w1] assms(5), of "updated_ip id u ip"] st True c w1 assms(1)
        by (auto simp: synced_def in_step_def)
    next
      case False
      then have eq: "sync_scheduler t' i u (updated_ip id u ip) s w' = snd (Remove R i w1)"
        using Some by (simp add: sync_scheduler_def Let_def w1_def RemoveIP_def store_ops)
      show ?thesis unfolding eq using Remove_effect [OF conjunct1 [OF w1], of i] st False c w1 assms(1)
        by (auto simp: synced_def in_step_def)
    qed
  qed
qed

lemma synced_refused:
  assumes "synced b w" "update_ip S t i u w = (False, w')" "ip \<in> set (ips (db_st w))" "is_row i ip"
  shows "synced b w'"
  using assms(1) update_ip_effect [OF _ assms(2-4)] by (simp add: synced_def in_step_def)

lemma synced_updateIP:
  assumes "synced b w" "clock_fits s t'"
  shows "synced b (snd (updateIP S t t' idStr bound w))"
  unfolding updateIP_def
proof (rule synced_with_ip [OF assms(1)], goal_cases)
  case (1 i ip w1)
  have "synced b (snd (case first_ip S i (sync_scheduler t' i u (updated_ip id u ip) s w2) of
      (None, w4) \<Rightarrow> (r, w4) | (Some row, w4) \<Rightarrow> (success row, w4)))" if "update_ip S t i u w1 = (True, w2)" for u w2 and r :: "IPMetadata Response"
    using synced_sync [OF 1(1) that 1(2,3) assms(2)]
    by (auto split: prod.splits option.splits dest!: same_first_ip intro: synced_same)
  then show ?case using 1 synced_refused [OF 1(1) _ 1(2,3)] by (auto simp: Let_def split: sum.splits prod.splits bool.splits)
qed

lemma synced_deleteIP:
  assumes "synced b w"
  shows "synced b (snd (deleteIP S t idStr w))"
  unfolding deleteIP_def
proof (rule synced_with_ip [OF assms], goal_cases)
  case (1 i ip w1)
  have "synced b (RemoveIP s i w2)" if "update_ip S t i (status_update ''deleted'') w1 = (True, w2)" for w2
  proof -
    have "fine w1" using 1(1) by (simp add: synced_def)
    note c = update_ip_effect [OF this that 1(2,3)]
    have "ip_Status (updated_ip id (status_update ''deleted'') ip) \<noteq> IPStatusActive"
      by (simp add: updated_ip_def status_update_def set_field_def)
    then show ?thesis using Remove_effect [of w2 i] c 1(1) by (auto simp: RemoveIP_def store_ops synced_def in_step_def)
  qed
  then show ?case using synced_refused [OF 1(1) _ 1(2,3)] by (auto split: prod.splits bool.splits)
qed

end

context api_sync
begin

lemma synced_weaken: "synced b w \<Longrightarrow> synced False w"
  by (simp add: synced_def in_step_def)

lemma synced_triggerIP:
  assumes "synced b w" "clock_fits s t"
  shows "synced False (snd (triggerIP S t idStr w))"
  unfolding triggerIP_def
proof (rule synced_with_ip [OF synced_weaken [OF assms(1)]], goal_cases)
  case (1 i ip w1)
  then have "fine w1" by (simp add: synced_def)
  from Schedule_effect [OF this clock_fits_exact(1) [OF assms(2)], of i]
  show ?case using 1(1) by (auto simp: has_scheduler TriggerNow_def store_ops synced_def in_step_def)
qed

lemma ip_named_found:
  assumes "ip_named S name w = (Some ip, w')"
  shows "ip \<in> set (ips (db_st w)) \<and> is_row (ip_ID ip) ip"
proof -
  let ?q = "\<lambda>d. find (\<lambda>r. ip_DeletedAt r = None \<and> same_text (srv_gorm S) (ip_Name r) name) (sort_key ip_ID (ips d))"
  have "?q (db_st w) = Some ip"
    using assms ddo_read_val [of ?q w] by (auto simp: ip_named_def db_find_def split: prod.splits option.splits)
  then have "ip \<in> set (sort_key ip_ID (ips (db_st w))) \<and> ip_DeletedAt ip = None" unfolding find_Some_iff by (metis length_sort nth_mem)
  then show ?thesis by (simp add: is_row_def)
qed

lemma synced_import_create: "synced b w \<Longrightarrow> clock_fits s t' \<Longrightarrow> synced b (snd (import_create S t t' e w))"
  by (auto simp: import_create_def split: prod.splits option.splits dest: synced_create)

lemma synced_import_entry:
  assumes "synced b w" "clock_fits s t'"
  shows "synced b (snd (import_entry S t t' ups e w))"
proof -
  have n: "synced b w1" if "ip_named S (cq_Name e) w = (r, w1)" for r w1
    using assms(1) that by (auto simp: ip_named_def dest!: same_db_find intro: synced_same)
  have found: "x \<in> set (ips (db_st w1)) \<and> is_row (ip_ID x) x" if "ip_named S (cq_Name e) w = (Some x, w1)" for x w1
    using ip_named_found [OF that] that by (auto simp: ip_named_def same_def dest!: same_db_find)
  have u: "synced b (UpdateIPWeight s t' (ip_ID x) y w2)"
    if "ip_named S (cq_Name e) w = (Some x, w1)" "update_ip S t (ip_ID x) (import_updates e) w1 = (True, w2)" "y = request_weight (cq_Weight e)" for x y w1 w2
    using synced_sync [OF n [OF that(1)] that(2) conjunct1 [OF found [OF that(1)]] conjunct2 [OF found [OF that(1)]] assms(2)] that(3)
    by (simp add: sync_scheduler_def import_updates_def)
  have r: "synced b w2" if "ip_named S (cq_Name e) w = (Some x, w1)" "update_ip S t (ip_ID x) (import_updates e) w1 = (False, w2)" for x w1 w2
    using synced_refused [OF n [OF that(1)] that(2) conjunct1 [OF found [OF that(1)]] conjunct2 [OF found [OF that(1)]]] .
  show ?thesis using assms n u r synced_import_create
    by (auto simp: import_entry_def split: prod.splits option.splits bool.splits)
qed

lemma synced_import_loop: "synced b w \<Longrightarrow> (\<And>k. clock_fits s (clk k)) \<Longrightarrow> synced b (snd (import_loop S clk k ups es p w))"
proof (induction es arbitrary: k p w)
  case (Cons e es)
  obtain r w1 where r: "import_entry S (clk k) (clk (k + 1)) ups e w = (r, w1)" by fastforce
  then have "synced b w1" using synced_import_entry [OF Cons.prems] by (metis snd_conv)
  then show ?case using Cons.IH Cons.prems(2) r by simp
qed simp

lemma synced_importIPs: "synced b w \<Longrightarrow> (\<And>k. clock_fits s (clk k)) \<Longrightarrow> synced b (snd (importIPs S clk ps bound w))"
  by (auto simp: importIPs_def split: sum.splits prod.splits) (metis synced_import_loop snd_conv)

text \<open>Handlers that leave the schedule and the IPs alone.\<close>

lemma idle_tables:
  "kept_tables R oor S (\<lambda>st. zsets (view st) ScheduleZSetKey = Z) (\<lambda>d. ips d = rows) (\<lambda>os. os = [])"
proof (unfold_locales, goal_cases)
  case 1 then show ?case by (rule env_wired)
next
  case (3 st h)
  have "ScheduleZSetKey \<notin> set (board_keys h)"
    by (auto simp: board_keys_def ScheduleZSetKey_def LeaderboardCacheKeyPrefix_def)
  then show ?case using 3 by (simp add: del)
qed (simp_all add: write_alert_def ip_frame)

lemma synced_idle:
  assumes "synced b w"
    and "\<And>Z rows. kept_tables.holds (\<lambda>st. zsets (view st) ScheduleZSetKey = Z) (\<lambda>d. ips d = rows) (\<lambda>os. os = []) w \<Longrightarrow>
      kept_tables.holds (\<lambda>st. zsets (view st) ScheduleZSetKey = Z) (\<lambda>d. ips d = rows) (\<lambda>os. os = []) w'"
  shows "synced b w'"
proof -
  have "zsets (view (redis_st w')) ScheduleZSetKey = zsets (view (redis_st w)) ScheduleZSetKey \<and> ips (db_st w') = ips (db_st w) \<and> outcomes w' = []"
    using assms(2) [of "zsets (view (redis_st w)) ScheduleZSetKey" "ips (db_st w)"] assms(1)
    by (simp add: kept_tables.holds_def [OF idle_tables] synced_def fine_def quiet_def)
  then show ?thesis using assms(1) by (simp add: synced_def fine_def in_step_def zset_ok_iff zset_times_view quiet_def)
qed

lemma synced_ackAlert: "synced b w \<Longrightarrow> synced b (snd (ackAlert S t i w))"
  by (erule synced_idle) (rule kept_tables.holds_ackAlert [OF idle_tables])

lemma synced_archive_on:
  assumes "synced b w" "\<And>t. synced b (snd (run t w))"
  shows "synced b (snd (archive_on S run msg date deflt w))"
  using assms(1) assms(2) by (auto simp: archive_on_def split: option.splits prod.splits) (metis snd_conv)+

lemma synced_archives:
  assumes "synced b w"
  shows "synced b (snd (TriggerDailyArchive S t u w))" "synced b (snd (TriggerWeeklyArchive S t u w))"
  using synced_idle [OF assms kept_tables.holds_archives(1) [OF idle_tables]]
    synced_idle [OF assms kept_tables.holds_archives(2) [OF idle_tables]] by blast+

lemma synced_cache_write:
  assumes "synced b w" "short_write p"
  shows "synced b (run_cache_write S p w)"
proof -
  have R: "srv_rdb S = Some R" using env_wired by (simp add: wired_def)
  have "caches_only (view (redis_st w)) (view (redis_st (run_cache_write S p w)))" by (rule run_cache_write_caches [OF R assms(2)])
  moreover have "quiet (run_cache_write S p w)"
    using assms(1) R by (simp add: run_cache_write_def synced_def fine_def split: option.splits prod.splits)
  ultimately show ?thesis using assms(1)
    by (simp add: synced_def fine_def in_step_def zset_ok_iff zset_times_view caches_only_def)
qed

lemma synced_admin: "synced b w \<Longrightarrow> synced b (snd (h w)) \<Longrightarrow> synced b (snd (apiKeyMiddleware S key h w))"
  by (simp add: apiKeyMiddleware_def)

lemma synced_serve:
  assumes "synced b w" "\<And>k. clock_fits s (sv_clock v k)"
  shows "synced (b \<and> \<not> is_trigger rq) (snd (serve S L v rq w))"
proof (cases "reads rq")
  case True
  then have "\<not> is_trigger rq" by (auto simp: reads_def is_trigger_def)
  then show ?thesis using synced_same [OF assms(1) same_serve [OF env_wired True surjective_pairing]] by simp
next
  case False
  note handlers = synced_createIP synced_updateIP synced_deleteIP synced_triggerIP synced_ackAlert synced_admin synced_importIPs
    synced_archive_on synced_archives
  show ?thesis using False assms
    by (cases rq) (simp_all add: serve_def reads_def is_trigger_def plain_def Let_def handlers triggerDailyArchive_def triggerWeeklyArchive_def)
qed

end

section \<open>Requests and scheduling passes\<close>

text \<open>
  A step of the running service, seen from the schedule: a request with the goroutine it leaves behind, or a pass of the
  scheduler. The flag says whether somebody asked for an IP to be crawled at once.
\<close>

inductive service_step :: "('s, 'd) Server \<Rightarrow> go_lib \<Rightarrow> ('s, 'd) IPScheduler \<Rightarrow> bool \<Rightarrow> ('s, 'd) world \<Rightarrow> ('s, 'd) world \<Rightarrow> bool"
  for S :: "('s, 'd) Server" and L :: go_lib and s :: "('s, 'd) IPScheduler" where
  Ask: "(\<And>k. clock_fits s (sv_clock v k)) \<Longrightarrow> serve S L v rq w = ((r, p), w') \<Longrightarrow> service_step S L s (is_trigger rq) w (run_cache_write S p w')"
| Pass: "pass_times_ok s p \<Longrightarrow> checkAndSchedule s p w = Some w' \<Longrightarrow> service_step S L s False w w'"

inductive service_run :: "('s, 'd) Server \<Rightarrow> go_lib \<Rightarrow> ('s, 'd) IPScheduler \<Rightarrow> bool \<Rightarrow> ('s, 'd) world \<Rightarrow> ('s, 'd) world \<Rightarrow> bool"
  for S :: "('s, 'd) Server" and L :: go_lib and s :: "('s, 'd) IPScheduler" where
  Start: "service_run S L s False w w"
| Next: "service_run S L s a w w1 \<Longrightarrow> service_step S L s b w1 w2 \<Longrightarrow> service_run S L s (a \<or> b) w w2"

inductive_cases service_stepE: "service_step S L s b w w'"

context api_sync
begin

lemma synced_quiet: "synced b w \<Longrightarrow> quiet w"
  by (simp add: synced_def fine_def)

lemma getIPByID_effect:
  assumes "synced b w" "getIPByID s i w = (r, w')"
  shows "synced b w' \<and> (r = None \<or> ip_Status (the r) \<noteq> IPStatusActive \<longrightarrow> i \<notin> active_ids (ips (db_st w'))) \<and>
    (\<forall>ip. r = Some ip \<longrightarrow> ip_Status ip = IPStatusActive \<longrightarrow> i \<in> active_ids (ips (db_st w')))"
proof -
  have D: "sch_db s = srv_db S" using env_wired has_scheduler by (simp add: wired_def)
  have eq: "r = find (\<lambda>ip. ip_DeletedAt ip = None \<and> ip_ID ip = i) (ips (db_st w))" "w' = w"
    using assms(2) synced_quiet [OF assms(1)] by (auto simp: getIPByID_def D split: option.splits)
  have one: "a = c" if "a \<in> set (ips (db_st w))" "c \<in> set (ips (db_st w))" "ip_ID a = ip_ID c" for a c
    using assms(1) that by (auto simp: synced_def fine_def ip_table_ok_def distinct_map inj_on_def)
  show ?thesis
  proof (cases r)
    case None
    then have "\<not> (\<exists>x. x \<in> set (ips (db_st w)) \<and> ip_DeletedAt x = None \<and> ip_ID x = i)"
      unfolding eq(1) find_None_iff .
    then have "i \<notin> active_ids (ips (db_st w))" by (auto simp: in_active_ids)
    then show ?thesis using None eq(2) assms(1) by simp
  next
    case (Some ip)
    then have ip: "ip \<in> set (ips (db_st w))" "ip_ID ip = i" "ip_DeletedAt ip = None" using eq(1) by (auto simp: find_Some_iff)
    then have "i \<in> active_ids (ips (db_st w)) \<longleftrightarrow> ip_Status ip = IPStatusActive" unfolding in_active_ids using one by metis
    then show ?thesis using Some eq(2) assms(1) by simp
  qed
qed

lemma synced_Schedule:
  assumes "synced b w" "exact_time t" "i \<in> active_ids (ips (db_st w))"
  shows "synced b (snd (Schedule R i t w))"
  using assms Schedule_effect [of w t i] by (auto simp: synced_def in_step_def)

lemma synced_Remove:
  assumes "synced b w" "i \<notin> active_ids (ips (db_st w))"
  shows "synced b (snd (Remove R i w))"
  using assms Remove_effect [of w i] by (auto simp: synced_def in_step_def)

end

locale api_scheduler = api_sync R view S oor s
  for R :: "'s redis" and view :: "'s \<Rightarrow> keyspace" and S :: "('s, 'd) Server" and oor :: "rat \<Rightarrow> int" and s :: "('s, 'd) IPScheduler" +
  assumes on_redis: "redis_scheduler R s"
begin

lemma env: "scheduler_env s (zset_ok R) (zset_times R) quiet"
  by (rule redis_scheduler_env [OF on_redis])

lemma synced_push:
  assumes "synced b w" "pushTasksForIP s t u ip w = (e, w')"
  shows "synced b w' \<and> db_st w' = db_st w"
proof -
  have "snd (PushTask (Some R) C q w) = w \<or> (\<exists>k d. snd (PushTask (Some R) C q w) = snd (rdo (pushTaskScript R k d) w))" for C q
    by (rule PushTask_world)
  then have db: "db_st (snd (PushTask (Some R) C q w)) = db_st w" for C q by (metis other_state(2))
  have "db_st w' = db_st w" using assms(2) on_redis db
    by (auto simp: pushTasksForIP_def redis_scheduler_def split: if_splits prod.splits sum.splits) (metis snd_conv)+
  moreover have "zset_ok R w' \<and> quiet w' \<and> zset_times R w' = zset_times R w"
    using scheduler_env.push_tasks_frame [OF env, of w t u ip] assms by (simp add: synced_def fine_def)
  ultimately show ?thesis using assms(1) by (simp add: synced_def fine_def in_step_def)
qed

lemma synced_schedule_ip:
  assumes "synced b w" "pass_times_ok s p"
  shows "synced b (schedule_ip s p i w)"
proof -
  obtain r w1 where r: "getIPByID s i w = (r, w1)" by fastforce
  note g = getIPByID_effect [OF assms(1) r]
  show ?thesis
  proof (cases "r = None \<or> ip_Status (the r) \<noteq> IPStatusActive")
    case True
    then have "schedule_ip s p i w = snd (Remove R i w1)" using r by (auto simp: schedule_ip_def store_ops split: option.splits)
    then show ?thesis using g True synced_Remove by simp
  next
    case False
    then obtain ip where ip: "r = Some ip" "ip_Status ip = IPStatusActive" by auto
    obtain e w2 where e: "pushTasksForIP s (pass_tick p i) (pass_uuid p i) ip w1 = (e, w2)" by fastforce
    define d where "d = (if e then Minute else CalculateInterval (sch_oor s) (sch_config s) (ip_Weight ip))"
    have d: "exact_time (pass_now p + d)" using scheduler_env.interval_ok(1) [OF env assms(2), of d "ip_Weight ip"] by (auto simp: d_def)
    have "schedule_ip s p i w = snd (Schedule R i (pass_now p + d) w2)" using r ip e by (simp add: schedule_ip_def d_def store_ops)
    then show ?thesis using synced_push [OF conjunct1 [OF g] e] g ip synced_Schedule [OF _ d] by simp
  qed
qed

lemma synced_schedule_batch: "synced b w \<Longrightarrow> pass_times_ok s p \<Longrightarrow> synced b (schedule_batch s p ids w)"
  by (induction ids arbitrary: w) (simp_all add: synced_schedule_ip)

lemma synced_drain: "drain_loop (sch_queue s) thr dl es w = Some w' \<Longrightarrow> synced b w \<Longrightarrow> synced b w'"
proof (induction "sch_queue s" thr dl es w rule: drain_loop.induct)
  case (3 thr dl t es w)
  obtain r w1 where r: "GetQueueStats (sch_queue s) w = (r, w1)" by fastforce
  have Q: "sch_queue s = Some R" using on_redis by (simp add: redis_scheduler_def)
  have db: "db_st (snd (read_or_zero f v)) = db_st v" for f and v :: "('s, 'd) world" by (simp add: read_or_zero_world)
  have "db_st (snd (GetQueueStats (Some R) w)) = db_st w" by (simp add: GetQueueStats_def Let_def case_prod_unfold db)
  then have "synced b w1" using 3(4) r Q zset_same [of w1 w] GetQueueStats_st [of w]
    by (simp add: synced_def fine_def in_step_def)
  then show ?case using 3 r by (auto split: if_splits sum.splits)
qed simp_all

lemma synced_batches:
  "schedule_batches s p thr k bs w = Some w' \<Longrightarrow> pass_times_ok s p \<Longrightarrow> synced b w \<Longrightarrow> synced b w'"
proof (induction bs arbitrary: w k)
  case (Cons ids bs)
  have w1: "synced b (schedule_batch s p ids w)" using synced_schedule_batch Cons.prems by blast
  have "synced b w2" if "waitForQueueDrain s thr (pass_wait p k) (pass_drain p k) (schedule_batch s p ids w) = Some w2" for w2
    using synced_drain that w1 unfolding waitForQueueDrain_def by blast
  then show ?case using Cons w1 by (auto simp: Let_def split: if_splits option.splits)
qed simp

lemma synced_pass:
  assumes "checkAndSchedule s p w = Some w'" "pass_times_ok s p" "synced b w"
  shows "synced b w'"
proof -
  obtain r w1 where r: "api_GetDue (sch_store s) (pass_due p) w = (r, w1)" by fastforce
  have "same w w1" using r on_redis
    by (auto simp: redis_scheduler_def NewRedisScheduleStore_def GetDue_def split: prod.splits option.splits dest: same_rdo)
  then have "synced b w1" using synced_same assms(3) by blast
  then show ?thesis using assms r synced_batches
    by (auto simp: checkAndSchedule_def split: option.splits list.splits if_splits)
qed

lemma synced_step:
  assumes "service_step S L s tr w w'" "synced b w"
  shows "synced (b \<and> \<not> tr) w'"
  using assms(1)
proof cases
  case (Ask v rq r p w1)
  have "synced (b \<and> \<not> tr) w1" using synced_serve [OF assms(2) Ask(3), of rq L] Ask(1,4) by simp
  moreover have "short_write p" using short_serve [of S L v rq w] Ask(4) by simp
  ultimately show ?thesis using synced_cache_write Ask(2) by simp
next
  case (Pass p)
  then show ?thesis using synced_pass assms(2) by simp
qed

lemma synced_run: "service_run S L s tr w w' \<Longrightarrow> synced b w \<Longrightarrow> synced (b \<and> \<not> tr) w'"
proof (induction rule: service_run.induct)
  case (Next a w w1 c w2)
  then have "synced (b \<and> \<not> a) w1" by blast
  from synced_step [OF Next(2) this] show ?case by simp
qed simp

end

end
