(* ===== verification/ApiTheorems.thy ===== *)
theory ApiTheorems
  imports ApiSync
begin

text \<open>
  The properties of the HTTP API: a sample server on which the contracts are met, requests that read, the admin key, types and
  tables, and the schedule.
\<close>

section \<open>A sample server\<close>

definition sample_gorm :: gorm where
  "sample_gorm = \<lparr>like_text = (\<lambda>a pat. Contains a (butlast (tl pat))), same_text = (=),
     window = (\<lambda>off lm n. if lm < 0 then (if off \<le> 0 then Some (0, n) else None) else Some (nat off, nat lm)),
     new_ip_id = (\<lambda>rows. find (\<lambda>i. i \<notin> ip_ID ` set rows) (map of_nat [1 ..< length rows + 2])), ip_fits = (\<lambda>r. True)\<rparr>"

interpretation sample_gorm: gorm_laws sample_gorm
  by unfold_locales (auto simp: sample_gorm_def find_Some_iff)

text \<open>An encoder of one value.\<close>

definition one_json :: "'a \<Rightarrow> 'a json" where
  "one_json x = ((\<lambda>y. if y = x then Some ''{}'' else None), (\<lambda>t. if t = ''{}'' then Some x else None))"

definition no_json :: "'a json" where
  "no_json = ((\<lambda>_. None), (\<lambda>_. None))"

lemma sample_json_ok [simp]: "json_ok (one_json x)" "json_ok no_json"
  by (simp_all add: json_ok_def one_json_def no_json_def)

definition sample_lib :: "LeaderboardCacheData json \<Rightarrow> itemsCacheData json \<Rightarrow> go_lib" where
  "sample_lib jb ji = \<lparr>json_liquidity = no_json, json_hourly = no_json, json_items = ji, json_board = jb,
     math_Log = (\<lambda>x. x - 1), sort_Slice = sort_key (\<lambda>e. - le_Score e)\<rparr>"

lemma sample_sort_falling: "sorted_wrt (\<lambda>a b. le_Score a \<ge> le_Score b) (sort_key (\<lambda>e. - le_Score e) es)"
  using sorted_sort_key [of "\<lambda>e. - le_Score e" es] by (simp add: sorted_map)

lemma sample_lib_laws: "json_ok jb \<Longrightarrow> json_ok ji \<Longrightarrow> go_laws (sample_lib jb ji)"
  by unfold_locales (simp_all add: sample_lib_def sample_sort_falling)

interpretation sample_lib: go_laws "sample_lib (one_json b) (one_json i)"
  for b :: LeaderboardCacheData and i :: itemsCacheData
  by (rule sample_lib_laws) simp_all

definition sample_server :: "(mem, tables) Server" where
  "sample_server = \<lparr>srv_db = mem_db, srv_mysql = sample_mysql, srv_gorm = sample_gorm, srv_zone = JST, srv_rdb = Some mem_redis,
     srv_scheduler = Some (sample_sched no_codec), srv_cache = Some mem_redis, adminAPIKey = ''secret''\<rparr>"

lemma sample_server_simps [simp]:
  "srv_db sample_server = mem_db" "srv_gorm sample_server = sample_gorm" "srv_rdb sample_server = Some mem_redis"
  "srv_zone sample_server = JST" "srv_mysql sample_server = sample_mysql"
  "srv_scheduler sample_server = Some (sample_sched no_codec)" "adminAPIKey sample_server = ''secret''"
  by (simp_all add: sample_server_def)

lemma sample_wired: "wired mem_redis (\<lambda>_. 0) sample_server"
  by (simp add: wired_def sample_server_def sample_sched_def)

interpretation sample_api: api_scheduler mem_redis mem_view sample_server "\<lambda>_. 0" "sample_sched no_codec"
  by (intro api_scheduler.intro api_sync.intro api_env.intro api_env_axioms.intro api_sync_axioms.intro api_scheduler_axioms.intro)
    (simp_all add: sample_wired sample_redis_scheduler memory.redis_server_axioms memdb.sql_database_axioms sample_gorm.gorm_laws_axioms)

definition sample_serving :: "string \<Rightarrow> serving" where
  "sample_serving key = \<lparr>sv_clock = (\<lambda>_. 100 * Second), sv_pipeline = None, sv_sched = \<lparr>running = True, loops = True\<rparr>, sv_apiKey = key\<rparr>"

section \<open>Reading, the admin key, types and the table of IPs\<close>

text \<open>
  (C31) A request that reads (every \<open>GET\<close> route) changes no table and nothing in Redis but cache entries: after the response and
  the goroutine it leaves behind, whatever happens to the calls, the lists, sets, hashes and sorted sets are the same and so
  is every string that is not a leaderboard or a detail of an IP; an entry is written to live for at most an hour.
\<close>

theorem reads_only_fill_caches:
  assumes "redis_server R view" and "wired R oor S" and "reads rq" and "serve S L v rq w = ((r, p), w')"
  shows "db_st (run_cache_write S p w') = db_st w \<and> caches_only (view (redis_st w)) (view (redis_st (run_cache_write S p w'))) \<and>
    (\<forall>key tx ttl. p = Some (key, tx, ttl) \<longrightarrow> cache_key key \<and> 0 < ttl \<and> ttl \<le> Hour)"
proof -
  have w': "same w w'" using same_serve [OF assms(2-4)] .
  have p: "short_write p" using short_serve [of S L v rq w] assms(4) by simp
  have "caches_only (view (redis_st w')) (view (redis_st (run_cache_write S p w')))"
    by (rule redis_server.run_cache_write_caches [OF assms(1) _ p]) (use assms(2) in \<open>simp add: wired_def\<close>)
  then show ?thesis using w' p by (auto simp: same_def short_write_def)
qed

theorem reads_only_fill_caches_witness:
  "\<exists>r p w'. serve sample_server (sample_lib no_json no_json) (sample_serving '''') (GetIPLiquidity ''7'')
      (sched_world [(''7'', 90)] [sample_ip 7 IPStatusActive] []) = ((r, p), w') \<and>
    zset_times mem_redis (run_cache_write sample_server p w') 7 = Some 90"
proof -
  let ?w = "sched_world [(''7'', 90)] [sample_ip 7 IPStatusActive] []"
  obtain r p w' where eq: "serve sample_server (sample_lib no_json no_json) (sample_serving '''') (GetIPLiquidity ''7'') ?w = ((r, p), w')"
    by (metis prod.collapse)
  have "reads (GetIPLiquidity ''7'')" by (simp add: reads_def)
  from reads_only_fill_caches [OF memory.redis_server_axioms sample_wired this eq]
  have "zset_times mem_redis (run_cache_write sample_server p w') = zset_times mem_redis ?w"
    by (simp add: memory.zset_times_view caches_only_def)
  moreover have "zset_times mem_redis ?w 7 = Some 90" by code_simp
  ultimately show ?thesis using eq by auto
qed

text \<open>
  (C23) With an admin key configured, a request to an admin route without that key is answered 401 and nothing happens; no
  import and no archive run takes place.
\<close>

theorem admin_key_required:
  assumes "adminAPIKey S \<noteq> ''''" and "sv_apiKey v \<noteq> adminAPIKey S" and "rq = ImportIPs ps b \<or> rq = DailyArchive t \<or> rq = WeeklyArchive t"
  shows "\<exists>msg. serve S L v rq w = ((Response 401 401 msg None, None), w)"
  using assms by (auto simp: serve_def Let_def plain_def apiKeyMiddleware_def errorResponse_def)

theorem admin_key_required_witness:
  "\<exists>msg. serve sample_server (sample_lib no_json no_json) (sample_serving ''guess'') (DailyArchive '''') (sched_world [] [] [])
     = ((Response 401 401 msg None, None), sched_world [] [] [])"
  using admin_key_required [of sample_server "sample_serving ''guess''" "DailyArchive ''''"] by (simp add: sample_serving_def)

text \<open>
  (C30) Types of the Redis keys: whatever request the API answers and whatever happens to its calls, a key of a cache entry holds
  a string or nothing, the key of the schedule a sorted set or nothing; the commands of the API never meet a value of another type.
\<close>

theorem request_keeps_key_types:
  assumes "api_env R view S oor" and "typed (view (redis_st w))" and "ip_table_ok (srv_gorm S) (ip_metadata (srv_db S) (db_st w))"
    and "serve S L v rq w = ((r, p), w')"
  shows "typed (view (redis_st w')) \<and> typed (view (redis_st (run_cache_write S p w')))"
  using api_env.request_typed [OF assms] by blast

definition sample_create :: CreateIPRequest where
  "sample_create = \<lparr>cq_Name = ''frieren'', cq_NameEN = '''', cq_NameCN = '''', cq_Category = '''', cq_Tags = [], cq_ImageURL = '''',
     cq_ExternalID = '''', cq_Weight = 2, cq_Notes = ''''\<rparr>"

lemma sample_typed: "typed (mem_view (redis_st (sched_world z rows os)))"
  by (simp add: typed_def sched_world_def mem_view_def mem_empty_def cache_key_def ScheduleZSetKey_def LeaderboardCacheKeyPrefix_def
      ip_detail_prefix_def IPDetailCacheKeyPrefix_def)

theorem request_keeps_key_types_witness:
  "strings (mem_view (redis_st (snd (serve sample_server (sample_lib no_json no_json) (sample_serving '''') (CreateIP (Inr sample_create))
     (sched_world [(''7'', 90)] [] [Lost 1]))))) ScheduleZSetKey = None"
proof -
  let ?w = "sched_world [(''7'', 90)] [] [Lost 1]"
  let ?s = "serve sample_server (sample_lib no_json no_json) (sample_serving '''') (CreateIP (Inr sample_create)) ?w"
  have t: "ip_table_ok (srv_gorm sample_server) (ip_metadata (srv_db sample_server) (db_st ?w))"
    by (simp add: ip_table_ok_def sched_world_def mem_db_def)
  have eq: "?s = ((fst (fst ?s), snd (fst ?s)), snd ?s)" by simp
  from request_keeps_key_types [OF sample_api.api_env_axioms sample_typed t eq] show ?thesis by (simp add: typed_def)
qed



section \<open>The schedule\<close>

text \<open>
  (C13) The API and the scheduler keep the schedule in step with the table of IPs. Start with every active IP scheduled and no other,
  as after a refresh; let requests (creations, updates, deletions, imports, archive runs, reads) and passes of the
  scheduler follow each other in any order, with no call failing. Then every active IP is scheduled, however the
  rows have been changed, and as long as nobody has triggered a crawl by hand no IP is scheduled that is not active.
\<close>

theorem schedule_follows_table:
  assumes "api_scheduler R view S oor s" and "quiet w" and "zset_ok R w" and "ip_table_ok (srv_gorm S) (ip_metadata (srv_db S) (db_st w))"
    and "dom (zset_times R w) = active_ids (ip_metadata (srv_db S) (db_st w))" and "service_run S L s triggered w w'"
  shows "active_ids (ip_metadata (srv_db S) (db_st w')) \<subseteq> dom (zset_times R w') \<and>
    (\<not> triggered \<longrightarrow> dom (zset_times R w') = active_ids (ip_metadata (srv_db S) (db_st w')))"
proof -
  have sync: "api_sync R view S oor s" using assms(1) by (rule api_scheduler.axioms(1))
  have "api_sync.synced R S True w"
    using assms(2-5) by (simp add: api_sync.synced_def [OF sync] api_sync.fine_def [OF sync] in_step_def)
  from api_scheduler.synced_run [OF assms(1,6) this] show ?thesis
    by (auto simp: api_sync.synced_def [OF sync] in_step_def)
qed

lemma sample_dom: "dom (zset_times mem_redis (sched_world [(''7'', x)] rows os)) = {7}"
proof -
  have f: "FormatUint (7 :: u64) = ''7''" by code_simp
  have "zset_times mem_redis (sched_world [(''7'', x)] rows os) i = (if FormatUint i = ''7'' then Some (trunc x) else None)" for i
    by (simp add: zset_times_def sched_world_def mem_redis_def)
  then show ?thesis unfolding f [symmetric] by (auto simp: dom_def)
qed

lemma active_7: "active_ids [sample_ip 7 IPStatusActive] = {7}"
  by (auto simp: in_active_ids sample_ip_def)

definition deleted_7 :: "(mem, tables) world" where
  "deleted_7 = snd (serve sample_server (sample_lib no_json no_json) (sample_serving '''') (DeleteIP ''7'')
     (sched_world [(''7'', 90)] [sample_ip 7 IPStatusActive] []))"

theorem schedule_follows_table_witness:
  "dom (zset_times mem_redis deleted_7) = active_ids (t_ip (db_st deleted_7))"
proof -
  let ?w = "sched_world [(''7'', 90)] [sample_ip 7 IPStatusActive] []" and ?L = "sample_lib no_json no_json"
  let ?r = "serve sample_server ?L (sample_serving '''') (DeleteIP ''7'') ?w"
  have clk: "clock_fits (sample_sched no_codec) (sv_clock (sample_serving '''') k)" for k
    by (simp add: sample_serving_def) code_simp
  have p: "snd (fst ?r) = None" by (simp add: serve_def plain_def Let_def)
  have "?r = ((fst (fst ?r), None), deleted_7)" by (simp add: deleted_7_def prod_eq_iff p)
  from service_step.Ask [where s = "sample_sched no_codec", OF clk this]
  have step: "service_step sample_server ?L (sample_sched no_codec) False ?w deleted_7"
    by (simp add: is_trigger_def run_cache_write_def)
  have run: "service_run sample_server ?L (sample_sched no_codec) False ?w deleted_7"
    using service_run.Next [OF service_run.Start step] by simp
  have w: "quiet ?w" "zset_ok mem_redis ?w" by code_simp+
  have t: "ip_table_ok (srv_gorm sample_server) (ip_metadata (srv_db sample_server) (db_st ?w))"
    by (simp add: ip_table_ok_def sched_world_def mem_db_def)
  have d: "dom (zset_times mem_redis ?w) = active_ids (ip_metadata (srv_db sample_server) (db_st ?w))"
    unfolding sample_dom using active_7 by (simp add: mem_db_def sched_world_def)
  from schedule_follows_table [OF sample_api.api_scheduler_axioms w t d run] show ?thesis by (simp add: mem_db_def)
qed

end
