(* ===== verification/BoardTheorems.thy ===== *)
theory BoardTheorems
  imports ApiTheorems ArchiverProofs
begin

text \<open>
  Properties of the lists the API answers: the periods of the boards are those of the archive, pages cover a list, a board is the
  top of its IPs, a cached board is the board.
\<close>

section \<open>Periods\<close>

lemma shift_days: "local_days zone (t - k * Day) = local_days zone t - k"
proof -
  have "midnight zone t - k * Day \<le> t - k * Day" "t - k * Day < midnight zone t - k * Day + Day" using midnight_bounds(1) [of zone t] midnight_bounds(2) [of t zone]
    by simp_all
  then show ?thesis
    using day_le [of "local_days zone t - k" zone "t - k * Day"] day_le [of "local_days zone t - k + 1" zone "t - k * Day"]
    by (simp add: midnight_def algebra_simps)
qed

lemma monday_of:
  assumes "7 * j + 4 \<le> local_days JST t" "local_days JST t < 7 * j + 11"
  shows "toMondayJST t = (7 * j + 4) * Day - JST * Second"
proof -
  obtain k where k: "toMondayJST t = (7 * k + 4) * Day - JST * Second" "7 * k + 4 \<le> local_days JST t" "local_days JST t < 7 * k + 11"
    using toMonday_day by blast
  then have "k = j" using assms by linarith
  then show ?thesis using k(1) by simp
qed

lemma last_week_facts:
  shows "getLastWeekStart JST now = toMondayJST now - 7 * Day" "toMondayJST (last_week JST now) = toMondayJST now - 7 * Day"
    "toMondayJST (toMondayJST now - 7 * Day) = toMondayJST now - 7 * Day"
proof -
  obtain j where j: "toMondayJST now = (7 * j + 4) * Day - JST * Second" "7 * j + 4 \<le> local_days JST now" "local_days JST now < 7 * j + 11"
    using toMonday_day by blast
  define k where "k = local_days JST now - (7 * j + 4)"
  have k: "0 \<le> k" "k < 7" "local_days JST now = 7 * j + 4 + k" using j by (simp_all add: k_def)
  have "Weekday JST now = (k + 1) mod 7" unfolding Weekday_def k(3) by presburger
  then have wd: "(if Weekday JST now = 0 then 7 else Weekday JST now) = k + 1" using k(1,2) by (cases "k = 6") simp_all
  have m: "midnight JST (now - k * Day) = toMondayJST now" unfolding j(1) midnight_def shift_days by (simp add: k_def)
  then show "getLastWeekStart JST now = toMondayJST now - 7 * Day" by (simp add: getLastWeekStart_def Let_def wd)
  have monday: "toMondayJST t = toMondayJST now - 7 * Day" if "local_days JST t = 7 * (j - 1) + 4" for t
  proof -
    have "toMondayJST t = (7 * (j - 1) + 4) * Day - JST * Second" by (rule monday_of) (simp_all add: that)
    then show ?thesis unfolding j(1) by (simp add: algebra_simps)
  qed
  have "last_week JST now = now - (k + 7) * Day" by (simp add: last_week_def Let_def wd)
  then show "toMondayJST (last_week JST now) = toMondayJST now - 7 * Day" by (intro monday) (simp add: shift_days k(3))
  have "local_days JST (toMondayJST now) = 7 * j + 4"
    using shift_days [of JST now k] m local_days_midnight [of JST "now - k * Day"] by (simp add: k_def)
  then show "toMondayJST (toMondayJST now - 7 * Day) = toMondayJST now - 7 * Day" by (intro monday) (simp add: shift_days)
qed

lemma yesterday: "midnight JST (now - Day) = midnight JST now - Day"
  using shift_days [of JST now 1] by (simp add: midnight_def left_diff_distrib)

text \<open>
  In Japanese time the boards read the periods the archive writes: the week of the weekly board is the week the weekly run archives, and
  the day of the daily board the day of the daily run; each ends where the current period starts.
\<close>

theorem board_periods_are_archived:
  "board_window JST now 168 = (toMondayJST (toMondayJST now - 7 * Day), toMondayJST now) \<and>
   board_window JST now 24 = (midnight JST (now - Day), midnight JST now)"
  by (simp add: board_window_def last_week_facts yesterday)



section \<open>Pages\<close>

lemma concat_pages: "length xs \<le> m * n \<Longrightarrow> concat (map (\<lambda>k. take n (drop (k * n) xs)) [0..<m]) = xs"
proof -
  have "concat (map (\<lambda>k. take n (drop (k * n) xs)) [0..<m]) = take (m * n) xs"
  proof (induction m)
    case (Suc m)
    then show ?case using take_add [of "m * n" n xs] by (simp add: add.commute)
  qed simp
  then show "length xs \<le> m * n \<Longrightarrow> ?thesis" by simp
qed

lemma page_offset_small: "0 \<le> k * n \<Longrightarrow> k * n < 2 ^ 63 \<Longrightarrow> page_offset (k + 1) n = k * n"
  by (simp add: page_offset_def wrap64_def)

context gorm_laws
begin

lemma select_page_slice: "0 \<le> off \<Longrightarrow> 0 \<le> lm \<Longrightarrow> select_page G off lm rows = Some (take (nat lm) (drop (nat off) rows))"
  by (simp add: select_page_def window_page)

end

text \<open>
  (C25) The pages of the list of IPs cover it: asked page by page, with any page size, the handler answers every IP that matches the
  query once and in the order of falling weights, and each page has the number of them all.
\<close>

theorem pages_cover_ips:
  assumes "gorm_laws (srv_gorm S)" and "quiet w" and "0 < n"
    and "rows = filter (ip_listed (srv_gorm S) q) (ip_metadata (srv_db S) (db_st w))" and "length rows \<le> m * n" and "int (m * n) < 2 ^ 63"
    and "\<And>k. page k = fst (listIPs S (Inr (q\<lparr>lq_Page := int k + 1, lq_PageSize := int n\<rparr>)) w)"
  shows "concat (map (\<lambda>k. pg_data (the (rs_data (page k)))) [0..<m]) = ip_order rows \<and> mset (ip_order rows) = mset rows \<and>
    sorted (map (\<lambda>r. - ip_Weight r) (ip_order rows)) \<and> (\<forall>k<m. pg_total (the (rs_data (page k))) = int (length rows))"
proof -
  have p: "page k = successPaginated (take n (drop (k * n) (ip_order rows))) (int (length rows)) (int k + 1) (int n)" if "k < m" for k
  proof -
    have listed: "ip_listed (srv_gorm S) (q\<lparr>lq_Page := int k + 1, lq_PageSize := int n\<rparr>) = ip_listed (srv_gorm S) q"
      by (simp add: fun_eq_iff ip_listed_def)
    have "k * n \<le> m * n" using that by simp
    then have "int (k * n) < 2 ^ 63" using assms(6) by linarith
    then have off: "page_offset (int k + 1) (int n) = int (k * n)" using page_offset_small [of "int k" "int n"] by simp
    have sk: "nat (int k * int n) = k * n" by (simp add: nat_mult_distrib)
    show ?thesis unfolding assms(7) using assms(2-4) sk
      by (simp add: listIPs_def Let_def or_default_def db_count_def db_find_def listed off gorm_laws.select_page_slice [OF assms(1)])
  qed
  have pages: "map (\<lambda>k. pg_data (the (rs_data (page k)))) [0..<m] = map (\<lambda>k. take n (drop (k * n) (ip_order rows))) [0..<m]"
    by (simp add: p successPaginated_def success_def)
  have "length (ip_order rows) \<le> m * n" using assms(5) by (simp add: ip_order_def)
  then have "concat (map (\<lambda>k. pg_data (the (rs_data (page k)))) [0..<m]) = ip_order rows" unfolding pages by (rule concat_pages)
  moreover have "sorted (map (\<lambda>r. - ip_Weight r) (ip_order rows))" unfolding ip_order_def by (rule sorted_sort_key)
  moreover have "mset (ip_order rows) = mset rows" by (simp add: ip_order_def)
  ultimately show ?thesis using p by (simp add: successPaginated_def success_def)
qed

definition sample_query :: ListIPsQuery where
  "sample_query = \<lparr>lq_Page = 0, lq_PageSize = 0, lq_Status = '''', lq_Category = '''', lq_Keyword = ''''\<rparr>"

definition sample_rows :: "IPMetadata list" where
  "sample_rows = [sample_ip 1 IPStatusActive, (sample_ip 2 IPStatusActive)\<lparr>ip_Weight := 5\<rparr>, sample_ip 3 IPStatusDeleted, sample_ip 4 IPStatusPaused]"

theorem pages_cover_ips_witness:
  "concat (map (\<lambda>k. pg_data (the (rs_data (fst (listIPs sample_server (Inr (sample_query\<lparr>lq_Page := int k + 1, lq_PageSize := int 2\<rparr>))
      (sched_world [] sample_rows [])))))) [0..<2]) =
   [(sample_ip 2 IPStatusActive)\<lparr>ip_Weight := 5\<rparr>, sample_ip 1 IPStatusActive, sample_ip 4 IPStatusPaused]"
proof -
  let ?w = "sched_world [] sample_rows []"
  let ?rows = "[sample_ip 1 IPStatusActive, (sample_ip 2 IPStatusActive)\<lparr>ip_Weight := 5\<rparr>, sample_ip 4 IPStatusPaused]"
  have r: "?rows = filter (ip_listed (srv_gorm sample_server) sample_query) (ip_metadata (srv_db sample_server) (db_st ?w))"
    by code_simp
  have o: "ip_order ?rows = [(sample_ip 2 IPStatusActive)\<lparr>ip_Weight := 5\<rparr>, sample_ip 1 IPStatusActive, sample_ip 4 IPStatusPaused]"
    by code_simp
  have f: "gorm_laws (srv_gorm sample_server)" "quiet ?w" "(0 :: nat) < 2" "length ?rows \<le> 2 * 2" "int (2 * 2) < 2 ^ 63"
    by (simp_all add: sample_gorm.gorm_laws_axioms sched_world_def quiet_def)
  from pages_cover_ips [OF f(1,2,3) r f(4,5) refl] show ?thesis unfolding o by blast
qed

section \<open>Boards\<close>

text \<open>The IPs of a board with their traffic, as the tables have them.\<close>

definition board_source :: "('s, 'd) Server \<Rightarrow> int \<Rightarrow> int \<Rightarrow> 'd \<Rightarrow> board_row list" where
  "board_source S hours now d = (case board_window (srv_zone S) now hours of (t, u) \<Rightarrow>
     if hours \<ge> 168 then period_board (midnight (srv_zone S) t) (ip_stats_weekly (srv_db S) d)
     else if hours \<ge> 24 then period_board (midnight (srv_zone S) t) (ip_stats_daily (srv_db S) d)
     else hourly_board (filter (\<lambda>r. t \<le> sh_HourBucket r \<and> sh_HourBucket r < u) (ip_stats_hourly (srv_db S) d)))"

definition busy :: "board_row list \<Rightarrow> board_row list" where
  "busy rows = filter (\<lambda>r. \<not> idle r) rows"

lemma ddo_readE:
  assumes "ddo (readc f) w = (Some x, w')"
  shows "x = f (db_st w) \<and> db_st w' = db_st w"
  using assms ddo_read_val [of f w] ddo_read_st [of f w] by auto

lemma board_entries_value:
  assumes "board_entries S L ty hours now w = (Some es, w')"
  shows "es = calculateAndSortEntries L (board_source S hours now (db_st w)) ty cacheLimit"
  using assms
  by (auto simp: board_entries_def board_source_def getLeaderboardFromWeeklyDB_def getLeaderboardFromDailyDB_def
      getLeaderboardFromHourlyDB_def split: prod.splits option.splits if_splits dest!: ddo_readE)

context go_laws
begin

text \<open>The first entries in the order of their scores: none of the rest has a higher one.\<close>

lemma calculate_top:
  fixes rows ty n
  defines "es \<equiv> calculateAndSortEntries L rows ty n"
  shows "length es = min n (length (busy rows)) \<and> sorted_wrt (\<lambda>a b. le_Score a \<ge> le_Score b) es \<and>
    (\<exists>rest. mset es + mset rest = mset (map (board_entry L ty) (busy rows)) \<and> (\<forall>a\<in>set es. \<forall>b\<in>set rest. le_Score b \<le> le_Score a))"
proof -
  let ?all = "sort_Slice L (map (board_entry L ty) (busy rows))"
  have m: "mset ?all = mset (map (board_entry L ty) (busy rows))" by (rule sort_perm)
  have split: "?all = es @ drop n ?all" by (simp add: es_def calculateAndSortEntries_def busy_def)
  have s: "sorted_wrt (\<lambda>a b. le_Score a \<ge> le_Score b) (es @ drop n ?all)" using sort_falling split by metis
  have "length ?all = length (busy rows)" using mset_eq_length [OF m] by simp
  then have "length es = min n (length (busy rows))" by (simp add: es_def calculateAndSortEntries_def busy_def)
  moreover have "mset es + mset (drop n ?all) = mset (map (board_entry L ty) (busy rows))"
    using m split by (metis mset_append)
  ultimately show ?thesis using s unfolding sorted_wrt_append by blast
qed

end

lemma board_items_fields:
  "map li_Rank (board_items ips es) = map Suc [0 ..< length es]" "map li_Score (board_items ips es) = map le_Score es"
  "map (\<lambda>x. (li_IPID x, li_Inflow x, li_Outflow x, li_Score x)) (board_items ips es) = map (\<lambda>e. (le_IpID e, le_Inflow e, le_Outflow e, le_Score e)) es"
  "length (board_items ips es) = length es"
proof -
  show "map li_Rank (board_items ips es) = map Suc [0 ..< length es]"
    by (rule nth_equalityI) (simp_all add: board_items_def board_item_def nth_enumerate_eq)
  show "map li_Score (board_items ips es) = map le_Score es"
    by (rule nth_equalityI) (simp_all add: board_items_def board_item_def nth_enumerate_eq)
  show "map (\<lambda>x. (li_IPID x, li_Inflow x, li_Outflow x, li_Score x)) (board_items ips es) = map (\<lambda>e. (le_IpID e, le_Inflow e, le_Outflow e, le_Score e)) es"
    by (rule nth_equalityI) (simp_all add: board_items_def board_item_def nth_enumerate_eq)
qed (simp add: board_items_def)

lemma take_board_items: "take n (board_items ips es) = board_items ips (take n es)"
  by (rule nth_equalityI) (simp_all add: board_items_def nth_enumerate_eq)

text \<open>
  (C17) A board is the top of its IPs: when the answer is computed from the tables, its items are ranked from 1, their scores fall,
  there are as many as the limit asks for (or as have traffic in the period), each has the traffic and the score of
  its IP, and no IP that was left out has a higher score than one that is listed.
\<close>

theorem leaderboard_top:
  assumes "go_laws L" and "getLeaderboard S L now now' (Inr q) w = ((Response 200 0 msg (Some rep), p), w')" and "\<not> lr_FromCache rep"
  shows "map li_Rank (lr_Items rep) = map Suc [0 ..< length (lr_Items rep)] \<and>
    length (lr_Items rep) = min (nat (board_limit (bq_Limit q))) (length (busy (board_source S (board_hours (bq_Hours q)) now (db_st w)))) \<and>
    sorted_wrt (\<lambda>x y. li_Score x \<ge> li_Score y) (lr_Items rep) \<and>
    (\<exists>rest. mset (map (\<lambda>x. (li_IPID x, li_Inflow x, li_Outflow x, li_Score x)) (lr_Items rep)) + mset rest =
        mset (map (\<lambda>r. (br_IpID r, br_Inflow r, br_Outflow r, board_score L (board_type (bq_Type q)) r))
          (busy (board_source S (board_hours (bq_Hours q)) now (db_st w)))) \<and>
      (\<forall>x\<in>set (lr_Items rep). \<forall>(i, a, b, score)\<in>set rest. score \<le> li_Score x))"
proof -
  let ?ty = "board_type (bq_Type q)" and ?h = "board_hours (bq_Hours q)" and ?n = "nat (board_limit (bq_Limit q))"
  let ?rows = "board_source S ?h now (db_st w)"
  obtain w1 w2 es ips where c: "getLeaderboardFromCache S L (board_key ?ty ?h) w = (None, w1)"
    and e: "board_entries S L ?ty ?h now w1 = (Some es, w2)" and items: "lr_Items rep = take ?n (board_items ips es)"
    using assms(2,3) by (auto simp: getLeaderboard_def Let_def response_defs split: prod.splits option.splits)
  have "db_st w1 = db_st w" using same_read_cache [OF c [unfolded getLeaderboardFromCache_def]] by (simp add: same_def)
  then have es: "es = calculateAndSortEntries L ?rows ?ty cacheLimit" using board_entries_value [OF e] by simp
  define top where "top = calculateAndSortEntries L ?rows ?ty ?n"
  have "?n \<le> cacheLimit" by (simp add: board_limit_def Let_def cacheLimit_def nat_le_iff)
  then have "take ?n es = top" by (simp add: es top_def calculateAndSortEntries_def min_def)
  then have it: "lr_Items rep = board_items ips top" by (simp add: items take_board_items)
  obtain rest where top: "length top = min ?n (length (busy ?rows))" "sorted_wrt (\<lambda>a b. le_Score a \<ge> le_Score b) top"
    "mset top + mset rest = mset (map (board_entry L ?ty) (busy ?rows))" "\<forall>a\<in>set top. \<forall>b\<in>set rest. le_Score b \<le> le_Score a"
    using go_laws.calculate_top [OF assms(1), where rows = ?rows and ty = ?ty and n = ?n] unfolding top_def by blast
  let ?f = "\<lambda>e. (le_IpID e, le_Inflow e, le_Outflow e, le_Score e)"
  have "mset (map ?f top) + mset (map ?f rest) = image_mset ?f (mset top + mset rest)" by simp
  also have "\<dots> = mset (map (\<lambda>r. (br_IpID r, br_Inflow r, br_Outflow r, board_score L ?ty r)) (busy ?rows))"
    unfolding top(3) by (simp add: board_entry_def image_mset.compositionality comp_def)
  finally have sum: "mset (map (\<lambda>x. (li_IPID x, li_Inflow x, li_Outflow x, li_Score x)) (lr_Items rep)) + mset (map ?f rest) =
      mset (map (\<lambda>r. (br_IpID r, br_Inflow r, br_Outflow r, board_score L ?ty r)) (busy ?rows))"
    unfolding it board_items_fields .
  have "sorted_wrt (\<lambda>a b. a \<ge> b) (map li_Score (lr_Items rep))"
    unfolding it board_items_fields using top(2) by (simp add: sorted_wrt_map)
  then have "sorted_wrt (\<lambda>x y. li_Score x \<ge> li_Score y) (lr_Items rep)" by (simp add: sorted_wrt_map)
  moreover have "\<forall>x\<in>set (lr_Items rep). \<forall>(i, a, b, score)\<in>set (map ?f rest). score \<le> li_Score x"
  proof -
    have "li_Score ` set (lr_Items rep) = le_Score ` set top" using board_items_fields(2) [of ips top] unfolding it by (metis list.set_map)
    then have sc: "li_Score x \<in> le_Score ` set top" if "x \<in> set (lr_Items rep)" for x using that by blast
    have "le_Score b \<le> li_Score x" if x: "x \<in> set (lr_Items rep)" and b: "b \<in> set rest" for x b
    proof -
      obtain a where "a \<in> set top" "li_Score x = le_Score a" using sc [OF x] by blast
      then show ?thesis using top(4) b by simp
    qed
    then show ?thesis by auto
  qed
  moreover have "map li_Rank (lr_Items rep) = map Suc [0 ..< length (lr_Items rep)]" "length (lr_Items rep) = min ?n (length (busy ?rows))"
    unfolding it board_items_fields using top(1) by simp_all
  ultimately show ?thesis using sum by blast
qed



text \<open>With no fault to come, the answer computed from the tables is a function of them.\<close>

definition board_of :: "('s, 'd) Server \<Rightarrow> go_lib \<Rightarrow> string \<Rightarrow> int \<Rightarrow> int \<Rightarrow> 'd \<Rightarrow> LeaderboardItem list" where
  "board_of S L ty hours now d = (let es = calculateAndSortEntries L (board_source S hours now d) ty cacheLimit
     in board_items (filter (\<lambda>r. ip_ID r \<in> set (map le_IpID es)) (ip_metadata (srv_db S) d)) es)"

definition board_data :: "('s, 'd) Server \<Rightarrow> go_lib \<Rightarrow> string \<Rightarrow> int \<Rightarrow> int \<Rightarrow> int \<Rightarrow> 'd \<Rightarrow> LeaderboardCacheData" where
  "board_data S L ty hours now now' d = (case board_window (srv_zone S) now hours of (t, u) \<Rightarrow>
     \<lparr>lb_Type = ty, lb_Hours = hours, lb_TimeRange = \<lparr>tr_Start = RFC3339 (srv_zone S) t, tr_End = RFC3339 (srv_zone S) u\<rparr>,
      lb_Items = board_of S L ty hours now d, lb_Count = length (board_of S L ty hours now d), lb_CachedAt = RFC3339 (srv_zone S) now'\<rparr>)"

definition board_answer :: "LeaderboardCacheData \<Rightarrow> LeaderboardQuery \<Rightarrow> bool \<Rightarrow> LeaderboardReply" where
  "board_answer c q hit = (let items = take (nat (board_limit (bq_Limit q))) (lb_Items c) in
     \<lparr>lr_Type = lb_Type c, lr_Hours = lb_Hours c, lr_TimeRange = lb_TimeRange c, lr_Items = items, lr_Count = length items,
      lr_FromCache = hit, lr_CachedAt = (if hit then Some (lb_CachedAt c) else None)\<rparr>)"

lemma quiet_entries:
  "quiet w \<Longrightarrow> board_entries S L ty h now w = (Some (calculateAndSortEntries L (board_source S h now (db_st w)) ty cacheLimit), w)"
  by (simp add: board_entries_def board_source_def getLeaderboardFromWeeklyDB_def getLeaderboardFromDailyDB_def getLeaderboardFromHourlyDB_def
      split: prod.splits)

lemma quiet_names: "quiet w \<Longrightarrow> board_names S ids w = (filter (\<lambda>r. ip_ID r \<in> set ids) (ip_metadata (srv_db S) (db_st w)), w)"
  by (simp add: board_names_def)

lemma fresh_board:
  fixes q
  defines "ty \<equiv> board_type (bq_Type q)" and "h \<equiv> board_hours (bq_Hours q)"
  assumes "quiet w" "read_cache S (json_board L) (board_key ty h) w = (None, w)"
  shows "getLeaderboard S L now now' (Inr q) w = ((success (board_answer (board_data S L ty h now now' (db_st w)) q False),
    cache_entry (json_board L) (board_key ty h) (board_ttl h) (board_data S L ty h now now' (db_st w))), w)"
  using assms by (simp add: getLeaderboard_def getLeaderboardFromCache_def setLeaderboardCache_def board_answer_def board_data_def board_of_def
      Let_def quiet_entries quiet_names split: prod.splits)

lemma cached_board:
  assumes "read_cache S (json_board L) (board_key (board_type (bq_Type q)) (board_hours (bq_Hours q))) w = (Some c, w')"
  shows "getLeaderboard S L now now' (Inr q) w = ((success (board_answer c q True), None), w')"
  using assms by (simp add: getLeaderboard_def getLeaderboardFromCache_def board_answer_def Let_def)

definition board_world :: "(mem, tables) world" where
  "board_world = \<lparr>redis_st = mem_empty, db_st = no_tables\<lparr>t_ip := [sample_ip 8 IPStatusActive],
     t_hourly := [sample_hourly 7 (35 * Hour) 3 1, sample_hourly 8 (35 * Hour) 5 1, sample_hourly 9 (35 * Hour) 4 1, sample_hourly 8 (36 * Hour) 2 1]\<rparr>,
     outcomes = []\<rparr>"

definition sample_board :: "int \<Rightarrow> LeaderboardQuery" where
  "sample_board lm = \<lparr>bq_Type = ''inflow'', bq_Hours = 3, bq_Limit = lm\<rparr>"

lemma board_world_miss: "quiet board_world" "read_cache sample_server j key board_world = (None, board_world)"
  by (simp_all add: board_world_def read_cache_def quiet_def mem_redis_def mem_empty_def)

theorem leaderboard_top_witness:
  "\<exists>rep p w'. getLeaderboard sample_server (sample_lib no_json no_json) (38 * Hour) (38 * Hour) (Inr (sample_board 2)) board_world =
      ((Response 200 0 ''success'' (Some rep), p), w') \<and> map li_Rank (lr_Items rep) = [1, 2] \<and>
     sorted_wrt (\<lambda>x y. li_Score x \<ge> li_Score y) (lr_Items rep)"
proof -
  have laws: "go_laws (sample_lib no_json no_json)" by (rule sample_lib_laws) simp_all
  note eq = fresh_board [OF board_world_miss, where L = "sample_lib no_json no_json" and q = "sample_board 2" and now = "38 * Hour" and now' = "38 * Hour",
      unfolded success_def]
  let ?rep = "board_answer (board_data sample_server (sample_lib no_json no_json) (board_type (bq_Type (sample_board 2)))
    (board_hours (bq_Hours (sample_board 2))) (38 * Hour) (38 * Hour) (db_st board_world)) (sample_board 2) False"
  have "\<not> lr_FromCache ?rep" by (simp add: board_answer_def Let_def)
  note top = leaderboard_top [OF laws eq this]
  have n: "length (busy (board_source sample_server (board_hours (bq_Hours (sample_board 2))) (38 * Hour) (db_st board_world))) = 3"
    "nat (board_limit (bq_Limit (sample_board 2))) = 2" by code_simp+
  have "length (lr_Items ?rep) = 2" using top unfolding n by simp
  then have "map li_Rank (lr_Items ?rep) = [1, 2]" using top by (simp add: numeral_2_eq_2)
  moreover have "sorted_wrt (\<lambda>x y. li_Score x \<ge> li_Score y) (lr_Items ?rep)" using top by (elim conjE)
  ultimately show ?thesis unfolding eq by (intro exI conjI refl) simp_all
qed

section \<open>Caches\<close>

lemma quiet_read_cache: "quiet w \<Longrightarrow> snd (read_cache S j key w) = w"
  by (simp add: read_cache_def split: option.splits)

text \<open>What a cache entry reads after it has been written, with no fault in between.\<close>

context redis_server
begin

lemma read_own_write:
  assumes "srv_rdb S = Some R" "quiet w" "json_ok j" "cache_entry j key ttl x = Some pw" "0 < ttl"
  shows "quiet (run_cache_write S (Some pw) w) \<and> db_st (run_cache_write S (Some pw) w) = db_st w \<and>
    read_cache S j key (run_cache_write S (Some pw) w) = (Some x, run_cache_write S (Some pw) w)"
proof -
  obtain tx where tx: "fst j x = Some tx" "pw = (key, tx, ttl)" using assms(4) by (auto simp: cache_entry_def split: option.splits)
  then have "snd j tx = Some x" using assms(3) by (simp add: json_ok_def)
  then show ?thesis using assms(1,2,5) tx by (simp add: run_cache_write_def read_cache_def get set_ex)
qed

end

text \<open>
  (C21) A cached board is the board: when the answer to one query has left its entry in the cache, a later query for the same board, with
  whatever limit, is answered what it would have been answered from the tables at the time of the first, marked as cached
  and with the time of the entry; nothing new is written.
\<close>

theorem cached_board_is_board:
  assumes "redis_server R view" and "srv_rdb S = Some R" and "go_laws L" and "quiet w"
    and "getLeaderboard S L now now' (Inr q) w = ((r, Some entry), w1)"
    and "board_type (bq_Type q') = board_type (bq_Type q)" and "board_hours (bq_Hours q') = board_hours (bq_Hours q)"
  shows "\<exists>rep p w2 w3. getLeaderboard S L now now' (Inr q') w = ((success rep, p), w2) \<and>
    getLeaderboard S L later later' (Inr q') (run_cache_write S (Some entry) w1) =
      ((success (rep\<lparr>lr_FromCache := True, lr_CachedAt := Some (RFC3339 (srv_zone S) now')\<rparr>), None), w3)"
proof -
  let ?ty = "board_type (bq_Type q)" and ?h = "board_hours (bq_Hours q)"
  let ?data = "board_data S L ?ty ?h now now' (db_st w)"
  obtain c where c: "read_cache S (json_board L) (board_key ?ty ?h) w = (c, w)"
    using quiet_read_cache [OF assms(4)] by (metis prod.collapse)
  have "c = None" using assms(5) cached_board [of S L q w _ _ now now'] c by (cases c) auto
  with c have miss: "read_cache S (json_board L) (board_key ?ty ?h) w = (None, w)" by simp
  from trans [OF sym [OF fresh_board [OF assms(4) miss, of now now']] assms(5)]
  have e: "cache_entry (json_board L) (board_key ?ty ?h) (board_ttl ?h) ?data = Some entry" "w1 = w" unfolding prod.inject by blast+
  have "0 < board_ttl ?h" by (simp add: board_ttl_def leaderboardCacheTTL1H_def leaderboardCacheTTL24H_def leaderboardCacheTTL7D_def
      Minute_def Hour_def Second_def)
  from redis_server.read_own_write [OF assms(1,2,4) go_laws.json_laws(4) [OF assms(3)] e(1) this]
  have hit: "read_cache S (json_board L) (board_key (board_type (bq_Type q')) (board_hours (bq_Hours q'))) (run_cache_write S (Some entry) w)
      = (Some ?data, run_cache_write S (Some entry) w)" unfolding assms(6,7) by simp
  have "getLeaderboard S L now now' (Inr q') w = ((success (board_answer ?data q' False), cache_entry (json_board L) (board_key ?ty ?h) (board_ttl ?h) ?data), w)"
    using fresh_board [OF assms(4), of S L q' now now'] miss unfolding assms(6,7) by simp
  moreover have "board_answer ?data q' True = (board_answer ?data q' False)\<lparr>lr_FromCache := True, lr_CachedAt := Some (RFC3339 (srv_zone S) now')\<rparr>"
    by (simp add: board_answer_def board_data_def Let_def split: prod.splits)
  ultimately show ?thesis using cached_board [OF hit, of later later'] e(2) by auto
qed

definition sample_data :: LeaderboardCacheData where
  "sample_data = board_data sample_server (sample_lib no_json no_json) ''inflow'' 3 (38 * Hour) (38 * Hour) (db_st board_world)"

lemma sample_data_lib: "board_data sample_server (sample_lib jb ji) ''inflow'' 3 (38 * Hour) (38 * Hour) (db_st board_world) = sample_data"
proof -
  have "board_entry (sample_lib jb ji) ty = board_entry (sample_lib no_json no_json) ty" for ty
    by (simp add: fun_eq_iff board_entry_def board_score_def CalculateHotScore_def sample_lib_def)
  then have "calculateAndSortEntries (sample_lib jb ji) rows ty n = calculateAndSortEntries (sample_lib no_json no_json) rows ty n" for rows ty n
    by (simp add: calculateAndSortEntries_def) (simp add: sample_lib_def)
  then show ?thesis by (simp add: sample_data_def board_data_def board_of_def)
qed

theorem cached_board_is_board_witness:
  "\<exists>entry rep p w2 w3. let L = sample_lib (one_json sample_data) no_json in
    getLeaderboard sample_server L (38 * Hour) (38 * Hour) (Inr (sample_board 1)) board_world = ((success rep, p), w2) \<and>
    getLeaderboard sample_server L (39 * Hour) (39 * Hour) (Inr (sample_board 1)) (run_cache_write sample_server (Some entry) board_world) =
      ((success (rep\<lparr>lr_FromCache := True, lr_CachedAt := Some (RFC3339 JST (38 * Hour))\<rparr>), None), w3)"
proof -
  let ?L = "sample_lib (one_json sample_data) no_json"
  have laws: "go_laws ?L" by (rule sample_lib_laws) simp_all
  have q: "board_type (bq_Type (sample_board n)) = ''inflow''" "board_hours (bq_Hours (sample_board n)) = 3" for n by (simp_all add: sample_board_def board_type_def board_hours_def Let_def)
  have e: "cache_entry (json_board ?L) k t sample_data = Some (k, ''{}'', t)" for k t
    by (simp add: cache_entry_def sample_lib_def one_json_def)
  note fresh = fresh_board [OF board_world_miss, where L = ?L and q = "sample_board 2" and now = "38 * Hour" and now' = "38 * Hour",
      unfolded q sample_data_lib e]
  have same: "board_type (bq_Type (sample_board 1)) = board_type (bq_Type (sample_board 2))"
    "board_hours (bq_Hours (sample_board 1)) = board_hours (bq_Hours (sample_board 2))" by (simp_all add: q)
  from cached_board_is_board [OF memory.redis_server_axioms _ laws board_world_miss(1) fresh same, of "39 * Hour" "39 * Hour"]
  show ?thesis unfolding Let_def by (simp only: sample_server_simps) blast
qed

text \<open>
  The list of all items of an IP and the list filtered by the status named \<open>all\<close> share a cache entry. No item has that
  status: a request for it leaves an empty list in the cache, and the next request for all items of the IP is answered
  that empty list, whatever items the IP has.
\<close>

theorem status_all_hides_items:
  assumes "redis_server R view" and "srv_rdb S = Some R" and "go_laws L" and "quiet w"
    and "\<And>st. \<not> same_text (srv_gorm S) (SnapshotStatus_text st) ''all''"
    and "getIPItems S L t idStr (Inr (q\<lparr>iq_Status := ''all''\<rparr>)) w = ((r, Some entry), w1)"
  shows "\<exists>page pageSize w2. getIPItems S L t' idStr (Inr (q\<lparr>iq_Status := ''''\<rparr>)) (run_cache_write S (Some entry) w1) =
    ((successPaginatedWithCache [] 0 page pageSize True, None), w2)"
proof -
  define page where "page = or_default 1 (iq_Page q)"
  define size where "size = capped 50 (iq_PageSize q)"
  have none: "items_of S i ''all'' d = []" for i d using assms(5) by (simp add: items_of_def filter_empty_conv)
  obtain i where i: "parseID idStr = Inr i" using assms(6) by (cases "parseID idStr") (simp_all add: getIPItems_def with_ip_cached_def)
  obtain x where x: "find (\<lambda>ip. ip_DeletedAt ip = None \<and> ip_ID ip = i) (ip_metadata (srv_db S) (db_st w)) = Some x"
    using assms(4,6) i
    by (cases "find (\<lambda>ip. ip_DeletedAt ip = None \<and> ip_ID ip = i) (ip_metadata (srv_db S) (db_st w))")
      (simp_all add: getIPItems_def with_ip_cached_def first_ip_def db_find_def)
  let ?key = "items_key i ''all'' page size"
  let ?data = "\<lparr>ic_Items = [], ic_Total = 0, ic_Page = page, ic_PageSize = size, ic_CachedAt = RFC3339 (srv_zone S) t\<rparr>"
  have first: "first_ip S i v = (Some x, v)" if "quiet v" "db_st v = db_st w" for v
    using that x by (simp add: first_ip_def db_find_def)
  obtain c where c: "read_cache S (json_items L) ?key w = (c, w)" using quiet_read_cache [OF assms(4)] by (metis prod.collapse)
  have e: "cache_entry (json_items L) ?key IPDetailCacheTTL ?data = Some entry \<and> w1 = w"
    using assms(4,6) i first [OF assms(4) refl] c
    by (cases c) (auto simp: getIPItems_def with_ip_cached_def Let_def page_def [symmetric] size_def [symmetric] db_count_def db_find_def none
        select_page_def split: option.splits prod.splits)
  have ttl: "0 < IPDetailCacheTTL" by (simp add: IPDetailCacheTTL_def Minute_def Second_def)
  note own = redis_server.read_own_write [OF assms(1,2,4) go_laws.json_laws(3) [OF assms(3)] conjunct1 [OF e] ttl]
  have key: "items_key i '''' page size = ?key" by (simp add: items_key_def)
  show ?thesis using own e i first [of "run_cache_write S (Some entry) w"]
    by (simp add: getIPItems_def with_ip_cached_def Let_def page_def [symmetric] size_def [symmetric] key) blast
qed

definition item_cache :: itemsCacheData where
  "item_cache = \<lparr>ic_Items = [], ic_Total = 0, ic_Page = 1, ic_PageSize = 50, ic_CachedAt = RFC3339 JST 0\<rparr>"

definition all_items :: ItemsQuery where
  "all_items = \<lparr>iq_Status = ''all'', iq_Page = 0, iq_PageSize = 0\<rparr>"

definition items_world :: "(mem, tables) world" where
  "items_world = \<lparr>redis_st = mem_empty, db_st = no_tables\<lparr>t_ip := [sample_ip 7 IPStatusActive],
     t_items := t_items (db_st sample_listed)\<rparr>, outcomes = []\<rparr>"

theorem status_all_hides_items_witness:
  "items_of sample_server 7 '''' (db_st items_world) \<noteq> [] \<and> (\<exists>entry page pageSize w2.
     getIPItems sample_server (sample_lib no_json (one_json item_cache)) 0 ''7'' (Inr (all_items\<lparr>iq_Status := ''''\<rparr>))
       (run_cache_write sample_server (Some entry) items_world) = ((successPaginatedWithCache [] 0 page pageSize True, None), w2))"
proof -
  let ?L = "sample_lib no_json (one_json item_cache)"
  have laws: "go_laws ?L" by (rule sample_lib_laws) simp_all
  have st: "\<not> same_text (srv_gorm sample_server) (SnapshotStatus_text st) ''all''" for st
    by (cases st) (simp_all add: sample_gorm_def SnapshotStatus_text_def)
  have q: "quiet items_world" by (simp add: items_world_def quiet_def)
  have i: "parseID ''7'' = Inr 7" by (simp add: parseID_def Sscanf_u_def Let_def digits_val_def is_digit_def is_blank_def digit_val_def)
  have r: "redis_st items_world = mem_empty" by (simp add: items_world_def)
  then have g: "GET mem_redis key (redis_st items_world) = None" for key by (simp add: mem_redis_def mem_empty_def)
  have miss: "read_cache sample_server j key items_world = (None, items_world)" for j :: "itemsCacheData json" and key
    by (simp add: read_cache_def q g)
  have ip: "ip_metadata mem_db (db_st items_world) = [sample_ip 7 IPStatusActive]" by (simp add: items_world_def mem_db_def)
  have none: "items_of sample_server j ''all'' d = []" for j d using st by (simp add: items_of_def filter_empty_conv)
  have upd: "all_items\<lparr>iq_Status := ''all''\<rparr> = all_items" by (simp add: all_items_def)
  have "\<exists>r entry. getIPItems sample_server ?L 0 ''7'' (Inr (all_items\<lparr>iq_Status := ''all''\<rparr>)) items_world = ((r, Some entry), items_world)"
    unfolding upd using q none ip miss
    by (simp add: getIPItems_def with_ip_cached_def i first_ip_def db_find_def db_count_def sample_ip_def Let_def all_items_def or_default_def
        capped_def select_page_def page_offset_def wrap64_def sample_gorm_def)
      (simp add: cache_entry_def sample_lib_def one_json_def item_cache_def)
  then obtain r entry where eq: "getIPItems sample_server ?L 0 ''7'' (Inr (all_items\<lparr>iq_Status := ''all''\<rparr>)) items_world = ((r, Some entry), items_world)"
    by blast
  have "items_of sample_server 7 '''' (db_st items_world) \<noteq> []" by code_simp
  moreover have "srv_rdb sample_server = Some mem_redis" by simp
  ultimately show ?thesis using status_all_hides_items [OF memory.redis_server_axioms _ laws q st eq, of 0] by blast
qed

end
