(* ===== verification/Commands.thy ===== *)
theory Commands
  imports Boards
begin

text \<open>
  The commands: what \<open>cmd/analyzer/main.go\<close> builds from the configuration and the environment,
  \<open>cmd/import/main.go\<close>, and \<open>internal/model/db.go\<close>. Opening a connection is an argument that answers the store or an error;
  flags, logging, signals and listening are left out.
\<close>

section \<open>Configuration and connections\<close>

definition default_paths :: "string list" where
  "default_paths = [''configs/config.json'', ''config.json'', ''/etc/animetop/config.json'']"

text \<open>What the commands find outside: files, the environment, decoders.\<close>

record surroundings =
  su_json :: "string \<Rightarrow> Config option"
  su_readers :: readers
  su_dsn :: dsn_driver
  su_env :: environment
  su_files :: "string \<Rightarrow> file_read"
  su_stat :: "string \<Rightarrow> bool"

definition loadConfig :: "surroundings \<Rightarrow> string \<Rightarrow> config_error + Config" where
  "loadConfig su configFile = (let load = Load (su_json su) (su_readers su) (su_dsn su) (su_env su) (su_files su) in
     if configFile \<noteq> '''' then load [configFile]
     else (case find (su_stat su) default_paths of None \<Rightarrow> Inr DefaultConfig | Some path \<Rightarrow> load [path]))"

record redis_Options =
  ro_Addr :: string
  ro_Password :: string
  ro_DB :: int
  ro_PoolSize :: int
  ro_MinIdleConns :: int
  ro_DialTimeout :: int
  ro_ReadTimeout :: int
  ro_WriteTimeout :: int

definition or_text :: "string \<Rightarrow> string \<Rightarrow> string" where
  "or_text d x = (if x = '''' then d else x)"

definition or_positive :: "int \<Rightarrow> int \<Rightarrow> int" where
  "or_positive d x = (if x \<le> 0 then d else x)"

definition redis_options :: "environment \<Rightarrow> RedisConfig \<Rightarrow> redis_Options" where
  "redis_options env c = \<lparr>ro_Addr = or_text ''localhost:6379'' (or_text (env ''REDIS_ADDR'') (Addr c)),
     ro_Password = or_text (env ''REDIS_PASSWORD'') (Password c), ro_DB = 0, ro_PoolSize = or_positive 10 (PoolSize c),
     ro_MinIdleConns = or_positive 2 (MinIdleConns c), ro_DialTimeout = or_positive (5 * Second) (DialTimeout c),
     ro_ReadTimeout = or_positive (3 * Second) (ReadTimeout c), ro_WriteTimeout = or_positive (3 * Second) (WriteTimeout c)\<rparr>"

text \<open>\<open>NewClient\<close> and \<open>Ping\<close> are the argument \<open>dial\<close>.\<close>

definition initRedis :: "(redis_Options \<Rightarrow> 's redis option) \<Rightarrow> environment \<Rightarrow> RedisConfig \<Rightarrow> 's redis option" where
  "initRedis dial env c = dial (redis_options env c)"

definition mysql_dsn :: "environment \<Rightarrow> MySQLConfig \<Rightarrow> string" where
  "mysql_dsn env c = or_text ''root:@tcp(localhost:3306)/animetop?charset=utf8mb4&parseTime=True&loc=Local'' (or_text (env ''DB_DSN'') (DSN c))"

text \<open>The connection pool is left to the driver; the migration runs on request and may fail.\<close>

definition initMySQL :: "(string \<Rightarrow> 'd database option) \<Rightarrow> ('d database \<Rightarrow> bool) \<Rightarrow> environment \<Rightarrow> MySQLConfig \<Rightarrow> 'd database option" where
  "initMySQL connect AutoMigrate env c = (case connect (mysql_dsn env c) of None \<Rightarrow> None
     | Some db \<Rightarrow> if env ''AUTO_MIGRATE'' = ''true'' \<and> \<not> AutoMigrate db then None else Some db)"

record DBOptions =
  dbo_MaxIdleConns :: int
  dbo_MaxOpenConns :: int
  dbo_ConnMaxLifetime :: int
  dbo_LogLevel :: string

definition DefaultDBOptions :: DBOptions where
  "DefaultDBOptions = \<lparr>dbo_MaxIdleConns = 10, dbo_MaxOpenConns = 100, dbo_ConnMaxLifetime = Hour, dbo_LogLevel = ''info''\<rparr>"

text \<open>
  \<open>maskDSN\<close>: at the first colon that is not the last character, the text up to the first \<open>@\<close> is replaced; without one, or without
  a colon, the DSN is shown as it is. A colon at the end is followed by no other.
\<close>

definition maskDSN :: "string \<Rightarrow> string" where
  "maskDSN dsn = (let user = takeWhile (\<lambda>c. c \<noteq> CHR '':'') dsn; rest = dropWhile (\<lambda>c. c \<noteq> CHR '':'') dsn in
     case rest of [] \<Rightarrow> dsn
     | colon # secret \<Rightarrow> (case dropWhile (\<lambda>c. c \<noteq> CHR ''@'') secret of [] \<Rightarrow> dsn
         | sign # host \<Rightarrow> user @ CHR '':'' # ''***'' @ sign # host))"

section \<open>The analyzer\<close>

record api_Config =
  ac_Addr :: string
  ac_ReadTimeout :: int
  ac_WriteTimeout :: int
  ac_Debug :: bool
  ac_StaticDir :: string
  ac_EnableCORS :: bool
  ac_AdminAPIKey :: string

definition api_DefaultConfig :: api_Config where
  "api_DefaultConfig = \<lparr>ac_Addr = '':8080'', ac_ReadTimeout = 30 * Second, ac_WriteTimeout = 30 * Second, ac_Debug = False,
     ac_StaticDir = '''', ac_EnableCORS = False, ac_AdminAPIKey = ''''\<rparr>"

text \<open>What the packages outside give besides the stores.\<close>

record drivers =
  dr_codec :: codec
  dr_oor :: "rat \<Rightarrow> int"
  dr_mysql :: mysql
  dr_gorm :: gorm
  dr_zone :: int

definition NewIPScheduler :: "drivers \<Rightarrow> 'd database \<Rightarrow> 's client \<Rightarrow> ('s, 'd) world ScheduleStore \<Rightarrow> SchedulerConfig \<Rightarrow> ('s, 'd) IPScheduler" where
  "NewIPScheduler X db queue store cfg = \<lparr>sch_db = db, sch_queue = queue, sch_codec = dr_codec X, sch_store = store, sch_config = cfg,
     sch_oor = dr_oor X\<rparr>"

text \<open>The scheduler's archiver works on the database, and on Redis for the boards.\<close>

definition NewServer :: "drivers \<Rightarrow> 'd database \<Rightarrow> 's redis option \<Rightarrow> ('s, 'd) IPScheduler option \<Rightarrow> api_Config option \<Rightarrow> ('s, 'd) Server" where
  "NewServer X db rdb sched cfg = \<lparr>srv_db = db, srv_mysql = dr_mysql X, srv_gorm = dr_gorm X, srv_zone = dr_zone X, srv_rdb = rdb,
     srv_scheduler = sched, srv_cache = rdb,
     adminAPIKey = ac_AdminAPIKey (case cfg of None \<Rightarrow> api_DefaultConfig | Some c \<Rightarrow> c)\<rparr>"

definition analyzer_pipelineCfg :: "Config \<Rightarrow> PipelineConfig" where
  "analyzer_pipelineCfg cfg = \<lparr>pc_Workers = or_positive 2 (WorkerPoolSize (App cfg)), pc_PopTimeout = 5 * Second,
     pc_ProcessTimeout = 30 * Second, pc_RetryCount = 3, pc_RetryDelay = Second,
     pc_AlertThresholds = \<lparr>at_HighOutflow = HighOutflowThreshold (Analyzer cfg), at_LowLiquidity = LowLiquidityThreshold (Analyzer cfg),
       at_HighLiquidity = HighLiquidityThreshold (Analyzer cfg)\<rparr>,
     pc_IntervalAdjuster = \<lparr>iac_BaseInterval = BaseInterval (Scheduler cfg), iac_MinInterval = MinInterval (Scheduler cfg),
       iac_MaxInterval = MaxInterval (Scheduler cfg), iac_PagesOnSale = PagesOnSale (Scheduler cfg), iac_PagesSold = PagesSold (Scheduler cfg)\<rparr>,
     pc_ScheduleSlot = ScheduleSlot (Scheduler cfg)\<rparr>"

definition analyzer_apiCfg :: "environment \<Rightarrow> Config \<Rightarrow> api_Config" where
  "analyzer_apiCfg env cfg = \<lparr>ac_Addr = HTTPAddr (App cfg), ac_ReadTimeout = 30 * Second, ac_WriteTimeout = 30 * Second,
     ac_Debug = (Env (App cfg) = ''local''), ac_StaticDir = env ''STATIC_DIR'', ac_EnableCORS = (env ''ENABLE_CORS'' = ''true''),
     ac_AdminAPIKey = AdminAPIKey (App cfg)\<rparr>"

datatype startup_error = ConfigFailed config_error | MySQLFailed | RedisFailed | QueueFailed queue_error

record ('s, 'd) analyzer_system =
  as_config :: Config
  as_scheduler :: "('s, 'd) IPScheduler"
  as_pipeline :: "('s, 'd) Pipeline"
  as_server :: "('s, 'd) Server"

text \<open>\<open>main\<close> up to the context: every failure ends the process.\<close>

definition analyzer_main :: "surroundings \<Rightarrow> drivers \<Rightarrow> (string \<Rightarrow> 'd database option) \<Rightarrow> ('d database \<Rightarrow> bool) \<Rightarrow> (redis_Options \<Rightarrow> 's redis option)
    \<Rightarrow> string \<Rightarrow> startup_error + ('s, 'd) analyzer_system" where
  "analyzer_main su X connect AutoMigrate dial configFile = (case loadConfig su configFile of
     Inl e \<Rightarrow> Inl (ConfigFailed e)
   | Inr cfg \<Rightarrow> (case initMySQL connect AutoMigrate (su_env su) (MySQL cfg) of
       None \<Rightarrow> Inl MySQLFailed
     | Some db \<Rightarrow> (case initRedis dial (su_env su) (RedisC cfg) of
         None \<Rightarrow> Inl RedisFailed
       | Some rdb \<Rightarrow> (case NewClientWithRedis (Some rdb) of
           Inl e \<Rightarrow> Inl (QueueFailed e)
         | Inr queue \<Rightarrow>
            (let scheduleStore = NewRedisScheduleStore (dr_oor X) rdb;
                 ipScheduler = NewIPScheduler X db queue scheduleStore (Scheduler cfg)
             in Inr \<lparr>as_config = cfg, as_scheduler = ipScheduler,
                  as_pipeline = NewPipeline db (dr_mysql X) (dr_zone X) (dr_oor X) rdb queue (dr_codec X) (Some (Analyzer cfg))
                    (Some (analyzer_pipelineCfg cfg)) (Some (ScheduleIP ipScheduler)),
                  as_server = NewServer X db (Some rdb) (Some ipScheduler) (Some (analyzer_apiCfg (su_env su) cfg))\<rparr>)))))"

section \<open>The import command\<close>

text \<open>The entries of the file have the fields of a request to create an IP.\<close>

definition convertToModel :: "CreateIPRequest \<Rightarrow> IPMetadata" where
  "convertToModel e = new_ip e"

text \<open>
  \<open>ON DUPLICATE KEY UPDATE\<close> on the unique name: the columns the command lists, or none of them, and the number of affected rows
  as MySQL counts them (1 for a new row, 2 for a changed one, 0 for one that stays). GORM sets both times of
  the structure it inserts to the same reading of the clock.
\<close>

definition upserted_row :: "mysql \<Rightarrow> int \<Rightarrow> IPMetadata \<Rightarrow> IPMetadata \<Rightarrow> IPMetadata" where
  "upserted_row M now ip r = r\<lparr>ip_NameEN := ip_NameEN ip, ip_NameCN := ip_NameCN ip, ip_Category := ip_Category ip, ip_Tags := ip_Tags ip,
     ip_ImageURL := ip_ImageURL ip, ip_ExternalID := ip_ExternalID ip, ip_Notes := ip_Notes ip, ip_Weight := col_weight M (ip_Weight ip),
     ip_UpdatedAt := col_ms M now\<rparr>"

definition upsert_ip :: "mysql \<Rightarrow> gorm \<Rightarrow> 'd database \<Rightarrow> bool \<Rightarrow> int \<Rightarrow> IPMetadata \<Rightarrow> 'd \<Rightarrow> (nat \<times> IPMetadata) option \<times> 'd" where
  "upsert_ip M G D ups now ip d = (let rows = ip_metadata D d; ip' = ip\<lparr>ip_CreatedAt := now, ip_UpdatedAt := now\<rparr> in
     if \<not> ip_fits G ip then (None, d)
     else if list_ex (\<lambda>r. same_text G (ip_Name r) (ip_Name ip)) rows
       then (let rows' = (if ups then map (\<lambda>r. if same_text G (ip_Name r) (ip_Name ip) then upserted_row M now ip r else r) rows else rows)
             in (Some (if rows' = rows then 0 else 2, ip'), put_ip_metadata D rows' d))
     else (case new_ip_id G rows of None \<Rightarrow> (None, d) | Some i \<Rightarrow>
       (Some (1, ip'\<lparr>ip_ID := i\<rparr>), put_ip_metadata D (rows @ [ip'\<lparr>ip_ID := i, ip_Weight := col_weight M (ip_Weight ip),
          ip_CreatedAt := col_ms M now, ip_UpdatedAt := col_ms M now\<rparr>]) d)))"

record import_summary =
  im_created :: nat
  im_updated :: nat
  im_failed :: nat

definition count_upsert :: "(nat \<times> IPMetadata) option \<Rightarrow> import_summary \<Rightarrow> import_summary" where
  "count_upsert r p = (case r of None \<Rightarrow> p\<lparr>im_failed := im_failed p + 1\<rparr>
     | Some (affected, ip) \<Rightarrow> if affected = 0 then p
         else if ip_ID ip > 0 \<and> ip_CreatedAt ip \<noteq> ip_UpdatedAt ip then p\<lparr>im_updated := im_updated p + 1\<rparr>
         else p\<lparr>im_created := im_created p + 1\<rparr>)"

fun import_entries :: "mysql \<Rightarrow> gorm \<Rightarrow> 'd database \<Rightarrow> bool \<Rightarrow> (nat \<Rightarrow> int) \<Rightarrow> nat \<Rightarrow> CreateIPRequest list \<Rightarrow> import_summary \<Rightarrow> ('s, 'd) world
    \<Rightarrow> import_summary \<times> ('s, 'd) world" where
  "import_entries M G D ups clk k [] p w = (p, w)"
| "import_entries M G D ups clk k (e # es) p w = (if cq_Name e = '''' then import_entries M G D ups clk k es (p\<lparr>im_failed := im_failed p + 1\<rparr>) w
     else (case ddo (upsert_ip M G D ups (clk k) (convertToModel e)) w of
       (None, w1) \<Rightarrow> import_entries M G D ups clk (k + 1) es (count_upsert None p) w1
     | (Some r, w1) \<Rightarrow> import_entries M G D ups clk (k + 1) es (count_upsert r p) w1))"

definition import_main :: "mysql \<Rightarrow> gorm \<Rightarrow> 'd database \<Rightarrow> bool \<Rightarrow> bool \<Rightarrow> (nat \<Rightarrow> int) \<Rightarrow> CreateIPRequest list \<Rightarrow> ('s, 'd) world
    \<Rightarrow> import_summary option \<times> ('s, 'd) world" where
  "import_main M G D dryRun ups clk entries w = (if dryRun then (None, w)
     else (case import_entries M G D ups clk 0 entries \<lparr>im_created = 0, im_updated = 0, im_failed = 0\<rparr> w of (p, w1) \<Rightarrow> (Some p, w1)))"

end
