(* ===== verification/CommandTheorems.thy ===== *)
theory CommandTheorems
  imports Commands BoardTheorems PipelineProofs
begin

text \<open>Properties of the commands: what the analyzer builds meets the contracts of its parts, and the import of a file.\<close>

section \<open>The analyzer\<close>

lemma analyzer_parts:
  assumes "analyzer_main su X connect migrate dial f = Inr sys"
  obtains db R where "srv_db (as_server sys) = db" "srv_rdb (as_server sys) = Some R" "loadConfig su f = Inr (as_config sys)"
    "as_scheduler sys = NewIPScheduler X db (Some R) (NewRedisScheduleStore (dr_oor X) R) (Scheduler (as_config sys))"
    "as_pipeline sys = NewPipeline db (dr_mysql X) (dr_zone X) (dr_oor X) R (Some R) (dr_codec X) (Some (Analyzer (as_config sys)))
       (Some (analyzer_pipelineCfg (as_config sys))) (Some (ScheduleIP (as_scheduler sys)))"
    "as_server sys = NewServer X db (Some R) (Some (as_scheduler sys)) (Some (analyzer_apiCfg (su_env su) (as_config sys)))"
  using assms
  by (auto simp: analyzer_main_def NewClientWithRedis_def NewServer_def Let_def split: sum.splits option.splits)

lemma analyzer_contracts:
  assumes "analyzer_main su X connect migrate dial f = Inr sys" "srv_rdb (as_server sys) = Some R"
  shows "redis_scheduler R (as_scheduler sys)" "wired R (dr_oor X) (as_server sys)" "srv_scheduler (as_server sys) = Some (as_scheduler sys)"
    "srv_gorm (as_server sys) = dr_gorm X"
    "as_pipeline sys = NewPipeline (srv_db (as_server sys)) (dr_mysql X) (dr_zone X) (dr_oor X) R (Some R) (dr_codec X) (Some (Analyzer (as_config sys)))
       (Some (analyzer_pipelineCfg (as_config sys))) (Some (ScheduleIP (as_scheduler sys)))"
proof -
  obtain db R' where p: "srv_db (as_server sys) = db" "srv_rdb (as_server sys) = Some R'"
    "as_scheduler sys = NewIPScheduler X db (Some R') (NewRedisScheduleStore (dr_oor X) R') (Scheduler (as_config sys))"
    "as_pipeline sys = NewPipeline db (dr_mysql X) (dr_zone X) (dr_oor X) R' (Some R') (dr_codec X) (Some (Analyzer (as_config sys)))
       (Some (analyzer_pipelineCfg (as_config sys))) (Some (ScheduleIP (as_scheduler sys)))"
    "as_server sys = NewServer X db (Some R') (Some (as_scheduler sys)) (Some (analyzer_apiCfg (su_env su) (as_config sys)))"
    by (rule analyzer_parts [OF assms(1)])
  have R: "R' = R" using p(2) assms(2) by simp
  note p = p [unfolded R]
  show "redis_scheduler R (as_scheduler sys)" by (simp add: redis_scheduler_def p(3) NewIPScheduler_def)
  show "wired R (dr_oor X) (as_server sys)" by (simp add: wired_def p(5) NewServer_def) (simp add: p(3) NewIPScheduler_def)
  show "srv_scheduler (as_server sys) = Some (as_scheduler sys)" "srv_gorm (as_server sys) = dr_gorm X" by (simp_all add: p(5) NewServer_def)
  show "as_pipeline sys = NewPipeline (srv_db (as_server sys)) (dr_mysql X) (dr_zone X) (dr_oor X) R (Some R) (dr_codec X) (Some (Analyzer (as_config sys)))
       (Some (analyzer_pipelineCfg (as_config sys))) (Some (ScheduleIP (as_scheduler sys)))" unfolding p(1) by (rule p(4))
qed

lemma analyzer_ttls:
  assumes "0 \<le> ItemTTLAvailable (Analyzer c)" "0 \<le> ItemTTLSold (Analyzer c)"
  shows "ttls_ok (pl_stateMachine (NewPipeline db M z oor R (Some R) C (Some (Analyzer c)) pcfg s))"
  using assms by (simp add: NewPipeline_def Let_def NewStateMachine_def ttls_ok_def DefaultItemTTLAvailable_def DefaultItemTTLSold_def duration_defs)

section \<open>A sample analyzer\<close>

definition sample_surroundings :: surroundings where
  "sample_surroundings = \<lparr>su_json = (\<lambda>_. None), su_readers = \<lparr>ParseDuration = (\<lambda>_. None), ParseFloat = (\<lambda>_. None)\<rparr>,
     su_dsn = \<lparr>ParseDSN = (\<lambda>_. None), FormatDSN = dsn_Addr\<rparr>, su_env = (\<lambda>v. if v = ''ADMIN_API_KEY'' then ''secret'' else ''''),
     su_files = (\<lambda>_. NotExist), su_stat = (\<lambda>_. False)\<rparr>"

definition sample_drivers :: drivers where
  "sample_drivers = \<lparr>dr_codec = tagged_codec [] pipe_results, dr_oor = (\<lambda>_. 0), dr_mysql = sample_mysql, dr_gorm = sample_gorm, dr_zone = JST\<rparr>"

definition sample_system :: "(mem, tables) analyzer_system" where
  "sample_system = (case analyzer_main sample_surroundings sample_drivers (\<lambda>_. Some mem_db) (\<lambda>_. True) (\<lambda>_. Some mem_redis) '''' of Inr sys \<Rightarrow> sys)"

lemma sample_main: "analyzer_main sample_surroundings sample_drivers (\<lambda>_. Some mem_db) (\<lambda>_. True) (\<lambda>_. Some mem_redis) '''' = Inr sample_system"
  by (simp add: sample_system_def analyzer_main_def loadConfig_def default_paths_def initMySQL_def initRedis_def NewClientWithRedis_def Let_def
      sample_surroundings_def)

lemma sample_system_parts: "srv_rdb (as_server sample_system) = Some mem_redis" "srv_db (as_server sample_system) = mem_db"
  "as_config sample_system = DefaultConfig" "dr_gorm sample_drivers = sample_gorm"
  using sample_main
  by (simp_all add: sample_drivers_def analyzer_main_def loadConfig_def default_paths_def initMySQL_def initRedis_def NewClientWithRedis_def Let_def
      sample_surroundings_def NewServer_def [abs_def] sample_system_def)

section \<open>Contracts and configuration\<close>





section \<open>The import of a file\<close>

lemma upsert_times:
  assumes "fst (upsert_ip M G D ups now ip d) = Some (n, ip')"
  shows "ip_CreatedAt ip' = ip_UpdatedAt ip'"
  using assms by (auto simp: upsert_ip_def Let_def split: if_splits option.splits)

lemma count_upsert_updated: "r = None \<or> r = fst (upsert_ip M G D ups now ip d) \<Longrightarrow> im_updated (count_upsert r p) = im_updated p"
proof (cases r)
  case (Some x)
  assume r: "r = None \<or> r = fst (upsert_ip M G D ups now ip d)"
  obtain n new where x: "x = (n, new)" by fastforce
  with r Some have "fst (upsert_ip M G D ups now ip d) = Some (n, new)" by simp
  from upsert_times [OF this] show ?thesis using Some x by (simp add: count_upsert_def)
qed (simp add: count_upsert_def)

lemma ddo_value: "ddo c w = (Some r, w') \<Longrightarrow> \<exists>d. r = fst (c d)"
  by (auto simp: ddo_def remote_def Let_def split: outcome.splits)

lemma import_entries_updated: "im_updated (fst (import_entries M G D ups clk k es p w)) = im_updated p"
proof (induction es arbitrary: k p w)
  case (Cons e es)
  obtain r w1 where r: "ddo (upsert_ip M G D ups (clk k) (convertToModel e)) w = (r, w1)" by fastforce
  show ?case
  proof (cases r)
    case None
    then show ?thesis using r Cons.IH by (simp add: count_upsert_def [of None])
  next
    case (Some x)
    then obtain d where "x = fst (upsert_ip M G D ups (clk k) (convertToModel e) d)" using r ddo_value [of _ w x w1] by auto
    then have "im_updated (count_upsert x p) = im_updated p" by (intro count_upsert_updated disjI2)
    then show ?thesis using r Some Cons.IH by simp
  qed
qed simp

text \<open>The table of IPs under an import: a changed row keeps its id and its name, a new one has its own.\<close>

lemma upsert_table:
  assumes "sql_database D" "gorm_laws G" "ip_table_ok G (ip_metadata D d)"
  shows "ip_table_ok G (ip_metadata D (snd (upsert_ip M G D ups now ip d)))"
proof -
  define f where "f = (\<lambda>r. if same_text G (ip_Name r) (ip_Name ip) then upserted_row M now ip r else r)"
  let ?rows = "ip_metadata D d"
  have put: "ip_table_ok G (ip_metadata D (put_ip_metadata D rs d)) = ip_table_ok G rs" for rs
    by (rule ip_table_ok_mset) (rule sql_database.put_ip [OF assms(1)])
  have keep: "ip_ID (f r) = ip_ID r" "ip_Name (f r) = ip_Name r" for r by (simp_all add: f_def upserted_row_def)
  have "map ip_ID (map f ?rows) = map ip_ID ?rows" by (simp add: keep)
  then have u: "ip_table_ok G (map f ?rows)" using assms(3) unfolding ip_table_ok_def by (simp only: list.set_map ball_simps keep) blast
  have n: "ip_table_ok G (?rows @ [row])" if "new_ip_id G ?rows = Some i" "ip_ID row = i" "ip_Name row = ip_Name ip"
    "\<not> list_ex (\<lambda>r. same_text G (ip_Name r) (ip_Name ip)) ?rows" for i row
  proof -
    have "ip_ID row \<notin> ip_ID ` set ?rows" using gorm_laws.new_id [OF assms(2) that(1)] that(2) by simp
    moreover have no: "\<not> same_text G (ip_Name r) (ip_Name row)" if "r \<in> set ?rows" for r using \<open>\<not> list_ex _ _\<close> \<open>ip_Name row = _\<close> that by (auto simp: list_ex_iff)
    moreover have "\<not> same_text G (ip_Name row) (ip_Name r)" if "r \<in> set ?rows" for r using no [OF that] gorm_laws.text_sym [OF assms(2)] by blast
    ultimately show ?thesis using assms(3) by (simp add: ip_table_ok_def ball_Un)
  qed
  show ?thesis
  proof (cases "ip_fits G ip \<and> \<not> list_ex (\<lambda>r. same_text G (ip_Name r) (ip_Name ip)) ?rows")
    case True
    then show ?thesis using assms(3) n by (simp add: upsert_ip_def Let_def put split: option.splits)
  next
    case False
    then show ?thesis using assms(3) u by (auto simp: upsert_ip_def Let_def put f_def [symmetric])
  qed
qed

lemma import_entries_table:
  assumes "sql_database D" "gorm_laws G"
  shows "ip_table_ok G (ip_metadata D (db_st w)) \<Longrightarrow> ip_table_ok G (ip_metadata D (db_st (snd (import_entries M G D ups clk k es p w))))"
proof (induction es arbitrary: k p w)
  case (Cons e es)
  obtain r w1 where r: "ddo (upsert_ip M G D ups (clk k) (convertToModel e)) w = (r, w1)" by fastforce
  have "ip_table_ok G (ip_metadata D (db_st (snd (ddo (upsert_ip M G D ups (clk k) (convertToModel e)) w))))"
    by (rule ddo_preserves [where P = "\<lambda>d. ip_table_ok G (ip_metadata D d)"]) (erule upsert_table [OF assms], rule Cons.prems)
  then have "ip_table_ok G (ip_metadata D (db_st w1))" using r by simp
  then show ?case using Cons.IH Cons.prems r by (cases r) simp_all
qed simp

text \<open>
  The import command keeps the table of IPs well formed, whatever happens to its calls, but it never reports an update: it takes a row for
  updated when the two times of the structure it has inserted differ, and GORM sets both to the same reading of the
  clock. Every row it changes is counted as created.
\<close>

theorem import_reports_no_update:
  assumes "sql_database D" and "gorm_laws G" and "ip_table_ok G (ip_metadata D (db_st w))"
    and "import_main M G D False ups clk entries w = (Some p, w')"
  shows "ip_table_ok G (ip_metadata D (db_st w')) \<and> im_updated p = 0"
proof -
  let ?i = "import_entries M G D ups clk 0 entries \<lparr>im_created = 0, im_updated = 0, im_failed = 0\<rparr> w"
  have "p = fst ?i" "w' = snd ?i" using assms(4) by (auto simp: import_main_def split: prod.splits)
  then show ?thesis using import_entries_table [OF assms(1-3)] by (simp add: import_entries_updated)
qed

theorem import_reports_no_update_witness:
  "\<exists>p w'. import_main sample_mysql sample_gorm mem_db False True (\<lambda>_. 5) [sample_create] (sched_world [] [sample_ip 7 IPStatusActive] []) = (Some p, w') \<and>
     map ip_Weight (t_ip (db_st w')) = [2] \<and> im_created p = 1 \<and> im_updated p = 0"
proof -
  let ?w = "sched_world [] [sample_ip 7 IPStatusActive] []"
  let ?i = "import_main sample_mysql sample_gorm mem_db False True (\<lambda>_. 5) [sample_create] ?w"
  have t: "ip_table_ok sample_gorm (ip_metadata mem_db (db_st ?w))" by (simp add: ip_table_ok_def sched_world_def mem_db_def)
  have f: "fst ?i \<noteq> None" "map ip_Weight (t_ip (db_st (snd ?i))) = [2]" "im_created (the (fst ?i)) = 1" by code_simp+
  have eq: "?i = (Some (the (fst ?i)), snd ?i)" using f(1) by (simp add: prod_eq_iff)
  from import_reports_no_update [OF memdb.sql_database_axioms sample_gorm.gorm_laws_axioms t eq] show ?thesis
    using eq f(2,3) by (intro exI [of _ "the (fst ?i)"] exI [of _ "snd ?i"]) blast
qed

section \<open>Passwords in the log\<close>

text \<open>
  The data source name is logged without its password, as long as the password has no \<open>@\<close>: of one that has, everything after the first
  \<open>@\<close> is logged.
\<close>

theorem maskDSN_password:
  assumes "CHR '':'' \<notin> set user" and "CHR ''@'' \<notin> set secret"
  shows "maskDSN (user @ '':'' @ secret @ ''@'' @ rest) = user @ '':***@'' @ rest"
proof -
  have "takeWhile (\<lambda>c. c \<noteq> CHR '':'') (user @ '':'' @ secret @ ''@'' @ rest) = user"
    "dropWhile (\<lambda>c. c \<noteq> CHR '':'') (user @ '':'' @ secret @ ''@'' @ rest) = '':'' @ secret @ ''@'' @ rest"
    using assms(1) by (induction user) auto
  moreover have "dropWhile (\<lambda>c. c \<noteq> CHR ''@'') (secret @ ''@'' @ rest) = ''@'' @ rest" using assms(2) by (induction secret) auto
  ultimately show ?thesis by (simp add: maskDSN_def Let_def)
qed

theorem maskDSN_password_witness:
  "maskDSN ''root:hunter2@tcp(db)/x'' = ''root:***@tcp(db)/x'' \<and> maskDSN ''root:a@b@tcp(db)/x'' = ''root:***@b@tcp(db)/x''"
  using maskDSN_password [of "''root''" "''hunter2''" "''tcp(db)/x''"] maskDSN_password [of "''root''" "''a''" "''b@tcp(db)/x''"] by simp

end
