(* ===== verification/CrawlerCommand.thy ===== *)
theory CrawlerCommand
  imports CommandTheorems CrawlTheorems
begin

text \<open>
  The crawler command, \<open>cmd/crawler/main.go\<close>: the service it builds, which Redis it needs for that, and the way of a task from the
  queue of the analyzer through the crawler to the result queue.
\<close>

section \<open>The command\<close>

datatype crawler_startup_error = StartupFailed startup_error | ServiceFailed err

text \<open>
  \<open>NewService\<close> makes a connection of its own, from the configuration alone: address and password are those of the file, all other
  options are the driver's.
\<close>

definition service_options :: "RedisConfig \<Rightarrow> redis_Options" where
  "service_options c = \<lparr>ro_Addr = Addr c, ro_Password = Password c, ro_DB = 0, ro_PoolSize = 0, ro_MinIdleConns = 0,
     ro_DialTimeout = 0, ro_ReadTimeout = 0, ro_WriteTimeout = 0\<rparr>"

text \<open>A connection that cannot be made shows when it is first used, after the browser has started.\<close>

definition connect_service :: "(redis_Options \<Rightarrow> 's redis option) \<Rightarrow> ('s, 'b, 'e) parts \<Rightarrow> Config \<Rightarrow> string \<Rightarrow> ('s, 'd) world \<Rightarrow> 'b
    \<Rightarrow> (err + ('s, 'b, 'e) service \<times> ('s, 'd, 'b) crawler) \<times> ('s, 'd) world \<times> 'b" where
  "connect_service dial P c force w b = (case dial (service_options (RedisC c)) of
     Some R \<Rightarrow> NewService (P\<lparr>p_redis := R\<rparr>) c force w b
   | None \<Rightarrow> (case startBrowser (p_ext P) c False b of
       (Inl e, b1) \<Rightarrow> (Inl e, w, b1)
     | (Inr _, b1) \<Rightarrow> (Inl (errorf ''connect redis''), w, b1)))"

text \<open>\<open>main\<close> up to the worker: every failure ends the process.\<close>

definition crawler_main :: "surroundings \<Rightarrow> ('s, 'b, 'e) parts \<Rightarrow> (redis_Options \<Rightarrow> 's redis option) \<Rightarrow> string \<Rightarrow> ('s, 'd) world \<Rightarrow> 'b
    \<Rightarrow> (crawler_startup_error + ('s, 'b, 'e) service \<times> ('s, 'd, 'b) crawler) \<times> ('s, 'd) world \<times> 'b" where
  "crawler_main su P dial configFile w b = (case loadConfig su configFile of
     Inl e \<Rightarrow> (Inl (StartupFailed (ConfigFailed e)), w, b)
   | Inr c \<Rightarrow> (case initRedis dial (su_env su) (RedisC c) of
       None \<Rightarrow> (Inl (StartupFailed RedisFailed), w, b)
     | Some R \<Rightarrow> (case NewClientWithRedis (Some R) of
         Inl e \<Rightarrow> (Inl (StartupFailed (QueueFailed e)), w, b)
       | Inr queue \<Rightarrow> (case connect_service dial (P\<lparr>p_queue := queue\<rparr>) c (su_env su ''FORCE_PROXY_ONCE'') w b of
           (Inl e, w1, b1) \<Rightarrow> (Inl (ServiceFailed e), w1, b1)
         | (Inr sc, w1, b1) \<Rightarrow> (Inr sc, w1, b1)))))"

text \<open>The metrics are served at the configured address, \<open>:2112\<close> without one.\<close>

definition metricsAddr :: "Config \<Rightarrow> string" where
  "metricsAddr c = or_text '':2112'' (MetricsAddr (App c))"

section \<open>What it builds\<close>



lemma crawler_dialled:
  assumes "crawler_main su P dial f w b = (Inr (S, st), w', b')"
  obtains Q R where "dial (redis_options (su_env su) (RedisC (cfg S))) = Some Q" "dial (service_options (RedisC (cfg S))) = Some R"
    "loadConfig su f = Inr (cfg S)" "redisQueue S = Some Q" "rdb S = Some R" "rateLimiter S = None \<or> rateLimiter S = Some R"
    "ext S = p_ext P" "counters S = p_counters P" "queueCodec S = p_codec P"
  using assms
  by (auto simp: crawler_main_def connect_service_def NewService_def new_service_def new_limiter_def NewClientWithRedis_def initRedis_def Let_def
      split: sum.splits option.splits prod.splits if_splits)

lemma crawler_parts:
  assumes "crawler_main su P dial f w b = (Inr (S, st), w', b')" and "\<forall>opts x. dial opts = Some x \<longrightarrow> x = R"
  shows "loadConfig su f = Inr (cfg S)" "redisQueue S = Some R" "rdb S = Some R" "rateLimiter S = None \<or> rateLimiter S = Some R"
    "ext S = p_ext P" "counters S = p_counters P" "queueCodec S = p_codec P"
  using crawler_dialled [OF assms(1)] assms(2) by metis+

lemma crawler_contract:
  assumes "crawler_main su P dial f w b = (Inr (S, st), w', b')" and "\<forall>opts x. dial opts = Some x \<longrightarrow> x = R"
    and "redis_counters R view (p_counters P)" and "outside_laws (p_ext P)" and "0 < ProxyCooldown (App (cfg S))"
  shows "crawler_service R view S"
  using crawler_parts [OF assms(1,2)] assms(3-5)
  by (intro crawler_service.intro crawler_service_axioms.intro) simp_all

lemma analyzer_dialled:
  assumes "analyzer_main su X connect migrate dial f = Inr sys"
  shows "\<exists>Q. dial (redis_options (su_env su) (RedisC (as_config sys))) = Some Q \<and> sch_queue (as_scheduler sys) = Some Q \<and>
    loadConfig su f = Inr (as_config sys)"
  using assms
  by (auto simp: analyzer_main_def initRedis_def NewClientWithRedis_def NewIPScheduler_def Let_def split: sum.splits option.splits)

section \<open>Properties\<close>


definition shared_system :: "(mem, tables) analyzer_system" where
  "shared_system = (case analyzer_main sample_surroundings (sample_drivers\<lparr>dr_codec := sample_codec\<rparr>) (\<lambda>_. Some mem_db) (\<lambda>_. True)
     (\<lambda>_. Some mem_redis) '''' of Inr sys \<Rightarrow> sys)"

definition shared_parts :: "(mem, int, node) parts" where
  "shared_parts = lab_parts sample_codec (lab None (''title'', ''url'') (Won 0) [])"

lemma shared_main: "analyzer_main sample_surroundings (sample_drivers\<lparr>dr_codec := sample_codec\<rparr>) (\<lambda>_. Some mem_db) (\<lambda>_. True)
     (\<lambda>_. Some mem_redis) '''' = Inr shared_system"
  "sch_queue (as_scheduler shared_system) = Some mem_redis" "as_config shared_system = DefaultConfig"
  by (simp_all add: shared_system_def analyzer_main_def loadConfig_def default_paths_def initMySQL_def initRedis_def NewClientWithRedis_def Let_def
      sample_surroundings_def NewIPScheduler_def)

lemma shared_crawler: "\<exists>S st w b. crawler_main sample_surroundings shared_parts (\<lambda>_. Some mem_redis) '''' (sample_world mem_empty []) 0 = (Inr (S, st), w, b)"
proof -
  have "quiet (sample_world mem_empty [])" by (simp add: sample_world_def quiet_def)
  then have "isl (fst (crawler_main sample_surroundings shared_parts (\<lambda>_. Some mem_redis) '''' (sample_world mem_empty []) 0)) = False"
    by (simp add: crawler_main_def connect_service_def NewService_def loadConfig_def default_paths_def initRedis_def NewClientWithRedis_def Let_def
      sample_surroundings_def shared_parts_def lab_parts_def startBrowser_def browser_bin_def proxy_of_def lab_def DefaultConfig_def)
  then show ?thesis by (metis isl_def prod.collapse sum.exhaust)
qed


text \<open>
  Started without a configuration file, a crawler never gets as far as its worker when Redis wants the password of the environment
  variable \<open>REDIS_PASSWORD\<close>: the queue connects with it, as in the analyzer, but the service connects again with the empty
  password of the default configuration.
\<close>

theorem env_password_stops_crawler:
  assumes "\<forall>path \<in> set default_paths. \<not> su_stat su path" and "su_env su ''REDIS_PASSWORD'' = pw" and "pw \<noteq> ''''"
    and "\<forall>opts. dial opts = (if ro_Password opts = pw then Some R else None)"
  shows "initRedis dial (su_env su) (RedisC DefaultConfig) = Some R \<and> (\<exists>e. fst (crawler_main su P dial '''' w b) = Inl (ServiceFailed e))"
proof -
  have "find (su_stat su) default_paths = None" using assms(1) by (simp add: find_None_iff)
  then have load: "loadConfig su '''' = Inr DefaultConfig" by (simp add: loadConfig_def)
  have queue: "initRedis dial (su_env su) (RedisC DefaultConfig) = Some R"
    using assms(2-4) by (simp add: initRedis_def redis_options_def or_text_def DefaultConfig_def)
  have "dial (service_options (RedisC DefaultConfig)) = None"
    using assms(3,4) by (simp add: service_options_def DefaultConfig_def)
  then obtain e w1 b1 where "connect_service dial (P\<lparr>p_queue := Some R\<rparr>) DefaultConfig (su_env su ''FORCE_PROXY_ONCE'') w b = (Inl e, w1, b1)"
    by (cases "startBrowser (p_ext P) DefaultConfig False b"; cases "fst (startBrowser (p_ext P) DefaultConfig False b)")
      (auto simp: connect_service_def)
  then have "fst (crawler_main su P dial '''' w b) = Inl (ServiceFailed e)"
    by (simp add: crawler_main_def load queue NewClientWithRedis_def)
  with queue show ?thesis by blast
qed

theorem env_password_stops_crawler_witness:
  "\<exists>e. fst (crawler_main (sample_surroundings\<lparr>su_env := (\<lambda>v. ''secret'')\<rparr>) shared_parts (\<lambda>opts. if ro_Password opts = ''secret'' then Some mem_redis else None)
     '''' (sample_world mem_empty []) 0) = Inl (ServiceFailed e)"
proof -
  let ?su = "sample_surroundings\<lparr>su_env := (\<lambda>v. ''secret'')\<rparr>" and ?dial = "\<lambda>opts. if ro_Password opts = ''secret'' then Some mem_redis else None"
  have "\<forall>path \<in> set default_paths. \<not> su_stat ?su path" "su_env ?su ''REDIS_PASSWORD'' = ''secret''" "''secret'' \<noteq> ''''"
    "\<forall>opts. ?dial opts = (if ro_Password opts = ''secret'' then Some mem_redis else None)"
    by (simp_all add: sample_surroundings_def)
  then show ?thesis by (rule conjunct2 [OF env_password_stops_crawler])
qed

end
