(* ===== verification/Startup.thy ===== *)
theory Startup
  imports CommandTheorems
begin

text \<open>
  Starting the analyzer: \<open>main\<close> of \<open>cmd/analyzer/main.go\<close> from the start of the pipeline on. The recovery loops of the two queues are shown
  to be one loop, which ends and leaves tables and schedule alone; then a start brings the schedule in step with the table of IPs,
  and from there requests and passes keep it so.
\<close>

section \<open>The start\<close>

datatype start_error = PipelineStartFailed | SchedulerStartFailed sched_error

text \<open>The pipeline first, then the scheduler, both idle so far; \<open>None\<close> when the fuel of a recovery loop or the events of a wait run out.\<close>

definition analyzer_start :: "nat \<Rightarrow> int \<Rightarrow> pass \<Rightarrow> ('s, 'd) analyzer_system \<Rightarrow> ('s, 'd) world
    \<Rightarrow> (start_error option \<times> bool \<times> sched_state \<times> ('s, 'd) world) option" where
  "analyzer_start fuel now p sys w = (let idle = \<lparr>running = False, loops = False\<rparr> in
     case pipeline_Start fuel (as_pipeline sys) False w of
       None \<Rightarrow> None
     | Some (Inl _, r, w1) \<Rightarrow> Some (Some PipelineStartFailed, r, idle, w1)
     | Some (Inr _, r, w1) \<Rightarrow> (case Start (as_scheduler sys) fuel now p idle w1 of
         None \<Rightarrow> None
       | Some (e, st, w2) \<Rightarrow> Some (map_option SchedulerStartFailed e, r, st, w2)))"

text \<open>Shutting down, after the servers: the scheduler, then the pipeline.\<close>

definition analyzer_stop :: "bool \<times> sched_state \<Rightarrow> bool \<times> sched_state" where
  "analyzer_stop x = (case x of (r, st) \<Rightarrow> (let st1 = Stop st in (pipeline_Stop r, st1)))"

section \<open>Recovery\<close>

text \<open>One loop for tasks and results: \<open>after\<close> is what follows the move of an entry.\<close>

fun recover_loop :: "nat \<Rightarrow> 's redis \<Rightarrow> string \<Rightarrow> string \<Rightarrow> (string \<Rightarrow> ('s, 'd) world \<Rightarrow> ('s, 'd) world) \<Rightarrow> nat \<Rightarrow> ('s, 'd) world
    \<Rightarrow> (nat \<times> queue_error option \<times> ('s, 'd) world) option" where
  "recover_loop 0 R k k' after n w = None"
| "recover_loop (Suc fuel) R k k' after n w = (case rdo (RPOPLPUSH R k k') w of
     (None, w1) \<Rightarrow> Some (n, Some ErrRedis, w1)
   | (Some None, w1) \<Rightarrow> Some (n, None, w1)
   | (Some (Some raw), w1) \<Rightarrow> recover_loop fuel R k k' after (n + 1) (after raw w1))"

definition forget :: "'s redis \<Rightarrow> string \<Rightarrow> string option \<Rightarrow> ('s, 'd) world \<Rightarrow> ('s, 'd) world" where
  "forget R k tid w = (case tid of None \<Rightarrow> w | Some i \<Rightarrow> if i \<noteq> '''' then snd (rdo (writec (HDEL R k i)) w) else w)"

lemma recover_tasks_loop: "recover_tasks fuel R C n w =
    recover_loop fuel R KeyTaskProcessingQueue KeyTaskQueue (\<lambda>raw. forget R KeyTaskStartedHash (map_option req_TaskId (UnmarshalReq C raw))) n w"
  by (induction fuel arbitrary: n w) (auto simp: forget_def split: prod.split option.split)

lemma recover_results_loop: "recover_results fuel R C n w =
    recover_loop fuel R KeyResultProcessingQueue KeyResultQueue (\<lambda>raw. forget R KeyResultStartedHash (map_option resp_TaskId (UnmarshalResp C raw))) n w"
  by (induction fuel arbitrary: n w) (auto simp: forget_def split: prod.split option.split)

context redis_server
begin

lemma forget_quiet:
  assumes "quiet w"
  shows "quiet (forget R k tid w)" "db_st (forget R k tid w) = db_st w" "zsets (view (redis_st (forget R k tid w))) = zsets (view (redis_st w))"
    "lists (view (redis_st (forget R k tid w))) = lists (view (redis_st w))"
  using assms by (auto simp: forget_def hdel split: option.split)

lemma recover_loop_quiet:
  assumes "k \<noteq> k'"
  shows "quiet w \<Longrightarrow> length (lists (view (redis_st w)) k) < fuel \<Longrightarrow>
    \<exists>m w'. recover_loop fuel R k k' (\<lambda>raw. forget R h (g raw)) n w = Some (m, None, w') \<and> quiet w' \<and> db_st w' = db_st w \<and>
      zsets (view (redis_st w')) = zsets (view (redis_st w)) \<and> (\<forall>j. j \<noteq> k \<longrightarrow> j \<noteq> k' \<longrightarrow> lists (view (redis_st w')) j = lists (view (redis_st w)) j)"
proof (induction fuel arbitrary: n w)
  case (Suc fuel)
  show ?case
  proof (cases "lists (view (redis_st w)) k = []")
    case True
    then show ?thesis using Suc.prems rpoplpush_nil [OF True, of k'] by simp
  next
    case False
    define w1 where "w1 = w\<lparr>redis_st := snd (RPOPLPUSH R k k' (redis_st w))\<rparr>"
    define raw where "raw = last (lists (view (redis_st w)) k)"
    have r: "rdo (RPOPLPUSH R k k') w = (Some (Some raw), w1)"
      using Suc.prems(1) rpoplpush_val [OF False, of k'] by (simp add: raw_def w1_def)
    have v: "quiet w1" "db_st w1 = db_st w" "view (redis_st w1) = view (snd (RPOPLPUSH R k k' (redis_st w)))"
      using Suc.prems(1) by (simp_all add: w1_def)
    note v' = v(3) [unfolded rpoplpush_view [OF False assms]]
    let ?w2 = "forget R h (g raw) w1"
    have len: "length (lists (view (redis_st ?w2)) k) < fuel"
      using forget_quiet(4) [OF v(1)] v' Suc.prems(2) assms length_greater_0_conv [THEN iffD2, OF False] by (simp, arith)
    from Suc.IH [OF forget_quiet(1) [OF v(1)] len, of "n + 1"] obtain m w' where
      "recover_loop fuel R k k' (\<lambda>raw. forget R h (g raw)) (n + 1) ?w2 = Some (m, None, w')" "quiet w'" "db_st w' = db_st ?w2"
      "zsets (view (redis_st w')) = zsets (view (redis_st ?w2))"
      "\<forall>j. j \<noteq> k \<longrightarrow> j \<noteq> k' \<longrightarrow> lists (view (redis_st w')) j = lists (view (redis_st ?w2)) j" by blast
    then show ?thesis using r forget_quiet [OF v(1)] v(2) v' by simp
  qed
qed simp

end

section \<open>The schedule after a start\<close>

text \<open>Clock readings and times of crawls that a score holds exactly: nothing was crawled in the future.\<close>

definition start_times_ok :: "('s, 'd) IPScheduler \<Rightarrow> int \<Rightarrow> IPMetadata list \<Rightarrow> bool" where
  "start_times_ok s now rows \<longleftrightarrow> 0 \<le> now \<and> 0 \<le> MinInterval (sch_config s) \<and> MinInterval (sch_config s) \<le> MaxInterval (sch_config s) \<and>
     Unix (now + MaxInterval (sch_config s) + int (length rows) * 10 * Second) \<le> 2 ^ 53 \<and>
     (\<forall>r \<in> set rows. case ip_LastCrawledAt r of None \<Rightarrow> True | Some t \<Rightarrow> 0 \<le> t \<and> t \<le> now)"

lemma init_time_exact:
  assumes "start_times_ok s now rows" "r \<in> set rows" "i \<le> length rows"
  shows "exact_time (init_time s now i r)"
proof -
  let ?m = "now + MaxInterval (sch_config s) + int (length rows) * 10 * Second"
  have i: "0 \<le> int i * 10 * Second" "int i * 10 * Second \<le> int (length rows) * 10 * Second" using assms(3) by (simp_all add: Second_def)
  have c: "0 \<le> CalculateInterval oor (sch_config s) x" "CalculateInterval oor (sch_config s) x \<le> MaxInterval (sch_config s)" for oor x
    using assms(1) by (auto simp: start_times_ok_def CalculateInterval_def Let_def)
  have "0 \<le> init_time s now i r \<and> init_time s now i r \<le> ?m"
  proof (cases "ip_LastCrawledAt r")
    case None
    then show ?thesis using assms(1) i by (auto simp: init_time_def start_times_ok_def)
  next
    case (Some t)
    then have "0 \<le> t" "t \<le> now" using assms(1,2) by (auto simp: start_times_ok_def)
    then show ?thesis using Some assms(1) i c [of "sch_oor s" "ip_Weight r"]
      by (auto simp: init_time_def Let_def start_times_ok_def Second_def)
  qed
  then have "0 \<le> Unix (init_time s now i r)" "Unix (init_time s now i r) \<le> Unix ?m"
    unfolding Unix_def by (auto simp: Second_def pos_imp_zdiv_nonneg_iff intro!: zdiv_mono1)
  then show ?thesis using assms(1) by (simp add: exact_time_def start_times_ok_def)
qed

lemma init_schedules_ids: "map fst (init_schedules s now i rs) = map ip_ID rs"
  by (induction rs arbitrary: i) simp_all

lemma init_schedules_exact:
  "start_times_ok s now rows \<Longrightarrow> set rs \<subseteq> set rows \<Longrightarrow> i + length rs \<le> length rows \<Longrightarrow> list_all (\<lambda>(j, t). exact_time t) (init_schedules s now i rs)"
  by (induction rs arbitrary: i) (simp_all add: init_time_exact)

context api_scheduler
begin

lemma init_synced:
  assumes "fine w" "start_times_ok s now (ips (db_st w))" "zset_times R w = Map.empty \<or> dom (zset_times R w) = active_ids (ips (db_st w))"
  shows "\<exists>w'. initScheduleTimes s now w = (False, w') \<and> synced True w'"
proof -
  let ?act = "filter (\<lambda>ip. ip_DeletedAt ip = None \<and> ip_Status ip = IPStatusActive) (ips (db_st w))"
  have q: "quiet w" "zset_ok R w" using assms(1) by (simp_all add: fine_def)
  have st: "sch_store s = NewRedisScheduleStore (sch_oor s) R" using on_redis by (simp add: redis_scheduler_def)
  have D: "sch_db s = srv_db S" using env_wired has_scheduler by (simp add: wired_def)
  have ids: "active_ids (ips (db_st w)) = ip_ID ` set ?act" by (auto simp: active_ids_def)
  obtain n where n: "Count R w = (Some n, w)" using q(1) by (simp add: Count_def)
  have card: "n = card (dom (zset_times R w))" "finite (dom (zset_times R w))"
    using store.count [OF q(2), of oor "Some n" w] n by (simp_all add: NewRedisScheduleStore_def)
  have act: "getActiveIPs s w = (Some ?act, w)" using q(1) by (simp add: getActiveIPs_def D)
  show ?thesis
  proof (cases "0 < n \<or> ?act = []")
    case True
    then have "initScheduleTimes s now w = (False, w)" using n act by (auto simp: initScheduleTimes_def st NewRedisScheduleStore_def)
    moreover have "dom (zset_times R w) = active_ids (ips (db_st w))"
    proof (cases "?act = []")
      case none: True
      have "active_ids (ips (db_st w)) = {}" unfolding ids none by simp
      then show ?thesis using assms(3) by auto
    next
      case False
      then have "dom (zset_times R w) \<noteq> {}" using True card by auto
      then show ?thesis using assms(3) by auto
    qed
    ultimately show ?thesis using assms(1) by (simp add: synced_def in_step_def)
  next
    case False
    then have e: "zset_times R w = Map.empty" using card by simp
    define sch where "sch = init_schedules s now 0 ?act"
    have ex: "list_all (\<lambda>(j, t). exact_time t) sch"
      unfolding sch_def by (rule init_schedules_exact [OF assms(2)]) (simp_all add: length_filter_le)
    obtain w' where w': "ScheduleBatch R sch w = (Some (), w')" "quiet w'" "db_st w' = db_st w"
      using q(1) by (cases "sch = []") (simp_all add: ScheduleBatch_def)
    have b: "api_ScheduleBatch (NewRedisScheduleStore oor R) = Some (ScheduleBatch R)" by (simp add: NewRedisScheduleStore_def)
    have t: "zset_ok R w'" "zset_times R w' = map_of (rev (map (\<lambda>(i, t). (i, Unix t)) sch))"
      using store.batch [OF b q(2) ex w'(1)] e by simp_all
    have "fst ` set (map (\<lambda>(i, t). (i, Unix t)) sch) = set (map fst sch)" by force
    then have "dom (zset_times R w') = active_ids (ips (db_st w'))"
      unfolding t(2) dom_map_of_conv_image_fst set_rev ids w'(3) by (simp add: sch_def init_schedules_ids)
    then have "synced True w'" using assms(1) t(1) w' by (simp add: synced_def fine_def in_step_def)
    moreover have "initScheduleTimes s now w = (False, w')"
      using False n act w'(1) by (simp add: initScheduleTimes_def st NewRedisScheduleStore_def sch_def Let_def)
    ultimately show ?thesis by blast
  qed
qed

end

section \<open>Properties\<close>




definition start_world :: "(mem, tables) world" where
  "start_world = sched_world [] [sample_ip 7 IPStatusActive, (sample_ip 8 IPStatusPaused)\<lparr>ip_Name := ''bocchi''\<rparr>] []"

lemma start_world_facts: "quiet start_world" "zset_ok mem_redis start_world" "zset_times mem_redis start_world = Map.empty"
  "length (lists (mem_view (redis_st start_world)) KeyTaskProcessingQueue) < 1"
  "length (lists (mem_view (redis_st start_world)) KeyResultProcessingQueue) < 1"
proof -
  show "quiet start_world" "zset_ok mem_redis start_world" by code_simp+
  show "zset_times mem_redis start_world = Map.empty"
    by (simp add: memory.zset_times_view fun_eq_iff start_world_def sched_world_def mem_view_def mem_empty_def)
  show "length (lists (mem_view (redis_st start_world)) KeyTaskProcessingQueue) < 1"
    "length (lists (mem_view (redis_st start_world)) KeyResultProcessingQueue) < 1"
    by (simp_all add: start_world_def sched_world_def mem_view_def mem_empty_def)
qed


end
