(* ===== verification/Spec2Isabelle.thy ===== *)
theory Spec2Isabelle
  imports QueueProofs SchedulerProofs StateMachine Interval PipelineProofs RateLimit ArchiverProofs CrawlTheorems BoardTheorems CommandTheorems CrawlerCommand Startup
begin

text \<open>
  \<^bold>\<open>animehot\<close> watches how fast the goods of anime IPs sell on a second-hand market. The repository is a Go program of two services and
  a tool. The \<^emph>\<open>analyzer\<close> (\<open>cmd/analyzer\<close>) holds the scheduler, the analysis pipeline and the HTTP API; the \<^emph>\<open>crawler\<close> (\<open>cmd/crawler\<close>)
  drives a browser over search pages; \<open>cmd/import\<close> loads IPs from a file. They share a Redis server and a MySQL database: the
  scheduler takes the IPs that are due from a sorted set and pushes one task for each to a queue; a crawler pops a task, reads the
  on-sale and sold pages of the keyword and pushes a response; the pipeline pops the response, compares the items with their last known
  states, adds the new and sold ones to hourly statistics, adjusts the weight of the IP and schedules its next crawl;
  every night an archiver rolls the hours up to days, weeks and months; the API edits IPs and answers boards and statistics.

  \<^bold>\<open>How the program is modelled.\<close> Every operation is a HOL function on an explicit state. Redis, MySQL with GORM, the protobuf
  encoding, the browser, the clock and the random numbers are not in the repository: they are records of functions passed as
  arguments, and what the code relies on of them are the locales \<open>redis_server\<close>, \<open>sql_database\<close>, \<open>gorm_laws\<close>, \<open>protojson\<close>,
  \<open>lua_numbers\<close>, \<open>go_laws\<close>, \<open>redis_counters\<close> and \<open>outside_laws\<close>, each interpreted on an implementation in memory. A \<open>world\<close> carries the
  two stores and the list of what will happen to the next remote calls: each may be lost before or after its effect, or sent
  again. A theorem without \<open>quiet\<close> holds whatever happens to the calls; \<open>quiet\<close> says that none is lost. Go's integers are words or integers with
  the wrap-around written out, \<open>float64\<close> is rounding to 53 bits (\<open>Float64\<close>), times are nanoseconds, texts are byte lists,
  and every error of the code is a value.

  \<^bold>\<open>The theories\<close> (all paths under \<open>src/\<close>).
  \<^item> \<open>Prelude\<close>, \<open>Float64\<close>, \<open>Calendar\<close>, \<open>Text\<close>, \<open>TimeText\<close>: Go's numbers, times and texts as the sources use them. \<open>Redis\<close>: the commands
    and their laws, lost calls, a server in memory. \<open>Proto\<close>: the messages of \<open>proto/pb\<close>. \<open>Model\<close>: the rows of
    \<open>internal/model/ip.go\<close>, the tables and a database in memory. \<open>Config\<close>: \<open>internal/config/config.go\<close>.
  \<^item> \<open>Queue\<close>, \<open>QueueProofs\<close>: \<open>internal/pkg/redisqueue/client.go\<close>. No interleaving of its commands, and no loss of a call, gives an IP
    two tasks or loses a task; what the janitor does with stuck tasks.
  \<^item> \<open>ScheduleStore\<close>, \<open>Scheduler\<close>, \<open>SchedulerProofs\<close>: \<open>internal/scheduler\<close>. The contract \<open>schedule_store\<close> of the sorted set, met on Redis by
    a sublocale; the scheduler's lemmas in \<open>scheduler_env\<close> rest on the contract alone.
  \<^item> \<open>StateMachine\<close>, \<open>Interval\<close>, \<open>Aggregator\<close>, \<open>Cache\<close>, \<open>Pipeline\<close>, \<open>PipelineProofs\<close>: \<open>internal/analyzer\<close>. The pipelined batch agrees with
    item-by-item processing; the hourly table implements totals; intervals stay within their limits and return to the base; a
    result is counted once or kept. \<open>foreign_part\<close> and \<open>pipeline_env\<close> state what a part of the pipeline leaves alone.
  \<^item> \<open>Archiver\<close>, \<open>ArchiverProofs\<close>: \<open>internal/analyzer/archiver.go\<close>. A week is the sum of its hours; the cleanup keeps what is still needed.
    \<open>period_table\<close> is the contract of the three period tables.
  \<^item> \<open>RateLimit\<close>: \<open>internal/pkg/ratelimit\<close>, the Lua token bucket: its bound and its abstract specification.
  \<^item> \<open>Pages\<close>, \<open>Service\<close>, \<open>Fetch\<close>, \<open>Crawl\<close>, \<open>CrawlProofs\<close>, \<open>CrawlTheorems\<close>: \<open>internal/crawler\<close>. Search addresses and prices read back;
    a crawl returns and leaves foreign keys alone (locale \<open>crawler_service\<close>), what its response holds, what a worker's turn does
    with a task, the throttle, the janitor and the proxy.
  \<^item> \<open>Api\<close>, \<open>Boards\<close>, \<open>ApiProofs\<close>, \<open>ApiSync\<close>, \<open>ApiTheorems\<close>, \<open>BoardTheorems\<close>: \<open>internal/api\<close>. \<open>serve\<close> answers every route. Reads change nothing but
    caches; key types and the table of IPs are kept (\<open>kept_tables\<close>, \<open>kept_state\<close>, \<open>api_env\<close>); the schedule follows the table through any run of requests
    and passes (\<open>api_sync\<close>, \<open>api_scheduler\<close>, \<open>service_run\<close>); boards are the top of their IPs, from the tables or the cache.
  \<^item> \<open>Commands\<close>, \<open>CommandTheorems\<close>, \<open>CrawlerCommand\<close>, \<open>Startup\<close>: \<open>cmd\<close> and \<open>internal/model/db.go\<close>. What \<open>main\<close> builds meets the contracts; a task
    pushed by the analyzer comes back from the crawler; a start brings the schedule in step.
  \<^item> This theory: the loop from a crawl result back to the schedule, through the whole analyzer.

  \<^bold>\<open>Fuel and bounds.\<close> The recovery loops of the queue take fuel; more fuel than entries in the processing list is enough
  (\<open>RecoverOrphanedTasks_returns\<close>, \<open>recover_loop_quiet\<close>). A page is scrolled until its deadline and a task waits for the rate limiter at most 30
  seconds; every wait moves the clock, so \<open>scroll_fuel\<close> (the page timeout by half a second) and \<open>rate_fuel\<close> (30 seconds by 50
  milliseconds) are enough: \<open>doCrawl_returns\<close>. The scheduler's wait for the queue reads a list of events, which ends it at the latest at
  the first tick after ten minutes. Schedule times must be below \<open>2 ^ 53\<close> seconds, where a score is exact.

  \<^bold>\<open>Not modelled.\<close> The metrics and log lines, which no result depends on; generated protobuf code; the stealth script that is injected
  into pages, screenshots and saved pages; Gin's router, request logging, CORS headers and static files; opening connections, the migration,
  signals, flags, listening and printing. Goroutines appear as the operations they run: the properties of the queue and the schedule quantify over
  their interleavings, those of the crawler are about one task at a time between two interferences. The surrogate ids of statistics and
  snapshots play no part.
\<close>

section \<open>Properties across components\<close>

text \<open>
  The closed loop between the analyzer and the scheduler: when a fault-free processing of a crawl result succeeds,
  the IP of the result is scheduled at a time no sooner than the minimum interval from now and no later than the maximum
  interval (plus one slot, on a slot boundary, when slots are configured), and the schedule of every other IP is
  untouched. This holds for the pipeline as the analyzer builds it, through the item states, the tables, the
  adjusted weight, the sorted set and the caches.
\<close>

theorem closed_loop_schedule:
  assumes "redis_server R view" and "redis_scheduler R s" and "zset_ok R w" and "quiet w"
    and "p = NewPipeline db M z oor R (Some R) C acfg (Some pc) (Some (ScheduleIP s))" and "ttls_ok (pl_stateMachine p)"
    and "iac_MinInterval (pc_IntervalAdjuster pc) \<le> iac_MaxInterval (pc_IntervalAdjuster pc)"
    and "\<forall>t. in_window pc (rn_next rn) t \<longrightarrow> exact_time t"
    and "processResult p rn (Some resp) st w = (True, st', w')" and "resp_ErrorMessage resp \<in> {'''', ''no_items''}"
  shows "\<exists>t. in_window pc (rn_next rn) t \<and> zset_times R w' = (zset_times R w)(resp_IpId resp \<mapsto> Unix t)"
proof -
  have n: "in_window pc (rn_next rn) (next_time oor pc (rn_next rn) wt)" for wt by (rule next_time_window [OF assms(7)])
  have "exact_time (next_time oor pc (rn_next rn) wt)" for wt using n assms(8) by blast
  from redis_server.processResult_schedules [OF assms(1-6) this assms(9,10)] n show ?thesis by blast
qed

definition sample_slots :: PipelineConfig where
  "sample_slots = DefaultPipelineConfig\<lparr>pc_ScheduleSlot := 15 * Minute\<rparr>"

definition slot_pipe :: "(mem, tables) Pipeline" where
  "slot_pipe = NewPipeline mem_db sample_mysql JST (\<lambda>_. 0) mem_redis (Some mem_redis) (tagged_codec [] pipe_results) None
     (Some sample_slots) (Some (ScheduleIP (sample_sched no_codec)))"

theorem closed_loop_schedule_witness:
  "\<exists>t. in_window sample_slots 100 t \<and>
     zset_times mem_redis (snd (snd (processResult slot_pipe sample_run (Some (fst (hd pipe_results))) no_stats (pipe_world [])))) 7 = Some (Unix t)"
proof -
  let ?r = "fst (hd pipe_results)" and ?w = "pipe_world []"
  let ?o = "processResult slot_pipe sample_run (Some ?r) no_stats ?w"
  have f: "zset_ok mem_redis ?w" "quiet ?w" "ttls_ok (pl_stateMachine slot_pipe)"
    "iac_MinInterval (pc_IntervalAdjuster sample_slots) \<le> iac_MaxInterval (pc_IntervalAdjuster sample_slots)"
    "resp_ErrorMessage ?r \<in> {'''', ''no_items''}" "resp_IpId ?r = 7" "rn_next sample_run = 100" by code_simp+
  have ok: "fst ?o" by code_simp
  have o: "?o = (True, fst (snd ?o), snd (snd ?o))" using ok by (metis (full_types) prod.collapse)
  have "\<bar>Unix t\<bar> \<le> 2 ^ 53" if "100 \<le> t" "t \<le> 100 + 5 * Hour" for t
    using that by (auto simp: Unix_def duration_defs)
  then have ex: "\<forall>t. in_window sample_slots (rn_next sample_run) t \<longrightarrow> exact_time t"
    unfolding f(7) by (auto simp: in_window_def exact_time_def sample_slots_def DefaultPipelineConfig_def duration_defs)
  from closed_loop_schedule [OF memory.redis_server_axioms sample_redis_scheduler f(1,2) slot_pipe_def f(3,4) ex o f(5)]
  show ?thesis unfolding f(6,7) by auto
qed



end
